(* ===== verification/Watz_Prelude.thy ===== *)
theory Watz_Prelude
  imports Main "HOL-Library.Word" "HOL-Library.Monad_Syntax"
begin

text \<open>
  Shared vocabulary of the development: bytes and byte buffers, bounds-checked reads and
  writes, little-endian 32-bit fields, big-endian big numbers, and the collections of
  simplification rules that the component theories extend.

  A computation of a trusted application is a function into \<^typ>\<open>'a option\<close>.  The value
  \<^term>\<open>None\<close> stands for a run that does not continue: a panic of the trusted application,
  a kernel abort, an access outside a buffer, or the use of a variable that was never
  assigned.
\<close>

unbundle bit_operations_syntax

named_theorems tee_defs \<open>defining equations of the operations, for symbolic execution\<close>
named_theorems svc_simps \<open>behaviour of the kernel service calls on well-formed states\<close>
named_theorems api_simps \<open>behaviour of the TEE internal API on well-formed states\<close>

type_synonym byte = "8 word"
type_synonym bytes = "8 word list"

section \<open>Buffers\<close>

text \<open>\<open>rd buf n\<close> reads the first \<open>n\<close> bytes of a buffer; \<open>rd_at\<close> reads at an offset; \<open>wr\<close> overwrites
  the bytes from an offset on.  Each fails when it would leave the buffer.\<close>

definition rd :: "bytes \<Rightarrow> nat \<Rightarrow> bytes option" where
  "rd buf n = (if n \<le> length buf then Some (take n buf) else None)"

definition rd_at :: "bytes \<Rightarrow> nat \<Rightarrow> nat \<Rightarrow> bytes option" where
  "rd_at buf off n = (if off + n \<le> length buf then Some (take n (drop off buf)) else None)"

definition wr :: "bytes \<Rightarrow> nat \<Rightarrow> bytes \<Rightarrow> bytes option" where
  "wr buf off bs =
     (if off + length bs \<le> length buf
      then Some (take off buf @ bs @ drop (off + length bs) buf) else None)"

lemma rd_full [simp]: "rd buf (length buf) = Some buf"
  by (simp add: rd_def)

lemma rd_Some_iff: "rd buf n = Some bs \<longleftrightarrow> n \<le> length buf \<and> bs = take n buf"
  by (auto simp: rd_def)

lemma rd_length: "rd buf n = Some bs \<Longrightarrow> length bs = n"
  by (auto simp: rd_def split: if_splits)

lemma rd_exact: "length buf = n \<Longrightarrow> rd buf n = Some buf"
  by (simp add: rd_def)

lemma rd_zero [simp]: "rd buf 0 = Some []"
  by (simp add: rd_def)

lemma wr_length: "wr buf off bs = Some buf' \<Longrightarrow> length buf' = length buf"
  by (auto simp: wr_def split: if_splits)

lemma wr_full: "length bs = length buf \<Longrightarrow> wr buf 0 bs = Some bs"
  by (simp add: wr_def)

lemma rd_at_wr: "wr buf off bs = Some buf' \<Longrightarrow> rd_at buf' off (length bs) = Some bs"
  by (auto simp: wr_def rd_at_def split: if_splits)

section \<open>Little-endian 32-bit fields\<close>

text \<open>The structures exchanged by attester and verifier hold \<^verbatim>\<open>uint32_t\<close> fields in the byte
  order of the processor, little endian on the supported boards.\<close>

definition le32 :: "nat \<Rightarrow> bytes" where
  "le32 n = [word_of_nat (n mod 256), word_of_nat (n div 256 mod 256),
             word_of_nat (n div 65536 mod 256), word_of_nat (n div 16777216 mod 256)]"

fun un_le32 :: "bytes \<Rightarrow> nat" where
  "un_le32 (a # b # c # d # _) = unat a + 256 * unat b + 65536 * unat c + 16777216 * unat d"
| "un_le32 _ = 0"

lemma length_le32 [simp]: "length (le32 n) = 4"
  by (simp add: le32_def)

lemma unat_byte [simp]: "unat (word_of_nat (n mod 256) :: byte) = n mod 256"
  by (simp add: unat_of_nat)

lemma unat_byte_less: "unat (b :: byte) < 256"
  using unsigned_less [of b] by simp

lemma un_le32_le32_mod: "un_le32 (le32 n @ bs) = n mod 2 ^ 32"
proof -
  have "n mod 2 ^ 32 = n mod 256 + 256 * (n div 256 mod 256) + 65536 * (n div 65536 mod 256)
          + 16777216 * (n div 16777216 mod 256)"
    by (simp add: mod_mult2_eq [of n 256 "16777216", simplified]
        mod_mult2_eq [of _ 256 "65536", simplified] mod_mult2_eq [of _ 256 "256", simplified]
        div_mult2_eq [symmetric])
  then show ?thesis
    by (simp add: le32_def)
qed

lemma un_le32_le32 [simp]: "n < 2 ^ 32 \<Longrightarrow> un_le32 (le32 n @ bs) = n"
  using un_le32_le32_mod [of n bs] by simp

lemma un_le32_less: "un_le32 bs < 2 ^ 32"
proof (induction bs rule: un_le32.induct)
  case (1 a b c d es)
  then show ?case
    using unat_byte_less [of a] unat_byte_less [of b] unat_byte_less [of c] unat_byte_less [of d]
    by simp
qed simp_all

lemma byte_of_nat_unat [simp]: "(word_of_nat (unat (b :: byte)) :: byte) = b"
  by simp

lemma base256_digit:
  assumes "a < 256"
  shows "(a + 256 * m) mod 256 = a" "(a + 256 * m) div 256 = (m :: nat)"
  using assms by simp_all

lemma le32_un_le32:
  assumes "length bs = 4"
  shows "le32 (un_le32 bs) = bs"
proof -
  obtain a b c d where bs: "bs = [a, b, c, d]"
    using assms by (auto simp: numeral_eq_Suc length_Suc_conv)
  define m2 where "m2 = unat c + 256 * unat d"
  define m1 where "m1 = unat b + 256 * m2"
  define n where "n = unat a + 256 * m1"
  have n: "un_le32 bs = n" by (simp add: bs n_def m1_def m2_def)
  have d1: "n div 256 = m1" "n mod 256 = unat a"
    by (simp_all add: n_def base256_digit unat_byte_less)
  have d2: "m1 div 256 = m2" "m1 mod 256 = unat b"
    by (simp_all add: m1_def base256_digit unat_byte_less)
  have d3: "m2 div 256 = unat d" "m2 mod 256 = unat c"
    by (simp_all add: m2_def base256_digit unat_byte_less)
  have "n div 65536 = m2" "n div 16777216 = unat d"
    using d1 d2 d3 div_mult2_eq [of n 256 256] div_mult2_eq [of n 256 "256 * 256"]
      div_mult2_eq [of m1 256 256] by simp_all
  then have "le32 n = [a, b, c, d]"
    using d1 d2 d3 unat_byte_less [of d] by (simp add: le32_def)
  then show ?thesis by (simp only: n bs [symmetric])
qed

section \<open>Big-endian big numbers\<close>

text \<open>\<open>bn_of_bytes\<close> and \<open>bytes_of_bn\<close> are \<^verbatim>\<open>crypto_bignum_bin2bn\<close> and \<^verbatim>\<open>crypto_bignum_bn2bin\<close>: the
  exported form has no leading zero byte, and its length is \<^verbatim>\<open>crypto_bignum_num_bytes\<close>.\<close>

definition bn_of_bytes :: "bytes \<Rightarrow> nat" where
  "bn_of_bytes bs = foldl (\<lambda>n b. n * 256 + unat b) 0 bs"

fun bytes_of_bn :: "nat \<Rightarrow> bytes" where
  "bytes_of_bn n = (if n = 0 then [] else bytes_of_bn (n div 256) @ [word_of_nat (n mod 256)])"

declare bytes_of_bn.simps [simp del]

lemma bytes_of_bn_0 [simp]: "bytes_of_bn 0 = []"
  by (simp add: bytes_of_bn.simps)

lemma bn_of_bytes_Nil [simp]: "bn_of_bytes [] = 0"
  by (simp add: bn_of_bytes_def)

lemma bn_of_bytes_snoc [simp]: "bn_of_bytes (bs @ [b]) = bn_of_bytes bs * 256 + unat b"
  by (simp add: bn_of_bytes_def)

lemma bn_of_bytes_of_bn [simp]: "bn_of_bytes (bytes_of_bn n) = n"
proof (induction n rule: bytes_of_bn.induct)
  case (1 n)
  show ?case
  proof (cases "n = 0")
    case False
    with 1 show ?thesis
      by (subst bytes_of_bn.simps) simp
  qed simp
qed

lemma length_bytes_of_bn_le_iff: "length (bytes_of_bn n) \<le> k \<longleftrightarrow> n < 256 ^ k"
proof (induction n arbitrary: k rule: bytes_of_bn.induct)
  case (1 n)
  show ?case
  proof (cases "n = 0")
    case False
    show ?thesis
    proof (cases k)
      case 0
      with False show ?thesis by (subst bytes_of_bn.simps) simp
    next
      case (Suc j)
      have "length (bytes_of_bn (n div 256)) \<le> j \<longleftrightarrow> n div 256 < 256 ^ j"
        using 1 False by simp
      with False Suc show ?thesis
        by (subst bytes_of_bn.simps) (auto simp: div_less_iff_less_mult mult.commute)
    qed
  qed simp
qed

lemma bytes_of_bn_eq_Nil [simp]: "bytes_of_bn n = [] \<longleftrightarrow> n = 0"
  by (subst bytes_of_bn.simps) simp

lemma hd_bytes_of_bn: "n \<noteq> 0 \<Longrightarrow> hd (bytes_of_bn n) \<noteq> 0"
proof (induction n rule: bytes_of_bn.induct)
  case (1 n)
  show ?case
  proof (cases "n div 256 = 0")
    case True
    then have "n < 256" by (simp add: div_eq_0_iff)
    moreover have "bytes_of_bn n = [word_of_nat n]"
      using 1(2) True \<open>n < 256\<close> by (subst bytes_of_bn.simps) simp
    moreover have "(word_of_nat n :: byte) \<noteq> 0"
    proof
      assume "(word_of_nat n :: byte) = 0"
      then have "unat (word_of_nat n :: byte) = 0" by simp
      with \<open>n < 256\<close> 1(2) show False by (simp add: unat_of_nat)
    qed
    ultimately show ?thesis by simp
  next
    case False
    with 1 have "hd (bytes_of_bn (n div 256)) \<noteq> 0" by simp
    with 1(2) False show ?thesis
      by (subst bytes_of_bn.simps) (simp add: hd_append)
  qed
qed

lemma bn_of_bytes_bound: "bn_of_bytes bs < 256 ^ length bs"
proof (induction bs rule: rev_induct)
  case (snoc b bs)
  with snoc unat_byte_less [of b] have "bn_of_bytes bs * 256 + unat b < 256 ^ length bs * 256"
    by simp
  then show ?case by simp
qed simp

text \<open>Importing a big number and exporting it again drops exactly the leading zero bytes.\<close>

lemma bytes_of_bn_of_bytes: "bytes_of_bn (bn_of_bytes bs) = dropWhile (\<lambda>b. b = 0) bs"
proof (induction bs rule: rev_induct)
  case (snoc b bs)
  have b: "unat b < 256" by (rule unat_byte_less)
  show ?case
  proof (cases "bn_of_bytes bs * 256 + unat b = 0")
    case True
    then have "bn_of_bytes bs = 0" "b = 0" by (auto simp: unat_eq_zero)
    with snoc have "dropWhile (\<lambda>b. b = 0) bs = []" by simp
    with \<open>b = 0\<close> \<open>bn_of_bytes bs = 0\<close> show ?thesis
      by (simp add: dropWhile_append)
  next
    case False
    have eq: "bytes_of_bn (bn_of_bytes (bs @ [b]))
        = bytes_of_bn (bn_of_bytes bs) @ [b]"
      using False b by (subst bytes_of_bn.simps) simp
    show ?thesis
    proof (cases "bn_of_bytes bs = 0")
      case True
      with snoc have nil: "dropWhile (\<lambda>b. b = 0) bs = []" by simp
      moreover have "b \<noteq> 0" using False True by auto
      ultimately show ?thesis
        using eq snoc by (auto simp: dropWhile_append)
    next
      case False
      with snoc have "dropWhile (\<lambda>b. b = 0) bs \<noteq> []" by (metis bytes_of_bn_eq_Nil)
      then show ?thesis
        using eq snoc by (auto simp: dropWhile_append)
    qed
  qed
qed simp

lemma bytes_of_bn_of_bytes_id:
  "bs \<noteq> [] \<Longrightarrow> hd bs \<noteq> 0 \<Longrightarrow> bytes_of_bn (bn_of_bytes bs) = bs"
  by (cases bs) (simp_all add: bytes_of_bn_of_bytes)

end
