(* ===== verification/Tee_Defs.thy ===== *)
theory Tee_Defs
  imports Watz_Prelude
begin

text \<open>
  The constants of the TEE internal API (\<^verbatim>\<open>lib/libutee/include/tee_api_defines.h\<close>,
  \<^verbatim>\<open>tee_api_types.h\<close> and \<^verbatim>\<open>utee_defines.h\<close>): result codes, operation modes and handle flags as
  datatypes, algorithm, type and attribute identifiers as the numbers of the headers, and the
  functions that decode the fields of an algorithm identifier.
\<close>

section \<open>Result codes\<close>

datatype TEE_Result =
    TEE_SUCCESS
  | TEE_ERROR_CORRUPT_OBJECT
  | TEE_ERROR_CORRUPT_OBJECT_2
  | TEE_ERROR_STORAGE_NOT_AVAILABLE
  | TEE_ERROR_STORAGE_NOT_AVAILABLE_2
  | TEE_ERROR_GENERIC
  | TEE_ERROR_ACCESS_DENIED
  | TEE_ERROR_CANCEL
  | TEE_ERROR_ACCESS_CONFLICT
  | TEE_ERROR_EXCESS_DATA
  | TEE_ERROR_BAD_FORMAT
  | TEE_ERROR_BAD_PARAMETERS
  | TEE_ERROR_BAD_STATE
  | TEE_ERROR_ITEM_NOT_FOUND
  | TEE_ERROR_NOT_IMPLEMENTED
  | TEE_ERROR_NOT_SUPPORTED
  | TEE_ERROR_NO_DATA
  | TEE_ERROR_OUT_OF_MEMORY
  | TEE_ERROR_BUSY
  | TEE_ERROR_COMMUNICATION
  | TEE_ERROR_SECURITY
  | TEE_ERROR_SHORT_BUFFER
  | TEE_ERROR_OVERFLOW
  | TEE_ERROR_TARGET_DEAD
  | TEE_ERROR_MAC_INVALID
  | TEE_ERROR_SIGNATURE_INVALID
  | TEE_ISOCKET_ERROR_PROTOCOL
  | TEE_ISOCKET_ERROR_REMOTE_CLOSED
  | TEE_ISOCKET_ERROR_TIMEOUT
  | TEE_ISOCKET_ERROR_OUT_OF_RESOURCES
  | TEE_ISOCKET_ERROR_LARGE_BUFFER
  | TEE_ISOCKET_ERROR_HOSTNAME
  | TEE_ISOCKET_WARNING_PROTOCOL
  | TEE_ISOCKET_TCP_WARNING_UNKNOWN_OUT_OF_BAND
  | TEE_ISOCKET_UDP_WARNING_UNKNOWN_OUT_OF_BAND

datatype TEE_OperationMode =
    TEE_MODE_ENCRYPT
  | TEE_MODE_DECRYPT
  | TEE_MODE_SIGN
  | TEE_MODE_VERIFY
  | TEE_MODE_MAC
  | TEE_MODE_DIGEST
  | TEE_MODE_DERIVE

text \<open>The bits of \<^verbatim>\<open>handleFlags\<close> and \<^verbatim>\<open>handleState\<close>; a flag word is the set of its bits.\<close>

datatype handle_flag =
    HF_PERSISTENT
  | HF_INITIALIZED
  | HF_KEY_SET
  | HF_EXPECT_TWO_KEYS

section \<open>Identifiers\<close>

text \<open>Algorithm identifiers (\<^verbatim>\<open>tee_api_defines.h\<close>, \<^verbatim>\<open>tee_api_defines_extensions.h\<close>).\<close>

abbreviation (input) TEE_ALG_AES_ECB_NOPAD :: nat where "TEE_ALG_AES_ECB_NOPAD \<equiv> 0x10000010"
abbreviation (input) TEE_ALG_AES_CBC_NOPAD :: nat where "TEE_ALG_AES_CBC_NOPAD \<equiv> 0x10000110"
abbreviation (input) TEE_ALG_AES_CTR :: nat where "TEE_ALG_AES_CTR \<equiv> 0x10000210"
abbreviation (input) TEE_ALG_AES_CTS :: nat where "TEE_ALG_AES_CTS \<equiv> 0x10000310"
abbreviation (input) TEE_ALG_AES_XTS :: nat where "TEE_ALG_AES_XTS \<equiv> 0x10000410"
abbreviation (input) TEE_ALG_AES_CBC_MAC_NOPAD :: nat where "TEE_ALG_AES_CBC_MAC_NOPAD \<equiv> 0x30000110"
abbreviation (input) TEE_ALG_AES_CBC_MAC_PKCS5 :: nat where "TEE_ALG_AES_CBC_MAC_PKCS5 \<equiv> 0x30000510"
abbreviation (input) TEE_ALG_AES_CMAC :: nat where "TEE_ALG_AES_CMAC \<equiv> 0x30000610"
abbreviation (input) TEE_ALG_AES_CCM :: nat where "TEE_ALG_AES_CCM \<equiv> 0x40000710"
abbreviation (input) TEE_ALG_AES_GCM :: nat where "TEE_ALG_AES_GCM \<equiv> 0x40000810"
abbreviation (input) TEE_ALG_DES_ECB_NOPAD :: nat where "TEE_ALG_DES_ECB_NOPAD \<equiv> 0x10000011"
abbreviation (input) TEE_ALG_DES_CBC_NOPAD :: nat where "TEE_ALG_DES_CBC_NOPAD \<equiv> 0x10000111"
abbreviation (input) TEE_ALG_DES_CBC_MAC_NOPAD :: nat where "TEE_ALG_DES_CBC_MAC_NOPAD \<equiv> 0x30000111"
abbreviation (input) TEE_ALG_DES_CBC_MAC_PKCS5 :: nat where "TEE_ALG_DES_CBC_MAC_PKCS5 \<equiv> 0x30000511"
abbreviation (input) TEE_ALG_DES3_ECB_NOPAD :: nat where "TEE_ALG_DES3_ECB_NOPAD \<equiv> 0x10000013"
abbreviation (input) TEE_ALG_DES3_CBC_NOPAD :: nat where "TEE_ALG_DES3_CBC_NOPAD \<equiv> 0x10000113"
abbreviation (input) TEE_ALG_DES3_CBC_MAC_NOPAD :: nat where "TEE_ALG_DES3_CBC_MAC_NOPAD \<equiv> 0x30000113"
abbreviation (input) TEE_ALG_DES3_CBC_MAC_PKCS5 :: nat where "TEE_ALG_DES3_CBC_MAC_PKCS5 \<equiv> 0x30000513"
abbreviation (input) TEE_ALG_SM4_ECB_NOPAD :: nat where "TEE_ALG_SM4_ECB_NOPAD \<equiv> 0x10000014"
abbreviation (input) TEE_ALG_SM4_CBC_NOPAD :: nat where "TEE_ALG_SM4_CBC_NOPAD \<equiv> 0x10000114"
abbreviation (input) TEE_ALG_SM4_CTR :: nat where "TEE_ALG_SM4_CTR \<equiv> 0x10000214"
abbreviation (input) TEE_ALG_RSASSA_PKCS1_V1_5_MD5 :: nat where "TEE_ALG_RSASSA_PKCS1_V1_5_MD5 \<equiv> 0x70001830"
abbreviation (input) TEE_ALG_RSASSA_PKCS1_V1_5_SHA1 :: nat where "TEE_ALG_RSASSA_PKCS1_V1_5_SHA1 \<equiv> 0x70002830"
abbreviation (input) TEE_ALG_RSASSA_PKCS1_V1_5_SHA224 :: nat where "TEE_ALG_RSASSA_PKCS1_V1_5_SHA224 \<equiv> 0x70003830"
abbreviation (input) TEE_ALG_RSASSA_PKCS1_V1_5_SHA256 :: nat where "TEE_ALG_RSASSA_PKCS1_V1_5_SHA256 \<equiv> 0x70004830"
abbreviation (input) TEE_ALG_RSASSA_PKCS1_V1_5_SHA384 :: nat where "TEE_ALG_RSASSA_PKCS1_V1_5_SHA384 \<equiv> 0x70005830"
abbreviation (input) TEE_ALG_RSASSA_PKCS1_V1_5_SHA512 :: nat where "TEE_ALG_RSASSA_PKCS1_V1_5_SHA512 \<equiv> 0x70006830"
abbreviation (input) TEE_ALG_RSASSA_PKCS1_V1_5_MD5SHA1 :: nat where "TEE_ALG_RSASSA_PKCS1_V1_5_MD5SHA1 \<equiv> 0x7000F830"
abbreviation (input) TEE_ALG_RSASSA_PKCS1_PSS_MGF1_SHA1 :: nat where "TEE_ALG_RSASSA_PKCS1_PSS_MGF1_SHA1 \<equiv> 0x70212930"
abbreviation (input) TEE_ALG_RSASSA_PKCS1_PSS_MGF1_SHA224 :: nat where "TEE_ALG_RSASSA_PKCS1_PSS_MGF1_SHA224 \<equiv> 0x70313930"
abbreviation (input) TEE_ALG_RSASSA_PKCS1_PSS_MGF1_SHA256 :: nat where "TEE_ALG_RSASSA_PKCS1_PSS_MGF1_SHA256 \<equiv> 0x70414930"
abbreviation (input) TEE_ALG_RSASSA_PKCS1_PSS_MGF1_SHA384 :: nat where "TEE_ALG_RSASSA_PKCS1_PSS_MGF1_SHA384 \<equiv> 0x70515930"
abbreviation (input) TEE_ALG_RSASSA_PKCS1_PSS_MGF1_SHA512 :: nat where "TEE_ALG_RSASSA_PKCS1_PSS_MGF1_SHA512 \<equiv> 0x70616930"
abbreviation (input) TEE_ALG_RSAES_PKCS1_V1_5 :: nat where "TEE_ALG_RSAES_PKCS1_V1_5 \<equiv> 0x60000130"
abbreviation (input) TEE_ALG_RSAES_PKCS1_OAEP_MGF1_SHA1 :: nat where "TEE_ALG_RSAES_PKCS1_OAEP_MGF1_SHA1 \<equiv> 0x60210230"
abbreviation (input) TEE_ALG_RSAES_PKCS1_OAEP_MGF1_SHA224 :: nat where "TEE_ALG_RSAES_PKCS1_OAEP_MGF1_SHA224 \<equiv> 0x60310230"
abbreviation (input) TEE_ALG_RSAES_PKCS1_OAEP_MGF1_SHA256 :: nat where "TEE_ALG_RSAES_PKCS1_OAEP_MGF1_SHA256 \<equiv> 0x60410230"
abbreviation (input) TEE_ALG_RSAES_PKCS1_OAEP_MGF1_SHA384 :: nat where "TEE_ALG_RSAES_PKCS1_OAEP_MGF1_SHA384 \<equiv> 0x60510230"
abbreviation (input) TEE_ALG_RSAES_PKCS1_OAEP_MGF1_SHA512 :: nat where "TEE_ALG_RSAES_PKCS1_OAEP_MGF1_SHA512 \<equiv> 0x60610230"
abbreviation (input) TEE_ALG_RSA_NOPAD :: nat where "TEE_ALG_RSA_NOPAD \<equiv> 0x60000030"
abbreviation (input) TEE_ALG_DSA_SHA1 :: nat where "TEE_ALG_DSA_SHA1 \<equiv> 0x70002131"
abbreviation (input) TEE_ALG_DSA_SHA224 :: nat where "TEE_ALG_DSA_SHA224 \<equiv> 0x70003131"
abbreviation (input) TEE_ALG_DSA_SHA256 :: nat where "TEE_ALG_DSA_SHA256 \<equiv> 0x70004131"
abbreviation (input) TEE_ALG_SM2_DSA_SM3 :: nat where "TEE_ALG_SM2_DSA_SM3 \<equiv> 0x70006045"
abbreviation (input) TEE_ALG_DH_DERIVE_SHARED_SECRET :: nat where "TEE_ALG_DH_DERIVE_SHARED_SECRET \<equiv> 0x80000032"
abbreviation (input) TEE_ALG_SM2_KEP :: nat where "TEE_ALG_SM2_KEP \<equiv> 0x60000045"
abbreviation (input) TEE_ALG_MD5 :: nat where "TEE_ALG_MD5 \<equiv> 0x50000001"
abbreviation (input) TEE_ALG_SHA1 :: nat where "TEE_ALG_SHA1 \<equiv> 0x50000002"
abbreviation (input) TEE_ALG_SHA224 :: nat where "TEE_ALG_SHA224 \<equiv> 0x50000003"
abbreviation (input) TEE_ALG_SHA256 :: nat where "TEE_ALG_SHA256 \<equiv> 0x50000004"
abbreviation (input) TEE_ALG_SHA384 :: nat where "TEE_ALG_SHA384 \<equiv> 0x50000005"
abbreviation (input) TEE_ALG_SHA512 :: nat where "TEE_ALG_SHA512 \<equiv> 0x50000006"
abbreviation (input) TEE_ALG_MD5SHA1 :: nat where "TEE_ALG_MD5SHA1 \<equiv> 0x5000000F"
abbreviation (input) TEE_ALG_HMAC_MD5 :: nat where "TEE_ALG_HMAC_MD5 \<equiv> 0x30000001"
abbreviation (input) TEE_ALG_HMAC_SHA1 :: nat where "TEE_ALG_HMAC_SHA1 \<equiv> 0x30000002"
abbreviation (input) TEE_ALG_HMAC_SHA224 :: nat where "TEE_ALG_HMAC_SHA224 \<equiv> 0x30000003"
abbreviation (input) TEE_ALG_HMAC_SHA256 :: nat where "TEE_ALG_HMAC_SHA256 \<equiv> 0x30000004"
abbreviation (input) TEE_ALG_HMAC_SHA384 :: nat where "TEE_ALG_HMAC_SHA384 \<equiv> 0x30000005"
abbreviation (input) TEE_ALG_HMAC_SHA512 :: nat where "TEE_ALG_HMAC_SHA512 \<equiv> 0x30000006"
abbreviation (input) TEE_ALG_HMAC_SM3 :: nat where "TEE_ALG_HMAC_SM3 \<equiv> 0x30000007"
abbreviation (input) TEE_ALG_ECDSA_P192 :: nat where "TEE_ALG_ECDSA_P192 \<equiv> 0x70001041"
abbreviation (input) TEE_ALG_ECDSA_P224 :: nat where "TEE_ALG_ECDSA_P224 \<equiv> 0x70002041"
abbreviation (input) TEE_ALG_ECDSA_P256 :: nat where "TEE_ALG_ECDSA_P256 \<equiv> 0x70003041"
abbreviation (input) TEE_ALG_ECDSA_P384 :: nat where "TEE_ALG_ECDSA_P384 \<equiv> 0x70004041"
abbreviation (input) TEE_ALG_ECDSA_P521 :: nat where "TEE_ALG_ECDSA_P521 \<equiv> 0x70005041"
abbreviation (input) TEE_ALG_ECDH_P192 :: nat where "TEE_ALG_ECDH_P192 \<equiv> 0x80001042"
abbreviation (input) TEE_ALG_ECDH_P224 :: nat where "TEE_ALG_ECDH_P224 \<equiv> 0x80002042"
abbreviation (input) TEE_ALG_ECDH_P256 :: nat where "TEE_ALG_ECDH_P256 \<equiv> 0x80003042"
abbreviation (input) TEE_ALG_ECDH_P384 :: nat where "TEE_ALG_ECDH_P384 \<equiv> 0x80004042"
abbreviation (input) TEE_ALG_ECDH_P521 :: nat where "TEE_ALG_ECDH_P521 \<equiv> 0x80005042"
abbreviation (input) TEE_ALG_SM2_PKE :: nat where "TEE_ALG_SM2_PKE \<equiv> 0x80000045"
abbreviation (input) TEE_ALG_SM3 :: nat where "TEE_ALG_SM3 \<equiv> 0x50000007"
abbreviation (input) TEE_ALG_HKDF_MD5_DERIVE_KEY :: nat where "TEE_ALG_HKDF_MD5_DERIVE_KEY \<equiv> 0x800010C0"
abbreviation (input) TEE_ALG_HKDF_SHA1_DERIVE_KEY :: nat where "TEE_ALG_HKDF_SHA1_DERIVE_KEY \<equiv> 0x800020C0"
abbreviation (input) TEE_ALG_HKDF_SHA224_DERIVE_KEY :: nat where "TEE_ALG_HKDF_SHA224_DERIVE_KEY \<equiv> 0x800030C0"
abbreviation (input) TEE_ALG_HKDF_SHA256_DERIVE_KEY :: nat where "TEE_ALG_HKDF_SHA256_DERIVE_KEY \<equiv> 0x800040C0"
abbreviation (input) TEE_ALG_HKDF_SHA384_DERIVE_KEY :: nat where "TEE_ALG_HKDF_SHA384_DERIVE_KEY \<equiv> 0x800050C0"
abbreviation (input) TEE_ALG_HKDF_SHA512_DERIVE_KEY :: nat where "TEE_ALG_HKDF_SHA512_DERIVE_KEY \<equiv> 0x800060C0"
abbreviation (input) TEE_ALG_CONCAT_KDF_SHA1_DERIVE_KEY :: nat where "TEE_ALG_CONCAT_KDF_SHA1_DERIVE_KEY \<equiv> 0x800020C1"
abbreviation (input) TEE_ALG_CONCAT_KDF_SHA224_DERIVE_KEY :: nat where "TEE_ALG_CONCAT_KDF_SHA224_DERIVE_KEY \<equiv> 0x800030C1"
abbreviation (input) TEE_ALG_CONCAT_KDF_SHA256_DERIVE_KEY :: nat where "TEE_ALG_CONCAT_KDF_SHA256_DERIVE_KEY \<equiv> 0x800040C1"
abbreviation (input) TEE_ALG_CONCAT_KDF_SHA384_DERIVE_KEY :: nat where "TEE_ALG_CONCAT_KDF_SHA384_DERIVE_KEY \<equiv> 0x800050C1"
abbreviation (input) TEE_ALG_CONCAT_KDF_SHA512_DERIVE_KEY :: nat where "TEE_ALG_CONCAT_KDF_SHA512_DERIVE_KEY \<equiv> 0x800060C1"
abbreviation (input) TEE_ALG_PBKDF2_HMAC_SHA1_DERIVE_KEY :: nat where "TEE_ALG_PBKDF2_HMAC_SHA1_DERIVE_KEY \<equiv> 0x800020C2"
abbreviation (input) TEE_ALG_RSASSA_PKCS1_V1_5 :: nat where "TEE_ALG_RSASSA_PKCS1_V1_5 \<equiv> 0xF0000830"
abbreviation (input) TEE_ALG_DES3_CMAC :: nat where "TEE_ALG_DES3_CMAC \<equiv> 0xF0000613"

text \<open>Main algorithms (\<^verbatim>\<open>utee_defines.h\<close>).\<close>

abbreviation (input) TEE_MAIN_ALGO_MD5 :: nat where "TEE_MAIN_ALGO_MD5 \<equiv> 0x01"
abbreviation (input) TEE_MAIN_ALGO_SHA1 :: nat where "TEE_MAIN_ALGO_SHA1 \<equiv> 0x02"
abbreviation (input) TEE_MAIN_ALGO_SHA224 :: nat where "TEE_MAIN_ALGO_SHA224 \<equiv> 0x03"
abbreviation (input) TEE_MAIN_ALGO_SHA256 :: nat where "TEE_MAIN_ALGO_SHA256 \<equiv> 0x04"
abbreviation (input) TEE_MAIN_ALGO_SHA384 :: nat where "TEE_MAIN_ALGO_SHA384 \<equiv> 0x05"
abbreviation (input) TEE_MAIN_ALGO_SHA512 :: nat where "TEE_MAIN_ALGO_SHA512 \<equiv> 0x06"
abbreviation (input) TEE_MAIN_ALGO_SM3 :: nat where "TEE_MAIN_ALGO_SM3 \<equiv> 0x07"
abbreviation (input) TEE_MAIN_ALGO_AES :: nat where "TEE_MAIN_ALGO_AES \<equiv> 0x10"
abbreviation (input) TEE_MAIN_ALGO_DES :: nat where "TEE_MAIN_ALGO_DES \<equiv> 0x11"
abbreviation (input) TEE_MAIN_ALGO_DES2 :: nat where "TEE_MAIN_ALGO_DES2 \<equiv> 0x12"
abbreviation (input) TEE_MAIN_ALGO_DES3 :: nat where "TEE_MAIN_ALGO_DES3 \<equiv> 0x13"
abbreviation (input) TEE_MAIN_ALGO_SM4 :: nat where "TEE_MAIN_ALGO_SM4 \<equiv> 0x14"
abbreviation (input) TEE_MAIN_ALGO_RSA :: nat where "TEE_MAIN_ALGO_RSA \<equiv> 0x30"
abbreviation (input) TEE_MAIN_ALGO_DSA :: nat where "TEE_MAIN_ALGO_DSA \<equiv> 0x31"
abbreviation (input) TEE_MAIN_ALGO_DH :: nat where "TEE_MAIN_ALGO_DH \<equiv> 0x32"
abbreviation (input) TEE_MAIN_ALGO_ECDSA :: nat where "TEE_MAIN_ALGO_ECDSA \<equiv> 0x41"
abbreviation (input) TEE_MAIN_ALGO_ECDH :: nat where "TEE_MAIN_ALGO_ECDH \<equiv> 0x42"
abbreviation (input) TEE_MAIN_ALGO_SM2_DSA_SM3 :: nat where "TEE_MAIN_ALGO_SM2_DSA_SM3 \<equiv> 0x45"
abbreviation (input) TEE_MAIN_ALGO_SM2_KEP :: nat where "TEE_MAIN_ALGO_SM2_KEP \<equiv> 0x46"
abbreviation (input) TEE_MAIN_ALGO_SM2_PKE :: nat where "TEE_MAIN_ALGO_SM2_PKE \<equiv> 0x47"
abbreviation (input) TEE_MAIN_ALGO_HKDF :: nat where "TEE_MAIN_ALGO_HKDF \<equiv> 0xC0"
abbreviation (input) TEE_MAIN_ALGO_CONCAT_KDF :: nat where "TEE_MAIN_ALGO_CONCAT_KDF \<equiv> 0xC1"
abbreviation (input) TEE_MAIN_ALGO_PBKDF2 :: nat where "TEE_MAIN_ALGO_PBKDF2 \<equiv> 0xC2"

text \<open>Object types.\<close>

abbreviation (input) TEE_TYPE_AES :: nat where "TEE_TYPE_AES \<equiv> 0xA0000010"
abbreviation (input) TEE_TYPE_DES :: nat where "TEE_TYPE_DES \<equiv> 0xA0000011"
abbreviation (input) TEE_TYPE_DES3 :: nat where "TEE_TYPE_DES3 \<equiv> 0xA0000013"
abbreviation (input) TEE_TYPE_SM4 :: nat where "TEE_TYPE_SM4 \<equiv> 0xA0000014"
abbreviation (input) TEE_TYPE_HMAC_MD5 :: nat where "TEE_TYPE_HMAC_MD5 \<equiv> 0xA0000001"
abbreviation (input) TEE_TYPE_HMAC_SHA1 :: nat where "TEE_TYPE_HMAC_SHA1 \<equiv> 0xA0000002"
abbreviation (input) TEE_TYPE_HMAC_SHA224 :: nat where "TEE_TYPE_HMAC_SHA224 \<equiv> 0xA0000003"
abbreviation (input) TEE_TYPE_HMAC_SHA256 :: nat where "TEE_TYPE_HMAC_SHA256 \<equiv> 0xA0000004"
abbreviation (input) TEE_TYPE_HMAC_SHA384 :: nat where "TEE_TYPE_HMAC_SHA384 \<equiv> 0xA0000005"
abbreviation (input) TEE_TYPE_HMAC_SHA512 :: nat where "TEE_TYPE_HMAC_SHA512 \<equiv> 0xA0000006"
abbreviation (input) TEE_TYPE_HMAC_SM3 :: nat where "TEE_TYPE_HMAC_SM3 \<equiv> 0xA0000007"
abbreviation (input) TEE_TYPE_RSA_PUBLIC_KEY :: nat where "TEE_TYPE_RSA_PUBLIC_KEY \<equiv> 0xA0000030"
abbreviation (input) TEE_TYPE_RSA_KEYPAIR :: nat where "TEE_TYPE_RSA_KEYPAIR \<equiv> 0xA1000030"
abbreviation (input) TEE_TYPE_DSA_PUBLIC_KEY :: nat where "TEE_TYPE_DSA_PUBLIC_KEY \<equiv> 0xA0000031"
abbreviation (input) TEE_TYPE_DSA_KEYPAIR :: nat where "TEE_TYPE_DSA_KEYPAIR \<equiv> 0xA1000031"
abbreviation (input) TEE_TYPE_DH_KEYPAIR :: nat where "TEE_TYPE_DH_KEYPAIR \<equiv> 0xA1000032"
abbreviation (input) TEE_TYPE_ECDSA_PUBLIC_KEY :: nat where "TEE_TYPE_ECDSA_PUBLIC_KEY \<equiv> 0xA0000041"
abbreviation (input) TEE_TYPE_ECDSA_KEYPAIR :: nat where "TEE_TYPE_ECDSA_KEYPAIR \<equiv> 0xA1000041"
abbreviation (input) TEE_TYPE_ECDH_PUBLIC_KEY :: nat where "TEE_TYPE_ECDH_PUBLIC_KEY \<equiv> 0xA0000042"
abbreviation (input) TEE_TYPE_ECDH_KEYPAIR :: nat where "TEE_TYPE_ECDH_KEYPAIR \<equiv> 0xA1000042"
abbreviation (input) TEE_TYPE_SM2_DSA_PUBLIC_KEY :: nat where "TEE_TYPE_SM2_DSA_PUBLIC_KEY \<equiv> 0xA0000045"
abbreviation (input) TEE_TYPE_SM2_DSA_KEYPAIR :: nat where "TEE_TYPE_SM2_DSA_KEYPAIR \<equiv> 0xA1000045"
abbreviation (input) TEE_TYPE_SM2_KEP_PUBLIC_KEY :: nat where "TEE_TYPE_SM2_KEP_PUBLIC_KEY \<equiv> 0xA0000046"
abbreviation (input) TEE_TYPE_SM2_KEP_KEYPAIR :: nat where "TEE_TYPE_SM2_KEP_KEYPAIR \<equiv> 0xA1000046"
abbreviation (input) TEE_TYPE_SM2_PKE_PUBLIC_KEY :: nat where "TEE_TYPE_SM2_PKE_PUBLIC_KEY \<equiv> 0xA0000047"
abbreviation (input) TEE_TYPE_SM2_PKE_KEYPAIR :: nat where "TEE_TYPE_SM2_PKE_KEYPAIR \<equiv> 0xA1000047"
abbreviation (input) TEE_TYPE_GENERIC_SECRET :: nat where "TEE_TYPE_GENERIC_SECRET \<equiv> 0xA0000000"
abbreviation (input) TEE_TYPE_CORRUPTED_OBJECT :: nat where "TEE_TYPE_CORRUPTED_OBJECT \<equiv> 0xA00000BE"
abbreviation (input) TEE_TYPE_DATA :: nat where "TEE_TYPE_DATA \<equiv> 0xA00000BF"
abbreviation (input) TEE_TYPE_HKDF_IKM :: nat where "TEE_TYPE_HKDF_IKM \<equiv> 0xA10000C0"
abbreviation (input) TEE_TYPE_CONCAT_KDF_Z :: nat where "TEE_TYPE_CONCAT_KDF_Z \<equiv> 0xA10000C1"
abbreviation (input) TEE_TYPE_PBKDF2_PASSWORD :: nat where "TEE_TYPE_PBKDF2_PASSWORD \<equiv> 0xA10000C2"

text \<open>Attribute identifiers.\<close>

abbreviation (input) TEE_ATTR_SECRET_VALUE :: nat where "TEE_ATTR_SECRET_VALUE \<equiv> 0xC0000000"
abbreviation (input) TEE_ATTR_RSA_MODULUS :: nat where "TEE_ATTR_RSA_MODULUS \<equiv> 0xD0000130"
abbreviation (input) TEE_ATTR_RSA_PUBLIC_EXPONENT :: nat where "TEE_ATTR_RSA_PUBLIC_EXPONENT \<equiv> 0xD0000230"
abbreviation (input) TEE_ATTR_RSA_PRIVATE_EXPONENT :: nat where "TEE_ATTR_RSA_PRIVATE_EXPONENT \<equiv> 0xC0000330"
abbreviation (input) TEE_ATTR_RSA_PRIME1 :: nat where "TEE_ATTR_RSA_PRIME1 \<equiv> 0xC0000430"
abbreviation (input) TEE_ATTR_RSA_PRIME2 :: nat where "TEE_ATTR_RSA_PRIME2 \<equiv> 0xC0000530"
abbreviation (input) TEE_ATTR_RSA_EXPONENT1 :: nat where "TEE_ATTR_RSA_EXPONENT1 \<equiv> 0xC0000630"
abbreviation (input) TEE_ATTR_RSA_EXPONENT2 :: nat where "TEE_ATTR_RSA_EXPONENT2 \<equiv> 0xC0000730"
abbreviation (input) TEE_ATTR_RSA_COEFFICIENT :: nat where "TEE_ATTR_RSA_COEFFICIENT \<equiv> 0xC0000830"
abbreviation (input) TEE_ATTR_DSA_PRIME :: nat where "TEE_ATTR_DSA_PRIME \<equiv> 0xD0001031"
abbreviation (input) TEE_ATTR_DSA_SUBPRIME :: nat where "TEE_ATTR_DSA_SUBPRIME \<equiv> 0xD0001131"
abbreviation (input) TEE_ATTR_DSA_BASE :: nat where "TEE_ATTR_DSA_BASE \<equiv> 0xD0001231"
abbreviation (input) TEE_ATTR_DSA_PUBLIC_VALUE :: nat where "TEE_ATTR_DSA_PUBLIC_VALUE \<equiv> 0xD0000131"
abbreviation (input) TEE_ATTR_DSA_PRIVATE_VALUE :: nat where "TEE_ATTR_DSA_PRIVATE_VALUE \<equiv> 0xC0000231"
abbreviation (input) TEE_ATTR_DH_PRIME :: nat where "TEE_ATTR_DH_PRIME \<equiv> 0xD0001032"
abbreviation (input) TEE_ATTR_DH_SUBPRIME :: nat where "TEE_ATTR_DH_SUBPRIME \<equiv> 0xD0001132"
abbreviation (input) TEE_ATTR_DH_BASE :: nat where "TEE_ATTR_DH_BASE \<equiv> 0xD0001232"
abbreviation (input) TEE_ATTR_DH_X_BITS :: nat where "TEE_ATTR_DH_X_BITS \<equiv> 0xF0001332"
abbreviation (input) TEE_ATTR_DH_PUBLIC_VALUE :: nat where "TEE_ATTR_DH_PUBLIC_VALUE \<equiv> 0xD0000132"
abbreviation (input) TEE_ATTR_DH_PRIVATE_VALUE :: nat where "TEE_ATTR_DH_PRIVATE_VALUE \<equiv> 0xC0000232"
abbreviation (input) TEE_ATTR_RSA_OAEP_LABEL :: nat where "TEE_ATTR_RSA_OAEP_LABEL \<equiv> 0xD0000930"
abbreviation (input) TEE_ATTR_RSA_PSS_SALT_LENGTH :: nat where "TEE_ATTR_RSA_PSS_SALT_LENGTH \<equiv> 0xF0000A30"
abbreviation (input) TEE_ATTR_ECC_PUBLIC_VALUE_X :: nat where "TEE_ATTR_ECC_PUBLIC_VALUE_X \<equiv> 0xD0000141"
abbreviation (input) TEE_ATTR_ECC_PUBLIC_VALUE_Y :: nat where "TEE_ATTR_ECC_PUBLIC_VALUE_Y \<equiv> 0xD0000241"
abbreviation (input) TEE_ATTR_ECC_PRIVATE_VALUE :: nat where "TEE_ATTR_ECC_PRIVATE_VALUE \<equiv> 0xC0000341"
abbreviation (input) TEE_ATTR_ECC_CURVE :: nat where "TEE_ATTR_ECC_CURVE \<equiv> 0xF0000441"
abbreviation (input) TEE_ATTR_SM2_ID_INITIATOR :: nat where "TEE_ATTR_SM2_ID_INITIATOR \<equiv> 0xD0000446"
abbreviation (input) TEE_ATTR_SM2_ID_RESPONDER :: nat where "TEE_ATTR_SM2_ID_RESPONDER \<equiv> 0xD0000546"
abbreviation (input) TEE_ATTR_SM2_KEP_USER :: nat where "TEE_ATTR_SM2_KEP_USER \<equiv> 0xF0000646"
abbreviation (input) TEE_ATTR_SM2_KEP_CONFIRMATION_IN :: nat where "TEE_ATTR_SM2_KEP_CONFIRMATION_IN \<equiv> 0xD0000746"
abbreviation (input) TEE_ATTR_SM2_KEP_CONFIRMATION_OUT :: nat where "TEE_ATTR_SM2_KEP_CONFIRMATION_OUT \<equiv> 0xD0000846"
abbreviation (input) TEE_ATTR_ECC_EPHEMERAL_PUBLIC_VALUE_X :: nat where "TEE_ATTR_ECC_EPHEMERAL_PUBLIC_VALUE_X \<equiv> 0xD0000946"
abbreviation (input) TEE_ATTR_ECC_EPHEMERAL_PUBLIC_VALUE_Y :: nat where "TEE_ATTR_ECC_EPHEMERAL_PUBLIC_VALUE_Y \<equiv> 0xD0000A46"
abbreviation (input) TEE_ATTR_HKDF_IKM :: nat where "TEE_ATTR_HKDF_IKM \<equiv> 0xC00001C0"
abbreviation (input) TEE_ATTR_HKDF_SALT :: nat where "TEE_ATTR_HKDF_SALT \<equiv> 0xD00002C0"
abbreviation (input) TEE_ATTR_HKDF_INFO :: nat where "TEE_ATTR_HKDF_INFO \<equiv> 0xD00003C0"
abbreviation (input) TEE_ATTR_HKDF_OKM_LENGTH :: nat where "TEE_ATTR_HKDF_OKM_LENGTH \<equiv> 0xF00004C0"
abbreviation (input) TEE_ATTR_CONCAT_KDF_Z :: nat where "TEE_ATTR_CONCAT_KDF_Z \<equiv> 0xC00001C1"
abbreviation (input) TEE_ATTR_CONCAT_KDF_OTHER_INFO :: nat where "TEE_ATTR_CONCAT_KDF_OTHER_INFO \<equiv> 0xD00002C1"
abbreviation (input) TEE_ATTR_CONCAT_KDF_DKM_LENGTH :: nat where "TEE_ATTR_CONCAT_KDF_DKM_LENGTH \<equiv> 0xF00003C1"
abbreviation (input) TEE_ATTR_PBKDF2_PASSWORD :: nat where "TEE_ATTR_PBKDF2_PASSWORD \<equiv> 0xC00001C2"
abbreviation (input) TEE_ATTR_PBKDF2_SALT :: nat where "TEE_ATTR_PBKDF2_SALT \<equiv> 0xD00002C2"
abbreviation (input) TEE_ATTR_PBKDF2_ITERATION_COUNT :: nat where "TEE_ATTR_PBKDF2_ITERATION_COUNT \<equiv> 0xF00003C2"
abbreviation (input) TEE_ATTR_PBKDF2_DKM_LENGTH :: nat where "TEE_ATTR_PBKDF2_DKM_LENGTH \<equiv> 0xF00004C2"

text \<open>Operation classes and states.\<close>

abbreviation (input) TEE_OPERATION_CIPHER :: nat where "TEE_OPERATION_CIPHER \<equiv> 1"
abbreviation (input) TEE_OPERATION_MAC :: nat where "TEE_OPERATION_MAC \<equiv> 3"
abbreviation (input) TEE_OPERATION_AE :: nat where "TEE_OPERATION_AE \<equiv> 4"
abbreviation (input) TEE_OPERATION_DIGEST :: nat where "TEE_OPERATION_DIGEST \<equiv> 5"
abbreviation (input) TEE_OPERATION_ASYMMETRIC_CIPHER :: nat where "TEE_OPERATION_ASYMMETRIC_CIPHER \<equiv> 6"
abbreviation (input) TEE_OPERATION_ASYMMETRIC_SIGNATURE :: nat where "TEE_OPERATION_ASYMMETRIC_SIGNATURE \<equiv> 7"
abbreviation (input) TEE_OPERATION_KEY_DERIVATION :: nat where "TEE_OPERATION_KEY_DERIVATION \<equiv> 8"
abbreviation (input) TEE_OPERATION_STATE_INITIAL :: nat where "TEE_OPERATION_STATE_INITIAL \<equiv> 0x00000000"
abbreviation (input) TEE_OPERATION_STATE_ACTIVE :: nat where "TEE_OPERATION_STATE_ACTIVE \<equiv> 0x00000001"

text \<open>Curves.\<close>

abbreviation (input) TEE_ECC_CURVE_NIST_P192 :: nat where "TEE_ECC_CURVE_NIST_P192 \<equiv> 0x00000001"
abbreviation (input) TEE_ECC_CURVE_NIST_P224 :: nat where "TEE_ECC_CURVE_NIST_P224 \<equiv> 0x00000002"
abbreviation (input) TEE_ECC_CURVE_NIST_P256 :: nat where "TEE_ECC_CURVE_NIST_P256 \<equiv> 0x00000003"
abbreviation (input) TEE_ECC_CURVE_NIST_P384 :: nat where "TEE_ECC_CURVE_NIST_P384 \<equiv> 0x00000004"
abbreviation (input) TEE_ECC_CURVE_NIST_P521 :: nat where "TEE_ECC_CURVE_NIST_P521 \<equiv> 0x00000005"
abbreviation (input) TEE_ECC_CURVE_SM2 :: nat where "TEE_ECC_CURVE_SM2 \<equiv> 0x00000300"

text \<open>Key usages are a 32-bit mask.\<close>

type_synonym usage = "32 word"

abbreviation (input) TEE_USAGE_EXTRACTABLE :: usage where "TEE_USAGE_EXTRACTABLE \<equiv> 0x01"
abbreviation (input) TEE_USAGE_ENCRYPT :: usage where "TEE_USAGE_ENCRYPT \<equiv> 0x02"
abbreviation (input) TEE_USAGE_DECRYPT :: usage where "TEE_USAGE_DECRYPT \<equiv> 0x04"
abbreviation (input) TEE_USAGE_MAC :: usage where "TEE_USAGE_MAC \<equiv> 0x08"
abbreviation (input) TEE_USAGE_SIGN :: usage where "TEE_USAGE_SIGN \<equiv> 0x10"
abbreviation (input) TEE_USAGE_VERIFY :: usage where "TEE_USAGE_VERIFY \<equiv> 0x20"
abbreviation (input) TEE_USAGE_DERIVE :: usage where "TEE_USAGE_DERIVE \<equiv> 0x40"
abbreviation (input) TEE_USAGE_DEFAULT :: usage where "TEE_USAGE_DEFAULT \<equiv> -1"

abbreviation (input) TEE_HANDLE_NULL :: nat where "TEE_HANDLE_NULL \<equiv> 0"

abbreviation (input) TEE_AES_BLOCK_SIZE :: nat where "TEE_AES_BLOCK_SIZE \<equiv> 16"
abbreviation (input) TEE_DES_BLOCK_SIZE :: nat where "TEE_DES_BLOCK_SIZE \<equiv> 8"
abbreviation (input) TEE_SM4_BLOCK_SIZE :: nat where "TEE_SM4_BLOCK_SIZE \<equiv> 16"
abbreviation (input) TEE_MAX_HASH_SIZE :: nat where "TEE_MAX_HASH_SIZE \<equiv> 64"

section \<open>Decoding an algorithm identifier\<close>

definition tee_alg_get_class :: "nat \<Rightarrow> nat" where
  "tee_alg_get_class algo =
     (if algo = TEE_ALG_SM2_PKE then TEE_OPERATION_ASYMMETRIC_CIPHER
      else if algo = TEE_ALG_SM2_KEP then TEE_OPERATION_KEY_DERIVATION
      else if algo = TEE_ALG_RSASSA_PKCS1_V1_5 then TEE_OPERATION_ASYMMETRIC_SIGNATURE
      else if algo = TEE_ALG_DES3_CMAC then TEE_OPERATION_MAC
      else algo div 2 ^ 28 mod 16)"

definition tee_alg_get_main_alg :: "nat \<Rightarrow> nat" where
  "tee_alg_get_main_alg algo =
     (if algo = TEE_ALG_SM2_PKE then TEE_MAIN_ALGO_SM2_PKE
      else if algo = TEE_ALG_SM2_KEP then TEE_MAIN_ALGO_SM2_KEP
      else algo mod 256)"

definition tee_alg_get_digest_hash :: "nat \<Rightarrow> nat" where
  "tee_alg_get_digest_hash algo =
     (if algo = TEE_ALG_SM2_DSA_SM3 then 7 else algo div 2 ^ 12 mod 16)"

definition tee_alg_get_key_type :: "nat \<Rightarrow> bool \<Rightarrow> nat" where
  "tee_alg_get_key_type algo with_priv =
     0xA0000000 + tee_alg_get_main_alg algo + (if with_priv then 0x01000000 else 0)"

definition tee_alg_hash_algo :: "nat \<Rightarrow> nat" where
  "tee_alg_hash_algo main_hash =
     (if main_hash = 7 then TEE_ALG_SM3 else TEE_OPERATION_DIGEST * 2 ^ 28 + main_hash)"

definition tee_alg_digest_size :: "nat \<Rightarrow> nat" where
  "tee_alg_digest_size algo =
     (if algo \<in> {TEE_ALG_MD5, TEE_ALG_HMAC_MD5} then 16
      else if algo \<in> {TEE_ALG_SHA1, TEE_ALG_HMAC_SHA1, TEE_ALG_DSA_SHA1} then 20
      else if algo \<in> {TEE_ALG_SHA224, TEE_ALG_HMAC_SHA224, TEE_ALG_DSA_SHA224} then 28
      else if algo \<in> {TEE_ALG_SHA256, TEE_ALG_HMAC_SHA256, TEE_ALG_DSA_SHA256} then 32
      else if algo \<in> {TEE_ALG_SHA384, TEE_ALG_HMAC_SHA384} then 48
      else if algo \<in> {TEE_ALG_SHA512, TEE_ALG_HMAC_SHA512} then 64
      else if algo \<in> {TEE_ALG_SM3, TEE_ALG_HMAC_SM3} then 32
      else if algo \<in> {TEE_ALG_AES_CBC_MAC_NOPAD, TEE_ALG_AES_CBC_MAC_PKCS5, TEE_ALG_AES_CMAC}
        then TEE_AES_BLOCK_SIZE
      else if algo \<in> {TEE_ALG_DES_CBC_MAC_NOPAD, TEE_ALG_DES_CBC_MAC_PKCS5,
          TEE_ALG_DES3_CBC_MAC_NOPAD, TEE_ALG_DES3_CBC_MAC_PKCS5, TEE_ALG_DES3_CMAC}
        then TEE_DES_BLOCK_SIZE
      else 0)"

text \<open>\<^verbatim>\<open>tee_alg_get_digest_size\<close> of the core (\<^verbatim>\<open>core/tee/tee_cryp_utl.c\<close>).\<close>

definition tee_alg_get_digest_size :: "nat \<Rightarrow> TEE_Result + nat" where
  "tee_alg_get_digest_size algo =
     (if tee_alg_digest_size algo = 0 then Inl TEE_ERROR_NOT_SUPPORTED
      else Inr (tee_alg_digest_size algo))"

text \<open>Bits 28 and 29 of an attribute identifier: the attribute is public; the attribute is a value.\<close>

definition attr_is_public :: "nat \<Rightarrow> bool" where
  "attr_is_public attr_id \<longleftrightarrow> attr_id div 2 ^ 28 mod 2 = 1"

definition attr_is_value :: "nat \<Rightarrow> bool" where
  "attr_is_value attr_id \<longleftrightarrow> attr_id div 2 ^ 29 mod 2 = 1"

text \<open>The fields of the algorithms that the attester and the verifier use.\<close>

lemma class_simps [simp]:
  "tee_alg_get_class TEE_ALG_SHA256 = 5" "tee_alg_get_class TEE_ALG_AES_CMAC = 3"
  "tee_alg_get_class TEE_ALG_AES_GCM = 4" "tee_alg_get_class TEE_ALG_ECDSA_P256 = 7"
  "tee_alg_get_class TEE_ALG_ECDH_P256 = 8"
  by (simp_all add: tee_alg_get_class_def)

lemma main_alg_simps [simp]:
  "tee_alg_get_main_alg TEE_ALG_AES_CMAC = 0x10" "tee_alg_get_main_alg TEE_ALG_AES_GCM = 0x10"
  "tee_alg_get_main_alg TEE_ALG_ECDSA_P256 = 0x41" "tee_alg_get_main_alg TEE_ALG_ECDH_P256 = 0x42"
  by (simp_all add: tee_alg_get_main_alg_def)

lemma key_type_simps [simp]:
  "tee_alg_get_key_type TEE_ALG_AES_CMAC False = TEE_TYPE_AES"
  "tee_alg_get_key_type TEE_ALG_AES_GCM False = TEE_TYPE_AES"
  "tee_alg_get_key_type TEE_ALG_ECDSA_P256 False = TEE_TYPE_ECDSA_PUBLIC_KEY"
  "tee_alg_get_key_type TEE_ALG_ECDSA_P256 True = TEE_TYPE_ECDSA_KEYPAIR"
  "tee_alg_get_key_type TEE_ALG_ECDH_P256 True = TEE_TYPE_ECDH_KEYPAIR"
  by (simp_all add: tee_alg_get_key_type_def)

lemma digest_size_simps [simp]:
  "tee_alg_digest_size TEE_ALG_SHA256 = 32" "tee_alg_digest_size TEE_ALG_AES_CMAC = 16"
  "tee_alg_digest_size TEE_ALG_AES_GCM = 0" "tee_alg_digest_size TEE_ALG_ECDSA_P256 = 0"
  "tee_alg_digest_size TEE_ALG_ECDH_P256 = 0"
  by (simp_all add: tee_alg_digest_size_def)

lemma get_digest_size_simps [simp]:
  "tee_alg_get_digest_size TEE_ALG_SHA256 = Inr 32"
  "tee_alg_get_digest_size TEE_ALG_AES_CMAC = Inr 16"
  by (simp_all add: tee_alg_get_digest_size_def)

lemma attr_bit_simps [simp]:
  "attr_is_public TEE_ATTR_ECC_PUBLIC_VALUE_X" "attr_is_public TEE_ATTR_ECC_PUBLIC_VALUE_Y"
  "\<not> attr_is_public TEE_ATTR_SECRET_VALUE" "\<not> attr_is_public TEE_ATTR_ECC_PRIVATE_VALUE"
  "\<not> attr_is_value TEE_ATTR_ECC_PUBLIC_VALUE_X" "\<not> attr_is_value TEE_ATTR_ECC_PUBLIC_VALUE_Y"
  "\<not> attr_is_value TEE_ATTR_SECRET_VALUE" "\<not> attr_is_value TEE_ATTR_ECC_PRIVATE_VALUE"
  "attr_is_value TEE_ATTR_ECC_CURVE"
  by (simp_all add: attr_is_public_def attr_is_value_def)

text \<open>The class computed for a supported digest is exactly the class that its size is defined for.\<close>

lemma digest_size_le_max: "tee_alg_digest_size algo \<le> TEE_MAX_HASH_SIZE"
  by (simp add: tee_alg_digest_size_def)

end
