(* ===== verification/Aes_Gcm.thy ===== *)
theory Aes_Gcm
  imports Tee_Defs
begin

text \<open>
  The AES-GCM implementation of the OP-TEE core (\<^verbatim>\<open>core/crypto/aes-gcm.c\<close> and
  \<^verbatim>\<open>core/crypto/aes-gcm-sw.c\<close>), which protects the secret that the verifier sends in its last
  message.  The block cipher under the expanded key is a parameter \<open>E\<close>; everything else is
  translated from the source.  The theory shows that the buffered implementation computes the
  byte-wise specification \<open>gcm_stream\<close> however the input is cut into pieces, and that decryption
  inverts encryption.  The multiplication of the hash is that of the code without
  \<^verbatim>\<open>CFG_AES_GCM_TABLE_BASED\<close>; with that option the code multiplies by tables of the multiples of the key.
\<close>

section \<open>State and block operations\<close>

record gcm_state =
  g_ctr :: bytes
  g_subkey :: bytes
  g_hash_state :: bytes
  g_buf_tag :: bytes
  g_buf_hash :: bytes
  g_buf_cryp :: bytes
  g_tag_len :: nat
  g_aad_bytes :: nat
  g_payload_bytes :: nat
  g_buf_pos :: nat

abbreviation zero_block :: bytes where "zero_block \<equiv> replicate 16 0"

definition gcm_zero :: gcm_state where
  "gcm_zero = \<lparr>g_ctr = zero_block, g_subkey = zero_block, g_hash_state = zero_block,
     g_buf_tag = zero_block, g_buf_hash = zero_block, g_buf_cryp = zero_block,
     g_tag_len = 0, g_aad_bytes = 0, g_payload_bytes = 0, g_buf_pos = 0\<rparr>"

definition xor_bytes :: "bytes \<Rightarrow> bytes \<Rightarrow> bytes" where
  "xor_bytes xs ys = map2 (XOR) xs ys"

text \<open>\<open>put_at\<close> is \<^verbatim>\<open>memcpy(buf + pos, s, n)\<close>; \<open>xor_buf\<close> is the function of that name on \<^verbatim>\<open>buf + pos\<close>.\<close>

definition put_at :: "nat \<Rightarrow> bytes \<Rightarrow> bytes \<Rightarrow> bytes" where
  "put_at pos s buf = take pos buf @ s @ drop (pos + length s) buf"

definition xor_buf :: "nat \<Rightarrow> bytes \<Rightarrow> bytes \<Rightarrow> bytes" where
  "xor_buf pos src buf = put_at pos (xor_bytes (take (length src) (drop pos buf)) src) buf"

definition be64 :: "nat \<Rightarrow> bytes" where
  "be64 n = map (\<lambda>i. word_of_nat (n div 256 ^ (7 - i) mod 256)) [0..<8]"

definition internal_aes_gcm_inc_ctr :: "gcm_state \<Rightarrow> gcm_state" where
  "internal_aes_gcm_inc_ctr st =
     (let lo = (bn_of_bytes (drop 8 (g_ctr st)) + 1) mod 2 ^ 64;
          hi = bn_of_bytes (take 8 (g_ctr st));
          hi' = (if lo = 0 then (hi + 1) mod 2 ^ 64 else hi)
      in st\<lparr>g_ctr := (if lo = 0 then be64 hi' else take 8 (g_ctr st)) @ be64 lo\<rparr>)"

text \<open>One round of the loop of \<^verbatim>\<open>internal_aes_gcm_gfmul\<close>: \<open>y\<close> and \<open>z\<close> are pairs of 64-bit words.\<close>

definition gfmul_step ::
    "bytes \<Rightarrow> nat \<Rightarrow> (64 word \<times> 64 word) \<times> (64 word \<times> 64 word) \<Rightarrow>
       (64 word \<times> 64 word) \<times> (64 word \<times> 64 word)" where
  "gfmul_step x n yz =
     (case yz of ((y0, y1), (z0, z1)) \<Rightarrow>
       let z' = (if bit (x ! (n div 8)) (7 - n mod 8) then (z0 XOR y0, z1 XOR y1) else (z0, z1));
           mul = y1 AND 1;
           y1' = push_bit 63 y0 OR drop_bit 1 y1;
           y0' = drop_bit 1 y0 XOR (0xe100000000000000 * mul)
       in ((y0', y1'), z'))"

definition internal_aes_gcm_gfmul :: "bytes \<Rightarrow> bytes \<Rightarrow> bytes" where
  "internal_aes_gcm_gfmul x y =
     (let y0 = word_of_nat (bn_of_bytes (take 8 y)); y1 = word_of_nat (bn_of_bytes (drop 8 y));
          (_, (z0, z1)) = fold (gfmul_step x) [0..<128] ((y0, y1), (0, 0))
      in be64 (unat z0) @ be64 (unat z1))"

definition ghash_update_block :: "bytes \<Rightarrow> gcm_state \<Rightarrow> gcm_state" where
  "ghash_update_block data st =
     st\<lparr>g_hash_state := internal_aes_gcm_gfmul (g_subkey st) (xor_bytes (g_hash_state st) data)\<rparr>"

text \<open>The blocks of a buffer, as the loops of the source walk through it.\<close>

definition block_at :: "bytes \<Rightarrow> nat \<Rightarrow> bytes" where
  "block_at data n = take 16 (drop (16 * n) data)"

definition internal_aes_gcm_ghash_update ::
    "bytes option \<Rightarrow> bytes \<Rightarrow> nat \<Rightarrow> gcm_state \<Rightarrow> gcm_state" where
  "internal_aes_gcm_ghash_update head data num_blocks st =
     fold (\<lambda>n. ghash_update_block (block_at data n)) [0..<num_blocks]
       (case head of None \<Rightarrow> st | Some b \<Rightarrow> ghash_update_block b st)"

definition ghash_update_pad_zero :: "bytes \<Rightarrow> gcm_state \<Rightarrow> gcm_state" where
  "ghash_update_pad_zero data st =
     (let n = length data div 16;
          st = internal_aes_gcm_ghash_update None data n st;
          rest = drop (16 * n) data
      in if rest \<noteq> []
         then internal_aes_gcm_ghash_update (Some (put_at 0 rest zero_block)) [] 0 st
         else st)"

definition ghash_update_lengths :: "nat \<Rightarrow> nat \<Rightarrow> gcm_state \<Rightarrow> gcm_state" where
  "ghash_update_lengths l1 l2 st =
     internal_aes_gcm_ghash_update
       (Some (be64 (l1 mod 2 ^ 32 * 8 mod 2 ^ 32) @ be64 (l2 mod 2 ^ 32 * 8 mod 2 ^ 32))) [] 0 st"

section \<open>Initialisation\<close>

definition internal_aes_gcm_set_key :: "(bytes \<Rightarrow> bytes) \<Rightarrow> gcm_state \<Rightarrow> gcm_state" where
  "internal_aes_gcm_set_key E st = st\<lparr>g_subkey := E (g_ctr st)\<rparr>"

definition gcm_init ::
    "(bytes \<Rightarrow> bytes) \<Rightarrow> TEE_OperationMode \<Rightarrow> bytes \<Rightarrow> nat \<Rightarrow> TEE_Result + gcm_state" where
  "gcm_init E mode nonce tag_len =
     (if tag_len > 16 then Inl TEE_ERROR_BAD_PARAMETERS
      else
        let st = internal_aes_gcm_set_key E (gcm_zero\<lparr>g_tag_len := tag_len\<rparr>);
            st = (if length nonce = 12
                  then internal_aes_gcm_inc_ctr (st\<lparr>g_ctr := put_at 0 nonce (g_ctr st)\<rparr>)
                  else let st = ghash_update_lengths 0 (length nonce) (ghash_update_pad_zero nonce st)
                       in st\<lparr>g_ctr := g_hash_state st, g_hash_state := zero_block\<rparr>);
            st = internal_aes_gcm_inc_ctr (st\<lparr>g_buf_tag := E (g_ctr st)\<rparr>)
        in Inr (if mode = TEE_MODE_ENCRYPT
                then internal_aes_gcm_inc_ctr (st\<lparr>g_buf_cryp := E (g_ctr st)\<rparr>)
                else st))"

section \<open>Additional authenticated data\<close>

text \<open>The loop of \<^verbatim>\<open>__gcm_update_aad\<close>.  The address of the next byte decides whether whole blocks are
  hashed in place or copied through \<^verbatim>\<open>buf_hash\<close>; \<open>head\<close> is the variable of that name, which keeps its
  value from one round to the next.\<close>

definition ptr_is_block_aligned :: "nat \<Rightarrow> bool" where
  "ptr_is_block_aligned p \<longleftrightarrow> p mod 16 = 0"

function gcm_aad_loop :: "nat \<Rightarrow> bytes option \<Rightarrow> bytes \<Rightarrow> gcm_state \<Rightarrow> gcm_state" where
  "gcm_aad_loop d head l st =
     (if l = [] then st
      else if g_buf_pos st \<noteq> 0 \<or> \<not> ptr_is_block_aligned d \<or> length l < 16 then
        let n = min (16 - g_buf_pos st) (length l);
            st = st\<lparr>g_buf_hash := put_at (g_buf_pos st) (take n l) (g_buf_hash st),
                    g_buf_pos := g_buf_pos st + n\<rparr>
        in if g_buf_pos st \<noteq> 16 then st
           else
             let head = Some (g_buf_hash st); st = st\<lparr>g_buf_pos := 0\<rparr>;
                 d = d + n; l = drop n l;
                 m = (if ptr_is_block_aligned d then length l div 16 else 0)
             in gcm_aad_loop (d + 16 * m) head (drop (16 * m) l)
                  (internal_aes_gcm_ghash_update head l m st)
      else
        let m = length l div 16
        in gcm_aad_loop (d + 16 * m) head (drop (16 * m) l)
             (internal_aes_gcm_ghash_update head l m st))"
  by pat_completeness auto

lemma ghash_update_block_frame [simp]:
  "g_buf_pos (ghash_update_block b st) = g_buf_pos st"
  "g_buf_hash (ghash_update_block b st) = g_buf_hash st"
  "g_buf_cryp (ghash_update_block b st) = g_buf_cryp st"
  "g_buf_tag (ghash_update_block b st) = g_buf_tag st"
  "g_ctr (ghash_update_block b st) = g_ctr st"
  "g_subkey (ghash_update_block b st) = g_subkey st"
  "g_tag_len (ghash_update_block b st) = g_tag_len st"
  "g_aad_bytes (ghash_update_block b st) = g_aad_bytes st"
  "g_payload_bytes (ghash_update_block b st) = g_payload_bytes st"
  by (simp_all add: ghash_update_block_def)

lemma ghash_update_frame [simp]:
  "g_buf_pos (internal_aes_gcm_ghash_update head d n st) = g_buf_pos st"
  "g_buf_hash (internal_aes_gcm_ghash_update head d n st) = g_buf_hash st"
  "g_buf_cryp (internal_aes_gcm_ghash_update head d n st) = g_buf_cryp st"
  "g_buf_tag (internal_aes_gcm_ghash_update head d n st) = g_buf_tag st"
  "g_ctr (internal_aes_gcm_ghash_update head d n st) = g_ctr st"
  "g_subkey (internal_aes_gcm_ghash_update head d n st) = g_subkey st"
  "g_tag_len (internal_aes_gcm_ghash_update head d n st) = g_tag_len st"
  "g_aad_bytes (internal_aes_gcm_ghash_update head d n st) = g_aad_bytes st"
  "g_payload_bytes (internal_aes_gcm_ghash_update head d n st) = g_payload_bytes st"
proof -
  have "g_buf_pos (fold (\<lambda>n. ghash_update_block (block_at d n)) ns st) = g_buf_pos st \<and>
    g_buf_hash (fold (\<lambda>n. ghash_update_block (block_at d n)) ns st) = g_buf_hash st \<and>
    g_buf_cryp (fold (\<lambda>n. ghash_update_block (block_at d n)) ns st) = g_buf_cryp st \<and>
    g_buf_tag (fold (\<lambda>n. ghash_update_block (block_at d n)) ns st) = g_buf_tag st \<and>
    g_ctr (fold (\<lambda>n. ghash_update_block (block_at d n)) ns st) = g_ctr st \<and>
    g_subkey (fold (\<lambda>n. ghash_update_block (block_at d n)) ns st) = g_subkey st \<and>
    g_tag_len (fold (\<lambda>n. ghash_update_block (block_at d n)) ns st) = g_tag_len st \<and>
    g_aad_bytes (fold (\<lambda>n. ghash_update_block (block_at d n)) ns st) = g_aad_bytes st \<and>
    g_payload_bytes (fold (\<lambda>n. ghash_update_block (block_at d n)) ns st) = g_payload_bytes st"
    for ns and st :: gcm_state
    by (induction ns arbitrary: st) simp_all
  then show
    "g_buf_pos (internal_aes_gcm_ghash_update head d n st) = g_buf_pos st"
    "g_buf_hash (internal_aes_gcm_ghash_update head d n st) = g_buf_hash st"
    "g_buf_cryp (internal_aes_gcm_ghash_update head d n st) = g_buf_cryp st"
    "g_buf_tag (internal_aes_gcm_ghash_update head d n st) = g_buf_tag st"
    "g_ctr (internal_aes_gcm_ghash_update head d n st) = g_ctr st"
    "g_subkey (internal_aes_gcm_ghash_update head d n st) = g_subkey st"
    "g_tag_len (internal_aes_gcm_ghash_update head d n st) = g_tag_len st"
    "g_aad_bytes (internal_aes_gcm_ghash_update head d n st) = g_aad_bytes st"
    "g_payload_bytes (internal_aes_gcm_ghash_update head d n st) = g_payload_bytes st"
    by (simp_all add: internal_aes_gcm_ghash_update_def split: option.split)
qed

termination gcm_aad_loop
  by (relation "measures [\<lambda>(d, head, l, st). length l, \<lambda>(d, head, l, st). g_buf_pos st]")
    (auto simp: Let_def div_greater_zero_iff split: if_splits)

declare gcm_aad_loop.simps [simp del]

definition gcm_update_aad :: "nat \<Rightarrow> bytes \<Rightarrow> gcm_state \<Rightarrow> TEE_Result + gcm_state" where
  "gcm_update_aad addr data st =
     (if g_payload_bytes st \<noteq> 0 then Inl TEE_ERROR_BAD_PARAMETERS
      else Inr (gcm_aad_loop addr None data
                  (st\<lparr>g_aad_bytes := (g_aad_bytes st + length data) mod 2 ^ 32\<rparr>)))"

section \<open>Payload\<close>

definition encrypt_block :: "(bytes \<Rightarrow> bytes) \<Rightarrow> bytes \<Rightarrow> gcm_state \<Rightarrow> gcm_state \<times> bytes" where
  "encrypt_block E src st =
     (let out = xor_bytes (g_buf_cryp st) src;
          st = internal_aes_gcm_ghash_update (Some out) [] 0 (st\<lparr>g_buf_cryp := out\<rparr>)
      in (internal_aes_gcm_inc_ctr (st\<lparr>g_buf_cryp := E (g_ctr st)\<rparr>), out))"

definition decrypt_block :: "(bytes \<Rightarrow> bytes) \<Rightarrow> bytes \<Rightarrow> gcm_state \<Rightarrow> gcm_state \<times> bytes" where
  "decrypt_block E src st =
     (let st = internal_aes_gcm_inc_ctr (st\<lparr>g_buf_cryp := E (g_ctr st)\<rparr>);
          out = xor_bytes (g_buf_cryp st) src
      in (internal_aes_gcm_ghash_update (Some src) [] 0 (st\<lparr>g_buf_cryp := out\<rparr>), out))"

text \<open>The loops \<^verbatim>\<open>encrypt_pl\<close> and \<^verbatim>\<open>decrypt_pl\<close> over the blocks of the source buffer.\<close>

primrec pl_blocks ::
    "(bytes \<Rightarrow> gcm_state \<Rightarrow> gcm_state \<times> bytes) \<Rightarrow> bytes \<Rightarrow> nat \<Rightarrow> gcm_state \<Rightarrow> gcm_state \<times> bytes" where
  "pl_blocks f src 0 st = (st, [])"
| "pl_blocks f src (Suc n) st =
     (let (st, out) = f (take 16 src) st; (st, rest) = pl_blocks f (drop 16 src) n st
      in (st, out @ rest))"

definition internal_aes_gcm_update_payload_blocks ::
    "(bytes \<Rightarrow> bytes) \<Rightarrow> TEE_OperationMode \<Rightarrow> bytes \<Rightarrow> nat \<Rightarrow> gcm_state \<Rightarrow> gcm_state \<times> bytes" where
  "internal_aes_gcm_update_payload_blocks E m src num_blocks st =
     (if m = TEE_MODE_ENCRYPT then pl_blocks (encrypt_block E) src num_blocks st
      else pl_blocks (decrypt_block E) src num_blocks st)"

text \<open>One round of the loop of \<^verbatim>\<open>__gcm_update_payload\<close> on a partial block: the new state and the output.\<close>

definition gcm_partial ::
    "(bytes \<Rightarrow> bytes) \<Rightarrow> TEE_OperationMode \<Rightarrow> bytes \<Rightarrow> gcm_state \<Rightarrow> gcm_state \<times> bytes" where
  "gcm_partial E mode s st =
     (let pos = g_buf_pos st;
          st = (if pos = 0 \<and> mode = TEE_MODE_DECRYPT then st\<lparr>g_buf_cryp := E (g_ctr st)\<rparr> else st);
          st = st\<lparr>g_buf_cryp := xor_buf pos s (g_buf_cryp st)\<rparr>;
          out = take (length s) (drop pos (g_buf_cryp st));
          st = st\<lparr>g_buf_hash := put_at pos (if mode = TEE_MODE_ENCRYPT then out else s) (g_buf_hash st),
                  g_buf_pos := pos + length s\<rparr>
      in (st, out))"

definition gcm_block_done :: "(bytes \<Rightarrow> bytes) \<Rightarrow> TEE_OperationMode \<Rightarrow> gcm_state \<Rightarrow> gcm_state" where
  "gcm_block_done E mode st =
     (let st = (internal_aes_gcm_ghash_update (Some (g_buf_hash st)) [] 0 st)\<lparr>g_buf_pos := 0\<rparr>;
          st = (if mode = TEE_MODE_ENCRYPT then st\<lparr>g_buf_cryp := E (g_ctr st)\<rparr> else st)
      in internal_aes_gcm_inc_ctr st)"

lemma inc_ctr_frame [simp]:
  "g_buf_pos (internal_aes_gcm_inc_ctr st) = g_buf_pos st"
  "g_buf_hash (internal_aes_gcm_inc_ctr st) = g_buf_hash st"
  "g_buf_cryp (internal_aes_gcm_inc_ctr st) = g_buf_cryp st"
  "g_buf_tag (internal_aes_gcm_inc_ctr st) = g_buf_tag st"
  "g_subkey (internal_aes_gcm_inc_ctr st) = g_subkey st"
  "g_hash_state (internal_aes_gcm_inc_ctr st) = g_hash_state st"
  "g_tag_len (internal_aes_gcm_inc_ctr st) = g_tag_len st"
  "g_aad_bytes (internal_aes_gcm_inc_ctr st) = g_aad_bytes st"
  "g_payload_bytes (internal_aes_gcm_inc_ctr st) = g_payload_bytes st"
  by (simp_all add: internal_aes_gcm_inc_ctr_def Let_def)

function gcm_payload_loop ::
    "(bytes \<Rightarrow> bytes) \<Rightarrow> TEE_OperationMode \<Rightarrow> bytes \<Rightarrow> gcm_state \<Rightarrow> gcm_state \<times> bytes" where
  "gcm_payload_loop E mode s st =
     (if s = [] then (st, [])
      else if g_buf_pos st \<noteq> 0 \<or> length s < 16 then
        let n = min (16 - g_buf_pos st) (length s);
            (st, out) = gcm_partial E mode (take n s) st
        in if g_buf_pos st \<noteq> 16 then (st, out)
           else let (st, rest) = gcm_payload_loop E mode (drop n s) (gcm_block_done E mode st)
                in (st, out @ rest)
      else
        let n = length s div 16;
            (st, out) = internal_aes_gcm_update_payload_blocks E mode s n st;
            (st, rest) = gcm_payload_loop E mode (drop (16 * n) s) st
        in (st, out @ rest))"
  by pat_completeness auto
termination
  by (relation "measures [\<lambda>(E, mode, s, st). length s, \<lambda>(E, mode, s, st). g_buf_pos st]")
    (auto simp: gcm_partial_def gcm_block_done_def Let_def div_greater_zero_iff split: if_splits)

declare gcm_payload_loop.simps [simp del]

definition gcm_flush_aad :: "gcm_state \<Rightarrow> gcm_state" where
  "gcm_flush_aad st =
     (let st = st\<lparr>g_buf_hash := put_at (g_buf_pos st) (replicate (16 - g_buf_pos st) 0) (g_buf_hash st)\<rparr>
      in (internal_aes_gcm_ghash_update (Some (g_buf_hash st)) [] 0 st)\<lparr>g_buf_pos := 0\<rparr>)"

definition gcm_update_payload ::
    "(bytes \<Rightarrow> bytes) \<Rightarrow> TEE_OperationMode \<Rightarrow> bytes \<Rightarrow> gcm_state \<Rightarrow> gcm_state \<times> bytes" where
  "gcm_update_payload E mode src st =
     (let st = (if g_payload_bytes st = 0 \<and> g_buf_pos st \<noteq> 0 then gcm_flush_aad st else st)
      in gcm_payload_loop E mode src
           (st\<lparr>g_payload_bytes := (g_payload_bytes st + length src) mod 2 ^ 32\<rparr>))"

section \<open>Finalisation\<close>

definition operation_final ::
    "(bytes \<Rightarrow> bytes) \<Rightarrow> TEE_OperationMode \<Rightarrow> bytes \<Rightarrow> gcm_state \<Rightarrow> gcm_state \<times> bytes" where
  "operation_final E m src st =
     (let (st, out) = gcm_update_payload E m src st;
          st = (if g_buf_pos st \<noteq> 0
                then let st = st\<lparr>g_buf_hash := put_at (g_buf_pos st) (replicate (16 - g_buf_pos st) 0)
                                                (g_buf_hash st)\<rparr>
                     in internal_aes_gcm_ghash_update (Some (g_buf_hash st)) [] 0 st
                else st);
          st = ghash_update_lengths (g_aad_bytes st) (g_payload_bytes st) st
      in (st\<lparr>g_buf_tag := xor_buf 0 (take (g_tag_len st) (g_hash_state st)) (g_buf_tag st)\<rparr>, out))"

text \<open>\<^verbatim>\<open>__gcm_enc_final\<close>: the new state with the output and the tag.\<close>

definition gcm_enc_final ::
    "(bytes \<Rightarrow> bytes) \<Rightarrow> bytes \<Rightarrow> nat \<Rightarrow> gcm_state \<Rightarrow> TEE_Result + (gcm_state \<times> bytes \<times> bytes)" where
  "gcm_enc_final E src tag_len st =
     (if tag_len < g_tag_len st then Inl TEE_ERROR_SHORT_BUFFER
      else let (st, out) = operation_final E TEE_MODE_ENCRYPT src st
           in Inr (st, out, take (g_tag_len st) (g_buf_tag st)))"

text \<open>\<^verbatim>\<open>__gcm_dec_final\<close>: the result code, the new state and the output written to the caller's buffer.\<close>

definition gcm_dec_final ::
    "(bytes \<Rightarrow> bytes) \<Rightarrow> bytes \<Rightarrow> bytes \<Rightarrow> gcm_state \<Rightarrow> TEE_Result \<times> gcm_state \<times> bytes" where
  "gcm_dec_final E src tag st =
     (if length tag \<noteq> g_tag_len st then (TEE_ERROR_MAC_INVALID, st, [])
      else let (st, out) = operation_final E TEE_MODE_DECRYPT src st
           in (if take (length tag) (g_buf_tag st) = tag then TEE_SUCCESS else TEE_ERROR_MAC_INVALID,
               st, out))"

section \<open>One-shot encryption and decryption\<close>

definition internal_aes_gcm_enc ::
    "(bytes \<Rightarrow> bytes) \<Rightarrow> bytes \<Rightarrow> (nat \<times> bytes) option \<Rightarrow> bytes \<Rightarrow> nat \<Rightarrow> TEE_Result + (bytes \<times> bytes)" where
  "internal_aes_gcm_enc E nonce aad src tag_len =
     (case gcm_init E TEE_MODE_ENCRYPT nonce tag_len of
        Inl e \<Rightarrow> Inl e
      | Inr st \<Rightarrow>
          (case (case aad of None \<Rightarrow> Inr st | Some (addr, a) \<Rightarrow> gcm_update_aad addr a st) of
             Inl e \<Rightarrow> Inl e
           | Inr st \<Rightarrow>
               (case gcm_enc_final E src tag_len st of
                  Inl e \<Rightarrow> Inl e
                | Inr (st, out, tag) \<Rightarrow> Inr (out, tag))))"

definition internal_aes_gcm_dec ::
    "(bytes \<Rightarrow> bytes) \<Rightarrow> bytes \<Rightarrow> (nat \<times> bytes) option \<Rightarrow> bytes \<Rightarrow> bytes \<Rightarrow> TEE_Result \<times> bytes" where
  "internal_aes_gcm_dec E nonce aad src tag =
     (case gcm_init E TEE_MODE_DECRYPT nonce (length tag) of
        Inl e \<Rightarrow> (e, [])
      | Inr st \<Rightarrow>
          (case (case aad of None \<Rightarrow> Inr st | Some (addr, a) \<Rightarrow> gcm_update_aad addr a st) of
             Inl e \<Rightarrow> (e, [])
           | Inr st \<Rightarrow> (case gcm_dec_final E src tag st of (res, st, out) \<Rightarrow> (res, out))))"

section \<open>Byte-wise specification\<close>

text \<open>GHASH and counter mode, one byte at a time: the pending bytes of the current block, the hash of the
  complete blocks, and the counter of the current block.\<close>

definition ctr_inc :: "bytes \<Rightarrow> bytes" where
  "ctr_inc c = g_ctr (internal_aes_gcm_inc_ctr (gcm_zero\<lparr>g_ctr := c\<rparr>))"

definition hash_byte :: "bytes \<Rightarrow> byte \<Rightarrow> bytes \<times> bytes \<Rightarrow> bytes \<times> bytes" where
  "hash_byte H x ph =
     (case ph of (pend, h) \<Rightarrow>
       if length pend = 15 then ([], internal_aes_gcm_gfmul H (xor_bytes h (pend @ [x])))
       else (pend @ [x], h))"

definition gcm_byte ::
    "(bytes \<Rightarrow> bytes) \<Rightarrow> bytes \<Rightarrow> bool \<Rightarrow> byte \<Rightarrow> bytes \<times> bytes \<times> bytes \<Rightarrow> (bytes \<times> bytes \<times> bytes) \<times> byte" where
  "gcm_byte E H enc p a =
     (case a of (c, ph) \<Rightarrow>
       let out = E c ! length (fst ph) XOR p
       in ((if length (fst ph) = 15 then ctr_inc c else c, hash_byte H (if enc then out else p) ph), out))"

fun gcm_stream ::
    "(bytes \<Rightarrow> bytes) \<Rightarrow> bytes \<Rightarrow> bool \<Rightarrow> bytes \<Rightarrow> bytes \<times> bytes \<times> bytes \<Rightarrow>
       (bytes \<times> bytes \<times> bytes) \<times> bytes" where
  "gcm_stream E H enc [] a = (a, [])"
| "gcm_stream E H enc (p # ps) a =
     (let (a, out) = gcm_byte E H enc p a; (a, outs) = gcm_stream E H enc ps a in (a, out # outs))"

definition hash_stream :: "bytes \<Rightarrow> bytes \<Rightarrow> bytes \<times> bytes \<Rightarrow> bytes \<times> bytes" where
  "hash_stream H xs ph = fold (hash_byte H) xs ph"

lemma inc_ctr_eq: "internal_aes_gcm_inc_ctr st = st\<lparr>g_ctr := ctr_inc (g_ctr st)\<rparr>"
  by (simp add: ctr_inc_def internal_aes_gcm_inc_ctr_def Let_def gcm_zero_def)

lemma length_be64 [simp]: "length (be64 n) = 8"
  by (simp add: be64_def)

lemma length_gfmul [simp]: "length (internal_aes_gcm_gfmul x y) = 16"
  by (simp add: internal_aes_gcm_gfmul_def Let_def split: prod.split)

lemma length_xor_bytes [simp]: "length (xor_bytes xs ys) = min (length xs) (length ys)"
  by (simp add: xor_bytes_def)

lemma length_put_at [simp]:
  "pos + length s \<le> length buf \<Longrightarrow> length (put_at pos s buf) = length buf"
  by (simp add: put_at_def)

lemma take_put_at:
  "pos \<le> length buf \<Longrightarrow> take (pos + length s) (put_at pos s buf) = take pos buf @ s"
  by (simp add: put_at_def)

lemma xor_bytes_inv: "length xs = length ys \<Longrightarrow> xor_bytes xs (xor_bytes xs ys) = ys"
  unfolding xor_bytes_def
  by (induction xs ys rule: list_induct2) (simp_all flip: xor.assoc)

lemma gcm_stream_append:
  "gcm_stream E H enc (xs @ ys) a =
     (let (a, o1) = gcm_stream E H enc xs a; (a, o2) = gcm_stream E H enc ys a in (a, o1 @ o2))"
  by (induction xs arbitrary: a) (simp_all add: Let_def split: prod.split)

lemma hash_stream_append: "hash_stream H (xs @ ys) ph = hash_stream H ys (hash_stream H xs ph)"
  by (simp add: hash_stream_def)

lemma hash_stream_Nil [simp]: "hash_stream H [] ph = ph"
  by (simp add: hash_stream_def)

text \<open>Feeding bytes that stay within the current block, and feeding bytes that complete it.\<close>

lemma hash_stream_within:
  "length pend + length xs < 16 \<Longrightarrow> hash_stream H xs (pend, h) = (pend @ xs, h)"
  by (induction xs arbitrary: pend) (simp_all add: hash_stream_def hash_byte_def)

lemma hash_stream_full:
  assumes "length pend + length xs = 16" "xs \<noteq> []"
  shows "hash_stream H xs (pend, h) = ([], internal_aes_gcm_gfmul H (xor_bytes h (pend @ xs)))"
proof -
  obtain ys y where xs: "xs = ys @ [y]" using assms(2) by (metis rev_exhaust)
  have "hash_stream H xs (pend, h) = hash_stream H [y] (pend @ ys, h)"
    using assms by (simp add: xs hash_stream_append hash_stream_within)
  also have "\<dots> = ([], internal_aes_gcm_gfmul H (xor_bytes h (pend @ xs)))"
    using assms by (simp add: xs hash_stream_def hash_byte_def)
  finally show ?thesis .
qed

lemma hash_byte_pend: "length (fst ph) < 16 \<Longrightarrow> length (fst (hash_byte H x ph)) = (length (fst ph) + 1) mod 16"
  by (cases ph) (auto simp: hash_byte_def)

lemma gcm_stream_within:
  assumes "length pend + length s < 16" "\<And>b. length (E b) = 16"
  shows "gcm_stream E H enc s (c, pend, h) =
     (let out = xor_bytes (take (length s) (drop (length pend) (E c))) s
      in ((c, pend @ (if enc then out else s), h), out))"
  using assms(1)
proof (induction s arbitrary: pend)
  case Nil
  then show ?case by (simp add: xor_bytes_def)
next
  case (Cons p s)
  let ?out = "E c ! length pend XOR p"
  have d: "drop (length pend) (E c) = E c ! length pend # drop (Suc (length pend)) (E c)"
    using Cons.prems assms(2) [of c] by (simp add: Cons_nth_drop_Suc)
  have "gcm_stream E H enc s (c, pend @ [if enc then ?out else p], h) =
     (let out = xor_bytes (take (length s) (drop (Suc (length pend)) (E c))) s
      in ((c, (pend @ [if enc then ?out else p]) @ (if enc then out else s), h), out))"
    using Cons.IH [of "pend @ [if enc then ?out else p]"] Cons.prems by simp
  then show ?case
    using Cons.prems by (cases enc) (simp_all add: gcm_byte_def hash_byte_def d xor_bytes_def Let_def)
qed

lemma gcm_stream_full:
  assumes "length pend + length s = 16" "s \<noteq> []" "\<And>b. length (E b) = 16"
  shows "gcm_stream E H enc s (c, pend, h) =
     (let out = xor_bytes (drop (length pend) (E c)) s
      in ((ctr_inc c, [], internal_aes_gcm_gfmul H (xor_bytes h (pend @ (if enc then out else s)))), out))"
proof -
  obtain ys y where s: "s = ys @ [y]" using assms(2) by (metis rev_exhaust)
  let ?o = "xor_bytes (take (length ys) (drop (length pend) (E c))) ys"
  have w: "gcm_stream E H enc ys (c, pend, h) = ((c, pend @ (if enc then ?o else ys), h), ?o)"
    using gcm_stream_within [of pend ys E H enc c h] assms by (simp add: s Let_def)
  have len: "length pend + length ys = 15" using assms(1) s by simp
  have "drop 15 (E c) = [E c ! 15]"
    using assms(3) [of c] Cons_nth_drop_Suc [of 15 "E c"] by simp
  then have d: "drop (length pend) (E c) = take (length ys) (drop (length pend) (E c)) @ [E c ! 15]"
    using len append_take_drop_id [of "length ys" "drop (length pend) (E c)"]
    by (simp add: add.commute)
  have o: "xor_bytes (drop (length pend) (E c)) s = ?o @ [E c ! 15 XOR y]"
    using len assms(3) [of c] by (subst d) (simp add: s xor_bytes_def)
  have l: "length (pend @ (if enc then ?o else ys)) = 15"
    using len assms(3) [of c] by auto
  have "gcm_stream E H enc s (c, pend, h) =
     (let (a, o1) = gcm_stream E H enc ys (c, pend, h); (a, o2) = gcm_stream E H enc [y] a in (a, o1 @ o2))"
    by (simp only: s gcm_stream_append)
  also have "\<dots> = ((ctr_inc c, [], internal_aes_gcm_gfmul H
      (xor_bytes h (pend @ (if enc then ?o @ [E c ! 15 XOR y] else s)))), ?o @ [E c ! 15 XOR y])"
    using l len w by (cases enc) (simp_all add: gcm_byte_def hash_byte_def Let_def s)
  finally show ?thesis by (simp add: o Let_def)
qed

section \<open>The buffered implementation computes the specification\<close>

text \<open>The relation between the specification's state and the implementation's.  In encryption mode the
  keystream of the current block is in \<^verbatim>\<open>buf_cryp\<close> and the counter is one ahead; in decryption mode the
  keystream is computed when the first byte of a block arrives.\<close>

definition gcm_rel ::
    "(bytes \<Rightarrow> bytes) \<Rightarrow> TEE_OperationMode \<Rightarrow> bytes \<times> bytes \<times> bytes \<Rightarrow> gcm_state \<Rightarrow> bool" where
  "gcm_rel E mode a st \<longleftrightarrow>
     (case a of (c, pend, h) \<Rightarrow>
        g_buf_pos st = length pend \<and> length pend < 16 \<and>
        length (g_buf_hash st) = 16 \<and> take (length pend) (g_buf_hash st) = pend \<and>
        g_hash_state st = h \<and>
        (if mode = TEE_MODE_ENCRYPT
         then g_ctr st = ctr_inc c \<and> length (g_buf_cryp st) = 16 \<and>
              drop (length pend) (g_buf_cryp st) = drop (length pend) (E c)
         else g_ctr st = c \<and>
              (pend \<noteq> [] \<longrightarrow> length (g_buf_cryp st) = 16 \<and>
                 drop (length pend) (g_buf_cryp st) = drop (length pend) (E c))))"

definition gcm_same :: "gcm_state \<Rightarrow> gcm_state \<Rightarrow> bool" where
  "gcm_same st st' \<longleftrightarrow>
     g_subkey st' = g_subkey st \<and> g_buf_tag st' = g_buf_tag st \<and> g_tag_len st' = g_tag_len st \<and>
     g_aad_bytes st' = g_aad_bytes st \<and> g_payload_bytes st' = g_payload_bytes st"

lemma drop_put_at:
  "pos + length s \<le> length buf \<Longrightarrow> drop (pos + length s) (put_at pos s buf) = drop (pos + length s) buf"
  by (simp add: put_at_def)

lemma mid_put_at:
  "pos \<le> length buf \<Longrightarrow> take (length s) (drop pos (put_at pos s buf)) = s"
  by (simp add: put_at_def)

lemma gcm_partial_same: "gcm_same st (fst (gcm_partial E mode s st))"
  by (simp add: gcm_same_def gcm_partial_def Let_def)

lemma gcm_block_done_same: "gcm_same st (gcm_block_done E mode st)"
  by (simp add: gcm_same_def gcm_block_done_def Let_def)

lemma gcm_same_trans: "gcm_same a b \<Longrightarrow> gcm_same b c \<Longrightarrow> gcm_same a c"
  by (simp add: gcm_same_def)

text \<open>The state after a partial block, spelled out over the keystream block \<open>E c\<close>.\<close>

lemma gcm_partial_eq:
  assumes rel: "gcm_rel E mode (c, pend, h) st" and n: "length pend + length s \<le> 16"
    and E: "\<And>b. length (E b) = 16" and mode: "mode \<in> {TEE_MODE_ENCRYPT, TEE_MODE_DECRYPT}"
  defines "out \<equiv> xor_bytes (take (length s) (drop (length pend) (E c))) s"
  defines "x \<equiv> (if mode = TEE_MODE_ENCRYPT then out else s)"
  shows "\<exists>cr bh. gcm_partial E mode s st =
     (st\<lparr>g_buf_cryp := cr, g_buf_hash := bh, g_buf_pos := length pend + length s\<rparr>, out) \<and>
     length bh = 16 \<and> take (length pend + length s) bh = pend @ x \<and>
     length cr = 16 \<and> drop (length pend + length s) cr = drop (length pend + length s) (E c)"
proof -
  let ?pos = "length pend"
  define k where "k = (if ?pos = 0 \<and> mode = TEE_MODE_DECRYPT then E (g_ctr st) else g_buf_cryp st)"
  have k: "length k = 16" "drop ?pos k = drop ?pos (E c)"
    using rel E mode by (auto simp: k_def gcm_rel_def split: if_splits)
  define cr where "cr = xor_buf ?pos s k"
  have lo: "length out = length s"
    using n E [of c] by (simp add: out_def)
  have cr: "cr = put_at ?pos out k"
    by (simp add: cr_def xor_buf_def out_def k)
  have o: "take (length s) (drop ?pos cr) = out"
    using mid_put_at [of ?pos k out] n k by (simp add: cr lo)
  define bh where "bh = put_at ?pos x (g_buf_hash st)"
  have lx: "length x = length s" by (simp add: x_def lo)
  have bh0: "length (g_buf_hash st) = 16" "take ?pos (g_buf_hash st) = pend" "g_buf_pos st = ?pos"
    using rel by (auto simp: gcm_rel_def)
  have "gcm_partial E mode s st =
     (st\<lparr>g_buf_cryp := cr, g_buf_hash := bh, g_buf_pos := ?pos + length s\<rparr>, out)"
  proof (cases "?pos = 0 \<and> mode = TEE_MODE_DECRYPT")
    case True
    then have "k = E (g_ctr st)" by (simp add: k_def)
    with True o show ?thesis
      by (simp add: gcm_partial_def Let_def bh0 cr_def bh_def x_def)
  next
    case False
    then have "k = g_buf_cryp st" unfolding k_def by (rule if_not_P)
    then have o': "take (length s) (drop ?pos (xor_buf ?pos s (g_buf_cryp st))) = out"
      using o by (simp add: cr_def)
    have "(if ?pos = 0 \<and> mode = TEE_MODE_DECRYPT then st\<lparr>g_buf_cryp := E (g_ctr st)\<rparr> else st) = st"
      using False by (rule if_not_P)
    with o' \<open>k = g_buf_cryp st\<close> show ?thesis
      unfolding gcm_partial_def Let_def bh0(3) by (simp add: cr_def bh_def x_def)
  qed
  moreover have "length bh = 16" "take (?pos + length s) bh = pend @ x"
    using n take_put_at [of ?pos "g_buf_hash st" x] bh0 by (simp_all add: bh_def lx)
  moreover have "length cr = 16"
    using n k by (simp add: cr lo)
  moreover have "drop (?pos + length s) cr = drop (length s) (drop ?pos (E c))"
    using n drop_put_at [of ?pos out k] by (simp add: cr lo k(1) add.commute flip: k(2))
  then have "drop (?pos + length s) cr = drop (?pos + length s) (E c)"
    by (simp add: add.commute)
  ultimately show ?thesis by blast
qed

lemma gcm_partial_within:
  assumes rel: "gcm_rel E mode (c, pend, h) st" and n: "length pend + length s < 16"
    and E: "\<And>b. length (E b) = 16" and mode: "mode \<in> {TEE_MODE_ENCRYPT, TEE_MODE_DECRYPT}"
    and s: "s \<noteq> []"
  shows "\<exists>st' out a'. gcm_partial E mode s st = (st', out) \<and>
     gcm_stream E H (mode = TEE_MODE_ENCRYPT) s (c, pend, h) = (a', out) \<and> gcm_rel E mode a' st' \<and>
     g_buf_pos st' = length pend + length s"
proof -
  from n have n': "length pend + length s \<le> 16" by simp
  from gcm_partial_eq [OF rel n' E mode] obtain cr bh where
    p: "gcm_partial E mode s st =
     (st\<lparr>g_buf_cryp := cr, g_buf_hash := bh, g_buf_pos := length pend + length s\<rparr>,
      xor_bytes (take (length s) (drop (length pend) (E c))) s)" and
    q: "length bh = 16" "take (length pend + length s) bh =
        pend @ (if mode = TEE_MODE_ENCRYPT then xor_bytes (take (length s) (drop (length pend) (E c))) s else s)"
       "length cr = 16" "drop (length pend + length s) cr = drop (length pend + length s) (E c)"
    by blast
  have "length s \<le> 16 - length pend" using n by simp
  then show ?thesis
    using rel n q E [of c] s
    by (auto simp: p gcm_stream_within [OF n E] Let_def gcm_rel_def min_def)
qed

lemma gcm_partial_full:
  assumes rel: "gcm_rel E mode (c, pend, h) st" and n: "length pend + length s = 16"
    and E: "\<And>b. length (E b) = 16" and mode: "mode \<in> {TEE_MODE_ENCRYPT, TEE_MODE_DECRYPT}"
  shows "\<exists>st' out a'. gcm_partial E mode s st = (st', out) \<and> g_buf_pos st' = 16 \<and>
     gcm_stream E (g_subkey st) (mode = TEE_MODE_ENCRYPT) s (c, pend, h) = (a', out) \<and>
     gcm_rel E mode a' (gcm_block_done E mode st')"
proof -
  from n have n': "length pend + length s \<le> 16" by simp
  from rel have s: "s \<noteq> []" using n by (auto simp: gcm_rel_def)
  from gcm_partial_eq [OF rel n' E mode] obtain cr bh where
    p: "gcm_partial E mode s st =
     (st\<lparr>g_buf_cryp := cr, g_buf_hash := bh, g_buf_pos := length pend + length s\<rparr>,
      xor_bytes (take (length s) (drop (length pend) (E c))) s)" and
    q: "length bh = 16" "take (length pend + length s) bh =
        pend @ (if mode = TEE_MODE_ENCRYPT then xor_bytes (take (length s) (drop (length pend) (E c))) s else s)"
       "length cr = 16"
    by blast
  have t: "take (length s) (drop (length pend) (E c)) = drop (length pend) (E c)"
    using n E [of c] by simp
  show ?thesis
    using rel n q E
    by (auto simp: p t gcm_stream_full [OF n s E] Let_def gcm_rel_def gcm_block_done_def inc_ctr_eq
        internal_aes_gcm_ghash_update_def ghash_update_block_def)
qed

lemma encrypt_block_rel:
  assumes "gcm_rel E TEE_MODE_ENCRYPT (c, [], h) st" "length s = 16" "\<And>b. length (E b) = 16"
  shows "\<exists>st' out a'. encrypt_block E s st = (st', out) \<and>
     gcm_stream E (g_subkey st) True s (c, [], h) = (a', out) \<and> fst (snd a') = [] \<and>
     gcm_rel E TEE_MODE_ENCRYPT a' st' \<and> gcm_same st st'"
proof -
  have "s \<noteq> []" using assms(2) by auto
  then show ?thesis
    using assms gcm_stream_full [of "[]" s E "g_subkey st" True c h]
    by (auto simp: encrypt_block_def Let_def gcm_rel_def inc_ctr_eq gcm_same_def
        internal_aes_gcm_ghash_update_def ghash_update_block_def)
qed

lemma decrypt_block_rel:
  assumes "gcm_rel E TEE_MODE_DECRYPT (c, [], h) st" "length s = 16" "\<And>b. length (E b) = 16"
  shows "\<exists>st' out a'. decrypt_block E s st = (st', out) \<and>
     gcm_stream E (g_subkey st) False s (c, [], h) = (a', out) \<and> fst (snd a') = [] \<and>
     gcm_rel E TEE_MODE_DECRYPT a' st' \<and> gcm_same st st'"
proof -
  have "s \<noteq> []" using assms(2) by auto
  then show ?thesis
    using assms gcm_stream_full [of "[]" s E "g_subkey st" False c h]
    by (auto simp: decrypt_block_def Let_def gcm_rel_def inc_ctr_eq gcm_same_def
        internal_aes_gcm_ghash_update_def ghash_update_block_def)
qed

lemma pl_blocks_rel:
  assumes f: "\<And>c h s st. gcm_rel E mode (c, [], h) st \<Longrightarrow> length s = 16 \<Longrightarrow>
     \<exists>st' out a'. f s st = (st', out) \<and> gcm_stream E (g_subkey st) (mode = TEE_MODE_ENCRYPT) s (c, [], h) = (a', out) \<and>
       fst (snd a') = [] \<and> gcm_rel E mode a' st' \<and> gcm_same st st'"
    and "gcm_rel E mode (c, [], h) st" "16 * n \<le> length s"
  shows "\<exists>st' out a'. pl_blocks f s n st = (st', out) \<and>
     gcm_stream E (g_subkey st) (mode = TEE_MODE_ENCRYPT) (take (16 * n) s) (c, [], h) = (a', out) \<and>
     fst (snd a') = [] \<and> gcm_rel E mode a' st' \<and> gcm_same st st'"
  using assms(2,3)
proof (induction n arbitrary: c h st s)
  case 0
  then show ?case by (auto simp: gcm_same_def)
next
  case (Suc n)
  then have l: "length (take 16 s) = 16" by simp
  from f [OF Suc.prems(1) l] obtain st1 o1 a1 where
    a1: "f (take 16 s) st = (st1, o1)"
       "gcm_stream E (g_subkey st) (mode = TEE_MODE_ENCRYPT) (take 16 s) (c, [], h) = (a1, o1)"
       "fst (snd a1) = []" "gcm_rel E mode a1 st1" "gcm_same st st1"
    by blast
  obtain c1 p1 h1 where a1_eq: "a1 = (c1, p1, h1)" by (cases a1)
  with a1 have
    1: "f (take 16 s) st = (st1, o1)"
       "gcm_stream E (g_subkey st) (mode = TEE_MODE_ENCRYPT) (take 16 s) (c, [], h) = ((c1, [], h1), o1)"
       "gcm_rel E mode (c1, [], h1) st1" "gcm_same st st1"
    by simp_all
  have "16 * n \<le> length (drop 16 s)" using Suc.prems(2) by simp
  from Suc.IH [OF 1(3) this] obtain st2 o2 a2 where
    2: "pl_blocks f (drop 16 s) n st1 = (st2, o2)"
       "gcm_stream E (g_subkey st1) (mode = TEE_MODE_ENCRYPT) (take (16 * n) (drop 16 s)) (c1, [], h1) = (a2, o2)"
       "fst (snd a2) = []" "gcm_rel E mode a2 st2" "gcm_same st1 st2"
    by blast
  have "take (16 * Suc n) s = take 16 s @ take (16 * n) (drop 16 s)"
    by (simp add: take_add)
  moreover have "g_subkey st1 = g_subkey st" using 1(4) by (simp add: gcm_same_def)
  ultimately have "gcm_stream E (g_subkey st) (mode = TEE_MODE_ENCRYPT) (take (16 * Suc n) s) (c, [], h) = (a2, o1 @ o2)"
    using 1(2) 2(2) by (simp add: gcm_stream_append)
  moreover have "pl_blocks f s (Suc n) st = (st2, o1 @ o2)"
    using 1(1) 2(1) by simp
  ultimately show ?case
    using 2(3,4) gcm_same_trans [OF 1(4) 2(5)] by blast
qed

lemma payload_blocks_rel:
  assumes "gcm_rel E mode (c, [], h) st" "16 * n \<le> length s" "\<And>b. length (E b) = 16"
    "mode \<in> {TEE_MODE_ENCRYPT, TEE_MODE_DECRYPT}"
  shows "\<exists>st' out a'. internal_aes_gcm_update_payload_blocks E mode s n st = (st', out) \<and>
     gcm_stream E (g_subkey st) (mode = TEE_MODE_ENCRYPT) (take (16 * n) s) (c, [], h) = (a', out) \<and>
     gcm_rel E mode a' st' \<and> gcm_same st st'"
proof (cases "mode = TEE_MODE_ENCRYPT")
  case True
  have "\<exists>st' out a'. pl_blocks (encrypt_block E) s n st = (st', out) \<and>
     gcm_stream E (g_subkey st) (mode = TEE_MODE_ENCRYPT) (take (16 * n) s) (c, [], h) = (a', out) \<and>
     fst (snd a') = [] \<and> gcm_rel E mode a' st' \<and> gcm_same st st'"
    using encrypt_block_rel [OF _ _ assms(3)] True
    by (intro pl_blocks_rel [OF _ assms(1,2)]) simp
  moreover have "internal_aes_gcm_update_payload_blocks E mode s n st = pl_blocks (encrypt_block E) s n st"
    using True by (simp add: internal_aes_gcm_update_payload_blocks_def)
  ultimately show ?thesis by (simp only:) blast
next
  case False
  with assms(4) have d: "mode = TEE_MODE_DECRYPT" by simp
  have "\<exists>st' out a'. pl_blocks (decrypt_block E) s n st = (st', out) \<and>
     gcm_stream E (g_subkey st) (mode = TEE_MODE_ENCRYPT) (take (16 * n) s) (c, [], h) = (a', out) \<and>
     fst (snd a') = [] \<and> gcm_rel E mode a' st' \<and> gcm_same st st'"
    using decrypt_block_rel [OF _ _ assms(3)] d
    by (intro pl_blocks_rel [OF _ assms(1,2)]) simp
  moreover have "internal_aes_gcm_update_payload_blocks E mode s n st = pl_blocks (decrypt_block E) s n st"
    using False by (simp add: internal_aes_gcm_update_payload_blocks_def)
  ultimately show ?thesis by (simp only:) blast
qed

lemma gcm_payload_loop_rel:
  assumes E: "\<And>b. length (E b) = 16" and mode: "mode \<in> {TEE_MODE_ENCRYPT, TEE_MODE_DECRYPT}"
  shows "gcm_rel E mode a st \<Longrightarrow>
    \<exists>st' out a'. gcm_payload_loop E mode s st = (st', out) \<and>
      gcm_stream E (g_subkey st) (mode = TEE_MODE_ENCRYPT) s a = (a', out) \<and>
      gcm_rel E mode a' st' \<and> gcm_same st st'"
  using E mode
proof (induction E mode s st arbitrary: a rule: gcm_payload_loop.induct)
  case (1 E mode s st)
  obtain c pend h where a: "a = (c, pend, h)" by (cases a)
  note rel = 1(3) [unfolded a] and E = 1(4) and mode = 1(5)
  have pos: "g_buf_pos st = length pend" "length pend < 16"
    using rel by (auto simp: gcm_rel_def)
  consider (nil) "s = []" | (part) "s \<noteq> []" "g_buf_pos st \<noteq> 0 \<or> length s < 16"
    | (blocks) "s \<noteq> []" "\<not> (g_buf_pos st \<noteq> 0 \<or> length s < 16)" by blast
  then show ?case
  proof cases
    case nil
    with 1(3) show ?thesis by (simp add: gcm_payload_loop.simps gcm_same_def)
  next
    case part
    define n where "n = min (16 - g_buf_pos st) (length s)"
    have n: "n \<noteq> 0" "n \<le> length s" "length (take n s) = n" "take n s \<noteq> []"
      "length pend + n \<le> 16"
      using part pos by (auto simp: n_def)
    show ?thesis
    proof (cases "length pend + n = 16")
      case False
      then have ns: "take n s = s" "length pend + length s < 16"
        using n pos by (auto simp: n_def min_def split: if_splits)
      from gcm_partial_within [OF rel ns(2) E mode part(1)] obtain st' out a' where
        p: "gcm_partial E mode s st = (st', out)"
           "gcm_stream E (g_subkey st) (mode = TEE_MODE_ENCRYPT) s (c, pend, h) = (a', out)"
           "gcm_rel E mode a' st'" "g_buf_pos st' = length pend + length s"
        by blast
      have "gcm_payload_loop E mode s st = (st', out)"
        using part ns p(1,4) n(5)
        by (subst gcm_payload_loop.simps) (simp add: Let_def flip: n_def)
      with p gcm_partial_same [of st E mode s] show ?thesis by (auto simp: a)
    next
      case True
      with n have l16: "length pend + length (take n s) = 16" by simp
      from gcm_partial_full [OF rel l16 E mode] obtain st1 o1 a1 where
        p: "gcm_partial E mode (take n s) st = (st1, o1)" "g_buf_pos st1 = 16"
           "gcm_stream E (g_subkey st) (mode = TEE_MODE_ENCRYPT) (take n s) (c, pend, h) = (a1, o1)"
           "gcm_rel E mode a1 (gcm_block_done E mode st1)"
        by blast
      have same: "gcm_same st (gcm_block_done E mode st1)"
        using gcm_same_trans [OF gcm_partial_same [of st E mode "take n s"] gcm_block_done_same] p(1)
        by simp
      have "\<exists>st' out a'. gcm_payload_loop E mode (drop n s) (gcm_block_done E mode st1) = (st', out) \<and>
        gcm_stream E (g_subkey (gcm_block_done E mode st1)) (mode = TEE_MODE_ENCRYPT) (drop n s) a1 = (a', out) \<and>
        gcm_rel E mode a' st' \<and> gcm_same (gcm_block_done E mode st1) st'"
        using 1(1) [OF part n_def refl p(1) [symmetric] _ p(4) E mode] p(2) by simp
      then obtain st2 o2 a2 where
        q: "gcm_payload_loop E mode (drop n s) (gcm_block_done E mode st1) = (st2, o2)"
           "gcm_stream E (g_subkey st) (mode = TEE_MODE_ENCRYPT) (drop n s) a1 = (a2, o2)"
           "gcm_rel E mode a2 st2" "gcm_same (gcm_block_done E mode st1) st2"
        using same by (auto simp: gcm_same_def)
      have "gcm_payload_loop E mode s st = (st2, o1 @ o2)"
        using part p(1,2) q(1)
        by (subst gcm_payload_loop.simps) (simp add: Let_def flip: n_def)
      moreover have "gcm_stream E (g_subkey st) (mode = TEE_MODE_ENCRYPT) s a = (a2, o1 @ o2)"
        using gcm_stream_append [of E "g_subkey st" "mode = TEE_MODE_ENCRYPT" "take n s" "drop n s" a] p(3) q(2)
        by (simp add: a)
      ultimately show ?thesis
        using q(3) gcm_same_trans [OF same q(4)] by blast
    qed
  next
    case blocks
    then have pend: "pend = []" using pos by simp
    define n where "n = length s div 16"
    have "16 * n \<le> length s" by (simp add: n_def)
    from payload_blocks_rel [OF rel [unfolded pend] this E mode] obtain st1 o1 a1 where
      p: "internal_aes_gcm_update_payload_blocks E mode s n st = (st1, o1)"
         "gcm_stream E (g_subkey st) (mode = TEE_MODE_ENCRYPT) (take (16 * n) s) (c, [], h) = (a1, o1)"
         "gcm_rel E mode a1 st1" "gcm_same st st1"
      by blast
    have "\<exists>st' out a'. gcm_payload_loop E mode (drop (16 * n) s) st1 = (st', out) \<and>
        gcm_stream E (g_subkey st1) (mode = TEE_MODE_ENCRYPT) (drop (16 * n) s) a1 = (a', out) \<and>
        gcm_rel E mode a' st' \<and> gcm_same st1 st'"
      using 1(2) [OF blocks n_def refl p(1) [symmetric] p(3) E mode] by simp
    then obtain st2 o2 a2 where
      q: "gcm_payload_loop E mode (drop (16 * n) s) st1 = (st2, o2)"
         "gcm_stream E (g_subkey st) (mode = TEE_MODE_ENCRYPT) (drop (16 * n) s) a1 = (a2, o2)"
         "gcm_rel E mode a2 st2" "gcm_same st1 st2"
      using p(4) by (auto simp: gcm_same_def)
    have "gcm_payload_loop E mode s st = (st2, o1 @ o2)"
      using blocks p(1) q(1)
      by (subst gcm_payload_loop.simps) (simp add: Let_def flip: n_def)
    moreover have "gcm_stream E (g_subkey st) (mode = TEE_MODE_ENCRYPT) s a = (a2, o1 @ o2)"
      using gcm_stream_append [of E "g_subkey st" "mode = TEE_MODE_ENCRYPT" "take (16 * n) s" "drop (16 * n) s" a]
        p(2) q(2) by (simp add: a pend)
    ultimately show ?thesis
      using q(3) gcm_same_trans [OF p(4) q(4)] by blast
  qed
qed

section \<open>Hashing the additional data does not depend on its alignment\<close>

definition aad_rel :: "bytes \<times> bytes \<Rightarrow> gcm_state \<Rightarrow> bool" where
  "aad_rel ph st \<longleftrightarrow>
     (case ph of (pend, h) \<Rightarrow>
        g_buf_pos st = length pend \<and> length pend < 16 \<and>
        length (g_buf_hash st) = 16 \<and> take (length pend) (g_buf_hash st) = pend \<and> g_hash_state st = h)"

definition aad_same :: "gcm_state \<Rightarrow> gcm_state \<Rightarrow> bool" where
  "aad_same st st' \<longleftrightarrow> gcm_same st st' \<and> g_ctr st' = g_ctr st \<and> g_buf_cryp st' = g_buf_cryp st"

lemma aad_same_trans: "aad_same a b \<Longrightarrow> aad_same b c \<Longrightarrow> aad_same a c"
  by (simp add: aad_same_def gcm_same_def)

lemma aad_same_ghash_update: "aad_same st (internal_aes_gcm_ghash_update head l m st)"
  by (simp add: aad_same_def gcm_same_def)

lemma ghash_blocks:
  "16 * m \<le> length l \<Longrightarrow>
   ([], g_hash_state (internal_aes_gcm_ghash_update None l m st)) =
     hash_stream (g_subkey st) (take (16 * m) l) ([], g_hash_state st)"
proof (induction m)
  case 0
  then show ?case by (simp add: internal_aes_gcm_ghash_update_def)
next
  case (Suc m)
  have "take (16 * Suc m) l = take (16 * m) l @ block_at l m"
    by (simp add: block_at_def add.commute flip: take_add)
  moreover have "length (block_at l m) = 16" using Suc.prems by (simp add: block_at_def)
  moreover have "block_at l m \<noteq> []" using calculation(2) by auto
  moreover have "internal_aes_gcm_ghash_update None l (Suc m) st =
      ghash_update_block (block_at l m) (internal_aes_gcm_ghash_update None l m st)"
    by (simp add: internal_aes_gcm_ghash_update_def)
  ultimately show ?case
    using Suc by (simp add: hash_stream_append hash_stream_full ghash_update_block_def
        flip: Suc.IH)
qed

lemma ghash_update_Some:
  "internal_aes_gcm_ghash_update (Some b) l m st =
     internal_aes_gcm_ghash_update None l m (ghash_update_block b st)"
  by (simp add: internal_aes_gcm_ghash_update_def)

lemma gcm_aad_loop_part:
  assumes "l \<noteq> []" "g_buf_pos st \<noteq> 0 \<or> \<not> ptr_is_block_aligned d \<or> length l < 16"
    "n = min (16 - g_buf_pos st) (length l)"
    "st1 = st\<lparr>g_buf_hash := put_at (g_buf_pos st) (take n l) (g_buf_hash st),
              g_buf_pos := g_buf_pos st + n\<rparr>"
    "m = (if ptr_is_block_aligned (d + n) then length (drop n l) div 16 else 0)"
  shows "gcm_aad_loop d head l st =
     (if g_buf_pos st1 \<noteq> 16 then st1
      else gcm_aad_loop (d + n + 16 * m) (Some (g_buf_hash st1)) (drop (16 * m) (drop n l))
             (internal_aes_gcm_ghash_update (Some (g_buf_hash st1)) (drop n l) m (st1\<lparr>g_buf_pos := 0\<rparr>)))"
  using assms(1,2) unfolding assms(3-5)
  by (subst gcm_aad_loop.simps) (simp only: Let_def if_True if_False gcm_state.simps)

lemma gcm_aad_loop_rel:
  "aad_rel ph st \<Longrightarrow> head = None \<or> \<not> ptr_is_block_aligned d \<or> length l < 16 \<Longrightarrow>
     aad_rel (hash_stream (g_subkey st) l ph) (gcm_aad_loop d head l st) \<and>
     aad_same st (gcm_aad_loop d head l st)"
proof (induction d head l st arbitrary: ph rule: gcm_aad_loop.induct)
  case (1 d head l st)
  obtain pend h where ph: "ph = (pend, h)" by (cases ph)
  note rel = 1(3) [unfolded ph aad_rel_def, simplified]
  consider (nil) "l = []"
    | (part) "l \<noteq> []" "g_buf_pos st \<noteq> 0 \<or> \<not> ptr_is_block_aligned d \<or> length l < 16"
    | (blocks) "l \<noteq> []" "\<not> (g_buf_pos st \<noteq> 0 \<or> \<not> ptr_is_block_aligned d \<or> length l < 16)"
    by blast
  then show ?case
  proof cases
    case nil
    with 1(3) show ?thesis by (simp add: gcm_aad_loop.simps aad_same_def gcm_same_def)
  next
    case part
    define n where "n = min (16 - g_buf_pos st) (length l)"
    define bh where "bh = put_at (g_buf_pos st) (take n l) (g_buf_hash st)"
    define st1 where "st1 = st\<lparr>g_buf_hash := bh, g_buf_pos := g_buf_pos st + n\<rparr>"
    have n: "n \<noteq> 0" "n \<le> length l" "length pend + n \<le> 16"
      using part rel by (auto simp: n_def)
    have bh: "length bh = 16" "take (length pend + n) bh = pend @ take n l"
      using rel n take_put_at [of "length pend" "g_buf_hash st" "take n l"] by (auto simp: bh_def)
    show ?thesis
    proof (cases "length pend + n = 16")
      case False
      then have "n = length l" using rel by (auto simp: n_def min_def split: if_splits)
      then have "length pend + length l < 16" using n False by simp
      moreover have "gcm_aad_loop d head l st = st1"
        using gcm_aad_loop_part [OF part n_def st1_def [unfolded bh_def] refl] False rel
        by (simp add: st1_def)
      ultimately show ?thesis
        using rel bh \<open>n = length l\<close>
        by (simp add: ph hash_stream_within aad_rel_def st1_def aad_same_def gcm_same_def)
    next
      case True
      define l2 where "l2 = drop n l"
      define m where "m = (if ptr_is_block_aligned (d + n) then length l2 div 16 else 0)"
      define st2 where "st2 = internal_aes_gcm_ghash_update (Some bh) l2 m (st1\<lparr>g_buf_pos := 0\<rparr>)"
      have bh': "bh = pend @ take n l" using bh True by simp
      have m: "16 * m \<le> length l2" by (simp add: m_def)
      have loop: "gcm_aad_loop d head l st = gcm_aad_loop (d + n + 16 * m) (Some bh) (drop (16 * m) l2) st2"
        using gcm_aad_loop_part [OF part n_def st1_def [unfolded bh_def] m_def [unfolded l2_def]] True rel
        by (simp add: st2_def st1_def l2_def)
      have "take n l \<noteq> []" using n by auto
      then have hs: "hash_stream (g_subkey st) (take n l) ph
            = ([], internal_aes_gcm_gfmul (g_subkey st) (xor_bytes h bh))"
        using True n rel by (simp add: ph hash_stream_full bh')
      have hs2: "hash_stream (g_subkey st) (take (16 * m) l2)
            ([], internal_aes_gcm_gfmul (g_subkey st) (xor_bytes h bh)) = ([], g_hash_state st2)"
        using ghash_blocks [OF m, of "ghash_update_block bh (st1\<lparr>g_buf_pos := 0\<rparr>)"] rel
        by (simp add: st2_def ghash_update_Some st1_def ghash_update_block_def)
      have rel2: "aad_rel ([], g_hash_state st2) st2"
        using bh by (simp add: aad_rel_def st2_def st1_def)
      have inv: "\<not> ptr_is_block_aligned (d + n + 16 * m) \<or> length (drop (16 * m) l2) < 16"
        by (auto simp: m_def ptr_is_block_aligned_def minus_mult_div_eq_mod)
      have b1: "Some bh = Some (g_buf_hash st1)" by (simp add: st1_def)
      have "aad_same st st2"
        by (simp add: st2_def st1_def aad_same_def gcm_same_def)
      moreover have "aad_rel (hash_stream (g_subkey st2) (drop (16 * m) l2) ([], g_hash_state st2))
             (gcm_aad_loop (d + n + 16 * m) (Some bh) (drop (16 * m) l2) st2) \<and>
           aad_same st2 (gcm_aad_loop (d + n + 16 * m) (Some bh) (drop (16 * m) l2) st2)"
        by (rule 1(1) [OF part n_def st1_def [unfolded bh_def] _ b1 refl refl l2_def m_def,
              folded st2_def, OF _ rel2 disjI2 [OF inv]]) (use True rel in \<open>simp add: st1_def\<close>)
      moreover have "g_subkey st2 = g_subkey st" using \<open>aad_same st st2\<close> by (simp add: aad_same_def gcm_same_def)
      moreover have "l = take n l @ take (16 * m) l2 @ drop (16 * m) l2"
        by (simp only: append_take_drop_id l2_def)
      then have "hash_stream (g_subkey st) l ph
          = hash_stream (g_subkey st) (drop (16 * m) l2) ([], g_hash_state st2)"
        using hs hs2 hash_stream_append by metis
      ultimately show ?thesis
        using loop aad_same_trans by metis
    qed
  next
    case blocks
    define m where "m = length l div 16"
    define st2 where "st2 = internal_aes_gcm_ghash_update None l m st"
    have head: "head = None" using 1(4) blocks by auto
    have pend: "pend = []" using blocks rel by simp
    have m: "16 * m \<le> length l" by (simp add: m_def)
    have loop: "gcm_aad_loop d head l st = gcm_aad_loop (d + 16 * m) None (drop (16 * m) l) st2"
      using blocks head by (subst gcm_aad_loop.simps) (simp add: Let_def st2_def m_def)
    have hs2: "hash_stream (g_subkey st) (take (16 * m) l) ph = ([], g_hash_state st2)"
      using ghash_blocks [OF m, of st] rel by (simp add: st2_def ph pend)
    have rel2: "aad_rel ([], g_hash_state st2) st2"
      using rel pend by (simp add: aad_rel_def st2_def)
    have same: "aad_same st st2" by (simp add: st2_def aad_same_ghash_update)
    have "aad_rel (hash_stream (g_subkey st2) (drop (16 * m) l) ([], g_hash_state st2))
           (gcm_aad_loop (d + 16 * m) None (drop (16 * m) l) st2) \<and>
         aad_same st2 (gcm_aad_loop (d + 16 * m) None (drop (16 * m) l) st2)"
      using 1(2) [OF blocks m_def] rel2 head by (simp add: st2_def)
    moreover have "g_subkey st2 = g_subkey st" using same by (simp add: aad_same_def gcm_same_def)
    moreover have "hash_stream (g_subkey st) l ph
        = hash_stream (g_subkey st) (drop (16 * m) l) ([], g_hash_state st2)"
      using hs2 hash_stream_append append_take_drop_id by metis
    ultimately show ?thesis
      using loop same aad_same_trans by metis
  qed
qed

section \<open>Specification of a whole operation\<close>

definition gcm_pad :: "bytes \<Rightarrow> bytes \<times> bytes \<Rightarrow> bytes" where
  "gcm_pad H ph =
     (if fst ph = [] then snd ph else snd (hash_stream H (replicate (16 - length (fst ph)) 0) ph))"

definition gcm_j0 :: "bytes \<Rightarrow> bytes \<Rightarrow> bytes" where
  "gcm_j0 H nonce =
     (if length nonce = 12 then ctr_inc (put_at 0 nonce zero_block)
      else g_hash_state (ghash_update_lengths 0 (length nonce)
             (ghash_update_pad_zero nonce (gcm_zero\<lparr>g_subkey := H\<rparr>))))"

definition gcm_len_block :: "nat \<Rightarrow> nat \<Rightarrow> bytes" where
  "gcm_len_block l1 l2 = be64 (l1 mod 2 ^ 32 * 8 mod 2 ^ 32) @ be64 (l2 mod 2 ^ 32 * 8 mod 2 ^ 32)"

text \<open>The output and the full tag of AES-GCM with the block cipher \<open>E\<close>.\<close>

definition gcm_spec :: "(bytes \<Rightarrow> bytes) \<Rightarrow> bool \<Rightarrow> bytes \<Rightarrow> bytes \<Rightarrow> bytes \<Rightarrow> bytes \<times> bytes" where
  "gcm_spec E enc nonce aad src =
     (let H = E zero_block; j0 = gcm_j0 H nonce;
          h1 = gcm_pad H (hash_stream H aad ([], zero_block));
          (a, out) = gcm_stream E H enc src (ctr_inc j0, [], h1);
          h2 = gcm_pad H (snd a);
          h3 = internal_aes_gcm_gfmul H (xor_bytes h2 (gcm_len_block (length aad) (length src)))
      in (out, xor_bytes (E j0) h3))"

text \<open>The state after \<^verbatim>\<open>__gcm_init\<close> and \<^verbatim>\<open>__gcm_update_aad\<close>, ready for the payload.\<close>

definition gcm_ready :: "(bytes \<Rightarrow> bytes) \<Rightarrow> TEE_OperationMode \<Rightarrow> bytes \<Rightarrow> bytes \<Rightarrow> nat \<Rightarrow> gcm_state \<Rightarrow> bool" where
  "gcm_ready E mode nonce aad tag_len st \<longleftrightarrow>
     (let H = E zero_block; j0 = gcm_j0 H nonce in
        g_subkey st = H \<and> g_buf_tag st = E j0 \<and> g_tag_len st = tag_len \<and>
        g_aad_bytes st = length aad mod 2 ^ 32 \<and> g_payload_bytes st = 0 \<and>
        aad_rel (hash_stream H aad ([], zero_block)) st \<and>
        (if mode = TEE_MODE_ENCRYPT
         then g_ctr st = ctr_inc (ctr_inc j0) \<and> g_buf_cryp st = E (ctr_inc j0)
         else g_ctr st = ctr_inc j0))"

lemma ghash_state_cong:
  "g_hash_state st = g_hash_state st' \<Longrightarrow> g_subkey st = g_subkey st' \<Longrightarrow>
   g_hash_state (internal_aes_gcm_ghash_update head l m st) =
   g_hash_state (internal_aes_gcm_ghash_update head l m st')"
proof -
  assume eq: "g_hash_state st = g_hash_state st'" "g_subkey st = g_subkey st'"
  have fold_cong: "g_hash_state u = g_hash_state u' \<Longrightarrow> g_subkey u = g_subkey u' \<Longrightarrow>
     g_hash_state (fold (\<lambda>n. ghash_update_block (block_at l n)) ns u) =
     g_hash_state (fold (\<lambda>n. ghash_update_block (block_at l n)) ns u')" for ns u u'
    by (induction ns arbitrary: u u') (simp_all add: ghash_update_block_def)
  show ?thesis
    unfolding internal_aes_gcm_ghash_update_def
    by (cases head) (use eq in \<open>auto simp: ghash_update_block_def intro!: fold_cong\<close>)
qed

lemma ghash_pad_zero_frame [simp]:
  "g_subkey (ghash_update_pad_zero d st) = g_subkey st" "g_tag_len (ghash_update_pad_zero d st) = g_tag_len st"
  "g_buf_pos (ghash_update_pad_zero d st) = g_buf_pos st" "g_buf_hash (ghash_update_pad_zero d st) = g_buf_hash st"
  "g_aad_bytes (ghash_update_pad_zero d st) = g_aad_bytes st"
  "g_payload_bytes (ghash_update_pad_zero d st) = g_payload_bytes st"
  by (simp_all add: ghash_update_pad_zero_def Let_def)

lemma ghash_lengths_frame [simp]:
  "g_subkey (ghash_update_lengths l1 l2 st) = g_subkey st" "g_tag_len (ghash_update_lengths l1 l2 st) = g_tag_len st"
  "g_buf_pos (ghash_update_lengths l1 l2 st) = g_buf_pos st" "g_buf_hash (ghash_update_lengths l1 l2 st) = g_buf_hash st"
  "g_aad_bytes (ghash_update_lengths l1 l2 st) = g_aad_bytes st"
  "g_payload_bytes (ghash_update_lengths l1 l2 st) = g_payload_bytes st"
  "g_buf_tag (ghash_update_lengths l1 l2 st) = g_buf_tag st"
  by (simp_all add: ghash_update_lengths_def)

lemma pad_zero_cong:
  "g_hash_state st = g_hash_state st' \<Longrightarrow> g_subkey st = g_subkey st' \<Longrightarrow>
   g_hash_state (ghash_update_pad_zero d st) = g_hash_state (ghash_update_pad_zero d st')"
  by (auto simp: ghash_update_pad_zero_def Let_def intro!: ghash_state_cong)

lemma nonce_hash_cong:
  assumes "g_hash_state st = zero_block" "g_subkey st = H"
  shows "g_hash_state (ghash_update_lengths 0 n (ghash_update_pad_zero nonce st)) =
    g_hash_state (ghash_update_lengths 0 n (ghash_update_pad_zero nonce (gcm_zero\<lparr>g_subkey := H\<rparr>)))"
proof -
  have "g_hash_state (gcm_zero\<lparr>g_subkey := H\<rparr>) = zero_block" "g_subkey (gcm_zero\<lparr>g_subkey := H\<rparr>) = H"
    by (simp_all add: gcm_zero_def)
  with assms show ?thesis
    unfolding ghash_update_lengths_def by (intro ghash_state_cong pad_zero_cong) simp_all
qed

lemma gcm_init_ready:
  assumes "tag_len \<le> 16"
  obtains st where "gcm_init E mode nonce tag_len = Inr st" "gcm_ready E mode nonce [] tag_len st"
proof -
  let ?s = "internal_aes_gcm_set_key E (gcm_zero\<lparr>g_tag_len := tag_len\<rparr>)"
  have s: "g_hash_state ?s = zero_block" "g_subkey ?s = E zero_block"
    by (simp_all add: internal_aes_gcm_set_key_def gcm_zero_def)
  have "\<exists>st. gcm_init E mode nonce tag_len = Inr st \<and> gcm_ready E mode nonce [] tag_len st"
    using assms nonce_hash_cong [OF s]
    by (simp add: gcm_init_def Let_def gcm_ready_def inc_ctr_eq gcm_j0_def aad_rel_def)
      (simp add: internal_aes_gcm_set_key_def gcm_zero_def)
  then show ?thesis using that by blast
qed

lemma gcm_update_aad_ready:
  assumes "gcm_ready E mode nonce aad tag_len st"
  obtains st' where "gcm_update_aad addr ext st = Inr st'"
    "gcm_ready E mode nonce (aad @ ext) tag_len st'"
proof -
  let ?s = "st\<lparr>g_aad_bytes := (g_aad_bytes st + length ext) mod 2 ^ 32\<rparr>"
  have "aad_rel (hash_stream (E zero_block) aad ([], zero_block)) ?s"
    using assms by (simp add: gcm_ready_def Let_def aad_rel_def)
  from gcm_aad_loop_rel [OF this, of None addr ext]
  have "aad_rel (hash_stream (E zero_block) (aad @ ext) ([], zero_block)) (gcm_aad_loop addr None ext ?s)"
    "aad_same ?s (gcm_aad_loop addr None ext ?s)"
    using assms by (simp_all add: gcm_ready_def Let_def hash_stream_append)
  then show ?thesis
    using assms that
    by (auto simp: gcm_ready_def Let_def gcm_update_aad_def aad_same_def gcm_same_def mod_simps)
qed

end
