(* ===== verification/Aes_Gcm_Stream.thy ===== *)
theory Aes_Gcm_Stream
  imports Aes_Gcm
begin

text \<open>
  Correctness of the streaming AES-GCM interface of \<^verbatim>\<open>core/crypto/aes-gcm.c\<close>: whatever the
  segmentation of the additional data and of the payload, the output and the tag are those of
  \<^const>\<open>gcm_spec\<close>, the one-shot operations are instances, and decryption inverts encryption.
\<close>

text \<open>The state in the middle of the payload, after the input \<open>xs\<close>.\<close>

definition gcm_mid ::
    "(bytes \<Rightarrow> bytes) \<Rightarrow> TEE_OperationMode \<Rightarrow> bytes \<Rightarrow> bytes \<Rightarrow> nat \<Rightarrow> bytes \<Rightarrow> gcm_state \<Rightarrow> bool" where
  "gcm_mid E mode nonce aad tag_len xs st \<longleftrightarrow>
     (let H = E zero_block; j0 = gcm_j0 H nonce;
          h1 = gcm_pad H (hash_stream H aad ([], zero_block)) in
        g_subkey st = H \<and> g_buf_tag st = E j0 \<and> g_tag_len st = tag_len \<and>
        g_aad_bytes st = length aad mod 2 ^ 32 \<and> g_payload_bytes st = length xs mod 2 ^ 32 \<and>
        gcm_rel E mode (fst (gcm_stream E H (mode = TEE_MODE_ENCRYPT) xs (ctr_inc j0, [], h1))) st)"

lemma gcm_stream_pend:
  "length (fst (snd a)) < 16 \<Longrightarrow>
   length (fst (snd (fst (gcm_stream E H enc s a)))) = (length (fst (snd a)) + length s) mod 16"
proof (induction s arbitrary: a)
  case Nil
  then show ?case by simp
next
  case (Cons p s)
  obtain c ph where a: "a = (c, ph)" by (cases a)
  have b: "length (fst (snd (fst (gcm_byte E H enc p a)))) = (length (fst ph) + 1) mod 16"
    using Cons.prems hash_byte_pend [of ph] by (simp add: a gcm_byte_def Let_def)
  then have "length (fst (snd (fst (gcm_byte E H enc p a)))) < 16" by simp
  from Cons.IH [OF this] b show ?case
    by (cases "gcm_byte E H enc p a"; cases "gcm_stream E H enc s (fst (gcm_byte E H enc p a))")
      (simp add: a mod_simps add_ac)
qed

lemma gcm_rel_payload_bytes [simp]:
  "gcm_rel E mode a (st\<lparr>g_payload_bytes := n\<rparr>) = gcm_rel E mode a st"
  by (cases a) (simp add: gcm_rel_def)

lemma fst_gcm_stream_append:
  "fst (gcm_stream E H enc (xs @ ys) a) = fst (gcm_stream E H enc ys (fst (gcm_stream E H enc xs a)))"
  by (cases "gcm_stream E H enc xs a"; cases "gcm_stream E H enc ys (fst (gcm_stream E H enc xs a))")
    (simp add: gcm_stream_append Let_def)

lemma gcm_mid_step:
  assumes E: "\<And>b. length (E b) = 16" and mode: "mode \<in> {TEE_MODE_ENCRYPT, TEE_MODE_DECRYPT}"
    and mid: "gcm_mid E mode nonce aad tag_len xs st"
  obtains st' where
    "gcm_payload_loop E mode src (st\<lparr>g_payload_bytes := (g_payload_bytes st + length src) mod 2 ^ 32\<rparr>)
       = (st', snd (gcm_stream E (E zero_block) (mode = TEE_MODE_ENCRYPT) src
                 (fst (gcm_stream E (E zero_block) (mode = TEE_MODE_ENCRYPT) xs
                   (ctr_inc (gcm_j0 (E zero_block) nonce), [],
                    gcm_pad (E zero_block) (hash_stream (E zero_block) aad ([], zero_block)))))))"
    "gcm_mid E mode nonce aad tag_len (xs @ src) st'"
proof -
  let ?H = "E zero_block"
  let ?a = "fst (gcm_stream E ?H (mode = TEE_MODE_ENCRYPT) xs (ctr_inc (gcm_j0 ?H nonce), [],
      gcm_pad ?H (hash_stream ?H aad ([], zero_block))))"
  let ?s = "st\<lparr>g_payload_bytes := (g_payload_bytes st + length src) mod 2 ^ 32\<rparr>"
  have "gcm_rel E mode ?a ?s"
    using mid by (simp add: gcm_mid_def Let_def)
  from gcm_payload_loop_rel [OF E mode this, of src] obtain st' out a' where
    p: "gcm_payload_loop E mode src ?s = (st', out)"
       "gcm_stream E ?H (mode = TEE_MODE_ENCRYPT) src ?a = (a', out)" "gcm_rel E mode a' st'" "gcm_same ?s st'"
    using mid by (auto simp: gcm_mid_def Let_def)
  have "fst (gcm_stream E ?H (mode = TEE_MODE_ENCRYPT) (xs @ src) (ctr_inc (gcm_j0 ?H nonce), [],
      gcm_pad ?H (hash_stream ?H aad ([], zero_block)))) = a'"
    using p(2) by (simp only: fst_gcm_stream_append fst_conv)
  then have m: "gcm_mid E mode nonce aad tag_len (xs @ src) st'"
    using mid p(3,4) by (simp add: gcm_mid_def Let_def gcm_same_def mod_simps)
  have "gcm_payload_loop E mode src ?s =
      (st', snd (gcm_stream E ?H (mode = TEE_MODE_ENCRYPT) src ?a))"
    using p(1,2) by (simp only: snd_conv)
  from that [OF this m] show ?thesis .
qed

lemma fst_gcm_spec:
  "fst (gcm_spec E enc nonce aad src) =
     snd (gcm_stream E (E zero_block) enc src (ctr_inc (gcm_j0 (E zero_block) nonce), [],
       gcm_pad (E zero_block) (hash_stream (E zero_block) aad ([], zero_block))))"
  by (simp add: gcm_spec_def Let_def split: prod.split)

lemma gcm_flush_mid:
  assumes ready: "gcm_ready E mode nonce aad tag_len st" and E: "\<And>b. length (E b) = 16"
    and mode: "mode \<in> {TEE_MODE_ENCRYPT, TEE_MODE_DECRYPT}"
  shows "gcm_mid E mode nonce aad tag_len [] (if g_buf_pos st \<noteq> 0 then gcm_flush_aad st else st)"
proof -
  let ?H = "E zero_block"
  obtain pend h where ph: "hash_stream ?H aad ([], zero_block) = (pend, h)" by fastforce
  have rel: "g_buf_pos st = length pend" "length pend < 16" "length (g_buf_hash st) = 16"
    "take (length pend) (g_buf_hash st) = pend" "g_hash_state st = h" "g_subkey st = ?H"
    using ready ph by (simp_all add: gcm_ready_def Let_def aad_rel_def)
  have ctr: "if mode = TEE_MODE_ENCRYPT
      then g_ctr st = ctr_inc (ctr_inc (gcm_j0 ?H nonce)) \<and> g_buf_cryp st = E (ctr_inc (gcm_j0 ?H nonce))
      else g_ctr st = ctr_inc (gcm_j0 ?H nonce)"
    and oth: "g_buf_tag st = E (gcm_j0 ?H nonce)" "g_tag_len st = tag_len"
      "g_aad_bytes st = length aad mod 2 ^ 32" "g_payload_bytes st = 0"
    using ready by (simp_all add: gcm_ready_def Let_def)
  show ?thesis
  proof (cases "pend = []")
    case True
    with ctr show ?thesis
      by (cases "mode = TEE_MODE_ENCRYPT")
        (simp_all add: gcm_mid_def Let_def gcm_rel_def gcm_pad_def ph rel oth E)
  next
    case False
    let ?z = "replicate (16 - length pend) (0 :: byte)"
    have put: "put_at (length pend) ?z (g_buf_hash st) = pend @ ?z"
      using rel by (simp add: put_at_def)
    have pad: "gcm_pad ?H (pend, h) = internal_aes_gcm_gfmul ?H (xor_bytes h (pend @ ?z))"
      using False rel(2) hash_stream_full [of pend ?z ?H h] by (simp add: gcm_pad_def)
    have fl: "gcm_flush_aad st =
        st\<lparr>g_buf_hash := pend @ ?z, g_hash_state := gcm_pad ?H (pend, h), g_buf_pos := 0\<rparr>"
      using rel put unfolding pad
      by (simp add: gcm_flush_aad_def Let_def internal_aes_gcm_ghash_update_def ghash_update_block_def)
    from False ctr rel(1,2) show ?thesis
      by (cases "mode = TEE_MODE_ENCRYPT")
        (simp_all add: gcm_mid_def Let_def gcm_rel_def ph fl oth rel(6) E)
  qed
qed

lemma gcm_update_payload_first:
  assumes "gcm_ready E mode nonce aad tag_len st" "\<And>b. length (E b) = 16"
    "mode \<in> {TEE_MODE_ENCRYPT, TEE_MODE_DECRYPT}"
  obtains st' where "gcm_update_payload E mode src st =
      (st', fst (gcm_spec E (mode = TEE_MODE_ENCRYPT) nonce aad src))"
    "gcm_mid E mode nonce aad tag_len src st'"
proof -
  let ?s = "if g_buf_pos st \<noteq> 0 then gcm_flush_aad st else st"
  have mid: "gcm_mid E mode nonce aad tag_len [] ?s" by (rule gcm_flush_mid [OF assms])
  have "g_payload_bytes st = 0" using assms(1) by (simp add: gcm_ready_def Let_def)
  then have "gcm_update_payload E mode src st =
      gcm_payload_loop E mode src (?s\<lparr>g_payload_bytes := (g_payload_bytes ?s + length src) mod 2 ^ 32\<rparr>)"
    unfolding gcm_update_payload_def Let_def by simp
  moreover obtain st' where "gcm_payload_loop E mode src
      (?s\<lparr>g_payload_bytes := (g_payload_bytes ?s + length src) mod 2 ^ 32\<rparr>) =
      (st', fst (gcm_spec E (mode = TEE_MODE_ENCRYPT) nonce aad src))"
    and m: "gcm_mid E mode nonce aad tag_len src st'"
    using gcm_mid_step [OF assms(2,3) mid, of src]
    unfolding fst_gcm_spec gcm_stream.simps fst_conv append_Nil by blast
  ultimately have "gcm_update_payload E mode src st =
      (st', fst (gcm_spec E (mode = TEE_MODE_ENCRYPT) nonce aad src))" by (simp only:)
  from that [OF this m] show ?thesis .
qed

lemma gcm_update_payload_next:
  assumes mid: "gcm_mid E mode nonce aad tag_len xs st" and E: "\<And>b. length (E b) = 16"
    and mode: "mode \<in> {TEE_MODE_ENCRYPT, TEE_MODE_DECRYPT}"
  obtains st' out where "gcm_update_payload E mode src st = (st', out)"
    "fst (gcm_spec E (mode = TEE_MODE_ENCRYPT) nonce aad (xs @ src)) =
       fst (gcm_spec E (mode = TEE_MODE_ENCRYPT) nonce aad xs) @ out"
    "gcm_mid E mode nonce aad tag_len (xs @ src) st'"
proof -
  let ?H = "E zero_block"
  let ?a0 = "(ctr_inc (gcm_j0 ?H nonce), [], gcm_pad ?H (hash_stream ?H aad ([], zero_block)))"
  have pos: "g_buf_pos st = length xs mod 16"
    using mid gcm_stream_pend [of ?a0 E ?H "mode = TEE_MODE_ENCRYPT" xs]
    by (auto simp: gcm_mid_def Let_def gcm_rel_def split: prod.splits)
  have "\<not> (g_payload_bytes st = 0 \<and> g_buf_pos st \<noteq> 0)"
  proof
    assume 0: "g_payload_bytes st = 0 \<and> g_buf_pos st \<noteq> 0"
    then have "length xs mod 2 ^ 32 = 0" using mid by (simp add: gcm_mid_def Let_def)
    then have "length xs mod 2 ^ 32 mod 16 = 0" by simp
    then have "length xs mod 16 = 0" by (simp add: mod_mod_cancel)
    with 0 pos show False by simp
  qed
  then have "gcm_update_payload E mode src st = gcm_payload_loop E mode src
      (st\<lparr>g_payload_bytes := (g_payload_bytes st + length src) mod 2 ^ 32\<rparr>)"
    unfolding gcm_update_payload_def Let_def by (simp only: if_False)
  moreover obtain a o1 where a: "gcm_stream E ?H (mode = TEE_MODE_ENCRYPT) xs ?a0 = (a, o1)" by fastforce
  moreover obtain a' o2 where a': "gcm_stream E ?H (mode = TEE_MODE_ENCRYPT) src a = (a', o2)" by fastforce
  moreover obtain st' where "gcm_payload_loop E mode src
      (st\<lparr>g_payload_bytes := (g_payload_bytes st + length src) mod 2 ^ 32\<rparr>) = (st', o2)"
    and m: "gcm_mid E mode nonce aad tag_len (xs @ src) st'"
    using gcm_mid_step [OF E mode mid, of src] unfolding a a' fst_conv snd_conv by blast
  ultimately have "gcm_update_payload E mode src st = (st', o2)" by (simp only:)
  moreover have "fst (gcm_spec E (mode = TEE_MODE_ENCRYPT) nonce aad (xs @ src)) =
       fst (gcm_spec E (mode = TEE_MODE_ENCRYPT) nonce aad xs) @ o2"
    unfolding fst_gcm_spec gcm_stream_append a Let_def prod.case a' snd_conv ..
  ultimately show ?thesis using m by (rule that)
qed

section \<open>The final operation\<close>

lemma gcm_pad_flush:
  assumes "gcm_rel E mode (c, pend, h) st"
  shows "g_hash_state
      (if g_buf_pos st \<noteq> 0
       then internal_aes_gcm_ghash_update
              (Some (put_at (g_buf_pos st) (replicate (16 - g_buf_pos st) 0) (g_buf_hash st))) [] 0
              (st\<lparr>g_buf_hash := put_at (g_buf_pos st) (replicate (16 - g_buf_pos st) 0) (g_buf_hash st)\<rparr>)
       else st) = gcm_pad (g_subkey st) (pend, h)"
proof -
  have rel: "g_buf_pos st = length pend" "length pend < 16" "length (g_buf_hash st) = 16"
    "take (length pend) (g_buf_hash st) = pend" "g_hash_state st = h"
    using assms by (simp_all add: gcm_rel_def)
  let ?z = "replicate (16 - length pend) (0 :: byte)"
  have "put_at (length pend) ?z (g_buf_hash st) = pend @ ?z"
    using rel by (simp add: put_at_def)
  moreover have "pend \<noteq> [] \<Longrightarrow>
      gcm_pad (g_subkey st) (pend, h) = internal_aes_gcm_gfmul (g_subkey st) (xor_bytes h (pend @ ?z))"
    using rel(2) hash_stream_full [of pend ?z "g_subkey st" h] by (simp add: gcm_pad_def)
  ultimately show ?thesis
    using rel by (simp add: internal_aes_gcm_ghash_update_def ghash_update_block_def gcm_pad_def)
qed

lemma ghash_update_some_same [simp]:
  "g_subkey (internal_aes_gcm_ghash_update h [] 0 st) = g_subkey st"
  "g_buf_tag (internal_aes_gcm_ghash_update h [] 0 st) = g_buf_tag st"
  "g_tag_len (internal_aes_gcm_ghash_update h [] 0 st) = g_tag_len st"
  "g_aad_bytes (internal_aes_gcm_ghash_update h [] 0 st) = g_aad_bytes st"
  "g_payload_bytes (internal_aes_gcm_ghash_update h [] 0 st) = g_payload_bytes st"
  by (simp_all add: internal_aes_gcm_ghash_update_def ghash_update_block_def split: option.split)

lemma ghash_update_lengths_hash:
  "g_hash_state (ghash_update_lengths l1 l2 st) =
     internal_aes_gcm_gfmul (g_subkey st) (xor_bytes (g_hash_state st) (gcm_len_block l1 l2))"
  by (simp add: ghash_update_lengths_def internal_aes_gcm_ghash_update_def ghash_update_block_def
      gcm_len_block_def)

lemma operation_final_mid:
  assumes upd: "gcm_update_payload E mode src st = (st1, out)"
    and mid: "gcm_mid E mode nonce aad tag_len xs st1" and E: "\<And>b. length (E b) = 16"
    and tl: "tag_len \<le> 16"
  obtains st' where "operation_final E mode src st = (st', out)" "g_tag_len st' = tag_len"
    "take tag_len (g_buf_tag st') = take tag_len (snd (gcm_spec E (mode = TEE_MODE_ENCRYPT) nonce aad xs))"
proof -
  let ?H = "E zero_block"
  let ?j0 = "gcm_j0 ?H nonce"
  let ?st2 = "if g_buf_pos st1 \<noteq> 0
       then internal_aes_gcm_ghash_update
              (Some (put_at (g_buf_pos st1) (replicate (16 - g_buf_pos st1) 0) (g_buf_hash st1))) [] 0
              (st1\<lparr>g_buf_hash := put_at (g_buf_pos st1) (replicate (16 - g_buf_pos st1) 0) (g_buf_hash st1)\<rparr>)
       else st1"
  obtain c pend h os where a: "gcm_stream E ?H (mode = TEE_MODE_ENCRYPT) xs (ctr_inc ?j0, [],
      gcm_pad ?H (hash_stream ?H aad ([], zero_block))) = ((c, pend, h), os)"
    by (metis prod.collapse)
  have m: "g_subkey st1 = ?H" "g_buf_tag st1 = E ?j0" "g_tag_len st1 = tag_len"
    "g_aad_bytes st1 = length aad mod 2 ^ 32" "g_payload_bytes st1 = length xs mod 2 ^ 32"
    "gcm_rel E mode (c, pend, h) st1"
    using mid by (simp_all add: gcm_mid_def Let_def a)
  have h: "g_hash_state ?st2 = gcm_pad ?H (pend, h)"
    using gcm_pad_flush [OF m(6)] m(1) by simp
  have same: "g_subkey ?st2 = ?H" "g_buf_tag ?st2 = E ?j0" "g_tag_len ?st2 = tag_len"
    "g_aad_bytes ?st2 = length aad mod 2 ^ 32" "g_payload_bytes ?st2 = length xs mod 2 ^ 32"
    using m(1-5) by simp_all
  let ?st3 = "ghash_update_lengths (g_aad_bytes ?st2) (g_payload_bytes ?st2) ?st2"
  let ?h3 = "internal_aes_gcm_gfmul ?H
      (xor_bytes (gcm_pad ?H (pend, h)) (gcm_len_block (length aad) (length xs)))"
  have "g_hash_state ?st3 = ?h3"
    by (simp only: ghash_update_lengths_hash same h gcm_len_block_def mod_mod_trivial)
  moreover have "g_buf_tag ?st3 = E ?j0" "g_tag_len ?st3 = tag_len"
    unfolding ghash_update_lengths_def by (simp_all only: ghash_update_some_same same)
  moreover have "take tag_len (xor_buf 0 (take tag_len ?h3) (E ?j0)) = take tag_len (xor_bytes (E ?j0) ?h3)"
    using tl E by (simp add: xor_buf_def put_at_def xor_bytes_def take_zip take_map)
  moreover have "snd (gcm_spec E (mode = TEE_MODE_ENCRYPT) nonce aad xs) = xor_bytes (E ?j0) ?h3"
    by (simp add: gcm_spec_def Let_def a)
  moreover have "operation_final E mode src st =
      (?st3\<lparr>g_buf_tag := xor_buf 0 (take (g_tag_len ?st3) (g_hash_state ?st3)) (g_buf_tag ?st3)\<rparr>, out)"
    by (simp add: operation_final_def upd Let_def)
  ultimately show ?thesis using that by simp
qed

section \<open>Any segmentation of the input\<close>

text \<open>The calls of \<^verbatim>\<open>__gcm_update_aad\<close> and \<^verbatim>\<open>__gcm_update_payload\<close> between an
  initialisation and the final call, one per segment. A segment of additional data comes with the address
  it is read from.\<close>

fun gcm_aads :: "(nat \<times> bytes) list \<Rightarrow> gcm_state \<Rightarrow> TEE_Result + gcm_state" where
  "gcm_aads [] st = Inr st"
| "gcm_aads ((addr, d) # ds) st =
     (case gcm_update_aad addr d st of Inl e \<Rightarrow> Inl e | Inr st \<Rightarrow> gcm_aads ds st)"

fun gcm_payloads ::
    "(bytes \<Rightarrow> bytes) \<Rightarrow> TEE_OperationMode \<Rightarrow> bytes list \<Rightarrow> gcm_state \<Rightarrow> gcm_state \<times> bytes" where
  "gcm_payloads E mode [] st = (st, [])"
| "gcm_payloads E mode (src # srcs) st =
     (let (st, out) = gcm_update_payload E mode src st; (st, outs) = gcm_payloads E mode srcs st
      in (st, out @ outs))"

definition gcm_encrypt_segments ::
    "(bytes \<Rightarrow> bytes) \<Rightarrow> bytes \<Rightarrow> (nat \<times> bytes) list \<Rightarrow> bytes list \<Rightarrow> bytes \<Rightarrow> nat \<Rightarrow> TEE_Result + (bytes \<times> bytes)"
  where
  "gcm_encrypt_segments E nonce aads srcs src tag_len =
     (case gcm_init E TEE_MODE_ENCRYPT nonce tag_len of
        Inl e \<Rightarrow> Inl e
      | Inr st \<Rightarrow>
          (case gcm_aads aads st of
             Inl e \<Rightarrow> Inl e
           | Inr st \<Rightarrow>
               (let (st, outs) = gcm_payloads E TEE_MODE_ENCRYPT srcs st in
                case gcm_enc_final E src tag_len st of
                  Inl e \<Rightarrow> Inl e
                | Inr (st, out, tag) \<Rightarrow> Inr (outs @ out, tag))))"

definition gcm_decrypt_segments ::
    "(bytes \<Rightarrow> bytes) \<Rightarrow> bytes \<Rightarrow> (nat \<times> bytes) list \<Rightarrow> bytes list \<Rightarrow> bytes \<Rightarrow> bytes \<Rightarrow> TEE_Result \<times> bytes"
  where
  "gcm_decrypt_segments E nonce aads srcs src tag =
     (case gcm_init E TEE_MODE_DECRYPT nonce (length tag) of
        Inl e \<Rightarrow> (e, [])
      | Inr st \<Rightarrow>
          (case gcm_aads aads st of
             Inl e \<Rightarrow> (e, [])
           | Inr st \<Rightarrow>
               (let (st, outs) = gcm_payloads E TEE_MODE_DECRYPT srcs st in
                case gcm_dec_final E src tag st of (res, st, out) \<Rightarrow> (res, outs @ out))))"

lemma gcm_aads_ready:
  assumes "gcm_ready E mode nonce aad tag_len st"
  obtains st' where "gcm_aads aads st = Inr st'"
    "gcm_ready E mode nonce (aad @ concat (map snd aads)) tag_len st'"
  using assms
proof (induction aads arbitrary: aad st thesis)
  case Nil
  then show ?case by simp
next
  case (Cons d ds)
  obtain addr x where d: "d = (addr, x)" by (cases d)
  obtain st1 where st1: "gcm_update_aad addr x st = Inr st1" "gcm_ready E mode nonce (aad @ x) tag_len st1"
    by (rule gcm_update_aad_ready [OF Cons.prems(2)])
  obtain st' where "gcm_aads ds st1 = Inr st'"
    "gcm_ready E mode nonce ((aad @ x) @ concat (map snd ds)) tag_len st'"
    by (rule Cons.IH [OF _ st1(2)])
  with st1(1) show ?case by (intro Cons.prems(1)) (simp_all add: d)
qed

text \<open>The payload phase, whether a segment was already processed or not.\<close>

definition gcm_at ::
    "(bytes \<Rightarrow> bytes) \<Rightarrow> TEE_OperationMode \<Rightarrow> bytes \<Rightarrow> bytes \<Rightarrow> nat \<Rightarrow> bytes \<Rightarrow> gcm_state \<Rightarrow> bool" where
  "gcm_at E mode nonce aad tag_len xs st \<longleftrightarrow>
     gcm_mid E mode nonce aad tag_len xs st \<or> xs = [] \<and> gcm_ready E mode nonce aad tag_len st"

lemma fst_gcm_spec_Nil [simp]: "fst (gcm_spec E enc nonce aad []) = []"
  by (simp add: fst_gcm_spec)

lemma gcm_update_payload_at:
  assumes "gcm_at E mode nonce aad tag_len xs st" "\<And>b. length (E b) = 16"
    "mode \<in> {TEE_MODE_ENCRYPT, TEE_MODE_DECRYPT}"
  obtains st' out where "gcm_update_payload E mode src st = (st', out)"
    "fst (gcm_spec E (mode = TEE_MODE_ENCRYPT) nonce aad (xs @ src)) =
       fst (gcm_spec E (mode = TEE_MODE_ENCRYPT) nonce aad xs) @ out"
    "gcm_mid E mode nonce aad tag_len (xs @ src) st'"
proof (cases "gcm_mid E mode nonce aad tag_len xs st")
  case True
  from gcm_update_payload_next [OF this assms(2,3), of src] that show ?thesis by blast
next
  case False
  then have xs: "xs = []" and r: "gcm_ready E mode nonce aad tag_len st"
    using assms(1) by (simp_all add: gcm_at_def)
  obtain st' where "gcm_update_payload E mode src st =
      (st', fst (gcm_spec E (mode = TEE_MODE_ENCRYPT) nonce aad src))"
    "gcm_mid E mode nonce aad tag_len src st'"
    by (rule gcm_update_payload_first [OF r assms(2,3)])
  then show ?thesis by (intro that) (simp_all add: xs)
qed

lemma gcm_payloads_at:
  assumes "gcm_at E mode nonce aad tag_len xs st" "\<And>b. length (E b) = 16"
    "mode \<in> {TEE_MODE_ENCRYPT, TEE_MODE_DECRYPT}"
  obtains st' out where "gcm_payloads E mode srcs st = (st', out)"
    "fst (gcm_spec E (mode = TEE_MODE_ENCRYPT) nonce aad (xs @ concat srcs)) =
       fst (gcm_spec E (mode = TEE_MODE_ENCRYPT) nonce aad xs) @ out"
    "gcm_at E mode nonce aad tag_len (xs @ concat srcs) st'"
  using assms(1)
proof (induction srcs arbitrary: xs st thesis)
  case Nil
  then show ?case by simp
next
  case (Cons src srcs)
  obtain st1 o1 where 1: "gcm_update_payload E mode src st = (st1, o1)"
    "fst (gcm_spec E (mode = TEE_MODE_ENCRYPT) nonce aad (xs @ src)) =
       fst (gcm_spec E (mode = TEE_MODE_ENCRYPT) nonce aad xs) @ o1"
    "gcm_mid E mode nonce aad tag_len (xs @ src) st1"
    by (rule gcm_update_payload_at [OF Cons.prems(2) assms(2,3)])
  then have "gcm_at E mode nonce aad tag_len (xs @ src) st1" by (simp add: gcm_at_def)
  from Cons.IH [OF _ this] obtain st' o2 where 2: "gcm_payloads E mode srcs st1 = (st', o2)"
    "fst (gcm_spec E (mode = TEE_MODE_ENCRYPT) nonce aad ((xs @ src) @ concat srcs)) =
       fst (gcm_spec E (mode = TEE_MODE_ENCRYPT) nonce aad (xs @ src)) @ o2"
    "gcm_at E mode nonce aad tag_len ((xs @ src) @ concat srcs) st'" by blast
  with 1 show ?case by (intro Cons.prems(1)) simp_all
qed

lemma gcm_segments_final:
  assumes E: "\<And>b. length (E b) = 16" and mode: "mode \<in> {TEE_MODE_ENCRYPT, TEE_MODE_DECRYPT}"
    and tl: "tag_len \<le> 16"
  obtains st0 st1 st2 outs st3 out where
    "gcm_init E mode nonce tag_len = Inr st0" "gcm_aads aads st0 = Inr st1"
    "gcm_payloads E mode srcs st1 = (st2, outs)" "g_tag_len st2 = tag_len"
    "operation_final E mode src st2 = (st3, out)" "g_tag_len st3 = tag_len"
    "outs @ out = fst (gcm_spec E (mode = TEE_MODE_ENCRYPT) nonce (concat (map snd aads)) (concat srcs @ src))"
    "take tag_len (g_buf_tag st3) =
      take tag_len (snd (gcm_spec E (mode = TEE_MODE_ENCRYPT) nonce (concat (map snd aads)) (concat srcs @ src)))"
proof -
  let ?aad = "concat (map snd aads)"
  obtain st0 where 0: "gcm_init E mode nonce tag_len = Inr st0" "gcm_ready E mode nonce [] tag_len st0"
    by (rule gcm_init_ready [OF tl])
  obtain st1 where 1: "gcm_aads aads st0 = Inr st1" "gcm_ready E mode nonce ?aad tag_len st1"
    by (rule gcm_aads_ready [OF 0(2), of aads]) simp
  then have at1: "gcm_at E mode nonce ?aad tag_len [] st1" by (simp add: gcm_at_def)
  obtain st2 outs where 2: "gcm_payloads E mode srcs st1 = (st2, outs)"
    "fst (gcm_spec E (mode = TEE_MODE_ENCRYPT) nonce ?aad ([] @ concat srcs)) =
       fst (gcm_spec E (mode = TEE_MODE_ENCRYPT) nonce ?aad []) @ outs"
    "gcm_at E mode nonce ?aad tag_len ([] @ concat srcs) st2"
    by (rule gcm_payloads_at [OF at1 E mode])
  have tl2: "g_tag_len st2 = tag_len"
    using 2(3) by (auto simp: gcm_at_def gcm_mid_def gcm_ready_def Let_def)
  obtain st3 out where 3: "gcm_update_payload E mode src st2 = (st3, out)"
    "fst (gcm_spec E (mode = TEE_MODE_ENCRYPT) nonce ?aad (([] @ concat srcs) @ src)) =
       fst (gcm_spec E (mode = TEE_MODE_ENCRYPT) nonce ?aad ([] @ concat srcs)) @ out"
    "gcm_mid E mode nonce ?aad tag_len (([] @ concat srcs) @ src) st3"
    by (rule gcm_update_payload_at [OF 2(3) E mode])
  obtain st4 where 4: "operation_final E mode src st2 = (st4, out)" "g_tag_len st4 = tag_len"
    "take tag_len (g_buf_tag st4) =
      take tag_len (snd (gcm_spec E (mode = TEE_MODE_ENCRYPT) nonce ?aad (([] @ concat srcs) @ src)))"
    by (rule operation_final_mid [OF 3(1,3) E tl])
  show ?thesis using that [OF 0(1) 1(1) 2(1) tl2 4(1,2)] 2(2) 3(2) 4(3) by simp
qed

lemma gcm_encrypt_segments_spec:
  assumes "\<And>b. length (E b) = 16" "tag_len \<le> 16"
  shows "gcm_encrypt_segments E nonce aads srcs src tag_len =
    Inr (fst (gcm_spec E True nonce (concat (map snd aads)) (concat srcs @ src)),
         take tag_len (snd (gcm_spec E True nonce (concat (map snd aads)) (concat srcs @ src))))"
  by (rule gcm_segments_final [where E = E and mode = TEE_MODE_ENCRYPT and nonce = nonce and aads = aads and srcs = srcs and src = src,
        OF assms(1) _ assms(2)])
    (simp_all add: gcm_encrypt_segments_def gcm_enc_final_def)

lemma gcm_decrypt_segments_spec:
  assumes "\<And>b. length (E b) = 16" "length tag \<le> 16"
  shows "gcm_decrypt_segments E nonce aads srcs src tag =
    (if take (length tag) (snd (gcm_spec E False nonce (concat (map snd aads)) (concat srcs @ src))) = tag
     then TEE_SUCCESS else TEE_ERROR_MAC_INVALID,
     fst (gcm_spec E False nonce (concat (map snd aads)) (concat srcs @ src)))"
  by (rule gcm_segments_final [where E = E and mode = TEE_MODE_DECRYPT and nonce = nonce and aads = aads and srcs = srcs and src = src,
        OF assms(1) _ assms(2)])
    (simp_all add: gcm_decrypt_segments_def gcm_dec_final_def)

section \<open>One-shot operations\<close>

abbreviation aad_list :: "(nat \<times> bytes) option \<Rightarrow> (nat \<times> bytes) list" where
  "aad_list aad \<equiv> (case aad of None \<Rightarrow> [] | Some x \<Rightarrow> [x])"

abbreviation aad_bytes :: "(nat \<times> bytes) option \<Rightarrow> bytes" where
  "aad_bytes aad \<equiv> concat (map snd (aad_list aad))"

lemma internal_aes_gcm_enc_segments:
  "internal_aes_gcm_enc E nonce aad src tag_len = gcm_encrypt_segments E nonce (aad_list aad) [] src tag_len"
  by (auto simp: internal_aes_gcm_enc_def gcm_encrypt_segments_def split: option.split sum.split)

lemma internal_aes_gcm_dec_segments:
  "internal_aes_gcm_dec E nonce aad src tag = gcm_decrypt_segments E nonce (aad_list aad) [] src tag"
  by (auto simp: internal_aes_gcm_dec_def gcm_decrypt_segments_def split: option.split sum.split)

lemma gcm_encrypt_long_tag:
  "16 < tag_len \<Longrightarrow> gcm_encrypt_segments E nonce aads srcs src tag_len = Inl TEE_ERROR_BAD_PARAMETERS"
  by (simp add: gcm_encrypt_segments_def gcm_init_def)

section \<open>Decryption inverts encryption\<close>

lemma gcm_byte_inverse:
  "gcm_byte E H True p a = (a', x) \<Longrightarrow> gcm_byte E H False x a = (a', p)"
  by (cases a) (auto simp: gcm_byte_def Let_def simp flip: xor.assoc)

lemma gcm_stream_inverse:
  "gcm_stream E H True s a = (a', xs) \<Longrightarrow> gcm_stream E H False xs a = (a', s)"
proof (induction s arbitrary: a a' xs)
  case (Cons p s)
  obtain a1 x where 1: "gcm_byte E H True p a = (a1, x)" by fastforce
  obtain a2 ys where 2: "gcm_stream E H True s a1 = (a2, ys)" by fastforce
  have "xs = x # ys" "a' = a2" using Cons.prems 1 2 by simp_all
  with gcm_byte_inverse [OF 1] Cons.IH [OF 2] show ?case by simp
qed simp

lemma length_gcm_stream: "length (snd (gcm_stream E H enc s a)) = length s"
  by (induction s arbitrary: a) (simp_all add: Let_def case_prod_unfold)

lemma gcm_spec_inverse:
  "gcm_spec E False nonce aad (fst (gcm_spec E True nonce aad s)) = (s, snd (gcm_spec E True nonce aad s))"
proof -
  let ?H = "E zero_block"
  let ?a0 = "(ctr_inc (gcm_j0 ?H nonce), [], gcm_pad ?H (hash_stream ?H aad ([], zero_block)))"
  obtain a' xs where e: "gcm_stream E ?H True s ?a0 = (a', xs)" by fastforce
  have "length xs = length s" using length_gcm_stream [of E ?H True s ?a0] by (simp add: e)
  then show ?thesis using gcm_stream_inverse [OF e] by (simp add: gcm_spec_def Let_def e)
qed

lemma internal_aes_gcm_enc_spec:
  assumes "\<And>b. length (E b) = 16" "tag_len \<le> 16"
  shows "internal_aes_gcm_enc E nonce aad src tag_len =
    Inr (fst (gcm_spec E True nonce (aad_bytes aad) src), take tag_len (snd (gcm_spec E True nonce (aad_bytes aad) src)))"
  using gcm_encrypt_segments_spec [where nonce = nonce and aads = "aad_list aad" and srcs = "[]" and src = src, OF assms]
  by (simp add: internal_aes_gcm_enc_segments)

lemma internal_aes_gcm_dec_spec:
  assumes "\<And>b. length (E b) = 16" "length tag \<le> 16"
  shows "internal_aes_gcm_dec E nonce aad src tag =
    (if take (length tag) (snd (gcm_spec E False nonce (aad_bytes aad) src)) = tag
     then TEE_SUCCESS else TEE_ERROR_MAC_INVALID,
     fst (gcm_spec E False nonce (aad_bytes aad) src))"
  using gcm_decrypt_segments_spec [where nonce = nonce and aads = "aad_list aad" and srcs = "[]" and src = src, OF assms]
  by (simp add: internal_aes_gcm_dec_segments)

lemma length_gcm_spec_tag:
  assumes "\<And>b. length (E b) = 16" shows "length (snd (gcm_spec E enc nonce aad src)) = 16"
  using assms by (simp add: gcm_spec_def Let_def split: prod.split)

lemma gcm_dec_enc:
  assumes "\<And>b. length (E b) = 16"
    and enc: "internal_aes_gcm_enc E nonce aad src tag_len = Inr (ct, tag)"
    and len: "length tag' = length tag"
  shows "internal_aes_gcm_dec E nonce aad ct tag' =
    (if tag' = tag then TEE_SUCCESS else TEE_ERROR_MAC_INVALID, src)"
proof -
  have tl: "tag_len \<le> 16"
    using enc by (cases "tag_len \<le> 16") (simp_all add: internal_aes_gcm_enc_segments gcm_encrypt_long_tag)
  then have ct: "ct = fst (gcm_spec E True nonce (aad_bytes aad) src)"
    and tag: "tag = take tag_len (snd (gcm_spec E True nonce (aad_bytes aad) src))"
    using enc by (simp_all add: internal_aes_gcm_enc_spec assms(1))
  have "length tag = tag_len" using tl by (simp add: tag length_gcm_spec_tag assms(1))
  with tl len show ?thesis
    by (auto simp: internal_aes_gcm_dec_spec assms(1) ct gcm_spec_inverse tag)
qed

section \<open>Properties\<close>

text \<open>
  C5. The streaming interface of AES-GCM does not depend on how the caller cuts its input: for every
  sequence of \<^verbatim>\<open>__gcm_update_aad\<close> and \<^verbatim>\<open>__gcm_update_payload\<close> calls followed by
  \<^verbatim>\<open>__gcm_enc_final\<close>, the ciphertext and the tag (or the error) are those of one call of
  \<^verbatim>\<open>internal_aes_gcm_enc\<close> on the concatenated additional data and payload, wherever in memory the
  additional data lies. The only assumption is that the block cipher returns blocks of 16 bytes.
\<close>

theorem gcm_streaming_one_shot:
  assumes "\<And>b. length (E b) = 16"
  shows "gcm_encrypt_segments E nonce aads srcs src tag_len =
    internal_aes_gcm_enc E nonce (Some (addr, concat (map snd aads))) (concat srcs @ src) tag_len"
proof (cases "tag_len \<le> 16")
  case True
  then show ?thesis
    by (simp add: gcm_encrypt_segments_spec internal_aes_gcm_enc_spec assms)
next
  case False
  then show ?thesis by (simp add: internal_aes_gcm_enc_segments gcm_encrypt_long_tag)
qed

text \<open>A block transformation for concrete instances.\<close>

definition sample_block :: "bytes \<Rightarrow> bytes" where
  "sample_block b = map (\<lambda>x. x XOR 90) (take 16 (b @ zero_block))"

lemma length_sample_block [simp]: "length (sample_block b) = 16"
  by (simp add: sample_block_def)

theorem gcm_streaming_one_shot_witness:
  "gcm_encrypt_segments sample_block [1, 2, 3, 4, 5, 6, 7, 8, 9, 10, 11, 12] [(1, [1, 2]), (7, [3])] [[7, 8], []] [9] 16 =
   internal_aes_gcm_enc sample_block [1, 2, 3, 4, 5, 6, 7, 8, 9, 10, 11, 12] (Some (0, [1, 2, 3])) [7, 8, 9] 16"
  using gcm_streaming_one_shot [of sample_block "[1, 2, 3, 4, 5, 6, 7, 8, 9, 10, 11, 12]" "[(1, [1, 2]), (7, [3])]"
      "[[7, 8], []]" "[9]" 16 0] by simp

text \<open>
  C6. Authenticated decryption inverts authenticated encryption: when \<^verbatim>\<open>internal_aes_gcm_enc\<close>
  returns a ciphertext and a tag, \<^verbatim>\<open>internal_aes_gcm_dec\<close> with the same key, nonce and additional
  data returns \<^verbatim>\<open>TEE_SUCCESS\<close> and the payload, and with any other tag of that length it returns
  \<^verbatim>\<open>TEE_ERROR_MAC_INVALID\<close>.
\<close>

theorem gcm_decrypt_encrypt:
  assumes "\<And>b. length (E b) = 16" "internal_aes_gcm_enc E nonce aad src tag_len = Inr (ct, tag)" "length tag' = length tag"
  shows "internal_aes_gcm_dec E nonce aad ct tag' =
    (if tag' = tag then TEE_SUCCESS else TEE_ERROR_MAC_INVALID, src)"
  by (rule gcm_dec_enc [OF assms])

theorem gcm_decrypt_encrypt_witness:
  "\<exists>ct tag. internal_aes_gcm_enc sample_block [1, 2, 3] (Some (4, [5])) [7, 8, 9] 16 = Inr (ct, tag) \<and>
     internal_aes_gcm_dec sample_block [1, 2, 3] (Some (4, [5])) ct tag = (TEE_SUCCESS, [7, 8, 9])"
proof -
  obtain ct tag where "internal_aes_gcm_enc sample_block [1, 2, 3] (Some (4, [5])) [7, 8, 9] 16 = Inr (ct, tag)"
    using internal_aes_gcm_enc_spec [of sample_block 16] by simp
  with gcm_decrypt_encrypt [OF length_sample_block this refl] show ?thesis by simp
qed

end
