(* ===== verification/Tee_State.thy ===== *)
theory Tee_State
  imports Aes_Gcm_Stream "HOL-Library.Monad_Syntax"
begin

text \<open>
  The state of a trusted application as the TEE keeps it, and the parameters of the model.

  The kernel side of a user TA is the list of its objects and of its cryptographic states
  (\<^verbatim>\<open>struct tee_obj\<close> of \<^verbatim>\<open>core/include/tee/tee_obj.h\<close> and \<^verbatim>\<open>struct tee_cryp_state\<close> of
  \<^verbatim>\<open>core/tee/tee_svc_cryp.c\<close>); the user side is the set of operation handles of libutee
  (\<^verbatim>\<open>struct __TEE_OperationHandle\<close>). Handles are addresses. One counter, \<open>tick\<close>, numbers the
  allocations and the draws of entropy of the run: allocation number \<open>n\<close> either fails, when the
  environment says so, or returns the address \<open>n + 1\<close>, so that an address is never used twice and a
  stale handle is never mistaken for a live one; address 0 is the null handle.

  The primitives of the cryptographic libraries (libtomcrypt, mbedtls), the entropy source and the
  allocator are fields of the environment, the first argument of every definition that reaches them.
\<close>

section \<open>Attributes\<close>

text \<open>An attribute a caller passes (\<^verbatim>\<open>TEE_Attribute\<close>): a buffer or a pair of values.\<close>

datatype TEE_Attribute =
    RefAttr (attributeID: nat) (ref_buffer: bytes)
  | ValAttr (attributeID: nat) (val_a: nat) (val_b: nat)

text \<open>An attribute an object holds, one constructor per row of \<^verbatim>\<open>attr_ops\<close>: a secret with the size
  allocated for it (\<^verbatim>\<open>struct tee_cryp_obj_secret\<close>), a big number, a value.\<close>

datatype attr_val =
    Secret nat bytes
  | Bignum nat
  | Value nat

section \<open>The environment\<close>

text \<open>The outcome of a libtomcrypt verification: a return code, with the verdict when it is
  \<^verbatim>\<open>CRYPT_OK\<close>.\<close>

datatype ltc_verify =
    CRYPT_OK bool
  | CRYPT_INVALID_PACKET
  | CRYPT_PK_INVALID_SIZE
  | CRYPT_ERROR

text \<open>The calls of the asymmetric ciphers that the attestation protocol does not use.\<close>

datatype acipher_call =
    Rsanopad_encrypt | Rsanopad_decrypt
  | Sm2_pke_encrypt | Sm2_pke_decrypt
  | Rsaes_encrypt "bytes option" | Rsaes_decrypt "bytes option"
  | Rsassa_sign nat | Rsassa_verify nat bytes
  | Dsa_sign | Dsa_verify bytes
  | Sm2_dsa_sign | Sm2_dsa_verify bytes
  | Dh_shared_secret nat

text \<open>The parameters of the SM2 key exchange (\<^verbatim>\<open>struct sm2_kep_parms\<close>).\<close>

record sm2_kep_parms =
  kep_out_len :: nat
  kep_is_initiator :: bool
  kep_initiator_id :: bytes
  kep_responder_id :: bytes
  kep_conf_in :: bytes
  kep_conf_out_len :: nat

text \<open>The primitives. A block cipher keeps a state of its own, which the service only hands back to it.
  The asymmetric calls return a result code, the output and the length they report.\<close>

record prims =
  p_hash :: "nat \<Rightarrow> bytes \<Rightarrow> bytes"
  p_mac :: "nat \<Rightarrow> bytes \<Rightarrow> bytes \<Rightarrow> bytes"
  p_mac_key_ok :: "nat \<Rightarrow> nat \<Rightarrow> bool"
  p_aes_key_ok :: "nat \<Rightarrow> bool"
  p_aes :: "bytes \<Rightarrow> bytes \<Rightarrow> bytes"
  p_ecc_make_key :: "nat \<Rightarrow> bytes \<Rightarrow> (nat \<times> nat \<times> nat \<times> nat) option"
  p_ecc_sign_hash :: "nat \<Rightarrow> nat \<Rightarrow> bytes \<Rightarrow> bytes \<Rightarrow> bytes option"
  p_ecc_verify_hash :: "nat \<Rightarrow> nat \<times> nat \<Rightarrow> bytes \<Rightarrow> bytes \<Rightarrow> ltc_verify"
  p_ecc_shared_secret :: "nat \<Rightarrow> nat \<Rightarrow> nat \<times> nat \<Rightarrow> bytes option"
  p_cipher_init :: "nat \<Rightarrow> TEE_OperationMode \<Rightarrow> bytes \<Rightarrow> bytes \<Rightarrow> bytes \<Rightarrow> TEE_Result + bytes"
  p_cipher_update :: "nat \<Rightarrow> bool \<Rightarrow> bytes \<Rightarrow> bytes \<Rightarrow> TEE_Result \<times> bytes \<times> bytes"
  p_acipher :: "acipher_call \<Rightarrow> nat \<Rightarrow> attr_val list \<Rightarrow> bytes \<Rightarrow> nat \<Rightarrow> bytes \<Rightarrow> TEE_Result \<times> bytes \<times> nat"
  p_sm2_kep :: "attr_val list \<Rightarrow> attr_val list \<Rightarrow> nat \<times> nat \<Rightarrow> nat \<times> nat \<Rightarrow> sm2_kep_parms \<Rightarrow> TEE_Result + bytes"
  p_gen_key :: "nat \<Rightarrow> nat \<Rightarrow> attr_val list \<Rightarrow> bytes \<Rightarrow> TEE_Result \<times> attr_val list"

text \<open>Build options the modelled code tests.\<close>

datatype cfg =
    CFG_CRYPTO_HKDF | CFG_CRYPTO_CONCAT_KDF | CFG_CRYPTO_PBKDF2 | CFG_CRYPTO_SM2_KEP
  | CFG_CRYPTO_RSASSA_NA1 | CFG_COMPAT_GP10_DES | CFG_CRYPTO_CCM | CFG_CRYPTO_GCM
  | CFG_CORE_LTC_SM2_DSA | CFG_CORE_LTC_SM2_PKE | CFG_CORE_LTC_SM2_KEP
  | CFG_CRYPTO_AES | CFG_CRYPTO_DES | CFG_CRYPTO_SM4 | CFG_CRYPTO_ECB | CFG_CRYPTO_CBC | CFG_CRYPTO_CTR
  | CFG_CRYPTO_CTS | CFG_CRYPTO_XTS | CFG_CRYPTO_CBC_MAC | CFG_CRYPTO_CMAC | CFG_CRYPTO_HMAC
  | CFG_CRYPTO_MD5 | CFG_CRYPTO_SHA1 | CFG_CRYPTO_SHA224 | CFG_CRYPTO_SHA256 | CFG_CRYPTO_SHA384
  | CFG_CRYPTO_SHA512 | CFG_CRYPTO_SM3 | CFG_CRYPTO_RSA | CFG_CRYPTO_DSA | CFG_CRYPTO_DH | CFG_CRYPTO_ECC
  | CFG_CRYPTO_SM2_DSA | CFG_CRYPTO_SM2_PKE | CFG_CORE_HUK_SUBKEY_COMPAT
  | CFG_ALG nat

text \<open>\<open>e_oom n\<close>: allocation number \<open>n\<close> fails. \<open>e_mpi_ok n l\<close>: \<^verbatim>\<open>mbedtls_mpi_read_binary\<close> of
  \<open>l\<close> bytes succeeds at that time. \<open>e_entropy n\<close>: what the entropy source gives at time \<open>n\<close>, the
  seed of a draw. \<open>e_rng n l\<close>: the result of \<^verbatim>\<open>crypto_rng_read\<close> of \<open>l\<close> bytes.
  \<open>e_set_curve n c\<close>: the result of \<^verbatim>\<open>ecc_set_curve_from_name\<close> for the curve \<open>c\<close>, which looks the
  curve up in libtomcrypt and allocates the numbers of the key. \<open>e_huk\<close>: the hardware unique key as the
  platform gives it (\<^verbatim>\<open>tee_otp_get_hw_unique_key\<close>). \<open>e_fortuna s\<close>: the state of the Fortuna generator of
  libtomcrypt once it is started, fed with the seed \<open>s\<close> and ready, \<open>None\<close> when one of these steps fails.\<close>

record env =
  e_prims :: prims
  e_oom :: "nat \<Rightarrow> bool"
  e_mpi_ok :: "nat \<Rightarrow> nat \<Rightarrow> bool"
  e_entropy :: "nat \<Rightarrow> bytes"
  e_rng :: "nat \<Rightarrow> nat \<Rightarrow> TEE_Result + bytes"
  e_set_curve :: "nat \<Rightarrow> nat \<Rightarrow> TEE_Result"
  e_huk :: "TEE_Result + bytes"
  e_fortuna :: "bytes \<Rightarrow> bytes option"
  e_cfg :: "cfg set"
  e_bignum_max_bits :: nat

section \<open>Kernel records\<close>

record tee_obj =
  o_type :: nat
  o_keySize :: nat
  o_maxKeySize :: nat
  o_usage :: usage
  o_flags :: "handle_flag set"
  o_busy :: bool
  o_have :: "nat set"
  o_attr :: "attr_val list option"

text \<open>The context of a cryptographic state, by class of the algorithm. A digest or MAC context is the
  input seen since it was initialised, \<open>None\<close> before; a GCM context is the key and the GCM state; a block
  cipher context is the state of the cipher. The CCM context is not modelled (\<open>OtherCtx\<close>).\<close>

datatype cryp_ctx =
    NoCtx
  | HashCtx "bytes option"
  | MacCtx "(bytes \<times> bytes) option"
  | GcmCtx bytes gcm_state
  | CipherCtx "bytes option"
  | OtherCtx

record cryp_state =
  cs_algo :: nat
  cs_mode :: TEE_OperationMode
  cs_key1 :: nat
  cs_key2 :: nat
  cs_ctx :: cryp_ctx
  cs_finalize :: bool
  cs_init :: bool

section \<open>User-side operation handles\<close>

datatype op_state = OPERATION_STATE_INITIAL | OPERATION_STATE_ACTIVE

record operation =
  op_algorithm :: nat
  op_class :: nat
  op_mode :: TEE_OperationMode
  op_digestLength :: nat
  op_maxKeySize :: nat
  op_keySize :: nat
  op_requiredKeyUsage :: usage
  op_handleState :: "handle_flag set"
  op_key1 :: nat
  op_key2 :: nat
  op_operationState :: op_state
  op_buffer :: "bytes option"
  op_buffer_two_blocks :: bool
  op_block_size :: nat
  op_buffer_offs :: nat
  op_state :: nat

record tee =
  tick :: nat
  objs :: "nat \<Rightarrow> tee_obj option"
  states :: "nat \<Rightarrow> cryp_state option"
  opers :: "nat \<Rightarrow> operation option"

section \<open>Allocation\<close>

text \<open>\<^verbatim>\<open>malloc\<close> and \<^verbatim>\<open>calloc\<close>: the address, or the null address.\<close>

definition alloc :: "env \<Rightarrow> 'a tee_scheme \<Rightarrow> nat \<times> 'a tee_scheme" where
  "alloc C t = (if e_oom C (tick t) then 0 else tick t + 1, t\<lparr>tick := tick t + 1\<rparr>)"

text \<open>\<open>n\<close> allocations in a row, each of which gives up when it fails.\<close>

primrec allocs :: "env \<Rightarrow> nat \<Rightarrow> 'a tee_scheme \<Rightarrow> bool \<times> 'a tee_scheme" where
  "allocs C 0 t = (True, t)"
| "allocs C (Suc n) t =
     (case alloc C t of (a, t) \<Rightarrow> if a = 0 then (False, t) else allocs C n t)"

text \<open>The addresses in use are below the counter.\<close>

definition wf_tee :: "'a tee_scheme \<Rightarrow> bool" where
  "wf_tee t \<longleftrightarrow> dom (objs t) \<union> dom (states t) \<union> dom (opers t) \<subseteq> {1..tick t}"

text \<open>The environment in which no allocation fails and the numbers of the attestation curves can be
  read.\<close>

definition no_oom :: "env \<Rightarrow> bool" where
  "no_oom C \<longleftrightarrow>
     (\<forall>n. \<not> e_oom C n) \<and> (\<forall>n l. l \<le> 66 \<longrightarrow> e_mpi_ok C n l) \<and>
     (\<forall>n. e_set_curve C n TEE_ECC_CURVE_NIST_P256 = TEE_SUCCESS)"

lemma no_oomD [simp]: "no_oom C \<Longrightarrow> e_oom C n = False"
  by (simp add: no_oom_def)

lemma no_oom_mpi: "no_oom C \<Longrightarrow> l \<le> 66 \<Longrightarrow> e_mpi_ok C n l"
  by (simp add: no_oom_def)

lemma no_oom_curve: "no_oom C \<Longrightarrow> e_set_curve C n TEE_ECC_CURVE_NIST_P256 = TEE_SUCCESS"
  by (simp add: no_oom_def)

lemma alloc_no_oom [simp]: "no_oom C \<Longrightarrow> alloc C t = (tick t + 1, t\<lparr>tick := tick t + 1\<rparr>)"
  by (simp add: alloc_def)

lemma allocs_no_oom [simp]: "no_oom C \<Longrightarrow> allocs C n t = (True, t\<lparr>tick := tick t + n\<rparr>)"
  by (induction n arbitrary: t) simp_all

lemma wf_tee_tick: "wf_tee t \<Longrightarrow> tick t \<le> n \<Longrightarrow> wf_tee (t\<lparr>tick := n\<rparr>)"
  unfolding wf_tee_def by fastforce

lemma wf_tee_fresh:
  assumes "wf_tee t" "tick t < a"
  shows "objs t a = None" "states t a = None" "opers t a = None"
proof -
  have "a \<notin> dom (objs t) \<union> dom (states t) \<union> dom (opers t)"
    using assms unfolding wf_tee_def by (meson atLeastAtMost_iff linorder_not_le subsetD)
  then show "objs t a = None" "states t a = None" "opers t a = None" by blast+
qed

lemma wf_tee_zero [simp]:
  assumes "wf_tee t"
  shows "objs t 0 = None" "states t 0 = None" "opers t 0 = None"
proof -
  have "0 \<notin> dom (objs t) \<union> dom (states t) \<union> dom (opers t)"
    using assms unfolding wf_tee_def by (meson atLeastAtMost_iff not_one_le_zero subsetD)
  then show "objs t 0 = None" "states t 0 = None" "opers t 0 = None" by blast+
qed

lemma wf_tee_bound:
  assumes "wf_tee t" "a \<in> dom (objs t) \<union> dom (states t) \<union> dom (opers t)"
  shows "a \<noteq> 0" "a \<le> tick t"
proof -
  have "a \<in> {1..tick t}" using assms unfolding wf_tee_def by blast
  then show "a \<noteq> 0" "a \<le> tick t" by simp_all
qed

text \<open>Updates at an address below the counter, and removals, keep the state well formed.\<close>

lemma wf_tee_update:
  assumes "wf_tee t" "a \<noteq> 0" "a \<le> tick t"
  shows "wf_tee (t\<lparr>objs := (objs t)(a := x)\<rparr>)" "wf_tee (t\<lparr>states := (states t)(a := y)\<rparr>)"
    "wf_tee (t\<lparr>opers := (opers t)(a := z)\<rparr>)"
proof -
  have "{a} \<subseteq> {1..tick t}" using assms(2,3) by simp
  moreover have "dom ((objs t)(a := x)) \<subseteq> insert a (dom (objs t))"
    "dom ((states t)(a := y)) \<subseteq> insert a (dom (states t))" "dom ((opers t)(a := z)) \<subseteq> insert a (dom (opers t))"
    by auto
  ultimately show "wf_tee (t\<lparr>objs := (objs t)(a := x)\<rparr>)" "wf_tee (t\<lparr>states := (states t)(a := y)\<rparr>)"
    "wf_tee (t\<lparr>opers := (opers t)(a := z)\<rparr>)"
    using assms(1) unfolding wf_tee_def by (simp_all add: subset_iff)
qed

lemma wf_tee_remove:
  assumes "wf_tee t"
  shows "wf_tee (t\<lparr>objs := (objs t)(a := None)\<rparr>)" "wf_tee (t\<lparr>states := (states t)(a := None)\<rparr>)"
    "wf_tee (t\<lparr>opers := (opers t)(a := None)\<rparr>)"
  using assms unfolding wf_tee_def by (simp_all add: subset_iff)

section \<open>A concrete environment\<close>

text \<open>A small instance of the primitives, for concrete runs: a public key is its private number, a shared
  secret is a product, a signature repeats the number of the signer after the message.\<close>

definition be256 :: "nat \<Rightarrow> bytes" where
  "be256 n = map (\<lambda>i. word_of_nat (n div 256 ^ (31 - i) mod 256)) [0..<32]"

lemma length_be256 [simp]: "length (be256 n) = 32"
  by (simp add: be256_def)

definition sample_sig :: "nat \<Rightarrow> bytes \<Rightarrow> bytes" where
  "sample_sig x msg = take 64 (msg @ be256 x @ be256 x)"

definition sample_prims :: prims where
  "sample_prims =
     \<lparr>p_hash = (\<lambda>algo b. take 32 (rev b @ replicate 32 0)),
      p_mac = (\<lambda>algo k b. take 16 (rev b @ k @ replicate 16 0)),
      p_mac_key_ok = (\<lambda>algo l. l = 16),
      p_aes_key_ok = (\<lambda>l. l = 16),
      p_aes = (\<lambda>k b. sample_block b),
      p_ecc_make_key = (\<lambda>sz seed. let d = 2 ^ 248 + bn_of_bytes (take 30 seed) in Some (d, d, 2 ^ 255, 1)),
      p_ecc_sign_hash = (\<lambda>c d msg seed. Some (sample_sig d msg)),
      p_ecc_verify_hash = (\<lambda>c pk msg sig. CRYPT_OK (sig = sample_sig (fst pk) msg)),
      p_ecc_shared_secret = (\<lambda>c d pk. Some (be256 (d * fst pk))),
      p_cipher_init = (\<lambda>algo mode k1 k2 iv. Inr k1),
      p_cipher_update = (\<lambda>algo last b st. (TEE_SUCCESS, map2 (XOR) b st, st)),
      p_acipher = (\<lambda>c algo attrs b l seed. (TEE_ERROR_NOT_IMPLEMENTED, [], l)),
      p_sm2_kep = (\<lambda>a b p q parms. Inl TEE_ERROR_NOT_IMPLEMENTED),
      p_gen_key = (\<lambda>ty sz attrs seed. (TEE_ERROR_NOT_IMPLEMENTED, attrs))\<rparr>"

definition sample_env :: env where
  "sample_env =
     \<lparr>e_prims = sample_prims,
      e_oom = (\<lambda>n. False),
      e_mpi_ok = (\<lambda>n l. l \<le> 512),
      e_entropy = (\<lambda>n. le32 n),
      e_rng = (\<lambda>n l. Inr (replicate l (word_of_nat n))),
      e_set_curve = (\<lambda>n c. TEE_SUCCESS),
      e_huk = Inr (replicate 16 3),
      e_fortuna = Some,
      e_cfg = {CFG_CRYPTO_GCM, CFG_ALG TEE_ALG_SHA256, CFG_ALG TEE_ALG_AES_CMAC, CFG_ALG TEE_ALG_HMAC_SHA256},
      e_bignum_max_bits = 2048\<rparr>"

text \<open>The state of a TA that has just been started.\<close>

definition tee_start :: tee where
  "tee_start = \<lparr>tick = 0, objs = Map.empty, states = Map.empty, opers = Map.empty\<rparr>"

lemma wf_tee_start [simp]: "wf_tee tee_start"
  by (simp add: wf_tee_def tee_start_def)

lemma no_oom_sample [simp]: "no_oom sample_env"
  by (simp add: no_oom_def sample_env_def)

end
