(* ===== verification/Crypto_Glue.thy ===== *)
theory Crypto_Glue
  imports Tee_State
begin

text \<open>
  The layer between the TEE service and the cryptographic libraries: the context dispatch of
  \<^verbatim>\<open>core/crypto/crypto.c\<close> for digests, MACs and authenticated encryption, the libtomcrypt glue for
  digests, CMAC and elliptic curves (\<^verbatim>\<open>core/lib/libtomcrypt/hash.c\<close>, \<^verbatim>\<open>cmac.c\<close>,
  \<^verbatim>\<open>ecc.c\<close>, \<^verbatim>\<open>mpi_desc.c\<close>, \<^verbatim>\<open>acipher_helpers.h\<close>) and the context functions of
  \<^verbatim>\<open>core/crypto/aes-gcm.c\<close>. No hardware crypto driver is registered, so that the
  \<^verbatim>\<open>drvcrypt_*\<close> calls return \<^verbatim>\<open>TEE_ERROR_NOT_IMPLEMENTED\<close> and the software runs.

  A function whose context is not in the state the library expects has no defined result: \<open>None\<close>.
\<close>

section \<open>Big numbers\<close>

fun mp_count_bits :: "nat \<Rightarrow> nat" where
  "mp_count_bits n = (if n = 0 then 0 else Suc (mp_count_bits (n div 2)))"

declare mp_count_bits.simps [simp del]

lemma mp_count_bits_le_iff: "mp_count_bits n \<le> k \<longleftrightarrow> n < 2 ^ k"
proof (induction n arbitrary: k rule: mp_count_bits.induct)
  case (1 n)
  show ?case
  proof (cases "n = 0")
    case True
    then show ?thesis by (simp add: mp_count_bits.simps)
  next
    case False
    then have s: "mp_count_bits n = Suc (mp_count_bits (n div 2))" by (subst mp_count_bits.simps) simp
    show ?thesis
    proof (cases k)
      case 0
      with False s show ?thesis by simp
    next
      case (Suc j)
      with False s 1 [of j] show ?thesis by (simp add: less_mult_imp_div_less) linarith
    qed
  qed
qed

definition crypto_bignum_num_bytes :: "nat \<Rightarrow> nat" where
  "crypto_bignum_num_bytes n = length (bytes_of_bn n)"

definition crypto_bignum_bn2bin :: "nat \<Rightarrow> bytes" where
  "crypto_bignum_bn2bin n = bytes_of_bn n"

definition crypto_bignum_bin2bn :: "env \<Rightarrow> nat \<Rightarrow> bytes \<Rightarrow> TEE_Result + nat" where
  "crypto_bignum_bin2bn C now b =
     (if e_mpi_ok C now (length b) then Inr (bn_of_bytes b) else Inl TEE_ERROR_BAD_PARAMETERS)"

section \<open>Digests\<close>

definition hash_algos :: "nat list" where
  "hash_algos = [TEE_ALG_MD5, TEE_ALG_SHA1, TEE_ALG_SHA224, TEE_ALG_SHA256, TEE_ALG_SHA384, TEE_ALG_SHA512,
     TEE_ALG_SM3]"

definition crypto_hash_alloc_ctx :: "env \<Rightarrow> nat \<Rightarrow> 'a tee_scheme \<Rightarrow> (TEE_Result + cryp_ctx) \<times> 'a tee_scheme" where
  "crypto_hash_alloc_ctx C algo t =
     (if algo \<in> set hash_algos \<and> CFG_ALG algo \<in> e_cfg C
      then (case alloc C t of (a, t) \<Rightarrow> (if a = 0 then Inl TEE_ERROR_OUT_OF_MEMORY else Inr (HashCtx None), t))
      else (Inl TEE_ERROR_NOT_IMPLEMENTED, t))"

definition crypto_hash_init :: "cryp_ctx \<Rightarrow> (TEE_Result \<times> cryp_ctx) option" where
  "crypto_hash_init ctx = (case ctx of HashCtx s \<Rightarrow> Some (TEE_SUCCESS, HashCtx (Some [])) | _ \<Rightarrow> None)"

definition crypto_hash_update :: "bytes \<Rightarrow> cryp_ctx \<Rightarrow> (TEE_Result \<times> cryp_ctx) option" where
  "crypto_hash_update data ctx =
     (case ctx of HashCtx (Some acc) \<Rightarrow> Some (TEE_SUCCESS, HashCtx (Some (acc @ data))) | _ \<Rightarrow> None)"

definition crypto_hash_final ::
    "env \<Rightarrow> nat \<Rightarrow> nat \<Rightarrow> cryp_ctx \<Rightarrow> (TEE_Result \<times> bytes \<times> cryp_ctx) option" where
  "crypto_hash_final C algo len ctx =
     (if len = 0 then Some (TEE_ERROR_BAD_PARAMETERS, [], ctx)
      else case ctx of
             HashCtx (Some acc) \<Rightarrow> Some (TEE_SUCCESS, take len (p_hash (e_prims C) algo acc), HashCtx None)
           | _ \<Rightarrow> None)"

section \<open>Message authentication codes\<close>

definition mac_algos :: "nat list" where
  "mac_algos = [TEE_ALG_HMAC_MD5, TEE_ALG_HMAC_SHA1, TEE_ALG_HMAC_SHA224, TEE_ALG_HMAC_SHA256,
     TEE_ALG_HMAC_SHA384, TEE_ALG_HMAC_SHA512, TEE_ALG_HMAC_SM3, TEE_ALG_AES_CBC_MAC_NOPAD,
     TEE_ALG_AES_CBC_MAC_PKCS5, TEE_ALG_DES_CBC_MAC_NOPAD, TEE_ALG_DES_CBC_MAC_PKCS5,
     TEE_ALG_DES3_CBC_MAC_NOPAD, TEE_ALG_DES3_CBC_MAC_PKCS5, TEE_ALG_DES3_CMAC, TEE_ALG_AES_CMAC]"

definition crypto_mac_alloc_ctx :: "env \<Rightarrow> nat \<Rightarrow> 'a tee_scheme \<Rightarrow> (TEE_Result + cryp_ctx) \<times> 'a tee_scheme" where
  "crypto_mac_alloc_ctx C algo t =
     (if algo \<notin> set mac_algos then (Inl TEE_ERROR_NOT_SUPPORTED, t)
      else if CFG_ALG algo \<notin> e_cfg C then (Inl TEE_ERROR_NOT_IMPLEMENTED, t)
      else case alloc C t of (a, t) \<Rightarrow> (if a = 0 then Inl TEE_ERROR_OUT_OF_MEMORY else Inr (MacCtx None), t))"

definition crypto_mac_init :: "env \<Rightarrow> nat \<Rightarrow> bytes \<Rightarrow> cryp_ctx \<Rightarrow> (TEE_Result \<times> cryp_ctx) option" where
  "crypto_mac_init C algo key ctx =
     (case ctx of
        MacCtx s \<Rightarrow>
          Some (if p_mac_key_ok (e_prims C) algo (length key) then (TEE_SUCCESS, MacCtx (Some (key, [])))
                else (TEE_ERROR_BAD_STATE, MacCtx None))
      | _ \<Rightarrow> None)"

definition crypto_mac_update :: "bytes \<Rightarrow> cryp_ctx \<Rightarrow> (TEE_Result \<times> cryp_ctx) option" where
  "crypto_mac_update data ctx =
     (if data = [] then Some (TEE_SUCCESS, ctx)
      else case ctx of
             MacCtx (Some (key, acc)) \<Rightarrow> Some (TEE_SUCCESS, MacCtx (Some (key, acc @ data)))
           | _ \<Rightarrow> None)"

definition crypto_mac_final ::
    "env \<Rightarrow> nat \<Rightarrow> nat \<Rightarrow> cryp_ctx \<Rightarrow> (TEE_Result \<times> bytes \<times> cryp_ctx) option" where
  "crypto_mac_final C algo len ctx =
     (case ctx of
        MacCtx (Some (key, acc)) \<Rightarrow> Some (TEE_SUCCESS, take len (p_mac (e_prims C) algo key acc), MacCtx None)
      | _ \<Rightarrow> None)"

section \<open>Authenticated encryption\<close>

definition crypto_authenc_alloc_ctx ::
    "env \<Rightarrow> nat \<Rightarrow> 'a tee_scheme \<Rightarrow> (TEE_Result + cryp_ctx) \<times> 'a tee_scheme" where
  "crypto_authenc_alloc_ctx C algo t =
     (if algo = TEE_ALG_AES_CCM \<and> CFG_CRYPTO_CCM \<in> e_cfg C
      then (case alloc C t of (a, t) \<Rightarrow> (if a = 0 then Inl TEE_ERROR_OUT_OF_MEMORY else Inr OtherCtx, t))
      else if algo = TEE_ALG_AES_GCM \<and> CFG_CRYPTO_GCM \<in> e_cfg C
      then (case alloc C t of (a, t) \<Rightarrow>
              (if a = 0 then Inl TEE_ERROR_OUT_OF_MEMORY else Inr (GcmCtx [] gcm_zero), t))
      else (Inl TEE_ERROR_NOT_IMPLEMENTED, t))"

text \<open>\<^verbatim>\<open>internal_aes_gcm_init\<close>: the expanded key is kept as the key itself.\<close>

definition crypto_authenc_init ::
    "env \<Rightarrow> TEE_OperationMode \<Rightarrow> bytes \<Rightarrow> bytes \<Rightarrow> nat \<Rightarrow> cryp_ctx \<Rightarrow> (TEE_Result \<times> cryp_ctx) option" where
  "crypto_authenc_init C mode key nonce tag_len ctx =
     (case ctx of
        GcmCtx k st \<Rightarrow>
          Some (if \<not> p_aes_key_ok (e_prims C) (length key) then (TEE_ERROR_BAD_PARAMETERS, ctx)
                else case gcm_init (p_aes (e_prims C) key) mode nonce tag_len of
                       Inl e \<Rightarrow> (e, GcmCtx key st)
                     | Inr st \<Rightarrow> (TEE_SUCCESS, GcmCtx key st))
      | _ \<Rightarrow> None)"

definition crypto_authenc_update_aad :: "nat \<Rightarrow> bytes \<Rightarrow> cryp_ctx \<Rightarrow> (TEE_Result \<times> cryp_ctx) option" where
  "crypto_authenc_update_aad addr data ctx =
     (case ctx of
        GcmCtx k st \<Rightarrow>
          Some (case gcm_update_aad addr data st of
                  Inl e \<Rightarrow> (e, ctx) | Inr st \<Rightarrow> (TEE_SUCCESS, GcmCtx k st))
      | _ \<Rightarrow> None)"

definition crypto_authenc_update_payload ::
    "env \<Rightarrow> TEE_OperationMode \<Rightarrow> bytes \<Rightarrow> nat \<Rightarrow> cryp_ctx \<Rightarrow> (TEE_Result \<times> bytes \<times> nat \<times> cryp_ctx) option"
  where
  "crypto_authenc_update_payload C mode src dst_len ctx =
     (if dst_len < length src then Some (TEE_ERROR_SHORT_BUFFER, [], dst_len, ctx)
      else case ctx of
             GcmCtx k st \<Rightarrow>
               (let (st, out) = gcm_update_payload (p_aes (e_prims C) k) mode src st
                in Some (TEE_SUCCESS, out, length src, GcmCtx k st))
           | _ \<Rightarrow> None)"

text \<open>The output, the tag and their lengths. When the tag buffer is too short its length is left
  alone.\<close>

definition crypto_authenc_enc_final ::
    "env \<Rightarrow> bytes \<Rightarrow> nat \<Rightarrow> nat \<Rightarrow> cryp_ctx \<Rightarrow> (TEE_Result \<times> bytes \<times> nat \<times> bytes \<times> nat \<times> cryp_ctx) option"
  where
  "crypto_authenc_enc_final C src dst_len tag_len ctx =
     (if dst_len < length src then Some (TEE_ERROR_SHORT_BUFFER, [], dst_len, [], tag_len, ctx)
      else case ctx of
             GcmCtx k st \<Rightarrow>
               Some (case gcm_enc_final (p_aes (e_prims C) k) src tag_len st of
                       Inl e \<Rightarrow> (e, [], length src, [], tag_len, ctx)
                     | Inr (st, out, tag) \<Rightarrow> (TEE_SUCCESS, out, length src, tag, g_tag_len st, GcmCtx k st))
           | _ \<Rightarrow> None)"

definition crypto_authenc_dec_final ::
    "env \<Rightarrow> bytes \<Rightarrow> nat \<Rightarrow> bytes \<Rightarrow> cryp_ctx \<Rightarrow> (TEE_Result \<times> bytes \<times> nat \<times> cryp_ctx) option" where
  "crypto_authenc_dec_final C src dst_len tag ctx =
     (if dst_len < length src then Some (TEE_ERROR_SHORT_BUFFER, [], dst_len, ctx)
      else case ctx of
             GcmCtx k st \<Rightarrow>
               (case gcm_dec_final (p_aes (e_prims C) k) src tag st of
                  (res, st, out) \<Rightarrow> Some (res, out, length src, GcmCtx k st))
           | _ \<Rightarrow> None)"

end
