(* ===== verification/Ltc_Ecc.thy ===== *)
theory Ltc_Ecc
  imports Crypto_Glue
begin

text \<open>
  Elliptic curve keys: \<^verbatim>\<open>core/lib/libtomcrypt/ecc.c\<close> and the \<^verbatim>\<open>crypto_acipher_*_ecc_*\<close>
  wrappers of \<^verbatim>\<open>core/crypto/crypto.c\<close>. The arithmetic of libtomcrypt is in the environment; what the
  glue adds (curve selection, size checks, conversion of return codes) is modelled.
\<close>

record ecc_public_key =
  pk_x :: nat
  pk_y :: nat
  pk_curve :: nat

record ecc_keypair =
  kp_d :: nat
  kp_x :: nat
  kp_y :: nat
  kp_curve :: nat

text \<open>The operation tables a key is given when it is allocated, by the type of the key.\<close>

datatype ecc_ops = Ecc_ops | Sm2_dsa_ops | Sm2_pke_ops | Sm2_kep_ops

section \<open>Curves\<close>

definition curve_algos :: "nat \<Rightarrow> (nat \<times> nat \<times> nat list) option" where
  "curve_algos curve =
     (if curve = TEE_ECC_CURVE_NIST_P192 then Some (192, 24, [TEE_ALG_ECDSA_P192, TEE_ALG_ECDH_P192])
      else if curve = TEE_ECC_CURVE_NIST_P224 then Some (224, 28, [TEE_ALG_ECDSA_P224, TEE_ALG_ECDH_P224])
      else if curve = TEE_ECC_CURVE_NIST_P256 then Some (256, 32, [TEE_ALG_ECDSA_P256, TEE_ALG_ECDH_P256])
      else if curve = TEE_ECC_CURVE_NIST_P384 then Some (384, 48, [TEE_ALG_ECDSA_P384, TEE_ALG_ECDH_P384])
      else if curve = TEE_ECC_CURVE_NIST_P521 then Some (521, 66, [TEE_ALG_ECDSA_P521, TEE_ALG_ECDH_P521])
      else if curve = TEE_ECC_CURVE_SM2
      then Some (256, 32, [TEE_ALG_SM2_PKE, TEE_ALG_SM2_DSA_SM3, TEE_ALG_SM2_KEP])
      else None)"

text \<open>The size of the key in bytes and in bits.\<close>

definition ecc_get_curve_info :: "nat \<Rightarrow> nat \<Rightarrow> TEE_Result + (nat \<times> nat)" where
  "ecc_get_curve_info curve algo =
     (case curve_algos curve of
        None \<Rightarrow> Inl TEE_ERROR_NOT_SUPPORTED
      | Some (size_bits, size_bytes, algos) \<Rightarrow>
          if algo \<noteq> 0 \<and> algo \<notin> set algos then Inl TEE_ERROR_BAD_PARAMETERS
          else Inr (size_bytes, size_bits))"

section \<open>Key generation\<close>

text \<open>\<^verbatim>\<open>_ltc_ecc_generate_keypair\<close> and \<^verbatim>\<open>_ltc_ecc_generate_keypair_with_prng\<close> differ in the source of
  randomness: the entropy of the system, or a generator the caller seeded.\<close>

definition ltc_ecc_keypair_from :: "env \<Rightarrow> bytes \<Rightarrow> nat \<Rightarrow> ecc_keypair \<Rightarrow> TEE_Result \<times> ecc_keypair" where
  "ltc_ecc_keypair_from C seed key_size key =
     (case ecc_get_curve_info (kp_curve key) 0 of
        Inl e \<Rightarrow> (e, key)
      | Inr (key_size_bytes, key_size_bits) \<Rightarrow>
          if key_size \<noteq> key_size_bits then (TEE_ERROR_BAD_PARAMETERS, key)
          else case p_ecc_make_key (e_prims C) key_size_bytes seed of
                 None \<Rightarrow> (TEE_ERROR_BAD_PARAMETERS, key)
               | Some (k, x, y, z) \<Rightarrow>
                   if mp_count_bits x > key_size_bits \<or> mp_count_bits y > key_size_bits \<or>
                      mp_count_bits k > key_size_bits
                   then (TEE_ERROR_BAD_PARAMETERS, key)
                   else if mp_count_bits z \<noteq> 1 then (TEE_ERROR_BAD_PARAMETERS, key)
                   else (TEE_SUCCESS, key\<lparr>kp_d := k, kp_x := x, kp_y := y\<rparr>))"

definition ltc_ecc_generate_keypair ::
    "env \<Rightarrow> nat \<Rightarrow> ecc_keypair \<Rightarrow> 'a tee_scheme \<Rightarrow> TEE_Result \<times> ecc_keypair \<times> 'a tee_scheme" where
  "ltc_ecc_generate_keypair C key_size key t =
     (case ltc_ecc_keypair_from C (e_entropy C (tick t)) key_size key of
        (res, key) \<Rightarrow> (res, key, t\<lparr>tick := tick t + 1\<rparr>))"

definition ltc_ecc_generate_keypair_with_prng ::
    "env \<Rightarrow> bytes \<Rightarrow> nat \<Rightarrow> ecc_keypair \<Rightarrow> TEE_Result \<times> ecc_keypair" where
  "ltc_ecc_generate_keypair_with_prng C prng key_size key = ltc_ecc_keypair_from C prng key_size key"

section \<open>Signature, verification, shared secret\<close>

definition ecc_populate_ltc_key :: "env \<Rightarrow> nat \<Rightarrow> nat \<Rightarrow> nat \<Rightarrow> TEE_Result + nat" where
  "ecc_populate_ltc_key C now curve algo =
     (case ecc_get_curve_info curve algo of
        Inl e \<Rightarrow> Inl e
      | Inr (key_size_bytes, key_size_bits) \<Rightarrow>
          if e_set_curve C now curve \<noteq> TEE_SUCCESS then Inl (e_set_curve C now curve) else Inr key_size_bytes)"

text \<open>The result code, the signature and its length.\<close>

definition ltc_ecc_sign ::
    "env \<Rightarrow> nat \<Rightarrow> ecc_keypair \<Rightarrow> bytes \<Rightarrow> nat \<Rightarrow> 'a tee_scheme \<Rightarrow> TEE_Result \<times> bytes \<times> nat \<times> 'a tee_scheme" where
  "ltc_ecc_sign C algo key msg sig_len t =
     (if algo = 0 then (TEE_ERROR_BAD_PARAMETERS, [], sig_len, t)
      else case ecc_populate_ltc_key C (tick t) (kp_curve key) algo of
             Inl e \<Rightarrow> (e, [], sig_len, t)
           | Inr key_size_bytes \<Rightarrow>
               if sig_len < 2 * key_size_bytes then (TEE_ERROR_SHORT_BUFFER, [], 2 * key_size_bytes, t)
               else case p_ecc_sign_hash (e_prims C) (kp_curve key) (kp_d key) msg (e_entropy C (tick t)) of
                      None \<Rightarrow> (TEE_ERROR_GENERIC, [], sig_len, t\<lparr>tick := tick t + 1\<rparr>)
                    | Some sig \<Rightarrow> (TEE_SUCCESS, sig, length sig, t\<lparr>tick := tick t + 1\<rparr>))"

definition convert_ltc_verify_status :: "ltc_verify \<Rightarrow> TEE_Result" where
  "convert_ltc_verify_status r =
     (case r of
        CRYPT_OK stat \<Rightarrow> if stat then TEE_SUCCESS else TEE_ERROR_SIGNATURE_INVALID
      | CRYPT_INVALID_PACKET \<Rightarrow> TEE_ERROR_SIGNATURE_INVALID
      | CRYPT_PK_INVALID_SIZE \<Rightarrow> TEE_ERROR_SIGNATURE_INVALID
      | CRYPT_ERROR \<Rightarrow> TEE_ERROR_GENERIC)"

definition ltc_ecc_verify :: "env \<Rightarrow> nat \<Rightarrow> nat \<Rightarrow> ecc_public_key \<Rightarrow> bytes \<Rightarrow> bytes \<Rightarrow> TEE_Result" where
  "ltc_ecc_verify C now algo key msg sig =
     (if algo = 0 then TEE_ERROR_BAD_PARAMETERS
      else case ecc_populate_ltc_key C now (pk_curve key) algo of
             Inl e \<Rightarrow> e
           | Inr key_size_bytes \<Rightarrow>
               if key_size_bytes * 2 \<noteq> length sig then TEE_ERROR_BAD_PARAMETERS
               else convert_ltc_verify_status
                      (p_ecc_verify_hash (e_prims C) (pk_curve key) (pk_x key, pk_y key) msg sig))"

definition ltc_ecc_shared_secret ::
    "env \<Rightarrow> nat \<Rightarrow> ecc_keypair \<Rightarrow> ecc_public_key \<Rightarrow> nat \<Rightarrow> TEE_Result + bytes" where
  "ltc_ecc_shared_secret C now private_key public_key secret_len =
     (if kp_curve private_key \<noteq> pk_curve public_key then Inl TEE_ERROR_BAD_PARAMETERS
      else case ecc_populate_ltc_key C now (kp_curve private_key) 0 of
             Inl e \<Rightarrow> Inl e
           | Inr _ \<Rightarrow>
               (case ecc_populate_ltc_key C now (pk_curve public_key) 0 of
                  Inl e \<Rightarrow> Inl e
                | Inr _ \<Rightarrow>
                    (case p_ecc_shared_secret (e_prims C) (kp_curve private_key) (kp_d private_key)
                            (pk_x public_key, pk_y public_key) of
                       None \<Rightarrow> Inl TEE_ERROR_BAD_PARAMETERS
                     | Some s \<Rightarrow> if length s \<le> secret_len then Inr s else Inl TEE_ERROR_BAD_PARAMETERS)))"

section \<open>Allocation and dispatch\<close>

definition ecc_keypair_ops_of :: "env \<Rightarrow> nat \<Rightarrow> ecc_ops option" where
  "ecc_keypair_ops_of C key_type =
     (if key_type = TEE_TYPE_ECDSA_KEYPAIR \<or> key_type = TEE_TYPE_ECDH_KEYPAIR then Some Ecc_ops
      else if key_type = TEE_TYPE_SM2_DSA_KEYPAIR \<and> CFG_CORE_LTC_SM2_DSA \<in> e_cfg C then Some Sm2_dsa_ops
      else if key_type = TEE_TYPE_SM2_PKE_KEYPAIR \<and> CFG_CORE_LTC_SM2_PKE \<in> e_cfg C then Some Sm2_pke_ops
      else if key_type = TEE_TYPE_SM2_KEP_KEYPAIR \<and> CFG_CORE_LTC_SM2_KEP \<in> e_cfg C then Some Sm2_kep_ops
      else None)"

definition ecc_public_ops_of :: "env \<Rightarrow> nat \<Rightarrow> ecc_ops option" where
  "ecc_public_ops_of C key_type =
     (if key_type = TEE_TYPE_ECDSA_PUBLIC_KEY \<or> key_type = TEE_TYPE_ECDH_PUBLIC_KEY then Some Ecc_ops
      else if key_type = TEE_TYPE_SM2_DSA_PUBLIC_KEY \<and> CFG_CORE_LTC_SM2_DSA \<in> e_cfg C then Some Sm2_dsa_ops
      else if key_type = TEE_TYPE_SM2_PKE_PUBLIC_KEY \<and> CFG_CORE_LTC_SM2_PKE \<in> e_cfg C then Some Sm2_pke_ops
      else if key_type = TEE_TYPE_SM2_KEP_PUBLIC_KEY \<and> CFG_CORE_LTC_SM2_KEP \<in> e_cfg C then Some Sm2_kep_ops
      else None)"

definition crypto_asym_alloc_ecc_keypair :: "env \<Rightarrow> nat \<Rightarrow> 'a tee_scheme \<Rightarrow> TEE_Result \<times> 'a tee_scheme" where
  "crypto_asym_alloc_ecc_keypair C key_type t =
     (if ecc_keypair_ops_of C key_type = None then (TEE_ERROR_NOT_IMPLEMENTED, t)
      else case allocs C 3 t of (ok, t) \<Rightarrow> (if ok then TEE_SUCCESS else TEE_ERROR_OUT_OF_MEMORY, t))"

definition crypto_asym_alloc_ecc_public_key :: "env \<Rightarrow> nat \<Rightarrow> 'a tee_scheme \<Rightarrow> TEE_Result \<times> 'a tee_scheme" where
  "crypto_asym_alloc_ecc_public_key C key_type t =
     (if ecc_public_ops_of C key_type = None then (TEE_ERROR_NOT_IMPLEMENTED, t)
      else case allocs C 2 t of (ok, t) \<Rightarrow> (if ok then TEE_SUCCESS else TEE_ERROR_OUT_OF_MEMORY, t))"

section \<open>The attributes of an elliptic curve object\<close>

fun keypair_of_attrs :: "attr_val list \<Rightarrow> ecc_keypair option" where
  "keypair_of_attrs [Bignum d, Bignum x, Bignum y, Value c] =
     Some \<lparr>kp_d = d, kp_x = x, kp_y = y, kp_curve = c\<rparr>"
| "keypair_of_attrs _ = None"

definition attrs_of_keypair :: "ecc_keypair \<Rightarrow> attr_val list" where
  "attrs_of_keypair k = [Bignum (kp_d k), Bignum (kp_x k), Bignum (kp_y k), Value (kp_curve k)]"

fun public_of_attrs :: "attr_val list \<Rightarrow> ecc_public_key option" where
  "public_of_attrs [Bignum x, Bignum y, Value c] = Some \<lparr>pk_x = x, pk_y = y, pk_curve = c\<rparr>"
| "public_of_attrs _ = None"

lemma keypair_of_attrs_of [simp]: "keypair_of_attrs (attrs_of_keypair k) = Some k"
  by (simp add: attrs_of_keypair_def)

lemma ecc_get_curve_info_P256 [simp]:
  "ecc_get_curve_info TEE_ECC_CURVE_NIST_P256 0 = Inr (32, 256)"
  "ecc_get_curve_info TEE_ECC_CURVE_NIST_P256 TEE_ALG_ECDSA_P256 = Inr (32, 256)"
  "ecc_get_curve_info TEE_ECC_CURVE_NIST_P256 TEE_ALG_ECDH_P256 = Inr (32, 256)"
  by (simp_all add: ecc_get_curve_info_def curve_algos_def)

lemma ecc_populate_P256 [simp]:
  "no_oom C \<Longrightarrow> ecc_populate_ltc_key C n TEE_ECC_CURVE_NIST_P256 0 = Inr 32"
  "no_oom C \<Longrightarrow> ecc_populate_ltc_key C n TEE_ECC_CURVE_NIST_P256 TEE_ALG_ECDSA_P256 = Inr 32"
  by (simp_all add: ecc_populate_ltc_key_def no_oom_curve [simplified])

lemma ltc_ecc_keypair_from_P256:
  assumes "p_ecc_make_key (e_prims C) 32 seed = Some (k, x, y, 1)" "kp_curve key = TEE_ECC_CURVE_NIST_P256"
    "k < 2 ^ 256" "x < 2 ^ 256" "y < 2 ^ 256"
  shows "ltc_ecc_keypair_from C seed 256 key = (TEE_SUCCESS, key\<lparr>kp_d := k, kp_x := x, kp_y := y\<rparr>)"
proof -
  have "mp_count_bits 1 = 1" by (simp add: mp_count_bits.simps)
  moreover have "mp_count_bits k \<le> 256" "mp_count_bits x \<le> 256" "mp_count_bits y \<le> 256"
    using assms(3-5) by (simp_all only: mp_count_bits_le_iff)
  ultimately show ?thesis
    using assms(1,2) by (simp add: ltc_ecc_keypair_from_def)
qed

end
