(* ===== verification/Tee_Svc_Attr.thy ===== *)
theory Tee_Svc_Attr
  imports Ltc_Ecc
begin

text \<open>
  The attribute tables and the attribute operations of \<^verbatim>\<open>core/tee/tee_svc_cryp.c\<close>: what attributes an
  object type has, their sizes and flags, and how an attribute is read from the caller, written to the
  caller, serialised for the secure storage, copied and cleared.
\<close>

section \<open>Tables\<close>

datatype attr_flag =
    ATTR_OPTIONAL | ATTR_REQUIRED | ATTR_OPTIONAL_GROUP | ATTR_SIZE_INDICATOR | ATTR_GEN_KEY_OPT
  | ATTR_GEN_KEY_REQ | ATTR_BIGNUM_MAXBITS

datatype attr_ops_index = ATTR_OPS_INDEX_SECRET | ATTR_OPS_INDEX_BIGNUM | ATTR_OPS_INDEX_VALUE

record type_attr =
  ta_id :: nat
  ta_flags :: "attr_flag list"
  ta_ops :: attr_ops_index

record type_props =
  tp_obj_type :: nat
  tp_quanta :: nat
  tp_min_size :: nat
  tp_max_size :: nat
  tp_alloc_size :: nat
  tp_attrs :: "type_attr list"

definition TA :: "nat \<Rightarrow> attr_flag list \<Rightarrow> attr_ops_index \<Rightarrow> type_attr" where
  "TA i f ops = \<lparr>ta_id = i, ta_flags = f, ta_ops = ops\<rparr>"

definition OBJ_PROP :: "nat \<Rightarrow> nat \<Rightarrow> nat \<Rightarrow> nat \<Rightarrow> nat \<Rightarrow> type_attr list \<Rightarrow> type_props" where
  "OBJ_PROP ty quanta mn mx sz attrs =
     \<lparr>tp_obj_type = ty, tp_quanta = quanta, tp_min_size = mn, tp_max_size = mx, tp_alloc_size = sz,
      tp_attrs = attrs\<rparr>"

definition tee_cryp_obj_secret_value_attrs :: "type_attr list" where
  "tee_cryp_obj_secret_value_attrs =
     [TA TEE_ATTR_SECRET_VALUE [ATTR_REQUIRED, ATTR_SIZE_INDICATOR] ATTR_OPS_INDEX_SECRET]"

definition tee_cryp_obj_rsa_pub_key_attrs :: "type_attr list" where
  "tee_cryp_obj_rsa_pub_key_attrs =
     [TA TEE_ATTR_RSA_MODULUS [ATTR_REQUIRED, ATTR_SIZE_INDICATOR] ATTR_OPS_INDEX_BIGNUM,
      TA TEE_ATTR_RSA_PUBLIC_EXPONENT [ATTR_REQUIRED] ATTR_OPS_INDEX_BIGNUM]"

definition tee_cryp_obj_rsa_keypair_attrs :: "type_attr list" where
  "tee_cryp_obj_rsa_keypair_attrs =
     [TA TEE_ATTR_RSA_MODULUS [ATTR_REQUIRED, ATTR_SIZE_INDICATOR] ATTR_OPS_INDEX_BIGNUM,
      TA TEE_ATTR_RSA_PUBLIC_EXPONENT [ATTR_REQUIRED, ATTR_GEN_KEY_OPT] ATTR_OPS_INDEX_BIGNUM,
      TA TEE_ATTR_RSA_PRIVATE_EXPONENT [ATTR_REQUIRED] ATTR_OPS_INDEX_BIGNUM,
      TA TEE_ATTR_RSA_PRIME1 [ATTR_OPTIONAL_GROUP] ATTR_OPS_INDEX_BIGNUM,
      TA TEE_ATTR_RSA_PRIME2 [ATTR_OPTIONAL_GROUP] ATTR_OPS_INDEX_BIGNUM,
      TA TEE_ATTR_RSA_EXPONENT1 [ATTR_OPTIONAL_GROUP] ATTR_OPS_INDEX_BIGNUM,
      TA TEE_ATTR_RSA_EXPONENT2 [ATTR_OPTIONAL_GROUP] ATTR_OPS_INDEX_BIGNUM,
      TA TEE_ATTR_RSA_COEFFICIENT [ATTR_OPTIONAL_GROUP] ATTR_OPS_INDEX_BIGNUM]"

definition tee_cryp_obj_dsa_pub_key_attrs :: "type_attr list" where
  "tee_cryp_obj_dsa_pub_key_attrs =
     [TA TEE_ATTR_DSA_PRIME [ATTR_REQUIRED, ATTR_BIGNUM_MAXBITS] ATTR_OPS_INDEX_BIGNUM,
      TA TEE_ATTR_DSA_SUBPRIME [ATTR_REQUIRED, ATTR_SIZE_INDICATOR] ATTR_OPS_INDEX_BIGNUM,
      TA TEE_ATTR_DSA_BASE [ATTR_REQUIRED, ATTR_BIGNUM_MAXBITS] ATTR_OPS_INDEX_BIGNUM,
      TA TEE_ATTR_DSA_PUBLIC_VALUE [ATTR_REQUIRED, ATTR_BIGNUM_MAXBITS] ATTR_OPS_INDEX_BIGNUM]"

definition tee_cryp_obj_dsa_keypair_attrs :: "type_attr list" where
  "tee_cryp_obj_dsa_keypair_attrs =
     [TA TEE_ATTR_DSA_PRIME [ATTR_REQUIRED, ATTR_GEN_KEY_REQ, ATTR_BIGNUM_MAXBITS] ATTR_OPS_INDEX_BIGNUM,
      TA TEE_ATTR_DSA_SUBPRIME [ATTR_REQUIRED, ATTR_SIZE_INDICATOR, ATTR_GEN_KEY_REQ] ATTR_OPS_INDEX_BIGNUM,
      TA TEE_ATTR_DSA_BASE [ATTR_REQUIRED, ATTR_GEN_KEY_REQ, ATTR_BIGNUM_MAXBITS] ATTR_OPS_INDEX_BIGNUM,
      TA TEE_ATTR_DSA_PRIVATE_VALUE [ATTR_REQUIRED, ATTR_BIGNUM_MAXBITS] ATTR_OPS_INDEX_BIGNUM,
      TA TEE_ATTR_DSA_PUBLIC_VALUE [ATTR_REQUIRED, ATTR_BIGNUM_MAXBITS] ATTR_OPS_INDEX_BIGNUM]"

definition tee_cryp_obj_dh_keypair_attrs :: "type_attr list" where
  "tee_cryp_obj_dh_keypair_attrs =
     [TA TEE_ATTR_DH_PRIME [ATTR_REQUIRED, ATTR_SIZE_INDICATOR, ATTR_GEN_KEY_REQ] ATTR_OPS_INDEX_BIGNUM,
      TA TEE_ATTR_DH_BASE [ATTR_REQUIRED, ATTR_GEN_KEY_REQ] ATTR_OPS_INDEX_BIGNUM,
      TA TEE_ATTR_DH_PUBLIC_VALUE [ATTR_REQUIRED] ATTR_OPS_INDEX_BIGNUM,
      TA TEE_ATTR_DH_PRIVATE_VALUE [ATTR_REQUIRED] ATTR_OPS_INDEX_BIGNUM,
      TA TEE_ATTR_DH_SUBPRIME [ATTR_OPTIONAL_GROUP, ATTR_GEN_KEY_OPT] ATTR_OPS_INDEX_BIGNUM,
      TA TEE_ATTR_DH_X_BITS [ATTR_GEN_KEY_OPT] ATTR_OPS_INDEX_VALUE]"

definition tee_cryp_obj_hkdf_ikm_attrs :: "type_attr list" where
  "tee_cryp_obj_hkdf_ikm_attrs =
     [TA TEE_ATTR_HKDF_IKM [ATTR_REQUIRED, ATTR_SIZE_INDICATOR] ATTR_OPS_INDEX_SECRET]"

definition tee_cryp_obj_concat_kdf_z_attrs :: "type_attr list" where
  "tee_cryp_obj_concat_kdf_z_attrs =
     [TA TEE_ATTR_CONCAT_KDF_Z [ATTR_REQUIRED, ATTR_SIZE_INDICATOR] ATTR_OPS_INDEX_SECRET]"

definition tee_cryp_obj_pbkdf2_passwd_attrs :: "type_attr list" where
  "tee_cryp_obj_pbkdf2_passwd_attrs =
     [TA TEE_ATTR_PBKDF2_PASSWORD [ATTR_REQUIRED, ATTR_SIZE_INDICATOR] ATTR_OPS_INDEX_SECRET]"

definition tee_cryp_obj_ecc_pub_key_attrs :: "type_attr list" where
  "tee_cryp_obj_ecc_pub_key_attrs =
     [TA TEE_ATTR_ECC_PUBLIC_VALUE_X [ATTR_REQUIRED] ATTR_OPS_INDEX_BIGNUM,
      TA TEE_ATTR_ECC_PUBLIC_VALUE_Y [ATTR_REQUIRED] ATTR_OPS_INDEX_BIGNUM,
      TA TEE_ATTR_ECC_CURVE [ATTR_REQUIRED, ATTR_SIZE_INDICATOR] ATTR_OPS_INDEX_VALUE]"

definition tee_cryp_obj_ecc_keypair_attrs :: "type_attr list" where
  "tee_cryp_obj_ecc_keypair_attrs =
     [TA TEE_ATTR_ECC_PRIVATE_VALUE [ATTR_REQUIRED] ATTR_OPS_INDEX_BIGNUM,
      TA TEE_ATTR_ECC_PUBLIC_VALUE_X [ATTR_REQUIRED] ATTR_OPS_INDEX_BIGNUM,
      TA TEE_ATTR_ECC_PUBLIC_VALUE_Y [ATTR_REQUIRED] ATTR_OPS_INDEX_BIGNUM,
      TA TEE_ATTR_ECC_CURVE [ATTR_REQUIRED, ATTR_SIZE_INDICATOR, ATTR_GEN_KEY_REQ] ATTR_OPS_INDEX_VALUE]"

text \<open>The sizes allocated for the data are those of a 64-bit build: 8 bytes of header before a secret
  (\<^verbatim>\<open>struct tee_cryp_obj_secret\<close>), 8 bytes for each pointer of a key structure.\<close>

definition tee_cryp_obj_props :: "env \<Rightarrow> type_props list" where
  "tee_cryp_obj_props C =
     [OBJ_PROP TEE_TYPE_AES 64 128 256 (256 div 8 + 8) tee_cryp_obj_secret_value_attrs,
      OBJ_PROP TEE_TYPE_DES 64 64 64 (64 div 8 + 8) tee_cryp_obj_secret_value_attrs,
      OBJ_PROP TEE_TYPE_DES3 64 128 192 (192 div 8 + 8) tee_cryp_obj_secret_value_attrs,
      OBJ_PROP TEE_TYPE_SM4 128 128 128 (128 div 8 + 8) tee_cryp_obj_secret_value_attrs,
      OBJ_PROP TEE_TYPE_HMAC_MD5 8 64 512 (512 div 8 + 8) tee_cryp_obj_secret_value_attrs,
      OBJ_PROP TEE_TYPE_HMAC_SHA1 8 80 512 (512 div 8 + 8) tee_cryp_obj_secret_value_attrs,
      OBJ_PROP TEE_TYPE_HMAC_SHA224 8 112 512 (512 div 8 + 8) tee_cryp_obj_secret_value_attrs,
      OBJ_PROP TEE_TYPE_HMAC_SHA256 8 192 1024 (1024 div 8 + 8) tee_cryp_obj_secret_value_attrs,
      OBJ_PROP TEE_TYPE_HMAC_SHA384 8 256 1024 (1024 div 8 + 8) tee_cryp_obj_secret_value_attrs,
      OBJ_PROP TEE_TYPE_HMAC_SHA512 8 256 1024 (1024 div 8 + 8) tee_cryp_obj_secret_value_attrs,
      OBJ_PROP TEE_TYPE_HMAC_SM3 8 80 1024 (512 div 8 + 8) tee_cryp_obj_secret_value_attrs,
      OBJ_PROP TEE_TYPE_GENERIC_SECRET 8 0 4096 (4096 div 8 + 8) tee_cryp_obj_secret_value_attrs] @
     (if CFG_CRYPTO_HKDF \<in> e_cfg C
      then [OBJ_PROP TEE_TYPE_HKDF_IKM 8 0 4096 (4096 div 8 + 8) tee_cryp_obj_hkdf_ikm_attrs] else []) @
     (if CFG_CRYPTO_CONCAT_KDF \<in> e_cfg C
      then [OBJ_PROP TEE_TYPE_CONCAT_KDF_Z 8 0 4096 (4096 div 8 + 8) tee_cryp_obj_concat_kdf_z_attrs] else []) @
     (if CFG_CRYPTO_PBKDF2 \<in> e_cfg C
      then [OBJ_PROP TEE_TYPE_PBKDF2_PASSWORD 8 0 4096 (4096 div 8 + 8) tee_cryp_obj_pbkdf2_passwd_attrs] else []) @
     [OBJ_PROP TEE_TYPE_RSA_PUBLIC_KEY 1 256 (e_bignum_max_bits C) 16 tee_cryp_obj_rsa_pub_key_attrs,
      OBJ_PROP TEE_TYPE_RSA_KEYPAIR 1 256 (e_bignum_max_bits C) 64 tee_cryp_obj_rsa_keypair_attrs,
      OBJ_PROP TEE_TYPE_DSA_PUBLIC_KEY 64 512 3072 32 tee_cryp_obj_dsa_pub_key_attrs,
      OBJ_PROP TEE_TYPE_DSA_KEYPAIR 64 512 3072 40 tee_cryp_obj_dsa_keypair_attrs,
      OBJ_PROP TEE_TYPE_DH_KEYPAIR 1 256 2048 48 tee_cryp_obj_dh_keypair_attrs,
      OBJ_PROP TEE_TYPE_ECDSA_PUBLIC_KEY 1 192 521 32 tee_cryp_obj_ecc_pub_key_attrs,
      OBJ_PROP TEE_TYPE_ECDSA_KEYPAIR 1 192 521 40 tee_cryp_obj_ecc_keypair_attrs,
      OBJ_PROP TEE_TYPE_ECDH_PUBLIC_KEY 1 192 521 32 tee_cryp_obj_ecc_pub_key_attrs,
      OBJ_PROP TEE_TYPE_ECDH_KEYPAIR 1 192 521 40 tee_cryp_obj_ecc_keypair_attrs,
      OBJ_PROP TEE_TYPE_SM2_DSA_PUBLIC_KEY 1 256 256 32 tee_cryp_obj_ecc_pub_key_attrs,
      OBJ_PROP TEE_TYPE_SM2_DSA_KEYPAIR 1 256 256 40 tee_cryp_obj_ecc_keypair_attrs,
      OBJ_PROP TEE_TYPE_SM2_PKE_PUBLIC_KEY 1 256 256 32 tee_cryp_obj_ecc_pub_key_attrs,
      OBJ_PROP TEE_TYPE_SM2_PKE_KEYPAIR 1 256 256 40 tee_cryp_obj_ecc_keypair_attrs,
      OBJ_PROP TEE_TYPE_SM2_KEP_PUBLIC_KEY 1 256 256 32 tee_cryp_obj_ecc_pub_key_attrs,
      OBJ_PROP TEE_TYPE_SM2_KEP_KEYPAIR 1 256 256 40 tee_cryp_obj_ecc_keypair_attrs]"

section \<open>Lookups\<close>

fun find_attr_idx_from :: "nat \<Rightarrow> nat \<Rightarrow> type_attr list \<Rightarrow> nat option" where
  "find_attr_idx_from n attr_id [] = None"
| "find_attr_idx_from n attr_id (a # as) =
     (if attr_id = ta_id a then Some n else find_attr_idx_from (n + 1) attr_id as)"

definition tee_svc_cryp_obj_find_type_attr_idx :: "nat \<Rightarrow> type_props \<Rightarrow> nat option" where
  "tee_svc_cryp_obj_find_type_attr_idx attr_id props = find_attr_idx_from 0 attr_id (tp_attrs props)"

definition tee_svc_find_type_props :: "env \<Rightarrow> nat \<Rightarrow> type_props option" where
  "tee_svc_find_type_props C obj_type = find (\<lambda>p. tp_obj_type p = obj_type) (tee_cryp_obj_props C)"

definition set_attribute :: "tee_obj \<Rightarrow> type_props \<Rightarrow> nat \<Rightarrow> tee_obj" where
  "set_attribute ob props attr =
     (case tee_svc_cryp_obj_find_type_attr_idx attr props of
        None \<Rightarrow> ob | Some idx \<Rightarrow> ob\<lparr>o_have := insert idx (o_have ob)\<rparr>)"

definition get_attribute :: "tee_obj \<Rightarrow> type_props \<Rightarrow> nat \<Rightarrow> bool" where
  "get_attribute ob props attr =
     (case tee_svc_cryp_obj_find_type_attr_idx attr props of None \<Rightarrow> False | Some idx \<Rightarrow> idx \<in> o_have ob)"

lemma find_attr_idx_from_shift:
  "find_attr_idx_from n i as = map_option (\<lambda>k. n + k) (find_attr_idx_from 0 i as)"
proof (induction as arbitrary: n)
  case (Cons a as)
  from Cons [of "Suc n"] Cons [of "Suc 0"] show ?case by (simp add: option.map_comp comp_def)
qed simp

lemma find_attr_idx_nth:
  "find_attr_idx_from 0 i as = Some k \<Longrightarrow> k < length as \<and> ta_id (as ! k) = i"
proof (induction as arbitrary: k)
  case (Cons a as)
  show ?case
  proof (cases "i = ta_id a")
    case True
    with Cons.prems show ?thesis by simp
  next
    case False
    with Cons.prems find_attr_idx_from_shift [of 1 i as] obtain j where
      "find_attr_idx_from 0 i as = Some j" "k = Suc j" by (cases "find_attr_idx_from 0 i as") auto
    with Cons.IH show ?thesis by simp
  qed
qed simp

text \<open>The rows of the tables that the attestation protocol reaches.\<close>

lemmas attr_tables =
  tee_cryp_obj_secret_value_attrs_def tee_cryp_obj_ecc_pub_key_attrs_def tee_cryp_obj_ecc_keypair_attrs_def

lemma find_type_props_simps [simp]:
  "tee_svc_find_type_props C TEE_TYPE_AES =
     Some (OBJ_PROP TEE_TYPE_AES 64 128 256 40 tee_cryp_obj_secret_value_attrs)"
  "tee_svc_find_type_props C TEE_TYPE_GENERIC_SECRET =
     Some (OBJ_PROP TEE_TYPE_GENERIC_SECRET 8 0 4096 520 tee_cryp_obj_secret_value_attrs)"
  "tee_svc_find_type_props C TEE_TYPE_ECDSA_PUBLIC_KEY =
     Some (OBJ_PROP TEE_TYPE_ECDSA_PUBLIC_KEY 1 192 521 32 tee_cryp_obj_ecc_pub_key_attrs)"
  "tee_svc_find_type_props C TEE_TYPE_ECDSA_KEYPAIR =
     Some (OBJ_PROP TEE_TYPE_ECDSA_KEYPAIR 1 192 521 40 tee_cryp_obj_ecc_keypair_attrs)"
  "tee_svc_find_type_props C TEE_TYPE_ECDH_KEYPAIR =
     Some (OBJ_PROP TEE_TYPE_ECDH_KEYPAIR 1 192 521 40 tee_cryp_obj_ecc_keypair_attrs)"
  by (simp_all add: tee_svc_find_type_props_def tee_cryp_obj_props_def OBJ_PROP_def)

section \<open>Serialisation helpers\<close>

text \<open>A buffer to fill is \<open>None\<close> when the caller only asks for the size. Offsets are 64-bit.\<close>

definition op_u32_to_binary_helper :: "nat \<Rightarrow> bytes option \<Rightarrow> nat \<Rightarrow> TEE_Result + (bytes option \<times> nat)" where
  "op_u32_to_binary_helper v data offs =
     (if offs + 4 \<ge> 2 ^ 64 then Inl TEE_ERROR_OVERFLOW
      else Inr (map_option (\<lambda>d. if offs + 4 \<le> length d then put_at offs (rev (le32 v)) d else d) data, offs + 4))"

definition op_u32_from_binary_helper :: "bytes \<Rightarrow> nat \<Rightarrow> (nat \<times> nat) option" where
  "op_u32_from_binary_helper data offs =
     (if offs + 4 > length data then None
      else Some (un_le32 (rev (take 4 (drop offs data))), offs + 4))"

text \<open>The length field followed by the bytes, for a secret and for a big number.\<close>

definition op_bytes_to_binary :: "bytes \<Rightarrow> bytes option \<Rightarrow> nat \<Rightarrow> TEE_Result + (bytes option \<times> nat)" where
  "op_bytes_to_binary b data offs =
     (case op_u32_to_binary_helper (length b) data offs of
        Inl e \<Rightarrow> Inl e
      | Inr (data, offs) \<Rightarrow>
          if offs + length b \<ge> 2 ^ 64 then Inl TEE_ERROR_OVERFLOW
          else Inr (map_option (\<lambda>d. if offs + length b \<le> length d then put_at offs b d else d) data,
                    offs + length b))"

section \<open>The attribute operations\<close>

definition attr_from_user :: "env \<Rightarrow> nat \<Rightarrow> bytes \<Rightarrow> attr_val \<Rightarrow> TEE_Result \<times> attr_val" where
  "attr_from_user C now buffer attr =
     (case attr of
        Secret alloc_size key \<Rightarrow>
          if length buffer > alloc_size then (TEE_ERROR_SECURITY, attr)
          else (TEE_SUCCESS, Secret alloc_size buffer)
      | Bignum n \<Rightarrow>
          (case crypto_bignum_bin2bn C now buffer of
             Inl e \<Rightarrow> (e, attr) | Inr n \<Rightarrow> (TEE_SUCCESS, Bignum n))
      | Value v \<Rightarrow>
          if length buffer \<noteq> 8 then (TEE_ERROR_GENERIC, attr)
          else (TEE_SUCCESS, Value (un_le32 (take 4 buffer))))"

text \<open>\<open>to_user\<close>: the result, the size written back and the bytes written to the buffer of that size.
  The buffer is \<open>False\<close> when it is null.\<close>

definition attr_to_user :: "bool \<Rightarrow> nat \<Rightarrow> attr_val \<Rightarrow> TEE_Result \<times> nat \<times> bytes option" where
  "attr_to_user buffer s attr =
     (case attr of
        Secret alloc_size key \<Rightarrow>
          if s < length key \<or> \<not> buffer then (TEE_ERROR_SHORT_BUFFER, length key, None)
          else (TEE_SUCCESS, length key, Some key)
      | Bignum n \<Rightarrow>
          let req_size = crypto_bignum_num_bytes n in
          if req_size = 0 then (TEE_SUCCESS, req_size, None)
          else if s < req_size \<or> \<not> buffer then (TEE_ERROR_SHORT_BUFFER, req_size, None)
          else (TEE_SUCCESS, req_size, Some (crypto_bignum_bn2bin n))
      | Value v \<Rightarrow>
          if s < 8 \<or> \<not> buffer then (TEE_ERROR_SHORT_BUFFER, s, None)
          else (TEE_SUCCESS, s, Some (le32 v @ le32 0)))"

definition attr_to_binary :: "attr_val \<Rightarrow> bytes option \<Rightarrow> nat \<Rightarrow> TEE_Result + (bytes option \<times> nat)" where
  "attr_to_binary attr data offs =
     (case attr of
        Secret alloc_size key \<Rightarrow> op_bytes_to_binary key data offs
      | Bignum n \<Rightarrow> op_bytes_to_binary (crypto_bignum_bn2bin n) data offs
      | Value v \<Rightarrow> op_u32_to_binary_helper v data offs)"

text \<open>\<open>None\<close> stands for the C result \<^verbatim>\<open>false\<close>.\<close>

definition attr_from_binary :: "env \<Rightarrow> nat \<Rightarrow> bytes \<Rightarrow> nat \<Rightarrow> attr_val \<Rightarrow> (attr_val \<times> nat) option" where
  "attr_from_binary C now data offs attr =
     (case attr of
        Secret alloc_size key \<Rightarrow>
          (case op_u32_from_binary_helper data offs of
             None \<Rightarrow> None
           | Some (s, offs) \<Rightarrow>
               if offs + s > length data then None
               else if s > alloc_size then None
               else Some (Secret alloc_size (take s (drop offs data)), offs + s))
      | Bignum n \<Rightarrow>
          (case op_u32_from_binary_helper data offs of
             None \<Rightarrow> None
           | Some (n, offs) \<Rightarrow>
               if offs + n > length data then None
               else (case crypto_bignum_bin2bn C now (take n (drop offs data)) of
                       Inl e \<Rightarrow> None | Inr b \<Rightarrow> Some (Bignum b, offs + n)))
      | Value v \<Rightarrow>
          (case op_u32_from_binary_helper data offs of
             None \<Rightarrow> None | Some (v, offs) \<Rightarrow> Some (Value v, offs)))"

definition attr_from_obj :: "attr_val \<Rightarrow> attr_val \<Rightarrow> (TEE_Result \<times> attr_val) option" where
  "attr_from_obj attr src =
     (case (attr, src) of
        (Secret alloc_size key, Secret src_size src_key) \<Rightarrow>
          Some (if length src_key > alloc_size then (TEE_ERROR_BAD_STATE, attr)
                else (TEE_SUCCESS, Secret alloc_size src_key))
      | (Bignum n, Bignum m) \<Rightarrow> Some (TEE_SUCCESS, Bignum m)
      | (Value v, Value w) \<Rightarrow> Some (TEE_SUCCESS, Value w)
      | _ \<Rightarrow> None)"

definition attr_clear :: "attr_val \<Rightarrow> attr_val" where
  "attr_clear attr =
     (case attr of Secret alloc_size key \<Rightarrow> Secret alloc_size [] | Bignum n \<Rightarrow> Bignum 0 | Value v \<Rightarrow> Value 0)"

section \<open>All the attributes of an object\<close>

fun attrs_to_binary :: "attr_val list \<Rightarrow> bytes option \<Rightarrow> nat \<Rightarrow> TEE_Result + (bytes option \<times> nat)" where
  "attrs_to_binary [] data offs = Inr (data, offs)"
| "attrs_to_binary (a # as) data offs =
     (case attr_to_binary a data offs of Inl e \<Rightarrow> Inl e | Inr (data, offs) \<Rightarrow> attrs_to_binary as data offs)"

text \<open>The result, the length written back and the buffer.\<close>

definition tee_obj_attr_to_binary :: "env \<Rightarrow> tee_obj \<Rightarrow> bytes option \<Rightarrow> TEE_Result + (TEE_Result \<times> nat \<times> bytes option)" where
  "tee_obj_attr_to_binary C ob data =
     (if o_type ob = TEE_TYPE_DATA then Inr (TEE_SUCCESS, 0, data)
      else case o_attr ob of
             None \<Rightarrow> Inl TEE_ERROR_BAD_STATE
           | Some attrs \<Rightarrow>
               if tee_svc_find_type_props C (o_type ob) = None then Inl TEE_ERROR_BAD_STATE
               else case attrs_to_binary attrs data 0 of
                      Inl e \<Rightarrow> Inl e
                    | Inr (data', offs) \<Rightarrow>
                        Inr (case data of
                               None \<Rightarrow> TEE_SUCCESS
                             | Some d \<Rightarrow> if offs > length d then TEE_ERROR_SHORT_BUFFER else TEE_SUCCESS,
                             offs, data'))"

fun attrs_from_binary :: "env \<Rightarrow> nat \<Rightarrow> bytes \<Rightarrow> nat \<Rightarrow> attr_val list \<Rightarrow> bool \<times> attr_val list" where
  "attrs_from_binary C now data offs [] = (True, [])"
| "attrs_from_binary C now data offs (a # as) =
     (case attr_from_binary C now data offs a of
        None \<Rightarrow> (False, a # as)
      | Some (a, offs) \<Rightarrow> (case attrs_from_binary C now data offs as of (ok, as) \<Rightarrow> (ok, a # as)))"

definition tee_obj_attr_from_binary :: "env \<Rightarrow> nat \<Rightarrow> tee_obj \<Rightarrow> bytes \<Rightarrow> TEE_Result \<times> tee_obj" where
  "tee_obj_attr_from_binary C now ob data =
     (if o_type ob = TEE_TYPE_DATA then (TEE_SUCCESS, ob)
      else case o_attr ob of
             None \<Rightarrow> (TEE_ERROR_BAD_STATE, ob)
           | Some attrs \<Rightarrow>
               if tee_svc_find_type_props C (o_type ob) = None then (TEE_ERROR_BAD_STATE, ob)
               else case attrs_from_binary C now data 0 attrs of
                      (ok, attrs) \<Rightarrow>
                        (if ok then TEE_SUCCESS else TEE_ERROR_CORRUPT_OBJECT, ob\<lparr>o_attr := Some attrs\<rparr>))"

section \<open>Serialisation round trip\<close>

text \<open>The serialised form of an attribute, and the attributes that it represents: the lengths fit their
  32-bit fields and the buffers of the object, and a big number of that length can be read back.\<close>

definition attr_enc :: "attr_val \<Rightarrow> bytes" where
  "attr_enc a =
     (case a of
        Secret sz key \<Rightarrow> rev (le32 (length key)) @ key
      | Bignum n \<Rightarrow> rev (le32 (length (bytes_of_bn n))) @ bytes_of_bn n
      | Value v \<Rightarrow> rev (le32 v))"

definition attr_fits :: "env \<Rightarrow> nat \<Rightarrow> attr_val \<Rightarrow> bool" where
  "attr_fits C now a \<longleftrightarrow>
     (case a of
        Secret sz key \<Rightarrow> length key \<le> sz \<and> length key < 2 ^ 32
      | Bignum n \<Rightarrow> length (bytes_of_bn n) < 2 ^ 32 \<and> e_mpi_ok C now (length (bytes_of_bn n))
      | Value v \<Rightarrow> v < 2 ^ 32)"

definition attrs_enc :: "attr_val list \<Rightarrow> bytes" where
  "attrs_enc as = concat (map attr_enc as)"

lemma put_at_append:
  "offs + length x + length y \<le> length d \<Longrightarrow>
   put_at (offs + length x) y (put_at offs x d) = put_at offs (x @ y) d"
  by (cases x) (auto simp: put_at_def min_def add_ac)

lemma length_put_at_fits: "offs + length x \<le> length d \<Longrightarrow> length (put_at offs x d) = length d"
  by (simp add: put_at_def)

lemma op_u32_to_binary_fits:
  "offs + 4 \<le> length d \<Longrightarrow> length d < 2 ^ 64 \<Longrightarrow>
   op_u32_to_binary_helper v (Some d) offs = Inr (Some (put_at offs (rev (le32 v)) d), offs + 4)"
  by (simp add: op_u32_to_binary_helper_def)

lemma op_bytes_to_binary_fits:
  assumes "offs + 4 + length b \<le> length d" "length d < 2 ^ 64"
  shows "op_bytes_to_binary b (Some d) offs =
    Inr (Some (put_at offs (rev (le32 (length b)) @ b) d), offs + (4 + length b))"
  using assms put_at_append [of offs "rev (le32 (length b))" b d]
  by (simp add: op_bytes_to_binary_def op_u32_to_binary_fits length_put_at_fits add_ac)

lemma attr_to_binary_fits:
  "offs + length (attr_enc a) \<le> length d \<Longrightarrow> length d < 2 ^ 64 \<Longrightarrow>
   attr_to_binary a (Some d) offs = Inr (Some (put_at offs (attr_enc a) d), offs + length (attr_enc a))"
  by (cases a)
    (simp_all add: attr_to_binary_def attr_enc_def op_bytes_to_binary_fits op_u32_to_binary_fits
      crypto_bignum_bn2bin_def)

lemma attrs_to_binary_fits:
  "offs + length (attrs_enc as) \<le> length d \<Longrightarrow> length d < 2 ^ 64 \<Longrightarrow>
   attrs_to_binary as (Some d) offs = Inr (Some (put_at offs (attrs_enc as) d), offs + length (attrs_enc as))"
proof (induction as arbitrary: offs d)
  case Nil
  then show ?case by (simp add: attrs_enc_def put_at_def)
next
  case (Cons a as)
  have "offs + length (attr_enc a) + length (attrs_enc as) \<le> length d"
    using Cons.prems(1) by (simp add: attrs_enc_def)
  with Cons.IH [of "offs + length (attr_enc a)" "put_at offs (attr_enc a) d"] Cons.prems(2)
  show ?case
    by (simp add: attr_to_binary_fits length_put_at_fits put_at_append)
      (simp add: attrs_enc_def add_ac)
qed

lemma op_u32_from_binary_at:
  "v < 2 ^ 32 \<Longrightarrow> op_u32_from_binary_helper (pre @ rev (le32 v) @ post) (length pre) = Some (v, length pre + 4)"
  using un_le32_le32 [of v "[]"] by (simp add: op_u32_from_binary_helper_def)

lemma attr_from_binary_at:
  assumes "attr_fits C now a"
  shows "attr_from_binary C now (pre @ attr_enc a @ post) (length pre) (attr_clear a) =
    Some (a, length pre + length (attr_enc a))"
proof (cases a)
  case (Secret sz key)
  with assms op_u32_from_binary_at [of "length key" pre "key @ post"] show ?thesis
    by (simp add: attr_from_binary_def attr_enc_def attr_clear_def attr_fits_def)
next
  case (Bignum n)
  with assms op_u32_from_binary_at [of "length (bytes_of_bn n)" pre "bytes_of_bn n @ post"] show ?thesis
    by (simp add: attr_from_binary_def attr_enc_def attr_clear_def attr_fits_def crypto_bignum_bin2bn_def)
next
  case (Value v)
  with assms op_u32_from_binary_at [of v pre post] show ?thesis
    by (simp add: attr_from_binary_def attr_enc_def attr_clear_def attr_fits_def)
qed

lemma attrs_from_binary_at:
  "\<forall>a \<in> set as. attr_fits C now a \<Longrightarrow>
   attrs_from_binary C now (pre @ attrs_enc as @ post) (length pre) (map attr_clear as) = (True, as)"
proof (induction as arbitrary: pre)
  case (Cons a as)
  from Cons.IH [of "pre @ attr_enc a"] Cons.prems
    attr_from_binary_at [of C now a pre "attrs_enc as @ post"]
  show ?case by (simp add: attrs_enc_def)
qed simp

text \<open>
  C15. Serialising the attributes of an object for the secure storage and reading them back gives the same
  attributes: \<^verbatim>\<open>tee_obj_attr_to_binary\<close> into a buffer that is large enough succeeds, returns the
  length of what it wrote, and \<^verbatim>\<open>tee_obj_attr_from_binary\<close> on those bytes, for an object of the same
  type whose attributes are cleared, restores every attribute.
\<close>

theorem tee_obj_attr_binary_roundtrip:
  assumes ob: "o_attr ob = Some attrs" "o_type ob \<noteq> TEE_TYPE_DATA"
      "tee_svc_find_type_props C (o_type ob) \<noteq> None"
    and fits: "\<forall>a \<in> set attrs. attr_fits C now a"
    and room: "length (attrs_enc attrs) \<le> length buf" "length buf < 2 ^ 64"
    and ob': "o_type ob' = o_type ob" "o_attr ob' = Some (map attr_clear attrs)"
  shows "\<exists>n buf'. tee_obj_attr_to_binary C ob (Some buf) = Inr (TEE_SUCCESS, n, Some buf') \<and>
    n = length (attrs_enc attrs) \<and>
    tee_obj_attr_from_binary C now ob' (take n buf') = (TEE_SUCCESS, ob'\<lparr>o_attr := Some attrs\<rparr>)"
proof -
  have "attrs_to_binary attrs (Some buf) 0 =
      Inr (Some (put_at 0 (attrs_enc attrs) buf), length (attrs_enc attrs))"
    using attrs_to_binary_fits [of 0 attrs buf] room by simp
  then have "tee_obj_attr_to_binary C ob (Some buf) =
      Inr (TEE_SUCCESS, length (attrs_enc attrs), Some (put_at 0 (attrs_enc attrs) buf))"
    using ob room by (simp add: tee_obj_attr_to_binary_def)
  moreover have "take (length (attrs_enc attrs)) (put_at 0 (attrs_enc attrs) buf) = attrs_enc attrs"
    by (simp add: put_at_def)
  moreover have "tee_obj_attr_from_binary C now ob' (attrs_enc attrs) =
      (TEE_SUCCESS, ob'\<lparr>o_attr := Some attrs\<rparr>)"
    using ob ob' attrs_from_binary_at [OF fits, of "[]" "[]"] by (simp add: tee_obj_attr_from_binary_def)
  ultimately show ?thesis by simp
qed

definition sample_key :: tee_obj where
  "sample_key =
     \<lparr>o_type = TEE_TYPE_AES, o_keySize = 128, o_maxKeySize = 128, o_usage = TEE_USAGE_DEFAULT,
      o_flags = {HF_INITIALIZED}, o_busy = False, o_have = {0},
      o_attr = Some [Secret 32 [1, 2, 3, 4, 5, 6, 7, 8, 9, 10, 11, 12, 13, 14, 15, 16]]\<rparr>"

theorem tee_obj_attr_binary_roundtrip_witness:
  "\<exists>buf'. tee_obj_attr_to_binary sample_env sample_key (Some (replicate 40 0)) =
      Inr (TEE_SUCCESS, 20, Some buf') \<and>
    tee_obj_attr_from_binary sample_env 0 (sample_key\<lparr>o_attr := Some [Secret 32 []]\<rparr>) (take 20 buf') =
      (TEE_SUCCESS, sample_key)"
  using tee_obj_attr_binary_roundtrip [of sample_key
      "[Secret 32 [1, 2, 3, 4, 5, 6, 7, 8, 9, 10, 11, 12, 13, 14, 15, 16]]" sample_env 0 "replicate 40 0"
      "sample_key\<lparr>o_attr := Some [Secret 32 []]\<rparr>"]
  by (simp add: sample_key_def attr_fits_def attrs_enc_def attr_enc_def attr_clear_def)

end
