(* ===== verification/Tee_Svc_Obj.thy ===== *)
theory Tee_Svc_Obj
  imports Tee_Svc_Attr
begin

text \<open>
  Objects: \<^verbatim>\<open>core/tee/tee_obj.c\<close> and the \<^verbatim>\<open>syscall_cryp_obj_*\<close> and
  \<^verbatim>\<open>syscall_obj_generate_key\<close> services of \<^verbatim>\<open>core/tee/tee_svc_cryp.c\<close>. A service takes the state of
  the calling TA and returns a result code and the new state. The buffers of the caller are mapped with
  the access rights the service asks for, so that \<^verbatim>\<open>vm_check_access_rights\<close>, \<^verbatim>\<open>copy_from_user\<close> and
  \<^verbatim>\<open>copy_to_user\<close> succeed; attribute arrays fit in memory, so that their size does not overflow.
  Persistent objects belong to the storage service and are not created here.
\<close>

section \<open>The list of objects\<close>

definition tee_obj_add :: "nat \<Rightarrow> tee_obj \<Rightarrow> 'a tee_scheme \<Rightarrow> 'a tee_scheme" where
  "tee_obj_add a ob t = t\<lparr>objs := (objs t)(a \<mapsto> ob)\<rparr>"

definition tee_obj_get :: "nat \<Rightarrow> 'a tee_scheme \<Rightarrow> TEE_Result + tee_obj" where
  "tee_obj_get a t = (case objs t a of None \<Rightarrow> Inl TEE_ERROR_BAD_STATE | Some ob \<Rightarrow> Inr ob)"

definition tee_obj_close :: "nat \<Rightarrow> 'a tee_scheme \<Rightarrow> 'a tee_scheme" where
  "tee_obj_close a t = t\<lparr>objs := (objs t)(a := None)\<rparr>"

text \<open>The zeroed object of \<^verbatim>\<open>tee_obj_alloc\<close>.\<close>

definition tee_obj_zero :: tee_obj where
  "tee_obj_zero =
     \<lparr>o_type = 0, o_keySize = 0, o_maxKeySize = 0, o_usage = 0, o_flags = {}, o_busy = False, o_have = {},
      o_attr = None\<rparr>"

section \<open>Information, usage and attributes\<close>

definition syscall_cryp_obj_get_info :: "nat \<Rightarrow> 'a tee_scheme \<Rightarrow> TEE_Result + tee_obj" where
  "syscall_cryp_obj_get_info obj t = tee_obj_get obj t"

definition syscall_cryp_obj_restrict_usage :: "nat \<Rightarrow> usage \<Rightarrow> 'a tee_scheme \<Rightarrow> TEE_Result \<times> 'a tee_scheme" where
  "syscall_cryp_obj_restrict_usage obj usage t =
     (case tee_obj_get obj t of
        Inl e \<Rightarrow> (e, t)
      | Inr ob \<Rightarrow> (TEE_SUCCESS, tee_obj_add obj (ob\<lparr>o_usage := o_usage ob AND usage\<rparr>) t))"

text \<open>The result, the size written back and the bytes written to the buffer.\<close>

definition syscall_cryp_obj_get_attr ::
    "env \<Rightarrow> nat \<Rightarrow> nat \<Rightarrow> bool \<Rightarrow> nat \<Rightarrow> 'a tee_scheme \<Rightarrow> TEE_Result \<times> nat \<times> bytes option" where
  "syscall_cryp_obj_get_attr C obj attr_id buffer sz t =
     (case tee_obj_get obj t of
        Inl e \<Rightarrow> (TEE_ERROR_ITEM_NOT_FOUND, sz, None)
      | Inr ob \<Rightarrow>
          if HF_INITIALIZED \<notin> o_flags ob then (TEE_ERROR_BAD_PARAMETERS, sz, None)
          else if \<not> attr_is_public attr_id \<and> o_usage ob AND TEE_USAGE_EXTRACTABLE = 0
          then (TEE_ERROR_BAD_PARAMETERS, sz, None)
          else case tee_svc_find_type_props C (o_type ob) of
                 None \<Rightarrow> (TEE_ERROR_BAD_STATE, sz, None)
               | Some props \<Rightarrow>
                   (case (tee_svc_cryp_obj_find_type_attr_idx attr_id props, o_attr ob) of
                      (Some idx, Some attrs) \<Rightarrow>
                        if idx \<in> o_have ob then attr_to_user buffer sz (attrs ! idx)
                        else (TEE_ERROR_ITEM_NOT_FOUND, sz, None)
                    | _ \<Rightarrow> (TEE_ERROR_ITEM_NOT_FOUND, sz, None)))"

definition tee_obj_attr_clear :: "env \<Rightarrow> tee_obj \<Rightarrow> tee_obj" where
  "tee_obj_attr_clear C ob =
     (case o_attr ob of
        None \<Rightarrow> ob
      | Some attrs \<Rightarrow>
          if tee_svc_find_type_props C (o_type ob) = None then ob
          else ob\<lparr>o_attr := Some (map attr_clear attrs)\<rparr>)"

section \<open>Copying attributes\<close>

fun attrs_from_obj :: "(attr_val \<times> attr_val) list \<Rightarrow> (TEE_Result \<times> attr_val list) option" where
  "attrs_from_obj [] = Some (TEE_SUCCESS, [])"
| "attrs_from_obj ((a, s) # as) =
     (case attr_from_obj a s of
        None \<Rightarrow> None
      | Some (res, a') \<Rightarrow>
          if res \<noteq> TEE_SUCCESS then Some (res, a # map fst as)
          else map_option (\<lambda>(res, as'). (res, a' # as')) (attrs_from_obj as))"

text \<open>The public key types that can be copied from a key pair.\<close>

definition public_of_keypair_type :: "nat \<Rightarrow> nat option" where
  "public_of_keypair_type ty =
     map_of [(TEE_TYPE_RSA_PUBLIC_KEY, TEE_TYPE_RSA_KEYPAIR), (TEE_TYPE_DSA_PUBLIC_KEY, TEE_TYPE_DSA_KEYPAIR),
       (TEE_TYPE_ECDSA_PUBLIC_KEY, TEE_TYPE_ECDSA_KEYPAIR), (TEE_TYPE_ECDH_PUBLIC_KEY, TEE_TYPE_ECDH_KEYPAIR),
       (TEE_TYPE_SM2_DSA_PUBLIC_KEY, TEE_TYPE_SM2_DSA_KEYPAIR),
       (TEE_TYPE_SM2_PKE_PUBLIC_KEY, TEE_TYPE_SM2_PKE_KEYPAIR),
       (TEE_TYPE_SM2_KEP_PUBLIC_KEY, TEE_TYPE_SM2_KEP_KEYPAIR)] ty"

fun source_attrs :: "type_attr list \<Rightarrow> type_props \<Rightarrow> attr_val list \<Rightarrow> attr_val list option" where
  "source_attrs [] tp_src src = Some []"
| "source_attrs (ta # tas) tp_src src =
     (case tee_svc_cryp_obj_find_type_attr_idx (ta_id ta) tp_src of
        None \<Rightarrow> None
      | Some idx \<Rightarrow> map_option (\<lambda>as. src ! idx # as) (source_attrs tas tp_src src))"

definition tee_obj_attr_copy_from :: "env \<Rightarrow> tee_obj \<Rightarrow> tee_obj \<Rightarrow> (TEE_Result \<times> tee_obj) option" where
  "tee_obj_attr_copy_from C ob src =
     (if o_type ob = TEE_TYPE_DATA then Some (TEE_SUCCESS, ob)
      else case (o_attr ob, tee_svc_find_type_props C (o_type ob)) of
             (None, _) \<Rightarrow> Some (TEE_ERROR_BAD_STATE, ob)
           | (Some attrs, None) \<Rightarrow> Some (TEE_ERROR_BAD_STATE, ob)
           | (Some attrs, Some tp) \<Rightarrow>
               if o_type ob = o_type src
               then do {
                 src_attrs \<leftarrow> o_attr src;
                 (res, attrs) \<leftarrow> attrs_from_obj (zip attrs src_attrs);
                 Some (res, if res = TEE_SUCCESS then ob\<lparr>o_attr := Some attrs, o_have := o_have src\<rparr>
                            else ob\<lparr>o_attr := Some attrs\<rparr>)
               }
               else if public_of_keypair_type (o_type ob) \<noteq> Some (o_type src)
               then Some (TEE_ERROR_BAD_PARAMETERS, ob)
               else case tee_svc_find_type_props C (o_type src) of
                      None \<Rightarrow> Some (TEE_ERROR_BAD_STATE, ob)
                    | Some tp_src \<Rightarrow> do {
                        src_attrs \<leftarrow> o_attr src;
                        (case source_attrs (tp_attrs tp) tp_src src_attrs of
                           None \<Rightarrow> Some (TEE_ERROR_BAD_STATE, ob)
                         | Some srcs \<Rightarrow> do {
                             (res, attrs) \<leftarrow> attrs_from_obj (zip attrs srcs);
                             Some (res,
                               if res = TEE_SUCCESS
                               then ob\<lparr>o_attr := Some attrs, o_have := {0..<length (tp_attrs tp)}\<rparr>
                               else ob\<lparr>o_attr := Some attrs\<rparr>)
                           })
                      })"

section \<open>Allocation\<close>

definition is_gp_legacy_des_key_size :: "env \<Rightarrow> nat \<Rightarrow> nat \<Rightarrow> bool" where
  "is_gp_legacy_des_key_size C ty sz \<longleftrightarrow>
     CFG_COMPAT_GP10_DES \<in> e_cfg C \<and>
     ((ty = TEE_TYPE_DES \<and> sz = 56) \<or> (ty = TEE_TYPE_DES3 \<and> (sz = 112 \<or> sz = 168)))"

definition check_key_size :: "env \<Rightarrow> type_props \<Rightarrow> nat \<Rightarrow> TEE_Result" where
  "check_key_size C props key_size =
     (let sz = (if is_gp_legacy_des_key_size C (tp_obj_type props) key_size then key_size + key_size div 7
                else key_size)
      in if sz mod tp_quanta props \<noteq> 0 then TEE_ERROR_NOT_SUPPORTED
         else if sz < tp_min_size props then TEE_ERROR_NOT_SUPPORTED
         else if sz > tp_max_size props then TEE_ERROR_NOT_SUPPORTED
         else TEE_SUCCESS)"

text \<open>The attributes of a new object: the zeroed secret with its allocated size, the allocated big
  numbers, the zeroed values.\<close>

definition init_attrs :: "type_props \<Rightarrow> attr_val list" where
  "init_attrs props =
     map (\<lambda>a. case ta_ops a of
                ATTR_OPS_INDEX_SECRET \<Rightarrow> Secret (tp_alloc_size props - 8) []
              | ATTR_OPS_INDEX_BIGNUM \<Rightarrow> Bignum 0
              | ATTR_OPS_INDEX_VALUE \<Rightarrow> Value 0) (tp_attrs props)"

definition num_bignums :: "type_props \<Rightarrow> nat" where
  "num_bignums props = length (filter (\<lambda>a. ta_ops a = ATTR_OPS_INDEX_BIGNUM) (tp_attrs props))"

definition alloc_key_attrs :: "env \<Rightarrow> nat \<Rightarrow> type_props \<Rightarrow> 'a tee_scheme \<Rightarrow> TEE_Result \<times> 'a tee_scheme" where
  "alloc_key_attrs C obj_type props t =
     (if obj_type \<in> {TEE_TYPE_ECDSA_PUBLIC_KEY, TEE_TYPE_ECDH_PUBLIC_KEY, TEE_TYPE_SM2_DSA_PUBLIC_KEY,
           TEE_TYPE_SM2_PKE_PUBLIC_KEY, TEE_TYPE_SM2_KEP_PUBLIC_KEY}
      then crypto_asym_alloc_ecc_public_key C obj_type t
      else if obj_type \<in> {TEE_TYPE_ECDSA_KEYPAIR, TEE_TYPE_ECDH_KEYPAIR, TEE_TYPE_SM2_DSA_KEYPAIR,
           TEE_TYPE_SM2_PKE_KEYPAIR, TEE_TYPE_SM2_KEP_KEYPAIR}
      then crypto_asym_alloc_ecc_keypair C obj_type t
      else case allocs C (num_bignums props) t of
             (ok, t) \<Rightarrow> (if ok then TEE_SUCCESS else TEE_ERROR_OUT_OF_MEMORY, t))"

definition tee_obj_set_type ::
    "env \<Rightarrow> tee_obj \<Rightarrow> nat \<Rightarrow> nat \<Rightarrow> 'a tee_scheme \<Rightarrow> TEE_Result \<times> tee_obj \<times> 'a tee_scheme" where
  "tee_obj_set_type C ob obj_type max_key_size t =
     (let typed = (\<lambda>ob. ob\<lparr>o_type := obj_type, o_maxKeySize := max_key_size, o_usage := TEE_USAGE_DEFAULT\<rparr>) in
      if o_attr ob \<noteq> None then (TEE_ERROR_BAD_STATE, ob, t)
      else if obj_type = TEE_TYPE_DATA
      then if max_key_size \<noteq> 0 then (TEE_ERROR_NOT_SUPPORTED, ob, t) else (TEE_SUCCESS, typed ob, t)
      else case tee_svc_find_type_props C obj_type of
             None \<Rightarrow> (TEE_ERROR_NOT_SUPPORTED, ob, t)
           | Some props \<Rightarrow>
               if check_key_size C props max_key_size \<noteq> TEE_SUCCESS
               then (check_key_size C props max_key_size, ob, t)
               else case alloc C t of
                      (a, t) \<Rightarrow>
                        if a = 0 then (TEE_ERROR_OUT_OF_MEMORY, ob, t)
                        else let ob = ob\<lparr>o_attr := Some (init_attrs props)\<rparr> in
                             case alloc_key_attrs C obj_type props t of
                               (res, t) \<Rightarrow>
                                 if res \<noteq> TEE_SUCCESS then (res, ob, t) else (TEE_SUCCESS, typed ob, t))"

definition syscall_cryp_obj_alloc ::
    "env \<Rightarrow> nat \<Rightarrow> nat \<Rightarrow> 'a tee_scheme \<Rightarrow> (TEE_Result + nat) \<times> 'a tee_scheme" where
  "syscall_cryp_obj_alloc C obj_type max_key_size t =
     (case alloc C t of
        (a, t) \<Rightarrow>
          if a = 0 then (Inl TEE_ERROR_OUT_OF_MEMORY, t)
          else case tee_obj_set_type C tee_obj_zero obj_type max_key_size t of
                 (res, ob, t) \<Rightarrow>
                   if res \<noteq> TEE_SUCCESS then (Inl res, t) else (Inr a, tee_obj_add a ob t))"

definition syscall_cryp_obj_close :: "nat \<Rightarrow> 'a tee_scheme \<Rightarrow> TEE_Result \<times> 'a tee_scheme" where
  "syscall_cryp_obj_close obj t =
     (case tee_obj_get obj t of
        Inl e \<Rightarrow> (e, t)
      | Inr ob \<Rightarrow> if o_busy ob then (TEE_ERROR_ITEM_NOT_FOUND, t) else (TEE_SUCCESS, tee_obj_close obj t))"

definition syscall_cryp_obj_reset :: "env \<Rightarrow> nat \<Rightarrow> 'a tee_scheme \<Rightarrow> TEE_Result \<times> 'a tee_scheme" where
  "syscall_cryp_obj_reset C obj t =
     (case tee_obj_get obj t of
        Inl e \<Rightarrow> (e, t)
      | Inr ob \<Rightarrow>
          if HF_PERSISTENT \<in> o_flags ob then (TEE_ERROR_BAD_PARAMETERS, t)
          else (TEE_SUCCESS,
                tee_obj_add obj
                  ((tee_obj_attr_clear C ob)\<lparr>o_keySize := 0, o_usage := TEE_USAGE_DEFAULT,
                     o_flags := o_flags ob - {HF_INITIALIZED}\<rparr>) t))"

section \<open>Checking and populating attributes\<close>

datatype attr_usage = ATTR_USAGE_POPULATE | ATTR_USAGE_GENERATE_KEY

definition attrs_with :: "(attr_flag list \<Rightarrow> bool) \<Rightarrow> type_props \<Rightarrow> nat set" where
  "attrs_with P props = {n \<in> {0..<length (tp_attrs props)}. P (ta_flags (tp_attrs props ! n))}"

fun check_attr_loop :: "type_props \<Rightarrow> nat set \<Rightarrow> nat set \<Rightarrow> TEE_Attribute list \<Rightarrow> nat set option" where
  "check_attr_loop props allowed found [] = Some found"
| "check_attr_loop props allowed found (a # as) =
     (case tee_svc_cryp_obj_find_type_attr_idx (attributeID a) props of
        None \<Rightarrow> None
      | Some idx \<Rightarrow>
          if idx \<in> found then None
          else if idx \<notin> allowed then None
          else check_attr_loop props allowed (insert idx found) as)"

definition tee_svc_cryp_check_attr :: "attr_usage \<Rightarrow> type_props \<Rightarrow> TEE_Attribute list \<Rightarrow> TEE_Result" where
  "tee_svc_cryp_check_attr usg props attrs =
     (let required_flag = (if usg = ATTR_USAGE_POPULATE then ATTR_REQUIRED else ATTR_GEN_KEY_REQ);
          opt_flag = (if usg = ATTR_USAGE_POPULATE then ATTR_OPTIONAL_GROUP else ATTR_GEN_KEY_OPT);
          all_opt_needed = (usg = ATTR_USAGE_POPULATE);
          req_attrs = attrs_with (\<lambda>f. required_flag \<in> set f) props;
          opt_grp_attrs = attrs_with (\<lambda>f. required_flag \<notin> set f \<and> opt_flag \<in> set f) props
      in case check_attr_loop props (req_attrs \<union> opt_grp_attrs) {} attrs of
           None \<Rightarrow> TEE_ERROR_ITEM_NOT_FOUND
         | Some attrs_found \<Rightarrow>
             if \<not> req_attrs \<subseteq> attrs_found then TEE_ERROR_ITEM_NOT_FOUND
             else if all_opt_needed \<and> attrs_found \<inter> opt_grp_attrs \<noteq> {} \<and>
                     attrs_found \<inter> opt_grp_attrs \<noteq> opt_grp_attrs
             then TEE_ERROR_ITEM_NOT_FOUND
             else TEE_SUCCESS)"

definition get_ec_key_size :: "nat \<Rightarrow> TEE_Result + nat" where
  "get_ec_key_size curve =
     (if curve = TEE_ECC_CURVE_NIST_P192 then Inr 192
      else if curve = TEE_ECC_CURVE_NIST_P224 then Inr 224
      else if curve = TEE_ECC_CURVE_NIST_P256 then Inr 256
      else if curve = TEE_ECC_CURVE_NIST_P384 then Inr 384
      else if curve = TEE_ECC_CURVE_NIST_P521 then Inr 521
      else if curve = TEE_ECC_CURVE_SM2 then Inr 256
      else Inl TEE_ERROR_NOT_SUPPORTED)"

text \<open>\<^verbatim>\<open>bit_ffs\<close> counts the bits of a byte from the least significant one.\<close>

fun byte_ctz :: "nat \<Rightarrow> nat" where
  "byte_ctz b = (if b = 0 \<or> odd b then 0 else Suc (byte_ctz (b div 2)))"

declare byte_ctz.simps [simp del]

fun bit_ffs_from :: "nat \<Rightarrow> bytes \<Rightarrow> int" where
  "bit_ffs_from n [] = -1"
| "bit_ffs_from n (b # bs) = (if b \<noteq> 0 then int (8 * n + byte_ctz (unat b)) else bit_ffs_from (n + 1) bs)"

definition get_used_bits :: "bytes \<Rightarrow> nat" where
  "get_used_bits b = nat (int (8 * length b) - bit_ffs_from 0 b)"

text \<open>The content of an attribute as the array of bytes \<open>from_user\<close> is given.\<close>

definition attr_content :: "TEE_Attribute \<Rightarrow> bytes" where
  "attr_content a = (case a of RefAttr i b \<Rightarrow> b | ValAttr i x y \<Rightarrow> le32 x @ le32 y)"

text \<open>The size an indicator attribute gives to the object.\<close>

definition indicated_size :: "env \<Rightarrow> tee_obj \<Rightarrow> TEE_Attribute \<Rightarrow> TEE_Result + nat" where
  "indicated_size C ob a =
     (if attributeID a = TEE_ATTR_ECC_CURVE then get_ec_key_size (un_le32 (attr_content a))
      else let obj_size = length (attr_content a) * 8
           in Inr (if is_gp_legacy_des_key_size C (o_type ob) (o_maxKeySize ob)
                   then obj_size - obj_size div 8 else obj_size))"

text \<open>One round of the loop of \<^verbatim>\<open>tee_svc_cryp_obj_populate_type\<close>: the attributes of the object are
  updated even when the round ends with an error.\<close>

definition populate_step ::
    "env \<Rightarrow> nat \<Rightarrow> type_props \<Rightarrow> tee_obj \<Rightarrow> TEE_Attribute \<Rightarrow> attr_val list \<times> nat set \<times> nat \<Rightarrow>
       TEE_Result \<times> attr_val list \<times> nat set \<times> nat" where
  "populate_step C now props ob a s =
     (case s of (attrs, have, obj_size) \<Rightarrow>
        case tee_svc_cryp_obj_find_type_attr_idx (attributeID a) props of
          None \<Rightarrow> (TEE_ERROR_ITEM_NOT_FOUND, attrs, have, obj_size)
        | Some idx \<Rightarrow>
            (case attr_from_user C now (attr_content a) (attrs ! idx) of
               (res, v) \<Rightarrow>
                 let attrs = attrs[idx := v]; have = insert idx have; flags = ta_flags (tp_attrs props ! idx) in
                 if res \<noteq> TEE_SUCCESS then (res, attrs, have, obj_size)
                 else if ATTR_SIZE_INDICATOR \<in> set flags \<and> obj_size \<noteq> 0
                 then (TEE_ERROR_BAD_STATE, attrs, have, obj_size)
                 else case (if ATTR_SIZE_INDICATOR \<in> set flags then indicated_size C ob a else Inr obj_size) of
                        Inl e \<Rightarrow> (e, attrs, have, obj_size)
                      | Inr obj_size \<Rightarrow>
                          if ATTR_SIZE_INDICATOR \<in> set flags \<and> obj_size > o_maxKeySize ob
                          then (TEE_ERROR_BAD_STATE, attrs, have, obj_size)
                          else if ATTR_BIGNUM_MAXBITS \<in> set flags \<and> get_used_bits (attr_content a) > o_maxKeySize ob
                          then (TEE_ERROR_BAD_STATE, attrs, have, obj_size)
                          else (TEE_SUCCESS, attrs, have, obj_size)))"

fun populate_loop ::
    "env \<Rightarrow> nat \<Rightarrow> type_props \<Rightarrow> tee_obj \<Rightarrow> TEE_Attribute list \<Rightarrow> attr_val list \<times> nat set \<times> nat \<Rightarrow>
       TEE_Result \<times> attr_val list \<times> nat set \<times> nat" where
  "populate_loop C now props ob [] s = (TEE_SUCCESS, s)"
| "populate_loop C now props ob (a # as) s =
     (case populate_step C now props ob a s of
        (res, s) \<Rightarrow> if res \<noteq> TEE_SUCCESS then (res, s) else populate_loop C now props ob as s)"

definition tee_svc_cryp_obj_populate_type ::
    "env \<Rightarrow> nat \<Rightarrow> tee_obj \<Rightarrow> type_props \<Rightarrow> TEE_Attribute list \<Rightarrow> (TEE_Result \<times> tee_obj) option" where
  "tee_svc_cryp_obj_populate_type C now ob props attrs =
     (case o_attr ob of
        None \<Rightarrow> None
      | Some vals \<Rightarrow>
          (case populate_loop C now props ob attrs (vals, {}, 0) of
             (res, vals, have, obj_size) \<Rightarrow>
               Some (if res \<noteq> TEE_SUCCESS then (res, ob\<lparr>o_attr := Some vals\<rparr>)
                     else (TEE_SUCCESS,
                           ob\<lparr>o_attr := Some vals, o_have := have,
                              o_keySize :=
                                (if is_gp_legacy_des_key_size C (o_type ob) (o_maxKeySize ob)
                                 then obj_size - obj_size div 8 else obj_size)\<rparr>))))"

definition syscall_cryp_obj_populate ::
    "env \<Rightarrow> nat \<Rightarrow> TEE_Attribute list \<Rightarrow> 'a tee_scheme \<Rightarrow> (TEE_Result \<times> 'a tee_scheme) option" where
  "syscall_cryp_obj_populate C obj attrs t =
     (case tee_obj_get obj t of
        Inl e \<Rightarrow> Some (e, t)
      | Inr ob \<Rightarrow>
          if HF_PERSISTENT \<in> o_flags ob then Some (TEE_ERROR_BAD_PARAMETERS, t)
          else if HF_INITIALIZED \<in> o_flags ob then Some (TEE_ERROR_BAD_PARAMETERS, t)
          else case tee_svc_find_type_props C (o_type ob) of
                 None \<Rightarrow> Some (TEE_ERROR_NOT_IMPLEMENTED, t)
               | Some props \<Rightarrow>
                   (case alloc C t of
                      (a, t) \<Rightarrow>
                        if a = 0 then Some (TEE_ERROR_OUT_OF_MEMORY, t)
                        else let res = tee_svc_cryp_check_attr ATTR_USAGE_POPULATE props attrs in
                             if res \<noteq> TEE_SUCCESS then Some (res, t)
                             else do {
                               (res, ob) \<leftarrow> tee_svc_cryp_obj_populate_type C (tick t) ob props attrs;
                               Some (res,
                                 tee_obj_add obj
                                   (if res = TEE_SUCCESS then ob\<lparr>o_flags := insert HF_INITIALIZED (o_flags ob)\<rparr>
                                    else ob) t)
                             }))"

definition syscall_cryp_obj_copy :: "env \<Rightarrow> nat \<Rightarrow> nat \<Rightarrow> 'a tee_scheme \<Rightarrow> (TEE_Result \<times> 'a tee_scheme) option" where
  "syscall_cryp_obj_copy C dst src t =
     (case (tee_obj_get dst t, tee_obj_get src t) of
        (Inl e, _) \<Rightarrow> Some (e, t)
      | (Inr dst_o, Inl e) \<Rightarrow> Some (e, t)
      | (Inr dst_o, Inr src_o) \<Rightarrow>
          if HF_INITIALIZED \<notin> o_flags src_o then Some (TEE_ERROR_BAD_PARAMETERS, t)
          else if HF_PERSISTENT \<in> o_flags dst_o then Some (TEE_ERROR_BAD_PARAMETERS, t)
          else if HF_INITIALIZED \<in> o_flags dst_o then Some (TEE_ERROR_BAD_PARAMETERS, t)
          else do {
            (res, ob) \<leftarrow> tee_obj_attr_copy_from C dst_o src_o;
            Some (res,
              tee_obj_add dst
                (if res = TEE_SUCCESS
                 then ob\<lparr>o_flags := insert HF_INITIALIZED (o_flags ob), o_keySize := o_keySize src_o,
                         o_usage := o_usage src_o\<rparr>
                 else ob) t)
          })"

section \<open>Key generation\<close>

definition check_pub_rsa_key :: "nat \<Rightarrow> TEE_Result" where
  "check_pub_rsa_key e =
     (let n = crypto_bignum_num_bytes e in
      if n > 32 \<or> n < 3 then TEE_ERROR_BAD_PARAMETERS
      else if even e then TEE_ERROR_BAD_PARAMETERS
      else if n = 3 \<and> e < 65537 then TEE_ERROR_BAD_PARAMETERS
      else TEE_SUCCESS)"

text \<open>A draw of entropy by a key generator of the libraries.\<close>

definition gen_key_attrs ::
    "env \<Rightarrow> nat \<Rightarrow> attr_val list \<Rightarrow> tee_obj \<Rightarrow> 'a tee_scheme \<Rightarrow> TEE_Result \<times> tee_obj \<times> 'a tee_scheme" where
  "gen_key_attrs C key_size attrs ob t =
     (case p_gen_key (e_prims C) (o_type ob) key_size attrs (e_entropy C (tick t)) of
        (res, vals) \<Rightarrow> (res, if res = TEE_SUCCESS then ob\<lparr>o_attr := Some vals\<rparr> else ob, t\<lparr>tick := tick t + 1\<rparr>))"

definition have_all :: "type_props \<Rightarrow> tee_obj \<Rightarrow> tee_obj" where
  "have_all props ob = ob\<lparr>o_have := {0..<length (tp_attrs props)}\<rparr>"

definition tee_svc_obj_generate_key_rsa ::
    "env \<Rightarrow> tee_obj \<Rightarrow> type_props \<Rightarrow> nat \<Rightarrow> TEE_Attribute list \<Rightarrow> 'a tee_scheme \<Rightarrow>
       (TEE_Result \<times> tee_obj \<times> 'a tee_scheme) option" where
  "tee_svc_obj_generate_key_rsa C ob props key_size params t = do {
     (res, ob) \<leftarrow> tee_svc_cryp_obj_populate_type C (tick t) ob props params;
     if res \<noteq> TEE_SUCCESS then Some (res, ob, t)
     else do {
       vals \<leftarrow> o_attr ob;
       let e = (case vals ! 1 of Bignum e \<Rightarrow> e | _ \<Rightarrow> 0);
       let res = (if get_attribute ob props TEE_ATTR_RSA_PUBLIC_EXPONENT then check_pub_rsa_key e else TEE_SUCCESS);
       if res \<noteq> TEE_SUCCESS then Some (res, ob, t)
       else (let vals = (if get_attribute ob props TEE_ATTR_RSA_PUBLIC_EXPONENT then vals
                         else vals[1 := Bignum 65537]) in
             case gen_key_attrs C key_size vals (ob\<lparr>o_attr := Some vals\<rparr>) t of
               (res, ob, t) \<Rightarrow> Some (res, if res = TEE_SUCCESS then have_all props ob else ob, t))
     }
   }"

definition tee_svc_obj_generate_key_dsa ::
    "env \<Rightarrow> tee_obj \<Rightarrow> type_props \<Rightarrow> nat \<Rightarrow> TEE_Attribute list \<Rightarrow> 'a tee_scheme \<Rightarrow>
       (TEE_Result \<times> tee_obj \<times> 'a tee_scheme) option" where
  "tee_svc_obj_generate_key_dsa C ob props key_size params t = do {
     (res, ob) \<leftarrow> tee_svc_cryp_obj_populate_type C (tick t) ob props params;
     if res \<noteq> TEE_SUCCESS then Some (res, ob, t)
     else do {
       vals \<leftarrow> o_attr ob;
       (case gen_key_attrs C key_size vals ob t of
          (res, ob, t) \<Rightarrow> Some (res, if res = TEE_SUCCESS then have_all props ob else ob, t))
     }
   }"

definition tee_svc_obj_generate_key_dh ::
    "env \<Rightarrow> tee_obj \<Rightarrow> type_props \<Rightarrow> nat \<Rightarrow> TEE_Attribute list \<Rightarrow> 'a tee_scheme \<Rightarrow>
       (TEE_Result \<times> tee_obj \<times> 'a tee_scheme) option" where
  "tee_svc_obj_generate_key_dh C ob props key_size params t = do {
     (res, ob) \<leftarrow> tee_svc_cryp_obj_populate_type C (tick t) ob props params;
     if res \<noteq> TEE_SUCCESS then Some (res, ob, t)
     else do {
       vals \<leftarrow> o_attr ob;
       let vals = (if get_attribute ob props TEE_ATTR_DH_SUBPRIME then vals else vals[4 := Bignum 0]);
       let vals = (if get_attribute ob props TEE_ATTR_DH_X_BITS then vals else vals[5 := Value 0]);
       (case gen_key_attrs C key_size vals ob t of
          (res, ob, t) \<Rightarrow>
            Some (res,
              if res = TEE_SUCCESS
              then set_attribute (set_attribute (set_attribute ob props TEE_ATTR_DH_PUBLIC_VALUE) props
                     TEE_ATTR_DH_PRIVATE_VALUE) props TEE_ATTR_DH_X_BITS
              else ob, t))
     }
   }"

definition tee_svc_obj_generate_key_ecc ::
    "env \<Rightarrow> tee_obj \<Rightarrow> type_props \<Rightarrow> nat \<Rightarrow> TEE_Attribute list \<Rightarrow> 'a tee_scheme \<Rightarrow>
       (TEE_Result \<times> tee_obj \<times> 'a tee_scheme) option" where
  "tee_svc_obj_generate_key_ecc C ob props key_size params t = do {
     (res, ob) \<leftarrow> tee_svc_cryp_obj_populate_type C (tick t) ob props params;
     if res \<noteq> TEE_SUCCESS then Some (res, ob, t)
     else do {
       vals \<leftarrow> o_attr ob;
       key \<leftarrow> keypair_of_attrs vals;
       (case ltc_ecc_generate_keypair C key_size key t of
          (res, key, t) \<Rightarrow>
            Some (res,
              if res = TEE_SUCCESS
              then set_attribute (set_attribute (set_attribute (set_attribute
                     (ob\<lparr>o_attr := Some (attrs_of_keypair key)\<rparr>) props TEE_ATTR_ECC_PRIVATE_VALUE) props
                     TEE_ATTR_ECC_PUBLIC_VALUE_X) props TEE_ATTR_ECC_PUBLIC_VALUE_Y) props TEE_ATTR_ECC_CURVE
              else ob, t))
     }
   }"

definition generate_key_secret ::
    "env \<Rightarrow> tee_obj \<Rightarrow> type_props \<Rightarrow> nat \<Rightarrow> 'a tee_scheme \<Rightarrow> (TEE_Result \<times> tee_obj \<times> 'a tee_scheme) option" where
  "generate_key_secret C ob props key_size t =
     (let byte_size = (if is_gp_legacy_des_key_size C (o_type ob) key_size then (key_size + key_size div 7) div 8
                       else key_size div 8) in
      case o_attr ob of
        Some [Secret alloc_size key] \<Rightarrow>
          Some (if byte_size > alloc_size then (TEE_ERROR_EXCESS_DATA, ob, t)
                else case e_rng C (tick t) byte_size of
                       Inl e \<Rightarrow> (e, ob, t\<lparr>tick := tick t + 1\<rparr>)
                     | Inr b \<Rightarrow> (TEE_SUCCESS, have_all props (ob\<lparr>o_attr := Some [Secret alloc_size b]\<rparr>),
                               t\<lparr>tick := tick t + 1\<rparr>))
      | _ \<Rightarrow> None)"

definition secret_types :: "nat list" where
  "secret_types =
     [TEE_TYPE_AES, TEE_TYPE_DES, TEE_TYPE_DES3, TEE_TYPE_SM4, TEE_TYPE_HMAC_MD5, TEE_TYPE_HMAC_SHA1,
      TEE_TYPE_HMAC_SHA224, TEE_TYPE_HMAC_SHA256, TEE_TYPE_HMAC_SHA384, TEE_TYPE_HMAC_SHA512,
      TEE_TYPE_HMAC_SM3, TEE_TYPE_GENERIC_SECRET]"

definition syscall_obj_generate_key ::
    "env \<Rightarrow> nat \<Rightarrow> nat \<Rightarrow> TEE_Attribute list \<Rightarrow> 'a tee_scheme \<Rightarrow> (TEE_Result \<times> 'a tee_scheme) option" where
  "syscall_obj_generate_key C obj key_size params t =
     (case tee_obj_get obj t of
        Inl e \<Rightarrow> Some (e, t)
      | Inr ob \<Rightarrow>
          if HF_PERSISTENT \<in> o_flags ob then Some (TEE_ERROR_BAD_STATE, t)
          else if HF_INITIALIZED \<in> o_flags ob then Some (TEE_ERROR_BAD_STATE, t)
          else case tee_svc_find_type_props C (o_type ob) of
                 None \<Rightarrow> Some (TEE_ERROR_NOT_SUPPORTED, t)
               | Some props \<Rightarrow>
                   if check_key_size C props key_size \<noteq> TEE_SUCCESS then Some (check_key_size C props key_size, t)
                   else case alloc C t of
                      (a, t) \<Rightarrow>
                        if a = 0 then Some (TEE_ERROR_OUT_OF_MEMORY, t)
                        else let res = tee_svc_cryp_check_attr ATTR_USAGE_GENERATE_KEY props params in
                             if res \<noteq> TEE_SUCCESS then Some (res, t)
                             else do {
                               (res, ob, t) \<leftarrow>
                                 (if o_type ob \<in> set secret_types then generate_key_secret C ob props key_size t
                                  else if o_type ob = TEE_TYPE_RSA_KEYPAIR
                                  then tee_svc_obj_generate_key_rsa C ob props key_size params t
                                  else if o_type ob = TEE_TYPE_DSA_KEYPAIR
                                  then tee_svc_obj_generate_key_dsa C ob props key_size params t
                                  else if o_type ob = TEE_TYPE_DH_KEYPAIR
                                  then tee_svc_obj_generate_key_dh C ob props key_size params t
                                  else if o_type ob \<in> {TEE_TYPE_ECDSA_KEYPAIR, TEE_TYPE_ECDH_KEYPAIR,
                                                       TEE_TYPE_SM2_PKE_KEYPAIR}
                                  then tee_svc_obj_generate_key_ecc C ob props key_size params t
                                  else Some (TEE_ERROR_BAD_FORMAT, ob, t));
                               Some (res,
                                 tee_obj_add obj
                                   (if res = TEE_SUCCESS
                                    then ob\<lparr>o_keySize := key_size, o_flags := insert HF_INITIALIZED (o_flags ob)\<rparr>
                                    else ob) t)
                             })"

end
