(* ===== verification/Tee_Kdf.thy ===== *)
theory Tee_Kdf
  imports Crypto_Glue
begin

text \<open>
  The key derivation functions of the core: \<^verbatim>\<open>core/tee/tee_cryp_hkdf.c\<close>,
  \<^verbatim>\<open>core/tee/tee_cryp_concat_kdf.c\<close> and \<^verbatim>\<open>core/tee/tee_cryp_pbkdf2.c\<close>, over the digest and MAC
  contexts of \<^verbatim>\<open>core/crypto/crypto.c\<close>. A pointer that may be null is the empty list: the code treats
  a null buffer and an empty one alike. Each function is proved equal to the formula of its standard
  (RFC 5869, NIST SP 800-56C, RFC 8018).
\<close>

section \<open>Definitions\<close>

definition tee_alg_hmac_algo :: "nat \<Rightarrow> nat" where
  "tee_alg_hmac_algo main_hash = TEE_OPERATION_MAC * 2 ^ 28 + main_hash"

definition be32 :: "nat \<Rightarrow> bytes" where
  "be32 n = rev (le32 n)"

text \<open>The test that follows each call: a result other than \<^verbatim>\<open>TEE_SUCCESS\<close> is returned.\<close>

definition checked :: "(TEE_Result \<times> 'c) option \<Rightarrow> ('c \<Rightarrow> (TEE_Result + 'b) option) \<Rightarrow> (TEE_Result + 'b) option" where
  "checked m f =
     (case m of None \<Rightarrow> None | Some (res, x) \<Rightarrow> if res \<noteq> TEE_SUCCESS then Some (Inl res) else f x)"

subsection \<open>HKDF\<close>

definition hkdf_extract ::
    "env \<Rightarrow> nat \<Rightarrow> bytes \<Rightarrow> bytes \<Rightarrow> 'a tee_scheme \<Rightarrow> ((TEE_Result + bytes) \<times> 'a tee_scheme) option" where
  "hkdf_extract C hash_id ikm salt t =
     (let hash_algo = tee_alg_hash_algo hash_id; hmac_algo = tee_alg_hmac_algo hash_id in
      case (if salt = []
            then case tee_alg_get_digest_size hash_algo of Inl e \<Rightarrow> Inl e | Inr salt_len \<Rightarrow> Inr (replicate salt_len 0)
            else Inr salt) of
        Inl e \<Rightarrow> Some (Inl e, t)
      | Inr salt \<Rightarrow>
          (case crypto_mac_alloc_ctx C hmac_algo t of
             (Inl e, t) \<Rightarrow> Some (Inl e, t)
           | (Inr ctx, t) \<Rightarrow> do {
               r \<leftarrow> checked (crypto_mac_init C hmac_algo salt ctx) (\<lambda>ctx.
                    checked (crypto_mac_update ikm ctx) (\<lambda>ctx.
                    checked (crypto_mac_final C hmac_algo TEE_MAX_HASH_SIZE ctx) (\<lambda>(prk, ctx).
                    Some (case tee_alg_get_digest_size hash_algo of
                            Inl e \<Rightarrow> Inl e | Inr prk_len \<Rightarrow> Inr (take prk_len prk)))));
               Some (r, t)
             }))"

text \<open>The rounds \<open>n - k\<close> to \<open>n\<close> of the loop: the last block and the output so far are carried along.\<close>

fun hkdf_expand_loop ::
    "env \<Rightarrow> nat \<Rightarrow> nat \<Rightarrow> bytes \<Rightarrow> bytes \<Rightarrow> nat \<Rightarrow> nat \<Rightarrow> nat \<Rightarrow> bytes \<Rightarrow> bytes \<Rightarrow> cryp_ctx \<Rightarrow> (TEE_Result + bytes) option"
  where
  "hkdf_expand_loop C algo hash_len prk info okm_len n 0 tn okm ctx = Some (Inr okm)"
| "hkdf_expand_loop C algo hash_len prk info okm_len n (Suc k) tn okm ctx =
     (let i = n - k; where = hash_len * (i - 1) in
      checked (crypto_mac_init C algo prk ctx) (\<lambda>ctx.
      checked (crypto_mac_update tn ctx) (\<lambda>ctx.
      checked (crypto_mac_update info ctx) (\<lambda>ctx.
      checked (crypto_mac_update [word_of_nat i] ctx) (\<lambda>ctx.
      checked (crypto_mac_final C algo TEE_MAX_HASH_SIZE ctx) (\<lambda>(tn, ctx).
      hkdf_expand_loop C algo hash_len prk info okm_len n k (take hash_len tn)
        (okm @ take (if i < n then hash_len else okm_len - where) tn) ctx))))))"

definition hkdf_expand ::
    "env \<Rightarrow> nat \<Rightarrow> bytes \<Rightarrow> bytes \<Rightarrow> nat \<Rightarrow> 'a tee_scheme \<Rightarrow> ((TEE_Result + bytes) \<times> 'a tee_scheme) option" where
  "hkdf_expand C hash_id prk info okm_len t =
     (let hash_algo = tee_alg_hash_algo hash_id; hmac_algo = tee_alg_hmac_algo hash_id in
      case tee_alg_get_digest_size hash_algo of
        Inl e \<Rightarrow> Some (Inl e, t)
      | Inr hash_len \<Rightarrow>
          if length prk < hash_len then Some (Inl TEE_ERROR_BAD_STATE, t)
          else case crypto_mac_alloc_ctx C hmac_algo t of
                 (Inl e, t) \<Rightarrow> Some (Inl e, t)
               | (Inr ctx, t) \<Rightarrow>
                   (let n = okm_len div hash_len + (if okm_len mod hash_len \<noteq> 0 then 1 else 0) in
                    if n > 255 then Some (Inl TEE_ERROR_BAD_PARAMETERS, t)
                    else do {
                      r \<leftarrow> hkdf_expand_loop C hmac_algo hash_len prk info okm_len n n [] [] ctx;
                      Some (r, t)
                    }))"

definition tee_cryp_hkdf ::
    "env \<Rightarrow> nat \<Rightarrow> bytes \<Rightarrow> bytes \<Rightarrow> bytes \<Rightarrow> nat \<Rightarrow> 'a tee_scheme \<Rightarrow> ((TEE_Result + bytes) \<times> 'a tee_scheme) option"
  where
  "tee_cryp_hkdf C hash_id ikm salt info okm_len t = do {
     (r, t) \<leftarrow> hkdf_extract C hash_id ikm salt t;
     (case r of
        Inl e \<Rightarrow> Some (Inl e, t)
      | Inr prk \<Rightarrow> hkdf_expand C hash_id prk info okm_len t)
   }"

subsection \<open>Concatenation KDF\<close>

fun concat_kdf_loop ::
    "env \<Rightarrow> nat \<Rightarrow> nat \<Rightarrow> bytes \<Rightarrow> bytes \<Rightarrow> nat \<Rightarrow> nat \<Rightarrow> nat \<Rightarrow> bytes \<Rightarrow> cryp_ctx \<Rightarrow> (TEE_Result + bytes) option" where
  "concat_kdf_loop C algo hash_len shared_secret other_info derived_key_len n 0 out ctx = Some (Inr out)"
| "concat_kdf_loop C algo hash_len shared_secret other_info derived_key_len n (Suc k) out ctx =
     (let i = n + 1 - k; sz = (if i = n + 1 then derived_key_len mod hash_len else hash_len) in
      checked (crypto_hash_init ctx) (\<lambda>ctx.
      checked (crypto_hash_update (be32 i) ctx) (\<lambda>ctx.
      checked (crypto_hash_update shared_secret ctx) (\<lambda>ctx.
      checked (if other_info = [] then Some (TEE_SUCCESS, ctx) else crypto_hash_update other_info ctx) (\<lambda>ctx.
      checked (crypto_hash_final C algo TEE_MAX_HASH_SIZE ctx) (\<lambda>(tmp, ctx).
      concat_kdf_loop C algo hash_len shared_secret other_info derived_key_len n k (out @ take sz tmp) ctx))))))"

definition tee_cryp_concat_kdf ::
    "env \<Rightarrow> nat \<Rightarrow> bytes \<Rightarrow> bytes \<Rightarrow> nat \<Rightarrow> 'a tee_scheme \<Rightarrow> ((TEE_Result + bytes) \<times> 'a tee_scheme) option" where
  "tee_cryp_concat_kdf C hash_id shared_secret other_info derived_key_len t =
     (let hash_algo = tee_alg_hash_algo hash_id in
      case crypto_hash_alloc_ctx C hash_algo t of
        (Inl e, t) \<Rightarrow> Some (Inl e, t)
      | (Inr ctx, t) \<Rightarrow>
          (case tee_alg_get_digest_size hash_algo of
             Inl e \<Rightarrow> Some (Inl e, t)
           | Inr hash_len \<Rightarrow> do {
               let n = derived_key_len div hash_len;
               r \<leftarrow> concat_kdf_loop C hash_algo hash_len shared_secret other_info derived_key_len n (n + 1) [] ctx;
               Some (r, t)
             }))"

subsection \<open>PBKDF2\<close>

text \<open>The rounds \<open>c - k\<close> to \<open>c\<close> of the loop of \<^verbatim>\<open>pbkdf2_f\<close>, with the last block and the sum so far.\<close>

fun pbkdf2_loop ::
    "env \<Rightarrow> nat \<Rightarrow> nat \<Rightarrow> bytes \<Rightarrow> bytes \<Rightarrow> nat \<Rightarrow> nat \<Rightarrow> nat \<Rightarrow> bytes \<Rightarrow> bytes \<Rightarrow> cryp_ctx \<Rightarrow>
       (TEE_Result + bytes \<times> cryp_ctx) option" where
  "pbkdf2_loop C algo hash_len password salt idx c 0 u out ctx = Some (Inr (out, ctx))"
| "pbkdf2_loop C algo hash_len password salt idx c (Suc k) u out ctx =
     (let i = c - k in
      checked (crypto_mac_init C algo password ctx) (\<lambda>ctx.
      checked (if i = 1
               then do {
                 (res, ctx) \<leftarrow> (if salt = [] then Some (TEE_SUCCESS, ctx) else crypto_mac_update salt ctx);
                 if res \<noteq> TEE_SUCCESS then Some (res, ctx) else crypto_mac_update (be32 idx) ctx
               }
               else crypto_mac_update (take hash_len u) ctx) (\<lambda>ctx.
      checked (crypto_mac_final C algo TEE_MAX_HASH_SIZE ctx) (\<lambda>(u, ctx).
      pbkdf2_loop C algo hash_len password salt idx c k u (map2 (XOR) out u) ctx))))"

definition pbkdf2_f ::
    "env \<Rightarrow> nat \<Rightarrow> nat \<Rightarrow> bytes \<Rightarrow> bytes \<Rightarrow> nat \<Rightarrow> nat \<Rightarrow> nat \<Rightarrow> cryp_ctx \<Rightarrow> (TEE_Result + bytes \<times> cryp_ctx) option" where
  "pbkdf2_f C algo hash_len password salt iteration_count len idx ctx =
     pbkdf2_loop C algo hash_len password salt idx iteration_count iteration_count [] (replicate len 0) ctx"

text \<open>The full blocks from \<open>i\<close> on, then the remainder.\<close>

fun pbkdf2_blocks ::
    "env \<Rightarrow> nat \<Rightarrow> nat \<Rightarrow> bytes \<Rightarrow> bytes \<Rightarrow> nat \<Rightarrow> nat \<Rightarrow> nat \<Rightarrow> nat \<Rightarrow> bytes \<Rightarrow> cryp_ctx \<Rightarrow> (TEE_Result + bytes) option" where
  "pbkdf2_blocks C algo hash_len password salt c l r 0 out ctx =
     (if r = 0 then Some (Inr out)
      else case pbkdf2_f C algo hash_len password salt c r (l + 1) ctx of
             None \<Rightarrow> None
           | Some (Inl e) \<Rightarrow> Some (Inl e)
           | Some (Inr (b, ctx)) \<Rightarrow> Some (Inr (out @ b)))"
| "pbkdf2_blocks C algo hash_len password salt c l r (Suc k) out ctx =
     (case pbkdf2_f C algo hash_len password salt c hash_len (l - k) ctx of
        None \<Rightarrow> None
      | Some (Inl e) \<Rightarrow> Some (Inl e)
      | Some (Inr (b, ctx)) \<Rightarrow> pbkdf2_blocks C algo hash_len password salt c l r k (out @ b) ctx)"

definition tee_cryp_pbkdf2 ::
    "env \<Rightarrow> nat \<Rightarrow> bytes \<Rightarrow> bytes \<Rightarrow> nat \<Rightarrow> nat \<Rightarrow> 'a tee_scheme \<Rightarrow> ((TEE_Result + bytes) \<times> 'a tee_scheme) option" where
  "tee_cryp_pbkdf2 C hash_id password salt iteration_count derived_key_len t =
     (let algo = tee_alg_hmac_algo hash_id in
      case tee_alg_get_digest_size algo of
        Inl e \<Rightarrow> Some (Inl e, t)
      | Inr hash_len \<Rightarrow>
          (case crypto_mac_alloc_ctx C algo t of
             (Inl e, t) \<Rightarrow> Some (Inl e, t)
           | (Inr ctx, t) \<Rightarrow> do {
               let l = derived_key_len div hash_len;
               let r = derived_key_len mod hash_len;
               res \<leftarrow> pbkdf2_blocks C algo hash_len password salt iteration_count l r l [] ctx;
               Some (res, t)
             }))"

section \<open>Correctness\<close>

lemma checked_simps [simp]:
  "checked (Some (TEE_SUCCESS, x)) f = f x" "checked None f = None"
  "res \<noteq> TEE_SUCCESS \<Longrightarrow> checked (Some (res, x)) f = Some (Inl res)"
  by (simp_all add: checked_def)

lemma mac_steps [simp]:
  "p_mac_key_ok (e_prims C) algo (length key) \<Longrightarrow>
     crypto_mac_init C algo key (MacCtx s) = Some (TEE_SUCCESS, MacCtx (Some (key, [])))"
  "crypto_mac_update b (MacCtx (Some (key, acc))) = Some (TEE_SUCCESS, MacCtx (Some (key, acc @ b)))"
  "crypto_mac_final C algo len (MacCtx (Some (key, acc))) =
     Some (TEE_SUCCESS, take len (p_mac (e_prims C) algo key acc), MacCtx None)"
  by (simp_all add: crypto_mac_init_def crypto_mac_update_def crypto_mac_final_def)

lemma hash_steps [simp]:
  "crypto_hash_init (HashCtx s) = Some (TEE_SUCCESS, HashCtx (Some []))"
  "crypto_hash_update b (HashCtx (Some acc)) = Some (TEE_SUCCESS, HashCtx (Some (acc @ b)))"
  "len \<noteq> 0 \<Longrightarrow> crypto_hash_final C algo len (HashCtx (Some acc)) =
     Some (TEE_SUCCESS, take len (p_hash (e_prims C) algo acc), HashCtx None)"
  by (simp_all add: crypto_hash_init_def crypto_hash_update_def crypto_hash_final_def)

text \<open>The first \<open>L\<close> bytes of a sequence of blocks of the same length.\<close>

definition blocks :: "(nat \<Rightarrow> bytes) \<Rightarrow> nat \<Rightarrow> bytes" where
  "blocks T n = concat (map T [1..<Suc n])"

lemma blocks_0 [simp]: "blocks T 0 = []"
  by (simp add: blocks_def)

lemma blocks_Suc: "blocks T (Suc n) = blocks T n @ T (Suc n)"
  by (simp add: blocks_def)

lemma length_blocks: "(\<And>i. 0 < i \<Longrightarrow> length (T i) = h) \<Longrightarrow> length (blocks T n) = h * n"
  by (induction n) (simp_all add: blocks_Suc)

lemma take_blocks_Suc:
  assumes "\<And>i. 0 < i \<Longrightarrow> length (T i) = h"
  shows "take L (blocks T (Suc n)) = take L (blocks T n) @ take (L - h * n) (T (Suc n))"
  using length_blocks [OF assms] by (simp add: blocks_Suc)

primrec hkdf_T :: "(bytes \<Rightarrow> bytes) \<Rightarrow> bytes \<Rightarrow> nat \<Rightarrow> bytes" where
  "hkdf_T h info 0 = []"
| "hkdf_T h info (Suc i) = h (hkdf_T h info i @ info @ [word_of_nat (Suc i)])"

lemma hkdf_expand_loop_spec:
  fixes info :: bytes
  assumes key: "p_mac_key_ok (e_prims C) algo (length prk)"
    and len: "\<And>b. length (p_mac (e_prims C) algo prk b) = hash_len" "hash_len \<le> 64"
    and n: "hash_len * (n - 1) \<le> okm_len" and k: "k \<le> n"
  defines "T \<equiv> hkdf_T (p_mac (e_prims C) algo prk) info"
  shows "hkdf_expand_loop C algo hash_len prk info okm_len n k (T (n - k)) (take okm_len (blocks T (n - k))) (MacCtx s)
    = Some (Inr (take okm_len (blocks T n)))"
  using k
proof (induction k arbitrary: s)
  case 0
  then show ?case by simp
next
  case (Suc k)
  define i where "i = n - Suc k"
  with Suc.prems have i: "n - k = Suc i" "Suc i \<le> n" by simp_all
  have T: "length (T j) = hash_len" if "0 < j" for j
    using that len(1) by (cases j) (simp_all add: T_def)
  have tn: "p_mac (e_prims C) algo prk (T i @ info @ [word_of_nat (Suc i)]) = T (Suc i)" by (simp add: T_def)
  have t64: "take 64 (T (Suc i)) = T (Suc i)" using T [of "Suc i"] len(2) by simp
  have "take (if Suc i < n then hash_len else okm_len - hash_len * i) (T (Suc i)) = take (okm_len - hash_len * i) (T (Suc i))"
  proof (cases "Suc i < n")
    case True
    then have "hash_len * Suc i \<le> hash_len * (n - 1)" by (intro mult_le_mono) simp_all
    with n have "hash_len \<le> okm_len - hash_len * i" by simp
    with True T show ?thesis by simp
  qed simp
  then have out: "take okm_len (blocks T i) @ take (if Suc i < n then hash_len else okm_len - hash_len * i) (T (Suc i))
      = take okm_len (blocks T (Suc i))"
    using take_blocks_Suc [of T, OF T] by simp
  have "hkdf_expand_loop C algo hash_len prk info okm_len n (Suc k) (T i) (take okm_len (blocks T i)) (MacCtx s)
      = hkdf_expand_loop C algo hash_len prk info okm_len n k (T (n - k)) (take okm_len (blocks T (n - k))) (MacCtx None)"
    using i key by (simp add: Let_def t64 tn [simplified] T out del: take_take cong: if_cong split del: if_split)
  with Suc i_def show ?case by simp
qed

definition ceil_div :: "nat \<Rightarrow> nat \<Rightarrow> nat" where
  "ceil_div L h = L div h + (if L mod h \<noteq> 0 then 1 else 0)"

lemma ceil_div_le_iff:
  assumes "0 < h"
  shows "ceil_div L h \<le> n \<longleftrightarrow> L \<le> h * n"
proof -
  define q r where "q = L div h" and "r = L mod h"
  have L: "L = h * q + r" "r < h" using assms by (simp_all add: q_def r_def)
  show ?thesis
  proof (cases "q < n")
    case True
    then have "h * (q + 1) \<le> h * n" by (intro mult_le_mono) simp_all
    with True L show ?thesis by (simp add: ceil_div_def q_def [symmetric])
  next
    case False
    then have "h * n \<le> h * q" by simp
    then have big: "r \<noteq> 0 \<Longrightarrow> \<not> L \<le> h * n" using L(1) by linarith
    have "ceil_div L h = (if r = 0 then q else q + 1)" by (simp add: ceil_div_def q_def r_def)
    with False big show ?thesis using L(1) assms by (cases "r = 0") simp_all
  qed
qed

lemma ceil_div_pred:
  assumes "0 < h"
  shows "h * (ceil_div L h - 1) \<le> L"
proof (rule ccontr)
  assume "\<not> ?thesis"
  then have "ceil_div L h \<le> ceil_div L h - 1" by (simp add: ceil_div_le_iff [OF assms])
  with \<open>\<not> ?thesis\<close> show False by simp
qed

text \<open>The environment computes MACs of the given algorithm: the algorithm is configured, it accepts every
  non-empty key and refuses the empty one, as \<^verbatim>\<open>hmac_init\<close> does, and its output has the length of the
  digest.\<close>

definition mac_ok :: "env \<Rightarrow> nat \<Rightarrow> bool" where
  "mac_ok C algo \<longleftrightarrow>
     algo \<in> set mac_algos \<and> CFG_ALG algo \<in> e_cfg C \<and> (\<forall>l. p_mac_key_ok (e_prims C) algo l \<longleftrightarrow> 0 < l) \<and>
     (\<forall>k b. length (p_mac (e_prims C) algo k b) = tee_alg_digest_size algo)"

lemma mac_okD:
  assumes "mac_ok C algo"
  shows "no_oom C \<Longrightarrow> crypto_mac_alloc_ctx C algo t = (Inr (MacCtx None), t\<lparr>tick := tick t + 1\<rparr>)"
    "p_mac_key_ok (e_prims C) algo l \<longleftrightarrow> 0 < l" "length (p_mac (e_prims C) algo k b) = tee_alg_digest_size algo"
  using assms by (simp_all add: mac_ok_def crypto_mac_alloc_ctx_def)

text \<open>The digests of the HMAC algorithms: their size is that of the digest they are built on.\<close>

definition hkdf_hashes :: "nat list" where
  "hkdf_hashes = [1, 2, 3, 4, 5, 6]"

lemma hmac_size:
  assumes "hash_id \<in> set hkdf_hashes"
  shows "tee_alg_digest_size (tee_alg_hmac_algo hash_id) = tee_alg_digest_size (tee_alg_hash_algo hash_id)"
    "0 < tee_alg_digest_size (tee_alg_hash_algo hash_id)"
    "tee_alg_get_digest_size (tee_alg_hash_algo hash_id) = Inr (tee_alg_digest_size (tee_alg_hash_algo hash_id))"
    "tee_alg_get_digest_size (tee_alg_hmac_algo hash_id) = Inr (tee_alg_digest_size (tee_alg_hash_algo hash_id))"
  using assms
  by (auto simp: hkdf_hashes_def tee_alg_hmac_algo_def tee_alg_hash_algo_def tee_alg_digest_size_def
      tee_alg_get_digest_size_def)

text \<open>The formula of RFC 5869.\<close>

definition hkdf_spec :: "env \<Rightarrow> nat \<Rightarrow> bytes \<Rightarrow> bytes \<Rightarrow> bytes \<Rightarrow> nat \<Rightarrow> bytes" where
  "hkdf_spec C hash_id ikm salt info okm_len =
     (let hmac = p_mac (e_prims C) (tee_alg_hmac_algo hash_id);
          hash_len = tee_alg_digest_size (tee_alg_hash_algo hash_id);
          prk = hmac (if salt = [] then replicate hash_len 0 else salt) ikm
      in take okm_len (blocks (hkdf_T (hmac prk) info) (ceil_div okm_len hash_len)))"

text \<open>
  C11. \<^verbatim>\<open>tee_cryp_hkdf\<close> computes the HKDF of RFC 5869: for every digest, input key, salt (a missing salt
  being a string of zeros), info and output length, the output is the first bytes of the blocks
  \<open>T(1), T(2), ...\<close> under the extracted key, and exactly the requests of more than 255 blocks are refused.
\<close>

theorem tee_cryp_hkdf_rfc5869:
  assumes "no_oom C" "hash_id \<in> set hkdf_hashes" "mac_ok C (tee_alg_hmac_algo hash_id)"
  shows "tee_cryp_hkdf C hash_id ikm salt info okm_len t =
    Some (if okm_len \<le> 255 * tee_alg_digest_size (tee_alg_hash_algo hash_id)
          then Inr (hkdf_spec C hash_id ikm salt info okm_len) else Inl TEE_ERROR_BAD_PARAMETERS,
          t\<lparr>tick := tick t + 2\<rparr>)"
proof -
  let ?algo = "tee_alg_hmac_algo hash_id"
  let ?h = "tee_alg_digest_size (tee_alg_hash_algo hash_id)"
  let ?n = "ceil_div okm_len ?h"
  define salt' where "salt' = (if salt = [] then replicate ?h 0 else salt)"
  define prk where "prk = p_mac (e_prims C) ?algo salt' ikm"
  note m = mac_okD [OF assms(3)] and h = hmac_size [OF assms(2)]
  have h64: "?h \<le> 64" by (rule digest_size_le_max)
  have len: "length (p_mac (e_prims C) ?algo k b) = ?h" for k b by (simp only: m h)
  have "p_mac_key_ok (e_prims C) ?algo (length salt')" by (simp add: m(2) salt'_def h)
  then have "hkdf_extract C hash_id ikm salt t = Some (Inr prk, t\<lparr>tick := tick t + 1\<rparr>)"
    using h64 assms(1) by (cases "salt = []") (simp_all add: hkdf_extract_def Let_def prk_def salt'_def m(1) h len)
  moreover have key: "p_mac_key_ok (e_prims C) ?algo (length prk)" by (simp add: m(2) prk_def len h)
  have "hkdf_expand_loop C ?algo ?h prk info okm_len ?n ?n [] [] (MacCtx None)
      = Some (Inr (take okm_len (blocks (hkdf_T (p_mac (e_prims C) ?algo prk) info) ?n)))"
    using hkdf_expand_loop_spec [of C ?algo prk ?h ?n okm_len ?n info None, OF key len h64 ceil_div_pred [OF h(2)]]
    by simp
  moreover have "255 < ?n \<longleftrightarrow> \<not> okm_len \<le> 255 * ?h"
    using ceil_div_le_iff [OF h(2), of okm_len 255] by (simp add: mult.commute) linarith
  ultimately show ?thesis
    by (simp only: tee_cryp_hkdf_def hkdf_expand_def hkdf_spec_def Let_def h m(1) [OF assms(1)]
          prk_def [symmetric] salt'_def [symmetric] ceil_div_def [symmetric])
      (simp add: prk_def len)
qed

text \<open>A concrete environment with an HMAC.\<close>

definition kdf_env :: env where
  "kdf_env = sample_env
     \<lparr>e_prims := sample_prims
        \<lparr>p_mac := \<lambda>algo k b. take (tee_alg_digest_size algo) (rev b @ k @ replicate 64 0),
         p_hash := \<lambda>algo b. take (tee_alg_digest_size algo) (rev b @ replicate 64 0),
         p_mac_key_ok := \<lambda>algo l. 0 < l\<rparr>,
      e_cfg := {CFG_ALG TEE_ALG_HMAC_SHA256, CFG_ALG TEE_ALG_SHA256}\<rparr>"

lemma sha256_ids:
  "tee_alg_hmac_algo 4 = TEE_ALG_HMAC_SHA256" "tee_alg_hash_algo 4 = TEE_ALG_SHA256"
  "tee_alg_digest_size TEE_ALG_HMAC_SHA256 = 32"
  by (simp_all add: tee_alg_hmac_algo_def tee_alg_hash_algo_def tee_alg_digest_size_def)

lemma kdf_env_ok: "no_oom kdf_env" "mac_ok kdf_env (tee_alg_hmac_algo 4)"
proof -
  show "no_oom kdf_env" by (simp add: kdf_env_def no_oom_def sample_env_def)
  have "length (p_mac (e_prims kdf_env) algo k b) = tee_alg_digest_size algo" for algo k b
    using digest_size_le_max [of algo] by (simp add: kdf_env_def)
  then show "mac_ok kdf_env (tee_alg_hmac_algo 4)"
    by (simp add: mac_ok_def sha256_ids) (simp add: kdf_env_def mac_algos_def)
qed

theorem tee_cryp_hkdf_rfc5869_witness:
  "no_oom kdf_env \<and> 4 \<in> set hkdf_hashes \<and> mac_ok kdf_env (tee_alg_hmac_algo 4) \<and>
   tee_cryp_hkdf kdf_env 4 [1, 2] [] [3] 40 tee_start =
     Some (Inr (hkdf_spec kdf_env 4 [1, 2] [] [3] 40), tee_start\<lparr>tick := 2\<rparr>)"
  using tee_cryp_hkdf_rfc5869 [OF kdf_env_ok(1) _ kdf_env_ok(2), of "[1, 2]" "[]" "[3]" 40 tee_start] kdf_env_ok
  by (simp add: hkdf_hashes_def tee_start_def sha256_ids)

subsection \<open>The concatenation KDF\<close>

lemma concat_kdf_loop_spec:
  fixes Z info :: bytes
  assumes len: "\<And>b. length (p_hash (e_prims C) algo b) = h" "h \<le> 64" "0 < h" and k: "k \<le> L div h + 1"
  defines "T \<equiv> \<lambda>i. p_hash (e_prims C) algo (be32 i @ Z @ info)"
  shows "concat_kdf_loop C algo h Z info L (L div h) k (take L (blocks T (L div h + 1 - k))) (HashCtx s)
    = Some (Inr (take L (blocks T (L div h + 1))))"
  using k
proof (induction k arbitrary: s)
  case 0
  then show ?case by simp
next
  case (Suc k)
  define i where "i = L div h - k"
  with Suc.prems have i: "L div h + 1 - k = Suc i" "L div h - k = i" "i \<le> L div h" by simp_all
  have T: "length (T j) = h" for j by (simp add: T_def len)
  have sz: "take (if Suc i = L div h + 1 then L mod h else h) (T (Suc i)) = take (L - h * i) (T (Suc i))"
  proof (cases "i = L div h")
    case True
    then show ?thesis by (simp add: minus_mult_div_eq_mod)
  next
    case False
    with i(3) have "h * Suc i \<le> h * (L div h)" by (intro mult_le_mono) simp_all
    also have "\<dots> \<le> L" by simp
    finally show ?thesis using False T by simp
  qed
  have out: "take L (blocks T i) @ take (if Suc i = L div h + 1 then L mod h else h) (T (Suc i))
      = take L (blocks T (Suc i))"
    unfolding sz using take_blocks_Suc [of T, OF T] by simp
  have t64: "take 64 (T (Suc i)) = T (Suc i)" using T len(2) by simp
  have tmp: "p_hash (e_prims C) algo (be32 (Suc i) @ Z @ info) = T (Suc i)"
    "info = [] \<Longrightarrow> p_hash (e_prims C) algo (be32 (Suc i) @ Z) = T (Suc i)" by (simp_all add: T_def)
  have "concat_kdf_loop C algo h Z info L (L div h) (Suc k) (take L (blocks T i)) (HashCtx s)
      = concat_kdf_loop C algo h Z info L (L div h) k (take L (blocks T (Suc i))) (HashCtx None)"
    by (cases "info = []")
      (simp_all add: Let_def i [simplified] tmp t64 out [simplified] del: take_take cong: if_cong split del: if_split)
  moreover have "concat_kdf_loop C algo h Z info L (L div h) k (take L (blocks T (Suc i))) (HashCtx None)
      = Some (Inr (take L (blocks T (L div h + 1))))"
    using Suc.IH [of None] Suc.prems unfolding i(1) by linarith
  moreover have "L div h + 1 - Suc k = i" using i by simp
  ultimately show ?case by (simp only:)
qed

text \<open>The environment computes digests of the given algorithm.\<close>

definition hash_ok :: "env \<Rightarrow> nat \<Rightarrow> bool" where
  "hash_ok C algo \<longleftrightarrow>
     algo \<in> set hash_algos \<and> CFG_ALG algo \<in> e_cfg C \<and>
     (\<forall>b. length (p_hash (e_prims C) algo b) = tee_alg_digest_size algo)"

text \<open>
  C12. \<^verbatim>\<open>tee_cryp_concat_kdf\<close> computes the concatenation key derivation of NIST SP 800-56C: the output is
  the first bytes of the digests of counter, shared secret and other information, for every requested length.
\<close>

theorem tee_cryp_concat_kdf_sp800_56c:
  assumes "no_oom C" "hash_id \<in> set hkdf_hashes" "hash_ok C (tee_alg_hash_algo hash_id)"
  shows "tee_cryp_concat_kdf C hash_id Z info L t =
    Some (Inr (take L (blocks (\<lambda>i. p_hash (e_prims C) (tee_alg_hash_algo hash_id) (be32 i @ Z @ info))
                (L div tee_alg_digest_size (tee_alg_hash_algo hash_id) + 1))), t\<lparr>tick := tick t + 1\<rparr>)"
proof -
  let ?algo = "tee_alg_hash_algo hash_id"
  let ?h = "tee_alg_digest_size ?algo"
  note h = hmac_size [OF assms(2)]
  have alloc: "crypto_hash_alloc_ctx C ?algo t = (Inr (HashCtx None), t\<lparr>tick := tick t + 1\<rparr>)"
    using assms(1,3) by (simp add: hash_ok_def crypto_hash_alloc_ctx_def)
  have "concat_kdf_loop C ?algo ?h Z info L (L div ?h) (L div ?h + 1) [] (HashCtx None) =
      Some (Inr (take L (blocks (\<lambda>i. p_hash (e_prims C) ?algo (be32 i @ Z @ info)) (L div ?h + 1))))"
    using concat_kdf_loop_spec [of C ?algo ?h "L div ?h + 1" L Z info None] assms(3) h(2) digest_size_le_max
    by (simp add: hash_ok_def)
  then show ?thesis by (simp only: tee_cryp_concat_kdf_def Let_def h alloc) simp
qed

theorem tee_cryp_concat_kdf_sp800_56c_witness:
  "no_oom kdf_env \<and> 4 \<in> set hkdf_hashes \<and> hash_ok kdf_env (tee_alg_hash_algo 4) \<and>
   tee_cryp_concat_kdf kdf_env 4 [1, 2] [3] 40 tee_start =
     Some (Inr (take 40 (blocks (\<lambda>i. p_hash (e_prims kdf_env) TEE_ALG_SHA256 (be32 i @ [1, 2] @ [3])) 2)),
           tee_start\<lparr>tick := 1\<rparr>)"
proof -
  have "length (p_hash (e_prims kdf_env) algo b) = tee_alg_digest_size algo" for algo b
    using digest_size_le_max [of algo] by (simp add: kdf_env_def)
  then have "hash_ok kdf_env (tee_alg_hash_algo 4)"
    by (simp add: hash_ok_def sha256_ids) (simp add: kdf_env_def hash_algos_def)
  with tee_cryp_concat_kdf_sp800_56c [OF kdf_env_ok(1) _ this, of "[1, 2]" "[3]" 40 tee_start] kdf_env_ok(1)
  show ?thesis by (simp add: hkdf_hashes_def tee_start_def sha256_ids numeral_2_eq_2)
qed

subsection \<open>PBKDF2\<close>

text \<open>The iterates of RFC 8018 and their sum.\<close>

primrec pbkdf2_U :: "(bytes \<Rightarrow> bytes) \<Rightarrow> bytes \<Rightarrow> nat \<Rightarrow> nat \<Rightarrow> bytes" where
  "pbkdf2_U h salt idx 0 = h (salt @ be32 idx)"
| "pbkdf2_U h salt idx (Suc j) = h (pbkdf2_U h salt idx j)"

primrec pbkdf2_F :: "(bytes \<Rightarrow> bytes) \<Rightarrow> nat \<Rightarrow> bytes \<Rightarrow> nat \<Rightarrow> nat \<Rightarrow> bytes" where
  "pbkdf2_F h hash_len salt idx 0 = replicate hash_len 0"
| "pbkdf2_F h hash_len salt idx (Suc c) = map2 (XOR) (pbkdf2_F h hash_len salt idx c) (pbkdf2_U h salt idx c)"

lemma take_map2: "take n (map2 f xs ys) = map2 f (take n xs) ys"
proof (induction xs arbitrary: n ys)
  case (Cons x xs)
  then show ?case by (cases n; cases ys) simp_all
qed simp

lemma pbkdf2_loop_spec:
  fixes salt :: bytes
  assumes key: "0 < c \<Longrightarrow> p_mac_key_ok (e_prims C) algo (length pw)"
    and len: "\<And>b. length (p_mac (e_prims C) algo pw b) = h" "h \<le> 64"
    and k: "k \<le> c" and u: "k < c \<Longrightarrow> u = pbkdf2_U (p_mac (e_prims C) algo pw) salt idx (c - k - 1)"
  defines "F \<equiv> pbkdf2_F (p_mac (e_prims C) algo pw) h salt idx"
  shows "\<exists>s'. pbkdf2_loop C algo h pw salt idx c k u (take l (F (c - k))) (MacCtx s) = Some (Inr (take l (F c), MacCtx s'))"
  using k u
proof (induction k arbitrary: s u)
  case 0
  then show ?case by simp
next
  case (Suc k)
  let ?U = "pbkdf2_U (p_mac (e_prims C) algo pw) salt idx"
  define i where "i = c - Suc k"
  with Suc.prems(1) have i: "c - k = Suc i" by simp
  have key: "p_mac_key_ok (e_prims C) algo (length pw)" using key Suc.prems(1) by simp
  have U: "length (?U j) = h" for j using len(1) by (cases j) simp_all
  have t64: "take 64 (?U j) = ?U j" for j using U len(2) by simp
  have out: "map2 (XOR) (take l (F i)) (?U i) = take l (F (Suc i))" by (simp add: F_def take_map2)
  have "pbkdf2_loop C algo h pw salt idx c (Suc k) u (take l (F i)) (MacCtx s)
      = pbkdf2_loop C algo h pw salt idx c k (?U i) (take l (F (Suc i))) (MacCtx None)"
  proof (cases i)
    case 0
    with key i t64 [of 0] out show ?thesis by (cases "salt = []") (simp_all add: Let_def)
  next
    case (Suc j)
    then have "c - Suc k - 1 = j" "Suc k < c" using i_def by simp_all
    with Suc.prems(2) have "u = ?U j" by (simp only:)
    with Suc key i t64 [of i] out U show ?thesis by (simp add: Let_def)
  qed
  moreover have "\<exists>s'. pbkdf2_loop C algo h pw salt idx c k (?U i) (take l (F (Suc i))) (MacCtx None)
      = Some (Inr (take l (F c), MacCtx s'))"
    using Suc.IH [of "?U i" None] Suc.prems(1) i by simp
  ultimately show ?case by (simp only: i_def)
qed

lemma pbkdf2_f_spec:
  fixes salt :: bytes
  assumes "0 < c \<Longrightarrow> p_mac_key_ok (e_prims C) algo (length pw)"
    "\<And>b. length (p_mac (e_prims C) algo pw b) = h" "h \<le> 64" "l \<le> h"
  shows "\<exists>s'. pbkdf2_f C algo h pw salt c l idx (MacCtx s) =
    Some (Inr (take l (pbkdf2_F (p_mac (e_prims C) algo pw) h salt idx c), MacCtx s'))"
  using pbkdf2_loop_spec [of c C algo pw h c "[]" salt idx l s] assms by (simp add: pbkdf2_f_def)

lemma length_pbkdf2_F:
  assumes "\<And>b. length (m b) = h"
  shows "length (pbkdf2_F m h salt idx c) = h"
proof -
  have "length (pbkdf2_U m salt idx j) = h" for j using assms by (cases j) simp_all
  then show ?thesis by (induction c) simp_all
qed

lemma pbkdf2_blocks_spec:
  fixes salt :: bytes and c :: nat
  assumes key: "0 < c \<Longrightarrow> p_mac_key_ok (e_prims C) algo (length pw)"
    and len: "\<And>b. length (p_mac (e_prims C) algo pw b) = h" "h \<le> 64"
    and k: "k \<le> l" and r: "r \<le> h"
  defines "T \<equiv> \<lambda>idx. pbkdf2_F (p_mac (e_prims C) algo pw) h salt idx c"
  shows "pbkdf2_blocks C algo h pw salt c l r k (blocks T (l - k)) (MacCtx s) =
    Some (Inr (blocks T l @ take r (T (l + 1))))"
  using k
proof (induction k arbitrary: s)
  case 0
  then show ?case
    using pbkdf2_f_spec [of c C algo pw h r salt "l + 1" s, OF key len r] by (auto simp: T_def)
next
  case (Suc k)
  define i where "i = l - Suc k"
  with Suc.prems have i: "l - k = Suc i" by simp
  have T: "length (T j) = h" for j using length_pbkdf2_F [OF len(1)] by (simp add: T_def)
  obtain s' where "pbkdf2_f C algo h pw salt c h (Suc i) (MacCtx s) = Some (Inr (T (Suc i), MacCtx s'))"
    using pbkdf2_f_spec [of c C algo pw h h salt "Suc i" s, OF key len order.refl] T [of "Suc i"] by (auto simp: T_def)
  then have "pbkdf2_blocks C algo h pw salt c l r (Suc k) (blocks T i) (MacCtx s)
      = pbkdf2_blocks C algo h pw salt c l r k (blocks T (Suc i)) (MacCtx s')"
    by (simp add: i blocks_Suc)
  with Suc.IH [of s'] Suc.prems i i_def show ?case by simp
qed

text \<open>The first MAC of a derivation that has one fails when the key is refused.\<close>

lemma pbkdf2_f_refused:
  assumes "\<not> p_mac_key_ok (e_prims C) algo (length pw)" "0 < c"
  shows "pbkdf2_f C algo h pw salt c l idx (MacCtx s) = Some (Inl TEE_ERROR_BAD_STATE)"
proof -
  from assms(2) obtain k where "c = Suc k" by (cases c) simp_all
  with assms(1) show ?thesis by (simp add: pbkdf2_f_def Let_def crypto_mac_init_def)
qed

lemma pbkdf2_blocks_refused:
  assumes "\<not> p_mac_key_ok (e_prims C) algo (length pw)" "0 < c" "0 < l \<or> 0 < r"
  shows "pbkdf2_blocks C algo h pw salt c l r l [] (MacCtx s) = Some (Inl TEE_ERROR_BAD_STATE)"
  using assms by (cases l) (simp_all add: pbkdf2_f_refused)

text \<open>
  C13. \<^verbatim>\<open>tee_cryp_pbkdf2\<close> computes the PBKDF2 of RFC 8018: the output is the first bytes of the blocks, each
  the sum of the iterates of the MAC, for every password, salt, iteration count and length, but the empty
  password. That one the MAC refuses as a key, and the derivation fails as soon as it computes a MAC. An
  iteration count of zero, which the RFC excludes, computes none: it is accepted and derives the zero key.
\<close>

theorem tee_cryp_pbkdf2_rfc8018:
  assumes "no_oom C" "hash_id \<in> set hkdf_hashes" "mac_ok C (tee_alg_hmac_algo hash_id)"
  shows "tee_cryp_pbkdf2 C hash_id pw salt c L t =
    (let hash_len = tee_alg_digest_size (tee_alg_hash_algo hash_id);
         T = (\<lambda>i. pbkdf2_F (p_mac (e_prims C) (tee_alg_hmac_algo hash_id) pw) hash_len salt i c)
     in Some (if pw = [] \<and> 0 < c \<and> 0 < L then Inl TEE_ERROR_BAD_STATE
              else Inr (take L (blocks T (L div hash_len + 1))), t\<lparr>tick := tick t + 1\<rparr>)) \<and>
    (c = 0 \<longrightarrow> tee_cryp_pbkdf2 C hash_id pw salt c L t = Some (Inr (replicate L 0), t\<lparr>tick := tick t + 1\<rparr>))"
proof -
  let ?algo = "tee_alg_hmac_algo hash_id"
  let ?h = "tee_alg_digest_size (tee_alg_hash_algo hash_id)"
  let ?T = "\<lambda>i. pbkdf2_F (p_mac (e_prims C) ?algo pw) ?h salt i c"
  let ?out = "take L (blocks ?T (L div ?h + 1))"
  note m = mac_okD [OF assms(3)] and h = hmac_size [OF assms(2)]
  have len: "length (p_mac (e_prims C) ?algo k b) = ?h" for k b by (simp only: m h)
  have T: "length (?T j) = ?h" for j by (rule length_pbkdf2_F) (rule len)
  have out: "?out = blocks ?T (L div ?h) @ take (L mod ?h) (?T (L div ?h + 1))"
    using take_blocks_Suc [of ?T ?h L "L div ?h", OF T] length_blocks [of ?T ?h "L div ?h", OF T]
    by (simp add: minus_mult_div_eq_mod)
  have "pbkdf2_blocks C ?algo ?h pw salt c (L div ?h) (L mod ?h) (L div ?h) [] (MacCtx None) =
      Some (if pw = [] \<and> 0 < c \<and> 0 < L then Inl TEE_ERROR_BAD_STATE else Inr ?out)"
  proof (cases "pw = [] \<and> 0 < c \<and> 0 < L")
    case True
    then have "0 < L div ?h \<or> 0 < L mod ?h" using mult_div_mod_eq [of ?h L] by (cases "L div ?h = 0") simp_all
    with True show ?thesis by (simp add: pbkdf2_blocks_refused m(2))
  next
    case False
    show ?thesis
    proof (cases "L = 0")
      case False
      with \<open>\<not> (pw = [] \<and> _)\<close> have "0 < c \<Longrightarrow> p_mac_key_ok (e_prims C) ?algo (length pw)" by (simp add: m(2))
      from pbkdf2_blocks_spec [of c C ?algo pw ?h "L div ?h" "L div ?h" "L mod ?h" salt None, OF this len digest_size_le_max]
      show ?thesis using h(2) \<open>\<not> (pw = [] \<and> _)\<close> by (simp only: if_False out) (simp add: less_imp_le)
    qed simp
  qed
  then have run: "tee_cryp_pbkdf2 C hash_id pw salt c L t =
      Some (if pw = [] \<and> 0 < c \<and> 0 < L then Inl TEE_ERROR_BAD_STATE else Inr ?out, t\<lparr>tick := tick t + 1\<rparr>)"
    by (simp only: tee_cryp_pbkdf2_def Let_def h m(1) [OF assms(1)]) simp
  moreover have "?out = replicate L 0" if "c = 0"
  proof -
    have "blocks (\<lambda>i. replicate ?h (0 :: byte)) n = replicate (?h * n) 0" for n
      by (induction n) (simp_all add: blocks_Suc replicate_add [symmetric] add.commute)
    moreover have "L \<le> ?h * (L div ?h + 1)"
      using mod_less_divisor [OF h(2), of L] mult_div_mod_eq [of ?h L] by (simp only: distrib_left)
    ultimately show ?thesis using that by simp
  qed
  ultimately show ?thesis by (simp only: Let_def) simp
qed

text \<open>Two iterations with a password; the empty password; no iteration.\<close>

theorem tee_cryp_pbkdf2_rfc8018_witness:
  "no_oom kdf_env \<and> 4 \<in> set hkdf_hashes \<and> mac_ok kdf_env (tee_alg_hmac_algo 4) \<and>
   tee_cryp_pbkdf2 kdf_env 4 [1, 2] [3] 2 20 tee_start =
     (let u1 = p_mac (e_prims kdf_env) TEE_ALG_HMAC_SHA256 [1, 2] [3, 0, 0, 0, 1];
          u2 = p_mac (e_prims kdf_env) TEE_ALG_HMAC_SHA256 [1, 2] u1
      in Some (Inr (take 20 (map2 (XOR) u1 u2)), tee_start\<lparr>tick := 1\<rparr>)) \<and>
   tee_cryp_pbkdf2 kdf_env 4 [] [3] 1 20 tee_start = Some (Inl TEE_ERROR_BAD_STATE, tee_start\<lparr>tick := 1\<rparr>) \<and>
   tee_cryp_pbkdf2 kdf_env 4 [1, 2] [3] 0 20 tee_start = Some (Inr (replicate 20 0), tee_start\<lparr>tick := 1\<rparr>)"
proof -
  have h: "4 \<in> set hkdf_hashes" by (simp add: hkdf_hashes_def)
  note run = tee_cryp_pbkdf2_rfc8018 [OF kdf_env_ok(1) h kdf_env_ok(2)]
  let ?mac = "p_mac (e_prims kdf_env) TEE_ALG_HMAC_SHA256 [1, 2]"
  have mac: "length (?mac b) = 32" for b using mac_okD(3) [OF kdf_env_ok(2)] by (simp add: sha256_ids)
  have "map2 (XOR) (replicate 32 0) b = b" if "length b = 32" for b :: bytes
    using that by (simp add: map2_map_map [symmetric] list_eq_iff_nth_eq)
  from this [OF mac] have "tee_cryp_pbkdf2 kdf_env 4 [1, 2] [3] 2 20 tee_start =
     (let u1 = ?mac [3, 0, 0, 0, 1]; u2 = ?mac u1 in Some (Inr (take 20 (map2 (XOR) u1 u2)), tee_start\<lparr>tick := 1\<rparr>))"
    using run [of "[1, 2]" "[3]" 2 20 tee_start, THEN conjunct1]
    by (simp add: tee_start_def sha256_ids hmac_size [OF h] blocks_Suc numeral_2_eq_2 be32_def le32_def Let_def)
  moreover have "tee_cryp_pbkdf2 kdf_env 4 [] [3] 1 20 tee_start = Some (Inl TEE_ERROR_BAD_STATE, tee_start\<lparr>tick := 1\<rparr>)"
    using run [of "[]" "[3]" 1 20 tee_start, THEN conjunct1] by (simp add: tee_start_def)
  moreover have "tee_cryp_pbkdf2 kdf_env 4 [1, 2] [3] 0 20 tee_start = Some (Inr (replicate 20 0), tee_start\<lparr>tick := 1\<rparr>)"
    using run [of "[1, 2]" "[3]" 0 20 tee_start, THEN conjunct2] by (simp add: tee_start_def)
  ultimately show ?thesis using h kdf_env_ok by blast
qed

end
