(* ===== verification/Tee_Svc_Cryp.thy ===== *)
theory Tee_Svc_Cryp
  imports Tee_Svc_Obj Tee_Kdf
begin

text \<open>
  Cryptographic states: the \<^verbatim>\<open>syscall_cryp_state_*\<close>, \<^verbatim>\<open>syscall_hash_*\<close>,
  \<^verbatim>\<open>syscall_cipher_*\<close>, \<^verbatim>\<open>syscall_authenc_*\<close>, \<^verbatim>\<open>syscall_asymm_*\<close>,
  \<^verbatim>\<open>syscall_cryp_derive_key\<close> and \<^verbatim>\<open>syscall_cryp_random_number_generate\<close> services of
  \<^verbatim>\<open>core/tee/tee_svc_cryp.c\<close>.

  Each service returns \<open>None\<close> where the behaviour of the C code is not defined: a context used before it
  is initialised, a key structure read as another one.
\<close>

section \<open>States\<close>

definition tee_svc_cryp_get_state :: "nat \<Rightarrow> 'a tee_scheme \<Rightarrow> TEE_Result + cryp_state" where
  "tee_svc_cryp_get_state a t =
     (case states t a of None \<Rightarrow> Inl TEE_ERROR_BAD_PARAMETERS | Some cs \<Rightarrow> Inr cs)"

definition set_state :: "nat \<Rightarrow> cryp_state \<Rightarrow> 'a tee_scheme \<Rightarrow> 'a tee_scheme" where
  "set_state a cs t = t\<lparr>states := (states t)(a \<mapsto> cs)\<rparr>"

definition cryp_state_free :: "nat \<Rightarrow> cryp_state \<Rightarrow> 'a tee_scheme \<Rightarrow> 'a tee_scheme" where
  "cryp_state_free a cs t =
     (let t = (case tee_obj_get (cs_key1 cs) t of Inl e \<Rightarrow> t | Inr ob \<Rightarrow> tee_obj_close (cs_key1 cs) t);
          t = (case tee_obj_get (cs_key2 cs) t of Inl e \<Rightarrow> t | Inr ob \<Rightarrow> tee_obj_close (cs_key2 cs) t)
      in t\<lparr>states := (states t)(a := None)\<rparr>)"

text \<open>The key types an algorithm accepts in a mode, by main algorithm.\<close>

definition required_key_types :: "env \<Rightarrow> nat \<Rightarrow> TEE_OperationMode \<Rightarrow> nat list option" where
  "required_key_types C algo mode =
     (let main = tee_alg_get_main_alg algo in
      if main = TEE_MAIN_ALGO_MD5 then Some [TEE_TYPE_HMAC_MD5]
      else if main = TEE_MAIN_ALGO_SHA1 then Some [TEE_TYPE_HMAC_SHA1]
      else if main = TEE_MAIN_ALGO_SHA224 then Some [TEE_TYPE_HMAC_SHA224]
      else if main = TEE_MAIN_ALGO_SHA256 then Some [TEE_TYPE_HMAC_SHA256]
      else if main = TEE_MAIN_ALGO_SHA384 then Some [TEE_TYPE_HMAC_SHA384]
      else if main = TEE_MAIN_ALGO_SHA512 then Some [TEE_TYPE_HMAC_SHA512]
      else if main = TEE_MAIN_ALGO_SM3 then Some [TEE_TYPE_HMAC_SM3]
      else if main = TEE_MAIN_ALGO_AES then Some [TEE_TYPE_AES]
      else if main = TEE_MAIN_ALGO_DES then Some [TEE_TYPE_DES]
      else if main = TEE_MAIN_ALGO_DES3 then Some [TEE_TYPE_DES3]
      else if main = TEE_MAIN_ALGO_SM4 then Some [TEE_TYPE_SM4]
      else if main = TEE_MAIN_ALGO_RSA
      then Some (TEE_TYPE_RSA_KEYPAIR #
             (if mode = TEE_MODE_ENCRYPT \<or> mode = TEE_MODE_VERIFY then [TEE_TYPE_RSA_PUBLIC_KEY] else []))
      else if main = TEE_MAIN_ALGO_DSA
      then Some (TEE_TYPE_DSA_KEYPAIR #
             (if mode = TEE_MODE_ENCRYPT \<or> mode = TEE_MODE_VERIFY then [TEE_TYPE_DSA_PUBLIC_KEY] else []))
      else if main = TEE_MAIN_ALGO_DH then Some [TEE_TYPE_DH_KEYPAIR]
      else if main = TEE_MAIN_ALGO_ECDSA
      then Some (TEE_TYPE_ECDSA_KEYPAIR # (if mode = TEE_MODE_VERIFY then [TEE_TYPE_ECDSA_PUBLIC_KEY] else []))
      else if main = TEE_MAIN_ALGO_ECDH then Some [TEE_TYPE_ECDH_KEYPAIR]
      else if main = TEE_MAIN_ALGO_SM2_PKE
      then Some [if mode = TEE_MODE_ENCRYPT then TEE_TYPE_SM2_PKE_PUBLIC_KEY else TEE_TYPE_SM2_PKE_KEYPAIR]
      else if main = TEE_MAIN_ALGO_SM2_DSA_SM3
      then Some [if mode = TEE_MODE_VERIFY then TEE_TYPE_SM2_DSA_PUBLIC_KEY else TEE_TYPE_SM2_DSA_KEYPAIR]
      else if main = TEE_MAIN_ALGO_SM2_KEP \<and> CFG_CRYPTO_SM2_KEP \<in> e_cfg C
      then Some [TEE_TYPE_SM2_KEP_KEYPAIR, TEE_TYPE_SM2_KEP_PUBLIC_KEY]
      else if main = TEE_MAIN_ALGO_HKDF \<and> CFG_CRYPTO_HKDF \<in> e_cfg C then Some [TEE_TYPE_HKDF_IKM]
      else if main = TEE_MAIN_ALGO_CONCAT_KDF \<and> CFG_CRYPTO_CONCAT_KDF \<in> e_cfg C
      then Some [TEE_TYPE_CONCAT_KDF_Z]
      else if main = TEE_MAIN_ALGO_PBKDF2 \<and> CFG_CRYPTO_PBKDF2 \<in> e_cfg C then Some [TEE_TYPE_PBKDF2_PASSWORD]
      else None)"

definition tee_svc_cryp_check_key_type :: "env \<Rightarrow> tee_obj \<Rightarrow> nat \<Rightarrow> TEE_OperationMode \<Rightarrow> TEE_Result" where
  "tee_svc_cryp_check_key_type C ob algo mode =
     (case required_key_types C algo mode of
        None \<Rightarrow> TEE_ERROR_BAD_PARAMETERS
      | Some types \<Rightarrow> if o_type ob \<in> set types then TEE_SUCCESS else TEE_ERROR_BAD_PARAMETERS)"

text \<open>The checks on one of the two keys: the null handle means no key.\<close>

definition state_key_check :: "env \<Rightarrow> nat \<Rightarrow> nat \<Rightarrow> TEE_OperationMode \<Rightarrow> 'a tee_scheme \<Rightarrow> TEE_Result" where
  "state_key_check C key algo mode t =
     (if key = 0 then TEE_SUCCESS
      else case tee_obj_get key t of
             Inl e \<Rightarrow> e
           | Inr ob \<Rightarrow> if o_busy ob then TEE_ERROR_BAD_PARAMETERS else tee_svc_cryp_check_key_type C ob algo mode)"

definition cipher_algos :: "nat list" where
  "cipher_algos = [TEE_ALG_AES_ECB_NOPAD, TEE_ALG_AES_CBC_NOPAD, TEE_ALG_AES_CTR, TEE_ALG_AES_CTS,
     TEE_ALG_AES_XTS, TEE_ALG_DES_ECB_NOPAD, TEE_ALG_DES3_ECB_NOPAD, TEE_ALG_DES_CBC_NOPAD,
     TEE_ALG_DES3_CBC_NOPAD, TEE_ALG_SM4_ECB_NOPAD, TEE_ALG_SM4_CBC_NOPAD, TEE_ALG_SM4_CTR]"

definition crypto_cipher_alloc_ctx :: "env \<Rightarrow> nat \<Rightarrow> 'a tee_scheme \<Rightarrow> (TEE_Result + cryp_ctx) \<times> 'a tee_scheme" where
  "crypto_cipher_alloc_ctx C algo t =
     (if algo \<in> set cipher_algos \<and> CFG_ALG algo \<in> e_cfg C
      then (case alloc C t of (a, t) \<Rightarrow> (if a = 0 then Inl TEE_ERROR_OUT_OF_MEMORY else Inr (CipherCtx None), t))
      else (Inl TEE_ERROR_NOT_IMPLEMENTED, t))"

text \<open>The context by class of the algorithm, with the checks on which keys are given.\<close>

definition state_alloc_ctx ::
    "env \<Rightarrow> nat \<Rightarrow> nat \<Rightarrow> nat \<Rightarrow> 'a tee_scheme \<Rightarrow> (TEE_Result + cryp_ctx) \<times> 'a tee_scheme" where
  "state_alloc_ctx C algo key1 key2 t =
     (let cls = tee_alg_get_class algo in
      if cls = TEE_OPERATION_CIPHER
      then if (algo = TEE_ALG_AES_XTS \<and> (key1 = 0 \<or> key2 = 0)) \<or> (algo \<noteq> TEE_ALG_AES_XTS \<and> (key1 = 0 \<or> key2 \<noteq> 0))
           then (Inl TEE_ERROR_BAD_PARAMETERS, t) else crypto_cipher_alloc_ctx C algo t
      else if cls = TEE_OPERATION_AE
      then if key1 = 0 \<or> key2 \<noteq> 0 then (Inl TEE_ERROR_BAD_PARAMETERS, t) else crypto_authenc_alloc_ctx C algo t
      else if cls = TEE_OPERATION_MAC
      then if key1 = 0 \<or> key2 \<noteq> 0 then (Inl TEE_ERROR_BAD_PARAMETERS, t) else crypto_mac_alloc_ctx C algo t
      else if cls = TEE_OPERATION_DIGEST
      then if key1 \<noteq> 0 \<or> key2 \<noteq> 0 then (Inl TEE_ERROR_BAD_PARAMETERS, t) else crypto_hash_alloc_ctx C algo t
      else if cls = TEE_OPERATION_ASYMMETRIC_CIPHER \<or> cls = TEE_OPERATION_ASYMMETRIC_SIGNATURE
      then if algo = TEE_ALG_RSASSA_PKCS1_V1_5 \<and> CFG_CRYPTO_RSASSA_NA1 \<notin> e_cfg C
           then (Inl TEE_ERROR_NOT_SUPPORTED, t)
           else if key1 = 0 \<or> key2 \<noteq> 0 then (Inl TEE_ERROR_BAD_PARAMETERS, t) else (Inr NoCtx, t)
      else if cls = TEE_OPERATION_KEY_DERIVATION
      then if algo = TEE_ALG_SM2_KEP
           then if key1 = 0 \<or> key2 = 0 then (Inl TEE_ERROR_BAD_PARAMETERS, t) else (Inr NoCtx, t)
           else if key1 = 0 \<or> key2 \<noteq> 0 then (Inl TEE_ERROR_BAD_PARAMETERS, t) else (Inr NoCtx, t)
      else (Inl TEE_ERROR_NOT_SUPPORTED, t))"

definition register_key :: "nat \<Rightarrow> 'a tee_scheme \<Rightarrow> 'a tee_scheme" where
  "register_key key t =
     (if key = 0 then t
      else case tee_obj_get key t of Inl e \<Rightarrow> t | Inr ob \<Rightarrow> tee_obj_add key (ob\<lparr>o_busy := True\<rparr>) t)"

definition syscall_cryp_state_alloc ::
    "env \<Rightarrow> nat \<Rightarrow> TEE_OperationMode \<Rightarrow> nat \<Rightarrow> nat \<Rightarrow> 'a tee_scheme \<Rightarrow> (TEE_Result + nat) \<times> 'a tee_scheme" where
  "syscall_cryp_state_alloc C algo mode key1 key2 t =
     (if state_key_check C key1 algo mode t \<noteq> TEE_SUCCESS then (Inl (state_key_check C key1 algo mode t), t)
      else if state_key_check C key2 algo mode t \<noteq> TEE_SUCCESS then (Inl (state_key_check C key2 algo mode t), t)
      else case alloc C t of
             (a, t) \<Rightarrow>
               if a = 0 then (Inl TEE_ERROR_OUT_OF_MEMORY, t)
               else case state_alloc_ctx C algo key1 key2 t of
                      (Inl e, t) \<Rightarrow> (Inl e, t)
                    | (Inr ctx, t) \<Rightarrow>
                        (Inr a,
                         register_key key2 (register_key key1
                           (set_state a
                              \<lparr>cs_algo = algo, cs_mode = mode, cs_key1 = key1, cs_key2 = key2, cs_ctx = ctx,
                               cs_finalize = False, cs_init = False\<rparr> t))))"

definition syscall_cryp_state_copy :: "nat \<Rightarrow> nat \<Rightarrow> 'a tee_scheme \<Rightarrow> TEE_Result \<times> 'a tee_scheme" where
  "syscall_cryp_state_copy dst src t =
     (case (tee_svc_cryp_get_state dst t, tee_svc_cryp_get_state src t) of
        (Inl e, _) \<Rightarrow> (e, t)
      | (Inr cs_dst, Inl e) \<Rightarrow> (e, t)
      | (Inr cs_dst, Inr cs_src) \<Rightarrow>
          if cs_algo cs_dst \<noteq> cs_algo cs_src \<or> cs_mode cs_dst \<noteq> cs_mode cs_src then (TEE_ERROR_BAD_PARAMETERS, t)
          else if tee_alg_get_class (cs_algo cs_src) \<in>
                    {TEE_OPERATION_CIPHER, TEE_OPERATION_AE, TEE_OPERATION_DIGEST, TEE_OPERATION_MAC}
          then (TEE_SUCCESS,
                set_state dst
                  (cs_dst\<lparr>cs_ctx := cs_ctx cs_src, cs_init := cs_init cs_src, cs_finalize := cs_finalize cs_src\<rparr>) t)
          else (TEE_ERROR_BAD_STATE, t))"

definition syscall_cryp_state_free :: "nat \<Rightarrow> 'a tee_scheme \<Rightarrow> TEE_Result \<times> 'a tee_scheme" where
  "syscall_cryp_state_free state t =
     (case tee_svc_cryp_get_state state t of
        Inl e \<Rightarrow> (e, t) | Inr cs \<Rightarrow> (TEE_SUCCESS, cryp_state_free state cs t))"

section \<open>Digests and message authentication codes\<close>

text \<open>The bytes of the secret a key object holds.\<close>

definition secret_of :: "tee_obj \<Rightarrow> bytes option" where
  "secret_of ob = (case o_attr ob of Some (Secret sz key # _) \<Rightarrow> Some key | _ \<Rightarrow> None)"

definition syscall_hash_init :: "env \<Rightarrow> nat \<Rightarrow> 'a tee_scheme \<Rightarrow> (TEE_Result \<times> 'a tee_scheme) option" where
  "syscall_hash_init C state t =
     (case tee_svc_cryp_get_state state t of
        Inl e \<Rightarrow> Some (e, t)
      | Inr cs \<Rightarrow>
          if tee_alg_get_class (cs_algo cs) = TEE_OPERATION_DIGEST
          then do {
            (res, ctx) \<leftarrow> crypto_hash_init (cs_ctx cs);
            Some (res, set_state state
              (if res = TEE_SUCCESS then cs\<lparr>cs_ctx := ctx, cs_init := True\<rparr> else cs\<lparr>cs_ctx := ctx\<rparr>) t)
          }
          else if tee_alg_get_class (cs_algo cs) = TEE_OPERATION_MAC
          then (case tee_obj_get (cs_key1 cs) t of
                  Inl e \<Rightarrow> Some (e, t)
                | Inr ob \<Rightarrow>
                    if HF_INITIALIZED \<notin> o_flags ob then Some (TEE_ERROR_BAD_PARAMETERS, t)
                    else do {
                      key \<leftarrow> secret_of ob;
                      (res, ctx) \<leftarrow> crypto_mac_init C (cs_algo cs) key (cs_ctx cs);
                      Some (res, set_state state
                        (if res = TEE_SUCCESS then cs\<lparr>cs_ctx := ctx, cs_init := True\<rparr> else cs\<lparr>cs_ctx := ctx\<rparr>) t)
                    })
          else Some (TEE_ERROR_BAD_PARAMETERS, t))"

definition syscall_hash_update :: "nat \<Rightarrow> bytes \<Rightarrow> 'a tee_scheme \<Rightarrow> (TEE_Result \<times> 'a tee_scheme) option" where
  "syscall_hash_update state chunk t =
     (if chunk = [] then Some (TEE_SUCCESS, t)
      else case tee_svc_cryp_get_state state t of
        Inl e \<Rightarrow> Some (e, t)
      | Inr cs \<Rightarrow>
          if \<not> cs_init cs then Some (TEE_ERROR_BAD_STATE, t)
          else if tee_alg_get_class (cs_algo cs) = TEE_OPERATION_DIGEST
          then do {
            (res, ctx) \<leftarrow> crypto_hash_update chunk (cs_ctx cs);
            Some (res, set_state state (cs\<lparr>cs_ctx := ctx\<rparr>) t)
          }
          else if tee_alg_get_class (cs_algo cs) = TEE_OPERATION_MAC
          then do {
            (res, ctx) \<leftarrow> crypto_mac_update chunk (cs_ctx cs);
            Some (res, set_state state (cs\<lparr>cs_ctx := ctx\<rparr>) t)
          }
          else Some (TEE_ERROR_BAD_PARAMETERS, t))"

text \<open>The result, the bytes written to \<open>hash\<close>, the length written back (\<open>None\<close> when it is not written)
  and the new state.\<close>

definition syscall_hash_final ::
    "env \<Rightarrow> nat \<Rightarrow> bytes \<Rightarrow> nat \<Rightarrow> 'a tee_scheme \<Rightarrow> (TEE_Result \<times> bytes \<times> nat option \<times> 'a tee_scheme) option" where
  "syscall_hash_final C state chunk hlen t =
     (case tee_svc_cryp_get_state state t of
        Inl e \<Rightarrow> Some (e, [], None, t)
      | Inr cs \<Rightarrow>
          if \<not> cs_init cs then Some (TEE_ERROR_BAD_STATE, [], None, t)
          else if tee_alg_get_class (cs_algo cs) = TEE_OPERATION_DIGEST
          then (case tee_alg_get_digest_size (cs_algo cs) of
                  Inl e \<Rightarrow> Some (e, [], None, t)
                | Inr hash_size \<Rightarrow>
                    if hlen < hash_size then Some (TEE_ERROR_SHORT_BUFFER, [], Some hash_size, t)
                    else do {
                      (res, ctx) \<leftarrow> (if chunk = [] then Some (TEE_SUCCESS, cs_ctx cs)
                                    else crypto_hash_update chunk (cs_ctx cs));
                      (res, digest, ctx) \<leftarrow> crypto_hash_final C (cs_algo cs) hash_size ctx;
                      Some (res, digest, if res = TEE_SUCCESS then Some hash_size else None,
                            set_state state (cs\<lparr>cs_ctx := ctx\<rparr>) t)
                    })
          else if tee_alg_get_class (cs_algo cs) = TEE_OPERATION_MAC
          then (case tee_alg_get_digest_size (cs_algo cs) of
                  Inl e \<Rightarrow> Some (e, [], None, t)
                | Inr hash_size \<Rightarrow>
                    if hlen < hash_size then Some (TEE_ERROR_SHORT_BUFFER, [], Some hash_size, t)
                    else do {
                      (res, ctx) \<leftarrow> (if chunk = [] then Some (TEE_SUCCESS, cs_ctx cs)
                                    else crypto_mac_update chunk (cs_ctx cs));
                      (res, digest, ctx) \<leftarrow> crypto_mac_final C (cs_algo cs) hash_size ctx;
                      Some (res, digest, if res = TEE_SUCCESS then Some hash_size else None,
                            set_state state (cs\<lparr>cs_ctx := ctx\<rparr>) t)
                    })
          else Some (TEE_ERROR_BAD_PARAMETERS, [], None, t))"

section \<open>Block ciphers\<close>

definition crypto_cipher_init ::
    "env \<Rightarrow> nat \<Rightarrow> TEE_OperationMode \<Rightarrow> bytes \<Rightarrow> bytes \<Rightarrow> bytes \<Rightarrow> cryp_ctx \<Rightarrow> (TEE_Result \<times> cryp_ctx) option" where
  "crypto_cipher_init C algo mode key1 key2 iv ctx =
     (if mode \<noteq> TEE_MODE_DECRYPT \<and> mode \<noteq> TEE_MODE_ENCRYPT then Some (TEE_ERROR_BAD_PARAMETERS, ctx)
      else case ctx of
             CipherCtx s \<Rightarrow>
               Some (case p_cipher_init (e_prims C) algo mode key1 key2 iv of
                       Inl e \<Rightarrow> (e, CipherCtx None) | Inr st \<Rightarrow> (TEE_SUCCESS, CipherCtx (Some st)))
           | _ \<Rightarrow> None)"

definition syscall_cipher_init :: "env \<Rightarrow> nat \<Rightarrow> bytes \<Rightarrow> 'a tee_scheme \<Rightarrow> (TEE_Result \<times> 'a tee_scheme) option" where
  "syscall_cipher_init C state iv t =
     (case tee_svc_cryp_get_state state t of
        Inl e \<Rightarrow> Some (e, t)
      | Inr cs \<Rightarrow>
          if tee_alg_get_class (cs_algo cs) \<noteq> TEE_OPERATION_CIPHER then Some (TEE_ERROR_BAD_STATE, t)
          else case tee_obj_get (cs_key1 cs) t of
                 Inl e \<Rightarrow> Some (e, t)
               | Inr ob \<Rightarrow>
                   if HF_INITIALIZED \<notin> o_flags ob then Some (TEE_ERROR_BAD_PARAMETERS, t)
                   else do {
                     key1 \<leftarrow> secret_of ob;
                     (case tee_obj_get (cs_key2 cs) t of
                        Inr ob2 \<Rightarrow>
                          if HF_INITIALIZED \<notin> o_flags ob2 then Some (TEE_ERROR_BAD_PARAMETERS, t)
                          else do {
                            key2 \<leftarrow> secret_of ob2;
                            (res, ctx) \<leftarrow> crypto_cipher_init C (cs_algo cs) (cs_mode cs) key1 key2 iv (cs_ctx cs);
                            Some (res, set_state state
                              (if res = TEE_SUCCESS then cs\<lparr>cs_ctx := ctx, cs_finalize := True, cs_init := True\<rparr>
                               else cs\<lparr>cs_ctx := ctx\<rparr>) t)
                          }
                      | Inl e \<Rightarrow> do {
                          (res, ctx) \<leftarrow> crypto_cipher_init C (cs_algo cs) (cs_mode cs) key1 [] iv (cs_ctx cs);
                          Some (res, set_state state
                            (if res = TEE_SUCCESS then cs\<lparr>cs_ctx := ctx, cs_finalize := True, cs_init := True\<rparr>
                             else cs\<lparr>cs_ctx := ctx\<rparr>) t)
                        })
                   })"

definition tee_cipher_get_block_size :: "nat \<Rightarrow> TEE_Result + nat" where
  "tee_cipher_get_block_size algo =
     (if algo \<in> {TEE_ALG_AES_CBC_MAC_NOPAD, TEE_ALG_AES_CBC_MAC_PKCS5, TEE_ALG_AES_CMAC, TEE_ALG_AES_ECB_NOPAD,
           TEE_ALG_AES_CBC_NOPAD, TEE_ALG_AES_CTR, TEE_ALG_AES_CTS, TEE_ALG_AES_XTS, TEE_ALG_AES_CCM,
           TEE_ALG_AES_GCM, TEE_ALG_SM4_ECB_NOPAD, TEE_ALG_SM4_CBC_NOPAD, TEE_ALG_SM4_CTR} then Inr 16
      else if algo \<in> {TEE_ALG_DES_CBC_MAC_NOPAD, TEE_ALG_DES_CBC_MAC_PKCS5, TEE_ALG_DES_ECB_NOPAD,
           TEE_ALG_DES_CBC_NOPAD, TEE_ALG_DES3_CBC_MAC_NOPAD, TEE_ALG_DES3_CBC_MAC_PKCS5,
           TEE_ALG_DES3_ECB_NOPAD, TEE_ALG_DES3_CBC_NOPAD, TEE_ALG_DES3_CMAC} then Inr 8
      else Inl TEE_ERROR_NOT_SUPPORTED)"

definition tee_do_cipher_update ::
    "env \<Rightarrow> nat \<Rightarrow> TEE_OperationMode \<Rightarrow> bool \<Rightarrow> bytes \<Rightarrow> cryp_ctx \<Rightarrow> (TEE_Result \<times> bytes \<times> cryp_ctx) option" where
  "tee_do_cipher_update C algo mode last_block data ctx =
     (if mode \<noteq> TEE_MODE_ENCRYPT \<and> mode \<noteq> TEE_MODE_DECRYPT then Some (TEE_ERROR_BAD_PARAMETERS, [], ctx)
      else case tee_cipher_get_block_size algo of
             Inl e \<Rightarrow> Some (e, [], ctx)
           | Inr block_size \<Rightarrow>
               let res =
                 (if length data mod block_size = 0 then TEE_SUCCESS
                  else if \<not> last_block \<and> algo \<noteq> TEE_ALG_AES_CTR then TEE_ERROR_BAD_PARAMETERS
                  else if algo \<in> {TEE_ALG_AES_ECB_NOPAD, TEE_ALG_DES_ECB_NOPAD, TEE_ALG_DES3_ECB_NOPAD,
                         TEE_ALG_AES_CBC_NOPAD, TEE_ALG_DES_CBC_NOPAD, TEE_ALG_DES3_CBC_NOPAD,
                         TEE_ALG_SM4_ECB_NOPAD, TEE_ALG_SM4_CBC_NOPAD} then TEE_ERROR_BAD_PARAMETERS
                  else if algo \<in> {TEE_ALG_AES_CTR, TEE_ALG_AES_XTS, TEE_ALG_AES_CTS} then TEE_SUCCESS
                  else TEE_ERROR_NOT_SUPPORTED) in
               if res \<noteq> TEE_SUCCESS then Some (res, [], ctx)
               else case ctx of
                      CipherCtx (Some st) \<Rightarrow>
                        (case p_cipher_update (e_prims C) algo last_block data st of
                           (res, out, st) \<Rightarrow> Some (res, out, CipherCtx (Some st)))
                    | _ \<Rightarrow> None)"

text \<open>The length pointer may be null (\<open>None\<close>). The last block ends the life of the cipher context.\<close>

definition tee_svc_cipher_update_helper ::
    "env \<Rightarrow> nat \<Rightarrow> bool \<Rightarrow> bytes \<Rightarrow> nat option \<Rightarrow> 'a tee_scheme \<Rightarrow>
       (TEE_Result \<times> bytes \<times> nat option \<times> 'a tee_scheme) option" where
  "tee_svc_cipher_update_helper C state last_block src dst_len t =
     (case tee_svc_cryp_get_state state t of
        Inl e \<Rightarrow> Some (e, [], dst_len, t)
      | Inr cs \<Rightarrow>
          if \<not> cs_init cs then Some (TEE_ERROR_BAD_STATE, [], dst_len, t)
          else if (case dst_len of None \<Rightarrow> 0 | Some n \<Rightarrow> n) < length src
          then Some (TEE_ERROR_SHORT_BUFFER, [], map_option (\<lambda>n. length src) dst_len, t)
          else do {
            (res, out, ctx) \<leftarrow>
              (if src = [] then Some (TEE_SUCCESS, [], cs_ctx cs)
               else tee_do_cipher_update C (cs_algo cs) (cs_mode cs) last_block src (cs_ctx cs));
            let cs = (if last_block \<and> cs_finalize cs
                      then cs\<lparr>cs_ctx := (case ctx of CipherCtx s \<Rightarrow> CipherCtx None | _ \<Rightarrow> ctx), cs_finalize := False\<rparr>
                      else cs\<lparr>cs_ctx := ctx\<rparr>);
            Some (res, out,
                  if res = TEE_SUCCESS \<or> res = TEE_ERROR_SHORT_BUFFER then map_option (\<lambda>n. length src) dst_len
                  else dst_len,
                  set_state state cs t)
          })"

definition syscall_cipher_update ::
    "env \<Rightarrow> nat \<Rightarrow> bytes \<Rightarrow> nat option \<Rightarrow> 'a tee_scheme \<Rightarrow> (TEE_Result \<times> bytes \<times> nat option \<times> 'a tee_scheme) option" where
  "syscall_cipher_update C state src dst_len t = tee_svc_cipher_update_helper C state False src dst_len t"

definition syscall_cipher_final ::
    "env \<Rightarrow> nat \<Rightarrow> bytes \<Rightarrow> nat option \<Rightarrow> 'a tee_scheme \<Rightarrow> (TEE_Result \<times> bytes \<times> nat option \<times> 'a tee_scheme) option" where
  "syscall_cipher_final C state src dst_len t = tee_svc_cipher_update_helper C state True src dst_len t"

section \<open>Authenticated encryption\<close>

definition syscall_authenc_init ::
    "env \<Rightarrow> nat \<Rightarrow> bytes \<Rightarrow> nat \<Rightarrow> 'a tee_scheme \<Rightarrow> (TEE_Result \<times> 'a tee_scheme) option" where
  "syscall_authenc_init C state nonce tag_len t =
     (case tee_svc_cryp_get_state state t of
        Inl e \<Rightarrow> Some (e, t)
      | Inr cs \<Rightarrow>
          (case tee_obj_get (cs_key1 cs) t of
             Inl e \<Rightarrow> Some (e, t)
           | Inr ob \<Rightarrow>
               if HF_INITIALIZED \<notin> o_flags ob then Some (TEE_ERROR_BAD_PARAMETERS, t)
               else do {
                 key \<leftarrow> secret_of ob;
                 (res, ctx) \<leftarrow> crypto_authenc_init C (cs_mode cs) key nonce tag_len (cs_ctx cs);
                 Some (res, set_state state
                   (if res = TEE_SUCCESS then cs\<lparr>cs_ctx := ctx, cs_finalize := True, cs_init := True\<rparr>
                    else cs\<lparr>cs_ctx := ctx\<rparr>) t)
               }))"

definition syscall_authenc_update_aad ::
    "nat \<Rightarrow> nat \<Rightarrow> bytes \<Rightarrow> 'a tee_scheme \<Rightarrow> (TEE_Result \<times> 'a tee_scheme) option" where
  "syscall_authenc_update_aad state addr aad t =
     (case tee_svc_cryp_get_state state t of
        Inl e \<Rightarrow> Some (e, t)
      | Inr cs \<Rightarrow>
          if \<not> cs_init cs then Some (TEE_ERROR_BAD_STATE, t)
          else if tee_alg_get_class (cs_algo cs) \<noteq> TEE_OPERATION_AE then Some (TEE_ERROR_BAD_STATE, t)
          else do {
            (res, ctx) \<leftarrow> crypto_authenc_update_aad addr aad (cs_ctx cs);
            Some (res, set_state state (cs\<lparr>cs_ctx := ctx\<rparr>) t)
          })"

definition syscall_authenc_update_payload ::
    "env \<Rightarrow> nat \<Rightarrow> bytes \<Rightarrow> nat \<Rightarrow> 'a tee_scheme \<Rightarrow> (TEE_Result \<times> bytes \<times> nat \<times> 'a tee_scheme) option" where
  "syscall_authenc_update_payload C state src dlen t =
     (case tee_svc_cryp_get_state state t of
        Inl e \<Rightarrow> Some (e, [], dlen, t)
      | Inr cs \<Rightarrow>
          if \<not> cs_init cs then Some (TEE_ERROR_BAD_STATE, [], dlen, t)
          else if tee_alg_get_class (cs_algo cs) \<noteq> TEE_OPERATION_AE then Some (TEE_ERROR_BAD_STATE, [], dlen, t)
          else if dlen < length src then Some (TEE_ERROR_SHORT_BUFFER, [], dlen, t)
          else do {
            (res, out, n, ctx) \<leftarrow> crypto_authenc_update_payload C (cs_mode cs) src dlen (cs_ctx cs);
            Some (res, out, n, set_state state (cs\<lparr>cs_ctx := ctx\<rparr>) t)
          })"

text \<open>The result, the output, its length, the tag and its length. The tag length is read after the check of
  the output length: until then the length that is written back is 0.\<close>

definition syscall_authenc_enc_final ::
    "env \<Rightarrow> nat \<Rightarrow> bytes \<Rightarrow> nat \<Rightarrow> nat \<Rightarrow> 'a tee_scheme \<Rightarrow>
       (TEE_Result \<times> bytes \<times> nat \<times> bytes \<times> nat \<times> 'a tee_scheme) option" where
  "syscall_authenc_enc_final C state src dlen tlen t =
     (case tee_svc_cryp_get_state state t of
        Inl e \<Rightarrow> Some (e, [], dlen, [], tlen, t)
      | Inr cs \<Rightarrow>
          if \<not> cs_init cs then Some (TEE_ERROR_BAD_STATE, [], dlen, [], tlen, t)
          else if cs_mode cs \<noteq> TEE_MODE_ENCRYPT then Some (TEE_ERROR_BAD_PARAMETERS, [], dlen, [], tlen, t)
          else if tee_alg_get_class (cs_algo cs) \<noteq> TEE_OPERATION_AE
          then Some (TEE_ERROR_BAD_STATE, [], dlen, [], tlen, t)
          else if dlen < length src then Some (TEE_ERROR_SHORT_BUFFER, [], dlen, [], 0, t)
          else do {
            (res, out, dlen, tag, tlen, ctx) \<leftarrow> crypto_authenc_enc_final C src dlen tlen (cs_ctx cs);
            Some (res, out, dlen, tag, tlen, set_state state (cs\<lparr>cs_ctx := ctx\<rparr>) t)
          })"

text \<open>The length of the output is written back unless the call ends with an error other than
  \<^verbatim>\<open>TEE_ERROR_SHORT_BUFFER\<close>; the output itself is written even when the tag is wrong.\<close>

definition syscall_authenc_dec_final ::
    "env \<Rightarrow> nat \<Rightarrow> bytes \<Rightarrow> nat \<Rightarrow> bytes \<Rightarrow> 'a tee_scheme \<Rightarrow> (TEE_Result \<times> bytes \<times> nat \<times> 'a tee_scheme) option" where
  "syscall_authenc_dec_final C state src dlen tag t =
     (case tee_svc_cryp_get_state state t of
        Inl e \<Rightarrow> Some (e, [], dlen, t)
      | Inr cs \<Rightarrow>
          if \<not> cs_init cs then Some (TEE_ERROR_BAD_STATE, [], dlen, t)
          else if cs_mode cs \<noteq> TEE_MODE_DECRYPT then Some (TEE_ERROR_BAD_PARAMETERS, [], dlen, t)
          else if tee_alg_get_class (cs_algo cs) \<noteq> TEE_OPERATION_AE then Some (TEE_ERROR_BAD_STATE, [], dlen, t)
          else if dlen < length src then Some (TEE_ERROR_SHORT_BUFFER, [], dlen, t)
          else do {
            (res, out, n, ctx) \<leftarrow> crypto_authenc_dec_final C src dlen tag (cs_ctx cs);
            Some (res, out, if res = TEE_SUCCESS \<or> res = TEE_ERROR_SHORT_BUFFER then n else dlen,
                  set_state state (cs\<lparr>cs_ctx := ctx\<rparr>) t)
          })"

section \<open>Random numbers\<close>

definition syscall_cryp_random_number_generate ::
    "env \<Rightarrow> nat \<Rightarrow> 'a tee_scheme \<Rightarrow> TEE_Result \<times> bytes \<times> 'a tee_scheme" where
  "syscall_cryp_random_number_generate C blen t =
     (case e_rng C (tick t) blen of
        Inl e \<Rightarrow> (e, [], t\<lparr>tick := tick t + 1\<rparr>)
      | Inr b \<Rightarrow> (TEE_SUCCESS, b, t\<lparr>tick := tick t + 1\<rparr>))"

section \<open>Asymmetric operations\<close>

definition pkcs1_get_salt_len :: "TEE_Attribute list \<Rightarrow> nat \<Rightarrow> nat" where
  "pkcs1_get_salt_len params default_len =
     (case find (\<lambda>p. attributeID p = TEE_ATTR_RSA_PSS_SALT_LENGTH) params of
        Some (ValAttr i a b) \<Rightarrow> if a < 2 ^ 31 - 1 then a else default_len
      | _ \<Rightarrow> default_len)"

definition oaep_label :: "TEE_Attribute list \<Rightarrow> bytes option" where
  "oaep_label params =
     (case find (\<lambda>p. attributeID p = TEE_ATTR_RSA_OAEP_LABEL) params of
        Some (RefAttr i b) \<Rightarrow> Some b | _ \<Rightarrow> None)"

definition rsaes_algos :: "nat list" where
  "rsaes_algos = [TEE_ALG_RSAES_PKCS1_V1_5, TEE_ALG_RSAES_PKCS1_OAEP_MGF1_SHA1,
     TEE_ALG_RSAES_PKCS1_OAEP_MGF1_SHA224, TEE_ALG_RSAES_PKCS1_OAEP_MGF1_SHA256,
     TEE_ALG_RSAES_PKCS1_OAEP_MGF1_SHA384, TEE_ALG_RSAES_PKCS1_OAEP_MGF1_SHA512]"

definition rsassa_algos :: "env \<Rightarrow> nat list" where
  "rsassa_algos C =
     (if CFG_CRYPTO_RSASSA_NA1 \<in> e_cfg C then [TEE_ALG_RSASSA_PKCS1_V1_5] else []) @
     [TEE_ALG_RSASSA_PKCS1_V1_5_MD5, TEE_ALG_RSASSA_PKCS1_V1_5_SHA1, TEE_ALG_RSASSA_PKCS1_V1_5_SHA224,
      TEE_ALG_RSASSA_PKCS1_V1_5_SHA256, TEE_ALG_RSASSA_PKCS1_V1_5_SHA384, TEE_ALG_RSASSA_PKCS1_V1_5_SHA512,
      TEE_ALG_RSASSA_PKCS1_PSS_MGF1_SHA1, TEE_ALG_RSASSA_PKCS1_PSS_MGF1_SHA224,
      TEE_ALG_RSASSA_PKCS1_PSS_MGF1_SHA256, TEE_ALG_RSASSA_PKCS1_PSS_MGF1_SHA384,
      TEE_ALG_RSASSA_PKCS1_PSS_MGF1_SHA512]"

definition ecdsa_algos :: "nat list" where
  "ecdsa_algos = [TEE_ALG_ECDSA_P192, TEE_ALG_ECDSA_P224, TEE_ALG_ECDSA_P256, TEE_ALG_ECDSA_P384,
     TEE_ALG_ECDSA_P521]"

text \<open>The call of the library an algorithm and a mode select, or the error.\<close>

definition asymm_call ::
    "env \<Rightarrow> nat \<Rightarrow> TEE_OperationMode \<Rightarrow> TEE_Attribute list \<Rightarrow> nat \<Rightarrow> TEE_Result + acipher_call" where
  "asymm_call C algo mode params src_len =
     (if algo = TEE_ALG_RSA_NOPAD
      then if mode = TEE_MODE_ENCRYPT then Inr Rsanopad_encrypt
           else if mode = TEE_MODE_DECRYPT then Inr Rsanopad_decrypt else Inl TEE_ERROR_GENERIC
      else if algo = TEE_ALG_SM2_PKE
      then if mode = TEE_MODE_ENCRYPT then Inr Sm2_pke_encrypt
           else if mode = TEE_MODE_DECRYPT then Inr Sm2_pke_decrypt else Inl TEE_ERROR_GENERIC
      else if algo \<in> set rsaes_algos
      then if mode = TEE_MODE_ENCRYPT then Inr (Rsaes_encrypt (oaep_label params))
           else if mode = TEE_MODE_DECRYPT then Inr (Rsaes_decrypt (oaep_label params))
           else Inl TEE_ERROR_BAD_PARAMETERS
      else if algo \<in> set (rsassa_algos C)
      then if mode \<noteq> TEE_MODE_SIGN then Inl TEE_ERROR_BAD_PARAMETERS
           else Inr (Rsassa_sign (pkcs1_get_salt_len params src_len))
      else if algo \<in> {TEE_ALG_DSA_SHA1, TEE_ALG_DSA_SHA224, TEE_ALG_DSA_SHA256} then Inr Dsa_sign
      else if algo = TEE_ALG_SM2_DSA_SM3 then Inr Sm2_dsa_sign
      else Inl TEE_ERROR_BAD_PARAMETERS)"

text \<open>The result, the output and the length written back.\<close>

definition syscall_asymm_operate ::
    "env \<Rightarrow> nat \<Rightarrow> TEE_Attribute list \<Rightarrow> bytes \<Rightarrow> nat \<Rightarrow> 'a tee_scheme \<Rightarrow>
       (TEE_Result \<times> bytes \<times> nat \<times> 'a tee_scheme) option" where
  "syscall_asymm_operate C state params src dlen t =
     (case tee_svc_cryp_get_state state t of
        Inl e \<Rightarrow> Some (e, [], dlen, t)
      | Inr cs \<Rightarrow>
          (case alloc C t of
             (a, t) \<Rightarrow>
               if a = 0 then Some (TEE_ERROR_OUT_OF_MEMORY, [], dlen, t)
               else case tee_obj_get (cs_key1 cs) t of
                      Inl e \<Rightarrow> Some (e, [], dlen, t)
                    | Inr ob \<Rightarrow>
                        if HF_INITIALIZED \<notin> o_flags ob then Some (TEE_ERROR_GENERIC, [], dlen, t)
                        else do {
                          attrs \<leftarrow> o_attr ob;
                          (res, out, n, t) \<leftarrow>
                            (if cs_algo cs \<in> set ecdsa_algos
                             then do {
                               key \<leftarrow> keypair_of_attrs attrs;
                               Some (ltc_ecc_sign C (cs_algo cs) key src dlen t)
                             }
                             else case asymm_call C (cs_algo cs) (cs_mode cs) params (length src) of
                                    Inl e \<Rightarrow> Some (e, [], dlen, t)
                                  | Inr call \<Rightarrow>
                                      (case p_acipher (e_prims C) call (cs_algo cs) attrs src dlen (e_entropy C (tick t)) of
                                         (res, out, n) \<Rightarrow> Some (res, out, n, t\<lparr>tick := tick t + 1\<rparr>)));
                          Some (res, out, if res = TEE_SUCCESS \<or> res = TEE_ERROR_SHORT_BUFFER then n else dlen, t)
                        }))"

definition verify_data_len :: "env \<Rightarrow> nat \<Rightarrow> attr_val list \<Rightarrow> nat \<Rightarrow> TEE_Result" where
  "verify_data_len C algo attrs data_len =
     (case tee_alg_get_digest_size (tee_alg_hash_algo (tee_alg_get_digest_hash algo)) of
        Inl e \<Rightarrow> e
      | Inr hash_size \<Rightarrow>
          if data_len = hash_size then TEE_SUCCESS
          else if tee_alg_get_main_alg algo = TEE_MAIN_ALGO_DSA \<and>
                  (case attrs of _ # Bignum q # _ \<Rightarrow> data_len = crypto_bignum_num_bytes q | _ \<Rightarrow> False)
          then TEE_SUCCESS
          else TEE_ERROR_BAD_PARAMETERS)"

definition syscall_asymm_verify ::
    "env \<Rightarrow> nat \<Rightarrow> TEE_Attribute list \<Rightarrow> bytes \<Rightarrow> bytes \<Rightarrow> 'a tee_scheme \<Rightarrow> (TEE_Result \<times> 'a tee_scheme) option" where
  "syscall_asymm_verify C state params data sig t =
     (case tee_svc_cryp_get_state state t of
        Inl e \<Rightarrow> Some (e, t)
      | Inr cs \<Rightarrow>
          if cs_mode cs \<noteq> TEE_MODE_VERIFY then Some (TEE_ERROR_BAD_PARAMETERS, t)
          else case alloc C t of
             (a, t) \<Rightarrow>
               if a = 0 then Some (TEE_ERROR_OUT_OF_MEMORY, t)
               else case tee_obj_get (cs_key1 cs) t of
                      Inl e \<Rightarrow> Some (e, t)
                    | Inr ob \<Rightarrow>
                        if HF_INITIALIZED \<notin> o_flags ob then Some (TEE_ERROR_BAD_PARAMETERS, t)
                        else do {
                          attrs \<leftarrow> o_attr ob;
                          let main = tee_alg_get_main_alg (cs_algo cs);
                          if main = TEE_MAIN_ALGO_RSA
                          then (let res = (if cs_algo cs = TEE_ALG_RSASSA_PKCS1_V1_5 then TEE_SUCCESS
                                           else verify_data_len C (cs_algo cs) attrs (length data));
                                    salt = (if cs_algo cs = TEE_ALG_RSASSA_PKCS1_V1_5 then 0
                                            else pkcs1_get_salt_len params (length data))
                                in if res \<noteq> TEE_SUCCESS then Some (res, t)
                                   else Some (fst (p_acipher (e_prims C) (Rsassa_verify salt sig) (cs_algo cs) attrs
                                                data 0 []), t))
                          else if main = TEE_MAIN_ALGO_DSA
                          then (let res = verify_data_len C (cs_algo cs) attrs (length data)
                                in if res \<noteq> TEE_SUCCESS then Some (res, t)
                                   else Some (fst (p_acipher (e_prims C) (Dsa_verify sig) (cs_algo cs) attrs data 0 []), t))
                          else if main = TEE_MAIN_ALGO_ECDSA
                          then do {
                            key \<leftarrow> public_of_attrs attrs;
                            Some (ltc_ecc_verify C (tick t) (cs_algo cs) key data sig, t)
                          }
                          else if main = TEE_MAIN_ALGO_SM2_DSA_SM3
                          then Some (fst (p_acipher (e_prims C) (Sm2_dsa_verify sig) (cs_algo cs) attrs data 0 []), t)
                          else Some (TEE_ERROR_NOT_SUPPORTED, t)
                        })"

section \<open>Key derivation\<close>

definition ecdh_alloc_size :: "nat \<Rightarrow> nat option" where
  "ecdh_alloc_size algo =
     map_of [(TEE_ALG_ECDH_P192, 192), (TEE_ALG_ECDH_P224, 224), (TEE_ALG_ECDH_P256, 256),
       (TEE_ALG_ECDH_P384, 384), (TEE_ALG_ECDH_P521, 521)] algo"

text \<open>\<^verbatim>\<open>crypto_bignum_bin2bn\<close> into a number, the result being ignored.\<close>

definition bin2bn_into :: "env \<Rightarrow> nat \<Rightarrow> bytes \<Rightarrow> nat \<Rightarrow> nat" where
  "bin2bn_into C now b old = (case crypto_bignum_bin2bn C now b of Inl e \<Rightarrow> old | Inr n \<Rightarrow> n)"

text \<open>The two readings of the content of an attribute; which one applies is a bit of its identifier
  (\<^verbatim>\<open>copy_in_attrs\<close>).\<close>

definition content_ref :: "TEE_Attribute \<Rightarrow> bytes" where
  "content_ref a = (case a of RefAttr i b \<Rightarrow> b | ValAttr i x y \<Rightarrow> [])"

definition content_value_a :: "TEE_Attribute \<Rightarrow> nat" where
  "content_value_a a = (case a of RefAttr i b \<Rightarrow> 0 | ValAttr i x y \<Rightarrow> x)"

text \<open>The value an option parameter has so far, unless it is already there.\<close>

definition first :: "'b option \<Rightarrow> 'b \<Rightarrow> 'b option" where
  "first found x = (case found of None \<Rightarrow> Some x | Some y \<Rightarrow> Some y)"

fun hkdf_params_loop ::
    "TEE_Attribute list \<Rightarrow> bytes option \<Rightarrow> bytes option \<Rightarrow> nat option \<Rightarrow>
       (bytes option \<times> bytes option \<times> nat option) option" where
  "hkdf_params_loop [] salt info len = Some (salt, info, len)"
| "hkdf_params_loop (p # ps) salt info len =
     (if attributeID p = TEE_ATTR_HKDF_SALT then hkdf_params_loop ps (first salt (content_ref p)) info len
      else if attributeID p = TEE_ATTR_HKDF_OKM_LENGTH
      then hkdf_params_loop ps salt info (first len (content_value_a p))
      else if attributeID p = TEE_ATTR_HKDF_INFO then hkdf_params_loop ps salt (first info (content_ref p)) len
      else None)"

definition get_hkdf_params :: "TEE_Attribute list \<Rightarrow> TEE_Result + (bytes \<times> bytes \<times> nat)" where
  "get_hkdf_params params =
     (case hkdf_params_loop params None None None of
        Some (salt, info, Some okm_len) \<Rightarrow> Inr (case_option [] id salt, case_option [] id info, okm_len)
      | _ \<Rightarrow> Inl TEE_ERROR_BAD_PARAMETERS)"

fun concat_kdf_params_loop ::
    "TEE_Attribute list \<Rightarrow> bytes option \<Rightarrow> nat option \<Rightarrow> (bytes option \<times> nat option) option" where
  "concat_kdf_params_loop [] info len = Some (info, len)"
| "concat_kdf_params_loop (p # ps) info len =
     (if attributeID p = TEE_ATTR_CONCAT_KDF_OTHER_INFO
      then concat_kdf_params_loop ps (first info (content_ref p)) len
      else if attributeID p = TEE_ATTR_CONCAT_KDF_DKM_LENGTH
      then concat_kdf_params_loop ps info (first len (content_value_a p))
      else None)"

definition get_concat_kdf_params :: "TEE_Attribute list \<Rightarrow> TEE_Result + (bytes \<times> nat)" where
  "get_concat_kdf_params params =
     (case concat_kdf_params_loop params None None of
        Some (info, Some derived_key_len) \<Rightarrow> Inr (case_option [] id info, derived_key_len)
      | _ \<Rightarrow> Inl TEE_ERROR_BAD_PARAMETERS)"

fun pbkdf2_params_loop ::
    "TEE_Attribute list \<Rightarrow> bytes option \<Rightarrow> nat option \<Rightarrow> nat option \<Rightarrow> (bytes option \<times> nat option \<times> nat option) option" where
  "pbkdf2_params_loop [] salt len count = Some (salt, len, count)"
| "pbkdf2_params_loop (p # ps) salt len count =
     (if attributeID p = TEE_ATTR_PBKDF2_SALT then pbkdf2_params_loop ps (first salt (content_ref p)) len count
      else if attributeID p = TEE_ATTR_PBKDF2_DKM_LENGTH
      then pbkdf2_params_loop ps salt (first len (content_value_a p)) count
      else if attributeID p = TEE_ATTR_PBKDF2_ITERATION_COUNT
      then pbkdf2_params_loop ps salt len (first count (content_value_a p))
      else None)"

definition get_pbkdf2_params :: "TEE_Attribute list \<Rightarrow> TEE_Result + (bytes \<times> nat \<times> nat)" where
  "get_pbkdf2_params params =
     (case pbkdf2_params_loop params None None None of
        Some (salt, Some derived_key_len, Some iteration_count) \<Rightarrow>
          Inr (case_option [] id salt, derived_key_len, iteration_count)
      | _ \<Rightarrow> Inl TEE_ERROR_BAD_PARAMETERS)"

datatype kep_found =
  IS_INITIATOR | PEER_KEY_X | PEER_KEY_Y | PEER_EPH_KEY_X | PEER_EPH_KEY_Y | INITIATOR_ID | RESPONDER_ID

fun sm2_kep_params_loop ::
    "env \<Rightarrow> nat \<Rightarrow> TEE_Attribute list \<Rightarrow> nat \<times> nat \<Rightarrow> nat \<times> nat \<Rightarrow> sm2_kep_parms \<Rightarrow> kep_found set \<Rightarrow>
       ((nat \<times> nat) \<times> (nat \<times> nat) \<times> sm2_kep_parms \<times> kep_found set) option" where
  "sm2_kep_params_loop C now [] key eph parms found = Some (key, eph, parms, found)"
| "sm2_kep_params_loop C now (p # ps) key eph parms found =
     (if attributeID p = TEE_ATTR_SM2_KEP_USER
      then sm2_kep_params_loop C now ps key eph (parms\<lparr>kep_is_initiator := content_value_a p = 0\<rparr>)
             (insert IS_INITIATOR found)
      else if attributeID p = TEE_ATTR_ECC_PUBLIC_VALUE_X
      then sm2_kep_params_loop C now ps (bin2bn_into C now (content_ref p) (fst key), snd key) eph parms
             (insert PEER_KEY_X found)
      else if attributeID p = TEE_ATTR_ECC_PUBLIC_VALUE_Y
      then sm2_kep_params_loop C now ps (fst key, bin2bn_into C now (content_ref p) (snd key)) eph parms
             (insert PEER_KEY_Y found)
      else if attributeID p = TEE_ATTR_ECC_EPHEMERAL_PUBLIC_VALUE_X
      then sm2_kep_params_loop C now ps key (bin2bn_into C now (content_ref p) (fst eph), snd eph) parms
             (insert PEER_EPH_KEY_X found)
      else if attributeID p = TEE_ATTR_ECC_EPHEMERAL_PUBLIC_VALUE_Y
      then sm2_kep_params_loop C now ps key (fst eph, bin2bn_into C now (content_ref p) (snd eph)) parms
             (insert PEER_EPH_KEY_Y found)
      else if attributeID p = TEE_ATTR_SM2_ID_INITIATOR
      then sm2_kep_params_loop C now ps key eph (parms\<lparr>kep_initiator_id := content_ref p\<rparr>)
             (insert INITIATOR_ID found)
      else if attributeID p = TEE_ATTR_SM2_ID_RESPONDER
      then sm2_kep_params_loop C now ps key eph (parms\<lparr>kep_responder_id := content_ref p\<rparr>)
             (insert RESPONDER_ID found)
      else if attributeID p = TEE_ATTR_SM2_KEP_CONFIRMATION_IN
      then sm2_kep_params_loop C now ps key eph (parms\<lparr>kep_conf_in := content_ref p\<rparr>) found
      else if attributeID p = TEE_ATTR_SM2_KEP_CONFIRMATION_OUT
      then sm2_kep_params_loop C now ps key eph (parms\<lparr>kep_conf_out_len := length (content_ref p)\<rparr>) found
      else None)"

definition get_sm2_kep_params ::
    "env \<Rightarrow> TEE_Attribute list \<Rightarrow> nat \<Rightarrow> 'a tee_scheme \<Rightarrow>
       (TEE_Result + (nat \<times> nat) \<times> (nat \<times> nat) \<times> sm2_kep_parms) \<times> 'a tee_scheme" where
  "get_sm2_kep_params C params out_len t =
     (case crypto_asym_alloc_ecc_public_key C TEE_TYPE_SM2_KEP_PUBLIC_KEY t of
        (res, t) \<Rightarrow>
          if res \<noteq> TEE_SUCCESS then (Inl res, t)
          else case crypto_asym_alloc_ecc_public_key C TEE_TYPE_SM2_KEP_PUBLIC_KEY t of
                 (res, t) \<Rightarrow>
                   if res \<noteq> TEE_SUCCESS then (Inl res, t)
                   else (case sm2_kep_params_loop C (tick t) params (0, 0) (0, 0)
                                \<lparr>kep_out_len = out_len, kep_is_initiator = False, kep_initiator_id = [],
                                 kep_responder_id = [], kep_conf_in = [], kep_conf_out_len = 0\<rparr> {} of
                           None \<Rightarrow> Inl TEE_ERROR_BAD_PARAMETERS
                         | Some (key, eph, parms, found) \<Rightarrow>
                             if found \<noteq> {IS_INITIATOR, PEER_KEY_X, PEER_KEY_Y, PEER_EPH_KEY_X, PEER_EPH_KEY_Y,
                                         INITIATOR_ID, RESPONDER_ID}
                             then Inl TEE_ERROR_BAD_PARAMETERS else Inr (key, eph, parms), t))"

text \<open>The elliptic curve branch: the shared secret, at most as long as the derived object allows.\<close>

definition derive_ecdh ::
    "env \<Rightarrow> nat \<Rightarrow> TEE_Attribute list \<Rightarrow> tee_obj \<Rightarrow> nat \<Rightarrow> 'a tee_scheme \<Rightarrow> ((TEE_Result + bytes) \<times> 'a tee_scheme) option"
  where
  "derive_ecdh C algo params ko secret_len t =
     (case params of
        [RefAttr i x, RefAttr j y] \<Rightarrow>
          if i \<noteq> TEE_ATTR_ECC_PUBLIC_VALUE_X \<or> j \<noteq> TEE_ATTR_ECC_PUBLIC_VALUE_Y
          then Some (Inl TEE_ERROR_BAD_PARAMETERS, t)
          else if ecdh_alloc_size algo = None then Some (Inl TEE_ERROR_NOT_IMPLEMENTED, t)
          else case crypto_asym_alloc_ecc_public_key C TEE_TYPE_ECDH_PUBLIC_KEY t of
                 (res, t) \<Rightarrow>
                   if res \<noteq> TEE_SUCCESS then Some (Inl res, t)
                   else do {
                     attrs \<leftarrow> o_attr ko;
                     key \<leftarrow> keypair_of_attrs attrs;
                     Some (ltc_ecc_shared_secret C (tick t) key
                             \<lparr>pk_x = bin2bn_into C (tick t) x 0, pk_y = bin2bn_into C (tick t) y 0,
                              pk_curve = kp_curve key\<rparr> secret_len, t)
                   }
      | _ \<Rightarrow> Some (Inl TEE_ERROR_BAD_PARAMETERS, t))"

definition derive_dh ::
    "env \<Rightarrow> nat \<Rightarrow> TEE_Attribute list \<Rightarrow> tee_obj \<Rightarrow> 'a tee_scheme \<Rightarrow> ((TEE_Result + bytes) \<times> 'a tee_scheme) option" where
  "derive_dh C algo params ko t =
     (case params of
        [RefAttr i y] \<Rightarrow>
          if i \<noteq> TEE_ATTR_DH_PUBLIC_VALUE then Some (Inl TEE_ERROR_BAD_PARAMETERS, t)
          else (case alloc C t of (a, t) \<Rightarrow> case alloc C t of (b, t) \<Rightarrow>
             if a = 0 \<or> b = 0 then Some (Inl TEE_ERROR_OUT_OF_MEMORY, t)
             else do {
               attrs \<leftarrow> o_attr ko;
               (case p_acipher (e_prims C) (Dh_shared_secret (bin2bn_into C (tick t) y 0)) algo attrs [] 0 [] of
                  (res, out, n) \<Rightarrow> Some (if res = TEE_SUCCESS then Inr out else Inl res, t))
             })
      | _ \<Rightarrow> Some (Inl TEE_ERROR_BAD_PARAMETERS, t))"

text \<open>The branches of the key derivation functions: the requested length is compared with the size allocated
  for the \<^emph>\<open>input\<close> key.\<close>

definition derive_hkdf ::
    "env \<Rightarrow> nat \<Rightarrow> TEE_Attribute list \<Rightarrow> tee_obj \<Rightarrow> 'a tee_scheme \<Rightarrow> ((TEE_Result + bytes) \<times> 'a tee_scheme) option" where
  "derive_hkdf C algo params ko t =
     (case o_attr ko of
        Some (Secret ik_alloc_size ikm # _) \<Rightarrow>
          (case get_hkdf_params params of
             Inl e \<Rightarrow> Some (Inl e, t)
           | Inr (salt, info, okm_len) \<Rightarrow>
               if okm_len > ik_alloc_size then Some (Inl TEE_ERROR_BAD_PARAMETERS, t)
               else tee_cryp_hkdf C (tee_alg_get_digest_hash algo) ikm salt info okm_len t)
      | _ \<Rightarrow> None)"

definition derive_concat_kdf ::
    "env \<Rightarrow> nat \<Rightarrow> TEE_Attribute list \<Rightarrow> tee_obj \<Rightarrow> 'a tee_scheme \<Rightarrow> ((TEE_Result + bytes) \<times> 'a tee_scheme) option" where
  "derive_concat_kdf C algo params ko t =
     (case o_attr ko of
        Some (Secret ss_alloc_size shared_secret # _) \<Rightarrow>
          (case get_concat_kdf_params params of
             Inl e \<Rightarrow> Some (Inl e, t)
           | Inr (info, derived_key_len) \<Rightarrow>
               if derived_key_len > ss_alloc_size then Some (Inl TEE_ERROR_BAD_PARAMETERS, t)
               else tee_cryp_concat_kdf C (tee_alg_get_digest_hash algo) shared_secret info derived_key_len t)
      | _ \<Rightarrow> None)"

definition derive_pbkdf2 ::
    "env \<Rightarrow> nat \<Rightarrow> TEE_Attribute list \<Rightarrow> tee_obj \<Rightarrow> 'a tee_scheme \<Rightarrow> ((TEE_Result + bytes) \<times> 'a tee_scheme) option" where
  "derive_pbkdf2 C algo params ko t =
     (case o_attr ko of
        Some (Secret ss_alloc_size password # _) \<Rightarrow>
          (case get_pbkdf2_params params of
             Inl e \<Rightarrow> Some (Inl e, t)
           | Inr (salt, derived_key_len, iteration_count) \<Rightarrow>
               if derived_key_len > ss_alloc_size then Some (Inl TEE_ERROR_BAD_PARAMETERS, t)
               else tee_cryp_pbkdf2 C (tee_alg_get_digest_hash algo) password salt iteration_count derived_key_len t)
      | _ \<Rightarrow> None)"

text \<open>The SM2 key exchange: the length of the output is the maximum size of the derived object. The
  confirmation value written to the buffer of the caller is not modelled.\<close>

definition derive_sm2_kep ::
    "env \<Rightarrow> cryp_state \<Rightarrow> TEE_Attribute list \<Rightarrow> tee_obj \<Rightarrow> tee_obj \<Rightarrow> 'a tee_scheme \<Rightarrow>
       ((TEE_Result + bytes) \<times> 'a tee_scheme) option" where
  "derive_sm2_kep C cs params ko so t =
     (case tee_obj_get (cs_key2 cs) t of
        Inl e \<Rightarrow> Some (Inl e, t)
      | Inr ko2 \<Rightarrow>
          (case get_sm2_kep_params C params (o_maxKeySize so) t of
             (Inl e, t) \<Rightarrow> Some (Inl e, t)
           | (Inr (peer_key, peer_eph_key, parms), t) \<Rightarrow> do {
               attrs \<leftarrow> o_attr ko;
               attrs2 \<leftarrow> o_attr ko2;
               Some (p_sm2_kep (e_prims C) attrs attrs2 peer_key peer_eph_key parms, t)
             }))"

text \<open>The branches, in the order of the code.\<close>

definition derive_secret ::
    "env \<Rightarrow> cryp_state \<Rightarrow> TEE_Attribute list \<Rightarrow> tee_obj \<Rightarrow> tee_obj \<Rightarrow> nat \<Rightarrow> 'a tee_scheme \<Rightarrow>
       ((TEE_Result + bytes) \<times> 'a tee_scheme) option" where
  "derive_secret C cs params ko so sk_alloc_size t =
     (let algo = cs_algo cs; main = tee_alg_get_main_alg algo in
      if algo = TEE_ALG_DH_DERIVE_SHARED_SECRET then derive_dh C algo params ko t
      else if main = TEE_MAIN_ALGO_ECDH then derive_ecdh C algo params ko sk_alloc_size t
      else if CFG_CRYPTO_HKDF \<in> e_cfg C \<and> main = TEE_MAIN_ALGO_HKDF then derive_hkdf C algo params ko t
      else if CFG_CRYPTO_CONCAT_KDF \<in> e_cfg C \<and> main = TEE_MAIN_ALGO_CONCAT_KDF
      then derive_concat_kdf C algo params ko t
      else if CFG_CRYPTO_PBKDF2 \<in> e_cfg C \<and> main = TEE_MAIN_ALGO_PBKDF2 then derive_pbkdf2 C algo params ko t
      else if CFG_CRYPTO_SM2_KEP \<in> e_cfg C \<and> algo = TEE_ALG_SM2_KEP then derive_sm2_kep C cs params ko so t
      else Some (Inl TEE_ERROR_NOT_SUPPORTED, t))"

text \<open>A secret longer than the buffer of the derived object overruns it: the behaviour is not defined.\<close>

definition syscall_cryp_derive_key ::
    "env \<Rightarrow> nat \<Rightarrow> TEE_Attribute list \<Rightarrow> nat \<Rightarrow> 'a tee_scheme \<Rightarrow> (TEE_Result \<times> 'a tee_scheme) option" where
  "syscall_cryp_derive_key C state params derived_key t =
     (case tee_svc_cryp_get_state state t of
        Inl e \<Rightarrow> Some (e, t)
      | Inr cs \<Rightarrow>
          (case alloc C t of
             (a, t) \<Rightarrow>
               if a = 0 then Some (TEE_ERROR_OUT_OF_MEMORY, t)
               else case (tee_obj_get (cs_key1 cs) t, tee_obj_get derived_key t) of
                      (Inl e, _) \<Rightarrow> Some (e, t)
                    | (Inr ko, Inl e) \<Rightarrow> Some (e, t)
                    | (Inr ko, Inr so) \<Rightarrow>
                        (case tee_svc_find_type_props C (o_type so) of
                           None \<Rightarrow> Some (TEE_ERROR_NOT_SUPPORTED, t)
                         | Some props \<Rightarrow>
                             (case o_attr so of
                                Some [Secret sz key] \<Rightarrow> do {
                                  (r, t) \<leftarrow> derive_secret C cs params ko so sz t;
                                  (case r of
                                     Inl e \<Rightarrow> Some (e, t)
                                   | Inr out \<Rightarrow>
                                       if length out > sz then None
                                       else Some (TEE_SUCCESS,
                                         tee_obj_add derived_key
                                           (set_attribute
                                              (so\<lparr>o_attr := Some [Secret sz out],
                                                 o_flags := insert HF_INITIALIZED (o_flags so)\<rparr>)
                                              props TEE_ATTR_SECRET_VALUE) t))
                                }
                              | _ \<Rightarrow> None))))"

end
