(* ===== verification/Tee_Svc_Inv.thy ===== *)
theory Tee_Svc_Inv
  imports Tee_Svc_Cryp
begin

text \<open>
  The invariant of the kernel side of a TA. The services that change the objects and the cryptographic
  states are the steps of a machine; in every state it reaches, addresses are fresh, every object has
  exactly the attributes of its type and every secret fits its buffer, and the keys of a cryptographic
  state are live objects marked busy, which belong to that state alone.
\<close>

section \<open>State machines\<close>

text \<open>An invariant that the initial states have and every step keeps holds wherever the machine goes.\<close>

locale machine =
  fixes step :: "'s \<Rightarrow> 's \<Rightarrow> bool" and inv :: "'s \<Rightarrow> bool"
  assumes step_inv: "inv s \<Longrightarrow> step s s' \<Longrightarrow> inv s'"
begin

lemma reachable_inv: "step\<^sup>*\<^sup>* s s' \<Longrightarrow> inv s \<Longrightarrow> inv s'"
  by (induction rule: rtranclp_induct) (auto intro: step_inv)

end

section \<open>Objects\<close>

definition attr_matches :: "type_props \<Rightarrow> type_attr \<Rightarrow> attr_val \<Rightarrow> bool" where
  "attr_matches props ta v \<longleftrightarrow>
     (case (ta_ops ta, v) of
        (ATTR_OPS_INDEX_SECRET, Secret sz key) \<Rightarrow> sz = tp_alloc_size props - 8 \<and> length key \<le> sz
      | (ATTR_OPS_INDEX_BIGNUM, Bignum n) \<Rightarrow> True
      | (ATTR_OPS_INDEX_VALUE, Value v) \<Rightarrow> True
      | _ \<Rightarrow> False)"

abbreviation attrs_match :: "type_props \<Rightarrow> attr_val list \<Rightarrow> bool" where
  "attrs_match props vals \<equiv> list_all2 (attr_matches props) (tp_attrs props) vals"

definition obj_ok :: "env \<Rightarrow> tee_obj \<Rightarrow> bool" where
  "obj_ok C ob \<longleftrightarrow>
     (case o_attr ob of
        None \<Rightarrow> o_type ob = TEE_TYPE_DATA
      | Some vals \<Rightarrow> \<exists>props. tee_svc_find_type_props C (o_type ob) = Some props \<and> attrs_match props vals)"

text \<open>What the key generators and the random number generator promise: a generated key has the attributes of
  its type, and as many random bytes are returned as were asked for.\<close>

definition generators_ok :: "env \<Rightarrow> bool" where
  "generators_ok C \<longleftrightarrow>
     (\<forall>n l b. e_rng C n l = Inr b \<longrightarrow> length b = l) \<and>
     (\<forall>ty sz attrs seed vals props.
        p_gen_key (e_prims C) ty sz attrs seed = (TEE_SUCCESS, vals) \<longrightarrow>
        tee_svc_find_type_props C ty = Some props \<longrightarrow> attrs_match props attrs \<longrightarrow> attrs_match props vals)"

lemma attr_from_user_matches:
  "attr_matches props ta v \<Longrightarrow> attr_matches props ta (snd (attr_from_user C now b v))"
  by (cases v; cases "ta_ops ta") (auto simp: attr_from_user_def attr_matches_def split: sum.split)

lemma attr_clear_matches: "attr_matches props ta v \<Longrightarrow> attr_matches props ta (attr_clear v)"
  by (cases v; cases "ta_ops ta") (auto simp: attr_clear_def attr_matches_def)

lemma attr_from_obj_matches:
  "attr_from_obj v s = Some (res, v') \<Longrightarrow> attr_matches props ta v \<Longrightarrow> attr_matches props ta v'"
  by (cases v; cases s; cases "ta_ops ta") (auto simp: attr_from_obj_def attr_matches_def split: if_splits)

lemma attrs_clear_match: "attrs_match props vals \<Longrightarrow> attrs_match props (map attr_clear vals)"
  by (auto simp: list_all2_conv_all_nth intro: attr_clear_matches)

lemma attrs_update_match:
  assumes "attrs_match props vals" "idx < length vals" "attr_matches props (tp_attrs props ! idx) v"
  shows "attrs_match props (vals[idx := v])"
  using assms by (auto simp: list_all2_conv_all_nth nth_list_update)

lemma init_attrs_match: "attrs_match props (init_attrs props)"
  by (auto simp: init_attrs_def list_all2_conv_all_nth attr_matches_def split: attr_ops_index.split)

lemma attrs_from_obj_match:
  "attrs_from_obj (zip vals srcs) = Some (res, vals') \<Longrightarrow> length vals = length srcs \<Longrightarrow>
   list_all2 (attr_matches props) tas vals \<Longrightarrow> list_all2 (attr_matches props) tas vals'"
proof (induction vals arbitrary: srcs tas vals' res)
  case Nil
  then show ?case by simp
next
  case (Cons v vals)
  then obtain s srcs' where s: "srcs = s # srcs'" by (cases srcs) auto
  from Cons.prems(3) obtain ta tas' where ta: "tas = ta # tas'" "attr_matches props ta v"
    "list_all2 (attr_matches props) tas' vals" by (cases tas) auto
  from Cons.prems(1) s obtain r v' where v': "attr_from_obj v s = Some (r, v')"
    by (auto split: option.splits)
  note m = attr_from_obj_matches [OF v' ta(2)]
  show ?case
  proof (cases "r = TEE_SUCCESS")
    case False
    with Cons.prems s v' ta show ?thesis by auto
  next
    case True
    with Cons.prems(1) s v' obtain vals'' where
      "attrs_from_obj (zip vals srcs') = Some (res, vals'')" "vals' = v' # vals''" by auto
    with Cons.IH [of srcs' res vals'' tas'] Cons.prems(2) s ta m show ?thesis by simp
  qed
qed

lemma populate_step_match:
  assumes "populate_step C now props ob a (vals, hv, sz) = (res, vals', hv', sz')" "attrs_match props vals"
  shows "attrs_match props vals'"
proof (cases "tee_svc_cryp_obj_find_type_attr_idx (attributeID a) props")
  case None
  with assms show ?thesis by (simp add: populate_step_def)
next
  case (Some idx)
  then have idx: "idx < length (tp_attrs props)"
    using find_attr_idx_nth by (simp add: tee_svc_cryp_obj_find_type_attr_idx_def)
  obtain r v where v: "attr_from_user C now (attr_content a) (vals ! idx) = (r, v)" by fastforce
  have len: "length vals = length (tp_attrs props)" using assms(2) by (simp add: list_all2_lengthD)
  have "attr_matches props (tp_attrs props ! idx) v"
    using attr_from_user_matches [of props "tp_attrs props ! idx" "vals ! idx" C now "attr_content a"] v idx assms(2)
    by (simp add: list_all2_nthD)
  then have "attrs_match props (vals[idx := v])"
    using assms(2) idx len by (simp add: attrs_update_match)
  moreover have "vals' = vals[idx := v]"
    using assms(1) Some v by (auto simp: populate_step_def Let_def split: if_splits sum.splits)
  ultimately show ?thesis by simp
qed

lemma populate_loop_match:
  "populate_loop C now props ob as (vals, hv, sz) = (res, vals', hv', sz') \<Longrightarrow> attrs_match props vals \<Longrightarrow>
   attrs_match props vals'"
proof (induction as arbitrary: vals hv sz)
  case (Cons a as)
  obtain r v h s where st: "populate_step C now props ob a (vals, hv, sz) = (r, v, h, s)"
    by (metis prod_cases4)
  note m = populate_step_match [OF st Cons.prems(2)]
  show ?case
  proof (cases "r = TEE_SUCCESS")
    case True
    with Cons.prems(1) st have "populate_loop C now props ob as (v, h, s) = (res, vals', hv', sz')" by simp
    from Cons.IH [OF this m] show ?thesis .
  next
    case False
    with Cons.prems(1) st m show ?thesis by simp
  qed
qed simp

lemma populate_type_ok:
  assumes "tee_svc_cryp_obj_populate_type C now ob props as = Some (res, ob')" "obj_ok C ob"
    "tee_svc_find_type_props C (o_type ob) = Some props"
  shows "obj_ok C ob' \<and> o_type ob' = o_type ob \<and> o_busy ob' = o_busy ob \<and> o_flags ob' = o_flags ob \<and>
    (\<exists>vals. o_attr ob' = Some vals \<and> attrs_match props vals)"
proof -
  obtain vals where vals: "o_attr ob = Some vals"
    using assms(1) by (auto simp: tee_svc_cryp_obj_populate_type_def split: option.splits)
  obtain r v h s where l: "populate_loop C now props ob as (vals, {}, 0) = (r, v, h, s)"
    by (metis prod_cases4)
  have "attrs_match props vals" using assms(2,3) vals by (simp add: obj_ok_def)
  from populate_loop_match [OF l this] have m: "attrs_match props v" .
  have "o_attr ob' = Some v" "o_type ob' = o_type ob" "o_busy ob' = o_busy ob" "o_flags ob' = o_flags ob"
    using assms(1) vals l by (cases "r = TEE_SUCCESS"; simp add: tee_svc_cryp_obj_populate_type_def; force)+
  with m assms(3) show ?thesis by (simp add: obj_ok_def)
qed

section \<open>The invariant\<close>

definition objs_ok :: "env \<Rightarrow> 'a tee_scheme \<Rightarrow> bool" where
  "objs_ok C t \<longleftrightarrow> (\<forall>a ob. objs t a = Some ob \<longrightarrow> obj_ok C ob)"

definition cs_keys :: "cryp_state \<Rightarrow> nat set" where
  "cs_keys cs = {cs_key1 cs, cs_key2 cs} - {0}"

definition keys_ok :: "'a tee_scheme \<Rightarrow> bool" where
  "keys_ok t \<longleftrightarrow>
     (\<forall>s cs. states t s = Some cs \<longrightarrow> (\<forall>k \<in> cs_keys cs. \<exists>ob. objs t k = Some ob \<and> o_busy ob)) \<and>
     (\<forall>s s' cs cs'. states t s = Some cs \<longrightarrow> states t s' = Some cs' \<longrightarrow> s \<noteq> s' \<longrightarrow> cs_keys cs \<inter> cs_keys cs' = {})"

definition svc_inv :: "env \<Rightarrow> 'a tee_scheme \<Rightarrow> bool" where
  "svc_inv C t \<longleftrightarrow> wf_tee t \<and> objs_ok C t \<and> keys_ok t"

lemma keys_ok_busy:
  "keys_ok t \<Longrightarrow> states t s = Some cs \<Longrightarrow> k \<in> cs_keys cs \<Longrightarrow> \<exists>ob. objs t k = Some ob \<and> o_busy ob"
  by (simp add: keys_ok_def)

lemma keys_ok_disjoint:
  "keys_ok t \<Longrightarrow> states t s = Some cs \<Longrightarrow> states t s' = Some cs' \<Longrightarrow> s \<noteq> s' \<Longrightarrow> cs_keys cs \<inter> cs_keys cs' = {}"
  by (simp add: keys_ok_def)

lemma cs_keys_cong:
  "cs_key1 cs' = cs_key1 cs \<Longrightarrow> cs_key2 cs' = cs_key2 cs \<Longrightarrow> cs_keys cs' = cs_keys cs"
  by (simp add: cs_keys_def)

lemma svc_inv_tick: "svc_inv C t \<Longrightarrow> tick t \<le> n \<Longrightarrow> svc_inv C (t\<lparr>tick := n\<rparr>)"
  by (simp add: svc_inv_def wf_tee_tick objs_ok_def keys_ok_def)

lemma svc_inv_objD: "svc_inv C t \<Longrightarrow> objs t a = Some ob \<Longrightarrow> obj_ok C ob"
  by (simp add: svc_inv_def objs_ok_def)

lemma svc_inv_obj_bound:
  assumes "svc_inv C t" "objs t a = Some ob" shows "a \<noteq> 0" "a \<le> tick t"
  using assms wf_tee_bound [of t a] by (simp_all add: svc_inv_def domI)

lemma svc_inv_state_bound:
  assumes "svc_inv C t" "states t a = Some cs" shows "a \<noteq> 0" "a \<le> tick t"
  using assms wf_tee_bound [of t a] by (simp_all add: svc_inv_def domI)

text \<open>An update of the objects that keeps the busy ones.\<close>

lemma keys_ok_objs:
  assumes "keys_ok t" "states t' = states t"
    "\<And>k ob. objs t k = Some ob \<Longrightarrow> o_busy ob \<Longrightarrow> \<exists>ob'. objs t' k = Some ob' \<and> o_busy ob'"
  shows "keys_ok t'"
  unfolding keys_ok_def assms(2)
proof (intro conjI allI impI ballI)
  fix s cs k assume "states t s = Some cs" "k \<in> cs_keys cs"
  from keys_ok_busy [OF assms(1) this] obtain ob where "objs t k = Some ob" "o_busy ob" by blast
  then show "\<exists>ob. objs t' k = Some ob \<and> o_busy ob" by (rule assms(3))
qed (rule keys_ok_disjoint [OF assms(1)])

lemma svc_inv_obj_update:
  assumes "svc_inv C t" "objs t a = Some ob" "obj_ok C ob'" "o_busy ob \<Longrightarrow> o_busy ob'"
  shows "svc_inv C (tee_obj_add a ob' t)"
proof -
  have "keys_ok (tee_obj_add a ob' t)"
    using assms by - (rule keys_ok_objs [of t], auto simp: svc_inv_def tee_obj_add_def)
  moreover have "wf_tee (tee_obj_add a ob' t)"
    using assms(1) svc_inv_obj_bound [OF assms(1,2)] by (simp add: svc_inv_def wf_tee_update tee_obj_add_def)
  moreover have "objs_ok C (tee_obj_add a ob' t)"
    using assms(1,3) by (simp add: svc_inv_def objs_ok_def tee_obj_add_def)
  ultimately show ?thesis by (simp add: svc_inv_def)
qed

lemma svc_inv_obj_new:
  assumes "svc_inv C t" "a \<noteq> 0" "a \<le> tick t" "objs t a = None" "obj_ok C ob"
  shows "svc_inv C (tee_obj_add a ob t)"
proof -
  have "keys_ok (tee_obj_add a ob t)"
    using assms by - (rule keys_ok_objs [of t], auto simp: svc_inv_def tee_obj_add_def)
  moreover have "wf_tee (tee_obj_add a ob t)"
    using assms(1-3) by (simp add: svc_inv_def wf_tee_update tee_obj_add_def)
  moreover have "objs_ok C (tee_obj_add a ob t)"
    using assms(1,5) by (simp add: svc_inv_def objs_ok_def tee_obj_add_def)
  ultimately show ?thesis by (simp add: svc_inv_def)
qed

lemma svc_inv_obj_close:
  assumes "svc_inv C t" "objs t a = Some ob" "\<not> o_busy ob"
  shows "svc_inv C (tee_obj_close a t)"
proof -
  have "keys_ok (tee_obj_close a t)"
    using assms by - (rule keys_ok_objs [of t], auto simp: svc_inv_def tee_obj_close_def)
  then show ?thesis
    using assms(1) by (simp add: svc_inv_def wf_tee_remove objs_ok_def tee_obj_close_def)
qed

lemma svc_inv_state_update:
  assumes "svc_inv C t" "states t s = Some cs" "cs_key1 cs' = cs_key1 cs" "cs_key2 cs' = cs_key2 cs"
  shows "svc_inv C (set_state s cs' t)"
proof -
  have "wf_tee (set_state s cs' t)"
    using assms(1) svc_inv_state_bound [OF assms(1,2)] by (simp add: svc_inv_def wf_tee_update set_state_def)
  moreover have "objs_ok C (set_state s cs' t)"
    using assms by (simp add: svc_inv_def objs_ok_def set_state_def)
  moreover have "keys_ok (set_state s cs' t)"
    unfolding keys_ok_def
  proof (intro conjI allI impI ballI)
    have old: "\<exists>c. states t x = Some c \<and> cs_keys d = cs_keys c" if "states (set_state s cs' t) x = Some d" for x d
      using that assms(2) cs_keys_cong [OF assms(3,4)] by (cases "x = s") (auto simp: set_state_def)
    have keys: "keys_ok t" using assms(1) by (simp add: svc_inv_def)
    show "\<exists>ob. objs (set_state s cs' t) k = Some ob \<and> o_busy ob"
      if "states (set_state s cs' t) x = Some d" "k \<in> cs_keys d" for x d k
      using old [OF that(1)] that(2) keys_ok_busy [OF keys] by (auto simp: set_state_def)
    show "cs_keys d \<inter> cs_keys d' = {}"
      if "states (set_state s cs' t) x = Some d" "states (set_state s cs' t) x' = Some d'" "x \<noteq> x'" for x x' d d'
      using old [OF that(1)] old [OF that(2)] keys_ok_disjoint [OF keys _ _ that(3)] by fastforce
  qed
  ultimately show ?thesis by (simp add: svc_inv_def)
qed

section \<open>Cryptographic states\<close>

lemma obj_ok_fields [simp]:
  "obj_ok C (ob\<lparr>o_busy := b\<rparr>) = obj_ok C ob" "obj_ok C (ob\<lparr>o_usage := u\<rparr>) = obj_ok C ob"
  "obj_ok C (ob\<lparr>o_flags := f\<rparr>) = obj_ok C ob" "obj_ok C (ob\<lparr>o_keySize := n\<rparr>) = obj_ok C ob"
  "obj_ok C (ob\<lparr>o_have := h\<rparr>) = obj_ok C ob"
  by (simp_all add: obj_ok_def split: option.split)

lemma register_key_simps [simp]:
  "objs (register_key key t) k =
     (if k = key \<and> k \<noteq> 0 then map_option (\<lambda>ob. ob\<lparr>o_busy := True\<rparr>) (objs t k) else objs t k)"
  "states (register_key key t) = states t" "opers (register_key key t) = opers t"
  "tick (register_key key t) = tick t"
  by (auto simp: register_key_def tee_obj_get_def tee_obj_add_def split: option.split)

lemma dom_register_key [simp]: "dom (objs (register_key key t)) = dom (objs t)"
  by (auto simp: dom_def)

lemma svc_inv_state_new:
  assumes inv: "svc_inv C t" and a: "a \<noteq> 0" "a \<le> tick t" "states t a = None"
    and key1: "cs_key1 cs \<noteq> 0 \<Longrightarrow> \<exists>ob. objs t (cs_key1 cs) = Some ob \<and> \<not> o_busy ob"
    and key2: "cs_key2 cs \<noteq> 0 \<Longrightarrow> \<exists>ob. objs t (cs_key2 cs) = Some ob \<and> \<not> o_busy ob"
  shows "svc_inv C (register_key (cs_key2 cs) (register_key (cs_key1 cs) (set_state a cs t)))"
    (is "svc_inv C ?t'")
proof -
  have st: "states ?t' = (states t)(a \<mapsto> cs)" by (simp add: set_state_def)
  have ob: "objs ?t' k = (if k \<in> cs_keys cs then map_option (\<lambda>ob. ob\<lparr>o_busy := True\<rparr>) (objs t k) else objs t k)"
    for k by (cases "objs t k") (auto simp: set_state_def cs_keys_def)
  have free: "\<exists>ob. objs t k = Some ob \<and> \<not> o_busy ob" if "k \<in> cs_keys cs" for k
    using that key1 key2 by (cases "k = cs_key1 cs") (simp_all add: cs_keys_def)
  have wf: "wf_tee t" and objs: "objs_ok C t" and keys: "keys_ok t" using inv by (simp_all add: svc_inv_def)
  have "wf_tee (set_state a cs t)" using wf_tee_update(2) [OF wf a(1,2)] by (simp add: set_state_def)
  then have "wf_tee ?t'" unfolding wf_tee_def by (simp only: dom_register_key register_key_simps)
  moreover have "objs_ok C ?t'"
    unfolding objs_ok_def
  proof (intro allI impI)
    fix k x assume "objs ?t' k = Some x"
    then obtain y where "objs t k = Some y" "obj_ok C x = obj_ok C y"
      unfolding ob by (cases "k \<in> cs_keys cs") auto
    then show "obj_ok C x" using objs by (simp add: objs_ok_def)
  qed
  moreover have "keys_ok ?t'"
    unfolding keys_ok_def st
  proof (intro conjI allI impI ballI)
    have fresh: "cs_keys cs \<inter> cs_keys d = {}" if d: "states t x = Some d" for x d
    proof (rule ccontr)
      assume "cs_keys cs \<inter> cs_keys d \<noteq> {}"
      then obtain k where k: "k \<in> cs_keys cs" "k \<in> cs_keys d" by blast
      from keys_ok_busy [OF keys d k(2)] free [OF k(1)] show False by auto
    qed
    show "\<exists>x. objs ?t' k = Some x \<and> o_busy x"
      if c: "((states t)(a \<mapsto> cs)) s = Some c" and k: "k \<in> cs_keys c" for s c k
    proof (cases "s = a")
      case True
      with c k free [of k] show ?thesis unfolding ob by auto
    next
      case False
      with c have "states t s = Some c" by simp
      from keys_ok_busy [OF keys this k] show ?thesis unfolding ob by auto
    qed
    show "cs_keys c \<inter> cs_keys c' = {}"
      if c: "((states t)(a \<mapsto> cs)) s = Some c" "((states t)(a \<mapsto> cs)) s' = Some c'" "s \<noteq> s'" for s s' c c'
    proof -
      consider "c = cs" "states t s' = Some c'" | "c' = cs" "states t s = Some c"
        | "states t s = Some c" "states t s' = Some c'"
        using c by (cases "s = a"; cases "s' = a") simp_all
      then show ?thesis
      proof cases
        case 1
        then show ?thesis using fresh by simp
      next
        case 2
        then show ?thesis using fresh [of s c] by (simp add: Int_commute)
      next
        case 3
        then show ?thesis by (rule keys_ok_disjoint [OF keys _ _ c(3)])
      qed
    qed
  qed
  ultimately show ?thesis by (simp add: svc_inv_def)
qed

lemma cryp_state_free_objs:
  assumes "wf_tee t"
  shows "objs (cryp_state_free a cs t) k = (if k \<in> cs_keys cs then None else objs t k)"
  using assms
  by (auto simp: cryp_state_free_def tee_obj_get_def tee_obj_close_def Let_def cs_keys_def split: option.split)

lemma cryp_state_free_simps [simp]:
  "states (cryp_state_free a cs t) = (states t)(a := None)" "tick (cryp_state_free a cs t) = tick t"
  "opers (cryp_state_free a cs t) = opers t"
  by (auto simp: cryp_state_free_def tee_obj_get_def tee_obj_close_def Let_def split: option.split)

lemma svc_inv_state_free:
  assumes inv: "svc_inv C t" and cs: "states t a = Some cs"
  shows "svc_inv C (cryp_state_free a cs t)" (is "svc_inv C ?t'")
proof -
  have wf: "wf_tee t" and objs: "objs_ok C t" and keys: "keys_ok t" using inv by (simp_all add: svc_inv_def)
  note ob = cryp_state_free_objs [OF wf, of a cs]
  have "dom (objs ?t') \<subseteq> dom (objs t)" by (auto simp: ob split: if_splits)
  then have "wf_tee ?t'" using wf unfolding wf_tee_def by auto
  moreover have "objs_ok C ?t'" using objs by (auto simp: objs_ok_def ob split: if_splits)
  moreover have "keys_ok ?t'"
    unfolding keys_ok_def
  proof (intro conjI allI impI ballI)
    fix s c k assume "states ?t' s = Some c" and k: "k \<in> cs_keys c"
    then have s: "states t s = Some c" "s \<noteq> a" by (simp_all split: if_splits)
    from keys_ok_disjoint [OF keys s(1) cs s(2)] k have "k \<notin> cs_keys cs" by blast
    with keys_ok_busy [OF keys s(1) k] show "\<exists>x. objs ?t' k = Some x \<and> o_busy x" by (simp add: ob)
  next
    fix s s' c c' assume s: "states ?t' s = Some c" "states ?t' s' = Some c'" "s \<noteq> s'"
    from s(1,2) have "states t s = Some c" "states t s' = Some c'" by (simp_all split: if_splits)
    with s(3) show "cs_keys c \<inter> cs_keys c' = {}" by (intro keys_ok_disjoint [OF keys])
  qed
  ultimately show ?thesis by (simp add: svc_inv_def)
qed

section \<open>Steps that only allocate\<close>

text \<open>The functions below the services allocate and draw randomness, and change nothing else.\<close>

definition tick_ext :: "'a tee_scheme \<Rightarrow> 'a tee_scheme \<Rightarrow> bool" where
  "tick_ext t t' \<longleftrightarrow> (\<exists>n \<ge> tick t. t' = t\<lparr>tick := n\<rparr>)"

named_theorems tick_dests \<open>functions that only move the counter\<close>

lemma tick_ext_refl [simp]: "tick_ext t t"
  unfolding tick_ext_def by (rule exI [of _ "tick t"]) simp

lemma tick_ext_Suc [simp]: "tick_ext t (t\<lparr>tick := Suc (tick t)\<rparr>)"
  unfolding tick_ext_def by (rule exI [of _ "Suc (tick t)"]) simp

lemma tick_ext_trans: "tick_ext t t' \<Longrightarrow> tick_ext t' t'' \<Longrightarrow> tick_ext t t''"
  unfolding tick_ext_def by (elim exE conjE, rule_tac x = na in exI) simp

lemma tick_ext_simps:
  assumes "tick_ext t t'"
  shows "objs t' = objs t" "states t' = states t" "opers t' = opers t" "tick t \<le> tick t'"
  using assms by (auto simp: tick_ext_def)

lemma svc_inv_tick_ext: "svc_inv C t \<Longrightarrow> tick_ext t t' \<Longrightarrow> svc_inv C t'"
  by (auto simp: tick_ext_def intro: svc_inv_tick)

lemma alloc_tick [tick_dests]: "alloc C t = (a, t') \<Longrightarrow> tick_ext t t'"
  by (auto simp: alloc_def)

lemma allocs_tick [tick_dests]: "allocs C n t = (ok, t') \<Longrightarrow> tick_ext t t'"
  by (induction n arbitrary: t) (auto split: prod.splits if_splits dest: alloc_tick tick_ext_trans)

lemma ctx_alloc_tick [tick_dests]:
  "crypto_hash_alloc_ctx C algo t = (r, t') \<Longrightarrow> tick_ext t t'"
  "crypto_mac_alloc_ctx C algo t = (r, t') \<Longrightarrow> tick_ext t t'"
  "crypto_authenc_alloc_ctx C algo t = (r, t') \<Longrightarrow> tick_ext t t'"
  "crypto_cipher_alloc_ctx C algo t = (r, t') \<Longrightarrow> tick_ext t t'"
  by (auto simp: crypto_hash_alloc_ctx_def crypto_mac_alloc_ctx_def crypto_authenc_alloc_ctx_def
      crypto_cipher_alloc_ctx_def split: if_splits prod.splits dest: alloc_tick)

lemma state_alloc_ctx_tick [tick_dests]: "state_alloc_ctx C algo key1 key2 t = (r, t') \<Longrightarrow> tick_ext t t'"
  unfolding state_alloc_ctx_def Let_def by (auto split: if_splits dest: ctx_alloc_tick)

lemma ecc_alloc_tick [tick_dests]:
  "crypto_asym_alloc_ecc_public_key C ty t = (res, t') \<Longrightarrow> tick_ext t t'"
  "crypto_asym_alloc_ecc_keypair C ty t = (res, t') \<Longrightarrow> tick_ext t t'"
  by (auto simp: crypto_asym_alloc_ecc_public_key_def crypto_asym_alloc_ecc_keypair_def
      split: if_splits prod.splits dest: allocs_tick)

lemma alloc_key_attrs_tick [tick_dests]: "alloc_key_attrs C ty props t = (res, t') \<Longrightarrow> tick_ext t t'"
  unfolding alloc_key_attrs_def by (auto split: if_splits prod.splits dest: allocs_tick ecc_alloc_tick)

lemma tee_obj_set_type_tick [tick_dests]: "tee_obj_set_type C ob ty sz t = (res, ob', t') \<Longrightarrow> tick_ext t t'"
  unfolding tee_obj_set_type_def Let_def
  by (auto split: if_splits prod.splits option.splits dest: alloc_tick alloc_key_attrs_tick intro: tick_ext_trans)

lemma ltc_ecc_tick [tick_dests]:
  "ltc_ecc_generate_keypair C sz key t = (res, key', t') \<Longrightarrow> tick_ext t t'"
  "ltc_ecc_sign C algo key msg n t = (res, out, m, t') \<Longrightarrow> tick_ext t t'"
  by (auto simp: ltc_ecc_generate_keypair_def ltc_ecc_sign_def split: if_splits prod.splits sum.splits option.splits)

lemma gen_key_attrs_tick [tick_dests]: "gen_key_attrs C sz attrs ob t = (res, ob', t') \<Longrightarrow> tick_ext t t'"
  by (auto simp: gen_key_attrs_def split: prod.splits)

lemma kdf_tick [tick_dests]:
  "hkdf_extract C h ikm salt t = Some (r, t') \<Longrightarrow> tick_ext t t'"
  "hkdf_expand C h prk info n t = Some (r, t') \<Longrightarrow> tick_ext t t'"
  "tee_cryp_concat_kdf C h Z info n t = Some (r, t') \<Longrightarrow> tick_ext t t'"
  "tee_cryp_pbkdf2 C h pw salt c n t = Some (r, t') \<Longrightarrow> tick_ext t t'"
  by (auto simp: hkdf_extract_def hkdf_expand_def tee_cryp_concat_kdf_def tee_cryp_pbkdf2_def Let_def bind_eq_Some_conv
      split: if_splits prod.splits sum.splits dest: ctx_alloc_tick)

lemma tee_cryp_hkdf_tick [tick_dests]:
  assumes "tee_cryp_hkdf C h ikm salt info n t = Some (r, t')" shows "tick_ext t t'"
proof -
  obtain r1 t1 where "hkdf_extract C h ikm salt t = Some (r1, t1)"
    and r: "(case r1 of Inl e \<Rightarrow> Some (Inl e, t1) | Inr prk \<Rightarrow> hkdf_expand C h prk info n t1) = Some (r, t')"
    using assms by (auto simp: tee_cryp_hkdf_def bind_eq_Some_conv)
  then have "tick_ext t t1" by (auto dest: kdf_tick)
  with r show ?thesis by (cases r1) (auto dest: kdf_tick intro: tick_ext_trans)
qed

lemma get_sm2_kep_params_tick [tick_dests]: "get_sm2_kep_params C params n t = (r, t') \<Longrightarrow> tick_ext t t'"
  unfolding get_sm2_kep_params_def by (auto split: prod.splits if_splits dest: ecc_alloc_tick intro: tick_ext_trans)

lemma derive_kdf_tick [tick_dests]:
  "derive_hkdf C algo params ko t = Some (r, t') \<Longrightarrow> tick_ext t t'"
  "derive_concat_kdf C algo params ko t = Some (r, t') \<Longrightarrow> tick_ext t t'"
  "derive_pbkdf2 C algo params ko t = Some (r, t') \<Longrightarrow> tick_ext t t'"
  by (auto simp: derive_hkdf_def derive_concat_kdf_def derive_pbkdf2_def
      split: option.splits list.splits attr_val.splits sum.splits prod.splits if_splits
      dest: tee_cryp_hkdf_tick kdf_tick)

lemma derive_ecdh_tick [tick_dests]: "derive_ecdh C algo params ko n t = Some (r, t') \<Longrightarrow> tick_ext t t'"
  by (auto simp: derive_ecdh_def bind_eq_Some_conv
      split: list.splits TEE_Attribute.splits if_splits prod.splits dest: ecc_alloc_tick)

lemma derive_dh_tick [tick_dests]:
  assumes "derive_dh C algo params ko t = Some (r, t')" shows "tick_ext t t'"
proof -
  have "tick_ext t (snd (alloc C t))" for t :: "'a tee_scheme" by (rule alloc_tick [OF prod.collapse [symmetric]])
  then show ?thesis
    using assms
    by (auto simp: derive_dh_def bind_eq_Some_conv case_prod_beta split: list.splits TEE_Attribute.splits if_splits
        intro: tick_ext_trans)
qed

lemma derive_sm2_kep_tick [tick_dests]: "derive_sm2_kep C cs params ko so t = Some (r, t') \<Longrightarrow> tick_ext t t'"
  by (auto simp: derive_sm2_kep_def bind_eq_Some_conv
      split: sum.splits prod.splits dest!: get_sm2_kep_params_tick)

lemma derive_secret_tick [tick_dests]: "derive_secret C cs params ko so n t = Some (r, t') \<Longrightarrow> tick_ext t t'"
  unfolding derive_secret_def Let_def
  by (auto split: if_splits dest: derive_kdf_tick derive_ecdh_tick derive_dh_tick derive_sm2_kep_tick)

section \<open>The object services\<close>

lemma tee_obj_get_iff: "tee_obj_get a t = Inr ob \<longleftrightarrow> objs t a = Some ob"
  by (auto simp: tee_obj_get_def split: option.splits)

lemma get_state_iff: "tee_svc_cryp_get_state a t = Inr cs \<longleftrightarrow> states t a = Some cs"
  by (auto simp: tee_svc_cryp_get_state_def split: option.splits)

lemma restrict_usage_inv:
  "svc_inv C t \<Longrightarrow> syscall_cryp_obj_restrict_usage obj u t = (res, t') \<Longrightarrow> svc_inv C t'"
  by (auto simp: syscall_cryp_obj_restrict_usage_def tee_obj_get_iff split: sum.splits
      intro!: svc_inv_obj_update dest: svc_inv_objD)

lemma obj_close_inv: "svc_inv C t \<Longrightarrow> syscall_cryp_obj_close obj t = (res, t') \<Longrightarrow> svc_inv C t'"
  by (auto simp: syscall_cryp_obj_close_def tee_obj_get_iff split: sum.splits if_splits intro: svc_inv_obj_close)

lemma attr_clear_ok: "obj_ok C ob \<Longrightarrow> obj_ok C (tee_obj_attr_clear C ob)"
  by (auto simp: obj_ok_def tee_obj_attr_clear_def attrs_clear_match split: option.splits)

lemma attr_clear_busy [simp]: "o_busy (tee_obj_attr_clear C ob) = o_busy ob"
  by (simp add: tee_obj_attr_clear_def split: option.split)

lemma obj_reset_inv: "svc_inv C t \<Longrightarrow> syscall_cryp_obj_reset C obj t = (res, t') \<Longrightarrow> svc_inv C t'"
  by (auto simp: syscall_cryp_obj_reset_def tee_obj_get_iff split: sum.splits if_splits
      intro!: svc_inv_obj_update attr_clear_ok dest: svc_inv_objD)

lemma set_type_ok:
  assumes "tee_obj_set_type C tee_obj_zero ty sz t = (TEE_SUCCESS, ob, t')"
  shows "obj_ok C ob"
  using assms init_attrs_match
  by (auto simp: tee_obj_set_type_def Let_def tee_obj_zero_def obj_ok_def split: if_splits option.splits prod.splits)

lemma obj_alloc_inv:
  assumes inv: "svc_inv C t" and call: "syscall_cryp_obj_alloc C ty sz t = (r, t')"
  shows "svc_inv C t'"
proof -
  obtain a t1 where a: "alloc C t = (a, t1)" by fastforce
  obtain res ob t2 where st: "tee_obj_set_type C tee_obj_zero ty sz t1 = (res, ob, t2)" by (metis prod_cases3)
  have ext: "tick_ext t t1" "tick_ext t1 t2" using a st by (auto dest: tick_dests)
  have inv1: "svc_inv C t1" and inv2: "svc_inv C t2" using inv ext svc_inv_tick_ext by blast+
  show ?thesis
  proof (cases "a = 0 \<or> res \<noteq> TEE_SUCCESS")
    case True
    with call a st inv1 inv2 show ?thesis by (auto simp: syscall_cryp_obj_alloc_def split: if_splits)
  next
    case False
    then have ad: "a = tick t + 1" "tick t1 = tick t + 1" using a by (auto simp: alloc_def split: if_splits)
    have "objs t2 a = None"
      using inv ad ext wf_tee_fresh(1) [of t a] by (simp add: svc_inv_def tick_ext_simps)
    moreover have "a \<le> tick t2" using ad tick_ext_simps(4) [OF ext(2)] by simp
    moreover have "obj_ok C ob" using set_type_ok st False by simp
    ultimately have "svc_inv C (tee_obj_add a ob t2)" using inv2 False by (intro svc_inv_obj_new) simp_all
    with False call a st show ?thesis by (simp add: syscall_cryp_obj_alloc_def)
  qed
qed

lemma obj_populate_inv:
  assumes inv: "svc_inv C t" and call: "syscall_cryp_obj_populate C obj as t = Some (res, t')"
  shows "svc_inv C t'"
proof (cases "tee_obj_get obj t")
  case (Inl e)
  with call inv show ?thesis by (simp add: syscall_cryp_obj_populate_def)
next
  case (Inr ob)
  then have ob: "objs t obj = Some ob" by (simp add: tee_obj_get_iff)
  obtain a t1 where a: "alloc C t = (a, t1)" by fastforce
  have ext: "tick_ext t t1" using a by (auto dest: tick_dests)
  have inv1: "svc_inv C t1" using inv ext by (rule svc_inv_tick_ext)
  have ob1: "objs t1 obj = Some ob" using ob ext by (simp add: tick_ext_simps)
  show ?thesis
  proof (cases "HF_PERSISTENT \<in> o_flags ob \<or> HF_INITIALIZED \<in> o_flags ob \<or>
      tee_svc_find_type_props C (o_type ob) = None")
    case True
    with call Inr inv show ?thesis by (auto simp: syscall_cryp_obj_populate_def split: if_splits)
  next
    case False
    then obtain props where props: "tee_svc_find_type_props C (o_type ob) = Some props" by blast
    show ?thesis
    proof (cases "a = 0 \<or> tee_svc_cryp_check_attr ATTR_USAGE_POPULATE props as \<noteq> TEE_SUCCESS")
      case True
      with call Inr False props a inv1 show ?thesis
        by (auto simp: syscall_cryp_obj_populate_def Let_def split: if_splits)
    next
      case ok: False
      with call Inr False props a obtain ob' where
        p: "tee_svc_cryp_obj_populate_type C (tick t1) ob props as = Some (res, ob')" and
        t': "t' = tee_obj_add obj
               (if res = TEE_SUCCESS then ob'\<lparr>o_flags := insert HF_INITIALIZED (o_flags ob')\<rparr> else ob') t1"
        by (auto simp: syscall_cryp_obj_populate_def Let_def bind_eq_Some_conv)
      from populate_type_ok [OF p svc_inv_objD [OF inv ob] props] have "obj_ok C ob'" "o_busy ob' = o_busy ob" by simp_all
      with t' show ?thesis using inv1 ob1 by (auto intro!: svc_inv_obj_update)
    qed
  qed
qed

lemma source_attrs_length: "source_attrs tas tp src = Some srcs \<Longrightarrow> length srcs = length tas"
  by (induction tas arbitrary: srcs) (auto split: option.splits)

lemma copy_from_ok:
  assumes call: "tee_obj_attr_copy_from C ob src = Some (res, ob')" and ok: "obj_ok C ob" "obj_ok C src"
  shows "obj_ok C ob' \<and> o_busy ob' = o_busy ob"
proof (cases "o_type ob = TEE_TYPE_DATA \<or> o_attr ob = None")
  case True
  with call ok show ?thesis by (auto simp: tee_obj_attr_copy_from_def split: if_splits)
next
  case False
  then obtain attrs where attrs: "o_attr ob = Some attrs" by blast
  with ok(1) obtain tp where tp: "tee_svc_find_type_props C (o_type ob) = Some tp" "attrs_match tp attrs"
    by (auto simp: obj_ok_def)
  show ?thesis
  proof (cases "o_type ob = o_type src")
    case True
    with call False attrs tp(1) obtain src_attrs attrs' where s: "o_attr src = Some src_attrs"
      and c: "attrs_from_obj (zip attrs src_attrs) = Some (res, attrs')"
      and ob': "ob' = (if res = TEE_SUCCESS then ob\<lparr>o_attr := Some attrs', o_have := o_have src\<rparr>
                       else ob\<lparr>o_attr := Some attrs'\<rparr>)"
      by (auto simp: tee_obj_attr_copy_from_def bind_eq_Some_conv)
    have "attrs_match tp src_attrs" using ok(2) s tp(1) True by (simp add: obj_ok_def)
    then have "length attrs = length src_attrs" using tp(2) by (metis list_all2_lengthD)
    from attrs_from_obj_match [OF c this tp(2)] show ?thesis using ob' tp(1) by (simp add: obj_ok_def)
  next
    case neq: False
    show ?thesis
    proof (cases "public_of_keypair_type (o_type ob) = Some (o_type src) \<and> tee_svc_find_type_props C (o_type src) \<noteq> None")
      case True
      then obtain tp_src where src: "tee_svc_find_type_props C (o_type src) = Some tp_src" by blast
      show ?thesis
      proof (cases "o_attr src")
        case None
        with call False attrs tp(1) neq True src show ?thesis by (simp add: tee_obj_attr_copy_from_def)
      next
        case (Some src_attrs)
        show ?thesis
        proof (cases "source_attrs (tp_attrs tp) tp_src src_attrs")
          case None
          with call False attrs tp neq True src Some ok(1) show ?thesis by (auto simp: tee_obj_attr_copy_from_def)
        next
          case (Some srcs)
          with call False attrs tp(1) neq True src \<open>o_attr src = Some src_attrs\<close> obtain attrs' where
            c: "attrs_from_obj (zip attrs srcs) = Some (res, attrs')" and
            ob': "ob' = (if res = TEE_SUCCESS then ob\<lparr>o_attr := Some attrs', o_have := {0..<length (tp_attrs tp)}\<rparr>
                         else ob\<lparr>o_attr := Some attrs'\<rparr>)"
            by (auto simp: tee_obj_attr_copy_from_def bind_eq_Some_conv)
          have "length attrs = length srcs"
            using source_attrs_length [OF Some] list_all2_lengthD [OF tp(2)] by simp
          from attrs_from_obj_match [OF c this tp(2)] show ?thesis using ob' tp(1) by (simp add: obj_ok_def)
        qed
      qed
    next
      case nopub: False
      with call False attrs tp neq ok(1) show ?thesis by (auto simp: tee_obj_attr_copy_from_def split: if_splits)
    qed
  qed
qed

lemma obj_copy_inv:
  assumes inv: "svc_inv C t" and call: "syscall_cryp_obj_copy C dst src t = Some (res, t')"
  shows "svc_inv C t'"
proof (cases "tee_obj_get dst t")
  case (Inl e)
  with call inv show ?thesis by (simp add: syscall_cryp_obj_copy_def)
next
  case (Inr dst_o)
  note dst = Inr
  show ?thesis
  proof (cases "tee_obj_get src t")
    case (Inl e)
    with dst call inv show ?thesis by (simp add: syscall_cryp_obj_copy_def)
  next
    case (Inr src_o)
    show ?thesis
    proof (cases "HF_INITIALIZED \<notin> o_flags src_o \<or> HF_PERSISTENT \<in> o_flags dst_o \<or> HF_INITIALIZED \<in> o_flags dst_o")
      case True
      with dst Inr call inv show ?thesis by (auto simp: syscall_cryp_obj_copy_def split: if_splits)
    next
      case False
      with dst Inr call obtain ob where c: "tee_obj_attr_copy_from C dst_o src_o = Some (res, ob)" and
        t': "t' = tee_obj_add dst
          (if res = TEE_SUCCESS
           then ob\<lparr>o_flags := insert HF_INITIALIZED (o_flags ob), o_keySize := o_keySize src_o,
                   o_usage := o_usage src_o\<rparr>
           else ob) t"
        by (auto simp: syscall_cryp_obj_copy_def bind_eq_Some_conv)
      have o: "objs t dst = Some dst_o" "objs t src = Some src_o" using dst Inr by (simp_all add: tee_obj_get_iff)
      from copy_from_ok [OF c svc_inv_objD [OF inv o(1)] svc_inv_objD [OF inv o(2)]]
      have "obj_ok C ob" "o_busy ob = o_busy dst_o" by simp_all
      with t' show ?thesis using inv o(1) by (auto intro!: svc_inv_obj_update)
    qed
  qed
qed

section \<open>Key generation\<close>

text \<open>What a key generation leaves alone: the type of the object and whether it is in use; and that its
  attributes still fit.\<close>

definition obj_step_ok :: "env \<Rightarrow> tee_obj \<Rightarrow> tee_obj \<Rightarrow> bool" where
  "obj_step_ok C ob ob' \<longleftrightarrow> obj_ok C ob' \<and> o_busy ob' = o_busy ob \<and> o_type ob' = o_type ob"

lemma set_attribute_fields [simp]:
  "obj_ok C (set_attribute ob props a) = obj_ok C ob" "o_busy (set_attribute ob props a) = o_busy ob"
  "o_type (set_attribute ob props a) = o_type ob" "o_attr (set_attribute ob props a) = o_attr ob"
  "o_flags (set_attribute ob props a) = o_flags ob"
  by (simp_all add: set_attribute_def split: option.split)

lemma have_all_fields [simp]:
  "obj_ok C (have_all props ob) = obj_ok C ob" "o_busy (have_all props ob) = o_busy ob"
  "o_type (have_all props ob) = o_type ob"
  by (simp_all add: have_all_def)

lemma gen_key_attrs_ok:
  assumes "gen_key_attrs C sz attrs ob t = (res, ob', t')" "generators_ok C" "obj_ok C ob"
    "tee_svc_find_type_props C (o_type ob) = Some props" "attrs_match props attrs"
  shows "obj_step_ok C ob ob'"
proof -
  obtain r vals where g: "p_gen_key (e_prims C) (o_type ob) sz attrs (e_entropy C (tick t)) = (r, vals)" by fastforce
  show ?thesis
  proof (cases "r = TEE_SUCCESS")
    case True
    have "attrs_match props vals" using assms(2,4,5) g True unfolding generators_ok_def by blast
    with assms(1,4) g True show ?thesis by (auto simp: gen_key_attrs_def obj_step_ok_def obj_ok_def)
  next
    case False
    with assms(1,3) g show ?thesis by (auto simp: gen_key_attrs_def obj_step_ok_def)
  qed
qed

lemma type_attrs_simps:
  "tee_svc_find_type_props C TEE_TYPE_RSA_KEYPAIR = Some props \<Longrightarrow> tp_attrs props = tee_cryp_obj_rsa_keypair_attrs"
  "tee_svc_find_type_props C TEE_TYPE_DH_KEYPAIR = Some props \<Longrightarrow> tp_attrs props = tee_cryp_obj_dh_keypair_attrs"
  by (auto simp: tee_svc_find_type_props_def tee_cryp_obj_props_def OBJ_PROP_def split: if_splits)

lemma populate_then:
  assumes "tee_svc_cryp_obj_populate_type C now ob props params = Some (res, ob')" "obj_ok C ob"
    "tee_svc_find_type_props C (o_type ob) = Some props"
  obtains vals where "o_attr ob' = Some vals" "attrs_match props vals" "obj_step_ok C ob ob'"
    "tee_svc_find_type_props C (o_type ob') = Some props"
  using populate_type_ok [OF assms] assms(3) by (auto simp: obj_step_ok_def)

lemma rsa_attr_match: "attrs_match props vals \<Longrightarrow> tp_attrs props = tee_cryp_obj_rsa_keypair_attrs \<Longrightarrow>
    attrs_match props (vals[1 := Bignum n])"
  by (rule attrs_update_match)
    (auto simp: attr_matches_def tee_cryp_obj_rsa_keypair_attrs_def TA_def dest: list_all2_lengthD)

lemma dh_attr_match:
  assumes "attrs_match props vals" "tp_attrs props = tee_cryp_obj_dh_keypair_attrs"
  shows "attrs_match props (vals[4 := Bignum n])" "attrs_match props (vals[5 := Value m])"
proof -
  have len: "length vals = 6" using list_all2_lengthD [OF assms(1)] assms(2) by (simp add: tee_cryp_obj_dh_keypair_attrs_def)
  show "attrs_match props (vals[4 := Bignum n])"
    by (rule attrs_update_match [OF assms(1)]) (simp_all add: len assms(2) attr_matches_def tee_cryp_obj_dh_keypair_attrs_def TA_def)
  show "attrs_match props (vals[5 := Value m])"
    by (rule attrs_update_match [OF assms(1)]) (simp_all add: len assms(2) attr_matches_def tee_cryp_obj_dh_keypair_attrs_def TA_def)
qed

lemma attr_matches_simps [simp]:
  "attr_matches props ta (Bignum n) \<longleftrightarrow> ta_ops ta = ATTR_OPS_INDEX_BIGNUM"
  "attr_matches props ta (Value v) \<longleftrightarrow> ta_ops ta = ATTR_OPS_INDEX_VALUE"
  "attr_matches props ta (Secret sz key) \<longleftrightarrow>
     ta_ops ta = ATTR_OPS_INDEX_SECRET \<and> sz = tp_alloc_size props - 8 \<and> length key \<le> sz"
  by (simp_all add: attr_matches_def split: attr_ops_index.split)

lemma ecc_attr_match:
  assumes "attrs_match props vals" "keypair_of_attrs vals = Some key"
  shows "attrs_match props (attrs_of_keypair key')"
proof -
  obtain d x y c where vals: "vals = [Bignum d, Bignum x, Bignum y, Value c]"
    using assms(2) by (cases vals rule: keypair_of_attrs.cases) auto
  with assms(1) obtain a1 a2 a3 a4 where "tp_attrs props = [a1, a2, a3, a4]" by (auto simp: list_all2_Cons2)
  with assms(1) vals show ?thesis by (simp add: attrs_of_keypair_def)
qed

lemma generate_rsa_ok:
  assumes call: "tee_svc_obj_generate_key_rsa C ob props sz params t = Some (res, ob', t')"
    and ok: "generators_ok C" "obj_ok C ob" "tee_svc_find_type_props C (o_type ob) = Some props"
    and ty: "o_type ob = TEE_TYPE_RSA_KEYPAIR"
  shows "obj_step_ok C ob ob' \<and> tick_ext t t'"
proof -
  obtain r ob1 where p: "tee_svc_cryp_obj_populate_type C (tick t) ob props params = Some (r, ob1)"
    using call by (auto simp: tee_svc_obj_generate_key_rsa_def bind_eq_Some_conv)
  obtain vals where v: "o_attr ob1 = Some vals" "attrs_match props vals" "obj_step_ok C ob ob1"
      "tee_svc_find_type_props C (o_type ob1) = Some props"
    by (rule populate_then [OF p ok(2,3)])
  define e where "e = (case vals ! 1 of Bignum e \<Rightarrow> e | _ \<Rightarrow> 0)"
  define chk where "chk = (if get_attribute ob1 props TEE_ATTR_RSA_PUBLIC_EXPONENT then check_pub_rsa_key e else TEE_SUCCESS)"
  show ?thesis
  proof (cases "r \<noteq> TEE_SUCCESS \<or> chk \<noteq> TEE_SUCCESS")
    case True
    with call p v show ?thesis
      by (auto simp: tee_svc_obj_generate_key_rsa_def Let_def e_def chk_def split: if_splits)
  next
    case False
    define vals' where "vals' = (if get_attribute ob1 props TEE_ATTR_RSA_PUBLIC_EXPONENT then vals else vals[1 := Bignum 65537])"
    have m: "attrs_match props vals'"
      using v(2) rsa_attr_match [OF v(2)] type_attrs_simps(1) ok(3) ty by (simp add: vals'_def)
    obtain res2 ob2 t2 where g: "gen_key_attrs C sz vals' (ob1\<lparr>o_attr := Some vals'\<rparr>) t = (res2, ob2, t2)"
      by (metis prod_cases3)
    have "obj_ok C (ob1\<lparr>o_attr := Some vals'\<rparr>)" using m v(4) by (simp add: obj_ok_def)
    from gen_key_attrs_ok [OF g ok(1) this _ m] v(4) have "obj_step_ok C (ob1\<lparr>o_attr := Some vals'\<rparr>) ob2" by simp
    moreover have "ob' = (if res2 = TEE_SUCCESS then have_all props ob2 else ob2)" "t' = t2"
      using call p v(1) False g
      by (auto simp: tee_svc_obj_generate_key_rsa_def Let_def e_def chk_def vals'_def split: if_splits)
    ultimately show ?thesis using v(3) gen_key_attrs_tick [OF g] by (auto simp: obj_step_ok_def)
  qed
qed

lemma generate_dsa_ok:
  assumes call: "tee_svc_obj_generate_key_dsa C ob props sz params t = Some (res, ob', t')"
    and ok: "generators_ok C" "obj_ok C ob" "tee_svc_find_type_props C (o_type ob) = Some props"
  shows "obj_step_ok C ob ob' \<and> tick_ext t t'"
proof -
  obtain r ob1 where p: "tee_svc_cryp_obj_populate_type C (tick t) ob props params = Some (r, ob1)"
    using call by (auto simp: tee_svc_obj_generate_key_dsa_def bind_eq_Some_conv)
  obtain vals where v: "o_attr ob1 = Some vals" "attrs_match props vals" "obj_step_ok C ob ob1"
      "tee_svc_find_type_props C (o_type ob1) = Some props"
    by (rule populate_then [OF p ok(2,3)])
  show ?thesis
  proof (cases "r = TEE_SUCCESS")
    case False
    with call p v show ?thesis by (auto simp: tee_svc_obj_generate_key_dsa_def)
  next
    case True
    obtain res2 ob2 t2 where g: "gen_key_attrs C sz vals ob1 t = (res2, ob2, t2)" by (metis prod_cases3)
    have "obj_ok C ob1" using v(3) by (simp add: obj_step_ok_def)
    from gen_key_attrs_ok [OF g ok(1) this v(4,2)] have "obj_step_ok C ob1 ob2" .
    moreover have "ob' = (if res2 = TEE_SUCCESS then have_all props ob2 else ob2)" "t' = t2"
      using call p v(1) True g by (auto simp: tee_svc_obj_generate_key_dsa_def)
    ultimately show ?thesis using v(3) gen_key_attrs_tick [OF g] by (auto simp: obj_step_ok_def)
  qed
qed

lemma generate_dh_ok:
  assumes call: "tee_svc_obj_generate_key_dh C ob props sz params t = Some (res, ob', t')"
    and ok: "generators_ok C" "obj_ok C ob" "tee_svc_find_type_props C (o_type ob) = Some props"
    and ty: "o_type ob = TEE_TYPE_DH_KEYPAIR"
  shows "obj_step_ok C ob ob' \<and> tick_ext t t'"
proof -
  obtain r ob1 where p: "tee_svc_cryp_obj_populate_type C (tick t) ob props params = Some (r, ob1)"
    using call by (auto simp: tee_svc_obj_generate_key_dh_def bind_eq_Some_conv)
  obtain vals where v: "o_attr ob1 = Some vals" "attrs_match props vals" "obj_step_ok C ob ob1"
      "tee_svc_find_type_props C (o_type ob1) = Some props"
    by (rule populate_then [OF p ok(2,3)])
  show ?thesis
  proof (cases "r = TEE_SUCCESS")
    case False
    with call p v show ?thesis by (auto simp: tee_svc_obj_generate_key_dh_def)
  next
    case True
    define vals1 where "vals1 = (if get_attribute ob1 props TEE_ATTR_DH_SUBPRIME then vals else vals[4 := Bignum 0])"
    define vals2 where "vals2 = (if get_attribute ob1 props TEE_ATTR_DH_X_BITS then vals1 else vals1[5 := Value 0])"
    have tp: "tp_attrs props = tee_cryp_obj_dh_keypair_attrs" using type_attrs_simps(2) ok(3) ty by simp
    have "attrs_match props vals1" using v(2) dh_attr_match(1) [OF v(2) tp] by (simp add: vals1_def)
    then have m: "attrs_match props vals2" using dh_attr_match(2) [of props vals1, OF _ tp] by (simp add: vals2_def)
    obtain res2 ob2 t2 where g: "gen_key_attrs C sz vals2 ob1 t = (res2, ob2, t2)" by (metis prod_cases3)
    have "obj_ok C ob1" using v(3) by (simp add: obj_step_ok_def)
    from gen_key_attrs_ok [OF g ok(1) this v(4) m] have "obj_step_ok C ob1 ob2" .
    moreover have "ob' = (if res2 = TEE_SUCCESS
        then set_attribute (set_attribute (set_attribute ob2 props TEE_ATTR_DH_PUBLIC_VALUE) props
               TEE_ATTR_DH_PRIVATE_VALUE) props TEE_ATTR_DH_X_BITS else ob2)" "t' = t2"
      using call p v(1) True g
      by (auto simp: tee_svc_obj_generate_key_dh_def Let_def vals1_def vals2_def split: if_splits)
    ultimately show ?thesis using v(3) gen_key_attrs_tick [OF g] by (auto simp: obj_step_ok_def)
  qed
qed

lemma generate_ecc_ok:
  assumes call: "tee_svc_obj_generate_key_ecc C ob props sz params t = Some (res, ob', t')"
    and ok: "obj_ok C ob" "tee_svc_find_type_props C (o_type ob) = Some props"
  shows "obj_step_ok C ob ob' \<and> tick_ext t t'"
proof -
  obtain r ob1 where p: "tee_svc_cryp_obj_populate_type C (tick t) ob props params = Some (r, ob1)"
    using call by (auto simp: tee_svc_obj_generate_key_ecc_def bind_eq_Some_conv)
  obtain vals where v: "o_attr ob1 = Some vals" "attrs_match props vals" "obj_step_ok C ob ob1"
      "tee_svc_find_type_props C (o_type ob1) = Some props"
    by (rule populate_then [OF p ok])
  show ?thesis
  proof (cases "r = TEE_SUCCESS")
    case False
    with call p v show ?thesis by (auto simp: tee_svc_obj_generate_key_ecc_def)
  next
    case True
    with call p v(1) obtain key where key: "keypair_of_attrs vals = Some key"
      by (auto simp: tee_svc_obj_generate_key_ecc_def bind_eq_Some_conv)
    obtain res2 key2 t2 where g: "ltc_ecc_generate_keypair C sz key t = (res2, key2, t2)" by (metis prod_cases3)
    have m: "attrs_match props (attrs_of_keypair key2)" by (rule ecc_attr_match [OF v(2) key])
    have "obj_ok C (ob1\<lparr>o_attr := Some (attrs_of_keypair key2)\<rparr>)" using m v(4) by (simp add: obj_ok_def)
    with call p v True key g show ?thesis
      by (cases "res2 = TEE_SUCCESS")
        (auto simp: tee_svc_obj_generate_key_ecc_def obj_step_ok_def dest: ltc_ecc_tick)
  qed
qed

lemma generate_secret_ok:
  assumes call: "generate_key_secret C ob props sz t = Some (res, ob', t')"
    and ok: "generators_ok C" "obj_ok C ob" "tee_svc_find_type_props C (o_type ob) = Some props"
  shows "obj_step_ok C ob ob' \<and> tick_ext t t'"
proof -
  obtain n key where a: "o_attr ob = Some [Secret n key]"
    using call by (auto simp: generate_key_secret_def Let_def split: option.splits list.splits attr_val.splits)
  define b where "b = (if is_gp_legacy_des_key_size C (o_type ob) sz then (sz + sz div 7) div 8 else sz div 8)"
  show ?thesis
  proof (cases "b > n")
    case True
    with call a ok(2) show ?thesis by (auto simp: generate_key_secret_def Let_def b_def [symmetric] obj_step_ok_def)
  next
    case False
    show ?thesis
    proof (cases "e_rng C (tick t) b")
      case (Inl e)
      with False call a ok(2) show ?thesis by (auto simp: generate_key_secret_def Let_def b_def [symmetric] obj_step_ok_def)
    next
      case (Inr bs)
      with ok(1) have "length bs = b" unfolding generators_ok_def by blast
      then have "obj_ok C (ob\<lparr>o_attr := Some [Secret n bs]\<rparr>)"
        using ok(2,3) a False by (auto simp: obj_ok_def list_all2_Cons2)
      with False Inr call a show ?thesis
        by (auto simp: generate_key_secret_def Let_def b_def [symmetric] obj_step_ok_def)
    qed
  qed
qed

lemma obj_generate_key_inv:
  assumes inv: "svc_inv C t" and gen: "generators_ok C" and call: "syscall_obj_generate_key C obj sz params t = Some (res, t')"
  shows "svc_inv C t'"
proof (cases "tee_obj_get obj t")
  case (Inl e)
  with call inv show ?thesis by (simp add: syscall_obj_generate_key_def)
next
  case (Inr ob)
  then have ob: "objs t obj = Some ob" by (simp add: tee_obj_get_iff)
  note ok = svc_inv_objD [OF inv ob]
  obtain a t1 where a: "alloc C t = (a, t1)" by fastforce
  have ext: "tick_ext t t1" using a by (auto dest: tick_dests)
  have inv1: "svc_inv C t1" using inv ext by (rule svc_inv_tick_ext)
  show ?thesis
  proof (cases "HF_PERSISTENT \<in> o_flags ob \<or> HF_INITIALIZED \<in> o_flags ob \<or>
      tee_svc_find_type_props C (o_type ob) = None")
    case True
    with call Inr inv show ?thesis by (auto simp: syscall_obj_generate_key_def split: if_splits)
  next
    case False
    then obtain props where props: "tee_svc_find_type_props C (o_type ob) = Some props" by blast
    show ?thesis
    proof (cases "check_key_size C props sz \<noteq> TEE_SUCCESS \<or> a = 0 \<or>
        tee_svc_cryp_check_attr ATTR_USAGE_GENERATE_KEY props params \<noteq> TEE_SUCCESS")
      case True
      with call Inr False props a inv inv1 show ?thesis
        by (auto simp: syscall_obj_generate_key_def Let_def split: if_splits)
    next
      case ok2: False
      with call Inr False props a obtain ob' t2 where
        gen_call: "(if o_type ob \<in> set secret_types then generate_key_secret C ob props sz t1
            else if o_type ob = TEE_TYPE_RSA_KEYPAIR then tee_svc_obj_generate_key_rsa C ob props sz params t1
            else if o_type ob = TEE_TYPE_DSA_KEYPAIR then tee_svc_obj_generate_key_dsa C ob props sz params t1
            else if o_type ob = TEE_TYPE_DH_KEYPAIR then tee_svc_obj_generate_key_dh C ob props sz params t1
            else if o_type ob \<in> {TEE_TYPE_ECDSA_KEYPAIR, TEE_TYPE_ECDH_KEYPAIR, TEE_TYPE_SM2_PKE_KEYPAIR}
            then tee_svc_obj_generate_key_ecc C ob props sz params t1
            else Some (TEE_ERROR_BAD_FORMAT, ob, t1)) = Some (res, ob', t2)"
        and t': "t' = tee_obj_add obj
          (if res = TEE_SUCCESS then ob'\<lparr>o_keySize := sz, o_flags := insert HF_INITIALIZED (o_flags ob')\<rparr> else ob') t2"
        unfolding syscall_obj_generate_key_def Let_def bind_eq_Some_conv by (simp add: bind_eq_Some_conv) blast
      have "obj_step_ok C ob ob' \<and> tick_ext t1 t2"
        using gen_call ok props gen
        by (auto split: if_splits dest: generate_secret_ok generate_rsa_ok generate_dsa_ok generate_dh_ok generate_ecc_ok
            simp: obj_step_ok_def)
      then have "svc_inv C t2" "objs t2 obj = Some ob" "obj_ok C ob'" "o_busy ob' = o_busy ob"
        using svc_inv_tick_ext [OF inv1] ob tick_ext_simps(1) [OF ext] tick_ext_simps(1) [of t1 t2]
        by (simp_all add: obj_step_ok_def)
      with t' show ?thesis by (auto intro!: svc_inv_obj_update)
    qed
  qed
qed

section \<open>The services on cryptographic states\<close>

lemma state_alloc_inv:
  assumes inv: "svc_inv C t" and call: "syscall_cryp_state_alloc C algo mode key1 key2 t = (r, t')"
  shows "svc_inv C t'"
proof (cases "state_key_check C key1 algo mode t = TEE_SUCCESS \<and> state_key_check C key2 algo mode t = TEE_SUCCESS")
  case False
  with call inv show ?thesis by (auto simp: syscall_cryp_state_alloc_def split: if_splits)
next
  case True
  obtain a t1 where a: "alloc C t = (a, t1)" by fastforce
  obtain rc t2 where c: "state_alloc_ctx C algo key1 key2 t1 = (rc, t2)" by fastforce
  have ext: "tick_ext t t1" "tick_ext t1 t2" using a c by (auto dest: tick_dests)
  have inv1: "svc_inv C t1" and inv2: "svc_inv C t2" using inv ext svc_inv_tick_ext by blast+
  have key: "\<exists>ob. objs t k = Some ob \<and> \<not> o_busy ob" if "state_key_check C k algo mode t = TEE_SUCCESS" "k \<noteq> 0" for k
    using that by (auto simp: state_key_check_def tee_obj_get_def split: option.splits if_splits)
  show ?thesis
  proof (cases "a = 0")
    case a0: True
    with call True a inv1 show ?thesis by (simp add: syscall_cryp_state_alloc_def)
  next
    case a0: False
    then have ad: "a = tick t + 1" "tick t1 = tick t + 1" using a by (auto simp: alloc_def split: if_splits)
    show ?thesis
    proof (cases rc)
      case (Inl e)
      with call True a a0 c inv2 show ?thesis by (simp add: syscall_cryp_state_alloc_def)
    next
      case (Inr ctx)
      let ?cs = "\<lparr>cs_algo = algo, cs_mode = mode, cs_key1 = key1, cs_key2 = key2, cs_ctx = ctx,
                  cs_finalize = False, cs_init = False\<rparr>"
      have "states t2 a = None"
        using inv ad ext wf_tee_fresh(2) [of t a] by (simp add: svc_inv_def tick_ext_simps)
      moreover have "a \<le> tick t2" using ad tick_ext_simps(4) [OF ext(2)] by simp
      ultimately have "svc_inv C (register_key (cs_key2 ?cs) (register_key (cs_key1 ?cs) (set_state a ?cs t2)))"
        using inv2 a0 key True ext by (intro svc_inv_state_new) (simp_all add: tick_ext_simps)
      with call True a a0 c Inr show ?thesis by (auto simp: syscall_cryp_state_alloc_def)
    qed
  qed
qed

lemma state_copy_inv: "svc_inv C t \<Longrightarrow> syscall_cryp_state_copy dst src t = (res, t') \<Longrightarrow> svc_inv C t'"
  by (auto simp: syscall_cryp_state_copy_def get_state_iff split: sum.splits if_splits intro!: svc_inv_state_update)

lemma state_free_inv: "svc_inv C t \<Longrightarrow> syscall_cryp_state_free s t = (res, t') \<Longrightarrow> svc_inv C t'"
  by (auto simp: syscall_cryp_state_free_def get_state_iff split: sum.splits intro: svc_inv_state_free)

text \<open>The services that compute on a state change its context and its two marks only.\<close>

lemma set_state_ctx_inv:
  assumes "svc_inv C t" "states t s = Some cs"
  shows "svc_inv C (set_state s (cs\<lparr>cs_ctx := x\<rparr>) t)" "svc_inv C (set_state s (cs\<lparr>cs_ctx := x, cs_init := i\<rparr>) t)"
    "svc_inv C (set_state s (cs\<lparr>cs_ctx := x, cs_finalize := f\<rparr>) t)"
    "svc_inv C (set_state s (cs\<lparr>cs_ctx := x, cs_finalize := f, cs_init := i\<rparr>) t)"
  by (rule svc_inv_state_update [OF assms], simp_all)+

lemma set_state_same_inv: "svc_inv C t \<Longrightarrow> states t s = Some cs \<Longrightarrow> svc_inv C (set_state s cs t)"
  by (rule svc_inv_state_update) simp_all

lemma hash_init_inv:
  "svc_inv C t \<Longrightarrow> syscall_hash_init C s t = Some (res, t') \<Longrightarrow> svc_inv C t'"
  by (auto simp: syscall_hash_init_def get_state_iff bind_eq_Some_conv split: sum.splits if_splits
      intro!: set_state_ctx_inv)

lemma hash_update_inv:
  "svc_inv C t \<Longrightarrow> syscall_hash_update s chunk t = Some (res, t') \<Longrightarrow> svc_inv C t'"
  by (auto simp: syscall_hash_update_def get_state_iff bind_eq_Some_conv split: sum.splits if_splits
      intro!: set_state_ctx_inv)

lemma hash_final_inv:
  "svc_inv C t \<Longrightarrow> syscall_hash_final C s chunk n t = Some (res, out, m, t') \<Longrightarrow> svc_inv C t'"
  by (auto simp: syscall_hash_final_def get_state_iff bind_eq_Some_conv split: sum.splits if_splits
      intro!: set_state_ctx_inv)

lemma cipher_init_inv:
  "svc_inv C t \<Longrightarrow> syscall_cipher_init C s iv t = Some (res, t') \<Longrightarrow> svc_inv C t'"
  by (auto simp: syscall_cipher_init_def get_state_iff split: sum.splits if_splits bind_splits
      intro!: set_state_ctx_inv)

lemma cipher_update_inv:
  "svc_inv C t \<Longrightarrow> tee_svc_cipher_update_helper C s fin src n t = Some (res, out, m, t') \<Longrightarrow> svc_inv C t'"
  by (auto simp: tee_svc_cipher_update_helper_def get_state_iff bind_eq_Some_conv Let_def split: sum.splits if_splits
      intro: set_state_ctx_inv set_state_same_inv)

lemma authenc_init_inv:
  "svc_inv C t \<Longrightarrow> syscall_authenc_init C s nonce n t = Some (res, t') \<Longrightarrow> svc_inv C t'"
  by (auto simp: syscall_authenc_init_def get_state_iff bind_eq_Some_conv split: sum.splits if_splits
      intro!: set_state_ctx_inv)

lemma authenc_update_aad_inv:
  "svc_inv C t \<Longrightarrow> syscall_authenc_update_aad s addr aad t = Some (res, t') \<Longrightarrow> svc_inv C t'"
  by (auto simp: syscall_authenc_update_aad_def get_state_iff bind_eq_Some_conv split: sum.splits if_splits
      intro!: set_state_ctx_inv)

lemma authenc_update_payload_inv:
  "svc_inv C t \<Longrightarrow> syscall_authenc_update_payload C s src n t = Some (res, out, m, t') \<Longrightarrow> svc_inv C t'"
  by (auto simp: syscall_authenc_update_payload_def get_state_iff bind_eq_Some_conv split: sum.splits if_splits
      intro!: set_state_ctx_inv)

lemma authenc_enc_final_inv:
  "svc_inv C t \<Longrightarrow> syscall_authenc_enc_final C s src n tn t = Some (res, out, m, tag, tm, t') \<Longrightarrow> svc_inv C t'"
  by (auto simp: syscall_authenc_enc_final_def get_state_iff bind_eq_Some_conv split: sum.splits if_splits
      intro!: set_state_ctx_inv)

lemma authenc_dec_final_inv:
  "svc_inv C t \<Longrightarrow> syscall_authenc_dec_final C s src n tag t = Some (res, out, m, t') \<Longrightarrow> svc_inv C t'"
  by (auto simp: syscall_authenc_dec_final_def get_state_iff bind_eq_Some_conv split: sum.splits if_splits
      intro!: set_state_ctx_inv)

lemma random_inv:
  "svc_inv C t \<Longrightarrow> syscall_cryp_random_number_generate C n t = (res, out, t') \<Longrightarrow> svc_inv C t'"
  by (auto simp: syscall_cryp_random_number_generate_def split: sum.splits intro: svc_inv_tick_ext [OF _ tick_ext_Suc])

lemma asymm_operate_tick:
  assumes "syscall_asymm_operate C s params src n t = Some (res, out, m, t')" shows "tick_ext t t'"
proof -
  obtain a t1 where a: "alloc C t = (a, t1)" by fastforce
  have ext: "tick_ext t t1" using a by (auto dest: tick_dests)
  have "tick_ext t1 (t1\<lparr>tick := Suc (tick t1)\<rparr>)" by simp
  with ext have ext2: "tick_ext t (t1\<lparr>tick := Suc (tick t1)\<rparr>)" by (rule tick_ext_trans)
  show ?thesis
    using assms a ext ext2
    by (auto simp: syscall_asymm_operate_def split: sum.splits if_splits bind_splits prod.splits
        dest!: ltc_ecc_tick(2) intro: tick_ext_trans)
qed

lemma asymm_verify_tick:
  assumes "syscall_asymm_verify C s params data sig t = Some (res, t')" shows "tick_ext t t'"
proof -
  obtain a t1 where a: "alloc C t = (a, t1)" by fastforce
  have ext: "tick_ext t t1" using a by (auto dest: tick_dests)
  with assms a show ?thesis
    by (auto simp: syscall_asymm_verify_def bind_eq_Some_conv Let_def split: sum.splits if_splits)
qed

lemma derive_key_inv:
  assumes inv: "svc_inv C t" and call: "syscall_cryp_derive_key C s params dk t = Some (res, t')"
  shows "svc_inv C t'"
proof (cases "tee_svc_cryp_get_state s t")
  case (Inl e)
  with call inv show ?thesis by (simp add: syscall_cryp_derive_key_def)
next
  case (Inr cs)
  obtain a t1 where a: "alloc C t = (a, t1)" by fastforce
  have ext: "tick_ext t t1" using a by (auto dest: tick_dests)
  have inv1: "svc_inv C t1" using inv ext by (rule svc_inv_tick_ext)
  show ?thesis
  proof (cases "a = 0 \<or> (\<exists>e. tee_obj_get (cs_key1 cs) t1 = Inl e) \<or> (\<exists>e. tee_obj_get dk t1 = Inl e)")
    case True
    with call Inr a inv1 show ?thesis by (auto simp: syscall_cryp_derive_key_def split: sum.splits if_splits)
  next
    case False
    then obtain ko so where o: "tee_obj_get (cs_key1 cs) t1 = Inr ko" "tee_obj_get dk t1 = Inr so"
      by (meson sum.exhaust)
    then have so: "objs t1 dk = Some so" by (simp add: tee_obj_get_iff)
    show ?thesis
    proof (cases "tee_svc_find_type_props C (o_type so)")
      case None
      with call Inr a False o inv1 show ?thesis by (simp add: syscall_cryp_derive_key_def)
    next
      case (Some props)
      with call Inr a False o obtain sz key where k: "o_attr so = Some [Secret sz key]"
        by (auto simp: syscall_cryp_derive_key_def split: option.splits list.splits attr_val.splits)
      obtain r t2 where d: "derive_secret C cs params ko so sz t1 = Some (r, t2)"
        using call Inr a False o Some k by (auto simp: syscall_cryp_derive_key_def split: bind_splits)
      have inv2: "svc_inv C t2" and so2: "objs t2 dk = Some so"
        using derive_secret_tick [OF d] inv1 so by (auto intro: svc_inv_tick_ext simp: tick_ext_simps)
      show ?thesis
      proof (cases r)
        case (Inl e)
        with call Inr a False o Some k d inv2 show ?thesis by (simp add: syscall_cryp_derive_key_def)
      next
        case (Inr out)
        with call \<open>tee_svc_cryp_get_state s t = Inr cs\<close> a False o Some k d
        have t': "length out \<le> sz" "t' = tee_obj_add dk
            (set_attribute (so\<lparr>o_attr := Some [Secret sz out], o_flags := insert HF_INITIALIZED (o_flags so)\<rparr>)
               props TEE_ATTR_SECRET_VALUE) t2"
          by (auto simp: syscall_cryp_derive_key_def split: if_splits)
        have "obj_ok C (so\<lparr>o_attr := Some [Secret sz out]\<rparr>)"
          using svc_inv_objD [OF inv2 so2] Some k t'(1) by (auto simp: obj_ok_def list_all2_Cons2)
        then have "obj_ok C (so\<lparr>o_attr := Some [Secret sz out], o_flags := insert HF_INITIALIZED (o_flags so)\<rparr>)"
          by (simp add: obj_ok_def)
        with t'(2) show ?thesis using inv2 so2 by (auto intro!: svc_inv_obj_update)
      qed
    qed
  qed
qed

section \<open>The machine\<close>

text \<open>One step per service that changes the state: whatever the arguments, and whatever the result.\<close>

inductive svc_step :: "env \<Rightarrow> 'a tee_scheme \<Rightarrow> 'a tee_scheme \<Rightarrow> bool" for C where
  obj_restrict_usage: "syscall_cryp_obj_restrict_usage obj u t = (res, t') \<Longrightarrow> svc_step C t t'"
| obj_alloc: "syscall_cryp_obj_alloc C ty sz t = (r, t') \<Longrightarrow> svc_step C t t'"
| obj_close: "syscall_cryp_obj_close obj t = (res, t') \<Longrightarrow> svc_step C t t'"
| obj_reset: "syscall_cryp_obj_reset C obj t = (res, t') \<Longrightarrow> svc_step C t t'"
| obj_populate: "syscall_cryp_obj_populate C obj attrs t = Some (res, t') \<Longrightarrow> svc_step C t t'"
| obj_copy: "syscall_cryp_obj_copy C dst src t = Some (res, t') \<Longrightarrow> svc_step C t t'"
| obj_generate_key: "syscall_obj_generate_key C obj sz attrs t = Some (res, t') \<Longrightarrow> svc_step C t t'"
| state_alloc: "syscall_cryp_state_alloc C algo mode key1 key2 t = (r, t') \<Longrightarrow> svc_step C t t'"
| state_copy: "syscall_cryp_state_copy sd ss t = (res, t') \<Longrightarrow> svc_step C t t'"
| state_free: "syscall_cryp_state_free st t = (res, t') \<Longrightarrow> svc_step C t t'"
| hash_init: "syscall_hash_init C st t = Some (res, t') \<Longrightarrow> svc_step C t t'"
| hash_update: "syscall_hash_update st chunk t = Some (res, t') \<Longrightarrow> svc_step C t t'"
| hash_final: "syscall_hash_final C st chunk n t = Some (res, out, m, t') \<Longrightarrow> svc_step C t t'"
| cipher_init: "syscall_cipher_init C st iv t = Some (res, t') \<Longrightarrow> svc_step C t t'"
| cipher_update: "syscall_cipher_update C st data dl t = Some (res, out, dl', t') \<Longrightarrow> svc_step C t t'"
| cipher_final: "syscall_cipher_final C st data dl t = Some (res, out, dl', t') \<Longrightarrow> svc_step C t t'"
| authenc_init: "syscall_authenc_init C st nonce n t = Some (res, t') \<Longrightarrow> svc_step C t t'"
| authenc_update_aad: "syscall_authenc_update_aad st addr aad t = Some (res, t') \<Longrightarrow> svc_step C t t'"
| authenc_update_payload:
    "syscall_authenc_update_payload C st data n t = Some (res, out, m', t') \<Longrightarrow> svc_step C t t'"
| authenc_enc_final:
    "syscall_authenc_enc_final C st data n tn t = Some (res, out, m', tag, tm, t') \<Longrightarrow> svc_step C t t'"
| authenc_dec_final:
    "syscall_authenc_dec_final C st data n tag t = Some (res, out, m', t') \<Longrightarrow> svc_step C t t'"
| random: "syscall_cryp_random_number_generate C n t = (res, out, t') \<Longrightarrow> svc_step C t t'"
| asymm_operate: "syscall_asymm_operate C st params data n t = Some (res, out, m', t') \<Longrightarrow> svc_step C t t'"
| asymm_verify: "syscall_asymm_verify C st params data sig t = Some (res, t') \<Longrightarrow> svc_step C t t'"
| derive_key: "syscall_cryp_derive_key C st params dk t = Some (res, t') \<Longrightarrow> svc_step C t t'"

lemma svc_step_inv:
  assumes "svc_inv C t" "generators_ok C" "svc_step C t t'"
  shows "svc_inv C t'"
  using assms(3,1,2)
  by (cases rule: svc_step.cases)
    (auto simp: syscall_cipher_update_def syscall_cipher_final_def
      dest: restrict_usage_inv obj_alloc_inv obj_close_inv obj_reset_inv obj_populate_inv obj_copy_inv obj_generate_key_inv
        state_alloc_inv state_copy_inv state_free_inv hash_init_inv hash_update_inv hash_final_inv cipher_init_inv
        cipher_update_inv authenc_init_inv authenc_update_aad_inv authenc_update_payload_inv authenc_enc_final_inv
        authenc_dec_final_inv random_inv derive_key_inv asymm_operate_tick asymm_verify_tick
      intro: svc_inv_tick_ext)

interpretation svc: machine "svc_step C" "\<lambda>t. svc_inv C t \<and> generators_ok C"
  by unfold_locales (auto intro: svc_step_inv)

lemma svc_inv_start: "svc_inv C tee_start"
  by (simp add: svc_inv_def objs_ok_def keys_ok_def tee_start_def wf_tee_def)


text \<open>A run: an AES key object is allocated and a CMAC state is created with it.\<close>

definition key_made :: tee where
  "key_made = snd (syscall_cryp_obj_alloc sample_env TEE_TYPE_AES 128 tee_start)"




lemma generators_ok_sample: "generators_ok sample_env"
  by (simp add: generators_ok_def sample_env_def sample_prims_def)


section \<open>The object services are defined in every reachable state\<close>

lemma find_type_props_data: "tee_svc_find_type_props C TEE_TYPE_DATA = None"
  by (simp add: tee_svc_find_type_props_def tee_cryp_obj_props_def OBJ_PROP_def)

lemma obj_ok_attrs:
  assumes "obj_ok C ob" "tee_svc_find_type_props C (o_type ob) = Some props"
  obtains vals where "o_attr ob = Some vals" "attrs_match props vals"
  using assms find_type_props_data [of C] by (cases "o_attr ob") (auto simp: obj_ok_def)

lemma populate_type_defined:
  assumes "o_attr ob = Some vals"
  obtains res ob' where "tee_svc_cryp_obj_populate_type C now ob props as = Some (res, ob')"
proof -
  have "tee_svc_cryp_obj_populate_type C now ob props as \<noteq> None"
    using assms by (simp add: tee_svc_cryp_obj_populate_type_def split: prod.split)
  with that show ?thesis by fast
qed

lemma populate_defined:
  assumes "svc_inv C t" shows "syscall_cryp_obj_populate C obj as t \<noteq> None"
proof (cases "tee_obj_get obj t")
  case (Inr ob)
  then have ok: "obj_ok C ob" using assms by (auto simp: tee_obj_get_iff dest: svc_inv_objD)
  show ?thesis
  proof (cases "tee_svc_find_type_props C (o_type ob)")
    case (Some props)
    then obtain vals where v: "o_attr ob = Some vals" using obj_ok_attrs [OF ok] by blast
    obtain a t1 where a: "alloc C t = (a, t1)" by fastforce
    obtain res ob' where "tee_svc_cryp_obj_populate_type C (tick t1) ob props as = Some (res, ob')"
      by (rule populate_type_defined [OF v])
    with Inr Some a show ?thesis by (simp add: syscall_cryp_obj_populate_def Let_def)
  qed (use Inr in \<open>simp add: syscall_cryp_obj_populate_def\<close>)
qed (simp add: syscall_cryp_obj_populate_def)

text \<open>Attributes of the same kind can be copied onto each other.\<close>

fun same_kind :: "attr_val \<Rightarrow> attr_val \<Rightarrow> bool" where
  "same_kind (Secret n k) (Secret m l) = True"
| "same_kind (Bignum n) (Bignum m) = True"
| "same_kind (Value n) (Value m) = True"
| "same_kind _ _ = False"

lemma attrs_from_obj_defined: "list_all2 same_kind as bs \<Longrightarrow> attrs_from_obj (zip as bs) \<noteq> None"
proof (induction as arbitrary: bs)
  case (Cons a as)
  then obtain b bs' where bs: "bs = b # bs'" "same_kind a b" "list_all2 same_kind as bs'" by (auto simp: list_all2_Cons1)
  with Cons obtain r where "attrs_from_obj (zip as bs') = Some r" by blast
  with bs show ?case by (cases a; cases b) (auto simp: attr_from_obj_def)
qed simp

lemma attr_matches_kind:
  "attr_matches props ta a \<Longrightarrow> attr_matches props' ta' b \<Longrightarrow> ta_ops ta = ta_ops ta' \<Longrightarrow> same_kind a b"
  by (cases a; cases b) simp_all

lemma attrs_match_kinds: "attrs_match props as \<Longrightarrow> attrs_match props bs \<Longrightarrow> list_all2 same_kind as bs"
  unfolding list_all2_conv_all_nth using attr_matches_kind by metis

text \<open>A public key type has attributes of the key pair type, of the same kinds.\<close>

definition sub_table :: "type_attr list \<Rightarrow> type_props \<Rightarrow> bool" where
  "sub_table tas tp_src \<longleftrightarrow>
     (\<forall>ta \<in> set tas. \<exists>idx. tee_svc_cryp_obj_find_type_attr_idx (ta_id ta) tp_src = Some idx \<and>
                          ta_ops (tp_attrs tp_src ! idx) = ta_ops ta)"

lemma source_attrs_kinds:
  assumes "attrs_match tp_src src"
  shows "list_all2 (attr_matches tp) tas vals \<Longrightarrow> sub_table tas tp_src \<Longrightarrow>
    \<exists>srcs. source_attrs tas tp_src src = Some srcs \<and> list_all2 same_kind vals srcs"
proof (induction tas arbitrary: vals)
  case (Cons ta tas)
  then obtain v vals' where v: "vals = v # vals'" "attr_matches tp ta v" "list_all2 (attr_matches tp) tas vals'"
    by (auto simp: list_all2_Cons1)
  from Cons.prems(2) obtain idx where i: "tee_svc_cryp_obj_find_type_attr_idx (ta_id ta) tp_src = Some idx"
      "ta_ops (tp_attrs tp_src ! idx) = ta_ops ta" by (auto simp: sub_table_def)
  have "idx < length (tp_attrs tp_src)"
    using find_attr_idx_nth i(1) by (simp add: tee_svc_cryp_obj_find_type_attr_idx_def)
  with assms have "attr_matches tp_src (tp_attrs tp_src ! idx) (src ! idx)" by (rule list_all2_nthD)
  with v(2) i(2) have "same_kind v (src ! idx)" by (auto intro: attr_matches_kind)
  moreover obtain srcs where "source_attrs tas tp_src src = Some srcs" "list_all2 same_kind vals' srcs"
    using Cons.IH [OF v(3)] Cons.prems(2) by (auto simp: sub_table_def)
  ultimately show ?case using v(1) i(1) by simp
qed simp

lemma key_tables:
  "tee_svc_find_type_props C TEE_TYPE_RSA_PUBLIC_KEY = Some tp \<Longrightarrow> tp_attrs tp = tee_cryp_obj_rsa_pub_key_attrs"
  "tee_svc_find_type_props C TEE_TYPE_RSA_KEYPAIR = Some tp \<Longrightarrow> tp_attrs tp = tee_cryp_obj_rsa_keypair_attrs"
  "tee_svc_find_type_props C TEE_TYPE_DSA_PUBLIC_KEY = Some tp \<Longrightarrow> tp_attrs tp = tee_cryp_obj_dsa_pub_key_attrs"
  "tee_svc_find_type_props C TEE_TYPE_DSA_KEYPAIR = Some tp \<Longrightarrow> tp_attrs tp = tee_cryp_obj_dsa_keypair_attrs"
  "tee_svc_find_type_props C TEE_TYPE_ECDSA_PUBLIC_KEY = Some tp \<Longrightarrow> tp_attrs tp = tee_cryp_obj_ecc_pub_key_attrs"
  "tee_svc_find_type_props C TEE_TYPE_ECDH_PUBLIC_KEY = Some tp \<Longrightarrow> tp_attrs tp = tee_cryp_obj_ecc_pub_key_attrs"
  "tee_svc_find_type_props C TEE_TYPE_SM2_DSA_PUBLIC_KEY = Some tp \<Longrightarrow> tp_attrs tp = tee_cryp_obj_ecc_pub_key_attrs"
  "tee_svc_find_type_props C TEE_TYPE_SM2_PKE_PUBLIC_KEY = Some tp \<Longrightarrow> tp_attrs tp = tee_cryp_obj_ecc_pub_key_attrs"
  "tee_svc_find_type_props C TEE_TYPE_SM2_KEP_PUBLIC_KEY = Some tp \<Longrightarrow> tp_attrs tp = tee_cryp_obj_ecc_pub_key_attrs"
  "tee_svc_find_type_props C TEE_TYPE_ECDSA_KEYPAIR = Some tp \<Longrightarrow> tp_attrs tp = tee_cryp_obj_ecc_keypair_attrs"
  "tee_svc_find_type_props C TEE_TYPE_ECDH_KEYPAIR = Some tp \<Longrightarrow> tp_attrs tp = tee_cryp_obj_ecc_keypair_attrs"
  "tee_svc_find_type_props C TEE_TYPE_SM2_DSA_KEYPAIR = Some tp \<Longrightarrow> tp_attrs tp = tee_cryp_obj_ecc_keypair_attrs"
  "tee_svc_find_type_props C TEE_TYPE_SM2_PKE_KEYPAIR = Some tp \<Longrightarrow> tp_attrs tp = tee_cryp_obj_ecc_keypair_attrs"
  "tee_svc_find_type_props C TEE_TYPE_SM2_KEP_KEYPAIR = Some tp \<Longrightarrow> tp_attrs tp = tee_cryp_obj_ecc_keypair_attrs"
  by (auto simp: tee_svc_find_type_props_def tee_cryp_obj_props_def OBJ_PROP_def split: if_splits)

lemma public_sub_table:
  assumes "public_of_keypair_type ty = Some ty'" "tee_svc_find_type_props C ty = Some tp"
    "tee_svc_find_type_props C ty' = Some tp'"
  shows "sub_table (tp_attrs tp) tp'"
proof -
  consider "tp_attrs tp = tee_cryp_obj_rsa_pub_key_attrs" "tp_attrs tp' = tee_cryp_obj_rsa_keypair_attrs"
    | "tp_attrs tp = tee_cryp_obj_dsa_pub_key_attrs" "tp_attrs tp' = tee_cryp_obj_dsa_keypair_attrs"
    | "tp_attrs tp = tee_cryp_obj_ecc_pub_key_attrs" "tp_attrs tp' = tee_cryp_obj_ecc_keypair_attrs"
    using assms by (auto simp: public_of_keypair_type_def OBJ_PROP_def split: if_splits dest!: key_tables)
  then show ?thesis
    by cases (simp_all add: sub_table_def tee_svc_cryp_obj_find_type_attr_idx_def TA_def
      tee_cryp_obj_rsa_pub_key_attrs_def tee_cryp_obj_rsa_keypair_attrs_def tee_cryp_obj_dsa_pub_key_attrs_def
      tee_cryp_obj_dsa_keypair_attrs_def attr_tables)
qed

lemma copy_from_defined:
  assumes ok: "obj_ok C ob" "obj_ok C src"
  shows "tee_obj_attr_copy_from C ob src \<noteq> None"
proof (cases "o_type ob = TEE_TYPE_DATA \<or> o_attr ob = None")
  case True
  then show ?thesis by (auto simp: tee_obj_attr_copy_from_def)
next
  case False
  then obtain attrs where attrs: "o_attr ob = Some attrs" by blast
  with ok(1) obtain tp where tp: "tee_svc_find_type_props C (o_type ob) = Some tp" "attrs_match tp attrs"
    by (auto simp: obj_ok_def)
  consider "o_type ob = o_type src"
    | "o_type ob \<noteq> o_type src"
      "\<not> (public_of_keypair_type (o_type ob) = Some (o_type src) \<and> tee_svc_find_type_props C (o_type src) \<noteq> None)"
    | tp' where "o_type ob \<noteq> o_type src" "public_of_keypair_type (o_type ob) = Some (o_type src)"
      "tee_svc_find_type_props C (o_type src) = Some tp'" by blast
  then show ?thesis
  proof cases
    case 1
    with tp(1) obtain vals where "o_attr src = Some vals" "attrs_match tp vals" using obj_ok_attrs [OF ok(2)] by auto
    moreover from this tp(2) obtain r where "attrs_from_obj (zip attrs vals) = Some r"
      using attrs_from_obj_defined [OF attrs_match_kinds] by blast
    ultimately show ?thesis using 1 False attrs tp by (cases r) (simp add: tee_obj_attr_copy_from_def)
  next
    case 2
    with False attrs tp show ?thesis by (auto simp: tee_obj_attr_copy_from_def)
  next
    case 3
    obtain vals where v: "o_attr src = Some vals" "attrs_match tp' vals" using obj_ok_attrs [OF ok(2) 3(3)] by auto
    from source_attrs_kinds [OF v(2) tp(2) public_sub_table [OF 3(2) tp(1) 3(3)]]
    obtain srcs r where "source_attrs (tp_attrs tp) tp' vals = Some srcs" "attrs_from_obj (zip attrs srcs) = Some r"
      using attrs_from_obj_defined by blast
    then show ?thesis using 3 False attrs tp v by (cases r) (simp add: tee_obj_attr_copy_from_def)
  qed
qed

lemma copy_defined:
  assumes "svc_inv C t" shows "syscall_cryp_obj_copy C dst src t \<noteq> None"
proof -
  have "tee_obj_attr_copy_from C ob ob' = None \<Longrightarrow> False" if "objs t dst = Some ob" "objs t src = Some ob'" for ob ob'
    using that assms copy_from_defined [of C ob ob'] by (auto dest: svc_inv_objD)
  then show ?thesis
    by (auto simp: syscall_cryp_obj_copy_def tee_obj_get_def split: option.splits bind_splits)
qed

lemma secret_tables:
  "ty \<in> set secret_types \<Longrightarrow> tee_svc_find_type_props C ty = Some tp \<Longrightarrow> tp_attrs tp = tee_cryp_obj_secret_value_attrs"
  by (auto simp: secret_types_def tee_svc_find_type_props_def tee_cryp_obj_props_def OBJ_PROP_def)

lemma generate_secret_defined:
  assumes "o_type ob \<in> set secret_types" "tee_svc_find_type_props C (o_type ob) = Some props" "obj_ok C ob"
  shows "generate_key_secret C ob props sz t \<noteq> None"
proof -
  obtain vals where v: "o_attr ob = Some vals" "attrs_match props vals" using obj_ok_attrs [OF assms(3,2)] .
  obtain n key where "vals = [Secret n key]"
    using v(2) secret_tables [OF assms(1,2)]
    by (cases vals; cases "hd vals") (auto simp: attr_tables TA_def)
  with v(1) show ?thesis by (simp add: generate_key_secret_def Let_def)
qed

lemma generate_ecc_defined:
  assumes "tee_svc_find_type_props C (o_type ob) = Some props" "tp_attrs props = tee_cryp_obj_ecc_keypair_attrs" "obj_ok C ob"
  shows "tee_svc_obj_generate_key_ecc C ob props sz params t \<noteq> None"
proof -
  obtain vals where v: "o_attr ob = Some vals" "attrs_match props vals" using obj_ok_attrs [OF assms(3,1)] .
  obtain r ob' where p: "tee_svc_cryp_obj_populate_type C (tick t) ob props params = Some (r, ob')"
    by (rule populate_type_defined [OF v(1)])
  obtain vals' where v': "o_attr ob' = Some vals'" "attrs_match props vals'"
    by (rule populate_then [OF p assms(3,1)])
  have "length vals' = Suc (Suc (Suc (Suc 0)))" using list_all2_lengthD [OF v'(2)] assms(2) by (simp add: attr_tables)
  then obtain a b c d where vs: "vals' = [a, b, c, d]" by (auto simp: length_Suc_conv)
  have "keypair_of_attrs vals' \<noteq> None"
    using v'(2) assms(2) vs by (cases a; cases b; cases c; cases d) (auto simp: attr_tables TA_def)
  with p v'(1) show ?thesis by (auto simp: tee_svc_obj_generate_key_ecc_def split: prod.split)
qed

lemma generate_bignum_defined:
  assumes "o_attr ob = Some vals" "obj_ok C ob" "tee_svc_find_type_props C (o_type ob) = Some props"
  shows "tee_svc_obj_generate_key_rsa C ob props sz params t \<noteq> None"
    "tee_svc_obj_generate_key_dsa C ob props sz params t \<noteq> None"
    "tee_svc_obj_generate_key_dh C ob props sz params t \<noteq> None"
proof -
  obtain r ob' where p: "tee_svc_cryp_obj_populate_type C (tick t) ob props params = Some (r, ob')"
    by (rule populate_type_defined [OF assms(1)])
  obtain vals' where v': "o_attr ob' = Some vals'" by (rule populate_then [OF p assms(2,3)])
  with p show "tee_svc_obj_generate_key_rsa C ob props sz params t \<noteq> None"
    "tee_svc_obj_generate_key_dsa C ob props sz params t \<noteq> None"
    "tee_svc_obj_generate_key_dh C ob props sz params t \<noteq> None"
    by (simp_all add: tee_svc_obj_generate_key_rsa_def tee_svc_obj_generate_key_dsa_def
        tee_svc_obj_generate_key_dh_def Let_def case_prod_beta)
qed

lemma generate_defined:
  assumes "svc_inv C t" shows "syscall_obj_generate_key C obj sz params t \<noteq> None"
proof (cases "tee_obj_get obj t")
  case (Inr ob)
  then have ok: "obj_ok C ob" using assms by (auto simp: tee_obj_get_iff dest: svc_inv_objD)
  show ?thesis
  proof (cases "tee_svc_find_type_props C (o_type ob)")
    case (Some props)
    obtain vals where v: "o_attr ob = Some vals" using obj_ok_attrs [OF ok Some] .
    obtain a t1 where a: "alloc C t = (a, t1)" by fastforce
    have ecc: "tp_attrs props = tee_cryp_obj_ecc_keypair_attrs"
      if "o_type ob \<in> {TEE_TYPE_ECDSA_KEYPAIR, TEE_TYPE_ECDH_KEYPAIR, TEE_TYPE_SM2_PKE_KEYPAIR}"
      using that Some by (auto simp: OBJ_PROP_def dest: key_tables)
    let ?gen = "if o_type ob \<in> set secret_types then generate_key_secret C ob props sz t1
            else if o_type ob = TEE_TYPE_RSA_KEYPAIR then tee_svc_obj_generate_key_rsa C ob props sz params t1
            else if o_type ob = TEE_TYPE_DSA_KEYPAIR then tee_svc_obj_generate_key_dsa C ob props sz params t1
            else if o_type ob = TEE_TYPE_DH_KEYPAIR then tee_svc_obj_generate_key_dh C ob props sz params t1
            else if o_type ob \<in> {TEE_TYPE_ECDSA_KEYPAIR, TEE_TYPE_ECDH_KEYPAIR, TEE_TYPE_SM2_PKE_KEYPAIR}
            then tee_svc_obj_generate_key_ecc C ob props sz params t1
            else Some (TEE_ERROR_BAD_FORMAT, ob, t1)"
    have "?gen \<noteq> None"
      using generate_secret_defined [OF _ Some ok, of sz t1] generate_bignum_defined [OF v ok Some, of sz params t1]
        generate_ecc_defined [OF Some ecc ok, of sz params t1] by (simp del: not_None_eq)
    then obtain r where "?gen = Some r" by blast
    then show ?thesis
    proof (cases "HF_PERSISTENT \<notin> o_flags ob \<and> HF_INITIALIZED \<notin> o_flags ob \<and> check_key_size C props sz = TEE_SUCCESS \<and>
        a \<noteq> 0 \<and> tee_svc_cryp_check_attr ATTR_USAGE_GENERATE_KEY props params = TEE_SUCCESS")
      case True
      with Inr Some a \<open>?gen = Some r\<close> show ?thesis
        unfolding syscall_obj_generate_key_def Let_def by (cases r) (simp split del: if_split)
    next
      case False
      with Inr Some a show ?thesis unfolding syscall_obj_generate_key_def Let_def by auto
    qed
  qed (use Inr in \<open>simp add: syscall_obj_generate_key_def\<close>)
qed (simp add: syscall_obj_generate_key_def)

text \<open>
  C8. In every state a TA can reach, populating, copying and generating an object return a result whatever the
  arguments are: no call reads the attributes of an object as those of another type, or an object without
  attributes, the behaviours that the C code leaves undefined.
\<close>

theorem svc_objects_defined:
  assumes "generators_ok C" "(svc_step C)\<^sup>*\<^sup>* tee_start t"
  shows "syscall_cryp_obj_populate C obj attrs t \<noteq> None \<and> syscall_cryp_obj_copy C dst src t \<noteq> None \<and>
    syscall_obj_generate_key C obj sz attrs t \<noteq> None"
proof -
  have "svc_inv C t" using svc.reachable_inv [OF assms(2)] assms(1) svc_inv_start by blast
  then show ?thesis by (intro conjI populate_defined copy_defined generate_defined)
qed

theorem svc_objects_defined_witness:
  "generators_ok sample_env \<and> (svc_step sample_env)\<^sup>*\<^sup>* tee_start key_made \<and>
   (\<exists>res t'. syscall_obj_generate_key sample_env 1 128 [] key_made = Some (res, t'))"
proof -
  have "svc_step sample_env tee_start key_made"
    unfolding key_made_def by (rule svc_step.obj_alloc [OF prod.collapse [symmetric]])
  then have r: "(svc_step sample_env)\<^sup>*\<^sup>* tee_start key_made" by simp
  from svc_objects_defined [OF generators_ok_sample r] have "syscall_obj_generate_key sample_env 1 128 [] key_made \<noteq> None"
    by blast
  with r generators_ok_sample show ?thesis by fast
qed

end
