(* ===== verification/Utee_Objects.thy ===== *)
theory Utee_Objects
  imports Tee_Svc_Inv
begin

text \<open>
  The object functions of the TEE internal API (\<^verbatim>\<open>lib/libutee/tee_api_objects.c\<close>), on the services of
  \<^verbatim>\<open>core/tee/tee_svc_cryp.c\<close>. \<^verbatim>\<open>TEE_Panic\<close> does not return: the value is then \<open>None\<close>. The
  annotation checks (\<^verbatim>\<open>__utee_check_*\<close>) are taken to succeed: the buffers the callers pass are their
  own. The functions on persistent objects belong to the storage service and are not modelled.
\<close>

section \<open>Definitions\<close>

text \<open>The guard of a panic.\<close>

definition require :: "bool \<Rightarrow> unit option" where
  "require b = (if b then Some () else None)"

lemma require_simps [simp]: "require True = Some ()" "require False = None"
  by (simp_all add: require_def)

lemma require_bind: "(require b \<bind> f) = (if b then f () else None)"
  by (simp add: require_def)

text \<open>\<^verbatim>\<open>_utee_cryp_obj_get_info\<close>, in the calls that panic when it fails.\<close>

definition TEE_GetObjectInfo :: "nat \<Rightarrow> 'a tee_scheme \<Rightarrow> tee_obj option" where
  "TEE_GetObjectInfo object t =
     (case syscall_cryp_obj_get_info object t of
        Inl e \<Rightarrow> None
      | Inr info \<Rightarrow>
          Some (if o_type info = TEE_TYPE_CORRUPTED_OBJECT
                then info\<lparr>o_keySize := 0, o_maxKeySize := 0, o_usage := 0, o_flags := {}\<rparr> else info))"

definition TEE_GetObjectInfo1 :: "nat \<Rightarrow> 'a tee_scheme \<Rightarrow> (TEE_Result + tee_obj) option" where
  "TEE_GetObjectInfo1 object t =
     (case syscall_cryp_obj_get_info object t of
        Inl e \<Rightarrow> if e \<noteq> TEE_ERROR_CORRUPT_OBJECT \<and> e \<noteq> TEE_ERROR_STORAGE_NOT_AVAILABLE then None else Some (Inl e)
      | Inr info \<Rightarrow> Some (Inr info))"

definition TEE_RestrictObjectUsage1 :: "nat \<Rightarrow> usage \<Rightarrow> 'a tee_scheme \<Rightarrow> (TEE_Result \<times> 'a tee_scheme) option" where
  "TEE_RestrictObjectUsage1 object objectUsage t =
     (case syscall_cryp_obj_restrict_usage object objectUsage t of
        (res, t) \<Rightarrow> do {
          require (res \<in> {TEE_SUCCESS, TEE_ERROR_CORRUPT_OBJECT, TEE_ERROR_STORAGE_NOT_AVAILABLE});
          Some (res, t)
        })"

text \<open>The information of a handle that is not valid is not written: reading it is not defined.\<close>

definition TEE_RestrictObjectUsage :: "nat \<Rightarrow> usage \<Rightarrow> 'a tee_scheme \<Rightarrow> 'a tee_scheme option" where
  "TEE_RestrictObjectUsage object objectUsage t =
     (case syscall_cryp_obj_get_info object t of
        Inl e \<Rightarrow> None
      | Inr info \<Rightarrow>
          if o_type info = TEE_TYPE_CORRUPTED_OBJECT then Some t
          else do {
            (res, t) \<leftarrow> TEE_RestrictObjectUsage1 object objectUsage t;
            require (res = TEE_SUCCESS);
            Some t
          })"

text \<open>The result, the size written back, and the bytes written to the buffer if any.\<close>

definition TEE_GetObjectBufferAttribute ::
    "env \<Rightarrow> nat \<Rightarrow> nat \<Rightarrow> nat \<Rightarrow> 'a tee_scheme \<Rightarrow> (TEE_Result \<times> nat \<times> bytes option) option" where
  "TEE_GetObjectBufferAttribute C object attr_id sz t =
     (case (case syscall_cryp_obj_get_info object t of
              Inl e \<Rightarrow> (e, sz, None)
            | Inr info \<Rightarrow>
                if attr_is_value attr_id then (TEE_ERROR_BAD_PARAMETERS, sz, None)
                else syscall_cryp_obj_get_attr C object attr_id True sz t) of
        (res, sz, out) \<Rightarrow> do {
          require (res \<in> {TEE_SUCCESS, TEE_ERROR_ITEM_NOT_FOUND, TEE_ERROR_SHORT_BUFFER,
                          TEE_ERROR_CORRUPT_OBJECT, TEE_ERROR_STORAGE_NOT_AVAILABLE});
          Some (res, sz, out)
        })"

text \<open>The two values are read from a buffer of two 32-bit words.\<close>

definition TEE_GetObjectValueAttribute ::
    "env \<Rightarrow> nat \<Rightarrow> nat \<Rightarrow> 'a tee_scheme \<Rightarrow> (TEE_Result + nat \<times> nat) option" where
  "TEE_GetObjectValueAttribute C object attr_id t =
     (case (case syscall_cryp_obj_get_info object t of
              Inl e \<Rightarrow> (e, 8, None)
            | Inr info \<Rightarrow>
                if \<not> attr_is_value attr_id then (TEE_ERROR_BAD_PARAMETERS, 8, None)
                else syscall_cryp_obj_get_attr C object attr_id True 8 t) of
        (res, sz, out) \<Rightarrow> do {
          require (res \<in> {TEE_SUCCESS, TEE_ERROR_ITEM_NOT_FOUND, TEE_ERROR_CORRUPT_OBJECT,
                          TEE_ERROR_STORAGE_NOT_AVAILABLE});
          require (sz = 8);
          if res \<noteq> TEE_SUCCESS then Some (Inl res)
          else do {
            buf \<leftarrow> out;
            Some (Inr (un_le32 buf, un_le32 (drop 4 buf)))
          }
        })"

definition TEE_CloseObject :: "nat \<Rightarrow> 'a tee_scheme \<Rightarrow> 'a tee_scheme option" where
  "TEE_CloseObject object t =
     (if object = TEE_HANDLE_NULL then Some t
      else case syscall_cryp_obj_close object t of
             (res, t) \<Rightarrow> do { require (res = TEE_SUCCESS); Some t })"

definition TEE_AllocateTransientObject ::
    "env \<Rightarrow> nat \<Rightarrow> nat \<Rightarrow> 'a tee_scheme \<Rightarrow> ((TEE_Result + nat) \<times> 'a tee_scheme) option" where
  "TEE_AllocateTransientObject C objectType maxKeySize t =
     (case syscall_cryp_obj_alloc C objectType maxKeySize t of
        (Inl e, t) \<Rightarrow> do {
          require (e = TEE_ERROR_OUT_OF_MEMORY \<or> e = TEE_ERROR_NOT_SUPPORTED);
          Some (Inl e, t)
        }
      | (Inr obj, t) \<Rightarrow> Some (Inr obj, t))"

definition TEE_FreeTransientObject :: "nat \<Rightarrow> 'a tee_scheme \<Rightarrow> 'a tee_scheme option" where
  "TEE_FreeTransientObject object t =
     (if object = TEE_HANDLE_NULL then Some t
      else case syscall_cryp_obj_get_info object t of
             Inl e \<Rightarrow> None
           | Inr info \<Rightarrow> do {
               require (HF_PERSISTENT \<notin> o_flags info);
               (case syscall_cryp_obj_close object t of
                  (res, t) \<Rightarrow> do { require (res = TEE_SUCCESS); Some t })
             })"

definition TEE_ResetTransientObject :: "env \<Rightarrow> nat \<Rightarrow> 'a tee_scheme \<Rightarrow> 'a tee_scheme option" where
  "TEE_ResetTransientObject C object t =
     (if object = TEE_HANDLE_NULL then Some t
      else case syscall_cryp_obj_get_info object t of
             Inl e \<Rightarrow> None
           | Inr info \<Rightarrow> do {
               require (HF_PERSISTENT \<notin> o_flags info);
               (case syscall_cryp_obj_reset C object t of
                  (res, t) \<Rightarrow> do { require (res = TEE_SUCCESS); Some t })
             })"

definition TEE_PopulateTransientObject ::
    "env \<Rightarrow> nat \<Rightarrow> TEE_Attribute list \<Rightarrow> 'a tee_scheme \<Rightarrow> (TEE_Result \<times> 'a tee_scheme) option" where
  "TEE_PopulateTransientObject C object attrs t =
     (case syscall_cryp_obj_get_info object t of
        Inl e \<Rightarrow> None
      | Inr info \<Rightarrow> do {
          require (HF_PERSISTENT \<notin> o_flags info);
          require (HF_INITIALIZED \<notin> o_flags info);
          (res, t) \<leftarrow> syscall_cryp_obj_populate C object attrs t;
          require (res = TEE_SUCCESS \<or> res = TEE_ERROR_BAD_PARAMETERS);
          Some (res, t)
        })"

definition TEE_InitRefAttribute :: "nat \<Rightarrow> bytes \<Rightarrow> TEE_Attribute option" where
  "TEE_InitRefAttribute attr_id buffer = do { require (\<not> attr_is_value attr_id); Some (RefAttr attr_id buffer) }"

definition TEE_InitValueAttribute :: "nat \<Rightarrow> nat \<Rightarrow> nat \<Rightarrow> TEE_Attribute option" where
  "TEE_InitValueAttribute attr_id a b = do { require (attr_is_value attr_id); Some (ValAttr attr_id a b) }"

definition TEE_CopyObjectAttributes1 ::
    "env \<Rightarrow> nat \<Rightarrow> nat \<Rightarrow> 'a tee_scheme \<Rightarrow> (TEE_Result \<times> 'a tee_scheme) option" where
  "TEE_CopyObjectAttributes1 C destObject srcObject t =
     do {
       (res, t) \<leftarrow>
         (case (syscall_cryp_obj_get_info destObject t, syscall_cryp_obj_get_info srcObject t) of
            (Inl e, _) \<Rightarrow> Some (e, t)
          | (Inr dst_info, Inl e) \<Rightarrow> Some (e, t)
          | (Inr dst_info, Inr src_info) \<Rightarrow> do {
              require (HF_INITIALIZED \<in> o_flags src_info);
              require (HF_PERSISTENT \<notin> o_flags dst_info);
              require (HF_INITIALIZED \<notin> o_flags dst_info);
              syscall_cryp_obj_copy C destObject srcObject t
            });
       require (res \<in> {TEE_SUCCESS, TEE_ERROR_CORRUPT_OBJECT, TEE_ERROR_STORAGE_NOT_AVAILABLE});
       Some (res, t)
     }"

definition TEE_CopyObjectAttributes :: "env \<Rightarrow> nat \<Rightarrow> nat \<Rightarrow> 'a tee_scheme \<Rightarrow> 'a tee_scheme option" where
  "TEE_CopyObjectAttributes C destObject srcObject t =
     (case syscall_cryp_obj_get_info srcObject t of
        Inl e \<Rightarrow> None
      | Inr info \<Rightarrow>
          if o_type info = TEE_TYPE_CORRUPTED_OBJECT then Some t
          else do {
            (res, t) \<leftarrow> TEE_CopyObjectAttributes1 C destObject srcObject t;
            require (res = TEE_SUCCESS);
            Some t
          })"

definition TEE_GenerateKey ::
    "env \<Rightarrow> nat \<Rightarrow> nat \<Rightarrow> TEE_Attribute list \<Rightarrow> 'a tee_scheme \<Rightarrow> (TEE_Result \<times> 'a tee_scheme) option" where
  "TEE_GenerateKey C object keySize params t = do {
     (res, t) \<leftarrow> syscall_obj_generate_key C object keySize params t;
     require (res = TEE_SUCCESS \<or> res = TEE_ERROR_BAD_PARAMETERS);
     Some (res, t)
   }"

end
