(* ===== verification/Utee_Operations.thy ===== *)
theory Utee_Operations
  imports Utee_Objects
begin

text \<open>
  The cryptographic operations of the TEE internal API (\<^verbatim>\<open>lib/libutee/tee_api_operations.c\<close>). An operation
  handle is the address of a \<^verbatim>\<open>struct __TEE_OperationHandle\<close>, kept in the field \<open>opers\<close> of the state.
  A panic, and the use of a handle that is null or not live, have the value \<open>None\<close>. Where an argument is a
  pointer that the code compares with \<^verbatim>\<open>NULL\<close> although its length may be 0, it is an option.

  The algorithm tables are proved consistent with the list of algorithms the library reports, and the
  buffering of \<^verbatim>\<open>tee_buffer_update\<close> is proved to hand on every byte once, in order and in whole blocks.
\<close>

section \<open>Allocation\<close>

text \<open>The two switches of \<^verbatim>\<open>TEE_AllocateOperation\<close>: the key size, then the mode. The second gives the key
  usage the operation requires, whether its key is private, its block size, whether two blocks are
  buffered, and whether the operation counts as keyed from the start.\<close>

definition op_key_size_ok :: "nat \<Rightarrow> nat \<Rightarrow> bool" where
  "op_key_size_ok algorithm maxKeySize =
     (if algorithm = TEE_ALG_DSA_SHA1 then 512 \<le> maxKeySize \<and> maxKeySize \<le> 1024 \<and> maxKeySize mod 64 = 0
      else if algorithm = TEE_ALG_DSA_SHA224 then maxKeySize = 2048
      else if algorithm = TEE_ALG_DSA_SHA256 then maxKeySize = 2048 \<or> maxKeySize = 3072
      else if algorithm \<in> {TEE_ALG_ECDSA_P192, TEE_ALG_ECDH_P192} then maxKeySize = 192
      else if algorithm \<in> {TEE_ALG_ECDSA_P224, TEE_ALG_ECDH_P224} then maxKeySize = 224
      else if algorithm \<in> {TEE_ALG_ECDSA_P256, TEE_ALG_ECDH_P256, TEE_ALG_SM2_PKE, TEE_ALG_SM2_DSA_SM3}
        then maxKeySize = 256
      else if algorithm = TEE_ALG_SM2_KEP then maxKeySize = 512
      else if algorithm \<in> {TEE_ALG_ECDSA_P384, TEE_ALG_ECDH_P384} then maxKeySize = 384
      else if algorithm \<in> {TEE_ALG_ECDSA_P521, TEE_ALG_ECDH_P521} then maxKeySize = 521
      else True)"

definition alg_block_size :: "nat \<Rightarrow> nat" where
  "alg_block_size algorithm =
     (if tee_alg_get_main_alg algorithm = TEE_MAIN_ALGO_AES then TEE_AES_BLOCK_SIZE
      else if tee_alg_get_main_alg algorithm = TEE_MAIN_ALGO_SM4 then TEE_SM4_BLOCK_SIZE
      else TEE_DES_BLOCK_SIZE)"

record op_profile =
  opp_usage :: usage
  opp_private :: bool
  opp_block :: nat
  opp_two_blocks :: bool
  opp_key_set :: bool

definition op_mode_profile :: "env \<Rightarrow> nat \<Rightarrow> TEE_OperationMode \<Rightarrow> nat \<Rightarrow> op_profile option" where
  "op_mode_profile C algorithm mode maxKeySize =
     (if algorithm \<in> {TEE_ALG_AES_CTS, TEE_ALG_AES_XTS, TEE_ALG_AES_ECB_NOPAD, TEE_ALG_AES_CBC_NOPAD, TEE_ALG_AES_CCM,
           TEE_ALG_DES_ECB_NOPAD, TEE_ALG_DES_CBC_NOPAD, TEE_ALG_DES3_ECB_NOPAD, TEE_ALG_DES3_CBC_NOPAD,
           TEE_ALG_SM4_ECB_NOPAD, TEE_ALG_SM4_CBC_NOPAD, TEE_ALG_SM4_CTR, TEE_ALG_AES_CTR, TEE_ALG_AES_GCM}
      then (let p = \<lparr>opp_usage = 0, opp_private = False,
                     opp_block = (if algorithm \<in> {TEE_ALG_AES_CTR, TEE_ALG_AES_GCM} then 1 else alg_block_size algorithm),
                     opp_two_blocks = algorithm \<in> {TEE_ALG_AES_CTS, TEE_ALG_AES_XTS}, opp_key_set = False\<rparr>
            in if mode = TEE_MODE_ENCRYPT then Some (p\<lparr>opp_usage := TEE_USAGE_ENCRYPT\<rparr>)
               else if mode = TEE_MODE_DECRYPT then Some (p\<lparr>opp_usage := TEE_USAGE_DECRYPT\<rparr>)
               else None)
      else if (CFG_CRYPTO_RSASSA_NA1 \<in> e_cfg C \<and> algorithm = TEE_ALG_RSASSA_PKCS1_V1_5) \<or>
              algorithm \<in> {TEE_ALG_RSASSA_PKCS1_V1_5_MD5, TEE_ALG_RSASSA_PKCS1_V1_5_SHA1,
                TEE_ALG_RSASSA_PKCS1_V1_5_SHA224, TEE_ALG_RSASSA_PKCS1_V1_5_SHA256, TEE_ALG_RSASSA_PKCS1_V1_5_SHA384,
                TEE_ALG_RSASSA_PKCS1_V1_5_SHA512, TEE_ALG_RSASSA_PKCS1_PSS_MGF1_SHA1,
                TEE_ALG_RSASSA_PKCS1_PSS_MGF1_SHA224, TEE_ALG_RSASSA_PKCS1_PSS_MGF1_SHA256,
                TEE_ALG_RSASSA_PKCS1_PSS_MGF1_SHA384, TEE_ALG_RSASSA_PKCS1_PSS_MGF1_SHA512, TEE_ALG_DSA_SHA1,
                TEE_ALG_DSA_SHA224, TEE_ALG_DSA_SHA256, TEE_ALG_ECDSA_P192, TEE_ALG_ECDSA_P224, TEE_ALG_ECDSA_P256,
                TEE_ALG_ECDSA_P384, TEE_ALG_ECDSA_P521, TEE_ALG_SM2_DSA_SM3}
      then (if mode = TEE_MODE_SIGN
            then Some \<lparr>opp_usage = TEE_USAGE_SIGN, opp_private = True, opp_block = 1, opp_two_blocks = False,
                       opp_key_set = False\<rparr>
            else if mode = TEE_MODE_VERIFY
            then Some \<lparr>opp_usage = TEE_USAGE_VERIFY, opp_private = False, opp_block = 1, opp_two_blocks = False,
                       opp_key_set = False\<rparr>
            else None)
      else if algorithm \<in> {TEE_ALG_RSAES_PKCS1_V1_5, TEE_ALG_RSAES_PKCS1_OAEP_MGF1_SHA1,
                TEE_ALG_RSAES_PKCS1_OAEP_MGF1_SHA224, TEE_ALG_RSAES_PKCS1_OAEP_MGF1_SHA256,
                TEE_ALG_RSAES_PKCS1_OAEP_MGF1_SHA384, TEE_ALG_RSAES_PKCS1_OAEP_MGF1_SHA512, TEE_ALG_SM2_PKE}
      then (if mode = TEE_MODE_ENCRYPT
            then Some \<lparr>opp_usage = TEE_USAGE_ENCRYPT, opp_private = False, opp_block = 1, opp_two_blocks = False,
                       opp_key_set = False\<rparr>
            else if mode = TEE_MODE_DECRYPT
            then Some \<lparr>opp_usage = TEE_USAGE_DECRYPT, opp_private = True, opp_block = 1, opp_two_blocks = False,
                       opp_key_set = False\<rparr>
            else None)
      else if algorithm = TEE_ALG_RSA_NOPAD
      then (if mode = TEE_MODE_ENCRYPT
            then Some \<lparr>opp_usage = TEE_USAGE_ENCRYPT OR TEE_USAGE_VERIFY, opp_private = False, opp_block = 1,
                       opp_two_blocks = False, opp_key_set = False\<rparr>
            else if mode = TEE_MODE_DECRYPT
            then Some \<lparr>opp_usage = TEE_USAGE_DECRYPT OR TEE_USAGE_SIGN, opp_private = True, opp_block = 1,
                       opp_two_blocks = False, opp_key_set = False\<rparr>
            else None)
      else if algorithm \<in> {TEE_ALG_DH_DERIVE_SHARED_SECRET, TEE_ALG_ECDH_P192, TEE_ALG_ECDH_P224, TEE_ALG_ECDH_P256,
                TEE_ALG_ECDH_P384, TEE_ALG_ECDH_P521, TEE_ALG_HKDF_MD5_DERIVE_KEY, TEE_ALG_HKDF_SHA1_DERIVE_KEY,
                TEE_ALG_HKDF_SHA224_DERIVE_KEY, TEE_ALG_HKDF_SHA256_DERIVE_KEY, TEE_ALG_HKDF_SHA384_DERIVE_KEY,
                TEE_ALG_HKDF_SHA512_DERIVE_KEY, TEE_ALG_CONCAT_KDF_SHA1_DERIVE_KEY,
                TEE_ALG_CONCAT_KDF_SHA224_DERIVE_KEY, TEE_ALG_CONCAT_KDF_SHA256_DERIVE_KEY,
                TEE_ALG_CONCAT_KDF_SHA384_DERIVE_KEY, TEE_ALG_CONCAT_KDF_SHA512_DERIVE_KEY,
                TEE_ALG_PBKDF2_HMAC_SHA1_DERIVE_KEY, TEE_ALG_SM2_KEP}
      then (if mode \<noteq> TEE_MODE_DERIVE then None
            else Some \<lparr>opp_usage = TEE_USAGE_DERIVE, opp_private = True, opp_block = 1, opp_two_blocks = False,
                       opp_key_set = False\<rparr>)
      else if algorithm \<in> {TEE_ALG_MD5, TEE_ALG_SHA1, TEE_ALG_SHA224, TEE_ALG_SHA256, TEE_ALG_SHA384, TEE_ALG_SHA512,
                TEE_ALG_SM3}
      then (if mode \<noteq> TEE_MODE_DIGEST \<or> maxKeySize \<noteq> 0 then None
            else Some \<lparr>opp_usage = 0, opp_private = False, opp_block = 1, opp_two_blocks = False, opp_key_set = True\<rparr>)
      else if algorithm \<in> {TEE_ALG_DES_CBC_MAC_NOPAD, TEE_ALG_AES_CBC_MAC_NOPAD, TEE_ALG_AES_CBC_MAC_PKCS5,
                TEE_ALG_AES_CMAC, TEE_ALG_DES_CBC_MAC_PKCS5, TEE_ALG_DES3_CBC_MAC_NOPAD, TEE_ALG_DES3_CBC_MAC_PKCS5,
                TEE_ALG_DES3_CMAC, TEE_ALG_HMAC_MD5, TEE_ALG_HMAC_SHA1, TEE_ALG_HMAC_SHA224, TEE_ALG_HMAC_SHA256,
                TEE_ALG_HMAC_SHA384, TEE_ALG_HMAC_SHA512, TEE_ALG_HMAC_SM3}
      then (if mode \<noteq> TEE_MODE_MAC then None
            else Some \<lparr>opp_usage = TEE_USAGE_MAC, opp_private = False, opp_block = 1, opp_two_blocks = False,
                       opp_key_set = False\<rparr>)
      else None)"

definition set_oper :: "nat \<Rightarrow> operation \<Rightarrow> 'a tee_scheme \<Rightarrow> 'a tee_scheme" where
  "set_oper a op t = t\<lparr>opers := (opers t)(a \<mapsto> op)\<rparr>"

text \<open>The keys of the operation are its own key objects. If two keys are expected the maximal key size is
  the sum of both.\<close>

definition alloc_op_keys ::
    "env \<Rightarrow> nat \<Rightarrow> bool \<Rightarrow> bool \<Rightarrow> nat \<Rightarrow> 'a tee_scheme \<Rightarrow> (TEE_Result \<times> nat \<times> nat \<times> 'a tee_scheme) option" where
  "alloc_op_keys C algorithm with_private_key two_keys maxKeySize t =
     (if tee_alg_get_class algorithm = TEE_OPERATION_DIGEST then Some (TEE_SUCCESS, 0, 0, t)
      else do {
        let mks = (if two_keys then maxKeySize div 2 else maxKeySize);
        let key_type = tee_alg_get_key_type algorithm with_private_key;
        (r, t) \<leftarrow> TEE_AllocateTransientObject C key_type mks t;
        (case r of
           Inl e \<Rightarrow> Some (e, 0, 0, t)
         | Inr key1 \<Rightarrow>
             if \<not> two_keys then Some (TEE_SUCCESS, key1, 0, t)
             else do {
               (r, t) \<leftarrow> TEE_AllocateTransientObject C key_type mks t;
               (case r of Inl e \<Rightarrow> Some (e, key1, 0, t) | Inr key2 \<Rightarrow> Some (TEE_SUCCESS, key1, key2, t))
             })
      })"

definition TEE_FreeOperation :: "nat \<Rightarrow> 'a tee_scheme \<Rightarrow> 'a tee_scheme option" where
  "TEE_FreeOperation operation t = do {
     op \<leftarrow> opers t operation;
     (case syscall_cryp_state_free (op_state op) t of
        (res, t) \<Rightarrow> do {
          require (res = TEE_SUCCESS);
          Some (t\<lparr>opers := (opers t)(operation := None)\<rparr>)
        })
   }"

text \<open>The end of \<^verbatim>\<open>TEE_AllocateOperation\<close> when a step fails before the state exists.\<close>

definition alloc_op_undo ::
    "TEE_Result \<Rightarrow> nat \<Rightarrow> nat \<Rightarrow> 'a tee_scheme \<Rightarrow> ((TEE_Result + nat) \<times> 'a tee_scheme) option" where
  "alloc_op_undo res key1 key2 t = do {
     require (res = TEE_ERROR_OUT_OF_MEMORY \<or> res = TEE_ERROR_NOT_SUPPORTED);
     t \<leftarrow> TEE_FreeTransientObject key1 t;
     t \<leftarrow> TEE_FreeTransientObject key2 t;
     Some (Inl res, t)
   }"

text \<open>The buffer is not filled by its allocation; the zeros stand for bytes that are never read.\<close>

definition TEE_AllocateOperation ::
    "env \<Rightarrow> nat \<Rightarrow> TEE_OperationMode \<Rightarrow> nat \<Rightarrow> 'a tee_scheme \<Rightarrow> ((TEE_Result + nat) \<times> 'a tee_scheme) option" where
  "TEE_AllocateOperation C algorithm mode maxKeySize t =
     (if \<not> op_key_size_ok algorithm maxKeySize then Some (Inl TEE_ERROR_NOT_SUPPORTED, t)
      else case op_mode_profile C algorithm mode maxKeySize of
             None \<Rightarrow> Some (Inl TEE_ERROR_NOT_SUPPORTED, t)
           | Some p \<Rightarrow>
               (case alloc C t of
                  (a, t) \<Rightarrow>
                    if a = 0 then Some (Inl TEE_ERROR_OUT_OF_MEMORY, t)
                    else case (if opp_block p > 1 then alloc C t else (1, t)) of
                      (b, t) \<Rightarrow>
                        if b = 0 then alloc_op_undo TEE_ERROR_OUT_OF_MEMORY 0 0 t
                        else do {
                          let two_keys = algorithm \<in> {TEE_ALG_AES_XTS, TEE_ALG_SM2_KEP};
                          (res, key1, key2, t) \<leftarrow>
                            alloc_op_keys C algorithm (opp_private p) two_keys maxKeySize t;
                          if res \<noteq> TEE_SUCCESS then alloc_op_undo res key1 key2 t
                          else case syscall_cryp_state_alloc C algorithm mode key1 key2 t of
                                 (Inl e, t) \<Rightarrow> alloc_op_undo e key1 key2 t
                               | (Inr state, t) \<Rightarrow> do {
                                   let op =
                                     \<lparr>op_algorithm = algorithm,
                                      op_class = (if CFG_CRYPTO_RSASSA_NA1 \<in> e_cfg C \<and> algorithm = TEE_ALG_RSASSA_PKCS1_V1_5
                                                  then TEE_OPERATION_ASYMMETRIC_SIGNATURE else tee_alg_get_class algorithm),
                                      op_mode = mode, op_digestLength = tee_alg_digest_size algorithm,
                                      op_maxKeySize = maxKeySize, op_keySize = 0, op_requiredKeyUsage = opp_usage p,
                                      op_handleState = (if two_keys then {HF_EXPECT_TWO_KEYS} else {}) \<union>
                                                       (if opp_key_set p then {HF_KEY_SET} else {}),
                                      op_key1 = key1, op_key2 = key2, op_operationState = OPERATION_STATE_INITIAL,
                                      op_buffer = (if opp_block p > 1
                                                   then Some (replicate (if opp_two_blocks p then opp_block p * 2
                                                                         else opp_block p) 0)
                                                   else None),
                                      op_buffer_two_blocks = opp_two_blocks p, op_block_size = opp_block p,
                                      op_buffer_offs = 0, op_state = state\<rparr>;
                                   if tee_alg_get_class algorithm \<noteq> TEE_OPERATION_DIGEST then Some (Inr a, set_oper a op t)
                                   else do {
                                     (res, t) \<leftarrow> syscall_hash_init C state t;
                                     if res = TEE_SUCCESS
                                     then Some (Inr a, set_oper a
                                       (op\<lparr>op_handleState := insert HF_INITIALIZED (op_handleState op)\<rparr>) t)
                                     else do {
                                       require (res = TEE_ERROR_OUT_OF_MEMORY \<or> res = TEE_ERROR_NOT_SUPPORTED);
                                       t \<leftarrow> TEE_FreeOperation a (set_oper a op t);
                                       Some (Inl res, t)
                                     }
                                   }
                                 }
                        }))"

section \<open>Information, reset, keys\<close>

definition TEE_GetOperationInfo :: "nat \<Rightarrow> 'a tee_scheme \<Rightarrow> operation option" where
  "TEE_GetOperationInfo operation t = do {
     op \<leftarrow> opers t operation;
     Some (if HF_EXPECT_TWO_KEYS \<in> op_handleState op then op\<lparr>op_keySize := 0, op_requiredKeyUsage := 0\<rparr> else op)
   }"

text \<open>The header of the result has 32 bytes, the description of a key 8. The list holds the size and the
  usage of each key.\<close>

definition TEE_GetOperationInfoMultiple ::
    "nat \<Rightarrow> nat \<Rightarrow> 'a tee_scheme \<Rightarrow> (TEE_Result + operation \<times> (nat \<times> usage) list) option" where
  "TEE_GetOperationInfoMultiple operation sz t = do {
     op \<leftarrow> opers t operation;
     require (32 \<le> sz);
     let max_key_count = (sz - 32) div 8;
     let two_keys = HF_EXPECT_TWO_KEYS \<in> op_handleState op;
     if op_mode op = TEE_MODE_DIGEST then Some (Inr (op, []))
     else if \<not> two_keys
     then if max_key_count < 1 then Some (Inl TEE_ERROR_SHORT_BUFFER)
          else (case TEE_GetObjectInfo1 (op_key1 op) t of
                  Some (Inr kinfo) \<Rightarrow> Some (Inr (op, [(o_keySize kinfo, op_requiredKeyUsage op)]))
                | _ \<Rightarrow> None)
     else if max_key_count < 2 then Some (Inl TEE_ERROR_SHORT_BUFFER)
     else (case (TEE_GetObjectInfo1 (op_key1 op) t, TEE_GetObjectInfo1 (op_key2 op) t) of
             (Some (Inr kinfo), Some (Inr kinfo2)) \<Rightarrow>
               Some (Inr (op, [(o_keySize kinfo, op_requiredKeyUsage op), (o_keySize kinfo2, op_requiredKeyUsage op)]))
           | _ \<Rightarrow> None)
   }"

definition TEE_ResetOperation :: "env \<Rightarrow> nat \<Rightarrow> 'a tee_scheme \<Rightarrow> 'a tee_scheme option" where
  "TEE_ResetOperation C operation t = do {
     op \<leftarrow> opers t operation;
     require (HF_KEY_SET \<in> op_handleState op);
     let op = op\<lparr>op_operationState := OPERATION_STATE_INITIAL\<rparr>;
     if op_class op = TEE_OPERATION_DIGEST
     then do {
       (res, t) \<leftarrow> syscall_hash_init C (op_state op) t;
       require (res = TEE_SUCCESS);
       Some (set_oper operation (op\<lparr>op_handleState := insert HF_INITIALIZED (op_handleState op)\<rparr>) t)
     }
     else Some (set_oper operation (op\<lparr>op_handleState := op_handleState op - {HF_INITIALIZED}\<rparr>) t)
   }"

definition TEE_SetOperationKey ::
    "env \<Rightarrow> nat \<Rightarrow> nat \<Rightarrow> 'a tee_scheme \<Rightarrow> (TEE_Result \<times> 'a tee_scheme) option" where
  "TEE_SetOperationKey C operation key t = do {
     op \<leftarrow> opers t operation;
     require (op_operationState op = OPERATION_STATE_INITIAL);
     if key = TEE_HANDLE_NULL
     then do {
       t \<leftarrow> TEE_ResetTransientObject C (op_key1 op) t;
       Some (TEE_SUCCESS, set_oper operation (op\<lparr>op_handleState := op_handleState op - {HF_KEY_SET}\<rparr>) t)
     }
     else do {
       require (op_class op \<noteq> TEE_OPERATION_DIGEST);
       require (HF_EXPECT_TWO_KEYS \<notin> op_handleState op);
       r \<leftarrow> TEE_GetObjectInfo1 key t;
       (case r of
          Inl e \<Rightarrow> Some (e, t)
        | Inr key_info \<Rightarrow> do {
            require (o_usage key_info AND op_requiredKeyUsage op = op_requiredKeyUsage op);
            require (o_keySize key_info \<le> op_maxKeySize op);
            t \<leftarrow> TEE_ResetTransientObject C (op_key1 op) t;
            let op = op\<lparr>op_handleState := op_handleState op - {HF_KEY_SET}\<rparr>;
            (res, t) \<leftarrow> TEE_CopyObjectAttributes1 C (op_key1 op) key t;
            Some (res, set_oper operation
              (if res = TEE_SUCCESS
               then op\<lparr>op_handleState := insert HF_KEY_SET (op_handleState op), op_keySize := o_keySize key_info\<rparr>
               else op) t)
          })
     }
   }"

definition TEE_SetOperationKey2 ::
    "env \<Rightarrow> nat \<Rightarrow> nat \<Rightarrow> nat \<Rightarrow> 'a tee_scheme \<Rightarrow> (TEE_Result \<times> 'a tee_scheme) option" where
  "TEE_SetOperationKey2 C operation key1 key2 t = do {
     op \<leftarrow> opers t operation;
     require (op_operationState op = OPERATION_STATE_INITIAL);
     if key1 = TEE_HANDLE_NULL \<and> key2 = TEE_HANDLE_NULL
     then do {
       t \<leftarrow> TEE_ResetTransientObject C (op_key1 op) t;
       t \<leftarrow> TEE_ResetTransientObject C (op_key2 op) t;
       Some (TEE_SUCCESS, set_oper operation (op\<lparr>op_handleState := op_handleState op - {HF_KEY_SET}\<rparr>) t)
     }
     else do {
       require (key1 \<noteq> TEE_HANDLE_NULL \<and> key2 \<noteq> TEE_HANDLE_NULL);
       require (op_class op \<noteq> TEE_OPERATION_DIGEST);
       require (HF_EXPECT_TWO_KEYS \<in> op_handleState op);
       r \<leftarrow> TEE_GetObjectInfo1 key1 t;
       (case r of
          Inl e \<Rightarrow> Some (e, t)
        | Inr key_info1 \<Rightarrow> do {
            require (o_usage key_info1 AND op_requiredKeyUsage op = op_requiredKeyUsage op);
            r \<leftarrow> TEE_GetObjectInfo1 key2 t;
            (case r of
               Inl e \<Rightarrow> Some (if e = TEE_ERROR_CORRUPT_OBJECT then TEE_ERROR_CORRUPT_OBJECT_2 else e, t)
             | Inr key_info2 \<Rightarrow> do {
                 require (o_usage key_info2 AND op_requiredKeyUsage op = op_requiredKeyUsage op);
                 require (o_keySize key_info1 = o_keySize key_info2);
                 require (o_keySize key_info1 \<le> op_maxKeySize op);
                 t \<leftarrow> TEE_ResetTransientObject C (op_key1 op) t;
                 t \<leftarrow> TEE_ResetTransientObject C (op_key2 op) t;
                 let op = op\<lparr>op_handleState := op_handleState op - {HF_KEY_SET}\<rparr>;
                 (res, t) \<leftarrow> TEE_CopyObjectAttributes1 C (op_key1 op) key1 t;
                 if res \<noteq> TEE_SUCCESS then Some (res, set_oper operation op t)
                 else do {
                   (res, t) \<leftarrow> TEE_CopyObjectAttributes1 C (op_key2 op) key2 t;
                   if res \<noteq> TEE_SUCCESS
                   then Some (if res = TEE_ERROR_CORRUPT_OBJECT then TEE_ERROR_CORRUPT_OBJECT_2 else res,
                              set_oper operation op t)
                   else Some (TEE_SUCCESS, set_oper operation
                     (op\<lparr>op_handleState := insert HF_KEY_SET (op_handleState op), op_keySize := o_keySize key_info1\<rparr>) t)
                 }
               })
          })
     }
   }"

text \<open>A copy of \<open>n\<close> bytes to an offset of the buffer of an operation; one that does not fit overruns it.\<close>

definition op_store :: "operation \<Rightarrow> nat \<Rightarrow> bytes \<Rightarrow> operation option" where
  "op_store op offs b =
     (if b = [] then Some op
      else case op_buffer op of
             None \<Rightarrow> None
           | Some buf \<Rightarrow>
               if offs + length b \<le> length buf
               then Some (op\<lparr>op_buffer := Some (take offs buf @ b @ drop (offs + length b) buf)\<rparr>) else None)"

definition op_load :: "operation \<Rightarrow> nat \<Rightarrow> nat \<Rightarrow> bytes option" where
  "op_load op offs n =
     (if n = 0 then Some []
      else case op_buffer op of
             None \<Rightarrow> None
           | Some buf \<Rightarrow> if offs + n \<le> length buf then Some (take n (drop offs buf)) else None)"

definition TEE_CopyOperation :: "env \<Rightarrow> nat \<Rightarrow> nat \<Rightarrow> 'a tee_scheme \<Rightarrow> 'a tee_scheme option" where
  "TEE_CopyOperation C dst_op src_op t = do {
     dst \<leftarrow> opers t dst_op;
     src \<leftarrow> opers t src_op;
     require (op_algorithm dst = op_algorithm src);
     require (op_mode dst = op_mode src);
     t \<leftarrow> (if op_class src \<noteq> TEE_OPERATION_DIGEST
          then do {
            let key1 = (if HF_KEY_SET \<in> op_handleState src then op_key1 src else TEE_HANDLE_NULL);
            let key2 = (if HF_KEY_SET \<in> op_handleState src then op_key2 src else TEE_HANDLE_NULL);
            (res, t) \<leftarrow> (if HF_EXPECT_TWO_KEYS \<notin> op_handleState src then TEE_SetOperationKey C dst_op key1 t
                        else TEE_SetOperationKey2 C dst_op key1 key2 t);
            Some t
          }
          else Some t);
     dst \<leftarrow> opers t dst_op;
     src \<leftarrow> opers t src_op;
     let dst = dst\<lparr>op_handleState := op_handleState src, op_keySize := op_keySize src,
                  op_digestLength := op_digestLength src, op_operationState := op_operationState src\<rparr>;
     require (op_buffer_two_blocks dst = op_buffer_two_blocks src \<and>
              op_block_size dst = op_block_size src);
     dst \<leftarrow> (if op_buffer dst \<noteq> None
            then do {
              require (op_buffer src \<noteq> None);
              b \<leftarrow> op_load src 0 (op_buffer_offs src);
              dst \<leftarrow> op_store dst 0 b;
              Some (dst\<lparr>op_buffer_offs := op_buffer_offs src\<rparr>)
            }
            else do { require (op_buffer src = None); Some dst });
     (case syscall_cryp_state_copy (op_state dst) (op_state src) (set_oper dst_op dst t) of
        (res, t) \<Rightarrow> do { require (res = TEE_SUCCESS); Some t })
   }"

section \<open>Digests\<close>

definition init_hash_operation :: "env \<Rightarrow> nat \<Rightarrow> 'a tee_scheme \<Rightarrow> 'a tee_scheme option" where
  "init_hash_operation C operation t = do {
     op \<leftarrow> opers t operation;
     (res, t) \<leftarrow> syscall_hash_init C (op_state op) t;
     require (res = TEE_SUCCESS);
     Some (set_oper operation
       (op\<lparr>op_buffer_offs := 0, op_handleState := insert HF_INITIALIZED (op_handleState op)\<rparr>) t)
   }"

definition TEE_DigestUpdate :: "nat \<Rightarrow> bytes \<Rightarrow> 'a tee_scheme \<Rightarrow> 'a tee_scheme option" where
  "TEE_DigestUpdate operation chunk t = do {
     op \<leftarrow> opers t operation;
     require (op_class op = TEE_OPERATION_DIGEST);
     (res, t) \<leftarrow> syscall_hash_update (op_state op) chunk
       (set_oper operation (op\<lparr>op_operationState := OPERATION_STATE_ACTIVE\<rparr>) t);
     require (res = TEE_SUCCESS);
     Some t
   }"

text \<open>A length the service does not write back stays as it was.\<close>

definition len_back :: "nat option \<Rightarrow> nat \<Rightarrow> nat" where
  "len_back n len = (case n of None \<Rightarrow> len | Some n \<Rightarrow> n)"

text \<open>The result, the bytes written, the length written back.\<close>

definition TEE_DigestDoFinal ::
    "env \<Rightarrow> nat \<Rightarrow> bytes \<Rightarrow> nat \<Rightarrow> 'a tee_scheme \<Rightarrow> (TEE_Result \<times> bytes \<times> nat \<times> 'a tee_scheme) option" where
  "TEE_DigestDoFinal C operation chunk hashLen t = do {
     op \<leftarrow> opers t operation;
     require (op_class op = TEE_OPERATION_DIGEST);
     (res, hash, hl, t) \<leftarrow> syscall_hash_final C (op_state op) chunk hashLen t;
     if res \<noteq> TEE_SUCCESS
     then do { require (res = TEE_ERROR_SHORT_BUFFER); Some (res, hash, len_back hl hashLen, t) }
     else do {
       t \<leftarrow> init_hash_operation C operation t;
       op \<leftarrow> opers t operation;
       Some (TEE_SUCCESS, hash, len_back hl hashLen,
             set_oper operation (op\<lparr>op_operationState := OPERATION_STATE_INITIAL\<rparr>) t)
     }
   }"

section \<open>Symmetric ciphers\<close>

definition TEE_CipherInit :: "env \<Rightarrow> nat \<Rightarrow> bytes \<Rightarrow> 'a tee_scheme \<Rightarrow> 'a tee_scheme option" where
  "TEE_CipherInit C operation IV t = do {
     op \<leftarrow> opers t operation;
     require (op_class op = TEE_OPERATION_CIPHER);
     require (HF_KEY_SET \<in> op_handleState op \<and> op_key1 op \<noteq> TEE_HANDLE_NULL);
     t \<leftarrow> (if op_operationState op \<noteq> OPERATION_STATE_INITIAL then TEE_ResetOperation C operation t else Some t);
     op \<leftarrow> opers t operation;
     (res, t) \<leftarrow> syscall_cipher_init C (op_state op) IV t;
     require (res = TEE_SUCCESS);
     Some (set_oper operation
       (op\<lparr>op_operationState := OPERATION_STATE_ACTIVE, op_buffer_offs := 0,
          op_handleState := insert HF_INITIALIZED (op_handleState op)\<rparr>) t)
   }"

text \<open>\<^verbatim>\<open>ROUNDUP\<close> for the block sizes, which are powers of two.\<close>

definition ROUNDUP :: "nat \<Rightarrow> nat \<Rightarrow> nat" where
  "ROUNDUP v sz = (v + sz - 1) div sz * sz"

text \<open>The parts of \<^verbatim>\<open>tee_buffer_update\<close>, in the order of the code. The update function takes the bytes and the
  room left at the destination and gives its result, the bytes it wrote and the length it reports. Filling up a
  block: the operation, the rest of the input, and whether there is nothing left to do.\<close>

definition buffer_size :: "operation \<Rightarrow> nat" where
  "buffer_size op = (if op_buffer_two_blocks op then op_block_size op * 2 else op_block_size op)"

definition buffer_left :: "operation \<Rightarrow> nat" where
  "buffer_left op = (if op_buffer_two_blocks op then 1 else 0)"

definition buffer_fill :: "operation \<Rightarrow> bytes \<Rightarrow> (operation \<times> bytes \<times> bool) option" where
  "buffer_fill op src =
     (if op_buffer_offs op > 0
      then do {
        let l = (if op_buffer_offs op < op_block_size op
                 then min (length src) (op_block_size op - op_buffer_offs op)
                 else min (length src) (buffer_size op - op_buffer_offs op));
        op' \<leftarrow> op_store op (op_buffer_offs op) (take l src);
        let op' = op'\<lparr>op_buffer_offs := op_buffer_offs op + l\<rparr>;
        Some (op', drop l src, op_buffer_offs op' mod op_block_size op \<noteq> 0)
      }
      else Some (op, src, False))"

text \<open>Feeding from the buffer: the operation, the rest of the input, the room left, the accumulated length,
  the bytes written, the state, and whether there is nothing left to do.\<close>

definition buffer_flush ::
    "(bytes \<Rightarrow> nat \<Rightarrow> 's \<Rightarrow> (TEE_Result \<times> bytes \<times> nat \<times> 's) option) \<Rightarrow> operation \<Rightarrow> bytes \<Rightarrow> nat \<Rightarrow> 's \<Rightarrow>
       (operation \<times> bytes \<times> nat \<times> nat \<times> bytes \<times> 's \<times> bool) option" where
  "buffer_flush update_func op src dlen s =
     (if op_buffer_offs op > 0 \<and> op_buffer_offs op + length src \<ge> buffer_size op + buffer_left op
      then do {
        let l = min (op_buffer_offs op)
                    (ROUNDUP (op_buffer_offs op + length src - buffer_size op) (op_block_size op));
        b \<leftarrow> op_load op 0 l;
        (res, out, tmp_dlen, s) \<leftarrow> update_func b dlen s;
        require (res = TEE_SUCCESS);
        let offs = op_buffer_offs op - l;
        if offs > 0
        then do {
          rest \<leftarrow> op_load op l (buffer_size op - l);
          op \<leftarrow> op_store op 0 rest;
          op \<leftarrow> op_store op offs src;
          Some (op\<lparr>op_buffer_offs := offs + length src\<rparr>, [], dlen - tmp_dlen, tmp_dlen, out, s, True)
        }
        else Some (op\<lparr>op_buffer_offs := offs\<rparr>, src, dlen - tmp_dlen, tmp_dlen, out, s, False)
      }
      else Some (op, src, dlen, 0, [], s, False))"

text \<open>Feeding from the input and keeping the rest: the length, the bytes written, the operation, the state.\<close>

definition buffer_direct ::
    "(bytes \<Rightarrow> nat \<Rightarrow> 's \<Rightarrow> (TEE_Result \<times> bytes \<times> nat \<times> 's) option) \<Rightarrow> operation \<Rightarrow> bytes \<Rightarrow> nat \<Rightarrow> 's \<Rightarrow>
       (nat \<times> bytes \<times> operation \<times> 's) option" where
  "buffer_direct update_func op src dlen s = do {
     (src, n, out, s) \<leftarrow>
       (if length src \<ge> buffer_size op + buffer_left op
        then do {
          let l = (if op_algorithm op = TEE_ALG_AES_CTS then ROUNDUP (length src - buffer_size op) (op_block_size op)
                   else ROUNDUP (length src - buffer_size op + 1) (op_block_size op));
          (res, out, tmp_dlen, s) \<leftarrow> update_func (take l src) dlen s;
          require (res = TEE_SUCCESS);
          Some (drop l src, tmp_dlen, out, s)
        }
        else Some (src, 0, [], s));
     op' \<leftarrow> op_store op (op_buffer_offs op) src;
     Some (n, out, op'\<lparr>op_buffer_offs := op_buffer_offs op + length src\<rparr>, s)
   }"

text \<open>The whole function; it never returns an error: one from the update function is a panic.\<close>

definition tee_buffer_update ::
    "(bytes \<Rightarrow> nat \<Rightarrow> 's \<Rightarrow> (TEE_Result \<times> bytes \<times> nat \<times> 's) option) \<Rightarrow> operation \<Rightarrow> bytes option \<Rightarrow> nat \<Rightarrow> 's \<Rightarrow>
       (nat \<times> bytes \<times> operation \<times> 's) option" where
  "tee_buffer_update update_func op src_data dlen s =
     (case src_data of
        None \<Rightarrow> Some (0, [], op, s)
      | Some src \<Rightarrow> do {
          (op, src, stop) \<leftarrow> buffer_fill op src;
          if stop then Some (0, [], op, s)
          else do {
            (op, src, dlen, acc_dlen, dst, s, stop) \<leftarrow> buffer_flush update_func op src dlen s;
            if stop then Some (acc_dlen, dst, op, s)
            else do {
              (tmp_dlen, out, op, s) \<leftarrow> buffer_direct update_func op src dlen s;
              Some (acc_dlen + tmp_dlen, dst @ out, op, s)
            }
          }
        })"

text \<open>The update functions that the callers pass.\<close>

definition utee_cipher_update ::
    "env \<Rightarrow> nat \<Rightarrow> bytes \<Rightarrow> nat \<Rightarrow> 'a tee_scheme \<Rightarrow> (TEE_Result \<times> bytes \<times> nat \<times> 'a tee_scheme) option" where
  "utee_cipher_update C state src dlen t = do {
     (res, out, n, t) \<leftarrow> syscall_cipher_update C state src (Some dlen) t;
     Some (res, out, len_back n dlen, t)
   }"

definition utee_cipher_final ::
    "env \<Rightarrow> nat \<Rightarrow> bytes \<Rightarrow> nat \<Rightarrow> 'a tee_scheme \<Rightarrow> (TEE_Result \<times> bytes \<times> nat \<times> 'a tee_scheme) option" where
  "utee_cipher_final C state src dlen t = do {
     (res, out, n, t) \<leftarrow> syscall_cipher_final C state src (Some dlen) t;
     Some (res, out, len_back n dlen, t)
   }"

text \<open>The room \<^verbatim>\<open>TEE_CipherUpdate\<close> requires at the destination.\<close>

definition cipher_req_dlen :: "operation \<Rightarrow> nat \<Rightarrow> nat" where
  "cipher_req_dlen op srcLen =
     (let req_dlen = (if op_block_size op > 1
                      then (op_buffer_offs op + srcLen) div op_block_size op * op_block_size op else srcLen)
      in if op_buffer_two_blocks op
         then (if req_dlen > op_block_size op * 2 then req_dlen - op_block_size op * 2 else 0) else req_dlen)"

definition TEE_CipherUpdate ::
    "env \<Rightarrow> nat \<Rightarrow> bytes option \<Rightarrow> nat \<Rightarrow> 'a tee_scheme \<Rightarrow> (TEE_Result \<times> bytes \<times> nat \<times> 'a tee_scheme) option" where
  "TEE_CipherUpdate C operation srcData destLen t = do {
     op \<leftarrow> opers t operation;
     require (op_class op = TEE_OPERATION_CIPHER);
     require (HF_INITIALIZED \<in> op_handleState op);
     require (op_operationState op = OPERATION_STATE_ACTIVE);
     (case srcData of
        None \<Rightarrow> Some (TEE_SUCCESS, [], 0, t)
      | Some src \<Rightarrow>
          if destLen < cipher_req_dlen op (length src)
          then Some (TEE_ERROR_SHORT_BUFFER, [], cipher_req_dlen op (length src), t)
          else if op_block_size op > 1
          then do {
            (dl, out, op, t) \<leftarrow> tee_buffer_update (utee_cipher_update C (op_state op)) op srcData destLen t;
            Some (TEE_SUCCESS, out, dl, set_oper operation op t)
          }
          else if src = [] then Some (TEE_SUCCESS, [], 0, t)
          else do {
            (res, out, dl, t) \<leftarrow> utee_cipher_update C (op_state op) src destLen t;
            require (res = TEE_SUCCESS \<or> res = TEE_ERROR_SHORT_BUFFER);
            Some (res, out, dl, t)
          })
   }"

text \<open>\<^verbatim>\<open>destLen\<close> may be null.\<close>

definition TEE_CipherDoFinal ::
    "env \<Rightarrow> nat \<Rightarrow> bytes \<Rightarrow> nat option \<Rightarrow> 'a tee_scheme \<Rightarrow>
       (TEE_Result \<times> bytes \<times> nat option \<times> 'a tee_scheme) option" where
  "TEE_CipherDoFinal C operation src destLen t = do {
     op \<leftarrow> opers t operation;
     require (op_class op = TEE_OPERATION_CIPHER);
     require (HF_INITIALIZED \<in> op_handleState op);
     require (op_operationState op = OPERATION_STATE_ACTIVE);
     require (op_algorithm op \<in> {TEE_ALG_AES_ECB_NOPAD, TEE_ALG_AES_CBC_NOPAD, TEE_ALG_DES_ECB_NOPAD,
                TEE_ALG_DES_CBC_NOPAD, TEE_ALG_DES3_ECB_NOPAD, TEE_ALG_DES3_CBC_NOPAD, TEE_ALG_SM4_ECB_NOPAD,
                TEE_ALG_SM4_CBC_NOPAD} \<longrightarrow>
              (op_buffer_offs op + length src) mod op_block_size op = 0);
     let req_dlen = (if op_block_size op > 1 then op_buffer_offs op + length src else length src);
     let tmp_dlen = (case destLen of None \<Rightarrow> 0 | Some n \<Rightarrow> n);
     if tmp_dlen < req_dlen then Some (TEE_ERROR_SHORT_BUFFER, [], map_option (\<lambda>n. req_dlen) destLen, t)
     else do {
       (res, out, acc_dlen, op, t) \<leftarrow>
         (if op_block_size op > 1
          then do {
            (acc_dlen, dst, op, t, tmp_dlen) \<leftarrow>
              (if src \<noteq> []
               then do {
                 (n, dst, op, t) \<leftarrow> tee_buffer_update (utee_cipher_update C (op_state op)) op (Some src) tmp_dlen t;
                 destLen \<leftarrow> destLen;
                 Some (n, dst, op, t, destLen - n)
               }
               else Some (0, [], op, t, tmp_dlen));
            b \<leftarrow> op_load op 0 (op_buffer_offs op);
            (res, out, n, t) \<leftarrow> utee_cipher_final C (op_state op) b tmp_dlen t;
            Some (res, dst @ out, acc_dlen + n, op, t)
          }
          else do {
            (res, out, n, t) \<leftarrow> utee_cipher_final C (op_state op) src tmp_dlen t;
            Some (res, out, n, op, t)
          });
       if res \<noteq> TEE_SUCCESS
       then do { require (res = TEE_ERROR_SHORT_BUFFER); Some (res, out, destLen, set_oper operation op t) }
       else Some (TEE_SUCCESS, out, map_option (\<lambda>n. acc_dlen) destLen,
              set_oper operation
                (op\<lparr>op_handleState := op_handleState op - {HF_INITIALIZED},
                   op_operationState := OPERATION_STATE_INITIAL\<rparr>) t)
     }
   }"

section \<open>Message authentication codes\<close>

definition TEE_MACInit :: "env \<Rightarrow> nat \<Rightarrow> 'a tee_scheme \<Rightarrow> 'a tee_scheme option" where
  "TEE_MACInit C operation t = do {
     op \<leftarrow> opers t operation;
     require (op_class op = TEE_OPERATION_MAC);
     require (HF_KEY_SET \<in> op_handleState op \<and> op_key1 op \<noteq> TEE_HANDLE_NULL);
     t \<leftarrow> (if op_operationState op \<noteq> OPERATION_STATE_INITIAL then TEE_ResetOperation C operation t else Some t);
     op \<leftarrow> opers t operation;
     init_hash_operation C operation (set_oper operation (op\<lparr>op_operationState := OPERATION_STATE_ACTIVE\<rparr>) t)
   }"

definition TEE_MACUpdate :: "nat \<Rightarrow> bytes \<Rightarrow> 'a tee_scheme \<Rightarrow> 'a tee_scheme option" where
  "TEE_MACUpdate operation chunk t = do {
     op \<leftarrow> opers t operation;
     require (op_class op = TEE_OPERATION_MAC);
     require (HF_INITIALIZED \<in> op_handleState op);
     require (op_operationState op = OPERATION_STATE_ACTIVE);
     (res, t) \<leftarrow> syscall_hash_update (op_state op) chunk t;
     require (res = TEE_SUCCESS);
     Some t
   }"

definition TEE_MACComputeFinal ::
    "env \<Rightarrow> nat \<Rightarrow> bytes \<Rightarrow> nat \<Rightarrow> 'a tee_scheme \<Rightarrow> (TEE_Result \<times> bytes \<times> nat \<times> 'a tee_scheme) option" where
  "TEE_MACComputeFinal C operation message macLen t = do {
     op \<leftarrow> opers t operation;
     require (op_class op = TEE_OPERATION_MAC);
     require (HF_INITIALIZED \<in> op_handleState op);
     require (op_operationState op = OPERATION_STATE_ACTIVE);
     (res, mac, ml, t) \<leftarrow> syscall_hash_final C (op_state op) message macLen t;
     if res \<noteq> TEE_SUCCESS
     then do { require (res = TEE_ERROR_SHORT_BUFFER); Some (res, mac, len_back ml macLen, t) }
     else Some (TEE_SUCCESS, mac, len_back ml macLen,
            set_oper operation
              (op\<lparr>op_handleState := op_handleState op - {HF_INITIALIZED},
                 op_operationState := OPERATION_STATE_INITIAL\<rparr>) t)
   }"

definition TEE_MACCompareFinal ::
    "env \<Rightarrow> nat \<Rightarrow> bytes \<Rightarrow> bytes \<Rightarrow> 'a tee_scheme \<Rightarrow> (TEE_Result \<times> 'a tee_scheme) option" where
  "TEE_MACCompareFinal C operation message mac t = do {
     op \<leftarrow> opers t operation;
     require (op_class op = TEE_OPERATION_MAC);
     require (HF_INITIALIZED \<in> op_handleState op);
     require (op_operationState op = OPERATION_STATE_ACTIVE);
     (res, computed_mac, computed_mac_size, t) \<leftarrow> TEE_MACComputeFinal C operation message TEE_MAX_HASH_SIZE t;
     require (res = TEE_SUCCESS);
     if computed_mac_size \<noteq> length mac then Some (TEE_ERROR_MAC_INVALID, t)
     else if mac \<noteq> take computed_mac_size computed_mac then Some (TEE_ERROR_MAC_INVALID, t)
     else do {
       op \<leftarrow> opers t operation;
       Some (TEE_SUCCESS, set_oper operation (op\<lparr>op_operationState := OPERATION_STATE_INITIAL\<rparr>) t)
     }
   }"

section \<open>Authenticated encryption\<close>

definition TEE_AEInit ::
    "env \<Rightarrow> nat \<Rightarrow> bytes \<Rightarrow> nat \<Rightarrow> 'a tee_scheme \<Rightarrow> (TEE_Result \<times> 'a tee_scheme) option" where
  "TEE_AEInit C operation nonce tagLen t = do {
     op \<leftarrow> opers t operation;
     require (op_class op = TEE_OPERATION_AE);
     require (op_operationState op = OPERATION_STATE_INITIAL);
     if op_algorithm op = TEE_ALG_AES_GCM \<and> (tagLen < 96 \<or> tagLen > 128 \<or> tagLen mod 8 \<noteq> 0)
     then Some (TEE_ERROR_NOT_SUPPORTED, t)
     else do {
       (res, t) \<leftarrow> syscall_authenc_init C (op_state op) nonce (tagLen div 8) t;
       if res \<noteq> TEE_SUCCESS then do { require (res = TEE_ERROR_NOT_SUPPORTED); Some (res, t) }
       else Some (TEE_SUCCESS, set_oper operation
              (op\<lparr>op_digestLength := tagLen div 8, op_buffer_offs := 0,
                 op_handleState := insert HF_INITIALIZED (op_handleState op)\<rparr>) t)
     }
   }"

definition TEE_AEUpdateAAD :: "nat \<Rightarrow> nat \<Rightarrow> bytes \<Rightarrow> 'a tee_scheme \<Rightarrow> 'a tee_scheme option" where
  "TEE_AEUpdateAAD operation addr AADdata t = do {
     op \<leftarrow> opers t operation;
     require (op_class op = TEE_OPERATION_AE);
     require (HF_INITIALIZED \<in> op_handleState op);
     (res, t) \<leftarrow> syscall_authenc_update_aad (op_state op) addr AADdata t;
     require (res = TEE_SUCCESS);
     Some (set_oper operation (op\<lparr>op_operationState := OPERATION_STATE_ACTIVE\<rparr>) t)
   }"

definition TEE_AEUpdate ::
    "env \<Rightarrow> nat \<Rightarrow> bytes option \<Rightarrow> nat \<Rightarrow> 'a tee_scheme \<Rightarrow> (TEE_Result \<times> bytes \<times> nat \<times> 'a tee_scheme) option" where
  "TEE_AEUpdate C operation srcData destLen t = do {
     op \<leftarrow> opers t operation;
     require (op_class op = TEE_OPERATION_AE);
     require (HF_INITIALIZED \<in> op_handleState op);
     (case srcData of
        None \<Rightarrow> Some (TEE_SUCCESS, [], 0, t)
      | Some src \<Rightarrow> do {
          let req_dlen = (if op_block_size op > 1
                          then (op_buffer_offs op + length src) div op_block_size op * op_block_size op
                          else length src);
          if destLen < req_dlen then Some (TEE_ERROR_SHORT_BUFFER, [], req_dlen, t)
          else do {
            (res, dl, out, op, t) \<leftarrow>
              (if op_block_size op > 1
               then do {
                 (dl, out, op, t) \<leftarrow>
                   tee_buffer_update (syscall_authenc_update_payload C (op_state op)) op srcData destLen t;
                 Some (TEE_SUCCESS, dl, out, op, t)
               }
               else if src = [] then Some (TEE_SUCCESS, 0, [], op, t)
               else do {
                 (res, out, dl, t) \<leftarrow> syscall_authenc_update_payload C (op_state op) src destLen t;
                 Some (res, dl, out, op, t)
               });
            if res \<noteq> TEE_SUCCESS then do { require (res = TEE_ERROR_SHORT_BUFFER); Some (res, out, destLen, t) }
            else Some (TEE_SUCCESS, out, dl, set_oper operation (op\<lparr>op_operationState := OPERATION_STATE_ACTIVE\<rparr>) t)
          }
        })
   }"

text \<open>The result, the output, its length, the tag and its length.\<close>

definition TEE_AEEncryptFinal ::
    "env \<Rightarrow> nat \<Rightarrow> bytes option \<Rightarrow> nat \<Rightarrow> nat \<Rightarrow> 'a tee_scheme \<Rightarrow>
       (TEE_Result \<times> bytes \<times> nat \<times> bytes \<times> nat \<times> 'a tee_scheme) option" where
  "TEE_AEEncryptFinal C operation srcData destLen tagLen t = do {
     op \<leftarrow> opers t operation;
     require (op_class op = TEE_OPERATION_AE);
     require (HF_INITIALIZED \<in> op_handleState op);
     let src = (case srcData of None \<Rightarrow> [] | Some src \<Rightarrow> src);
     let req_dlen = op_buffer_offs op + length src;
     if destLen < req_dlen \<or> tagLen < op_digestLength op
     then Some (TEE_ERROR_SHORT_BUFFER, [], max destLen req_dlen, [], max tagLen (op_digestLength op), t)
     else do {
       (res, out, acc_dlen, tag, tl, op, t) \<leftarrow>
         (if op_block_size op > 1
          then do {
            (n, dst, op, t) \<leftarrow>
              tee_buffer_update (syscall_authenc_update_payload C (op_state op)) op srcData destLen t;
            b \<leftarrow> op_load op 0 (op_buffer_offs op);
            (res, out, n', tag, tl, t) \<leftarrow> syscall_authenc_enc_final C (op_state op) b (destLen - n) tagLen t;
            Some (res, dst @ out, n + n', tag, tl, op, t)
          }
          else do {
            (res, out, n, tag, tl, t) \<leftarrow> syscall_authenc_enc_final C (op_state op) src destLen tagLen t;
            Some (res, out, n, tag, tl, op, t)
          });
       if res \<noteq> TEE_SUCCESS
       then do {
         require (res = TEE_ERROR_SHORT_BUFFER);
         Some (res, out, destLen, tag, tl, set_oper operation op t)
       }
       else Some (TEE_SUCCESS, out, acc_dlen, tag, tl,
              set_oper operation
                (op\<lparr>op_handleState := op_handleState op - {HF_INITIALIZED},
                   op_operationState := OPERATION_STATE_INITIAL\<rparr>) t)
     }
   }"

definition TEE_AEDecryptFinal ::
    "env \<Rightarrow> nat \<Rightarrow> bytes option \<Rightarrow> nat \<Rightarrow> bytes \<Rightarrow> 'a tee_scheme \<Rightarrow> (TEE_Result \<times> bytes \<times> nat \<times> 'a tee_scheme) option" where
  "TEE_AEDecryptFinal C operation srcData destLen tag t = do {
     op \<leftarrow> opers t operation;
     require (op_class op = TEE_OPERATION_AE);
     require (HF_INITIALIZED \<in> op_handleState op);
     let src = (case srcData of None \<Rightarrow> [] | Some src \<Rightarrow> src);
     let req_dlen = op_buffer_offs op + length src;
     if destLen < req_dlen then Some (TEE_ERROR_SHORT_BUFFER, [], req_dlen, t)
     else do {
       (res, out, acc_dlen, op, t) \<leftarrow>
         (if op_block_size op > 1
          then do {
            (n, dst, op, t) \<leftarrow>
              tee_buffer_update (syscall_authenc_update_payload C (op_state op)) op srcData destLen t;
            b \<leftarrow> op_load op 0 (op_buffer_offs op);
            (res, out, n', t) \<leftarrow> syscall_authenc_dec_final C (op_state op) b (destLen - n) tag t;
            Some (res, dst @ out, n + n', op, t)
          }
          else do {
            (res, out, n, t) \<leftarrow> syscall_authenc_dec_final C (op_state op) src destLen tag t;
            Some (res, out, n, op, t)
          });
       if res \<noteq> TEE_SUCCESS
       then do {
         require (res = TEE_ERROR_SHORT_BUFFER \<or> res = TEE_ERROR_MAC_INVALID);
         Some (res, out, destLen, set_oper operation op t)
       }
       else Some (if length tag \<noteq> op_digestLength op then TEE_ERROR_MAC_INVALID else TEE_SUCCESS, out, acc_dlen,
              set_oper operation
                (op\<lparr>op_handleState := op_handleState op - {HF_INITIALIZED},
                   op_operationState := OPERATION_STATE_INITIAL\<rparr>) t)
     }
   }"

section \<open>Asymmetric operations, key derivation, random numbers\<close>

definition TEE_AsymmetricEncrypt ::
    "env \<Rightarrow> nat \<Rightarrow> TEE_Attribute list \<Rightarrow> bytes \<Rightarrow> nat \<Rightarrow> 'a tee_scheme \<Rightarrow>
       (TEE_Result \<times> bytes \<times> nat \<times> 'a tee_scheme) option" where
  "TEE_AsymmetricEncrypt C operation params src destLen t = do {
     op \<leftarrow> opers t operation;
     require (op_key1 op \<noteq> TEE_HANDLE_NULL);
     require (op_class op = TEE_OPERATION_ASYMMETRIC_CIPHER);
     require (op_mode op = TEE_MODE_ENCRYPT);
     (res, out, dl, t) \<leftarrow> syscall_asymm_operate C (op_state op) params src destLen t;
     require (res \<in> {TEE_SUCCESS, TEE_ERROR_SHORT_BUFFER, TEE_ERROR_BAD_PARAMETERS});
     Some (res, out, dl, t)
   }"

definition TEE_AsymmetricDecrypt ::
    "env \<Rightarrow> nat \<Rightarrow> TEE_Attribute list \<Rightarrow> bytes \<Rightarrow> nat \<Rightarrow> 'a tee_scheme \<Rightarrow>
       (TEE_Result \<times> bytes \<times> nat \<times> 'a tee_scheme) option" where
  "TEE_AsymmetricDecrypt C operation params src destLen t = do {
     op \<leftarrow> opers t operation;
     require (op_key1 op \<noteq> TEE_HANDLE_NULL);
     require (op_class op = TEE_OPERATION_ASYMMETRIC_CIPHER);
     require (op_mode op = TEE_MODE_DECRYPT);
     (res, out, dl, t) \<leftarrow> syscall_asymm_operate C (op_state op) params src destLen t;
     require (res \<in> {TEE_SUCCESS, TEE_ERROR_SHORT_BUFFER, TEE_ERROR_BAD_PARAMETERS});
     Some (res, out, dl, t)
   }"

definition TEE_AsymmetricSignDigest ::
    "env \<Rightarrow> nat \<Rightarrow> TEE_Attribute list \<Rightarrow> bytes \<Rightarrow> nat \<Rightarrow> 'a tee_scheme \<Rightarrow>
       (TEE_Result \<times> bytes \<times> nat \<times> 'a tee_scheme) option" where
  "TEE_AsymmetricSignDigest C operation params digest signatureLen t = do {
     op \<leftarrow> opers t operation;
     require (op_key1 op \<noteq> TEE_HANDLE_NULL);
     require (op_class op = TEE_OPERATION_ASYMMETRIC_SIGNATURE);
     require (op_mode op = TEE_MODE_SIGN);
     (res, sig, sl, t) \<leftarrow> syscall_asymm_operate C (op_state op) params digest signatureLen t;
     require (res = TEE_SUCCESS \<or> res = TEE_ERROR_SHORT_BUFFER);
     Some (res, sig, sl, t)
   }"

definition TEE_AsymmetricVerifyDigest ::
    "env \<Rightarrow> nat \<Rightarrow> TEE_Attribute list \<Rightarrow> bytes \<Rightarrow> bytes \<Rightarrow> 'a tee_scheme \<Rightarrow> (TEE_Result \<times> 'a tee_scheme) option" where
  "TEE_AsymmetricVerifyDigest C operation params digest sig t = do {
     op \<leftarrow> opers t operation;
     require (op_key1 op \<noteq> TEE_HANDLE_NULL);
     require (op_class op = TEE_OPERATION_ASYMMETRIC_SIGNATURE);
     require (op_mode op = TEE_MODE_VERIFY);
     (res, t) \<leftarrow> syscall_asymm_verify C (op_state op) params digest sig t;
     require (res = TEE_SUCCESS \<or> res = TEE_ERROR_SIGNATURE_INVALID);
     Some (res, t)
   }"

definition TEE_DeriveKey :: "env \<Rightarrow> nat \<Rightarrow> TEE_Attribute list \<Rightarrow> nat \<Rightarrow> 'a tee_scheme \<Rightarrow> 'a tee_scheme option" where
  "TEE_DeriveKey C operation params derivedKey t = do {
     op \<leftarrow> opers t operation;
     require (derivedKey \<noteq> TEE_HANDLE_NULL);
     require (tee_alg_get_class (op_algorithm op) = TEE_OPERATION_KEY_DERIVATION);
     require (op_class op = TEE_OPERATION_KEY_DERIVATION);
     require (op_key1 op \<noteq> TEE_HANDLE_NULL);
     require (op_mode op = TEE_MODE_DERIVE);
     require (HF_KEY_SET \<in> op_handleState op);
     (case syscall_cryp_obj_get_info derivedKey t of
        Inl e \<Rightarrow> None
      | Inr key_info \<Rightarrow> do {
          require (o_type key_info = TEE_TYPE_GENERIC_SECRET);
          require (HF_INITIALIZED \<notin> o_flags key_info);
          (res, t) \<leftarrow> syscall_cryp_derive_key C (op_state op) params derivedKey t;
          require (res = TEE_SUCCESS);
          Some t
        })
   }"

definition TEE_GenerateRandom :: "env \<Rightarrow> nat \<Rightarrow> 'a tee_scheme \<Rightarrow> (bytes \<times> 'a tee_scheme) option" where
  "TEE_GenerateRandom C randomBufferLen t =
     (case syscall_cryp_random_number_generate C randomBufferLen t of
        (res, b, t) \<Rightarrow> do { require (res = TEE_SUCCESS); Some (b, t) })"

text \<open>\<^verbatim>\<open>rand\<close> of the C library of a TA: four random bytes without the sign bit.\<close>

definition utee_rand :: "env \<Rightarrow> 'a tee_scheme \<Rightarrow> (nat \<times> 'a tee_scheme) option" where
  "utee_rand C t = do {
     (b, t) \<leftarrow> TEE_GenerateRandom C 4 t;
     Some (un_le32 b mod 2 ^ 31, t)
   }"

section \<open>The algorithms the library reports\<close>

abbreviation (input) TEE_CRYPTO_ELEMENT_NONE :: nat where "TEE_CRYPTO_ELEMENT_NONE \<equiv> 0"

text \<open>The tests of \<^verbatim>\<open>TEE_IsAlgorithmSupported\<close> that lead to the label \<^verbatim>\<open>check_element_none\<close>, in the order
  of the code: the options that must be enabled, and the algorithms.\<close>

definition supported_plain :: "(cfg list \<times> nat list) list" where
  "supported_plain =
    [([CFG_CRYPTO_AES, CFG_CRYPTO_ECB], [TEE_ALG_AES_ECB_NOPAD]),
     ([CFG_CRYPTO_AES, CFG_CRYPTO_CBC], [TEE_ALG_AES_CBC_NOPAD]),
     ([CFG_CRYPTO_AES, CFG_CRYPTO_CTR], [TEE_ALG_AES_CTR]),
     ([CFG_CRYPTO_AES, CFG_CRYPTO_CTS], [TEE_ALG_AES_CTS]),
     ([CFG_CRYPTO_AES, CFG_CRYPTO_XTS], [TEE_ALG_AES_XTS]),
     ([CFG_CRYPTO_AES, CFG_CRYPTO_CBC_MAC], [TEE_ALG_AES_CBC_MAC_NOPAD, TEE_ALG_AES_CBC_MAC_PKCS5]),
     ([CFG_CRYPTO_AES, CFG_CRYPTO_CMAC], [TEE_ALG_AES_CMAC]),
     ([CFG_CRYPTO_AES, CFG_CRYPTO_CCM], [TEE_ALG_AES_CCM]),
     ([CFG_CRYPTO_AES, CFG_CRYPTO_GCM], [TEE_ALG_AES_GCM]),
     ([CFG_CRYPTO_DES, CFG_CRYPTO_ECB], [TEE_ALG_DES_ECB_NOPAD, TEE_ALG_DES3_ECB_NOPAD]),
     ([CFG_CRYPTO_DES, CFG_CRYPTO_CBC], [TEE_ALG_DES_CBC_NOPAD, TEE_ALG_DES3_CBC_NOPAD]),
     ([CFG_CRYPTO_DES, CFG_CRYPTO_CBC_MAC],
       [TEE_ALG_DES_CBC_MAC_NOPAD, TEE_ALG_DES_CBC_MAC_PKCS5, TEE_ALG_DES3_CBC_MAC_NOPAD, TEE_ALG_DES3_CBC_MAC_PKCS5]),
     ([CFG_CRYPTO_MD5], [TEE_ALG_MD5]),
     ([CFG_CRYPTO_SHA1], [TEE_ALG_SHA1]),
     ([CFG_CRYPTO_SHA224], [TEE_ALG_SHA224]),
     ([CFG_CRYPTO_SHA256], [TEE_ALG_SHA256]),
     ([CFG_CRYPTO_SHA384], [TEE_ALG_SHA384]),
     ([CFG_CRYPTO_SHA512], [TEE_ALG_SHA512]),
     ([CFG_CRYPTO_MD5, CFG_CRYPTO_SHA1], [TEE_ALG_MD5SHA1]),
     ([CFG_CRYPTO_HMAC, CFG_CRYPTO_MD5], [TEE_ALG_HMAC_MD5]),
     ([CFG_CRYPTO_HMAC, CFG_CRYPTO_SHA1], [TEE_ALG_HMAC_SHA1]),
     ([CFG_CRYPTO_HMAC, CFG_CRYPTO_SHA224], [TEE_ALG_HMAC_SHA224]),
     ([CFG_CRYPTO_HMAC, CFG_CRYPTO_SHA256], [TEE_ALG_HMAC_SHA256]),
     ([CFG_CRYPTO_HMAC, CFG_CRYPTO_SHA384], [TEE_ALG_HMAC_SHA384]),
     ([CFG_CRYPTO_HMAC, CFG_CRYPTO_SHA512], [TEE_ALG_HMAC_SHA512]),
     ([CFG_CRYPTO_HMAC, CFG_CRYPTO_SM3], [TEE_ALG_HMAC_SM3]),
     ([CFG_CRYPTO_SM3], [TEE_ALG_SM3]),
     ([CFG_CRYPTO_SM4, CFG_CRYPTO_ECB], [TEE_ALG_SM4_ECB_NOPAD]),
     ([CFG_CRYPTO_SM4, CFG_CRYPTO_CBC], [TEE_ALG_SM4_CBC_NOPAD]),
     ([CFG_CRYPTO_SM4, CFG_CRYPTO_CTR], [TEE_ALG_SM4_CTR]),
     ([CFG_CRYPTO_RSA, CFG_CRYPTO_MD5], [TEE_ALG_RSASSA_PKCS1_V1_5_MD5]),
     ([CFG_CRYPTO_RSA, CFG_CRYPTO_SHA1],
       [TEE_ALG_RSASSA_PKCS1_V1_5_SHA1, TEE_ALG_RSASSA_PKCS1_PSS_MGF1_SHA1, TEE_ALG_RSAES_PKCS1_OAEP_MGF1_SHA1]),
     ([CFG_CRYPTO_RSA, CFG_CRYPTO_MD5, CFG_CRYPTO_SHA1], [TEE_ALG_RSASSA_PKCS1_V1_5_MD5SHA1]),
     ([CFG_CRYPTO_RSA, CFG_CRYPTO_SHA224],
       [TEE_ALG_RSASSA_PKCS1_V1_5_SHA224, TEE_ALG_RSASSA_PKCS1_PSS_MGF1_SHA224, TEE_ALG_RSAES_PKCS1_OAEP_MGF1_SHA224]),
     ([CFG_CRYPTO_RSA, CFG_CRYPTO_SHA256],
       [TEE_ALG_RSASSA_PKCS1_V1_5_SHA256, TEE_ALG_RSASSA_PKCS1_PSS_MGF1_SHA256, TEE_ALG_RSAES_PKCS1_OAEP_MGF1_SHA256]),
     ([CFG_CRYPTO_RSA, CFG_CRYPTO_SHA384],
       [TEE_ALG_RSASSA_PKCS1_V1_5_SHA384, TEE_ALG_RSASSA_PKCS1_PSS_MGF1_SHA384, TEE_ALG_RSAES_PKCS1_OAEP_MGF1_SHA384]),
     ([CFG_CRYPTO_RSA, CFG_CRYPTO_SHA512],
       [TEE_ALG_RSASSA_PKCS1_V1_5_SHA512, TEE_ALG_RSASSA_PKCS1_PSS_MGF1_SHA512, TEE_ALG_RSAES_PKCS1_OAEP_MGF1_SHA512]),
     ([CFG_CRYPTO_RSA, CFG_CRYPTO_RSASSA_NA1], [TEE_ALG_RSASSA_PKCS1_V1_5]),
     ([CFG_CRYPTO_RSA], [TEE_ALG_RSA_NOPAD]),
     ([CFG_CRYPTO_DSA, CFG_CRYPTO_SHA1], [TEE_ALG_DSA_SHA1]),
     ([CFG_CRYPTO_DSA, CFG_CRYPTO_SHA224], [TEE_ALG_DSA_SHA224]),
     ([CFG_CRYPTO_DSA, CFG_CRYPTO_SHA256], [TEE_ALG_DSA_SHA256]),
     ([CFG_CRYPTO_DH], [TEE_ALG_DH_DERIVE_SHARED_SECRET])]"

text \<open>The tests that also compare the curve.\<close>

definition supported_curves :: "(cfg \<times> nat list \<times> nat) list" where
  "supported_curves =
    [(CFG_CRYPTO_ECC, [TEE_ALG_ECDH_P192, TEE_ALG_ECDSA_P192], TEE_ECC_CURVE_NIST_P192),
     (CFG_CRYPTO_ECC, [TEE_ALG_ECDH_P224, TEE_ALG_ECDSA_P224], TEE_ECC_CURVE_NIST_P224),
     (CFG_CRYPTO_ECC, [TEE_ALG_ECDH_P256, TEE_ALG_ECDSA_P256], TEE_ECC_CURVE_NIST_P256),
     (CFG_CRYPTO_ECC, [TEE_ALG_ECDH_P384, TEE_ALG_ECDSA_P384], TEE_ECC_CURVE_NIST_P384),
     (CFG_CRYPTO_ECC, [TEE_ALG_ECDH_P521, TEE_ALG_ECDSA_P521], TEE_ECC_CURVE_NIST_P521),
     (CFG_CRYPTO_SM2_DSA, [TEE_ALG_SM2_DSA_SM3], TEE_ECC_CURVE_SM2),
     (CFG_CRYPTO_SM2_KEP, [TEE_ALG_SM2_KEP], TEE_ECC_CURVE_SM2),
     (CFG_CRYPTO_SM2_PKE, [TEE_ALG_SM2_PKE], TEE_ECC_CURVE_SM2)]"

definition TEE_IsAlgorithmSupported :: "env \<Rightarrow> nat \<Rightarrow> nat \<Rightarrow> TEE_Result" where
  "TEE_IsAlgorithmSupported C alg element =
     (if list_ex (\<lambda>(cfgs, algs). list_all (\<lambda>c. c \<in> e_cfg C) cfgs \<and> List.member algs alg) supported_plain
      then if element = TEE_CRYPTO_ELEMENT_NONE then TEE_SUCCESS else TEE_ERROR_NOT_SUPPORTED
      else if list_ex (\<lambda>(c, algs, curve). c \<in> e_cfg C \<and> List.member algs alg \<and> element = curve) supported_curves
      then TEE_SUCCESS
      else TEE_ERROR_NOT_SUPPORTED)"

section \<open>Reported algorithms can be used\<close>

text \<open>An algorithm that passes the switches of \<^verbatim>\<open>TEE_AllocateOperation\<close> for some mode and key size.\<close>

definition op_alg_known :: "env \<Rightarrow> nat \<Rightarrow> bool" where
  "op_alg_known C alg \<longleftrightarrow>
     (\<exists>mode mks. op_key_size_ok alg mks \<and> op_mode_profile C alg mode mks \<noteq> None)"

lemma op_alg_knownI:
  "op_key_size_ok alg mks \<Longrightarrow> op_mode_profile C alg mode mks \<noteq> None \<Longrightarrow> op_alg_known C alg"
  by (auto simp: op_alg_known_def)

lemma unsupported_combined_digest:
  "\<not> op_alg_known C TEE_ALG_MD5SHA1" "\<not> op_alg_known C TEE_ALG_RSASSA_PKCS1_V1_5_MD5SHA1"
  by (simp_all add: op_alg_known_def op_mode_profile_def)

lemma known_cipher:
  "op_alg_known C TEE_ALG_AES_ECB_NOPAD" "op_alg_known C TEE_ALG_AES_CBC_NOPAD"
  "op_alg_known C TEE_ALG_AES_CTR" "op_alg_known C TEE_ALG_AES_CTS"
  "op_alg_known C TEE_ALG_AES_XTS" "op_alg_known C TEE_ALG_AES_CCM"
  "op_alg_known C TEE_ALG_AES_GCM" "op_alg_known C TEE_ALG_DES_ECB_NOPAD"
  "op_alg_known C TEE_ALG_DES3_ECB_NOPAD" "op_alg_known C TEE_ALG_DES_CBC_NOPAD"
  "op_alg_known C TEE_ALG_DES3_CBC_NOPAD" "op_alg_known C TEE_ALG_SM4_ECB_NOPAD"
  "op_alg_known C TEE_ALG_SM4_CBC_NOPAD" "op_alg_known C TEE_ALG_SM4_CTR"
  by (rule op_alg_knownI [where mks = 0 and mode = TEE_MODE_ENCRYPT]; simp add: op_key_size_ok_def op_mode_profile_def)+

lemma known_mac:
  "op_alg_known C TEE_ALG_AES_CBC_MAC_NOPAD" "op_alg_known C TEE_ALG_AES_CBC_MAC_PKCS5"
  "op_alg_known C TEE_ALG_AES_CMAC" "op_alg_known C TEE_ALG_DES_CBC_MAC_NOPAD"
  "op_alg_known C TEE_ALG_DES_CBC_MAC_PKCS5" "op_alg_known C TEE_ALG_DES3_CBC_MAC_NOPAD"
  "op_alg_known C TEE_ALG_DES3_CBC_MAC_PKCS5" "op_alg_known C TEE_ALG_HMAC_MD5"
  "op_alg_known C TEE_ALG_HMAC_SHA1" "op_alg_known C TEE_ALG_HMAC_SHA224"
  "op_alg_known C TEE_ALG_HMAC_SHA256" "op_alg_known C TEE_ALG_HMAC_SHA384"
  "op_alg_known C TEE_ALG_HMAC_SHA512" "op_alg_known C TEE_ALG_HMAC_SM3"
  by (rule op_alg_knownI [where mks = 0 and mode = TEE_MODE_MAC]; simp add: op_key_size_ok_def op_mode_profile_def)+

lemma known_digest:
  "op_alg_known C TEE_ALG_MD5" "op_alg_known C TEE_ALG_SHA1"
  "op_alg_known C TEE_ALG_SHA224" "op_alg_known C TEE_ALG_SHA256"
  "op_alg_known C TEE_ALG_SHA384" "op_alg_known C TEE_ALG_SHA512"
  "op_alg_known C TEE_ALG_SM3"
  by (rule op_alg_knownI [where mks = 0 and mode = TEE_MODE_DIGEST]; simp add: op_key_size_ok_def op_mode_profile_def)+

lemma known_rsassa:
  "op_alg_known C TEE_ALG_RSASSA_PKCS1_V1_5_MD5" "op_alg_known C TEE_ALG_RSASSA_PKCS1_V1_5_SHA1"
  "op_alg_known C TEE_ALG_RSASSA_PKCS1_PSS_MGF1_SHA1" "op_alg_known C TEE_ALG_RSASSA_PKCS1_V1_5_SHA224"
  "op_alg_known C TEE_ALG_RSASSA_PKCS1_PSS_MGF1_SHA224" "op_alg_known C TEE_ALG_RSASSA_PKCS1_V1_5_SHA256"
  "op_alg_known C TEE_ALG_RSASSA_PKCS1_PSS_MGF1_SHA256" "op_alg_known C TEE_ALG_RSASSA_PKCS1_V1_5_SHA384"
  "op_alg_known C TEE_ALG_RSASSA_PKCS1_PSS_MGF1_SHA384" "op_alg_known C TEE_ALG_RSASSA_PKCS1_V1_5_SHA512"
  "op_alg_known C TEE_ALG_RSASSA_PKCS1_PSS_MGF1_SHA512"
  by (rule op_alg_knownI [where mks = 0 and mode = TEE_MODE_SIGN]; simp add: op_key_size_ok_def op_mode_profile_def)+

lemma known_rsaes:
  "op_alg_known C TEE_ALG_RSA_NOPAD" "op_alg_known C TEE_ALG_RSAES_PKCS1_OAEP_MGF1_SHA1"
  "op_alg_known C TEE_ALG_RSAES_PKCS1_OAEP_MGF1_SHA224" "op_alg_known C TEE_ALG_RSAES_PKCS1_OAEP_MGF1_SHA256"
  "op_alg_known C TEE_ALG_RSAES_PKCS1_OAEP_MGF1_SHA384" "op_alg_known C TEE_ALG_RSAES_PKCS1_OAEP_MGF1_SHA512"
  by (rule op_alg_knownI [where mks = 0 and mode = TEE_MODE_ENCRYPT]; simp add: op_key_size_ok_def op_mode_profile_def)+

lemma known_dsa_sha1:
  "op_alg_known C TEE_ALG_DSA_SHA1"
  by (rule op_alg_knownI [where mks = 512 and mode = TEE_MODE_SIGN]; simp add: op_key_size_ok_def op_mode_profile_def)+

lemma known_dsa:
  "op_alg_known C TEE_ALG_DSA_SHA224" "op_alg_known C TEE_ALG_DSA_SHA256"
  by (rule op_alg_knownI [where mks = 2048 and mode = TEE_MODE_SIGN]; simp add: op_key_size_ok_def op_mode_profile_def)+

lemma known_p192:
  "op_alg_known C TEE_ALG_ECDSA_P192"
  by (rule op_alg_knownI [where mks = 192 and mode = TEE_MODE_SIGN]; simp add: op_key_size_ok_def op_mode_profile_def)+

lemma known_p224:
  "op_alg_known C TEE_ALG_ECDSA_P224"
  by (rule op_alg_knownI [where mks = 224 and mode = TEE_MODE_SIGN]; simp add: op_key_size_ok_def op_mode_profile_def)+

lemma known_p256:
  "op_alg_known C TEE_ALG_ECDSA_P256" "op_alg_known C TEE_ALG_SM2_DSA_SM3"
  by (rule op_alg_knownI [where mks = 256 and mode = TEE_MODE_SIGN]; simp add: op_key_size_ok_def op_mode_profile_def)+

lemma known_p384:
  "op_alg_known C TEE_ALG_ECDSA_P384"
  by (rule op_alg_knownI [where mks = 384 and mode = TEE_MODE_SIGN]; simp add: op_key_size_ok_def op_mode_profile_def)+

lemma known_p521:
  "op_alg_known C TEE_ALG_ECDSA_P521"
  by (rule op_alg_knownI [where mks = 521 and mode = TEE_MODE_SIGN]; simp add: op_key_size_ok_def op_mode_profile_def)+

lemma known_dh:
  "op_alg_known C TEE_ALG_DH_DERIVE_SHARED_SECRET"
  by (rule op_alg_knownI [where mks = 0 and mode = TEE_MODE_DERIVE]; simp add: op_key_size_ok_def op_mode_profile_def)+

lemma known_ecdh192:
  "op_alg_known C TEE_ALG_ECDH_P192"
  by (rule op_alg_knownI [where mks = 192 and mode = TEE_MODE_DERIVE]; simp add: op_key_size_ok_def op_mode_profile_def)+

lemma known_ecdh224:
  "op_alg_known C TEE_ALG_ECDH_P224"
  by (rule op_alg_knownI [where mks = 224 and mode = TEE_MODE_DERIVE]; simp add: op_key_size_ok_def op_mode_profile_def)+

lemma known_ecdh256:
  "op_alg_known C TEE_ALG_ECDH_P256"
  by (rule op_alg_knownI [where mks = 256 and mode = TEE_MODE_DERIVE]; simp add: op_key_size_ok_def op_mode_profile_def)+

lemma known_ecdh384:
  "op_alg_known C TEE_ALG_ECDH_P384"
  by (rule op_alg_knownI [where mks = 384 and mode = TEE_MODE_DERIVE]; simp add: op_key_size_ok_def op_mode_profile_def)+

lemma known_ecdh521:
  "op_alg_known C TEE_ALG_ECDH_P521"
  by (rule op_alg_knownI [where mks = 521 and mode = TEE_MODE_DERIVE]; simp add: op_key_size_ok_def op_mode_profile_def)+

lemma known_sm2_kep:
  "op_alg_known C TEE_ALG_SM2_KEP"
  by (rule op_alg_knownI [where mks = 512 and mode = TEE_MODE_DERIVE]; simp add: op_key_size_ok_def op_mode_profile_def)+

lemma known_sm2_pke:
  "op_alg_known C TEE_ALG_SM2_PKE"
  by (rule op_alg_knownI [where mks = 256 and mode = TEE_MODE_ENCRYPT]; simp add: op_key_size_ok_def op_mode_profile_def)+

lemma known_rsassa_plain:
  "CFG_CRYPTO_RSASSA_NA1 \<in> e_cfg C \<Longrightarrow> op_alg_known C TEE_ALG_RSASSA_PKCS1_V1_5"
  by (rule op_alg_knownI [where mks = 0 and mode = TEE_MODE_SIGN]; simp add: op_key_size_ok_def op_mode_profile_def)

lemmas known_algs =
  known_cipher known_mac known_digest known_rsassa known_rsaes known_dsa_sha1 known_dsa known_p192 known_p224 known_p256 known_p384 known_p521 known_dh known_ecdh192 known_ecdh224 known_ecdh256 known_ecdh384 known_ecdh521 known_sm2_kep known_sm2_pke known_rsassa_plain

lemma plain_known:
  "list_all (\<lambda>(cfgs, algs). list_all (\<lambda>c. c \<in> e_cfg C) cfgs \<longrightarrow>
     list_all (\<lambda>a. a = TEE_ALG_MD5SHA1 \<or> a = TEE_ALG_RSASSA_PKCS1_V1_5_MD5SHA1 \<or> op_alg_known C a) algs) supported_plain"
  by (simp add: supported_plain_def known_algs)

lemma curves_known:
  "list_all (\<lambda>(c, algs, curve). list_all (op_alg_known C) algs) supported_curves"
  by (simp add: supported_curves_def known_algs)

text \<open>C19. An algorithm that \<^verbatim>\<open>TEE_IsAlgorithmSupported\<close> reports as supported passes the checks of
  \<^verbatim>\<open>TEE_AllocateOperation\<close> for some mode and some key size, except the two algorithms on the
  concatenated MD5 and SHA-1 digests, which the library may report and never accepts.\<close>

theorem supported_algorithms_allocate:
  assumes "TEE_IsAlgorithmSupported C alg element = TEE_SUCCESS"
  shows "op_alg_known C alg \<longleftrightarrow> alg \<noteq> TEE_ALG_MD5SHA1 \<and> alg \<noteq> TEE_ALG_RSASSA_PKCS1_V1_5_MD5SHA1"
proof -
  have "alg = TEE_ALG_MD5SHA1 \<or> alg = TEE_ALG_RSASSA_PKCS1_V1_5_MD5SHA1 \<or> op_alg_known C alg"
    using assms plain_known [of C] curves_known [of C]
    unfolding TEE_IsAlgorithmSupported_def list_ex_iff list_all_iff List.member_iff
    by (fastforce simp: list_all_iff split: if_splits)
  then show ?thesis using unsupported_combined_digest by blast
qed

theorem supported_algorithms_allocate_witness:
  "TEE_IsAlgorithmSupported (sample_env\<lparr>e_cfg := {CFG_CRYPTO_ECC}\<rparr>) TEE_ALG_ECDSA_P256 TEE_ECC_CURVE_NIST_P256 = TEE_SUCCESS
   \<and> op_alg_known (sample_env\<lparr>e_cfg := {CFG_CRYPTO_ECC}\<rparr>) TEE_ALG_ECDSA_P256"
proof -
  have "TEE_IsAlgorithmSupported (sample_env\<lparr>e_cfg := {CFG_CRYPTO_ECC}\<rparr>) TEE_ALG_ECDSA_P256 TEE_ECC_CURVE_NIST_P256
    = TEE_SUCCESS"
    by (simp add: TEE_IsAlgorithmSupported_def supported_plain_def supported_curves_def List.member_iff)
  then show ?thesis using supported_algorithms_allocate by simp
qed

end
