(* ===== verification/Utee_Buffer.thy ===== *)
theory Utee_Buffer
  imports Utee_Operations
begin

text \<open>
  The block buffer of the operations (\<^verbatim>\<open>tee_buffer_update\<close> of \<^verbatim>\<open>lib/libutee/tee_api_operations.c\<close>) refines a
  queue of bytes: a call appends the input to the bytes that are held, and takes whole blocks off the front.
\<close>

section \<open>The queue a buffer stands for\<close>

text \<open>The bytes an operation holds back.\<close>

definition buffered :: "operation \<Rightarrow> bytes" where
  "buffered op = (case op_buffer op of None \<Rightarrow> [] | Some buf \<Rightarrow> take (op_buffer_offs op) buf)"

definition buf_ok :: "operation \<Rightarrow> bool" where
  "buf_ok op \<longleftrightarrow>
     0 < op_block_size op \<and> op_buffer_offs op \<le> buffer_size op \<and>
     (case op_buffer op of None \<Rightarrow> False | Some buf \<Rightarrow> length buf = buffer_size op)"

text \<open>A buffer with given contents; the bytes behind them do not matter.\<close>

definition holds :: "operation \<Rightarrow> operation \<Rightarrow> bytes \<Rightarrow> bool" where
  "holds op op' b \<longleftrightarrow>
     buf_ok op' \<and> buffered op' = b \<and> op' = op\<lparr>op_buffer := op_buffer op', op_buffer_offs := op_buffer_offs op'\<rparr>"

text \<open>Handing pieces to the update function one after the other.\<close>

fun feed ::
    "(bytes \<Rightarrow> nat \<Rightarrow> 's \<Rightarrow> (TEE_Result \<times> bytes \<times> nat \<times> 's) option) \<Rightarrow> bytes list \<Rightarrow> nat \<Rightarrow> 's \<Rightarrow>
       (nat \<times> bytes \<times> 's) option" where
  "feed upd [] dlen s = Some (0, [], s)"
| "feed upd (c # cs) dlen s = do {
     (res, out, n, s) \<leftarrow> upd c dlen s;
     require (res = TEE_SUCCESS);
     (m, outs, s) \<leftarrow> feed upd cs (dlen - n) s;
     Some (n + m, out @ outs, s)
   }"

section \<open>Rounding\<close>

lemma ROUNDUP_dvd [simp]: "sz dvd ROUNDUP v sz"
  by (simp add: ROUNDUP_def)

lemma ROUNDUP_ge: "0 < sz \<Longrightarrow> v \<le> ROUNDUP v sz"
  using mod_less_divisor [of sz "v + sz - 1"] div_mult_mod_eq [of "v + sz - 1" sz] unfolding ROUNDUP_def by linarith

lemma ROUNDUP_le: "0 < sz \<Longrightarrow> ROUNDUP v sz \<le> v + sz - 1"
  using div_mult_mod_eq [of "v + sz - 1" sz] unfolding ROUNDUP_def by linarith

lemma ROUNDUP_le_dvd: "0 < sz \<Longrightarrow> sz dvd m \<Longrightarrow> v \<le> m \<Longrightarrow> ROUNDUP v sz \<le> m"
proof -
  assume sz: "0 < sz" and "sz dvd m" and v: "v \<le> m"
  then obtain k where m: "m = k * sz" by (metis dvdE mult.commute)
  have "(v + sz - 1) div sz \<le> (k * sz + sz - 1) div sz" using v m by (intro div_le_mono) simp
  also have "(k * sz + sz - 1) div sz = k" by (rule div_nat_eqI) (use sz in \<open>auto simp: algebra_simps\<close>)
  finally show ?thesis using m by (simp add: ROUNDUP_def)
qed

lemma ROUNDUP_0 [simp]: "0 < sz \<Longrightarrow> ROUNDUP 0 sz = 0"
  by (simp add: ROUNDUP_def)

section \<open>Loads and stores\<close>

lemma buf_okE:
  assumes "buf_ok op"
  obtains buf where "op_buffer op = Some buf" "length buf = buffer_size op" "op_buffer_offs op \<le> buffer_size op"
    "0 < op_block_size op" "buffered op = take (op_buffer_offs op) buf"
  using assms by (auto simp: buf_ok_def buffered_def split: option.splits)

lemma holdsI:
  assumes "buf_ok op" "length buf = buffer_size op" "n \<le> buffer_size op" "take n buf = b"
  shows "holds op (op\<lparr>op_buffer := Some buf, op_buffer_offs := n\<rparr>) b"
  using assms by (auto simp: holds_def buf_ok_def buffered_def buffer_size_def split: if_splits)

lemma holds_fields:
  assumes "holds op op' b"
  shows "buf_ok op'" "buffered op' = b" "op_block_size op' = op_block_size op" "buffer_size op' = buffer_size op"
    "op_algorithm op' = op_algorithm op" "op_buffer_two_blocks op' = op_buffer_two_blocks op" "op_buffer_offs op' = length b"
proof -
  have eq: "op' = op\<lparr>op_buffer := op_buffer op', op_buffer_offs := op_buffer_offs op'\<rparr>" and ok: "buf_ok op'"
    and b: "buffered op' = b"
    using assms by (simp_all add: holds_def)
  show "buf_ok op'" "buffered op' = b" by (fact ok b)+
  show "op_block_size op' = op_block_size op" "op_algorithm op' = op_algorithm op"
    "op_buffer_two_blocks op' = op_buffer_two_blocks op"
    by (subst eq, simp)+
  then show "buffer_size op' = buffer_size op" by (simp add: buffer_size_def)
  show "op_buffer_offs op' = length b" using ok b by (elim buf_okE) auto
qed

lemma holds_trans: "holds op op1 b1 \<Longrightarrow> holds op1 op2 b2 \<Longrightarrow> holds op op2 b2"
  unfolding holds_def
  by (elim conjE, intro conjI) (assumption, assumption, erule ssubst, erule ssubst, simp)

lemma op_buffer_same: "op_buffer op = Some buf \<Longrightarrow> op\<lparr>op_buffer := Some buf\<rparr> = op"
  by (cases op) simp

lemma op_store_append:
  assumes "buf_ok op" "op_buffer_offs op + length b \<le> buffer_size op"
  shows "\<exists>op'. op_store op (op_buffer_offs op) b = Some op' \<and> op_buffer_offs op' = op_buffer_offs op \<and>
           holds op (op'\<lparr>op_buffer_offs := op_buffer_offs op + length b\<rparr>) (buffered op @ b)"
proof -
  obtain buf where buf: "op_buffer op = Some buf" "length buf = buffer_size op" "buffered op = take (op_buffer_offs op) buf"
    using assms(1) by (rule buf_okE)
  let ?buf = "take (op_buffer_offs op) buf @ b @ drop (op_buffer_offs op + length b) buf"
  have "op_store op (op_buffer_offs op) b = Some (op\<lparr>op_buffer := Some ?buf\<rparr>)"
    using buf assms(2) by (cases "b = []") (simp_all add: op_store_def op_buffer_same)
  moreover have "holds op (op\<lparr>op_buffer := Some ?buf, op_buffer_offs := op_buffer_offs op + length b\<rparr>) (buffered op @ b)"
    using buf assms(2) by (intro holdsI [OF assms(1)]) simp_all
  ultimately show ?thesis by (intro exI [of _ "op\<lparr>op_buffer := Some ?buf\<rparr>"]) simp
qed

lemma op_store_offs:
  "op_store (op\<lparr>op_buffer_offs := n\<rparr>) k b = map_option (\<lambda>op. op\<lparr>op_buffer_offs := n\<rparr>) (op_store op k b)"
  by (simp add: op_store_def split: option.split)

lemma holds_empty:
  assumes "buf_ok op" shows "holds op (op\<lparr>op_buffer_offs := 0\<rparr>) []"
proof -
  obtain buf where buf: "op_buffer op = Some buf" "length buf = buffer_size op" using assms by (rule buf_okE)
  have "op\<lparr>op_buffer := Some buf, op_buffer_offs := 0\<rparr> = op\<lparr>op_buffer_offs := 0\<rparr>" using op_buffer_same [OF buf(1)] by simp
  then show ?thesis using holdsI [OF assms buf(2), of 0 "[]"] by simp
qed

lemma op_load_front:
  assumes "buf_ok op" "n \<le> op_buffer_offs op"
  shows "op_load op 0 n = Some (take n (buffered op))"
proof -
  obtain buf where "op_buffer op = Some buf" "length buf = buffer_size op" "op_buffer_offs op \<le> buffer_size op"
      "buffered op = take (op_buffer_offs op) buf"
    using assms(1) by (rule buf_okE)
  then show ?thesis using assms(2) by (simp add: op_load_def min_def)
qed

lemma op_shift:
  assumes "buf_ok op" "l \<le> op_buffer_offs op"
  shows "\<exists>rest op'. op_load op l (buffer_size op - l) = Some rest \<and> op_store op 0 rest = Some op' \<and>
           op_buffer_offs op' = op_buffer_offs op \<and>
           holds op (op'\<lparr>op_buffer_offs := op_buffer_offs op - l\<rparr>) (drop l (buffered op))"
proof -
  obtain buf where buf: "op_buffer op = Some buf" "length buf = buffer_size op" "op_buffer_offs op \<le> buffer_size op"
      "buffered op = take (op_buffer_offs op) buf"
    using assms(1) by (rule buf_okE)
  let ?buf = "drop l buf @ drop (length buf - l) buf"
  have "op_load op l (buffer_size op - l) = Some (drop l buf)"
    using buf assms(2) by (cases "l = buffer_size op") (simp_all add: op_load_def)
  moreover have "op_store op 0 (drop l buf) = Some (op\<lparr>op_buffer := Some ?buf\<rparr>)"
    using buf assms(2) by (cases "l = buffer_size op") (simp_all add: op_store_def op_buffer_same)
  moreover have "holds op (op\<lparr>op_buffer := Some ?buf, op_buffer_offs := op_buffer_offs op - l\<rparr>) (drop l (buffered op))"
    using buf assms(2) by (intro holdsI [OF assms(1)]) (simp_all add: drop_take)
  ultimately show ?thesis by (intro exI [of _ "drop l buf"] exI [of _ "op\<lparr>op_buffer := Some ?buf\<rparr>"]) simp
qed

section \<open>The three parts\<close>

lemma feed_append:
  "feed upd (cs @ ds) dlen s = do {
     (n, out, s) \<leftarrow> feed upd cs dlen s;
     (m, outs, s) \<leftarrow> feed upd ds (dlen - n) s;
     Some (n + m, out @ outs, s)
   }"
  by (induction cs arbitrary: dlen s)
    (auto simp: require_bind case_prod_beta add.assoc split: Option.bind_splits)

lemma holds_refl: "buf_ok op \<Longrightarrow> holds op op (buffered op)"
  by (simp add: holds_def)

lemma buffer_size_block: "op_block_size op \<le> buffer_size op" "op_block_size op dvd buffer_size op"
  by (simp_all add: buffer_size_def)

lemma buffer_fill_spec:
  assumes ok: "buf_ok op"
  obtains op' src' stop where "buffer_fill op src = Some (op', src', stop)" "holds op op' (buffered op')"
    "buffered op' @ src' = buffered op @ src" "stop \<Longrightarrow> src' = []"
    "\<not> stop \<Longrightarrow> op_block_size op dvd length (buffered op')"
proof (cases "op_buffer_offs op > 0")
  case True
  let ?bs = "op_block_size op" and ?offs = "op_buffer_offs op"
  define l where
    "l = (if ?offs < ?bs then min (length src) (?bs - ?offs) else min (length src) (buffer_size op - ?offs))"
  have bs: "0 < ?bs" "?offs \<le> buffer_size op" "length (buffered op) = ?offs" using ok by (elim buf_okE, simp)+
  have l: "l \<le> length src" "?offs + l \<le> buffer_size op" and full: "l < length src \<Longrightarrow> ?bs dvd ?offs + l"
    using bs(2) buffer_size_block [of op] by (auto simp: l_def min_def split: if_splits)
  obtain op1 where op1: "op_store op ?offs (take l src) = Some op1" "op_buffer_offs op1 = ?offs"
      and h: "holds op (op1\<lparr>op_buffer_offs := ?offs + l\<rparr>) (buffered op @ take l src)"
    using op_store_append [OF ok, of "take l src"] l by (auto simp: min_absorb2)
  note b = holds_fields(2) [OF h]
  have stop: "length src = l" if "(?offs + l) mod ?bs \<noteq> 0"
    using full that l(1) by (cases "l < length src") (simp_all add: dvd_eq_mod_eq_0)
  show ?thesis
  proof (rule that)
    show "buffer_fill op src = Some (op1\<lparr>op_buffer_offs := ?offs + l\<rparr>, drop l src, (?offs + l) mod ?bs \<noteq> 0)"
      using True op1 unfolding buffer_fill_def l_def [symmetric] Let_def by simp
    show "holds op (op1\<lparr>op_buffer_offs := ?offs + l\<rparr>) (buffered (op1\<lparr>op_buffer_offs := ?offs + l\<rparr>))" using h b by simp
    show "buffered (op1\<lparr>op_buffer_offs := ?offs + l\<rparr>) @ drop l src = buffered op @ src" using b by simp
    show "drop l src = []" if "(?offs + l) mod ?bs \<noteq> 0" using stop [OF that] l(1) by simp
    show "?bs dvd length (buffered (op1\<lparr>op_buffer_offs := ?offs + l\<rparr>))" if "\<not> (?offs + l) mod ?bs \<noteq> 0"
      using that bs(3) l(1) b by (simp add: dvd_eq_mod_eq_0 min_absorb2)
  qed
next
  case False
  have "buffered op = []" using ok False by (elim buf_okE) simp
  then show ?thesis using False ok by (intro that [of op src False]) (use holds_refl [OF ok] in \<open>simp_all add: buffer_fill_def\<close>)
qed

lemma buffer_flush_spec:
  assumes ok: "buf_ok op" and blocks: "op_block_size op dvd length (buffered op)"
  obtains cs op' src' stop where
    "\<And>upd dlen s. buffer_flush upd op src dlen s = do {
       (n, out, s) \<leftarrow> feed upd cs dlen s;
       Some (op', src', dlen - n, n, out, s, stop)
     }"
    "holds op op' (buffered op')" "concat cs @ buffered op' @ src' = buffered op @ src"
    "\<forall>c\<in>set cs. op_block_size op dvd length c" "stop \<Longrightarrow> src' = []"
    "\<not> stop \<Longrightarrow> buffered op' = [] \<or> length (buffered op') + length src' < buffer_size op + buffer_left op"
proof (cases "op_buffer_offs op > 0 \<and> op_buffer_offs op + length src \<ge> buffer_size op + buffer_left op")
  case True
  let ?bs = "op_block_size op" and ?offs = "op_buffer_offs op"
  define l where "l = min ?offs (ROUNDUP (?offs + length src - buffer_size op) ?bs)"
  have bs: "0 < ?bs" "?offs \<le> buffer_size op" "length (buffered op) = ?offs" using ok by (elim buf_okE, simp)+
  have l: "l \<le> ?offs" "?bs dvd l" using blocks bs(3) by (simp_all add: l_def min_def)
  have fits: "?offs - l + length src \<le> buffer_size op" if "l < ?offs"
  proof -
    have "l = ROUNDUP (?offs + length src - buffer_size op) ?bs" using that by (simp add: l_def)
    then show ?thesis using that ROUNDUP_ge [OF bs(1), of "?offs + length src - buffer_size op"] by linarith
  qed
  have load: "op_load op 0 l = Some (take l (buffered op))" by (rule op_load_front [OF ok l(1)])
  show ?thesis
  proof (cases "l < ?offs")
    case False
    then have [simp]: "l = ?offs" using l(1) by simp
    have h: "holds op (op\<lparr>op_buffer_offs := 0\<rparr>) []" by (rule holds_empty [OF ok])
    show ?thesis
    proof (rule that [where cs = "[buffered op]" and op' = "op\<lparr>op_buffer_offs := 0\<rparr>" and src' = src and stop = False])
      show "buffer_flush upd op src dlen s = do {
         (n, out, s) \<leftarrow> feed upd [buffered op] dlen s;
         Some (op\<lparr>op_buffer_offs := 0\<rparr>, src, dlen - n, n, out, s, False)
       }" for upd :: "bytes \<Rightarrow> nat \<Rightarrow> 's \<Rightarrow> (TEE_Result \<times> bytes \<times> nat \<times> 's) option" and dlen s
        using True load bs(3) unfolding buffer_flush_def l_def [symmetric] Let_def
        by (auto simp: require_bind split: Option.bind_splits)
    qed (use h holds_fields(2) [OF h] blocks in simp_all)
  next
    case l_less: True
    obtain rest op1 where sh: "op_load op l (buffer_size op - l) = Some rest" "op_store op 0 rest = Some op1"
        "op_buffer_offs op1 = ?offs" and h1: "holds op (op1\<lparr>op_buffer_offs := ?offs - l\<rparr>) (drop l (buffered op))"
      using op_shift [OF ok l(1)] by blast
    note f1 = holds_fields [OF h1]
    have "length (drop l (buffered op)) = ?offs - l" using bs(3) by simp
    then obtain op2 where st: "op_store (op1\<lparr>op_buffer_offs := ?offs - l\<rparr>) (?offs - l) src = Some op2"
        and h2: "holds (op1\<lparr>op_buffer_offs := ?offs - l\<rparr>) (op2\<lparr>op_buffer_offs := ?offs - l + length src\<rparr>)
          (drop l (buffered op) @ src)"
      using op_store_append [OF f1(1), of src] fits [OF l_less] f1(2,4) by auto
    then obtain op3 where op3: "op_store op1 (?offs - l) src = Some op3" "op2 = op3\<lparr>op_buffer_offs := ?offs - l\<rparr>"
      unfolding op_store_offs by auto
    have h: "holds op (op2\<lparr>op_buffer_offs := ?offs - l + length src\<rparr>) (drop l (buffered op) @ src)"
      by (rule holds_trans [OF h1 h2])
    show ?thesis
    proof (rule that [where cs = "[take l (buffered op)]" and src' = "[]" and stop = True])
      show "buffer_flush upd op src dlen s = do {
         (n, out, s) \<leftarrow> feed upd [take l (buffered op)] dlen s;
         Some (op2\<lparr>op_buffer_offs := ?offs - l + length src\<rparr>, [], dlen - n, n, out, s, True)
       }" for upd :: "bytes \<Rightarrow> nat \<Rightarrow> 's \<Rightarrow> (TEE_Result \<times> bytes \<times> nat \<times> 's) option" and dlen s
        using True load l_less sh op3 unfolding buffer_flush_def l_def [symmetric] Let_def
        by (auto simp: require_bind split: Option.bind_splits)
    qed (use h holds_fields(2) [OF h] l bs(3) in \<open>simp_all add: min_absorb2\<close>)
  qed
next
  case False
  then have "buffered op = [] \<or> length (buffered op) + length src < buffer_size op + buffer_left op"
    using ok by (elim buf_okE) auto
  with False ok show ?thesis
    by (intro that [where cs = "[]" and op' = op and src' = src and stop = False])
      (use holds_refl [OF ok] in \<open>auto simp: buffer_flush_def\<close>)
qed

lemma buffer_direct_spec:
  assumes ok: "buf_ok op"
    and room: "buffered op = [] \<or> length (buffered op) + length src < buffer_size op + buffer_left op"
  obtains cs op' where
    "\<And>upd dlen s. buffer_direct upd op src dlen s = do { (n, out, s) \<leftarrow> feed upd cs dlen s; Some (n, out, op', s) }"
    "holds op op' (buffered op')" "concat cs @ buffered op' = buffered op @ src"
    "\<forall>c\<in>set cs. op_block_size op dvd length c"
proof (cases "length src \<ge> buffer_size op + buffer_left op")
  case True
  let ?bs = "op_block_size op"
  define l where "l = (if op_algorithm op = TEE_ALG_AES_CTS then ROUNDUP (length src - buffer_size op) ?bs
    else ROUNDUP (length src - buffer_size op + 1) ?bs)"
  have bs: "0 < ?bs" "length (buffered op) = op_buffer_offs op" using ok by (elim buf_okE, simp)+
  have [simp]: "buffered op = []" using room True by auto
  define v where "v = (if op_algorithm op = TEE_ALG_AES_CTS then length src - buffer_size op
    else length src - buffer_size op + 1)"
  have l_v: "l = ROUNDUP v ?bs" by (simp add: l_def v_def)
  have v: "length src \<le> v + buffer_size op" "v + buffer_size op \<le> length src + 1" using True by (simp_all add: v_def)
  have l: "l \<le> length src" "length src - l \<le> buffer_size op" "?bs dvd l"
    using v bs(1) buffer_size_block(1) [of op] ROUNDUP_ge [OF bs(1), of v] ROUNDUP_le [OF bs(1), of v]
    unfolding l_v by (linarith, linarith, simp)
  obtain op1 where st: "op_store op (op_buffer_offs op) (drop l src) = Some op1"
      and h: "holds op (op1\<lparr>op_buffer_offs := op_buffer_offs op + length (drop l src)\<rparr>) (drop l src)"
    using op_store_append [OF ok, of "drop l src"] l(2) bs(2) by auto
  show ?thesis
  proof (rule that [where cs = "[take l src]"])
    show "buffer_direct upd op src dlen s = do {
       (n, out, s) \<leftarrow> feed upd [take l src] dlen s;
       Some (n, out, op1\<lparr>op_buffer_offs := op_buffer_offs op + length (drop l src)\<rparr>, s)
     }" for upd :: "bytes \<Rightarrow> nat \<Rightarrow> 's \<Rightarrow> (TEE_Result \<times> bytes \<times> nat \<times> 's) option" and dlen s
      using True st unfolding buffer_direct_def l_def [symmetric] Let_def
      by (auto simp: require_bind split: Option.bind_splits)
  qed (use h holds_fields(2) [OF h] l in \<open>simp_all add: min_absorb2\<close>)
next
  case False
  have "length (buffered op) + length src \<le> buffer_size op"
    using room False by (auto simp: buffer_left_def split: if_splits)
  then obtain op1 where st: "op_store op (op_buffer_offs op) src = Some op1"
      and h: "holds op (op1\<lparr>op_buffer_offs := op_buffer_offs op + length src\<rparr>) (buffered op @ src)"
    using op_store_append [OF ok, of src] ok by (elim buf_okE) auto
  show ?thesis
    by (rule that [where cs = "[]" and op' = "op1\<lparr>op_buffer_offs := op_buffer_offs op + length src\<rparr>"])
      (use h holds_fields(2) [OF h] st False in \<open>simp_all add: buffer_direct_def\<close>)
qed

section \<open>The buffer is a queue\<close>

lemma tee_buffer_update_spec:
  assumes ok: "buf_ok op"
  obtains cs op' where
    "\<And>upd dlen (s :: 's). tee_buffer_update upd op (Some src) dlen s = do {
       (n, out, s) \<leftarrow> feed upd cs dlen s;
       Some (n, out, op', s)
     }"
    "holds op op' (buffered op')" "concat cs @ buffered op' = buffered op @ src"
    "\<forall>c\<in>set cs. op_block_size op dvd length c"
proof (rule buffer_fill_spec [OF ok, of src])
  fix op1 src1 stop1
  assume fill: "buffer_fill op src = Some (op1, src1, stop1)" "holds op op1 (buffered op1)"
    "buffered op1 @ src1 = buffered op @ src" "stop1 \<Longrightarrow> src1 = []"
    "\<not> stop1 \<Longrightarrow> op_block_size op dvd length (buffered op1)"
  note f1 = holds_fields [OF fill(2)]
  show thesis
  proof (cases stop1)
    case True
    then show thesis using fill by (intro that [of "[]" op1]) (simp_all add: tee_buffer_update_def)
  next
    case False
    have d: "op_block_size op1 dvd length (buffered op1)" using fill(5) False f1(3) by simp
    show thesis
    proof (rule buffer_flush_spec [OF f1(1) d, of src1])
      fix cs2 op2 src2 stop2
      assume flush: "\<And>upd dlen (s :: 's). buffer_flush upd op1 src1 dlen s = do {
          (n, out, s) \<leftarrow> feed upd cs2 dlen s; Some (op2, src2, dlen - n, n, out, s, stop2) }"
        "holds op1 op2 (buffered op2)" "concat cs2 @ buffered op2 @ src2 = buffered op1 @ src1"
        "\<forall>c\<in>set cs2. op_block_size op1 dvd length c" "stop2 \<Longrightarrow> src2 = []"
        "\<not> stop2 \<Longrightarrow> buffered op2 = [] \<or> length (buffered op2) + length src2 < buffer_size op1 + buffer_left op1"
      note f2 = holds_fields [OF flush(2)] and h2 = holds_trans [OF fill(2) flush(2)]
      show thesis
      proof (cases stop2)
        case True
        show thesis
        proof (rule that [of cs2 op2])
          show "tee_buffer_update upd op (Some src) dlen s = do { (n, out, s) \<leftarrow> feed upd cs2 dlen s; Some (n, out, op2, s) }"
            for upd dlen and s :: 's
            using fill(1) False True by (auto simp: tee_buffer_update_def flush(1) split: Option.bind_splits)
        qed (use h2 flush True fill(3) f1(3) in simp_all)
      next
        case go: False
        have room: "buffered op2 = [] \<or> length (buffered op2) + length src2 < buffer_size op2 + buffer_left op2"
          using flush(6) [OF go] f2(4,6) by (simp add: buffer_left_def)
        show thesis
        proof (rule buffer_direct_spec [OF f2(1) room])
          fix cs3 op3
          assume direct: "\<And>upd dlen (s :: 's). buffer_direct upd op2 src2 dlen s = do {
              (n, out, s) \<leftarrow> feed upd cs3 dlen s; Some (n, out, op3, s) }"
            "holds op2 op3 (buffered op3)" "concat cs3 @ buffered op3 = buffered op2 @ src2"
            "\<forall>c\<in>set cs3. op_block_size op2 dvd length c"
          show thesis
          proof (rule that [of "cs2 @ cs3" op3])
            show "tee_buffer_update upd op (Some src) dlen s = do {
                (n, out, s) \<leftarrow> feed upd (cs2 @ cs3) dlen s; Some (n, out, op3, s) }" for upd dlen and s :: 's
              using fill(1) False go
              by (auto simp: tee_buffer_update_def flush(1) direct(1) feed_append split: Option.bind_splits)
            show "concat (cs2 @ cs3) @ buffered op3 = buffered op @ src" using direct(3) flush(3) fill(3) by simp
          qed (use holds_trans [OF h2 direct(2)] flush(4) direct(4) f1(3) f2(3) in auto)
        qed
      qed
    qed
  qed
qed

text \<open>C17. The block buffer is a queue of bytes: a call of \<^verbatim>\<open>tee_buffer_update\<close> hands pieces to the update
  function, each a whole number of blocks, and what it handed on followed by what it now holds back is what it
  held before followed by the input. No byte is lost, repeated or reordered, no copy leaves the buffer, and the
  call panics only when the update function fails.\<close>

theorem tee_buffer_update_queue:
  assumes "buf_ok op"
  shows "\<exists>cs op'.
    (\<forall>upd dlen s. tee_buffer_update upd op (Some src) dlen s = do {
       (n, out, s) \<leftarrow> feed upd cs dlen s;
       Some (n, out, op', s)
     }) \<and>
    buf_ok op' \<and> concat cs @ buffered op' = buffered op @ src \<and>
    (\<forall>c\<in>set cs. op_block_size op dvd length c) \<and>
    op' = op\<lparr>op_buffer := op_buffer op', op_buffer_offs := op_buffer_offs op'\<rparr>"
  by (rule tee_buffer_update_spec [OF assms, of src]) (auto simp: holds_def)

text \<open>An operation in the middle of an encryption with AES in CBC mode, and one in XTS mode.\<close>

definition sample_oper :: "nat \<Rightarrow> bool \<Rightarrow> operation" where
  "sample_oper algo two =
     \<lparr>op_algorithm = algo, op_class = TEE_OPERATION_CIPHER, op_mode = TEE_MODE_ENCRYPT,
      op_digestLength = 0, op_maxKeySize = 256, op_keySize = 256, op_requiredKeyUsage = TEE_USAGE_ENCRYPT,
      op_handleState = {HF_KEY_SET, HF_INITIALIZED}, op_key1 = 1, op_key2 = (if two then 4 else 0),
      op_operationState = OPERATION_STATE_ACTIVE, op_buffer = Some (replicate (if two then 32 else 16) 7),
      op_buffer_two_blocks = two, op_block_size = 16, op_buffer_offs = 0, op_state = 2\<rparr>"

lemma buf_ok_sample: "buf_ok (sample_oper algo two)"
  by (simp add: buf_ok_def sample_oper_def buffer_size_def)

theorem tee_buffer_update_queue_witness:
  "buf_ok (sample_oper TEE_ALG_AES_CBC_NOPAD False) \<and>
   (\<exists>cs op'.
    (\<forall>upd dlen (s :: unit). tee_buffer_update upd (sample_oper TEE_ALG_AES_CBC_NOPAD False) (Some (replicate 20 1)) dlen s = do {
       (n, out, s) \<leftarrow> feed upd cs dlen s;
       Some (n, out, op', s)
     }) \<and> concat cs @ buffered op' = replicate 20 1)"
proof -
  have "buffered (sample_oper TEE_ALG_AES_CBC_NOPAD False) = []" by (simp add: buffered_def sample_oper_def)
  then show ?thesis
    using tee_buffer_update_queue [OF buf_ok_sample [of TEE_ALG_AES_CBC_NOPAD False], of "replicate 20 1"]
      buf_ok_sample [of TEE_ALG_AES_CBC_NOPAD False] by (metis append_Nil)
qed

section \<open>Room at the destination\<close>

text \<open>A cipher state that is ready for whole blocks: it was initialised, and from the state of the cipher at hand
  the primitive accepts whole blocks, one piece after the other (\<open>G\<close> holds the states it goes through). Nothing
  is said of other pieces, or of states the cipher does not reach.\<close>

definition cipher_serves :: "env \<Rightarrow> nat \<Rightarrow> nat \<Rightarrow> bytes \<Rightarrow> bool" where
  "cipher_serves C algo bs st \<longleftrightarrow>
     (\<exists>G. st \<in> G \<and>
       (\<forall>st\<in>G. \<forall>b. bs dvd length b \<longrightarrow>
          fst (p_cipher_update (e_prims C) algo False b st) = TEE_SUCCESS \<and>
          snd (snd (p_cipher_update (e_prims C) algo False b st)) \<in> G))"

lemma cipher_serves_step:
  assumes "cipher_serves C algo bs st" "bs dvd length b"
  obtains out st' where "p_cipher_update (e_prims C) algo False b st = (TEE_SUCCESS, out, st')" "cipher_serves C algo bs st'"
proof -
  have "fst (p_cipher_update (e_prims C) algo False b st) = TEE_SUCCESS"
    using assms by (auto simp: cipher_serves_def)
  then obtain out st' where p: "p_cipher_update (e_prims C) algo False b st = (TEE_SUCCESS, out, st')"
    by (metis prod.collapse)
  moreover have "cipher_serves C algo bs st'" using assms p unfolding cipher_serves_def by (metis snd_conv)
  ultimately show thesis by (rule that)
qed

definition cipher_ready :: "env \<Rightarrow> nat \<Rightarrow> nat \<Rightarrow> 'a tee_scheme \<Rightarrow> bool" where
  "cipher_ready C state bs t \<longleftrightarrow>
     (case states t state of
        None \<Rightarrow> False
      | Some cs \<Rightarrow>
          cs_init cs \<and> cs_mode cs \<in> {TEE_MODE_ENCRYPT, TEE_MODE_DECRYPT} \<and>
          tee_cipher_get_block_size (cs_algo cs) = Inr bs \<and> 
          (case cs_ctx cs of CipherCtx (Some st) \<Rightarrow> cipher_serves C (cs_algo cs) bs st | _ \<Rightarrow> False))"

lemma utee_cipher_update_ready:
  assumes ready: "cipher_ready C state bs t" and b: "bs dvd length b" "length b \<le> dlen"
  shows "\<exists>out t'. utee_cipher_update C state b dlen t = Some (TEE_SUCCESS, out, length b, t') \<and>
    cipher_ready C state bs t' \<and> opers t' = opers t"
proof -
  obtain cs st where cs: "states t state = Some cs" "cs_init cs" "cs_mode cs \<in> {TEE_MODE_ENCRYPT, TEE_MODE_DECRYPT}"
      "tee_cipher_get_block_size (cs_algo cs) = Inr bs" "cs_ctx cs = CipherCtx (Some st)"
      and ok: "cipher_serves C (cs_algo cs) bs st"
    using ready by (auto simp: cipher_ready_def split: option.splits cryp_ctx.splits)
  show ?thesis
  proof (cases "b = []")
    case True
    then show ?thesis using cs ok ready
      by (auto simp: utee_cipher_update_def syscall_cipher_update_def tee_svc_cipher_update_helper_def
        tee_svc_cryp_get_state_def len_back_def set_state_def cipher_ready_def)
  next
    case False
    obtain out st' where p: "p_cipher_update (e_prims C) (cs_algo cs) False b st = (TEE_SUCCESS, out, st')"
      and ok': "cipher_serves C (cs_algo cs) bs st'"
      using ok b(1) by (rule cipher_serves_step)
    have "tee_do_cipher_update C (cs_algo cs) (cs_mode cs) False b (cs_ctx cs)
        = Some (TEE_SUCCESS, out, CipherCtx (Some st'))"
      using cs b(1) p by (auto simp: tee_do_cipher_update_def dvd_eq_mod_eq_0)
    then show ?thesis using cs ok' b(2) False
      by (auto simp: utee_cipher_update_def syscall_cipher_update_def tee_svc_cipher_update_helper_def
        tee_svc_cryp_get_state_def len_back_def set_state_def cipher_ready_def)
  qed
qed

lemma utee_cipher_update_short:
  assumes "cipher_ready C state bs t" "dlen < length b"
  shows "utee_cipher_update C state b dlen t = Some (TEE_ERROR_SHORT_BUFFER, [], length b, t)"
  using assms
  by (auto simp: utee_cipher_update_def syscall_cipher_update_def tee_svc_cipher_update_helper_def
    tee_svc_cryp_get_state_def len_back_def cipher_ready_def split: option.splits)

lemma dvd_length_concat: "\<forall>c\<in>set cs. n dvd length c \<Longrightarrow> n dvd length (concat cs)"
  by (induction cs) auto

lemma feed_ready:
  assumes "cipher_ready C state bs t" "\<forall>c\<in>set cs. bs dvd length c" "length (concat cs) \<le> dlen"
  shows "\<exists>out t'. feed (utee_cipher_update C state) cs dlen t = Some (length (concat cs), out, t') \<and> opers t' = opers t"
  using assms
proof (induction cs arbitrary: t dlen)
  case (Cons c cs)
  obtain out t1 where "utee_cipher_update C state c dlen t = Some (TEE_SUCCESS, out, length c, t1)"
      "cipher_ready C state bs t1" "opers t1 = opers t"
    using utee_cipher_update_ready [OF Cons.prems(1), of c dlen] Cons.prems(2,3) by auto
  moreover obtain out' t2 where "feed (utee_cipher_update C state) cs (dlen - length c) t1
      = Some (length (concat cs), out', t2)" "opers t2 = opers t1"
    using Cons.IH [OF calculation(2), of "dlen - length c"] Cons.prems(2,3) by (auto simp: le_diff_conv2)
  ultimately show ?case by simp
qed simp

text \<open>C18. On a cipher operation that is initialised and active and buffers one block, whose cipher serves whole
  blocks, \<^verbatim>\<open>TEE_CipherUpdate\<close> never panics: a destination shorter than
  the whole blocks at hand is refused with \<^verbatim>\<open>TEE_ERROR_SHORT_BUFFER\<close>, the required size and no change of the
  state, and any other call succeeds and reports no more bytes than the destination has.\<close>

theorem TEE_CipherUpdate_one_block:
  assumes op: "opers t a = Some op" "op_class op = TEE_OPERATION_CIPHER" "HF_INITIALIZED \<in> op_handleState op"
      "op_operationState op = OPERATION_STATE_ACTIVE"
    and buf: "buf_ok op" "\<not> op_buffer_two_blocks op" "1 < op_block_size op"
    and ready: "cipher_ready C (op_state op) (op_block_size op) t"
  shows "if destLen < cipher_req_dlen op (length src)
    then TEE_CipherUpdate C a (Some src) destLen t = Some (TEE_ERROR_SHORT_BUFFER, [], cipher_req_dlen op (length src), t)
    else \<exists>out dl t'. TEE_CipherUpdate C a (Some src) destLen t = Some (TEE_SUCCESS, out, dl, t') \<and> dl \<le> destLen"
proof (cases "destLen < cipher_req_dlen op (length src)")
  case False
  show ?thesis
  proof (rule tee_buffer_update_spec [OF buf(1), of src])
    fix cs op'
    assume upd: "\<And>upd dlen (s :: 'a tee_scheme). tee_buffer_update upd op (Some src) dlen s = do {
        (n, out, s) \<leftarrow> feed upd cs dlen s; Some (n, out, op', s) }"
      and cs: "concat cs @ buffered op' = buffered op @ src" "\<forall>c\<in>set cs. op_block_size op dvd length c"
    have "op_block_size op dvd length (concat cs)" using cs(2) by (rule dvd_length_concat)
    moreover have "length (concat cs) \<le> op_buffer_offs op + length src"
      using arg_cong [OF cs(1), of length] buf(1) by (elim buf_okE) simp
    ultimately have "length (concat cs) \<le> (op_buffer_offs op + length src) div op_block_size op * op_block_size op"
      using div_le_mono [of "length (concat cs)" "op_buffer_offs op + length src" "op_block_size op"]
      by (metis dvd_div_mult_self mult_le_mono1)
    then have fits: "length (concat cs) \<le> destLen" using False buf(2,3) by (simp add: cipher_req_dlen_def)
    then obtain out t' where "feed (utee_cipher_update C (op_state op)) cs destLen t = Some (length (concat cs), out, t')"
      using feed_ready [OF ready cs(2)] by blast
    then show ?thesis using False fits op buf(3) by (simp add: TEE_CipherUpdate_def upd)
  qed
qed (use op in \<open>simp add: TEE_CipherUpdate_def\<close>)

text \<open>A state with such an operation and its cipher state.\<close>

definition sample_cipher_tee :: "nat \<Rightarrow> bool \<Rightarrow> tee" where
  "sample_cipher_tee algo two =
     tee_start\<lparr>tick := 4, objs := (if two then [1 \<mapsto> sample_key, 4 \<mapsto> sample_key] else [1 \<mapsto> sample_key]),
       opers := [3 \<mapsto> sample_oper algo two],
       states := [2 \<mapsto> \<lparr>cs_algo = algo, cs_mode = TEE_MODE_ENCRYPT, cs_key1 = 1, cs_key2 = (if two then 4 else 0),
                       cs_ctx = CipherCtx (Some (replicate 64 0)), cs_finalize = True, cs_init = True\<rparr>]\<rparr>"

lemma cipher_ready_sample:
  "algo \<in> {TEE_ALG_AES_CBC_NOPAD, TEE_ALG_AES_XTS} \<Longrightarrow> cipher_ready sample_env 2 16 (sample_cipher_tee algo two)"
  by (auto simp: cipher_ready_def sample_cipher_tee_def cipher_serves_def tee_cipher_get_block_size_def
    sample_env_def sample_prims_def)

theorem TEE_CipherUpdate_one_block_witness:
  "(\<exists>out dl t'. TEE_CipherUpdate sample_env 3 (Some (replicate 20 1)) 16 (sample_cipher_tee TEE_ALG_AES_CBC_NOPAD False)
      = Some (TEE_SUCCESS, out, dl, t') \<and> dl \<le> 16) \<and>
   TEE_CipherUpdate sample_env 3 (Some (replicate 20 1)) 15 (sample_cipher_tee TEE_ALG_AES_CBC_NOPAD False)
     = Some (TEE_ERROR_SHORT_BUFFER, [], 16, sample_cipher_tee TEE_ALG_AES_CBC_NOPAD False)"
proof -
  let ?op = "sample_oper TEE_ALG_AES_CBC_NOPAD False" and ?t = "sample_cipher_tee TEE_ALG_AES_CBC_NOPAD False"
  have op: "opers ?t 3 = Some ?op" "op_class ?op = TEE_OPERATION_CIPHER" "HF_INITIALIZED \<in> op_handleState ?op"
      "op_operationState ?op = OPERATION_STATE_ACTIVE" "\<not> op_buffer_two_blocks ?op" "1 < op_block_size ?op"
      "cipher_ready sample_env (op_state ?op) (op_block_size ?op) ?t"
    using cipher_ready_sample [of TEE_ALG_AES_CBC_NOPAD False]
    by (simp_all add: sample_cipher_tee_def [of _ False] sample_oper_def)
  have req: "cipher_req_dlen ?op (length (replicate 20 (1 :: 8 word))) = 16"
    by (simp add: cipher_req_dlen_def sample_oper_def)
  show ?thesis
    using TEE_CipherUpdate_one_block [OF op(1-4) buf_ok_sample op(5-7), of 16 "replicate 20 1"]
      TEE_CipherUpdate_one_block [OF op(1-4) buf_ok_sample op(5-7), of 15 "replicate 20 1"]
    unfolding req by simp
qed

text \<open>What an operation with an empty buffer of two blocks hands on at once.\<close>

lemma roundup_two_blocks:
  assumes "0 < bs" "2 * bs < n" "cts \<Longrightarrow> \<not> bs dvd n"
  shows "(if cts then ROUNDUP (n - 2 * bs) bs else ROUNDUP (n - 2 * bs + 1) bs) = (n div bs - 1) * bs"
proof (cases cts)
  case False
  have "n - 2 * bs + 1 + bs - 1 = n - bs" using assms(2) by simp
  then show ?thesis using False assms(1,2) by (simp add: ROUNDUP_def le_div_geq)
next
  case True
  have "n div bs = (n - 1) div bs"
  proof -
    have "0 < n mod bs" using assms(3) True by (simp add: dvd_eq_mod_eq_0)
    then have "n - 1 = n div bs * bs + (n mod bs - 1)" using div_mult_mod_eq [of n bs] by linarith
    also have "(n div bs * bs + (n mod bs - 1)) div bs = n div bs"
      using assms(1) mod_less_divisor [OF assms(1), of n] by (simp add: div_add1_eq less_imp_diff_less del: div_mult_mod_eq)
    finally show ?thesis by (simp only:)
  qed
  moreover have "n - 2 * bs + bs - 1 = n - 1 - bs" using assms(2) by simp
  ultimately show ?thesis using True assms(1,2) by (simp add: ROUNDUP_def le_div_geq)
qed

lemma tee_buffer_update_two_blocks:
  assumes "buf_ok op" "op_buffer_two_blocks op" "op_buffer_offs op = 0" "2 * op_block_size op < length src"
    and "op_algorithm op = TEE_ALG_AES_CTS \<Longrightarrow> \<not> op_block_size op dvd length src"
  defines "l \<equiv> (length src div op_block_size op - 1) * op_block_size op"
  shows "tee_buffer_update upd op (Some src) dlen s = do {
      (res, out, n, s) \<leftarrow> upd (take l src) dlen s;
      require (res = TEE_SUCCESS);
      op' \<leftarrow> op_store op 0 (drop l src);
      Some (n, out, op'\<lparr>op_buffer_offs := length src - l\<rparr>, s)
    }"
proof -
  have "0 < op_block_size op" using assms(1) by (simp add: buf_ok_def)
  note roundup_two_blocks [of _ _ "op_algorithm op = TEE_ALG_AES_CTS", OF this assms(4,5)]
  then have "(if op_algorithm op = TEE_ALG_AES_CTS then ROUNDUP (length src - 2 * op_block_size op) (op_block_size op)
      else ROUNDUP (length src - 2 * op_block_size op + 1) (op_block_size op)) = l"
    by (simp only: l_def)
  then show ?thesis using assms(2-4)
    by (simp add: tee_buffer_update_def buffer_fill_def buffer_flush_def buffer_direct_def buffer_size_def
      buffer_left_def mult.commute Suc_le_eq cong: if_cong split del: if_split)
      (auto intro: Option.bind_cong)
qed

lemma two_blocks_rest:
  assumes "buf_ok op" "op_buffer_two_blocks op" "2 * op_block_size op < length src"
  shows "length (drop ((length src div op_block_size op - 1) * op_block_size op) src) < buffer_size op"
proof -
  have bs: "0 < op_block_size op" using assms(1) by (simp add: buf_ok_def)
  have "length src < Suc (length src div op_block_size op) * op_block_size op"
    using bs by (metis dividend_less_div_times add.commute mult_Suc)
  moreover have "n < k + x \<Longrightarrow> 0 < k \<Longrightarrow> n - (x - k) < k * 2" for n k x :: nat by arith
  ultimately show ?thesis using assms(2) bs by (simp add: buffer_size_def diff_mult_distrib)
qed

text \<open>C24. On an operation that buffers two blocks (XTS, CTS) and holds nothing yet, the size that
  \<^verbatim>\<open>TEE_CipherUpdate\<close> requires is one block short. With more than two blocks of input (for CTS, not a whole
  number of them), all whole blocks but one are handed to the service, and the size required is that of all whole
  blocks but two: below it the call is refused with \<^verbatim>\<open>TEE_ERROR_SHORT_BUFFER\<close>; within a block above it the
  call passes the check and the service refuses the destination, which is a panic; from one block above it on
  the call succeeds.\<close>

theorem TEE_CipherUpdate_two_blocks_panic:
  assumes op: "opers t a = Some op" "op_class op = TEE_OPERATION_CIPHER" "HF_INITIALIZED \<in> op_handleState op"
      "op_operationState op = OPERATION_STATE_ACTIVE"
    and buf: "buf_ok op" "op_buffer_two_blocks op" "op_buffer_offs op = 0" "1 < op_block_size op"
    and ready: "cipher_ready C (op_state op) (op_block_size op) t"
    and src: "2 * op_block_size op < length src"
      "op_algorithm op = TEE_ALG_AES_CTS \<Longrightarrow> \<not> op_block_size op dvd length src"
  defines "q \<equiv> length src div op_block_size op"
  shows "(destLen < (q - 2) * op_block_size op \<longrightarrow>
      TEE_CipherUpdate C a (Some src) destLen t = Some (TEE_ERROR_SHORT_BUFFER, [], (q - 2) * op_block_size op, t)) \<and>
    ((q - 2) * op_block_size op \<le> destLen \<and> destLen < (q - 1) * op_block_size op \<longrightarrow>
      TEE_CipherUpdate C a (Some src) destLen t = None) \<and>
    ((q - 1) * op_block_size op \<le> destLen \<longrightarrow>
      (\<exists>out t'. TEE_CipherUpdate C a (Some src) destLen t = Some (TEE_SUCCESS, out, (q - 1) * op_block_size op, t')))"
proof -
  let ?bs = "op_block_size op"
  have q: "2 \<le> q" using src(1) buf(4) by (simp add: q_def less_eq_div_iff_mult_less_eq)
  have req: "cipher_req_dlen op (length src) = (q - 2) * ?bs"
    using buf q by (simp add: cipher_req_dlen_def q_def [symmetric] diff_mult_distrib mult.commute [of _ 2])
  let ?l = "(q - 1) * ?bs"
  have l: "length (take ?l src) = ?l" using div_times_less_eq_dividend [of "length src" ?bs]
    by (simp add: q_def diff_mult_distrib min_absorb2 le_diff_conv trans_le_add1 del: div_times_less_eq_dividend)
  note upd = tee_buffer_update_two_blocks [OF buf(1,2,3) src, folded q_def]
  have short: "TEE_CipherUpdate C a (Some src) destLen t = Some (TEE_ERROR_SHORT_BUFFER, [], (q - 2) * ?bs, t)"
    if "destLen < (q - 2) * ?bs"
    using that op by (simp add: TEE_CipherUpdate_def req)
  have panic: "TEE_CipherUpdate C a (Some src) destLen t = None" if "\<not> destLen < (q - 2) * ?bs" "destLen < ?l"
    using that op buf(4) utee_cipher_update_short [OF ready, of destLen "take ?l src"] l
    by (simp add: TEE_CipherUpdate_def req upd)
  have "\<exists>out t'. TEE_CipherUpdate C a (Some src) destLen t = Some (TEE_SUCCESS, out, ?l, t')" if fits: "?l \<le> destLen"
  proof -
    obtain out t' where "utee_cipher_update C (op_state op) (take ?l src) destLen t = Some (TEE_SUCCESS, out, ?l, t')"
      using utee_cipher_update_ready [OF ready, of "take ?l src" destLen, unfolded l, OF dvd_triv_right fits] by blast
    moreover obtain op' where "op_store op 0 (drop ?l src) = Some op'"
      using op_store_append [OF buf(1), of "drop ?l src"] two_blocks_rest [OF buf(1,2) src(1), folded q_def] buf(3) by auto
    moreover have "\<not> destLen < (q - 2) * ?bs" using fits by (simp add: diff_mult_distrib)
    ultimately show ?thesis using op buf(4) by (simp add: TEE_CipherUpdate_def req upd)
  qed
  with short panic show ?thesis by (simp add: not_less)
qed

text \<open>Three blocks of input on an operation in XTS mode: no room, room for one block and room for two.\<close>

theorem TEE_CipherUpdate_two_blocks_panic_witness:
  "cipher_ready sample_env 2 16 (sample_cipher_tee TEE_ALG_AES_XTS True) \<and>
   TEE_CipherUpdate sample_env 3 (Some (replicate 48 1)) 0 (sample_cipher_tee TEE_ALG_AES_XTS True) =
     Some (TEE_ERROR_SHORT_BUFFER, [], 16, sample_cipher_tee TEE_ALG_AES_XTS True) \<and>
   TEE_CipherUpdate sample_env 3 (Some (replicate 48 1)) 16 (sample_cipher_tee TEE_ALG_AES_XTS True) = None \<and>
   (\<exists>out t'. TEE_CipherUpdate sample_env 3 (Some (replicate 48 1)) 32 (sample_cipher_tee TEE_ALG_AES_XTS True) =
     Some (TEE_SUCCESS, out, 32, t'))"
proof -
  let ?op = "sample_oper TEE_ALG_AES_XTS True" and ?t = "sample_cipher_tee TEE_ALG_AES_XTS True"
  have op: "opers ?t 3 = Some ?op" "op_class ?op = TEE_OPERATION_CIPHER" "HF_INITIALIZED \<in> op_handleState ?op"
      "op_operationState ?op = OPERATION_STATE_ACTIVE" "op_buffer_two_blocks ?op" "op_buffer_offs ?op = 0"
      "1 < op_block_size ?op" "cipher_ready sample_env (op_state ?op) (op_block_size ?op) ?t"
    using cipher_ready_sample [of TEE_ALG_AES_XTS True] by (simp_all add: sample_cipher_tee_def [of _ True] sample_oper_def)
  have src: "2 * op_block_size ?op < length (replicate 48 (1 :: 8 word))" and cts: "op_algorithm ?op \<noteq> TEE_ALG_AES_CTS"
    and bs: "op_block_size ?op = 16"
    by (simp_all add: sample_oper_def)
  note run = TEE_CipherUpdate_two_blocks_panic [OF op(1-4) buf_ok_sample op(5-8) src, unfolded bs]
  show ?thesis using run [of 0] run [of 16] run [of 32] cts cipher_ready_sample [of TEE_ALG_AES_XTS True] by simp
qed

end
