(* ===== verification/Utee_Run.thy ===== *)
theory Utee_Run
  imports Utee_Buffer
begin

text \<open>
  The behaviour of the TEE internal API in the calls the attestation protocol makes: SHA-256 digests, AES-CMAC,
  AES-GCM with 128-bit keys, ECDSA and ECDH over P-256. In a run in which no allocation fails every call is an
  equation that gives the result and the new state explicitly, so that a caller is executed by rewriting. The
  objects and operations that appear in such runs are named.
\<close>

section \<open>Objects\<close>

definition new_obj :: "nat \<Rightarrow> nat \<Rightarrow> attr_val list \<Rightarrow> tee_obj" where
  "new_obj ty mks attrs =
     \<lparr>o_type = ty, o_keySize = 0, o_maxKeySize = mks, o_usage = TEE_USAGE_DEFAULT, o_flags = {}, o_busy = False,
      o_have = {}, o_attr = Some attrs\<rparr>"

definition key_obj :: "nat \<Rightarrow> nat \<Rightarrow> nat \<Rightarrow> attr_val list \<Rightarrow> tee_obj" where
  "key_obj ty sz mks attrs =
     \<lparr>o_type = ty, o_keySize = sz, o_maxKeySize = mks, o_usage = TEE_USAGE_DEFAULT, o_flags = {HF_INITIALIZED},
      o_busy = False, o_have = {0..<length attrs}, o_attr = Some attrs\<rparr>"

abbreviation aes_key :: "bytes \<Rightarrow> tee_obj" where
  "aes_key k \<equiv> key_obj TEE_TYPE_AES 128 128 [Secret 32 k]"

abbreviation generic_secret :: "bytes \<Rightarrow> tee_obj" where
  "generic_secret k \<equiv> key_obj TEE_TYPE_GENERIC_SECRET (8 * length k) 256 [Secret 512 k]"

abbreviation p256_keypair :: "nat \<Rightarrow> nat \<Rightarrow> nat \<Rightarrow> nat \<Rightarrow> tee_obj" where
  "p256_keypair ty d x y \<equiv> key_obj ty 256 256 [Bignum d, Bignum x, Bignum y, Value TEE_ECC_CURVE_NIST_P256]"

abbreviation p256_public :: "nat \<Rightarrow> nat \<Rightarrow> nat \<Rightarrow> tee_obj" where
  "p256_public ty x y \<equiv> key_obj ty 256 256 [Bignum x, Bignum y, Value TEE_ECC_CURVE_NIST_P256]"

lemma find_type_props_ecdh_public [simp]:
  "tee_svc_find_type_props C TEE_TYPE_ECDH_PUBLIC_KEY =
     Some (OBJ_PROP TEE_TYPE_ECDH_PUBLIC_KEY 1 192 521 32 tee_cryp_obj_ecc_pub_key_attrs)"
  by (simp add: tee_svc_find_type_props_def tee_cryp_obj_props_def OBJ_PROP_def)

lemma numeral_eq_Suc_small: "n + 3 = Suc (Suc (Suc n))" "n + 4 = Suc (Suc (Suc (Suc n)))" "n + 5 = Suc (Suc (Suc (Suc (Suc n))))"
  by simp_all

lemmas obj_alloc_defs = TEE_AllocateTransientObject_def syscall_cryp_obj_alloc_def tee_obj_set_type_def
  tee_obj_zero_def OBJ_PROP_def check_key_size_def is_gp_legacy_des_key_size_def init_attrs_def
  alloc_key_attrs_def num_bignums_def crypto_asym_alloc_ecc_public_key_def crypto_asym_alloc_ecc_keypair_def
  ecc_keypair_ops_of_def ecc_public_ops_of_def attr_tables TA_def new_obj_def

lemma alloc_object [api_simps]:
  assumes "no_oom C"
  shows "TEE_AllocateTransientObject C TEE_TYPE_AES 128 t =
      Some (Inr (tick t + 1), tee_obj_add (tick t + 1) (new_obj TEE_TYPE_AES 128 [Secret 32 []]) (t\<lparr>tick := tick t + 2\<rparr>))"
    "TEE_AllocateTransientObject C TEE_TYPE_GENERIC_SECRET 256 t =
      Some (Inr (tick t + 1), tee_obj_add (tick t + 1) (new_obj TEE_TYPE_GENERIC_SECRET 256 [Secret 512 []])
        (t\<lparr>tick := tick t + 2\<rparr>))"
    "ty \<in> {TEE_TYPE_ECDSA_KEYPAIR, TEE_TYPE_ECDH_KEYPAIR} \<Longrightarrow> TEE_AllocateTransientObject C ty 256 t =
      Some (Inr (tick t + 1), tee_obj_add (tick t + 1) (new_obj ty 256 [Bignum 0, Bignum 0, Bignum 0, Value 0])
        (t\<lparr>tick := tick t + 5\<rparr>))"
    "ty \<in> {TEE_TYPE_ECDSA_PUBLIC_KEY, TEE_TYPE_ECDH_PUBLIC_KEY} \<Longrightarrow> TEE_AllocateTransientObject C ty 256 t =
      Some (Inr (tick t + 1), tee_obj_add (tick t + 1) (new_obj ty 256 [Bignum 0, Bignum 0, Value 0])
        (t\<lparr>tick := tick t + 4\<rparr>))"
  using assms by (auto simp: obj_alloc_defs ac_simps numeral_eq_Suc_small)


text \<open>The checks on the attributes of the calls of the protocol.\<close>

lemma attrs_with_filter:
  "attrs_with P props = set (filter (\<lambda>n. P (ta_flags (tp_attrs props ! n))) [0..<length (tp_attrs props)])"
  by (auto simp: attrs_with_def)

lemmas check_attr_defs = tee_svc_cryp_check_attr_def attrs_with_filter OBJ_PROP_def attr_tables TA_def
  tee_svc_cryp_obj_find_type_attr_idx_def

lemma check_attr_secret [simp]:
  "tee_svc_cryp_check_attr ATTR_USAGE_POPULATE (OBJ_PROP ty q mn mx sz tee_cryp_obj_secret_value_attrs)
     [RefAttr TEE_ATTR_SECRET_VALUE k] = TEE_SUCCESS"
  by (simp add: check_attr_defs)

lemma check_attr_public [simp]:
  "tee_svc_cryp_check_attr ATTR_USAGE_POPULATE (OBJ_PROP ty q mn mx sz tee_cryp_obj_ecc_pub_key_attrs)
     [RefAttr TEE_ATTR_ECC_PUBLIC_VALUE_X x, RefAttr TEE_ATTR_ECC_PUBLIC_VALUE_Y y, ValAttr TEE_ATTR_ECC_CURVE c b] =
   TEE_SUCCESS"
  by (simp add: check_attr_defs)

lemma check_attr_generate [simp]:
  "tee_svc_cryp_check_attr ATTR_USAGE_GENERATE_KEY (OBJ_PROP ty q mn mx sz tee_cryp_obj_ecc_keypair_attrs)
     [ValAttr TEE_ATTR_ECC_CURVE c b] = TEE_SUCCESS"
  by (simp add: check_attr_defs)

lemma new_obj_simps [simp]:
  "o_type (new_obj ty mks attrs) = ty" "o_keySize (new_obj ty mks attrs) = 0" "o_maxKeySize (new_obj ty mks attrs) = mks"
  "o_usage (new_obj ty mks attrs) = TEE_USAGE_DEFAULT" "o_flags (new_obj ty mks attrs) = {}"
  "\<not> o_busy (new_obj ty mks attrs)" "o_attr (new_obj ty mks attrs) = Some attrs"
  by (simp_all add: new_obj_def)

lemma key_obj_simps [simp]:
  "o_type (key_obj ty sz mks attrs) = ty" "o_keySize (key_obj ty sz mks attrs) = sz"
  "o_usage (key_obj ty sz mks attrs) = TEE_USAGE_DEFAULT" "o_flags (key_obj ty sz mks attrs) = {HF_INITIALIZED}"
  "\<not> o_busy (key_obj ty sz mks attrs)" "o_have (key_obj ty sz mks attrs) = {0..<length attrs}"
  "o_attr (key_obj ty sz mks attrs) = Some attrs"
  "(key_obj ty sz mks attrs)\<lparr>o_flags := {HF_INITIALIZED}\<rparr> = key_obj ty sz mks attrs"
  by (simp_all add: key_obj_def)

lemmas populate_defs = TEE_PopulateTransientObject_def syscall_cryp_obj_populate_def syscall_cryp_obj_get_info_def
  tee_obj_get_def

lemmas populate_type_defs = tee_svc_cryp_obj_populate_type_def populate_step_def attr_content_def
  OBJ_PROP_def attr_tables TA_def tee_svc_cryp_obj_find_type_attr_idx_def
  indicated_size_def is_gp_legacy_des_key_size_def attr_from_user_def crypto_bignum_bin2bn_def get_ec_key_size_def

lemma un_le32_word [simp]: "n < 2 ^ 32 \<Longrightarrow> un_le32 (le32 n) = n"
  using un_le32_le32 [of n "[]"] by simp

lemma first_indices [simp]: "{0..<Suc 0} = {0}" "{0..<Suc (Suc (Suc 0))} = {0, Suc 0, Suc (Suc 0)}"
  "{0..<Suc (Suc (Suc (Suc 0)))} = {0, Suc 0, 2, 3}"
  by auto

lemma populate_type_secret [simp]:
  assumes "length k = 16"
  shows "tee_svc_cryp_obj_populate_type C now (new_obj TEE_TYPE_AES 128 [Secret 32 []])
      (OBJ_PROP ty q mn mx sz tee_cryp_obj_secret_value_attrs) [RefAttr TEE_ATTR_SECRET_VALUE k] =
    Some (TEE_SUCCESS, (aes_key k)\<lparr>o_flags := {}\<rparr>)"
  using assms by (simp add: new_obj_def key_obj_def populate_type_defs)

lemma populate_type_public [simp]:
  assumes "no_oom C" "length x \<le> 66" "length y \<le> 66"
  shows "tee_svc_cryp_obj_populate_type C now (new_obj ty 256 [Bignum 0, Bignum 0, Value 0])
      (OBJ_PROP ty q mn mx sz tee_cryp_obj_ecc_pub_key_attrs)
      [RefAttr TEE_ATTR_ECC_PUBLIC_VALUE_X x, RefAttr TEE_ATTR_ECC_PUBLIC_VALUE_Y y,
       ValAttr TEE_ATTR_ECC_CURVE TEE_ECC_CURVE_NIST_P256 b] =
    Some (TEE_SUCCESS, (p256_public ty (bn_of_bytes x) (bn_of_bytes y))\<lparr>o_flags := {}\<rparr>)"
  using assms
  by (simp add: new_obj_def key_obj_def populate_type_defs no_oom_mpi insert_commute)

lemma populate_aes [api_simps]:
  assumes "no_oom C" "objs t a = Some (new_obj TEE_TYPE_AES 128 [Secret 32 []])" "length k = 16"
  shows "TEE_PopulateTransientObject C a [RefAttr TEE_ATTR_SECRET_VALUE k] t =
    Some (TEE_SUCCESS, tee_obj_add a (aes_key k) (t\<lparr>tick := tick t + 1\<rparr>))"
  using assms by (simp add: populate_defs)

lemma populate_public [api_simps]:
  assumes "no_oom C" "objs t a = Some (new_obj ty 256 [Bignum 0, Bignum 0, Value 0])"
    "ty \<in> {TEE_TYPE_ECDSA_PUBLIC_KEY, TEE_TYPE_ECDH_PUBLIC_KEY}" "length x \<le> 66" "length y \<le> 66"
  shows "TEE_PopulateTransientObject C a [RefAttr TEE_ATTR_ECC_PUBLIC_VALUE_X x, RefAttr TEE_ATTR_ECC_PUBLIC_VALUE_Y y,
      ValAttr TEE_ATTR_ECC_CURVE TEE_ECC_CURVE_NIST_P256 b] t =
    Some (TEE_SUCCESS, tee_obj_add a (p256_public ty (bn_of_bytes x) (bn_of_bytes y)) (t\<lparr>tick := tick t + 1\<rparr>))"
  using assms by (auto simp: populate_defs)

text \<open>The key pair the library makes at a given time.\<close>

definition p256_make :: "env \<Rightarrow> nat \<Rightarrow> nat \<times> nat \<times> nat \<Rightarrow> bool" where
  "p256_make C n k \<longleftrightarrow>
     (case k of (d, x, y) \<Rightarrow>
        p_ecc_make_key (e_prims C) 32 (e_entropy C n) = Some (d, x, y, 1) \<and>
        d < 2 ^ 256 \<and> x < 2 ^ 256 \<and> y < 2 ^ 256)"

lemma populate_type_generate [simp]:
  "tee_svc_cryp_obj_populate_type C now (new_obj ty 256 [Bignum 0, Bignum 0, Bignum 0, Value 0])
      (OBJ_PROP ty q mn mx sz tee_cryp_obj_ecc_keypair_attrs) [ValAttr TEE_ATTR_ECC_CURVE TEE_ECC_CURVE_NIST_P256 b] =
    Some (TEE_SUCCESS, (p256_keypair ty 0 0 0)\<lparr>o_flags := {}, o_have := {3}\<rparr>)"
  by (simp add: new_obj_def key_obj_def populate_type_defs)

lemma set_all_attributes [simp]:
  "set_attribute (set_attribute (set_attribute (set_attribute ob
      (OBJ_PROP ty q mn mx sz tee_cryp_obj_ecc_keypair_attrs) TEE_ATTR_ECC_PRIVATE_VALUE)
      (OBJ_PROP ty q mn mx sz tee_cryp_obj_ecc_keypair_attrs) TEE_ATTR_ECC_PUBLIC_VALUE_X)
      (OBJ_PROP ty q mn mx sz tee_cryp_obj_ecc_keypair_attrs) TEE_ATTR_ECC_PUBLIC_VALUE_Y)
      (OBJ_PROP ty q mn mx sz tee_cryp_obj_ecc_keypair_attrs) TEE_ATTR_ECC_CURVE =
    ob\<lparr>o_have := insert 3 (insert 2 (insert 1 (insert 0 (o_have ob))))\<rparr>"
  by (simp add: set_attribute_def OBJ_PROP_def attr_tables TA_def tee_svc_cryp_obj_find_type_attr_idx_def
    numeral_2_eq_2 numeral_3_eq_3)

lemma generate_keypair [api_simps]:
  assumes "no_oom C" "objs t a = Some (new_obj ty 256 [Bignum 0, Bignum 0, Bignum 0, Value 0])"
    "ty \<in> {TEE_TYPE_ECDSA_KEYPAIR, TEE_TYPE_ECDH_KEYPAIR}" "p256_make C (tick t + 1) (d, x, y)"
  shows "TEE_GenerateKey C a 256 [ValAttr TEE_ATTR_ECC_CURVE TEE_ECC_CURVE_NIST_P256 b] t =
    Some (TEE_SUCCESS, tee_obj_add a (p256_keypair ty d x y) (t\<lparr>tick := tick t + 2\<rparr>))"
proof -
  have "ltc_ecc_keypair_from C (e_entropy C (Suc (tick t))) 256
      \<lparr>kp_d = 0, kp_x = 0, kp_y = 0, kp_curve = TEE_ECC_CURVE_NIST_P256\<rparr> =
    (TEE_SUCCESS, \<lparr>kp_d = d, kp_x = x, kp_y = y, kp_curve = TEE_ECC_CURVE_NIST_P256\<rparr>)"
    using assms(4) by (simp add: p256_make_def ltc_ecc_keypair_from_P256)
  moreover have "check_key_size C (OBJ_PROP ty 1 192 521 40 tee_cryp_obj_ecc_keypair_attrs) 256 = TEE_SUCCESS"
    by (simp add: check_key_size_def OBJ_PROP_def is_gp_legacy_des_key_size_def)
  ultimately show ?thesis
    using assms(1-3)
    by (auto simp: TEE_GenerateKey_def syscall_obj_generate_key_def tee_obj_get_def secret_types_def
      tee_svc_obj_generate_key_ecc_def ltc_ecc_generate_keypair_def attrs_of_keypair_def key_obj_def
      insert_commute)
qed

text \<open>Reading an attribute back, and freeing.\<close>

lemmas get_attr_defs = TEE_GetObjectBufferAttribute_def syscall_cryp_obj_get_info_def syscall_cryp_obj_get_attr_def
  tee_obj_get_def tee_svc_cryp_obj_find_type_attr_idx_def OBJ_PROP_def attr_tables TA_def attr_to_user_def
  crypto_bignum_num_bytes_def crypto_bignum_bn2bin_def

lemma get_secret [api_simps]:
  assumes "objs t a = Some (key_obj ty n mks [Secret sz k])" "ty \<in> {TEE_TYPE_AES, TEE_TYPE_GENERIC_SECRET}"
    "length k \<le> room"
  shows "TEE_GetObjectBufferAttribute C a TEE_ATTR_SECRET_VALUE room t = Some (TEE_SUCCESS, length k, Some k)"
  using assms by (auto simp: get_attr_defs)

text \<open>A number that is 0 has length 0 and leaves the buffer alone.\<close>

definition bn_out :: "nat \<Rightarrow> bytes option" where
  "bn_out n = (if n = 0 then None else Some (bytes_of_bn n))"

lemma get_coordinate [api_simps]:
  assumes "objs t a = Some (p256_keypair ty d x y)" "ty \<in> {TEE_TYPE_ECDSA_KEYPAIR, TEE_TYPE_ECDH_KEYPAIR}"
  shows "x < 2 ^ 256 \<Longrightarrow> TEE_GetObjectBufferAttribute C a TEE_ATTR_ECC_PUBLIC_VALUE_X 32 t =
      Some (TEE_SUCCESS, length (bytes_of_bn x), bn_out x)"
    "y < 2 ^ 256 \<Longrightarrow> TEE_GetObjectBufferAttribute C a TEE_ATTR_ECC_PUBLIC_VALUE_Y 32 t =
      Some (TEE_SUCCESS, length (bytes_of_bn y), bn_out y)"
  using assms length_bytes_of_bn_le_iff [of x 32] length_bytes_of_bn_le_iff [of y 32]
  by (auto simp: get_attr_defs bn_out_def)

lemma free_object [api_simps]:
  assumes "objs t a = Some ob" "a \<noteq> 0" "HF_PERSISTENT \<notin> o_flags ob" "\<not> o_busy ob"
  shows "TEE_FreeTransientObject a t = Some (t\<lparr>objs := (objs t)(a := None)\<rparr>)"
  using assms
  by (simp add: TEE_FreeTransientObject_def syscall_cryp_obj_get_info_def syscall_cryp_obj_close_def tee_obj_get_def
    tee_obj_close_def)

lemma free_null [simp]: "TEE_FreeTransientObject 0 t = Some t"
  by (simp add: TEE_FreeTransientObject_def)

section \<open>Operations\<close>

text \<open>The build has the algorithms of the protocol.\<close>

definition ready :: "env \<Rightarrow> bool" where
  "ready C \<longleftrightarrow> no_oom C \<and> CFG_ALG TEE_ALG_SHA256 \<in> e_cfg C \<and> CFG_ALG TEE_ALG_AES_CMAC \<in> e_cfg C \<and>
     CFG_CRYPTO_GCM \<in> e_cfg C"

lemma readyD [simp]:
  assumes "ready C"
  shows "no_oom C" "CFG_ALG TEE_ALG_SHA256 \<in> e_cfg C" "CFG_ALG TEE_ALG_AES_CMAC \<in> e_cfg C" "CFG_CRYPTO_GCM \<in> e_cfg C"
  using assms by (simp_all add: ready_def)

lemma ready_sample [simp]: "ready sample_env"
  by (simp add: ready_def sample_env_def no_oom_def)

definition new_oper ::
    "nat \<Rightarrow> nat \<Rightarrow> TEE_OperationMode \<Rightarrow> nat \<Rightarrow> nat \<Rightarrow> usage \<Rightarrow> handle_flag set \<Rightarrow> nat \<Rightarrow> nat \<Rightarrow> operation" where
  "new_oper algo cls mode dlen mks usg hs key st =
     \<lparr>op_algorithm = algo, op_class = cls, op_mode = mode, op_digestLength = dlen, op_maxKeySize = mks, op_keySize = 0,
      op_requiredKeyUsage = usg, op_handleState = hs, op_key1 = key, op_key2 = 0,
      op_operationState = OPERATION_STATE_INITIAL, op_buffer = None, op_buffer_two_blocks = False, op_block_size = 1,
      op_buffer_offs = 0, op_state = st\<rparr>"

lemma new_oper_simps [simp]:
  "op_algorithm (new_oper algo cls mode dlen mks usg hs key st) = algo"
  "op_class (new_oper algo cls mode dlen mks usg hs key st) = cls"
  "op_mode (new_oper algo cls mode dlen mks usg hs key st) = mode"
  "op_digestLength (new_oper algo cls mode dlen mks usg hs key st) = dlen"
  "op_maxKeySize (new_oper algo cls mode dlen mks usg hs key st) = mks"
  "op_requiredKeyUsage (new_oper algo cls mode dlen mks usg hs key st) = usg"
  "op_handleState (new_oper algo cls mode dlen mks usg hs key st) = hs"
  "op_key1 (new_oper algo cls mode dlen mks usg hs key st) = key"
  "op_operationState (new_oper algo cls mode dlen mks usg hs key st) = OPERATION_STATE_INITIAL"
  "op_block_size (new_oper algo cls mode dlen mks usg hs key st) = 1"
  "op_buffer_offs (new_oper algo cls mode dlen mks usg hs key st) = 0"
  "op_state (new_oper algo cls mode dlen mks usg hs key st) = st"
  by (simp_all add: new_oper_def)

definition new_state :: "nat \<Rightarrow> TEE_OperationMode \<Rightarrow> nat \<Rightarrow> cryp_ctx \<Rightarrow> cryp_state" where
  "new_state algo mode key ctx =
     \<lparr>cs_algo = algo, cs_mode = mode, cs_key1 = key, cs_key2 = 0, cs_ctx = ctx, cs_finalize = False, cs_init = False\<rparr>"

lemma new_state_simps [simp]:
  "cs_algo (new_state algo mode key ctx) = algo" "cs_mode (new_state algo mode key ctx) = mode"
  "cs_key1 (new_state algo mode key ctx) = key" "cs_key2 (new_state algo mode key ctx) = 0"
  "cs_ctx (new_state algo mode key ctx) = ctx" "cs_init (new_state algo mode key ctx) = False"
  by (simp_all add: new_state_def)

lemmas oper_alloc_defs = TEE_AllocateOperation_def op_key_size_ok_def op_mode_profile_def alloc_op_keys_def
  syscall_cryp_state_alloc_def state_key_check_def tee_svc_cryp_check_key_type_def required_key_types_def
  state_alloc_ctx_def crypto_hash_alloc_ctx_def hash_algos_def crypto_mac_alloc_ctx_def mac_algos_def
  crypto_authenc_alloc_ctx_def tee_obj_add_def tee_obj_get_def set_state_def set_oper_def register_key_def
  new_oper_def new_state_def

lemma alloc_digest [api_simps]:
  assumes "ready C"
  shows "TEE_AllocateOperation C TEE_ALG_SHA256 TEE_MODE_DIGEST 0 t =
    Some (Inr (tick t + 1),
      t\<lparr>tick := tick t + 3,
        states := (states t)(tick t + 2 \<mapsto>
          (new_state TEE_ALG_SHA256 TEE_MODE_DIGEST 0 (HashCtx (Some [])))\<lparr>cs_init := True\<rparr>),
        opers := (opers t)(tick t + 1 \<mapsto>
          new_oper TEE_ALG_SHA256 TEE_OPERATION_DIGEST TEE_MODE_DIGEST 32 0 0 {HF_INITIALIZED, HF_KEY_SET} 0 (tick t + 2))\<rparr>)"
  using assms
  by (simp add: oper_alloc_defs syscall_hash_init_def tee_svc_cryp_get_state_def crypto_hash_init_def)

lemma alloc_mac [api_simps]:
  assumes "ready C"
  shows "TEE_AllocateOperation C TEE_ALG_AES_CMAC TEE_MODE_MAC 128 t =
    Some (Inr (tick t + 1),
      t\<lparr>tick := tick t + 5,
        objs := (objs t)(tick t + 2 \<mapsto> (new_obj TEE_TYPE_AES 128 [Secret 32 []])\<lparr>o_busy := True\<rparr>),
        states := (states t)(tick t + 4 \<mapsto> new_state TEE_ALG_AES_CMAC TEE_MODE_MAC (tick t + 2) (MacCtx None)),
        opers := (opers t)(tick t + 1 \<mapsto>
          new_oper TEE_ALG_AES_CMAC TEE_OPERATION_MAC TEE_MODE_MAC 16 128 TEE_USAGE_MAC {} (tick t + 2) (tick t + 4))\<rparr>)"
  using assms by (simp add: oper_alloc_defs alloc_object numeral_eq_Suc_small)

lemma alloc_ae [api_simps]:
  assumes "ready C" "mode \<in> {TEE_MODE_ENCRYPT, TEE_MODE_DECRYPT}"
  shows "TEE_AllocateOperation C TEE_ALG_AES_GCM mode 128 t =
    Some (Inr (tick t + 1),
      t\<lparr>tick := tick t + 5,
        objs := (objs t)(tick t + 2 \<mapsto> (new_obj TEE_TYPE_AES 128 [Secret 32 []])\<lparr>o_busy := True\<rparr>),
        states := (states t)(tick t + 4 \<mapsto> new_state TEE_ALG_AES_GCM mode (tick t + 2) (GcmCtx [] gcm_zero)),
        opers := (opers t)(tick t + 1 \<mapsto>
          new_oper TEE_ALG_AES_GCM TEE_OPERATION_AE mode 0 128
            (if mode = TEE_MODE_ENCRYPT then TEE_USAGE_ENCRYPT else TEE_USAGE_DECRYPT) {} (tick t + 2) (tick t + 4))\<rparr>)"
  using assms by (auto simp: oper_alloc_defs alloc_object numeral_eq_Suc_small)

lemma alloc_sign [api_simps]:
  assumes "ready C"
  shows "TEE_AllocateOperation C TEE_ALG_ECDSA_P256 TEE_MODE_SIGN 256 t =
    Some (Inr (tick t + 1),
      t\<lparr>tick := tick t + 7,
        objs := (objs t)(tick t + 2 \<mapsto>
          (new_obj TEE_TYPE_ECDSA_KEYPAIR 256 [Bignum 0, Bignum 0, Bignum 0, Value 0])\<lparr>o_busy := True\<rparr>),
        states := (states t)(tick t + 7 \<mapsto> new_state TEE_ALG_ECDSA_P256 TEE_MODE_SIGN (tick t + 2) NoCtx),
        opers := (opers t)(tick t + 1 \<mapsto>
          new_oper TEE_ALG_ECDSA_P256 TEE_OPERATION_ASYMMETRIC_SIGNATURE TEE_MODE_SIGN
            (tee_alg_digest_size TEE_ALG_ECDSA_P256) 256 TEE_USAGE_SIGN {} (tick t + 2) (tick t + 7))\<rparr>)"
  using assms by (simp add: oper_alloc_defs alloc_object ac_simps)

lemma alloc_verify [api_simps]:
  assumes "ready C"
  shows "TEE_AllocateOperation C TEE_ALG_ECDSA_P256 TEE_MODE_VERIFY 256 t =
    Some (Inr (tick t + 1),
      t\<lparr>tick := tick t + 6,
        objs := (objs t)(tick t + 2 \<mapsto>
          (new_obj TEE_TYPE_ECDSA_PUBLIC_KEY 256 [Bignum 0, Bignum 0, Value 0])\<lparr>o_busy := True\<rparr>),
        states := (states t)(tick t + 6 \<mapsto> new_state TEE_ALG_ECDSA_P256 TEE_MODE_VERIFY (tick t + 2) NoCtx),
        opers := (opers t)(tick t + 1 \<mapsto>
          new_oper TEE_ALG_ECDSA_P256 TEE_OPERATION_ASYMMETRIC_SIGNATURE TEE_MODE_VERIFY
            (tee_alg_digest_size TEE_ALG_ECDSA_P256) 256 TEE_USAGE_VERIFY {} (tick t + 2) (tick t + 6))\<rparr>)"
  using assms by (simp add: oper_alloc_defs alloc_object ac_simps)

lemma alloc_derive [api_simps]:
  assumes "ready C"
  shows "TEE_AllocateOperation C TEE_ALG_ECDH_P256 TEE_MODE_DERIVE 256 t =
    Some (Inr (tick t + 1),
      t\<lparr>tick := tick t + 7,
        objs := (objs t)(tick t + 2 \<mapsto>
          (new_obj TEE_TYPE_ECDH_KEYPAIR 256 [Bignum 0, Bignum 0, Bignum 0, Value 0])\<lparr>o_busy := True\<rparr>),
        states := (states t)(tick t + 7 \<mapsto> new_state TEE_ALG_ECDH_P256 TEE_MODE_DERIVE (tick t + 2) NoCtx),
        opers := (opers t)(tick t + 1 \<mapsto>
          new_oper TEE_ALG_ECDH_P256 TEE_OPERATION_KEY_DERIVATION TEE_MODE_DERIVE
            (tee_alg_digest_size TEE_ALG_ECDH_P256) 256 TEE_USAGE_DERIVE {} (tick t + 2) (tick t + 7))\<rparr>)"
  using assms by (simp add: oper_alloc_defs alloc_object ac_simps)

text \<open>Setting the key copies it into the key object of the operation.\<close>

definition copies_to :: "attr_val list \<Rightarrow> attr_val list \<Rightarrow> bool" where
  "copies_to attrs attrs0 \<longleftrightarrow>
     length attrs0 = length attrs \<and> attrs_from_obj (zip (map attr_clear attrs0) attrs) = Some (TEE_SUCCESS, attrs)"

lemma copies_to_simps [simp]:
  "copies_to [Secret sz k] [Secret sz []] \<longleftrightarrow> length k \<le> sz"
  "copies_to [Bignum x, Bignum y, Value c] [Bignum 0, Bignum 0, Value 0]"
  "copies_to [Bignum d, Bignum x, Bignum y, Value c] [Bignum 0, Bignum 0, Bignum 0, Value 0]"
  by (auto simp: copies_to_def attr_clear_def attr_from_obj_def)

lemma set_key [api_simps]:
  assumes op: "opers t a = Some op" "op_operationState op = OPERATION_STATE_INITIAL"
    "op_class op \<noteq> TEE_OPERATION_DIGEST" "HF_EXPECT_TWO_KEYS \<notin> op_handleState op" "op_key1 op \<noteq> 0"
    and key: "key \<noteq> 0" "key \<noteq> op_key1 op" "objs t key = Some (key_obj ty sz mks attrs)" "sz \<le> op_maxKeySize op"
    and own: "objs t (op_key1 op) = Some ((new_obj ty mks' attrs0)\<lparr>o_busy := True\<rparr>)"
    and ty: "tee_svc_find_type_props C ty \<noteq> None" "ty \<noteq> TEE_TYPE_DATA" and cp: "copies_to attrs attrs0"
  shows "TEE_SetOperationKey C a key t =
    Some (TEE_SUCCESS,
      t\<lparr>objs := (objs t)(op_key1 op \<mapsto> (key_obj ty sz mks' attrs)\<lparr>o_busy := True\<rparr>),
        opers := (opers t)(a \<mapsto> op\<lparr>op_handleState := insert HF_KEY_SET (op_handleState op), op_keySize := sz\<rparr>)\<rparr>)"
  using assms
  by (auto simp: TEE_SetOperationKey_def TEE_GetObjectInfo1_def syscall_cryp_obj_get_info_def tee_obj_get_def
    TEE_ResetTransientObject_def syscall_cryp_obj_reset_def tee_obj_attr_clear_def TEE_CopyObjectAttributes1_def
    syscall_cryp_obj_copy_def tee_obj_attr_copy_from_def tee_obj_add_def set_oper_def copies_to_def new_obj_def
    key_obj_def)

lemma reset_keyed [api_simps]:
  assumes "opers t a = Some op" "HF_KEY_SET \<in> op_handleState op" "op_class op \<noteq> TEE_OPERATION_DIGEST"
  shows "TEE_ResetOperation C a t =
    Some (t\<lparr>opers := (opers t)(a \<mapsto> op\<lparr>op_operationState := OPERATION_STATE_INITIAL,
      op_handleState := op_handleState op - {HF_INITIALIZED}\<rparr>)\<rparr>)"
  using assms by (simp add: TEE_ResetOperation_def set_oper_def)

lemma free_operation [api_simps]:
  assumes "opers t a = Some op" "states t (op_state op) = Some cs" "cs_key2 cs = 0" "objs t 0 = None"
  shows "TEE_FreeOperation a t =
    Some (t\<lparr>objs := (objs t)(cs_key1 cs := None), states := (states t)(op_state op := None),
            opers := (opers t)(a := None)\<rparr>)"
proof -
  have "objs t k = None \<Longrightarrow> (objs t)(k := None) = objs t" for k by auto
  then show ?thesis
    using assms
    by (auto simp: TEE_FreeOperation_def syscall_cryp_state_free_def tee_svc_cryp_get_state_def cryp_state_free_def
      tee_obj_get_def tee_obj_close_def split: option.split)
qed

section \<open>Digests and codes\<close>

abbreviation sha256 :: "env \<Rightarrow> bytes \<Rightarrow> bytes" where
  "sha256 C \<equiv> p_hash (e_prims C) TEE_ALG_SHA256"

abbreviation cmac :: "env \<Rightarrow> bytes \<Rightarrow> bytes \<Rightarrow> bytes" where
  "cmac C \<equiv> p_mac (e_prims C) TEE_ALG_AES_CMAC"

text \<open>The sizes of the primitives of the protocol.\<close>

definition crypto_ok :: "env \<Rightarrow> bool" where
  "crypto_ok C \<longleftrightarrow>
     (\<forall>m. length (sha256 C m) = 32) \<and> (\<forall>k m. length (cmac C k m) = 16) \<and>
     p_mac_key_ok (e_prims C) TEE_ALG_AES_CMAC 16 \<and> p_aes_key_ok (e_prims C) 16 \<and>
     (\<forall>k b. length (p_aes (e_prims C) k b) = 16)"

lemma crypto_okD [simp]:
  assumes "crypto_ok C"
  shows "length (sha256 C m) = 32" "length (cmac C k m) = 16" "p_mac_key_ok (e_prims C) TEE_ALG_AES_CMAC 16"
    "p_aes_key_ok (e_prims C) 16" "length (p_aes (e_prims C) k b) = 16"
  using assms by (simp_all add: crypto_ok_def)

lemma crypto_ok_sample [simp]: "crypto_ok sample_env"
  by (auto simp: crypto_ok_def sample_env_def sample_prims_def min_def)

text \<open>What the protocol relies on of the elliptic curve library: every seed makes a key pair of P-256 numbers,
  a key signs every digest and its public key accepts the signature, and two key pairs agree on their shared
  secret.\<close>

definition p256_pair :: "prims \<Rightarrow> nat \<times> nat \<times> nat \<Rightarrow> bool" where
  "p256_pair P k \<longleftrightarrow> (case k of (d, x, y) \<Rightarrow> \<exists>seed. p_ecc_make_key P 32 seed = Some (d, x, y, 1))"

definition ecc_ok :: "prims \<Rightarrow> bool" where
  "ecc_ok P \<longleftrightarrow>
     (\<forall>seed. \<exists>d x y. p_ecc_make_key P 32 seed = Some (d, x, y, 1)) \<and>
     (\<forall>d x y. p256_pair P (d, x, y) \<longrightarrow>
        d < 2 ^ 256 \<and> x < 2 ^ 256 \<and> y < 2 ^ 256 \<and>
        (\<forall>h r. \<exists>sig. p_ecc_sign_hash P TEE_ECC_CURVE_NIST_P256 d h r = Some sig \<and> length sig = 64 \<and>
           p_ecc_verify_hash P TEE_ECC_CURVE_NIST_P256 (x, y) h sig = CRYPT_OK True)) \<and>
     (\<forall>d x y d' x' y'. p256_pair P (d, x, y) \<and> p256_pair P (d', x', y') \<longrightarrow>
        (\<exists>s. p_ecc_shared_secret P TEE_ECC_CURVE_NIST_P256 d (x', y') = Some s \<and>
             p_ecc_shared_secret P TEE_ECC_CURVE_NIST_P256 d' (x, y) = Some s \<and> length s \<le> 32))"

lemma ecc_ok_make:
  assumes "ecc_ok (e_prims C)"
  obtains d x y where "p256_make C n (d, x, y)" "p256_pair (e_prims C) (d, x, y)"
proof -
  obtain d x y where "p_ecc_make_key (e_prims C) 32 (e_entropy C n) = Some (d, x, y, 1)"
    using assms unfolding ecc_ok_def by blast
  moreover from this have "p256_pair (e_prims C) (d, x, y)" by (auto simp: p256_pair_def)
  ultimately show ?thesis using assms that unfolding ecc_ok_def p256_make_def by auto
qed

lemma ecc_ok_bounds:
  assumes "ecc_ok P" "p256_pair P (d, x, y)"
  shows "d < 2 ^ 256" "x < 2 ^ 256" "y < 2 ^ 256"
  using assms unfolding ecc_ok_def by blast+

lemma ecc_ok_sign:
  assumes "ecc_ok P" "p256_pair P (d, x, y)"
  obtains sig where "p_ecc_sign_hash P TEE_ECC_CURVE_NIST_P256 d h r = Some sig" "length sig = 64"
    "p_ecc_verify_hash P TEE_ECC_CURVE_NIST_P256 (x, y) h sig = CRYPT_OK True"
  using assms unfolding ecc_ok_def by blast

lemma ecc_ok_shared:
  assumes "ecc_ok P" "p256_pair P (d, x, y)" "p256_pair P (d', x', y')"
  obtains s where "p_ecc_shared_secret P TEE_ECC_CURVE_NIST_P256 d (x', y') = Some s"
    "p_ecc_shared_secret P TEE_ECC_CURVE_NIST_P256 d' (x, y) = Some s" "length s \<le> 32"
  using assms unfolding ecc_ok_def by blast

lemma ecc_ok_sample [simp]: "ecc_ok (e_prims sample_env)"
proof -
  have "bn_of_bytes (take 30 seed) < 256 ^ 30" for seed
  proof -
    have "bn_of_bytes (take 30 seed) < 256 ^ length (take 30 seed)" by (rule bn_of_bytes_bound)
    also have "\<dots> \<le> 256 ^ 30" by (rule power_increasing) simp_all
    finally show ?thesis .
  qed
  then have "2 ^ 248 + bn_of_bytes (take 30 seed) < 2 ^ 256" for seed
    by (rule order_less_trans [OF add_strict_left_mono]) simp
  then show ?thesis
    by (auto simp: ecc_ok_def p256_pair_def sample_env_def sample_prims_def sample_sig_def Let_def mult.commute)
qed

lemma digest_update [api_simps]:
  assumes "opers t a = Some op" "op_class op = TEE_OPERATION_DIGEST" "states t (op_state op) = Some cs"
    "cs_algo cs = TEE_ALG_SHA256" "cs_init cs" "cs_ctx cs = HashCtx (Some acc)"
  shows "TEE_DigestUpdate a chunk t =
    Some (t\<lparr>states := (states t)(op_state op \<mapsto> cs\<lparr>cs_ctx := HashCtx (Some (acc @ chunk))\<rparr>),
            opers := (opers t)(a \<mapsto> op\<lparr>op_operationState := OPERATION_STATE_ACTIVE\<rparr>)\<rparr>)"
proof (cases "chunk = []")
  case True
  have "cs\<lparr>cs_ctx := HashCtx (Some acc)\<rparr> = cs" using assms(6) by (cases cs) simp
  then have "(states t)(op_state op \<mapsto> cs\<lparr>cs_ctx := HashCtx (Some (acc @ chunk))\<rparr>) = states t"
    using True assms(3) by auto
  with True assms show ?thesis by (simp add: TEE_DigestUpdate_def syscall_hash_update_def set_oper_def)
next
  case False
  with assms show ?thesis
    by (simp add: TEE_DigestUpdate_def syscall_hash_update_def set_oper_def set_state_def
      tee_svc_cryp_get_state_def crypto_hash_update_def)
qed

lemma digest_final [api_simps]:
  assumes "opers t a = Some op" "op_class op = TEE_OPERATION_DIGEST" "states t (op_state op) = Some cs"
    "cs_algo cs = TEE_ALG_SHA256" "cs_init cs" "cs_ctx cs = HashCtx (Some acc)" "32 \<le> room" "crypto_ok C"
  shows "TEE_DigestDoFinal C a chunk room t =
    Some (TEE_SUCCESS, sha256 C (acc @ chunk), 32,
      t\<lparr>states := (states t)(op_state op \<mapsto> cs\<lparr>cs_ctx := HashCtx (Some []), cs_init := True\<rparr>),
        opers := (opers t)(a \<mapsto> op\<lparr>op_buffer_offs := 0, op_handleState := insert HF_INITIALIZED (op_handleState op),
          op_operationState := OPERATION_STATE_INITIAL\<rparr>)\<rparr>)"
  using assms
  by (auto simp: TEE_DigestDoFinal_def syscall_hash_final_def set_oper_def set_state_def
    tee_svc_cryp_get_state_def crypto_hash_update_def crypto_hash_final_def init_hash_operation_def
    syscall_hash_init_def crypto_hash_init_def len_back_def)

lemma reset_digest [api_simps]:
  assumes "opers t a = Some op" "op_class op = TEE_OPERATION_DIGEST" "HF_KEY_SET \<in> op_handleState op"
    "states t (op_state op) = Some cs" "cs_algo cs = TEE_ALG_SHA256" "cs_ctx cs = HashCtx c"
  shows "TEE_ResetOperation C a t =
    Some (t\<lparr>states := (states t)(op_state op \<mapsto> cs\<lparr>cs_ctx := HashCtx (Some []), cs_init := True\<rparr>),
            opers := (opers t)(a \<mapsto> op\<lparr>op_operationState := OPERATION_STATE_INITIAL,
              op_handleState := insert HF_INITIALIZED (op_handleState op)\<rparr>)\<rparr>)"
  using assms
  by (simp add: TEE_ResetOperation_def syscall_hash_init_def tee_svc_cryp_get_state_def crypto_hash_init_def
    set_state_def set_oper_def)

lemma mac_init [api_simps]:
  assumes "opers t a = Some op" "op_class op = TEE_OPERATION_MAC" "HF_KEY_SET \<in> op_handleState op"
    "op_key1 op \<noteq> 0" "op_operationState op = OPERATION_STATE_INITIAL" "states t (op_state op) = Some cs"
    "cs_algo cs = TEE_ALG_AES_CMAC" "cs_ctx cs = MacCtx c" "objs t (cs_key1 cs) = Some ob"
    "HF_INITIALIZED \<in> o_flags ob" "o_attr ob = Some [Secret sz k]" "length k = 16" "crypto_ok C"
  shows "TEE_MACInit C a t =
    Some (t\<lparr>states := (states t)(op_state op \<mapsto> cs\<lparr>cs_ctx := MacCtx (Some (k, [])), cs_init := True\<rparr>),
            opers := (opers t)(a \<mapsto> op\<lparr>op_operationState := OPERATION_STATE_ACTIVE, op_buffer_offs := 0,
              op_handleState := insert HF_INITIALIZED (op_handleState op)\<rparr>)\<rparr>)"
  using assms
  by (simp add: TEE_MACInit_def set_oper_def init_hash_operation_def syscall_hash_init_def
    tee_svc_cryp_get_state_def tee_obj_get_def secret_of_def crypto_mac_init_def set_state_def)

lemma mac_update [api_simps]:
  assumes "opers t a = Some op" "op_class op = TEE_OPERATION_MAC" "HF_INITIALIZED \<in> op_handleState op"
    "op_operationState op = OPERATION_STATE_ACTIVE" "states t (op_state op) = Some cs"
    "cs_algo cs = TEE_ALG_AES_CMAC" "cs_init cs" "cs_ctx cs = MacCtx (Some (k, acc))"
  shows "TEE_MACUpdate a chunk t =
    Some (t\<lparr>states := (states t)(op_state op \<mapsto> cs\<lparr>cs_ctx := MacCtx (Some (k, acc @ chunk))\<rparr>)\<rparr>)"
proof (cases "chunk = []")
  case True
  have "cs\<lparr>cs_ctx := MacCtx (Some (k, acc))\<rparr> = cs" using assms(8) by (cases cs) simp
  then have "(states t)(op_state op \<mapsto> cs\<lparr>cs_ctx := MacCtx (Some (k, acc @ chunk))\<rparr>) = states t"
    using True assms(5) by auto
  with True assms show ?thesis by (simp add: TEE_MACUpdate_def syscall_hash_update_def)
next
  case False
  with assms show ?thesis
    by (simp add: TEE_MACUpdate_def syscall_hash_update_def set_state_def tee_svc_cryp_get_state_def
      crypto_mac_update_def)
qed

lemma mac_compute [api_simps]:
  assumes "opers t a = Some op" "op_class op = TEE_OPERATION_MAC" "HF_INITIALIZED \<in> op_handleState op"
    "op_operationState op = OPERATION_STATE_ACTIVE" "states t (op_state op) = Some cs"
    "cs_algo cs = TEE_ALG_AES_CMAC" "cs_init cs" "cs_ctx cs = MacCtx (Some (k, acc))" "16 \<le> room" "crypto_ok C"
  shows "TEE_MACComputeFinal C a msg room t =
    Some (TEE_SUCCESS, cmac C k (acc @ msg), 16,
      t\<lparr>states := (states t)(op_state op \<mapsto> cs\<lparr>cs_ctx := MacCtx None\<rparr>),
        opers := (opers t)(a \<mapsto> op\<lparr>op_handleState := op_handleState op - {HF_INITIALIZED},
          op_operationState := OPERATION_STATE_INITIAL\<rparr>)\<rparr>)"
  using assms
  by (auto simp: TEE_MACComputeFinal_def syscall_hash_final_def tee_svc_cryp_get_state_def crypto_mac_update_def
    crypto_mac_final_def set_state_def set_oper_def len_back_def)

lemma mac_compare [api_simps]:
  assumes "opers t a = Some op" "op_class op = TEE_OPERATION_MAC" "HF_INITIALIZED \<in> op_handleState op"
    "op_operationState op = OPERATION_STATE_ACTIVE" "states t (op_state op) = Some cs"
    "cs_algo cs = TEE_ALG_AES_CMAC" "cs_init cs" "cs_ctx cs = MacCtx (Some (k, acc))" "length mac = 16" "crypto_ok C"
  shows "TEE_MACCompareFinal C a msg mac t =
    Some (if mac = cmac C k (acc @ msg) then TEE_SUCCESS else TEE_ERROR_MAC_INVALID,
      t\<lparr>states := (states t)(op_state op \<mapsto> cs\<lparr>cs_ctx := MacCtx None\<rparr>),
        opers := (opers t)(a \<mapsto> op\<lparr>op_handleState := op_handleState op - {HF_INITIALIZED},
          op_operationState := OPERATION_STATE_INITIAL\<rparr>)\<rparr>)"
  using assms by (simp add: TEE_MACCompareFinal_def mac_compute set_oper_def)

section \<open>Signatures and the shared secret\<close>

lemma verify_digest [api_simps]:
  assumes "ready C" "opers t a = Some op" "op_class op = TEE_OPERATION_ASYMMETRIC_SIGNATURE"
    "op_mode op = TEE_MODE_VERIFY" "op_key1 op \<noteq> 0" "states t (op_state op) = Some cs"
    "cs_algo cs = TEE_ALG_ECDSA_P256" "cs_mode cs = TEE_MODE_VERIFY" "objs t (cs_key1 cs) = Some ob"
    "HF_INITIALIZED \<in> o_flags ob" "o_attr ob = Some [Bignum x, Bignum y, Value TEE_ECC_CURVE_NIST_P256]"
    "length sig = 64"
  shows "TEE_AsymmetricVerifyDigest C a [] digest sig t =
    (let res = convert_ltc_verify_status (p_ecc_verify_hash (e_prims C) TEE_ECC_CURVE_NIST_P256 (x, y) digest sig)
     in if res = TEE_ERROR_GENERIC then None else Some (res, t\<lparr>tick := tick t + 1\<rparr>))"
  using assms
  by (auto simp: TEE_AsymmetricVerifyDigest_def syscall_asymm_verify_def tee_svc_cryp_get_state_def tee_obj_get_def
    ltc_ecc_verify_def Let_def convert_ltc_verify_status_def split: ltc_verify.split)

lemma sign_digest [api_simps]:
  assumes "ready C" "opers t a = Some op" "op_class op = TEE_OPERATION_ASYMMETRIC_SIGNATURE"
    "op_mode op = TEE_MODE_SIGN" "op_key1 op \<noteq> 0" "states t (op_state op) = Some cs"
    "cs_algo cs = TEE_ALG_ECDSA_P256" "objs t (cs_key1 cs) = Some ob"
    "HF_INITIALIZED \<in> o_flags ob" "o_attr ob = Some [Bignum d, Bignum x, Bignum y, Value TEE_ECC_CURVE_NIST_P256]"
    "64 \<le> room"
    "p_ecc_sign_hash (e_prims C) TEE_ECC_CURVE_NIST_P256 d digest (e_entropy C (tick t + 1)) = Some sig"
  shows "TEE_AsymmetricSignDigest C a [] digest room t =
    Some (TEE_SUCCESS, sig, length sig, t\<lparr>tick := tick t + 2\<rparr>)"
  using assms
  by (simp add: TEE_AsymmetricSignDigest_def syscall_asymm_operate_def tee_svc_cryp_get_state_def tee_obj_get_def
    ltc_ecc_sign_def ecdsa_algos_def)

lemma derive_secret_key [api_simps]:
  assumes "ready C" "opers t a = Some op" "op_algorithm op = TEE_ALG_ECDH_P256"
    "op_class op = TEE_OPERATION_KEY_DERIVATION" "op_mode op = TEE_MODE_DERIVE" "op_key1 op \<noteq> 0"
    "HF_KEY_SET \<in> op_handleState op" "states t (op_state op) = Some cs"
    "cs_algo cs = TEE_ALG_ECDH_P256" "objs t (cs_key1 cs) = Some ob"
    "o_attr ob = Some [Bignum d, Bignum x, Bignum y, Value TEE_ECC_CURVE_NIST_P256]"
    "k \<noteq> 0" "objs t k = Some (new_obj TEE_TYPE_GENERIC_SECRET 256 [Secret 512 []])"
    "length px \<le> 66" "length py \<le> 66"
    "p_ecc_shared_secret (e_prims C) TEE_ECC_CURVE_NIST_P256 d (bn_of_bytes px, bn_of_bytes py) = Some s"
    "length s \<le> 512"
  shows "TEE_DeriveKey C a [RefAttr TEE_ATTR_ECC_PUBLIC_VALUE_X px, RefAttr TEE_ATTR_ECC_PUBLIC_VALUE_Y py] k t =
    Some (tee_obj_add k (key_obj TEE_TYPE_GENERIC_SECRET 0 256 [Secret 512 s]) (t\<lparr>tick := tick t + 3\<rparr>))"
  using assms
  by (simp add: TEE_DeriveKey_def syscall_cryp_obj_get_info_def tee_obj_get_def syscall_cryp_derive_key_def
    tee_svc_cryp_get_state_def derive_secret_def derive_ecdh_def ecdh_alloc_size_def
    crypto_asym_alloc_ecc_public_key_def ecc_public_ops_of_def bin2bn_into_def crypto_bignum_bin2bn_def no_oom_mpi
    ltc_ecc_shared_secret_def set_attribute_def OBJ_PROP_def attr_tables TA_def
    tee_svc_cryp_obj_find_type_attr_idx_def new_obj_def key_obj_def numeral_eq_Suc_small)

section \<open>Authenticated encryption\<close>

lemma gcm_init_16: "\<exists>st. gcm_init E mode nonce 16 = Inr st \<and> g_tag_len st = 16"
  by (rule gcm_init_ready [of 16 E mode nonce]) (auto simp: gcm_ready_def Let_def)

lemma ae_init [api_simps]:
  assumes "opers t a = Some op" "op_class op = TEE_OPERATION_AE" "op_operationState op = OPERATION_STATE_INITIAL"
    "op_algorithm op = TEE_ALG_AES_GCM" "states t (op_state op) = Some cs" "cs_ctx cs = GcmCtx k0 st"
    "objs t (cs_key1 cs) = Some ob" "HF_INITIALIZED \<in> o_flags ob" "o_attr ob = Some [Secret sz k]" "length k = 16"
    "crypto_ok C"
  shows "TEE_AEInit C a nonce 128 t =
    Some (TEE_SUCCESS,
      t\<lparr>states := (states t)(op_state op \<mapsto> cs\<lparr>cs_ctx := GcmCtx k (projr (gcm_init (p_aes (e_prims C) k) (cs_mode cs) nonce 16)),
          cs_finalize := True, cs_init := True\<rparr>),
        opers := (opers t)(a \<mapsto> op\<lparr>op_digestLength := 16, op_buffer_offs := 0,
          op_handleState := insert HF_INITIALIZED (op_handleState op)\<rparr>)\<rparr>)"
proof -
  obtain st' where "gcm_init (p_aes (e_prims C) k) (cs_mode cs) nonce 16 = Inr st'" using gcm_init_16 by blast
  then show ?thesis
    using assms
    by (simp add: TEE_AEInit_def syscall_authenc_init_def tee_svc_cryp_get_state_def tee_obj_get_def secret_of_def
      crypto_authenc_init_def set_state_def set_oper_def)
qed

text \<open>The context an encryption or a decryption leaves, which no later call reads.\<close>

definition gcm_enc_ctx :: "env \<Rightarrow> bytes \<Rightarrow> bytes \<Rightarrow> bytes \<Rightarrow> cryp_ctx" where
  "gcm_enc_ctx C k nonce src =
     GcmCtx k (fst (projr (gcm_enc_final (p_aes (e_prims C) k) src 16
       (projr (gcm_init (p_aes (e_prims C) k) TEE_MODE_ENCRYPT nonce 16)))))"

definition gcm_dec_ctx :: "env \<Rightarrow> bytes \<Rightarrow> bytes \<Rightarrow> bytes \<Rightarrow> bytes \<Rightarrow> cryp_ctx" where
  "gcm_dec_ctx C k nonce src tag =
     GcmCtx k (fst (snd (gcm_dec_final (p_aes (e_prims C) k) src tag
       (projr (gcm_init (p_aes (e_prims C) k) TEE_MODE_DECRYPT nonce 16)))))"

lemma gcm_enc_final_16:
  assumes "\<And>b. length (E b) = 16" "internal_aes_gcm_enc E nonce None src 16 = Inr (ct, tag)"
  obtains st st' where "gcm_init E TEE_MODE_ENCRYPT nonce 16 = Inr st" "gcm_enc_final E src 16 st = Inr (st', ct, tag)"
    "g_tag_len st' = 16"
proof (rule gcm_segments_final [of E TEE_MODE_ENCRYPT 16 nonce "[]" "[]" src, OF assms(1)])
  fix st0 st1 st2 outs st3 out
  assume "gcm_init E TEE_MODE_ENCRYPT nonce 16 = Inr st0" "gcm_aads [] st0 = Inr st1"
    "gcm_payloads E TEE_MODE_ENCRYPT [] st1 = (st2, outs)" "g_tag_len st2 = 16"
    "operation_final E TEE_MODE_ENCRYPT src st2 = (st3, out)" "g_tag_len st3 = 16"
  with assms(2) show thesis
    by (intro that [of st0 st3]) (simp_all add: internal_aes_gcm_enc_def gcm_enc_final_def)
qed simp_all

lemma ae_encrypt [api_simps]:
  assumes "opers t a = Some op" "op_class op = TEE_OPERATION_AE" "HF_INITIALIZED \<in> op_handleState op"
    "op_block_size op = 1" "op_buffer_offs op = 0" "op_digestLength op = 16"
    "states t (op_state op) = Some cs" "cs_mode cs = TEE_MODE_ENCRYPT" "cs_algo cs = TEE_ALG_AES_GCM" "cs_init cs"
    "cs_ctx cs = GcmCtx k (projr (gcm_init (p_aes (e_prims C) k) TEE_MODE_ENCRYPT nonce 16))"
    "crypto_ok C" "length src \<le> room"
    "internal_aes_gcm_enc (p_aes (e_prims C) k) nonce None src 16 = Inr (ct, tag)"
  shows "TEE_AEEncryptFinal C a (Some src) room 16 t =
    Some (TEE_SUCCESS, ct, length src, tag, 16,
      t\<lparr>states := (states t)(op_state op \<mapsto> cs\<lparr>cs_ctx := gcm_enc_ctx C k nonce src\<rparr>),
        opers := (opers t)(a \<mapsto> op\<lparr>op_handleState := op_handleState op - {HF_INITIALIZED},
          op_operationState := OPERATION_STATE_INITIAL\<rparr>)\<rparr>)"
proof -
  obtain st st' where "gcm_init (p_aes (e_prims C) k) TEE_MODE_ENCRYPT nonce 16 = Inr st"
    "gcm_enc_final (p_aes (e_prims C) k) src 16 st = Inr (st', ct, tag)" "g_tag_len st' = 16"
    by (rule gcm_enc_final_16 [OF _ assms(14)]) (use assms(12) in simp_all)
  with assms(1-13) show ?thesis
    by (simp add: TEE_AEEncryptFinal_def syscall_authenc_enc_final_def tee_svc_cryp_get_state_def
      crypto_authenc_enc_final_def set_state_def set_oper_def gcm_enc_ctx_def)
qed

lemma ae_decrypt [api_simps]:
  assumes "opers t a = Some op" "op_class op = TEE_OPERATION_AE" "HF_INITIALIZED \<in> op_handleState op"
    "op_block_size op = 1" "op_buffer_offs op = 0" "op_digestLength op = 16"
    "states t (op_state op) = Some cs" "cs_mode cs = TEE_MODE_DECRYPT" "cs_algo cs = TEE_ALG_AES_GCM" "cs_init cs"
    "cs_ctx cs = GcmCtx k (projr (gcm_init (p_aes (e_prims C) k) TEE_MODE_DECRYPT nonce 16))"
    "length src \<le> room" "length tag = 16"
    "internal_aes_gcm_dec (p_aes (e_prims C) k) nonce None src tag = (res, out)"
  shows "TEE_AEDecryptFinal C a (Some src) room tag t =
    Some (res, out, if res = TEE_SUCCESS then length src else room,
      t\<lparr>states := (states t)(op_state op \<mapsto> cs\<lparr>cs_ctx := gcm_dec_ctx C k nonce src tag\<rparr>),
        opers := (opers t)(a \<mapsto>
          (if res = TEE_SUCCESS
           then op\<lparr>op_handleState := op_handleState op - {HF_INITIALIZED}, op_operationState := OPERATION_STATE_INITIAL\<rparr>
           else op))\<rparr>)"
proof -
  let ?E = "p_aes (e_prims C) k"
  obtain st where st: "gcm_init ?E TEE_MODE_DECRYPT nonce 16 = Inr st" using gcm_init_16 by blast
  then obtain st' where st': "gcm_dec_final ?E src tag st = (res, st', out)"
    using assms(13,14) by (auto simp: internal_aes_gcm_dec_def split: prod.splits)
  have "res = TEE_SUCCESS \<or> res = TEE_ERROR_MAC_INVALID"
    using st' by (auto simp: gcm_dec_final_def split: if_splits prod.splits)
  with assms(1-13) st st' show ?thesis
    by (auto simp: TEE_AEDecryptFinal_def syscall_authenc_dec_final_def tee_svc_cryp_get_state_def
      crypto_authenc_dec_final_def set_state_def set_oper_def gcm_dec_ctx_def)
qed

end
