(* ===== verification/Ra_Messages.thy ===== *)
theory Ra_Messages
  imports Utee_Run
begin

text \<open>
  The data the attester, the verifier and the attestation service exchange: the quote of
  \<^verbatim>\<open>attestation.h\<close> and the four messages of the protocol, which \<^verbatim>\<open>remote_attestation.h\<close> (attester) and
  \<^verbatim>\<open>verifier.h\<close> declare with the same layout under different field names. A message is sent as the bytes of its
  structure; the model has the structure as a record, and its bytes as the encoding of the record.
\<close>

section \<open>Sizes\<close>

abbreviation (input) RA_CURRENT_VERSION :: nat where "RA_CURRENT_VERSION \<equiv> 1"
abbreviation (input) RA_ANCHOR_SIZE :: nat where "RA_ANCHOR_SIZE \<equiv> 32"
abbreviation (input) RA_CLAIM_HASH_SIZE :: nat where "RA_CLAIM_HASH_SIZE \<equiv> 32"
abbreviation (input) RA_QUOTE_HASH_SIZE :: nat where "RA_QUOTE_HASH_SIZE \<equiv> 32"
abbreviation (input) RA_SIGNATURE_SIZE :: nat where "RA_SIGNATURE_SIZE \<equiv> 64"
abbreviation (input) RA_ATTESTATION_KEY_SIZE :: nat where "RA_ATTESTATION_KEY_SIZE \<equiv> 65"
abbreviation (input) RA_ECDH_KEY_SIZE :: nat where "RA_ECDH_KEY_SIZE \<equiv> 256"
abbreviation (input) RA_ECDSA_KEY_SIZE :: nat where "RA_ECDSA_KEY_SIZE \<equiv> 256"
abbreviation (input) RA_HASH_SIZE :: nat where "RA_HASH_SIZE \<equiv> 256"
abbreviation (input) RA_AES_CMAC_KEY_SIZE :: nat where "RA_AES_CMAC_KEY_SIZE \<equiv> 128"
abbreviation (input) RA_AES_CMAC_TAG_SIZE :: nat where "RA_AES_CMAC_TAG_SIZE \<equiv> 128"
abbreviation (input) RA_AES_GCM_KEY_SIZE :: nat where "RA_AES_GCM_KEY_SIZE \<equiv> 128"
abbreviation (input) RA_AES_GCM_TAG_SIZE :: nat where "RA_AES_GCM_TAG_SIZE \<equiv> 128"
abbreviation (input) RA_AES_GCM_IV_SIZE :: nat where "RA_AES_GCM_IV_SIZE \<equiv> 32"
abbreviation (input) RA_AES_GCM_CIPHERTEXT_OVERHEAD :: nat where "RA_AES_GCM_CIPHERTEXT_OVERHEAD \<equiv> 16"

abbreviation (input) sizeof_ra_quote :: nat where "sizeof_ra_quote \<equiv> 200"
abbreviation (input) sizeof_msg0_t :: nat where "sizeof_msg0_t \<equiv> 72"
abbreviation (input) sizeof_msg1_t :: nat where "sizeof_msg1_t \<equiv> 224"
abbreviation (input) sizeof_msg2_t :: nat where "sizeof_msg2_t \<equiv> 288"
abbreviation (input) sizeof_msg3_t :: nat where "sizeof_msg3_t \<equiv> 52"

text \<open>The string literals, with the terminating zero that \<^verbatim>\<open>sizeof\<close> counts.\<close>

definition RA_SHARED_MAC_DATA :: bytes where
  "RA_SHARED_MAC_DATA = [0x01, 0x53, 0x4D, 0x4B, 0x00, 0x80, 0x00, 0x00]"

definition RA_SHARED_SESSION_DATA :: bytes where
  "RA_SHARED_SESSION_DATA = [0x01, 0x53, 0x4B, 0x00, 0x80, 0x00, 0x00]"

section \<open>Structures\<close>

text \<open>The four fields of a public key, as every message has them: the coordinates, each with the number of bytes
  that are in use.\<close>

record pubkey =
  x_raw :: bytes
  x_size :: nat
  y_raw :: bytes
  y_size :: nat

type_synonym msg0_t = pubkey

record msg1_t =
  m1_ecdh :: pubkey
  m1_ecdsa :: pubkey
  m1_ecdh_signature :: bytes
  m1_mac :: bytes

text \<open>The quote, with the three bytes of padding at its end.\<close>

record ra_quote =
  q_anchor :: bytes
  q_version :: nat
  q_claim_hash :: bytes
  q_attestation_key :: bytes
  q_signature :: bytes
  q_padding :: bytes

record msg2_t =
  m2_ecdh :: pubkey
  m2_quote :: ra_quote
  m2_mac :: bytes

record msg3_t =
  m3_iv :: bytes
  m3_tag :: bytes
  m3_size :: nat
  m3_content :: bytes

section \<open>Layout\<close>

definition pubkey_bytes :: "pubkey \<Rightarrow> bytes" where
  "pubkey_bytes k = x_raw k @ le32 (x_size k) @ y_raw k @ le32 (y_size k)"

definition pubkey_at :: "bytes \<Rightarrow> pubkey" where
  "pubkey_at b =
     \<lparr>x_raw = take 32 b, x_size = un_le32 (drop 32 b), y_raw = take 32 (drop 36 b), y_size = un_le32 (drop 68 b)\<rparr>"

definition quote_bytes :: "ra_quote \<Rightarrow> bytes" where
  "quote_bytes q =
     q_anchor q @ le32 (q_version q) @ q_claim_hash q @ q_attestation_key q @ q_signature q @ q_padding q"

definition quote_at :: "bytes \<Rightarrow> ra_quote" where
  "quote_at b =
     \<lparr>q_anchor = take 32 b, q_version = un_le32 (drop 32 b), q_claim_hash = take 32 (drop 36 b),
      q_attestation_key = take 65 (drop 68 b), q_signature = take 64 (drop 133 b), q_padding = take 3 (drop 197 b)\<rparr>"

definition msg1_bytes :: "msg1_t \<Rightarrow> bytes" where
  "msg1_bytes m = pubkey_bytes (m1_ecdh m) @ pubkey_bytes (m1_ecdsa m) @ m1_ecdh_signature m @ m1_mac m"

definition msg1_at :: "bytes \<Rightarrow> msg1_t" where
  "msg1_at b =
     \<lparr>m1_ecdh = pubkey_at (take 72 b), m1_ecdsa = pubkey_at (take 72 (drop 72 b)),
      m1_ecdh_signature = take 64 (drop 144 b), m1_mac = take 16 (drop 208 b)\<rparr>"

definition msg2_bytes :: "msg2_t \<Rightarrow> bytes" where
  "msg2_bytes m = pubkey_bytes (m2_ecdh m) @ quote_bytes (m2_quote m) @ m2_mac m"

definition msg2_at :: "bytes \<Rightarrow> msg2_t" where
  "msg2_at b =
     \<lparr>m2_ecdh = pubkey_at (take 72 b), m2_quote = quote_at (take 200 (drop 72 b)), m2_mac = take 16 (drop 272 b)\<rparr>"

definition msg3_bytes :: "msg3_t \<Rightarrow> bytes" where
  "msg3_bytes m = m3_iv m @ m3_tag m @ le32 (m3_size m) @ m3_content m"

definition msg3_at :: "bytes \<Rightarrow> msg3_t" where
  "msg3_at b =
     \<lparr>m3_iv = take 32 b, m3_tag = take 16 (drop 32 b), m3_size = un_le32 (drop 48 b), m3_content = drop 52 b\<rparr>"

text \<open>The structures as the declarations size them.\<close>

definition wf_pubkey :: "pubkey \<Rightarrow> bool" where
  "wf_pubkey k \<longleftrightarrow> length (x_raw k) = 32 \<and> x_size k < 2 ^ 32 \<and> length (y_raw k) = 32 \<and> y_size k < 2 ^ 32"

definition wf_quote :: "ra_quote \<Rightarrow> bool" where
  "wf_quote q \<longleftrightarrow>
     length (q_anchor q) = 32 \<and> q_version q < 2 ^ 32 \<and> length (q_claim_hash q) = 32 \<and>
     length (q_attestation_key q) = 65 \<and> length (q_signature q) = 64 \<and> length (q_padding q) = 3"

definition wf_msg1 :: "msg1_t \<Rightarrow> bool" where
  "wf_msg1 m \<longleftrightarrow>
     wf_pubkey (m1_ecdh m) \<and> wf_pubkey (m1_ecdsa m) \<and> length (m1_ecdh_signature m) = 64 \<and> length (m1_mac m) = 16"

definition wf_msg2 :: "msg2_t \<Rightarrow> bool" where
  "wf_msg2 m \<longleftrightarrow> wf_pubkey (m2_ecdh m) \<and> wf_quote (m2_quote m) \<and> length (m2_mac m) = 16"

definition wf_msg3 :: "msg3_t \<Rightarrow> bool" where
  "wf_msg3 m \<longleftrightarrow> length (m3_iv m) = 32 \<and> length (m3_tag m) = 16 \<and> m3_size m < 2 ^ 32"

text \<open>The bytes of a coordinate that are in use. The sizes of a received message are the sender's: one above the
  size of the buffer makes the reader leave it.\<close>

definition x_of :: "pubkey \<Rightarrow> bytes option" where "x_of k = rd (x_raw k) (x_size k)"
definition y_of :: "pubkey \<Rightarrow> bytes option" where "y_of k = rd (y_raw k) (y_size k)"

text \<open>A structure filled with zeros.\<close>

definition zero_pubkey :: pubkey where
  "zero_pubkey = \<lparr>x_raw = replicate 32 0, x_size = 0, y_raw = replicate 32 0, y_size = 0\<rparr>"

definition zero_quote :: ra_quote where
  "zero_quote =
     \<lparr>q_anchor = replicate 32 0, q_version = 0, q_claim_hash = replicate 32 0, q_attestation_key = replicate 65 0,
      q_signature = replicate 64 0, q_padding = replicate 3 0\<rparr>"

definition zero_msg1 :: msg1_t where
  "zero_msg1 =
     \<lparr>m1_ecdh = zero_pubkey, m1_ecdsa = zero_pubkey, m1_ecdh_signature = replicate 64 0, m1_mac = replicate 16 0\<rparr>"

definition zero_msg2 :: msg2_t where
  "zero_msg2 = \<lparr>m2_ecdh = zero_pubkey, m2_quote = zero_quote, m2_mac = replicate 16 0\<rparr>"

text \<open>The output of \<^verbatim>\<open>TEE_GetObjectBufferAttribute\<close> into a field: the bytes at its start are replaced.\<close>

definition fill :: "bytes option \<Rightarrow> bytes \<Rightarrow> bytes" where
  "fill out buf = (case out of None \<Rightarrow> buf | Some b \<Rightarrow> b @ drop (length b) buf)"

section \<open>Lemmas\<close>

lemma rd_bound: "rd b n = Some bs \<Longrightarrow> length bs = n \<and> n \<le> length b"
  by (auto simp: rd_def split: if_splits)

lemma coordinate_length:
  assumes "wf_pubkey k"
  shows "x_of k = Some x \<Longrightarrow> length x \<le> 32" "y_of k = Some y \<Longrightarrow> length y \<le> 32"
  using assms by (auto simp: wf_pubkey_def x_of_def y_of_def dest!: rd_bound)

lemma wr_start: "length b \<le> length buf \<Longrightarrow> wr buf 0 b = Some (b @ drop (length b) buf)"
  by (simp add: wr_def)

lemma length_pubkey_bytes: "wf_pubkey k \<Longrightarrow> length (pubkey_bytes k) = sizeof_msg0_t"
  by (simp add: wf_pubkey_def pubkey_bytes_def)

lemma length_quote_bytes: "wf_quote q \<Longrightarrow> length (quote_bytes q) = sizeof_ra_quote"
  by (simp add: wf_quote_def quote_bytes_def)

lemma length_msg1_bytes: "wf_msg1 m \<Longrightarrow> length (msg1_bytes m) = sizeof_msg1_t"
  by (simp add: wf_msg1_def msg1_bytes_def length_pubkey_bytes)

lemma length_msg2_bytes: "wf_msg2 m \<Longrightarrow> length (msg2_bytes m) = sizeof_msg2_t"
  by (simp add: wf_msg2_def msg2_bytes_def length_pubkey_bytes length_quote_bytes)

lemma pubkey_at_bytes [simp]: "wf_pubkey k \<Longrightarrow> pubkey_at (pubkey_bytes k @ bs) = k"
  by (simp add: pubkey_at_def pubkey_bytes_def wf_pubkey_def)

lemma quote_at_bytes [simp]: "wf_quote q \<Longrightarrow> quote_at (quote_bytes q @ bs) = q"
  by (simp add: quote_at_def quote_bytes_def wf_quote_def)

lemma le32_un_le32_take: "4 \<le> length bs \<Longrightarrow> le32 (un_le32 bs) = take 4 bs"
proof (cases bs rule: un_le32.cases)
  case (1 a b c d es)
  then have "un_le32 bs = un_le32 [a, b, c, d]" by simp
  moreover have "le32 (un_le32 [a, b, c, d]) = [a, b, c, d]" by (rule le32_un_le32) simp
  ultimately show ?thesis using 1 by simp
qed auto

text \<open>Two fields of a buffer, the second behind the first, are one field.\<close>

lemma take_drop_join: "take m (drop k bs) @ take n (drop (k + m) bs) = take (m + n) (drop k bs)"
  by (simp add: take_add add.commute)

lemma wf_pubkey_at: "72 \<le> length b \<Longrightarrow> wf_pubkey (pubkey_at b)"
  using un_le32_less by (simp add: wf_pubkey_def pubkey_at_def)

lemma wf_quote_at: "200 \<le> length b \<Longrightarrow> wf_quote (quote_at b)"
  using un_le32_less by (simp add: wf_quote_def quote_at_def)

lemma wf_msg1_at: "length b = 224 \<Longrightarrow> wf_msg1 (msg1_at b)"
  by (simp add: wf_msg1_def msg1_at_def wf_pubkey_at)

lemma wf_msg2_at: "length b = 288 \<Longrightarrow> wf_msg2 (msg2_at b)"
  by (simp add: wf_msg2_def msg2_at_def wf_pubkey_at wf_quote_at)

lemma pubkey_bytes_at: "72 \<le> length b \<Longrightarrow> pubkey_bytes (pubkey_at b) = take 72 b"
  using take_drop_join [of 32 0 b 4] take_drop_join [of 36 0 b 32] take_drop_join [of 68 0 b 4]
  by (simp add: pubkey_bytes_def pubkey_at_def le32_un_le32_take flip: append_assoc)

lemma quote_bytes_at: "200 \<le> length b \<Longrightarrow> quote_bytes (quote_at b) = take 200 b"
  using take_drop_join [of 32 0 b 4] take_drop_join [of 36 0 b 32] take_drop_join [of 68 0 b 65]
    take_drop_join [of 133 0 b 64] take_drop_join [of 197 0 b 3]
  by (simp add: quote_bytes_def quote_at_def le32_un_le32_take flip: append_assoc)

lemma msg1_bytes_at: "length b = 224 \<Longrightarrow> msg1_bytes (msg1_at b) = b"
  using take_drop_join [of 72 0 b 72] take_drop_join [of 144 0 b 64] take_drop_join [of 208 0 b 16]
  by (simp add: msg1_bytes_def msg1_at_def pubkey_bytes_at flip: append_assoc)

lemma msg2_bytes_at: "length b = 288 \<Longrightarrow> msg2_bytes (msg2_at b) = b"
  using take_drop_join [of 72 0 b 200] take_drop_join [of 272 0 b 16]
  by (simp add: msg2_bytes_def msg2_at_def pubkey_bytes_at quote_bytes_at flip: append_assoc)

lemma msg1_at_bytes [simp]: "wf_msg1 m \<Longrightarrow> msg1_at (msg1_bytes m) = m"
  using pubkey_at_bytes [of "m1_ecdh m" "[]"] pubkey_at_bytes [of "m1_ecdsa m" "[]"]
  by (simp add: wf_msg1_def msg1_at_def msg1_bytes_def length_pubkey_bytes)

lemma msg2_at_bytes [simp]: "wf_msg2 m \<Longrightarrow> msg2_at (msg2_bytes m) = m"
  using pubkey_at_bytes [of "m2_ecdh m" "[]"] quote_at_bytes [of "m2_quote m" "[]"]
  by (simp add: wf_msg2_def msg2_at_def msg2_bytes_def length_pubkey_bytes length_quote_bytes)

lemma msg3_at_bytes [simp]: "wf_msg3 m \<Longrightarrow> msg3_at (msg3_bytes m) = m"
  by (simp add: wf_msg3_def msg3_at_def msg3_bytes_def)

lemma msg3_bytes_at: "52 \<le> length b \<Longrightarrow> msg3_bytes (msg3_at b) = b"
  using take_drop_join [of 32 0 b 16] take_drop_join [of 48 0 b 4]
  by (simp add: msg3_bytes_def msg3_at_def le32_un_le32_take flip: append_assoc)

section \<open>Property\<close>

end
