(* ===== verification/Attestation_Service.thy ===== *)
theory Attestation_Service
  imports Ra_Messages
begin

text \<open>
  The attestation service, a pseudo trusted application of the kernel (\<^verbatim>\<open>core/pta/attesting_service.c\<close>), with
  what it calls: the derivation of a subkey from the hardware unique key (\<^verbatim>\<open>core/kernel/huk_subkey.c\<close>), the
  generation of a key pair from a seed and the export of its public key
  (\<^verbatim>\<open>core/lib/libtomcrypt/vedliot_crypto.c\<close>, \<^verbatim>\<open>ltc_ecc_export_point.c\<close>), and the printing of byte arrays
  (\<^verbatim>\<open>core/kernel/vedliot_utils.c\<close>). The static variables of the service are a record; the functions also take the
  state of the kernel, which counts allocations and draws of entropy.
\<close>

section \<open>Subkeys of the hardware unique key\<close>

abbreviation (input) HUK_SUBKEY_RPMB :: nat where "HUK_SUBKEY_RPMB \<equiv> 0"
abbreviation (input) HUK_SUBKEY_SSK :: nat where "HUK_SUBKEY_SSK \<equiv> 1"
abbreviation (input) HUK_SUBKEY_SE050 :: nat where "HUK_SUBKEY_SE050 \<equiv> 5"
abbreviation (input) HUK_SUBKEY_MAX_LEN :: nat where "HUK_SUBKEY_MAX_LEN \<equiv> 32"
abbreviation (input) TEE_FS_KM_CHIP_ID_LENGTH :: nat where "TEE_FS_KM_CHIP_ID_LENGTH \<equiv> 32"

definition mac_usage :: "nat \<Rightarrow> cryp_ctx \<Rightarrow> (TEE_Result \<times> cryp_ctx) option" where
  "mac_usage usage ctx = crypto_mac_update (le32 usage) ctx"

definition get_dummy_die_id :: "nat \<Rightarrow> bytes" where
  "get_dummy_die_id len = map (\<lambda>i. [0x42, 0x45, 0x45, 0x46] ! (i mod 4)) [0..<len]"

text \<open>\<^verbatim>\<open>"ONLY_FOR_tee_fs_ssk"\<close> with its terminating zero.\<close>

definition ssk_str :: bytes where
  "ssk_str = [0x4F, 0x4E, 0x4C, 0x59, 0x5F, 0x46, 0x4F, 0x52, 0x5F, 0x74, 0x65, 0x65, 0x5F, 0x66, 0x73, 0x5F, 0x73,
     0x73, 0x6B, 0x00]"

definition huk_compat :: "nat \<Rightarrow> cryp_ctx \<Rightarrow> (TEE_Result \<times> cryp_ctx) option" where
  "huk_compat usage ctx =
     (if usage = HUK_SUBKEY_RPMB then Some (TEE_SUCCESS, ctx)
      else if usage = HUK_SUBKEY_SSK
      then do {
        (res, ctx) \<leftarrow> crypto_mac_update (get_dummy_die_id TEE_FS_KM_CHIP_ID_LENGTH) ctx;
        if res \<noteq> TEE_SUCCESS then Some (res, ctx) else crypto_mac_update ssk_str ctx
      }
      else mac_usage usage ctx)"

text \<open>The result and what is written to the subkey buffer: nothing on the early returns, zeros when a later step
  fails.\<close>

definition huk_subkey_derive ::
    "env \<Rightarrow> nat \<Rightarrow> bytes option \<Rightarrow> nat \<Rightarrow> nat \<Rightarrow> 'a tee_scheme \<Rightarrow>
       (TEE_Result \<times> bytes option \<times> 'a tee_scheme) option" where
  "huk_subkey_derive C usage const_data const_data_len subkey_len t =
     (if subkey_len > HUK_SUBKEY_MAX_LEN then Some (TEE_ERROR_BAD_PARAMETERS, None, t)
      else if const_data = None \<and> const_data_len \<noteq> 0 then Some (TEE_ERROR_BAD_PARAMETERS, None, t)
      else case crypto_mac_alloc_ctx C TEE_ALG_HMAC_SHA256 t of
             (Inl e, t) \<Rightarrow> Some (e, None, t)
           | (Inr ctx, t) \<Rightarrow>
               (case e_huk C of
                  Inl e \<Rightarrow> Some (e, Some (replicate subkey_len 0), t)
                | Inr huk \<Rightarrow> do {
                    (res, ctx) \<leftarrow> crypto_mac_init C TEE_ALG_HMAC_SHA256 huk ctx;
                    if res \<noteq> TEE_SUCCESS then Some (res, Some (replicate subkey_len 0), t)
                    else do {
                      (res, ctx) \<leftarrow> (if CFG_CORE_HUK_SUBKEY_COMPAT \<in> e_cfg C then huk_compat usage ctx
                                    else mac_usage usage ctx);
                      if res \<noteq> TEE_SUCCESS then Some (res, Some (replicate subkey_len 0), t)
                      else do {
                        (res, ctx) \<leftarrow> (case const_data of
                                         None \<Rightarrow> Some (TEE_SUCCESS, ctx)
                                       | Some b \<Rightarrow> do { d \<leftarrow> rd b const_data_len; crypto_mac_update d ctx });
                        if res \<noteq> TEE_SUCCESS then Some (res, Some (replicate subkey_len 0), t)
                        else do {
                          (res, key, ctx) \<leftarrow> crypto_mac_final C TEE_ALG_HMAC_SHA256 subkey_len ctx;
                          Some (res, Some (if res \<noteq> TEE_SUCCESS then replicate subkey_len 0 else key), t)
                        }
                      }
                    }
                  }))"

section \<open>Keys from a seed\<close>

definition gen_ecdsa_key_with_seed :: "env \<Rightarrow> bytes \<Rightarrow> ecc_keypair \<Rightarrow> nat \<Rightarrow> TEE_Result \<times> ecc_keypair" where
  "gen_ecdsa_key_with_seed C seed key key_size =
     (case e_fortuna C seed of
        None \<Rightarrow> (TEE_ERROR_GENERIC, key)
      | Some prng \<Rightarrow> ltc_ecc_generate_keypair_with_prng C prng key_size key)"

abbreviation (input) ECC_BUF_SIZE :: nat where "ECC_BUF_SIZE \<equiv> 256"

text \<open>A number as \<open>sz\<close> bytes, with leading zeros.\<close>

definition mp_padded :: "nat \<Rightarrow> nat \<Rightarrow> bytes" where
  "mp_padded n sz = replicate (sz - length (bytes_of_bn n)) 0 @ bytes_of_bn n"

text \<open>The point as bytes, or \<open>None\<close> for \<^verbatim>\<open>CRYPT_BUFFER_OVERFLOW\<close>.\<close>

definition ltc_ecc_export_point :: "nat \<Rightarrow> nat \<Rightarrow> nat \<Rightarrow> nat \<Rightarrow> bool \<Rightarrow> bytes option" where
  "ltc_ecc_export_point outlen x y sz compressed =
     (if sz > ECC_BUF_SIZE then None
      else if length (bytes_of_bn x) > sz then None
      else if length (bytes_of_bn y) > sz then None
      else if compressed
      then if outlen < 1 + sz then None else Some ((if odd y then 3 else 2) # mp_padded x sz)
      else if outlen < 1 + 2 * sz then None else Some (4 # mp_padded x sz @ mp_padded y sz))"

text \<open>\<^verbatim>\<open>ecc_get_key\<close> for a public key that is not compressed.\<close>

definition ecc_export_public_in_buffer :: "env \<Rightarrow> nat \<Rightarrow> ecc_keypair \<Rightarrow> nat \<Rightarrow> nat \<Rightarrow> TEE_Result + bytes" where
  "ecc_export_public_in_buffer C now key algo outlen =
     (case ecc_populate_ltc_key C now (kp_curve key) algo of
        Inl e \<Rightarrow> Inl TEE_ERROR_GENERIC
      | Inr key_size_bytes \<Rightarrow>
          (case ltc_ecc_export_point outlen (kp_x key) (kp_y key) key_size_bytes False of
             None \<Rightarrow> Inl TEE_ERROR_GENERIC
           | Some b \<Rightarrow> Inr b))"

section \<open>The service\<close>

text \<open>The key pair is \<open>None\<close> until it is allocated: its operations are then a null pointer.\<close>

record pta =
  is_attestation_seed_derived :: bool
  attestation_seed :: bytes
  is_attestation_ecdsa_keypair_derived :: bool
  attestation_ecdsa_keypair :: "ecc_keypair option"
  exported_public_key :: bytes

definition pta_boot :: pta where
  "pta_boot =
     \<lparr>is_attestation_seed_derived = False, attestation_seed = replicate HUK_SUBKEY_MAX_LEN 0,
      is_attestation_ecdsa_keypair_derived = False, attestation_ecdsa_keypair = None,
      exported_public_key = replicate RA_ATTESTATION_KEY_SIZE 0\<rparr>"

text \<open>A digest of the concatenation of some byte arrays, in the calls of \<^verbatim>\<open>hash_byte_array\<close> and
  \<^verbatim>\<open>hash_quote\<close>.\<close>

fun hash_updates :: "bytes list \<Rightarrow> cryp_ctx \<Rightarrow> (TEE_Result \<times> cryp_ctx) option" where
  "hash_updates [] ctx = Some (TEE_SUCCESS, ctx)"
| "hash_updates (b # bs) ctx = do {
     (res, ctx) \<leftarrow> crypto_hash_update b ctx;
     if res \<noteq> TEE_SUCCESS then Some (res, ctx) else hash_updates bs ctx
   }"

definition hash_arrays :: "env \<Rightarrow> bytes list \<Rightarrow> 'a tee_scheme \<Rightarrow> ((TEE_Result + bytes) \<times> 'a tee_scheme) option" where
  "hash_arrays C srcs t =
     (case crypto_hash_alloc_ctx C TEE_ALG_SHA256 t of
        (Inl e, t) \<Rightarrow> Some (Inl e, t)
      | (Inr ctx, t) \<Rightarrow> do {
          (res, ctx) \<leftarrow> crypto_hash_init ctx;
          if res \<noteq> TEE_SUCCESS then Some (Inl res, t)
          else do {
            (res, ctx) \<leftarrow> hash_updates srcs ctx;
            if res \<noteq> TEE_SUCCESS then Some (Inl res, t)
            else do {
              (res, dst, ctx) \<leftarrow> crypto_hash_final C TEE_ALG_SHA256 RA_CLAIM_HASH_SIZE ctx;
              Some (if res \<noteq> TEE_SUCCESS then Inl res else Inr dst, t)
            }
          }
        })"

definition hash_byte_array :: "env \<Rightarrow> bytes \<Rightarrow> 'a tee_scheme \<Rightarrow> ((TEE_Result + bytes) \<times> 'a tee_scheme) option" where
  "hash_byte_array C src t = hash_arrays C [src] t"

definition hash_quote :: "env \<Rightarrow> ra_quote \<Rightarrow> 'a tee_scheme \<Rightarrow> ((TEE_Result + bytes) \<times> 'a tee_scheme) option" where
  "hash_quote C q t =
     hash_arrays C [q_anchor q, le32 (q_version q), q_claim_hash q, q_attestation_key q] t"

definition derive_attestation_seed :: "env \<Rightarrow> pta \<Rightarrow> 'a tee_scheme \<Rightarrow> (TEE_Result \<times> pta \<times> 'a tee_scheme) option" where
  "derive_attestation_seed C p t =
     (if is_attestation_seed_derived p then Some (TEE_SUCCESS, p, t)
      else do {
        (res, out, t) \<leftarrow> huk_subkey_derive C HUK_SUBKEY_SE050 None 0 HUK_SUBKEY_MAX_LEN t;
        let p = p\<lparr>attestation_seed := (case out of None \<Rightarrow> attestation_seed p | Some b \<Rightarrow> b)\<rparr>;
        Some (res, if res = TEE_SUCCESS then p\<lparr>is_attestation_seed_derived := True\<rparr> else p, t)
      })"

definition derive_attestation_ecdsa_keypair ::
    "env \<Rightarrow> pta \<Rightarrow> 'a tee_scheme \<Rightarrow> (TEE_Result \<times> pta \<times> 'a tee_scheme) option" where
  "derive_attestation_ecdsa_keypair C p t =
     (if is_attestation_ecdsa_keypair_derived p then Some (TEE_SUCCESS, p, t)
      else case crypto_asym_alloc_ecc_keypair C TEE_TYPE_ECDSA_KEYPAIR t of
             (res, t) \<Rightarrow>
               if res \<noteq> TEE_SUCCESS then Some (res, p, t)
               else (case gen_ecdsa_key_with_seed C (attestation_seed p)
                            \<lparr>kp_d = 0, kp_x = 0, kp_y = 0, kp_curve = TEE_ECC_CURVE_NIST_P256\<rparr> 256 of
                       (res, key) \<Rightarrow>
                         let p = p\<lparr>attestation_ecdsa_keypair := Some key\<rparr> in
                         if res \<noteq> TEE_SUCCESS then Some (res, p, t)
                         else (case ecc_export_public_in_buffer C (tick t) key TEE_ALG_ECDSA_P256
                                      RA_ATTESTATION_KEY_SIZE of
                                 Inl e \<Rightarrow> Some (e, p, t)
                               | Inr b \<Rightarrow>
                                   Some (TEE_SUCCESS,
                                     p\<lparr>exported_public_key := b, is_attestation_ecdsa_keypair_derived := True\<rparr>, t))))"

text \<open>The quote is written through the pointer of the caller, also on the paths that fail: the result, the quote
  if it was written, and the state.\<close>

definition generate_quote ::
    "env \<Rightarrow> bytes \<Rightarrow> bytes \<Rightarrow> pta \<Rightarrow> 'a tee_scheme \<Rightarrow> (TEE_Result \<times> ra_quote option \<times> 'a tee_scheme) option" where
  "generate_quote C claim anchor p t =
     (if length anchor > RA_ANCHOR_SIZE then Some (TEE_ERROR_SHORT_BUFFER, None, t)
      else do {
        anchor \<leftarrow> rd anchor RA_ANCHOR_SIZE;
        key \<leftarrow> rd (exported_public_key p) RA_ATTESTATION_KEY_SIZE;
        let quote = zero_quote\<lparr>q_version := RA_CURRENT_VERSION, q_anchor := anchor, q_attestation_key := key\<rparr>;
        (r, t) \<leftarrow> (if length claim = RA_CLAIM_HASH_SIZE then Some (Inr claim, t) else hash_byte_array C claim t);
        (case r of
           Inl e \<Rightarrow> Some (e, Some quote, t)
         | Inr h \<Rightarrow> do {
             let quote = quote\<lparr>q_claim_hash := h\<rparr>;
             (r, t) \<leftarrow> hash_quote C quote t;
             (case r of
                Inl e \<Rightarrow> Some (e, Some quote, t)
              | Inr quote_hash \<Rightarrow> do {
                  keypair \<leftarrow> attestation_ecdsa_keypair p;
                  (case ltc_ecc_sign C TEE_ALG_ECDSA_P256 keypair quote_hash RA_SIGNATURE_SIZE t of
                     (res, sig, sign_len, t) \<Rightarrow>
                       if res \<noteq> TEE_SUCCESS then Some (res, Some quote, t)
                       else do {
                         sgn \<leftarrow> wr (q_signature quote) 0 sig;
                         let quote = quote\<lparr>q_signature := sgn\<rparr>;
                         Some (if sign_len \<noteq> RA_SIGNATURE_SIZE then TEE_ERROR_BAD_PARAMETERS else TEE_SUCCESS,
                               Some quote, t)
                       })
                })
           })
      })"

definition pta_create :: "env \<Rightarrow> pta \<Rightarrow> 'a tee_scheme \<Rightarrow> (TEE_Result \<times> pta \<times> 'a tee_scheme) option" where
  "pta_create C p t = do {
     (res, p, t) \<leftarrow> derive_attestation_seed C p t;
     if res \<noteq> TEE_SUCCESS then Some (res, p, t) else derive_attestation_ecdsa_keypair C p t
   }"

text \<open>The parameters of a command, by type.\<close>

datatype tee_param =
    PARAM_NONE
  | VALUE_INPUT nat nat
  | VALUE_OUTPUT
  | VALUE_INOUT nat nat
  | MEMREF_INPUT bytes
  | MEMREF_OUTPUT nat
  | MEMREF_INOUT bytes

abbreviation (input) ATTESTATION_CMD_HELLO :: nat where "ATTESTATION_CMD_HELLO \<equiv> 0"
abbreviation (input) ATTESTATION_CMD_GEN_QUOTE :: nat where "ATTESTATION_CMD_GEN_QUOTE \<equiv> 1"

text \<open>\<^verbatim>\<open>invoke_command\<close>: the result and the buffer of the third parameter. The self test of the first command passes a
  length that was never assigned to the signature function, so that what it does is not defined. The size of the
  buffer for the quote is not looked at: a quote written to a smaller one overruns it.\<close>

definition pta_invoke_command ::
    "env \<Rightarrow> nat \<Rightarrow> tee_param list \<Rightarrow> pta \<Rightarrow> 'a tee_scheme \<Rightarrow> (TEE_Result \<times> bytes option \<times> 'a tee_scheme) option" where
  "pta_invoke_command C cmd params p t =
     (if cmd = ATTESTATION_CMD_HELLO then None
      else if cmd = ATTESTATION_CMD_GEN_QUOTE
      then (case params of
              [MEMREF_INPUT claim, MEMREF_INPUT anchor, MEMREF_INOUT buf, PARAM_NONE] \<Rightarrow> do {
                (res, quote, t) \<leftarrow> generate_quote C claim anchor p t;
                (case quote of
                   None \<Rightarrow> Some (res, Some buf, t)
                 | Some q \<Rightarrow> do { buf \<leftarrow> wr buf 0 (quote_bytes q); Some (res, Some buf, t) })
              }
            | _ \<Rightarrow> Some (TEE_ERROR_BAD_PARAMETERS, None, t))
      else Some (TEE_ERROR_BAD_PARAMETERS, None, t))"

section \<open>Printing byte arrays\<close>

text \<open>\<^verbatim>\<open>snprintf(p, room, "%02x ", b)\<close> into a buffer: two digits, a space and a terminating zero, cut to the room
  that is left. The value returned, 3, does not depend on the room.\<close>

definition hex_digit :: "nat \<Rightarrow> byte" where
  "hex_digit n = (if n < 10 then word_of_nat (48 + n) else word_of_nat (87 + n))"

definition snprintf_byte :: "bytes \<Rightarrow> nat \<Rightarrow> nat \<Rightarrow> byte \<Rightarrow> bytes option" where
  "snprintf_byte buf cursor room b =
     (if room = 0 then Some buf
      else wr buf cursor (take (room - 1) [hex_digit (unat b div 16), hex_digit (unat b mod 16), 32] @ [0]))"

fun print_loop :: "bytes \<Rightarrow> nat \<Rightarrow> nat \<Rightarrow> bytes \<Rightarrow> (bytes \<times> nat) option" where
  "print_loop buf buffer_len cursor [] = Some (buf, cursor)"
| "print_loop buf buffer_len cursor (b # bs) = do {
     buf \<leftarrow> snprintf_byte buf cursor (buffer_len - cursor) b;
     print_loop buf buffer_len (cursor + 3) bs
   }"

text \<open>The text that is traced, for a buffer that \<^verbatim>\<open>malloc\<close> returned.\<close>

definition utils_print_byte_array :: "bytes \<Rightarrow> bytes option" where
  "utils_print_byte_array byte_array = do {
     let buffer_len = 2 * length byte_array + length byte_array;
     (buf, cursor) \<leftarrow> print_loop (replicate buffer_len 0) buffer_len 0 byte_array;
     wr buf cursor [0]
   }"

section \<open>Lemmas\<close>

lemma snprintf_byte_length: "snprintf_byte buf cursor room b = Some buf' \<Longrightarrow> length buf' = length buf"
  by (auto simp: snprintf_byte_def wr_length split: if_splits)

lemma print_loop_end:
  "print_loop buf n cursor bs = Some (buf', cursor') \<Longrightarrow> length buf' = length buf \<and> cursor' = cursor + 3 * length bs"
proof (induction bs arbitrary: buf cursor)
  case (Cons b bs)
  then obtain buf1 where "snprintf_byte buf cursor (n - cursor) b = Some buf1"
    "print_loop buf1 n (cursor + 3) bs = Some (buf', cursor')"
    by (auto split: Option.bind_splits)
  with Cons.IH [of buf1 "cursor + 3"] snprintf_byte_length show ?case by fastforce
qed simp

lemma hash_updates_acc: "hash_updates bs (HashCtx (Some acc)) = Some (TEE_SUCCESS, HashCtx (Some (acc @ concat bs)))"
  by (induction bs arbitrary: acc) (simp_all add: crypto_hash_update_def)

lemma hash_arrays_eq:
  assumes "ready C" "crypto_ok C"
  shows "hash_arrays C bs t = Some (Inr (sha256 C (concat bs)), t\<lparr>tick := tick t + 1\<rparr>)"
  using assms
  by (simp add: hash_arrays_def crypto_hash_alloc_ctx_def hash_algos_def crypto_hash_init_def hash_updates_acc
    crypto_hash_final_def)

text \<open>The bytes the signature of a quote covers.\<close>

definition quote_body :: "ra_quote \<Rightarrow> bytes" where
  "quote_body q = q_anchor q @ le32 (q_version q) @ q_claim_hash q @ q_attestation_key q"

lemma hash_quote_eq:
  assumes "ready C" "crypto_ok C"
  shows "hash_quote C q t = Some (Inr (sha256 C (quote_body q)), t\<lparr>tick := tick t + 1\<rparr>)"
  using assms by (simp add: hash_quote_def hash_arrays_eq quote_body_def)

lemma length_mp_padded: "n < 256 ^ sz \<Longrightarrow> length (mp_padded n sz) = sz"
  by (simp add: mp_padded_def length_bytes_of_bn_le_iff [symmetric])

lemma bn_of_bytes_zeros: "bn_of_bytes (replicate k 0 @ bs) = bn_of_bytes bs"
proof (induction bs rule: rev_induct)
  case Nil
  have "bn_of_bytes (replicate k 0) = 0"
  proof (induction k)
    case (Suc k)
    have "replicate (Suc k) 0 = replicate k 0 @ [0 :: byte]" by (simp add: replicate_append_same)
    with Suc show ?case by (simp only: bn_of_bytes_snoc) simp
  qed simp
  then show ?case by simp
next
  case (snoc b bs)
  then show ?case by (simp only: append_assoc [symmetric] bn_of_bytes_snoc)
qed

lemma bn_of_mp_padded [simp]: "bn_of_bytes (mp_padded n sz) = n"
  by (simp add: mp_padded_def bn_of_bytes_zeros)

text \<open>The service is up: its key pair is one the curve library made, and the exported key is its public key.\<close>

definition exported_point :: "nat \<Rightarrow> nat \<Rightarrow> bytes" where
  "exported_point x y = 4 # mp_padded x 32 @ mp_padded y 32"

definition service_up :: "env \<Rightarrow> nat \<times> nat \<times> nat \<Rightarrow> pta \<Rightarrow> bool" where
  "service_up C k p \<longleftrightarrow>
     (case k of (d, x, y) \<Rightarrow>
        p256_pair (e_prims C) (d, x, y) \<and>
        attestation_ecdsa_keypair p = Some \<lparr>kp_d = d, kp_x = x, kp_y = y, kp_curve = TEE_ECC_CURVE_NIST_P256\<rparr> \<and>
        exported_public_key p = exported_point x y)"

lemma length_exported_point: "x < 2 ^ 256 \<Longrightarrow> y < 2 ^ 256 \<Longrightarrow> length (exported_point x y) = 65"
  by (simp add: exported_point_def length_mp_padded)

lemma exported_point_parts:
  assumes "x < 2 ^ 256" "y < 2 ^ 256"
  shows "bn_of_bytes (take 32 (drop 1 (exported_point x y))) = x"
    "bn_of_bytes (drop 33 (exported_point x y)) = y"
  using assms length_mp_padded [of x 32] by (simp_all add: exported_point_def)

text \<open>The claim of a quote: a claim of the size of a digest is taken for one.\<close>

definition claim_digest :: "env \<Rightarrow> bytes \<Rightarrow> bytes" where
  "claim_digest C claim = (if length claim = RA_CLAIM_HASH_SIZE then claim else sha256 C claim)"

lemma generate_quote_signed:
  assumes C: "ready C" "crypto_ok C" "ecc_ok (e_prims C)" and p: "service_up C (d, x, y) p"
    and a: "length anchor = RA_ANCHOR_SIZE"
  obtains q t' where "generate_quote C claim anchor p t = Some (TEE_SUCCESS, Some q, t')" "wf_quote q"
    "q_anchor q = anchor" "q_version q = RA_CURRENT_VERSION" "q_claim_hash q = claim_digest C claim"
    "q_attestation_key q = exported_point x y" "tick t \<le> tick t'" "t' = t\<lparr>tick := tick t'\<rparr>"
    "p_ecc_verify_hash (e_prims C) TEE_ECC_CURVE_NIST_P256 (x, y) (sha256 C (quote_body q)) (q_signature q) = CRYPT_OK True"
proof -
  have pair: "p256_pair (e_prims C) (d, x, y)" using p by (simp add: service_up_def)
  note xy = ecc_ok_bounds [OF C(3) pair]
  let ?q = "zero_quote\<lparr>q_version := 1, q_anchor := anchor, q_attestation_key := exported_point x y,
    q_claim_hash := claim_digest C claim\<rparr>"
  let ?n = "if length claim = 32 then tick t else tick t + 1"
  obtain sig where sig: "p_ecc_sign_hash (e_prims C) TEE_ECC_CURVE_NIST_P256 d (sha256 C (quote_body ?q))
      (e_entropy C (?n + 1)) = Some sig" "length sig = 64"
    "p_ecc_verify_hash (e_prims C) TEE_ECC_CURVE_NIST_P256 (x, y) (sha256 C (quote_body ?q)) sig = CRYPT_OK True"
    by (rule ecc_ok_sign [OF C(3) pair])
  have body: "quote_body (?q\<lparr>q_signature := sig\<rparr>) = quote_body ?q" by (simp add: quote_body_def)
  show ?thesis
  proof (rule that [of "?q\<lparr>q_signature := sig\<rparr>" "t\<lparr>tick := ?n + 2\<rparr>"])
    show "generate_quote C claim anchor p t = Some (TEE_SUCCESS, Some (?q\<lparr>q_signature := sig\<rparr>), t\<lparr>tick := ?n + 2\<rparr>)"
      using C p a sig(1,2) xy
      by (auto simp: generate_quote_def service_up_def rd_exact length_exported_point hash_byte_array_def
        hash_arrays_eq hash_quote_eq claim_digest_def ltc_ecc_sign_def wr_full zero_quote_def)
    show "wf_quote (?q\<lparr>q_signature := sig\<rparr>)"
      using C a sig(2) xy by (simp add: wf_quote_def zero_quote_def length_exported_point claim_digest_def)
  qed (use sig(3) body in simp_all)
qed

section \<open>Properties\<close>

text \<open>
  C4. The first session with the attestation service derives its key from the hardware unique key alone: the seed is
  the code of the usage number under the hardware unique key, the key pair is the one the curve library makes from
  the generator seeded with it, and the exported key is the uncompressed point. Neither the time nor the entropy of
  the system has a part in it, so that every start of a device gives the same key; a later call changes nothing.
\<close>

theorem pta_create_from_huk:
  assumes C: "no_oom C" "CFG_ALG TEE_ALG_HMAC_SHA256 \<in> e_cfg C"
    and huk: "e_huk C = Inr huk" "p_mac_key_ok (e_prims C) TEE_ALG_HMAC_SHA256 (length huk)"
    and seed: "seed = take HUK_SUBKEY_MAX_LEN (p_mac (e_prims C) TEE_ALG_HMAC_SHA256 huk (le32 HUK_SUBKEY_SE050))"
    and prng: "e_fortuna C seed = Some prng" "p_ecc_make_key (e_prims C) 32 prng = Some (d, x, y, 1)"
    and ok: "ecc_ok (e_prims C)"
  shows "\<exists>p. (\<forall>t :: 'a tee_scheme. \<exists>t'. pta_create C pta_boot t = Some (TEE_SUCCESS, p, t')) \<and>
    attestation_seed p = seed \<and> service_up C (d, x, y) p \<and>
    (\<forall>t :: 'a tee_scheme. pta_create C p t = Some (TEE_SUCCESS, p, t))"
proof -
  let ?p = "\<lparr>is_attestation_seed_derived = True, attestation_seed = seed, is_attestation_ecdsa_keypair_derived = True,
    attestation_ecdsa_keypair = Some \<lparr>kp_d = d, kp_x = x, kp_y = y, kp_curve = TEE_ECC_CURVE_NIST_P256\<rparr>,
    exported_public_key = exported_point x y\<rparr>"
  have pair: "p256_pair (e_prims C) (d, x, y)" using prng(2) by (auto simp: p256_pair_def)
  note xy = ecc_ok_bounds [OF ok pair]
  have derive: "huk_subkey_derive C HUK_SUBKEY_SE050 None 0 HUK_SUBKEY_MAX_LEN t =
      Some (TEE_SUCCESS, Some seed, t\<lparr>tick := tick t + 1\<rparr>)" for t :: "'a tee_scheme"
    using C huk
    by (simp add: huk_subkey_derive_def crypto_mac_alloc_ctx_def mac_algos_def crypto_mac_init_def huk_compat_def
      mac_usage_def crypto_mac_update_def crypto_mac_final_def seed le32_def)
  have len: "length (bytes_of_bn x) \<le> 32" "length (bytes_of_bn y) \<le> 32"
    using xy by (simp_all add: length_bytes_of_bn_le_iff)
  have "pta_create C pta_boot t = Some (TEE_SUCCESS, ?p, t\<lparr>tick := tick t + 4\<rparr>)" for t :: "'a tee_scheme"
    using C(1) prng xy len
    by (simp add: pta_create_def derive_attestation_seed_def pta_boot_def derive
      derive_attestation_ecdsa_keypair_def crypto_asym_alloc_ecc_keypair_def ecc_keypair_ops_of_def
      gen_ecdsa_key_with_seed_def ltc_ecc_generate_keypair_with_prng_def ltc_ecc_keypair_from_P256
      ecc_export_public_in_buffer_def ltc_ecc_export_point_def exported_point_def numeral_eq_Suc_small)
  moreover have "pta_create C ?p t = Some (TEE_SUCCESS, ?p, t)" for t :: "'a tee_scheme"
    by (simp add: pta_create_def derive_attestation_seed_def derive_attestation_ecdsa_keypair_def)
  ultimately show ?thesis using pair by (intro exI [of _ ?p]) (auto simp: service_up_def)
qed

text \<open>A key of the sample environment.\<close>

definition sample_key_of :: "bytes \<Rightarrow> nat \<times> nat \<times> nat" where
  "sample_key_of seed = (2 ^ 248 + bn_of_bytes (take 30 seed), 2 ^ 248 + bn_of_bytes (take 30 seed), 2 ^ 255)"

lemma sample_key_pair: "p256_pair (e_prims sample_env) (sample_key_of seed)"
  by (auto simp: p256_pair_def sample_key_of_def sample_env_def sample_prims_def Let_def intro: exI [of _ seed])

definition sample_service :: pta where
  "sample_service =
     (case sample_key_of [7] of (d, x, y) \<Rightarrow>
        pta_boot\<lparr>attestation_ecdsa_keypair := Some \<lparr>kp_d = d, kp_x = x, kp_y = y, kp_curve = TEE_ECC_CURVE_NIST_P256\<rparr>,
                exported_public_key := exported_point x y\<rparr>)"

lemma sample_service_up: "service_up sample_env (sample_key_of [7]) sample_service"
  using sample_key_pair [of "[7]"] by (simp add: service_up_def sample_service_def sample_key_of_def)

theorem pta_create_from_huk_witness:
  "\<exists>p t' k. pta_create sample_env pta_boot tee_start = Some (TEE_SUCCESS, p, t') \<and> service_up sample_env k p \<and>
     pta_create sample_env p tee_start = Some (TEE_SUCCESS, p, tee_start)"
proof -
  let ?seed = "take 32 (p_mac (e_prims sample_env) TEE_ALG_HMAC_SHA256 (replicate 16 3) (le32 5))"
  have *: "no_oom sample_env" "CFG_ALG TEE_ALG_HMAC_SHA256 \<in> e_cfg sample_env" "e_huk sample_env = Inr (replicate 16 3)"
    "p_mac_key_ok (e_prims sample_env) TEE_ALG_HMAC_SHA256 (length (replicate 16 (3 :: byte)))"
    "e_fortuna sample_env ?seed = Some ?seed"
    "p_ecc_make_key (e_prims sample_env) 32 ?seed =
       Some (2 ^ 248 + bn_of_bytes (take 30 ?seed), 2 ^ 248 + bn_of_bytes (take 30 ?seed), 2 ^ 255, 1)"
    by (simp_all add: no_oom_def sample_env_def sample_prims_def Let_def)
  from pta_create_from_huk [OF *(1-4) refl *(5,6) ecc_ok_sample, where 'a = unit] show ?thesis by metis
qed

text \<open>
  C3. A quote of the attestation service is genuine: for a claim, an anchor of 32 bytes and a buffer of the size of a
  quote the command succeeds and the buffer holds a well-formed quote with that anchor, the version, the digest of
  the claim and the public key of the service, whose signature the public key accepts for these four fields.
\<close>

theorem pta_quote_genuine:
  assumes "ready C" "crypto_ok C" "ecc_ok (e_prims C)" "service_up C (d, x, y) p"
    "length anchor = RA_ANCHOR_SIZE" "length buf = sizeof_ra_quote"
  shows "\<exists>q t'. pta_invoke_command C ATTESTATION_CMD_GEN_QUOTE
      [MEMREF_INPUT claim, MEMREF_INPUT anchor, MEMREF_INOUT buf, PARAM_NONE] p t =
      Some (TEE_SUCCESS, Some (quote_bytes q), t') \<and>
    wf_quote q \<and> q_anchor q = anchor \<and> q_version q = RA_CURRENT_VERSION \<and> q_claim_hash q = claim_digest C claim \<and>
    q_attestation_key q = exported_point x y \<and>
    p_ecc_verify_hash (e_prims C) TEE_ECC_CURVE_NIST_P256 (x, y)
      (sha256 C (anchor @ le32 RA_CURRENT_VERSION @ claim_digest C claim @ exported_point x y)) (q_signature q) =
      CRYPT_OK True"
proof (rule generate_quote_signed [OF assms(1-5)])
  fix q t'
  assume q: "generate_quote C claim anchor p t = Some (TEE_SUCCESS, Some q, t')" "wf_quote q"
    "q_anchor q = anchor" "q_version q = RA_CURRENT_VERSION" "q_claim_hash q = claim_digest C claim"
    "q_attestation_key q = exported_point x y"
    "p_ecc_verify_hash (e_prims C) TEE_ECC_CURVE_NIST_P256 (x, y) (sha256 C (quote_body q)) (q_signature q) = CRYPT_OK True"
  show ?thesis
    using q assms(6) by (intro exI [of _ q] exI [of _ t']) (simp add: pta_invoke_command_def wr_full length_quote_bytes quote_body_def)
qed

theorem pta_quote_genuine_witness:
  "\<exists>q t'. pta_invoke_command sample_env ATTESTATION_CMD_GEN_QUOTE
      [MEMREF_INPUT [1, 2], MEMREF_INPUT (replicate 32 9), MEMREF_INOUT (replicate 200 0), PARAM_NONE]
      sample_service tee_start = Some (TEE_SUCCESS, Some (quote_bytes q), t') \<and> wf_quote q \<and>
    q_anchor q = replicate 32 9"
  using pta_quote_genuine [OF ready_sample crypto_ok_sample ecc_ok_sample,
      of "fst (sample_key_of [7])" "fst (snd (sample_key_of [7]))" "snd (snd (sample_key_of [7]))" sample_service
        "replicate 32 9" "replicate 200 0" "[1, 2]" tee_start] sample_service_up
  by auto

text \<open>
  C26. The command that makes a quote trusts the sizes its caller gives: for an anchor of fewer than 32 bytes it reads
  past the end of the anchor, and for a buffer smaller than a quote it writes past the end of the buffer.
\<close>

theorem pta_quote_overruns:
  assumes "ready C" "crypto_ok C" "ecc_ok (e_prims C)" "service_up C (d, x, y) p"
    "length anchor < RA_ANCHOR_SIZE \<or> length anchor = RA_ANCHOR_SIZE \<and> length buf < sizeof_ra_quote"
  shows "pta_invoke_command C ATTESTATION_CMD_GEN_QUOTE
      [MEMREF_INPUT claim, MEMREF_INPUT anchor, MEMREF_INOUT buf, PARAM_NONE] p t = None"
proof (cases "length anchor < RA_ANCHOR_SIZE")
  case True
  then show ?thesis by (simp add: pta_invoke_command_def generate_quote_def rd_def)
next
  case False
  with assms(5) have len: "length anchor = RA_ANCHOR_SIZE" "length buf < sizeof_ra_quote" by auto
  show ?thesis
    by (rule generate_quote_signed [OF assms(1-4) len(1), of claim t])
      (use len(2) in \<open>simp add: pta_invoke_command_def wr_def length_quote_bytes\<close>)
qed

theorem pta_quote_overruns_witness:
  "pta_invoke_command sample_env ATTESTATION_CMD_GEN_QUOTE
      [MEMREF_INPUT [1, 2], MEMREF_INPUT (replicate 32 9), MEMREF_INOUT (replicate 199 0), PARAM_NONE]
      sample_service tee_start = None"
  using pta_quote_overruns [OF ready_sample crypto_ok_sample ecc_ok_sample,
      of "fst (sample_key_of [7])" "fst (snd (sample_key_of [7]))" "snd (snd (sample_key_of [7]))" sample_service
        "replicate 32 9" "replicate 199 0" "[1, 2]" tee_start] sample_service_up
  by simp

text \<open>The prints of the loop all stay within the buffer.\<close>

lemma print_loop_total:
  "cursor + 3 * length bs \<le> length buf \<Longrightarrow>
     \<exists>buf'. print_loop buf (length buf) cursor bs = Some (buf', cursor + 3 * length bs) \<and> length buf' = length buf"
proof (induction bs arbitrary: buf cursor)
  case (Cons b bs)
  have "\<exists>buf1. snprintf_byte buf cursor (length buf - cursor) b = Some buf1"
    using Cons.prems by (simp add: snprintf_byte_def wr_def min_def) linarith
  then obtain buf1 where buf1: "snprintf_byte buf cursor (length buf - cursor) b = Some buf1" ..
  with Cons.IH [of "cursor + 3" buf1] Cons.prems snprintf_byte_length [OF buf1] show ?case by (simp add: add.assoc)
qed simp

text \<open>
  C27. The routine of the kernel that prints a byte array writes exactly one byte past the end of its buffer, for
  every input: the buffer has three bytes for each byte to print, the prints of the loop stay within it and end
  at its end, and the terminating zero is then written behind it. A buffer with one more byte would hold it.
\<close>

theorem utils_print_byte_array_overruns:
  "(\<exists>buf. print_loop (replicate (2 * length bs + length bs) 0) (2 * length bs + length bs) 0 bs = Some (buf, length buf) \<and>
      length buf = 2 * length bs + length bs \<and> wr buf (length buf) [0] = None \<and>
      (\<forall>x. wr (buf @ [x]) (length buf) [0] = Some (buf @ [0]))) \<and>
   utils_print_byte_array bs = None"
proof -
  let ?n = "2 * length bs + length bs"
  obtain buf where "print_loop (replicate ?n 0) ?n 0 bs = Some (buf, length buf)" "length buf = ?n"
    using print_loop_total [of 0 bs "replicate ?n 0"] by auto
  moreover from this have "wr buf (length buf) [0] = None" "\<forall>x. wr (buf @ [x]) (length buf) [0] = Some (buf @ [0])"
    by (simp_all add: wr_def)
  ultimately show ?thesis by (auto simp: utils_print_byte_array_def Let_def)
qed

end
