(* ===== verification/Ra_Keys.thy ===== *)
theory Ra_Keys
  imports Attestation_Service
begin

text \<open>
  The key schedule of the protocol. The attester (\<^verbatim>\<open>remote_attestation.c\<close>) and the verifier (\<^verbatim>\<open>verifier.c\<close>) have
  the same functions to generate a P-256 key pair, to derive the key derivation key from the shared secret and to
  derive the message authentication and session keys from it; they differ in the structure the handles and the
  remote key come from. The functions here take these as arguments.

  A function that jumps to its label \<^verbatim>\<open>out\<close> before a local handle is assigned frees a handle that was never
  assigned: what happens then is not defined, and the value is \<open>None\<close>.
\<close>

section \<open>Definitions\<close>

text \<open>The two halves of \<^verbatim>\<open>generate_ecdh_keypair\<close> and \<^verbatim>\<open>generate_ecdsa_keypair\<close>: the result and the handle if the object
  was allocated; then the public key with the coordinates and sizes the calls wrote into it.\<close>

definition generate_p256_keypair ::
    "env \<Rightarrow> nat \<Rightarrow> 'a tee_scheme \<Rightarrow> (TEE_Result \<times> nat option \<times> 'a tee_scheme) option" where
  "generate_p256_keypair C ty t = do {
     (r, t) \<leftarrow> TEE_AllocateTransientObject C ty RA_ECDH_KEY_SIZE t;
     (case r of
        Inl e \<Rightarrow> Some (e, None, t)
      | Inr h \<Rightarrow> do {
          curve_attr \<leftarrow> TEE_InitValueAttribute TEE_ATTR_ECC_CURVE TEE_ECC_CURVE_NIST_P256 4;
          (res, t) \<leftarrow> TEE_GenerateKey C h RA_ECDH_KEY_SIZE [curve_attr] t;
          Some (res, Some h, t)
        })
   }"

definition extract_public_key :: "env \<Rightarrow> nat \<Rightarrow> pubkey \<Rightarrow> 'a tee_scheme \<Rightarrow> (TEE_Result \<times> pubkey) option" where
  "extract_public_key C h pk t = do {
     (res, n, out) \<leftarrow> TEE_GetObjectBufferAttribute C h TEE_ATTR_ECC_PUBLIC_VALUE_X (x_size pk) t;
     let pk = pk\<lparr>x_raw := fill out (x_raw pk), x_size := n\<rparr>;
     if res \<noteq> TEE_SUCCESS then Some (res, pk)
     else do {
       (res, n, out) \<leftarrow> TEE_GetObjectBufferAttribute C h TEE_ATTR_ECC_PUBLIC_VALUE_Y (y_size pk) t;
       let pk = pk\<lparr>y_raw := fill out (y_raw pk), y_size := n\<rparr>;
       Some (res, pk)
     }
   }"

text \<open>\<^verbatim>\<open>derive_shared_key\<close>: the result and the handle of the key derivation key if the object was allocated. The
  operation handle of the key agreement is overwritten by that of the code and is not freed.\<close>

definition derive_shared_key_out ::
    "nat \<Rightarrow> nat \<Rightarrow> nat \<Rightarrow> TEE_Result \<Rightarrow> nat option \<Rightarrow> 'a tee_scheme \<Rightarrow> (TEE_Result \<times> nat option \<times> 'a tee_scheme) option" where
  "derive_shared_key_out aes_cmac_key operation shared_secret res kdk t = do {
     t \<leftarrow> TEE_FreeTransientObject aes_cmac_key t;
     t \<leftarrow> TEE_FreeOperation operation t;
     t \<leftarrow> TEE_FreeTransientObject shared_secret t;
     Some (res, kdk, t)
   }"

text \<open>The second half, from the shared secret to the key derivation key.\<close>

definition derive_kdk ::
    "env \<Rightarrow> nat \<Rightarrow> nat \<Rightarrow> bytes \<Rightarrow> 'a tee_scheme \<Rightarrow> (TEE_Result \<times> nat option \<times> 'a tee_scheme) option" where
  "derive_kdk C operation secret shared_secret_raw t = do {
     t \<leftarrow> TEE_ResetOperation C operation t;
     aes_cmac_key_attr \<leftarrow> TEE_InitRefAttribute TEE_ATTR_SECRET_VALUE (replicate 16 0);
     (r, t) \<leftarrow> TEE_AllocateTransientObject C TEE_TYPE_AES RA_AES_CMAC_KEY_SIZE t;
     (case r of
        Inl e \<Rightarrow> None
      | Inr key \<Rightarrow> do {
          (res, t) \<leftarrow> TEE_PopulateTransientObject C key [aes_cmac_key_attr] t;
          if res \<noteq> TEE_SUCCESS then derive_shared_key_out key operation secret res None t
          else do {
            (r, t) \<leftarrow> TEE_AllocateOperation C TEE_ALG_AES_CMAC TEE_MODE_MAC RA_AES_CMAC_KEY_SIZE t;
            (case r of
               Inl e \<Rightarrow> derive_shared_key_out key operation secret e None t
             | Inr operation \<Rightarrow> do {
                 (res, t) \<leftarrow> TEE_SetOperationKey C operation key t;
                 if res \<noteq> TEE_SUCCESS then derive_shared_key_out key operation secret res None t
                 else do {
                   t \<leftarrow> TEE_MACInit C operation t;
                   (res, mac, mac_size, t) \<leftarrow> TEE_MACComputeFinal C operation shared_secret_raw 16 t;
                   if res \<noteq> TEE_SUCCESS then derive_shared_key_out key operation secret res None t
                   else do {
                     (r, t) \<leftarrow> TEE_AllocateTransientObject C TEE_TYPE_AES RA_AES_CMAC_KEY_SIZE t;
                     (case r of
                        Inl e \<Rightarrow> derive_shared_key_out key operation secret e None t
                      | Inr kdk \<Rightarrow> do {
                          mac_attr \<leftarrow> TEE_InitRefAttribute TEE_ATTR_SECRET_VALUE (take mac_size mac);
                          (res, t) \<leftarrow> TEE_PopulateTransientObject C kdk [mac_attr] t;
                          derive_shared_key_out key operation secret res (Some kdk) t
                        })
                   }
                 }
               })
          }
        })
   }"

definition derive_shared_key ::
    "env \<Rightarrow> nat \<Rightarrow> TEE_Attribute list \<Rightarrow> 'a tee_scheme \<Rightarrow> (TEE_Result \<times> nat option \<times> 'a tee_scheme) option" where
  "derive_shared_key C keypair public_key t = do {
     (r, t) \<leftarrow> TEE_AllocateOperation C TEE_ALG_ECDH_P256 TEE_MODE_DERIVE RA_ECDH_KEY_SIZE t;
     (case r of
        Inl e \<Rightarrow> None
      | Inr operation \<Rightarrow> do {
          (res, t) \<leftarrow> TEE_SetOperationKey C operation keypair t;
          if res \<noteq> TEE_SUCCESS then None
          else do {
            (r, t) \<leftarrow> TEE_AllocateTransientObject C TEE_TYPE_GENERIC_SECRET RA_ECDH_KEY_SIZE t;
            (case r of
               Inl e \<Rightarrow> None
             | Inr secret \<Rightarrow> do {
                 t \<leftarrow> TEE_DeriveKey C operation public_key secret t;
                 (res, shared_secret_size, out) \<leftarrow>
                   TEE_GetObjectBufferAttribute C secret TEE_ATTR_SECRET_VALUE 32 t;
                 if res \<noteq> TEE_SUCCESS then Some (res, None, t)
                 else do { shared_secret_raw \<leftarrow> out; derive_kdk C operation secret shared_secret_raw t }
               })
          }
        })
   }"

text \<open>\<^verbatim>\<open>derive_shared_mac_key\<close>: the key derived from the key derivation key with some constant data.\<close>

definition derive_shared_mac_key_out ::
    "nat \<Rightarrow> nat \<Rightarrow> TEE_Result \<Rightarrow> nat option \<Rightarrow> 'a tee_scheme \<Rightarrow> (TEE_Result \<times> nat option \<times> 'a tee_scheme) option" where
  "derive_shared_mac_key_out aes_cmac_op key res output t = do {
     t \<leftarrow> TEE_FreeOperation aes_cmac_op t;
     t \<leftarrow> TEE_FreeTransientObject key t;
     Some (res, output, t)
   }"

definition derive_shared_mac_key ::
    "env \<Rightarrow> nat \<Rightarrow> bytes \<Rightarrow> 'a tee_scheme \<Rightarrow> (TEE_Result \<times> nat option \<times> 'a tee_scheme) option" where
  "derive_shared_mac_key C kdk data t = do {
     (r, t) \<leftarrow> TEE_AllocateTransientObject C TEE_TYPE_AES RA_AES_CMAC_KEY_SIZE t;
     (case r of
        Inl e \<Rightarrow> None
      | Inr key \<Rightarrow> do {
          (res, shared_secret_size, out) \<leftarrow> TEE_GetObjectBufferAttribute C kdk TEE_ATTR_SECRET_VALUE 32 t;
          if res \<noteq> TEE_SUCCESS then None
          else do {
            shared_secret \<leftarrow> out;
            aes_key_attr \<leftarrow> TEE_InitRefAttribute TEE_ATTR_SECRET_VALUE shared_secret;
            (res, t) \<leftarrow> TEE_PopulateTransientObject C key [aes_key_attr] t;
            if res \<noteq> TEE_SUCCESS then None
            else do {
              (r, t) \<leftarrow> TEE_AllocateOperation C TEE_ALG_AES_CMAC TEE_MODE_MAC RA_AES_CMAC_KEY_SIZE t;
              (case r of
                 Inl e \<Rightarrow> None
               | Inr operation \<Rightarrow> do {
                   (res, t) \<leftarrow> TEE_SetOperationKey C operation key t;
                   if res \<noteq> TEE_SUCCESS then derive_shared_mac_key_out operation key res None t
                   else do {
                     t \<leftarrow> TEE_MACInit C operation t;
                     (res, mac, mac_size, t) \<leftarrow> TEE_MACComputeFinal C operation data 16 t;
                     if res \<noteq> TEE_SUCCESS then derive_shared_mac_key_out operation key res None t
                     else do {
                       (r, t) \<leftarrow> TEE_AllocateTransientObject C TEE_TYPE_AES RA_AES_CMAC_KEY_SIZE t;
                       (case r of
                          Inl e \<Rightarrow> derive_shared_mac_key_out operation key e None t
                        | Inr output \<Rightarrow> do {
                            mac_attr \<leftarrow> TEE_InitRefAttribute TEE_ATTR_SECRET_VALUE (take mac_size mac);
                            (res, t) \<leftarrow> TEE_PopulateTransientObject C output [mac_attr] t;
                            derive_shared_mac_key_out operation key res (Some output) t
                          })
                     }
                   }
                 })
            }
          }
        })
   }"

text \<open>The digest of four byte strings, in the calls of the functions that sign, verify and make anchors: the result,
  the handle of the operation, the digest and its length. When the operation is not allocated its handle is not
  assigned.\<close>

definition digest4 ::
    "env \<Rightarrow> nat \<Rightarrow> bytes \<Rightarrow> bytes \<Rightarrow> bytes \<Rightarrow> bytes \<Rightarrow> 'a tee_scheme \<Rightarrow> (TEE_Result \<times> nat \<times> bytes \<times> nat \<times> 'a tee_scheme) option" where
  "digest4 C room a b c d t = do {
     (r, t) \<leftarrow> TEE_AllocateOperation C TEE_ALG_SHA256 TEE_MODE_DIGEST 0 t;
     (case r of
        Inl e \<Rightarrow> None
      | Inr operation \<Rightarrow> do {
          t \<leftarrow> TEE_DigestUpdate operation a t;
          t \<leftarrow> TEE_DigestUpdate operation b t;
          t \<leftarrow> TEE_DigestUpdate operation c t;
          (res, digest, digest_len, t) \<leftarrow> TEE_DigestDoFinal C operation d room t;
          Some (res, operation, digest, digest_len, t)
        })
   }"

text \<open>The verification of the signature over such a digest by a public key, as \<^verbatim>\<open>verify_ecdh_public_key_signature\<close> and
  \<^verbatim>\<open>verify_quote_signature\<close> make it; \<open>dump\<close> is what the caller does with the digest when the signature is invalid. The
  handle of the digest operation is overwritten and not freed.\<close>

definition verify_digest4 ::
    "env \<Rightarrow> nat \<Rightarrow> bytes \<Rightarrow> bytes \<Rightarrow> bytes \<Rightarrow> bytes \<Rightarrow> bytes \<Rightarrow> (bytes \<Rightarrow> unit option) \<Rightarrow> 'a tee_scheme \<Rightarrow>
     (TEE_Result \<times> 'a tee_scheme) option" where
  "verify_digest4 C key a b c d sig dump t = do {
     (res, operation, digest, digest_len, t) \<leftarrow> digest4 C RA_HASH_SIZE a b c d t;
     if res \<noteq> TEE_SUCCESS then do { t \<leftarrow> TEE_FreeOperation operation t; Some (res, t) }
     else if digest_len \<noteq> RA_HASH_SIZE div 8
     then do { t \<leftarrow> TEE_FreeOperation operation t; Some (TEE_ERROR_GENERIC, t) }
     else do {
       t \<leftarrow> TEE_ResetOperation C operation t;
       (r, t) \<leftarrow> TEE_AllocateOperation C TEE_ALG_ECDSA_P256 TEE_MODE_VERIFY RA_ECDSA_KEY_SIZE t;
       (case r of
          Inl e \<Rightarrow> do { t \<leftarrow> TEE_FreeOperation operation t; Some (e, t) }
        | Inr operation \<Rightarrow> do {
            (res, t) \<leftarrow> TEE_SetOperationKey C operation key t;
            if res \<noteq> TEE_SUCCESS then do { t \<leftarrow> TEE_FreeOperation operation t; Some (res, t) }
            else do {
              (res, t) \<leftarrow> TEE_AsymmetricVerifyDigest C operation [] (take digest_len digest) sig t;
              _ \<leftarrow> (if res = TEE_ERROR_SIGNATURE_INVALID then dump (take digest_len digest) else Some ());
              t \<leftarrow> TEE_FreeOperation operation t;
              Some (res, t)
            }
          })
     }
   }"

section \<open>Runs\<close>

text \<open>A later state of the same device: the addresses in use keep what they hold, and the rest of the world is the
  same.\<close>

definition tee_ext :: "'a tee_scheme \<Rightarrow> 'a tee_scheme \<Rightarrow> bool" where
  "tee_ext t t' \<longleftrightarrow>
     wf_tee t' \<and> tick t \<le> tick t' \<and> tee.more t' = tee.more t \<and>
     (\<forall>a \<le> tick t. objs t' a = objs t a \<and> states t' a = states t a \<and> opers t' a = opers t a)"

lemma tee_ext_refl [simp]: "tee_ext t t \<longleftrightarrow> wf_tee t"
  by (simp add: tee_ext_def)

lemma tee_ext_trans [trans]: "tee_ext t t' \<Longrightarrow> tee_ext t' t'' \<Longrightarrow> tee_ext t t''"
  by (auto simp: tee_ext_def)

lemma tee_extD:
  assumes "tee_ext t t'"
  shows "wf_tee t'" "tick t \<le> tick t'" "tee.more t' = tee.more t"
  using assms by (simp_all add: tee_ext_def)

lemma wf_obj_bound: "wf_tee t \<Longrightarrow> objs t a = Some ob \<Longrightarrow> 0 < a \<and> a \<le> tick t"
  using wf_tee_bound [of t a] by auto

lemma tee_ext_obj:
  assumes "tee_ext t t'" "wf_tee t" "objs t a = Some ob"
  shows "objs t' a = Some ob" "a \<noteq> 0" "a \<le> tick t"
proof -
  have "0 < a \<and> a \<le> tick t" using wf_obj_bound assms(2,3) by blast
  then show "objs t' a = Some ob" "a \<noteq> 0" "a \<le> tick t" using assms by (auto simp: tee_ext_def)
qed

lemma wf_tee_iff: "wf_tee t \<longleftrightarrow> (\<forall>a. a = 0 \<or> tick t < a \<longrightarrow> objs t a = None \<and> states t a = None \<and> opers t a = None)"
proof -
  have "wf_tee t \<longleftrightarrow> (\<forall>a. \<not> (0 < a \<and> a \<le> tick t) \<longrightarrow> a \<notin> dom (objs t) \<and> a \<notin> dom (states t) \<and> a \<notin> dom (opers t))"
    unfolding wf_tee_def by (auto simp: subset_iff Suc_le_eq)
  also have "\<dots> \<longleftrightarrow> (\<forall>a. a = 0 \<or> tick t < a \<longrightarrow> objs t a = None \<and> states t a = None \<and> opers t a = None)"
    by (simp add: domIff not_le)
  finally show ?thesis .
qed

lemma tee_extI:
  assumes "wf_tee t" "tick t \<le> tick t'" "tee.more t' = tee.more t"
    "\<And>a. a \<le> tick t \<Longrightarrow> objs t' a = objs t a" "\<And>a. a \<le> tick t \<Longrightarrow> states t' a = states t a"
    "\<And>a. a \<le> tick t \<Longrightarrow> opers t' a = opers t a"
    "\<And>a. tick t' < a \<Longrightarrow> objs t' a = objs t a" "\<And>a. tick t' < a \<Longrightarrow> states t' a = states t a"
    "\<And>a. tick t' < a \<Longrightarrow> opers t' a = opers t a"
  shows "tee_ext t t'"
proof -
  have "objs t' a = None \<and> states t' a = None \<and> opers t' a = None" if "a = 0 \<or> tick t' < a" for a
  proof (cases "a = 0")
    case True
    then show ?thesis using assms(1,4-6) by simp
  next
    case False
    then have "tick t' < a" "tick t < a" using that assms(2) by simp_all
    then show ?thesis using assms(7-9) wf_tee_fresh [OF assms(1)] by simp
  qed
  then show ?thesis using assms(2-6) unfolding tee_ext_def wf_tee_iff by simp
qed

text \<open>The verdict of the library on a signature.\<close>

definition ecdsa_status :: "env \<Rightarrow> nat \<Rightarrow> nat \<Rightarrow> bytes \<Rightarrow> bytes \<Rightarrow> TEE_Result" where
  "ecdsa_status C x y digest sig =
     convert_ltc_verify_status (p_ecc_verify_hash (e_prims C) TEE_ECC_CURVE_NIST_P256 (x, y) digest sig)"

lemma digest4_run:
  assumes "ready C" "crypto_ok C" "32 \<le> room"
  shows "digest4 C room a b c d t =
    Some (TEE_SUCCESS, tick t + 1, sha256 C (a @ b @ c @ d), 32,
      t\<lparr>tick := tick t + 3,
        states := (states t)(tick t + 2 \<mapsto>
          (new_state TEE_ALG_SHA256 TEE_MODE_DIGEST 0 (HashCtx (Some [])))\<lparr>cs_init := True\<rparr>),
        opers := (opers t)(tick t + 1 \<mapsto>
          new_oper TEE_ALG_SHA256 TEE_OPERATION_DIGEST TEE_MODE_DIGEST 32 0 0 {HF_INITIALIZED, HF_KEY_SET} 0 (tick t + 2))\<rparr>)"
  using assms by (simp add: digest4_def api_simps) (simp add: new_oper_def new_state_def)

lemma verify_digest4_run:
  assumes "ready C" "crypto_ok C" "wf_tee t" "objs t key = Some (p256_public TEE_TYPE_ECDSA_PUBLIC_KEY x y)"
    "length sig = 64"
  obtains t' where "tee_ext t t'"
    "verify_digest4 C key a b c d sig dump t =
      (let digest = sha256 C (a @ b @ c @ d); res = ecdsa_status C x y digest sig
       in if res = TEE_ERROR_GENERIC then None
          else do { _ \<leftarrow> (if res = TEE_ERROR_SIGNATURE_INVALID then dump digest else Some ()); Some (res, t') })"
proof -
  have k: "0 < key" "key \<le> tick t" using wf_obj_bound assms(3,4) by blast+
  define t' where "t' = t\<lparr>tick := 10 + tick t, objs := (objs t)(5 + tick t := None),
    states := (states t)(Suc (Suc (tick t)) \<mapsto>
      (new_state TEE_ALG_SHA256 TEE_MODE_DIGEST 0 (HashCtx (Some [])))\<lparr>cs_ctx := HashCtx (Some []), cs_init := True\<rparr>,
      9 + tick t := None),
    opers := (opers t)(Suc (tick t) \<mapsto>
      (new_oper TEE_ALG_SHA256 TEE_OPERATION_DIGEST TEE_MODE_DIGEST 32 0 0 {HF_INITIALIZED, HF_KEY_SET} 0 (Suc (Suc (tick t))))
      \<lparr>op_operationState := OPERATION_STATE_INITIAL, op_handleState := {HF_INITIALIZED, HF_KEY_SET}\<rparr>,
      4 + tick t := None)\<rparr>"
  have "verify_digest4 C key a b c d sig dump t =
      (let digest = sha256 C (a @ b @ c @ d); res = ecdsa_status C x y digest sig
       in if res = TEE_ERROR_GENERIC then None
          else do { _ \<leftarrow> (if res = TEE_ERROR_SIGNATURE_INVALID then dump digest else Some ()); Some (res, t') })"
    using assms k by (simp add: verify_digest4_def digest4_run api_simps Let_def ecdsa_status_def flip: t'_def)
  moreover have "tee_ext t t'" by (rule tee_extI) (simp_all add: assms(3) t'_def)
  ultimately show ?thesis by (rule that [of t', rotated])
qed

text \<open>A public key in a message: the coordinates without leading zeros, and nothing else in use.\<close>

definition pub_is :: "nat \<Rightarrow> nat \<Rightarrow> pubkey \<Rightarrow> bool" where
  "pub_is x y pk \<longleftrightarrow> wf_pubkey pk \<and> x_of pk = Some (bytes_of_bn x) \<and> y_of pk = Some (bytes_of_bn y)"

lemma generate_p256_keypair_run:
  assumes "ready C" "ecc_ok (e_prims C)" "wf_tee t" "ty \<in> {TEE_TYPE_ECDSA_KEYPAIR, TEE_TYPE_ECDH_KEYPAIR}"
  obtains d x y h t' where "p256_pair (e_prims C) (d, x, y)" "tee_ext t t'"
    "generate_p256_keypair C ty t = Some (TEE_SUCCESS, Some h, t')" "objs t' h = Some (p256_keypair ty d x y)"
proof -
  obtain d x y where k: "p256_make C (Suc (tick t + 5)) (d, x, y)" "p256_pair (e_prims C) (d, x, y)"
    using assms(2) by (rule ecc_ok_make)
  show ?thesis
  proof (rule that [OF k(2)])
    show "generate_p256_keypair C ty t = Some (TEE_SUCCESS, Some (tick t + 1),
        t\<lparr>tick := tick t + 7, objs := (objs t)(tick t + 1 \<mapsto> p256_keypair ty d x y)\<rparr>)"
      using assms k(1) by (simp add: generate_p256_keypair_def TEE_InitValueAttribute_def api_simps tee_obj_add_def)
  qed (rule tee_extI, simp_all add: assms(3))
qed

lemma pub_is_bound: "n < 2 ^ 256 \<Longrightarrow> length (bytes_of_bn n) \<le> 32"
  using length_bytes_of_bn_le_iff [of n 32] by simp

lemma rd_fill [simp]:
  assumes "n < 2 ^ 256" "length buf = 32"
  shows "rd (fill (bn_out n) buf) (length (bytes_of_bn n)) = Some (bytes_of_bn n)" "length (fill (bn_out n) buf) = 32"
  using assms pub_is_bound [OF assms(1)] by (auto simp: fill_def bn_out_def rd_def)

lemma extract_public_key_run:
  assumes "objs t h = Some (p256_keypair ty d x y)" "ty \<in> {TEE_TYPE_ECDSA_KEYPAIR, TEE_TYPE_ECDH_KEYPAIR}"
    "length (x_raw pk) = 32" "length (y_raw pk) = 32" "x_size pk = 32" "y_size pk = 32" "x < 2 ^ 256" "y < 2 ^ 256"
  obtains pk' where "extract_public_key C h pk t = Some (TEE_SUCCESS, pk')" "pub_is x y pk'"
proof -
  let ?pk = "pk\<lparr>x_raw := fill (bn_out x) (x_raw pk), x_size := length (bytes_of_bn x),
    y_raw := fill (bn_out y) (y_raw pk), y_size := length (bytes_of_bn y)\<rparr>"
  have "extract_public_key C h pk t = Some (TEE_SUCCESS, ?pk)"
    using assms by (simp add: extract_public_key_def api_simps)
  moreover have "pub_is x y ?pk"
    using assms(3-8) pub_is_bound [of x] pub_is_bound [of y] by (simp add: pub_is_def wf_pubkey_def x_of_def y_of_def)
  ultimately show ?thesis by (rule that)
qed

text \<open>The key derivation key of a shared secret, and the keys derived from it.\<close>

definition kdk_of :: "env \<Rightarrow> bytes \<Rightarrow> bytes" where
  "kdk_of C s = cmac C (replicate 16 0) s"

definition mac_key_of :: "env \<Rightarrow> bytes \<Rightarrow> bytes" where
  "mac_key_of C s = cmac C (kdk_of C s) RA_SHARED_MAC_DATA"

definition session_key_of :: "env \<Rightarrow> bytes \<Rightarrow> bytes" where
  "session_key_of C s = cmac C (kdk_of C s) RA_SHARED_SESSION_DATA"

lemma length_keys [simp]:
  assumes "crypto_ok C"
  shows "length (kdk_of C s) = 16" "length (mac_key_of C s) = 16" "length (session_key_of C s) = 16"
  using assms by (simp_all add: kdk_of_def mac_key_of_def session_key_of_def)

lemma derive_shared_key_run:
  assumes "ready C" "crypto_ok C" "wf_tee t" "objs t h = Some (p256_keypair TEE_TYPE_ECDH_KEYPAIR d x y)"
    "length px \<le> 66" "length py \<le> 66"
    "p_ecc_shared_secret (e_prims C) TEE_ECC_CURVE_NIST_P256 d (bn_of_bytes px, bn_of_bytes py) = Some s"
    "length s \<le> 32"
  shows "\<exists>kdk t'. derive_shared_key C h [RefAttr TEE_ATTR_ECC_PUBLIC_VALUE_X px, RefAttr TEE_ATTR_ECC_PUBLIC_VALUE_Y py] t =
      Some (TEE_SUCCESS, Some kdk, t') \<and> tee_ext t t' \<and> objs t' kdk = Some (aes_key (kdk_of C s))"
proof -
  have k: "0 < h" "h \<le> tick t" using wf_obj_bound assms(3,4) by blast+
  show ?thesis
    using assms k
    by (simp add: derive_shared_key_def derive_kdk_def derive_shared_key_out_def TEE_InitRefAttribute_def api_simps
      tee_obj_add_def kdk_of_def) (rule tee_extI, simp_all)
qed

lemma derive_shared_mac_key_run:
  assumes "ready C" "crypto_ok C" "wf_tee t" "objs t kdk = Some (aes_key k)" "length k = 16"
  shows "\<exists>out t'. derive_shared_mac_key C kdk data t = Some (TEE_SUCCESS, Some out, t') \<and> tee_ext t t' \<and>
      objs t' out = Some (aes_key (cmac C k data))"
proof -
  have k: "0 < kdk" "kdk \<le> tick t" using wf_obj_bound assms(3,4) by blast+
  show ?thesis
    using assms k
    by (simp add: derive_shared_mac_key_def derive_shared_mac_key_out_def TEE_InitRefAttribute_def api_simps
      tee_obj_add_def) (rule tee_extI, simp_all)
qed

text \<open>The library returns shared secrets of at most 32 bytes for this curve, whatever the public key.\<close>

definition secrets_fit :: "env \<Rightarrow> bool" where
  "secrets_fit C \<longleftrightarrow> (\<forall>d p s. p_ecc_shared_secret (e_prims C) TEE_ECC_CURVE_NIST_P256 d p = Some s \<longrightarrow> length s \<le> 32)"

lemma derive_shared_key_panics:
  assumes "ready C" "crypto_ok C" "wf_tee t" "objs t h = Some (p256_keypair TEE_TYPE_ECDH_KEYPAIR d x y)"
    "length px \<le> 66" "length py \<le> 66"
    "p_ecc_shared_secret (e_prims C) TEE_ECC_CURVE_NIST_P256 d (bn_of_bytes px, bn_of_bytes py) = None"
  shows "derive_shared_key C h [RefAttr TEE_ATTR_ECC_PUBLIC_VALUE_X px, RefAttr TEE_ATTR_ECC_PUBLIC_VALUE_Y py] t = None"
proof -
  have k: "0 < h" "h \<le> tick t" using wf_obj_bound assms(3,4) by blast+
  show ?thesis
    using assms k
    by (simp add: derive_shared_key_def api_simps tee_obj_add_def) (simp add: TEE_DeriveKey_def syscall_cryp_obj_get_info_def tee_obj_get_def syscall_cryp_derive_key_def
    tee_svc_cryp_get_state_def derive_secret_def derive_ecdh_def ecdh_alloc_size_def
    crypto_asym_alloc_ecc_public_key_def ecc_public_ops_of_def bin2bn_into_def crypto_bignum_bin2bn_def no_oom_mpi
    ltc_ecc_shared_secret_def set_attribute_def OBJ_PROP_def attr_tables TA_def
    tee_svc_cryp_obj_find_type_attr_idx_def new_obj_def key_obj_def numeral_eq_Suc_small)
qed

end
