(* ===== verification/Tee_Session.thy ===== *)
theory Tee_Session
  imports Ra_Keys
begin

text \<open>
  Sessions between trusted applications: the session manager of the kernel (\<^verbatim>\<open>tee_ta_manager.c\<close>) for pseudo trusted
  applications (\<^verbatim>\<open>pseudo_ta.c\<close>), the system calls of a user trusted application that reach it (\<^verbatim>\<open>tee_svc.c\<close>) and the
  functions of the client library on top of them (\<^verbatim>\<open>tee_api.c\<close>).

  The state is that of one user trusted application that calls: its open sessions and the list of contexts, both in
  list order, with the address of each element. There is one thread: a wait for a condition that no other thread
  will make true does not return, and has the value \<open>None\<close>, as have failed assertions and panics. Parameters are
  passed by value, the mapping of memory references is taken to succeed. A pseudo trusted application is a record of
  its entry points, as in the table the linker collects; what happens to a UUID that is in no such table (a secure
  partition or a user trusted application) is a parameter.
\<close>

section \<open>Data\<close>

type_synonym TEE_UUID = "nat \<times> nat \<times> nat \<times> bytes"

datatype ta_flag =
    TA_FLAG_SINGLE_INSTANCE
  | TA_FLAG_MULTI_SESSION
  | TA_FLAG_INSTANCE_KEEP_ALIVE
  | TA_FLAG_SECURE_DATA_PATH
  | TA_FLAG_CACHE_MAINTENANCE
  | TA_FLAG_CONCURRENT
  | TA_FLAG_DEVICE_ENUM
  | TA_FLAG_DEVICE_ENUM_SUPP

definition PTA_MANDATORY_FLAGS :: "ta_flag set" where
  "PTA_MANDATORY_FLAGS = {TA_FLAG_SINGLE_INSTANCE, TA_FLAG_MULTI_SESSION, TA_FLAG_INSTANCE_KEEP_ALIVE}"

definition PTA_ALLOWED_FLAGS :: "ta_flag set" where
  "PTA_ALLOWED_FLAGS = PTA_MANDATORY_FLAGS \<union> {TA_FLAG_SECURE_DATA_PATH, TA_FLAG_CONCURRENT, TA_FLAG_DEVICE_ENUM}"

datatype TEE_ErrorOrigin = TEE_ORIGIN_API | TEE_ORIGIN_COMMS | TEE_ORIGIN_TEE | TEE_ORIGIN_TRUSTED_APP

datatype TEE_Login = TEE_LOGIN_PUBLIC | TEE_LOGIN_USER | TEE_LOGIN_GROUP | TEE_LOGIN_APPLICATION | TEE_LOGIN_TRUSTED_APP

type_synonym TEE_Identity = "TEE_Login \<times> TEE_UUID"

datatype client = KERN_IDENTITY | NSAPP_IDENTITY | CLIENT TEE_Identity

text \<open>What a command leaves in a parameter: values, or the new size of a memory reference and the bytes written.\<close>

datatype out_param = OUT_NONE | OUT_VALUE nat nat | OUT_MEMREF nat bytes

record ta_ctx =
  c_uuid :: TEE_UUID
  c_flags :: "ta_flag set"
  c_panicked :: bool
  c_ref_count :: nat
  c_busy :: bool

record ta_session =
  s_id :: "32 word"
  s_ctx :: "nat option"
  s_user_ctx :: nat
  s_clnt_id :: TEE_Identity
  s_err_origin :: "TEE_ErrorOrigin option"
  s_cancel :: bool
  s_cancel_mask :: bool
  s_cancel_time :: "nat \<times> nat"
  s_ref_count :: nat
  s_locked :: bool
  s_unlink :: bool

record mgr = tee +
  tee_ctxes :: "(nat \<times> ta_ctx) list"
  open_sessions :: "(nat \<times> ta_session) list"
  single_instance_count :: nat

text \<open>\<^verbatim>\<open>struct pseudo_ta_head\<close>: the entry points that may be missing are optional.\<close>

record 's pseudo_ta =
  p_uuid :: TEE_UUID
  p_flags :: "ta_flag set"
  p_create :: "('s \<Rightarrow> (TEE_Result \<times> 's) option) option"
  p_destroy :: "('s \<Rightarrow> 's option) option"
  p_open :: "(tee_param list \<Rightarrow> 's \<Rightarrow> (TEE_Result \<times> out_param list \<times> nat \<times> 's) option) option"
  p_close :: "(nat \<Rightarrow> 's \<Rightarrow> 's option) option"
  p_invoke :: "nat \<Rightarrow> nat \<Rightarrow> tee_param list \<Rightarrow> 's \<Rightarrow> (TEE_Result \<times> out_param list \<times> 's) option"

text \<open>The kernel as the calling trusted application sees it: the table of pseudo trusted applications, the error for
  a UUID that is not in it, the system time and the UUID of the caller.\<close>

record 's kernel =
  k_ptas :: "'s pseudo_ta list"
  k_other :: "TEE_UUID \<Rightarrow> TEE_Result"
  k_time :: "nat \<Rightarrow> (nat \<times> nat) option"
  k_self :: TEE_UUID

text \<open>Elements of a list of addressed structures.\<close>

definition upd_at :: "nat \<Rightarrow> ('x \<Rightarrow> 'x) \<Rightarrow> (nat \<times> 'x) list \<Rightarrow> (nat \<times> 'x) list" where
  "upd_at a f xs = map (\<lambda>(b, x). (b, if b = a then f x else x)) xs"

definition del_at :: "nat \<Rightarrow> (nat \<times> 'x) list \<Rightarrow> (nat \<times> 'x) list" where
  "del_at a xs = filter (\<lambda>(b, x). b \<noteq> a) xs"

abbreviation ctx_at :: "nat \<Rightarrow> 'a mgr_scheme \<Rightarrow> ta_ctx option" where
  "ctx_at c s \<equiv> map_of (tee_ctxes s) c"

abbreviation sess_at :: "nat \<Rightarrow> 'a mgr_scheme \<Rightarrow> ta_session option" where
  "sess_at a s \<equiv> map_of (open_sessions s) a"

definition upd_ctx :: "nat \<Rightarrow> (ta_ctx \<Rightarrow> ta_ctx) \<Rightarrow> 'a mgr_scheme \<Rightarrow> 'a mgr_scheme" where
  "upd_ctx c f s = s\<lparr>tee_ctxes := upd_at c f (tee_ctxes s)\<rparr>"

definition upd_sess :: "nat \<Rightarrow> (ta_session \<Rightarrow> ta_session) \<Rightarrow> 'a mgr_scheme \<Rightarrow> 'a mgr_scheme" where
  "upd_sess a f s = s\<lparr>open_sessions := upd_at a f (open_sessions s)\<rparr>"

section \<open>The session manager\<close>

definition tee_ta_try_set_busy :: "nat \<Rightarrow> 'a mgr_scheme \<Rightarrow> (bool \<times> 'a mgr_scheme) option" where
  "tee_ta_try_set_busy c s = do {
     ctx \<leftarrow> ctx_at c s;
     if TA_FLAG_CONCURRENT \<in> c_flags ctx then Some (True, s)
     else do {
       let single = TA_FLAG_SINGLE_INSTANCE \<in> c_flags ctx;
       let s = (if single then s\<lparr>single_instance_count := single_instance_count s + 1\<rparr> else s);
       if single_instance_count s > 0
       then (if c_busy ctx
             then Some (False, if single then s\<lparr>single_instance_count := single_instance_count s - 1\<rparr> else s)
             else Some (True, upd_ctx c (\<lambda>x. x\<lparr>c_busy := True\<rparr>) s))
       else if c_busy ctx then None
       else Some (True, upd_ctx c (\<lambda>x. x\<lparr>c_busy := True\<rparr>) s)
     }
   }"

definition tee_ta_set_busy :: "nat \<Rightarrow> 'a mgr_scheme \<Rightarrow> 'a mgr_scheme option" where
  "tee_ta_set_busy c s = do { (rc, s) \<leftarrow> tee_ta_try_set_busy c s; require rc; Some s }"

definition tee_ta_clear_busy :: "nat \<Rightarrow> 'a mgr_scheme \<Rightarrow> 'a mgr_scheme option" where
  "tee_ta_clear_busy c s = do {
     ctx \<leftarrow> ctx_at c s;
     if TA_FLAG_CONCURRENT \<in> c_flags ctx then Some s
     else do {
       require (c_busy ctx);
       let s = upd_ctx c (\<lambda>x. x\<lparr>c_busy := False\<rparr>) s;
       if TA_FLAG_SINGLE_INSTANCE \<in> c_flags ctx
       then do {
         require (single_instance_count s > 0);
         Some (s\<lparr>single_instance_count := single_instance_count s - 1\<rparr>)
       }
       else Some s
     }
   }"

definition tee_ta_put_session :: "nat \<Rightarrow> 'a mgr_scheme \<Rightarrow> 'a mgr_scheme option" where
  "tee_ta_put_session a s = do {
     x \<leftarrow> sess_at a s;
     require (s_ref_count x > 0);
     Some (upd_sess a (\<lambda>x. x\<lparr>s_locked := False, s_ref_count := s_ref_count x - 1\<rparr>) s)
   }"

definition tee_ta_find_session :: "32 word \<Rightarrow> 'a mgr_scheme \<Rightarrow> nat option" where
  "tee_ta_find_session sid s = map_option fst (find (\<lambda>(a, x). s_id x = sid) (open_sessions s))"

text \<open>With one thread the lock of a session can only be held by the thread that asks for it: the assertion fails.\<close>

definition tee_ta_get_session :: "32 word \<Rightarrow> bool \<Rightarrow> 'a mgr_scheme \<Rightarrow> (nat option \<times> 'a mgr_scheme) option" where
  "tee_ta_get_session sid exclusive s =
     (case find (\<lambda>(a, x). s_id x = sid) (open_sessions s) of
        None \<Rightarrow> Some (None, s)
      | Some (a, x) \<Rightarrow>
          if s_unlink x then Some (None, s)
          else do {
            let s = upd_sess a (\<lambda>x. x\<lparr>s_ref_count := s_ref_count x + 1\<rparr>) s;
            if \<not> exclusive then Some (Some a, s)
            else do {
              require (\<not> s_locked x);
              Some (Some a, upd_sess a (\<lambda>x. x\<lparr>s_locked := True\<rparr>) s)
            }
          })"

definition tee_ta_unlink_session :: "nat \<Rightarrow> 'a mgr_scheme \<Rightarrow> 'a mgr_scheme option" where
  "tee_ta_unlink_session a s = do {
     x \<leftarrow> sess_at a s;
     require (s_ref_count x \<ge> 1 \<and> s_locked x \<and> \<not> s_unlink x);
     require (s_ref_count x = 1);
     Some (s\<lparr>open_sessions := del_at a (open_sessions s)\<rparr>)
   }"

definition destroy_session :: "nat \<Rightarrow> 'a mgr_scheme \<Rightarrow> 'a mgr_scheme option" where
  "destroy_session a s = tee_ta_unlink_session a s"

text \<open>\<^verbatim>\<open>destroy_ta_ctx_from_session\<close>: the context is removed and no session refers to it any more.\<close>

definition destroy_ta_ctx_from_session :: "nat \<Rightarrow> 'a mgr_scheme \<Rightarrow> 'a mgr_scheme option" where
  "destroy_ta_ctx_from_session a s = do {
     x \<leftarrow> sess_at a s;
     c \<leftarrow> s_ctx x;
     ctx \<leftarrow> ctx_at c s;
     let others = filter (\<lambda>(b, y). s_ctx y = Some c \<and> b \<noteq> a) (open_sessions s);
     require (1 + length others = c_ref_count ctx);
     Some (s\<lparr>tee_ctxes := del_at c (tee_ctxes s),
             open_sessions := map (\<lambda>(b, y). (b, if s_ctx y = Some c then y\<lparr>s_ctx := None\<rparr> else y)) (open_sessions s)\<rparr>)
   }"

definition tee_ta_context_find :: "TEE_UUID \<Rightarrow> 'a mgr_scheme \<Rightarrow> nat option" where
  "tee_ta_context_find uuid s = map_option fst (find (\<lambda>(c, x). c_uuid x = uuid) (tee_ctxes s))"

definition check_client :: "ta_session \<Rightarrow> client \<Rightarrow> TEE_Result" where
  "check_client x clnt =
     (case clnt of
        KERN_IDENTITY \<Rightarrow> TEE_SUCCESS
      | NSAPP_IDENTITY \<Rightarrow>
          if fst (s_clnt_id x) = TEE_LOGIN_TRUSTED_APP then TEE_ERROR_ACCESS_DENIED else TEE_SUCCESS
      | CLIENT i \<Rightarrow> if s_clnt_id x \<noteq> i then TEE_ERROR_ACCESS_DENIED else TEE_SUCCESS)"

abbreviation (input) UINT32_MAX :: nat where "UINT32_MAX \<equiv> 4294967295"
abbreviation (input) TEE_TIMEOUT_INFINITE :: nat where "TEE_TIMEOUT_INFINITE \<equiv> 4294967295"

text \<open>The time at which an invocation is cancelled.\<close>

definition invoke_deadline :: "(nat \<times> nat) option \<Rightarrow> nat \<Rightarrow> nat \<times> nat" where
  "invoke_deadline now cancel_req_to =
     (if cancel_req_to = TEE_TIMEOUT_INFINITE then (UINT32_MAX, UINT32_MAX)
      else case now of
        None \<Rightarrow> (UINT32_MAX, UINT32_MAX)
      | Some (sec, ms) \<Rightarrow>
          if sec + cancel_req_to div 1000 > UINT32_MAX then (UINT32_MAX, UINT32_MAX)
          else if ms + cancel_req_to mod 1000 > 1000
          then (if sec + 1 > UINT32_MAX then (UINT32_MAX, UINT32_MAX)
                else ((sec + 1 + 1) mod 2 ^ 32, ms + cancel_req_to mod 1000 - 1000))
          else (sec + cancel_req_to div 1000, ms + cancel_req_to mod 1000))"

definition set_invoke_timeout :: "('a mgr_scheme) kernel \<Rightarrow> nat \<Rightarrow> nat \<Rightarrow> 'a mgr_scheme \<Rightarrow> 'a mgr_scheme" where
  "set_invoke_timeout K a cancel_req_to s =
     upd_sess a (\<lambda>x. x\<lparr>s_cancel_time := invoke_deadline (k_time K (tick s)) cancel_req_to\<rparr>) s"

definition tee_ta_session_is_cancelled :: "ta_session \<Rightarrow> (nat \<times> nat) option \<Rightarrow> bool" where
  "tee_ta_session_is_cancelled x now =
     (if s_cancel_mask x then False
      else if s_cancel x then True
      else if fst (s_cancel_time x) = UINT32_MAX then False
      else case now of
        None \<Rightarrow> False
      | Some (sec, ms) \<Rightarrow>
          sec > fst (s_cancel_time x) \<or> (sec = fst (s_cancel_time x) \<and> ms \<ge> snd (s_cancel_time x)))"

subsection \<open>Pseudo trusted applications\<close>

definition pta_of :: "'s kernel \<Rightarrow> TEE_UUID \<Rightarrow> 's pseudo_ta option" where
  "pta_of K uuid = find (\<lambda>p. p_uuid p = uuid) (k_ptas K)"

definition pseudo_ta_enter_open_session ::
    "('a mgr_scheme) kernel \<Rightarrow> nat \<Rightarrow> tee_param list \<Rightarrow> 'a mgr_scheme \<Rightarrow> (TEE_Result \<times> out_param list \<times> 'a mgr_scheme) option" where
  "pseudo_ta_enter_open_session K a params s = do {
     x \<leftarrow> sess_at a s;
     c \<leftarrow> s_ctx x;
     ctx \<leftarrow> ctx_at c s;
     p \<leftarrow> pta_of K (c_uuid ctx);
     let s = upd_sess a (\<lambda>x. x\<lparr>s_err_origin := Some TEE_ORIGIN_TRUSTED_APP\<rparr>) s;
     (res, s) \<leftarrow> (case p_create p of
                   Some create \<Rightarrow> if c_ref_count ctx = 1 then create s else Some (TEE_SUCCESS, s)
                 | None \<Rightarrow> Some (TEE_SUCCESS, s));
     if res \<noteq> TEE_SUCCESS then Some (res, [], s)
     else (case p_open p of
             None \<Rightarrow> Some (TEE_SUCCESS, [], s)
           | Some opn \<Rightarrow> do {
               (res, out, user_ctx, s) \<leftarrow> opn params s;
               Some (res, out, upd_sess a (\<lambda>x. x\<lparr>s_user_ctx := user_ctx\<rparr>) s)
             })
   }"

definition pseudo_ta_enter_invoke_cmd ::
    "('a mgr_scheme) kernel \<Rightarrow> nat \<Rightarrow> nat \<Rightarrow> tee_param list \<Rightarrow> 'a mgr_scheme \<Rightarrow> (TEE_Result \<times> out_param list \<times> 'a mgr_scheme) option" where
  "pseudo_ta_enter_invoke_cmd K a cmd params s = do {
     x \<leftarrow> sess_at a s;
     c \<leftarrow> s_ctx x;
     ctx \<leftarrow> ctx_at c s;
     p \<leftarrow> pta_of K (c_uuid ctx);
     let s = upd_sess a (\<lambda>x. x\<lparr>s_err_origin := Some TEE_ORIGIN_TRUSTED_APP\<rparr>) s;
     p_invoke p (s_user_ctx x) cmd params s
   }"

definition pseudo_ta_enter_close_session :: "('a mgr_scheme) kernel \<Rightarrow> nat \<Rightarrow> 'a mgr_scheme \<Rightarrow> 'a mgr_scheme option" where
  "pseudo_ta_enter_close_session K a s = do {
     x \<leftarrow> sess_at a s;
     c \<leftarrow> s_ctx x;
     ctx \<leftarrow> ctx_at c s;
     p \<leftarrow> pta_of K (c_uuid ctx);
     s \<leftarrow> (case p_close p of None \<Rightarrow> Some s | Some cls \<Rightarrow> cls (s_user_ctx x) s);
     (case p_destroy p of None \<Rightarrow> Some s | Some d \<Rightarrow> if c_ref_count ctx = 1 then d s else Some s)
   }"

text \<open>The check of the table when the kernel starts.\<close>

definition verify_pseudo_tas_conformance :: "'s pseudo_ta list \<Rightarrow> bool" where
  "verify_pseudo_tas_conformance ptas \<longleftrightarrow>
     distinct (map p_uuid ptas) \<and>
     list_all (\<lambda>p. PTA_MANDATORY_FLAGS \<subseteq> p_flags p \<and> p_flags p \<subseteq> PTA_ALLOWED_FLAGS) ptas"

definition tee_ta_init_pseudo_ta_session ::
    "env \<Rightarrow> ('a mgr_scheme) kernel \<Rightarrow> TEE_UUID \<Rightarrow> nat \<Rightarrow> 'a mgr_scheme \<Rightarrow> TEE_Result \<times> 'a mgr_scheme" where
  "tee_ta_init_pseudo_ta_session C K uuid a s =
     (case pta_of K uuid of
        None \<Rightarrow> (TEE_ERROR_ITEM_NOT_FOUND, s)
      | Some p \<Rightarrow>
          (case alloc C s of (c, s) \<Rightarrow>
             if c = 0 then (TEE_ERROR_OUT_OF_MEMORY, s)
             else (TEE_SUCCESS,
                   upd_sess a (\<lambda>x. x\<lparr>s_ctx := Some c\<rparr>)
                     (s\<lparr>tee_ctxes := tee_ctxes s @
                        [(c, \<lparr>c_uuid = p_uuid p, c_flags = p_flags p, c_panicked = False, c_ref_count = 1, c_busy = False\<rparr>)]\<rparr>))))"

subsection \<open>Opening, using and closing a session\<close>

definition tee_ta_init_session_with_context :: "nat \<Rightarrow> TEE_UUID \<Rightarrow> 'a mgr_scheme \<Rightarrow> (TEE_Result \<times> 'a mgr_scheme) option" where
  "tee_ta_init_session_with_context a uuid s =
     (case tee_ta_context_find uuid s of
        None \<Rightarrow> Some (TEE_ERROR_ITEM_NOT_FOUND, s)
      | Some c \<Rightarrow> do {
          ctx \<leftarrow> ctx_at c s;
          if TA_FLAG_SINGLE_INSTANCE \<notin> c_flags ctx then Some (TEE_ERROR_ITEM_NOT_FOUND, s)
          else if TA_FLAG_MULTI_SESSION \<notin> c_flags ctx \<and> c_ref_count ctx \<noteq> 0 then Some (TEE_ERROR_BUSY, s)
          else Some (TEE_SUCCESS,
                 upd_sess a (\<lambda>x. x\<lparr>s_ctx := Some c\<rparr>) (upd_ctx c (\<lambda>x. x\<lparr>c_ref_count := c_ref_count x + 1\<rparr>) s))
        })"

text \<open>Session identifiers: the search starts behind the last one given and goes round once, without 0.\<close>

definition next_id :: "32 word \<Rightarrow> 32 word" where
  "next_id sid = (if sid + 1 = 0 then sid + 1 + 1 else sid + 1)"

function new_session_id_loop :: "32 word list \<Rightarrow> 32 word \<Rightarrow> 32 word \<Rightarrow> 32 word" where
  "new_session_id_loop used saved sid =
     (if sid = saved \<or> saved = 0 then 0
      else if sid \<notin> set used then sid
      else new_session_id_loop used saved (next_id sid))"
  by pat_completeness auto

lemma next_id_nonzero [simp]: "next_id i \<noteq> 0"
  by (auto simp: next_id_def)

text \<open>The distance to the start goes down.\<close>

lemma word_dist_Suc: "i \<noteq> (j :: 32 word) \<Longrightarrow> unat (j - i) = Suc (unat (j - (i + 1)))"
proof -
  assume "i \<noteq> j"
  then have "j - i \<noteq> 0" by simp
  then have "0 < unat (j - i)" by (simp add: unat_gt_0)
  moreover have "unat (j - (i + 1)) = unat (j - i) - 1"
    using unat_minus_one [OF \<open>j - i \<noteq> 0\<close>] by (simp add: diff_diff_add)
  ultimately show ?thesis by simp
qed

lemma next_id_dist:
  assumes "i \<noteq> saved" "saved \<noteq> (0 :: 32 word)"
  shows "unat (saved - next_id i) < unat (saved - i)"
proof (cases "i + 1 = 0")
  case True
  then have "unat (saved - i) = Suc (Suc (unat (saved - next_id i)))"
    using word_dist_Suc [OF assms(1)] word_dist_Suc [of "i + 1" saved] assms(2) by (simp add: next_id_def)
  then show ?thesis by simp
next
  case False
  then show ?thesis using word_dist_Suc [OF assms(1)] by (simp add: next_id_def)
qed

termination new_session_id_loop
  by (relation "measure (\<lambda>(used, saved, i). unat (saved - i))") (use next_id_dist in auto)

declare new_session_id_loop.simps [simp del]

definition new_session_id :: "32 word list \<Rightarrow> 32 word" where
  "new_session_id used =
     (let sid = (if used = [] then 1 else next_id (last used))
      in if sid \<notin> set used then sid else new_session_id_loop used sid (next_id sid))"

text \<open>The structure of a session as \<^verbatim>\<open>calloc\<close> and \<^verbatim>\<open>tee_ta_init_session\<close> make it.\<close>

definition session_zero :: ta_session where
  "session_zero =
     \<lparr>s_id = 0, s_ctx = None, s_user_ctx = 0, s_clnt_id = (TEE_LOGIN_PUBLIC, 0, 0, 0, []), s_err_origin = None,
      s_cancel = False, s_cancel_mask = True, s_cancel_time = (0, 0), s_ref_count = 1, s_locked = False,
      s_unlink = False\<rparr>"

definition tee_ta_init_session ::
    "env \<Rightarrow> ('a mgr_scheme) kernel \<Rightarrow> TEE_UUID \<Rightarrow> 'a mgr_scheme \<Rightarrow> ((TEE_Result + nat) \<times> 'a mgr_scheme) option" where
  "tee_ta_init_session C K uuid s =
     (case alloc C s of (a, s) \<Rightarrow>
        if a = 0 then Some (Inl TEE_ERROR_OUT_OF_MEMORY, s)
        else do {
          let sid = new_session_id (map (s_id \<circ> snd) (open_sessions s));
          if sid = 0 then Some (Inl TEE_ERROR_OVERFLOW, s)
          else do {
            let s = s\<lparr>open_sessions := open_sessions s @ [(a, session_zero\<lparr>s_id := sid\<rparr>)]\<rparr>;
            (res, s) \<leftarrow> tee_ta_init_session_with_context a uuid s;
            (res, s) \<leftarrow> Some (if res \<noteq> TEE_ERROR_ITEM_NOT_FOUND then (res, s)
                             else tee_ta_init_pseudo_ta_session C K uuid a s);
            res \<leftarrow> (if res \<noteq> TEE_ERROR_ITEM_NOT_FOUND then Some res
                   else do { require (k_other K uuid \<noteq> TEE_SUCCESS); Some (k_other K uuid) });
            if res = TEE_SUCCESS then Some (Inr a, s)
            else Some (Inl res, s\<lparr>open_sessions := del_at a (open_sessions s)\<rparr>)
          }
        })"

definition tee_ta_close_session ::
    "('a mgr_scheme) kernel \<Rightarrow> nat option \<Rightarrow> client \<Rightarrow> 'a mgr_scheme \<Rightarrow> (TEE_Result \<times> 'a mgr_scheme) option" where
  "tee_ta_close_session K csess clnt s =
     (case csess of
        None \<Rightarrow> Some (TEE_ERROR_ITEM_NOT_FOUND, s)
      | Some csess \<Rightarrow> do {
          y \<leftarrow> sess_at csess s;
          (sess, s) \<leftarrow> tee_ta_get_session (s_id y) True s;
          (case sess of
             None \<Rightarrow> Some (TEE_ERROR_ITEM_NOT_FOUND, s)
           | Some a \<Rightarrow> do {
               x \<leftarrow> sess_at a s;
               if check_client x clnt \<noteq> TEE_SUCCESS
               then do { s \<leftarrow> tee_ta_put_session a s; Some (TEE_ERROR_BAD_PARAMETERS, s) }
               else (case s_ctx x of
                       None \<Rightarrow> do { s \<leftarrow> destroy_session a s; Some (TEE_SUCCESS, s) }
                     | Some c \<Rightarrow> do {
                         ctx \<leftarrow> ctx_at c s;
                         s \<leftarrow> (if c_panicked ctx then destroy_session a s
                              else do {
                                s \<leftarrow> tee_ta_set_busy c s;
                                let s = set_invoke_timeout K a TEE_TIMEOUT_INFINITE s;
                                s \<leftarrow> pseudo_ta_enter_close_session K a s;
                                s \<leftarrow> destroy_session a s;
                                tee_ta_clear_busy c s
                              });
                         ctx \<leftarrow> ctx_at c s;
                         require (c_ref_count ctx > 0);
                         let keep_alive =
                           (TA_FLAG_INSTANCE_KEEP_ALIVE \<in> c_flags ctx \<and> TA_FLAG_SINGLE_INSTANCE \<in> c_flags ctx);
                         let s = upd_ctx c (\<lambda>x. x\<lparr>c_ref_count := c_ref_count x - 1\<rparr>) s;
                         Some (TEE_SUCCESS,
                               if c_ref_count ctx = 1 \<and> \<not> keep_alive
                               then s\<lparr>tee_ctxes := del_at c (tee_ctxes s)\<rparr> else s)
                       })
             })
        })"

text \<open>The result, the origin of the error (\<open>None\<close> where it is read from the session after that was freed), the
  session, the parameters and the state.\<close>

definition tee_ta_open_session ::
    "env \<Rightarrow> ('a mgr_scheme) kernel \<Rightarrow> TEE_UUID \<Rightarrow> TEE_Identity \<Rightarrow> nat \<Rightarrow> tee_param list \<Rightarrow> 'a mgr_scheme \<Rightarrow>
     (TEE_Result \<times> TEE_ErrorOrigin option \<times> nat \<times> out_param list \<times> 'a mgr_scheme) option" where
  "tee_ta_open_session C K uuid clnt_id cancel_req_to params s = do {
     (r, s) \<leftarrow> tee_ta_init_session C K uuid s;
     (case r of
        Inl res \<Rightarrow> Some (res, Some TEE_ORIGIN_TEE, 0, [], s)
      | Inr a \<Rightarrow> do {
          x \<leftarrow> sess_at a s;
          let dead = (case s_ctx x of None \<Rightarrow> True | Some c \<Rightarrow> (case ctx_at c s of None \<Rightarrow> True | Some ctx \<Rightarrow> c_panicked ctx));
          if dead
          then do {
            (_, s) \<leftarrow> tee_ta_close_session K (Some a) KERN_IDENTITY s;
            Some (TEE_ERROR_TARGET_DEAD, Some TEE_ORIGIN_TEE, 0, [], s)
          }
          else do {
            c \<leftarrow> s_ctx x;
            let s = upd_sess a (\<lambda>x. x\<lparr>s_clnt_id := clnt_id\<rparr>) s;
            (rc, s) \<leftarrow> tee_ta_try_set_busy c s;
            (res, out, s) \<leftarrow>
              (if rc
               then do {
                 let s = set_invoke_timeout K a cancel_req_to s;
                 (res, out, s) \<leftarrow> pseudo_ta_enter_open_session K a params s;
                 s \<leftarrow> tee_ta_clear_busy c s;
                 Some (res, out, s)
               }
               else Some (TEE_ERROR_BUSY, [], s));
            ctx \<leftarrow> ctx_at c s;
            x \<leftarrow> sess_at a s;
            s \<leftarrow> tee_ta_put_session a s;
            (freed, s) \<leftarrow> (if c_panicked ctx \<or> res \<noteq> TEE_SUCCESS
                          then do { (_, s) \<leftarrow> tee_ta_close_session K (Some a) KERN_IDENTITY s; Some (True, s) }
                          else Some (False, s));
            Some (res,
                  if c_panicked ctx \<or> \<not> rc then Some TEE_ORIGIN_TEE else if freed then None else s_err_origin x,
                  a, out, s)
          }
        })
   }"

definition tee_ta_invoke_command ::
    "('a mgr_scheme) kernel \<Rightarrow> nat \<Rightarrow> client \<Rightarrow> nat \<Rightarrow> nat \<Rightarrow> tee_param list \<Rightarrow> 'a mgr_scheme \<Rightarrow>
     (TEE_Result \<times> TEE_ErrorOrigin option \<times> out_param list \<times> 'a mgr_scheme) option" where
  "tee_ta_invoke_command K a clnt cancel_req_to cmd params s = do {
     x \<leftarrow> sess_at a s;
     if check_client x clnt \<noteq> TEE_SUCCESS then Some (TEE_ERROR_BAD_PARAMETERS, Some TEE_ORIGIN_TEE, [], s)
     else (case s_ctx x of
             None \<Rightarrow> Some (TEE_ERROR_TARGET_DEAD, Some TEE_ORIGIN_TEE, [], s)
           | Some c \<Rightarrow> do {
               ctx \<leftarrow> ctx_at c s;
               if c_panicked ctx
               then do {
                 s \<leftarrow> destroy_ta_ctx_from_session a s;
                 Some (TEE_ERROR_TARGET_DEAD, Some TEE_ORIGIN_TEE, [], s)
               }
               else do {
                 s \<leftarrow> tee_ta_set_busy c s;
                 let s = set_invoke_timeout K a cancel_req_to s;
                 (res, out, s) \<leftarrow> pseudo_ta_enter_invoke_cmd K a cmd params s;
                 s \<leftarrow> tee_ta_clear_busy c s;
                 ctx \<leftarrow> ctx_at c s;
                 if c_panicked ctx
                 then do {
                   s \<leftarrow> destroy_ta_ctx_from_session a s;
                   Some (TEE_ERROR_TARGET_DEAD, Some TEE_ORIGIN_TEE, [], s)
                 }
                 else do { x \<leftarrow> sess_at a s; Some (res, s_err_origin x, out, s) }
               }
             })
   }"

definition tee_ta_cancel_command :: "nat \<Rightarrow> client \<Rightarrow> 'a mgr_scheme \<Rightarrow> (TEE_Result \<times> 'a mgr_scheme) option" where
  "tee_ta_cancel_command a clnt s = do {
     x \<leftarrow> sess_at a s;
     if check_client x clnt \<noteq> TEE_SUCCESS then Some (TEE_ERROR_BAD_PARAMETERS, s)
     else Some (TEE_SUCCESS, upd_sess a (\<lambda>x. x\<lparr>s_cancel := True\<rparr>) s)
   }"

section \<open>System calls and client library\<close>

definition self_identity :: "'s kernel \<Rightarrow> TEE_Identity" where
  "self_identity K = (TEE_LOGIN_TRUSTED_APP, k_self K)"

text \<open>The memory of a parameter is shared with the application that is called, which writes to it directly. Where the
  kernel does not update the parameters of the caller (the call failed to open a session, or its target is dead), the
  sizes and values stay, and what was written stays written.\<close>

fun not_updated :: "tee_param \<Rightarrow> out_param \<Rightarrow> out_param" where
  "not_updated (MEMREF_OUTPUT n) (OUT_MEMREF b bs) = OUT_MEMREF n bs"
| "not_updated (MEMREF_INOUT buf) (OUT_MEMREF b bs) = OUT_MEMREF (length buf) bs"
| "not_updated _ _ = OUT_NONE"

definition invoke_outputs :: "tee_param list \<Rightarrow> TEE_Result \<Rightarrow> out_param list \<Rightarrow> out_param list" where
  "invoke_outputs params res out = (if res = TEE_ERROR_TARGET_DEAD then map2 not_updated params out else out)"

definition syscall_open_ta_session ::
    "env \<Rightarrow> ('a mgr_scheme) kernel \<Rightarrow> TEE_UUID \<Rightarrow> nat \<Rightarrow> tee_param list \<Rightarrow> 'a mgr_scheme \<Rightarrow>
     (TEE_Result \<times> 32 word \<times> out_param list \<times> 'a mgr_scheme) option" where
  "syscall_open_ta_session C K dest cancel_req_to params s =
     (case allocs C 3 s of (ok, s) \<Rightarrow>
        if \<not> ok then Some (TEE_ERROR_OUT_OF_MEMORY, 0, [], s)
        else do {
          (res, origin, a, out, s) \<leftarrow> tee_ta_open_session C K dest (self_identity K) cancel_req_to params s;
          if res \<noteq> TEE_SUCCESS then Some (res, 0, map2 not_updated params out, s)
          else do { x \<leftarrow> sess_at a s; Some (TEE_SUCCESS, s_id x, out, s) }
        })"

definition syscall_close_ta_session ::
    "('a mgr_scheme) kernel \<Rightarrow> 32 word \<Rightarrow> 'a mgr_scheme \<Rightarrow> (TEE_Result \<times> 'a mgr_scheme) option" where
  "syscall_close_ta_session K ta_sess s =
     tee_ta_close_session K (tee_ta_find_session ta_sess s) (CLIENT (self_identity K)) s"

text \<open>The result, the origin and the parameters; a session that is not found returns before the origin is written.\<close>

definition syscall_invoke_ta_command ::
    "('a mgr_scheme) kernel \<Rightarrow> 32 word \<Rightarrow> nat \<Rightarrow> nat \<Rightarrow> tee_param list \<Rightarrow> 'a mgr_scheme \<Rightarrow>
     (TEE_Result \<times> TEE_ErrorOrigin option \<times> out_param list \<times> 'a mgr_scheme) option" where
  "syscall_invoke_ta_command K ta_sess cancel_req_to cmd_id params s = do {
     (sess, s) \<leftarrow> tee_ta_get_session ta_sess True s;
     (case sess of
        None \<Rightarrow> Some (TEE_ERROR_BAD_PARAMETERS, Some TEE_ORIGIN_TEE, [], s)
      | Some a \<Rightarrow> do {
          (res, origin, out, s) \<leftarrow>
            tee_ta_invoke_command K a (CLIENT (self_identity K)) cancel_req_to cmd_id params s;
          s \<leftarrow> tee_ta_put_session a s;
          Some (res, origin, invoke_outputs params res out, s)
        })
   }"

definition syscall_get_cancellation_flag :: "('a mgr_scheme) kernel \<Rightarrow> nat \<Rightarrow> 'a mgr_scheme \<Rightarrow> bool option" where
  "syscall_get_cancellation_flag K a s = do {
     x \<leftarrow> sess_at a s;
     Some (tee_ta_session_is_cancelled x (k_time K (tick s)))
   }"

definition syscall_unmask_cancellation :: "nat \<Rightarrow> 'a mgr_scheme \<Rightarrow> (bool \<times> 'a mgr_scheme) option" where
  "syscall_unmask_cancellation a s = do {
     x \<leftarrow> sess_at a s;
     Some (s_cancel_mask x, upd_sess a (\<lambda>x. x\<lparr>s_cancel_mask := False\<rparr>) s)
   }"

definition syscall_mask_cancellation :: "nat \<Rightarrow> 'a mgr_scheme \<Rightarrow> (bool \<times> 'a mgr_scheme) option" where
  "syscall_mask_cancellation a s = do {
     x \<leftarrow> sess_at a s;
     Some (s_cancel_mask x, upd_sess a (\<lambda>x. x\<lparr>s_cancel_mask := True\<rparr>) s)
   }"

text \<open>The temporary buffer that keeps the memory of the caller private, and what is copied back from it.\<close>

fun is_memref :: "tee_param \<Rightarrow> bool" where
  "is_memref (MEMREF_INPUT b) = (b \<noteq> [])"
| "is_memref (MEMREF_OUTPUT n) = (n \<noteq> 0)"
| "is_memref (MEMREF_INOUT b) = (b \<noteq> [])"
| "is_memref _ = False"

definition copy_param :: "env \<Rightarrow> tee_param list \<Rightarrow> 'a mgr_scheme \<Rightarrow> TEE_Result \<times> 'a mgr_scheme" where
  "copy_param C params s =
     (if list_ex is_memref params
      then case alloc C s of (tb, s) \<Rightarrow> (if tb = 0 then TEE_ERROR_OUT_OF_MEMORY else TEE_SUCCESS, s)
      else (TEE_SUCCESS, s))"

text \<open>The temporary buffer is zero but for the input of an input and output parameter. A parameter that the call did
  not write is read back as it was passed. The result lists the parameters of the caller; it is empty when they were not
  touched.\<close>

fun update_out_param :: "tee_param \<Rightarrow> out_param \<Rightarrow> out_param" where
  "update_out_param (MEMREF_OUTPUT n) (OUT_MEMREF b bs) = OUT_MEMREF b (take (min b n) (bs @ replicate (n - length bs) 0))"
| "update_out_param (MEMREF_OUTPUT n) _ = OUT_MEMREF n (replicate n 0)"
| "update_out_param (MEMREF_INOUT buf) (OUT_MEMREF b bs) = OUT_MEMREF b (take (min b (length buf)) (bs @ drop (length bs) buf))"
| "update_out_param (MEMREF_INOUT buf) _ = OUT_MEMREF (length buf) buf"
| "update_out_param VALUE_OUTPUT (OUT_VALUE a b) = OUT_VALUE a b"
| "update_out_param VALUE_OUTPUT _ = OUT_VALUE 0 0"
| "update_out_param (VALUE_INOUT x y) (OUT_VALUE a b) = OUT_VALUE a b"
| "update_out_param (VALUE_INOUT x y) _ = OUT_VALUE x y"
| "update_out_param _ _ = OUT_NONE"

definition update_out_params :: "tee_param list \<Rightarrow> out_param list \<Rightarrow> out_param list" where
  "update_out_params params out =
     map2 update_out_param params (out @ replicate (length params - length out) OUT_NONE)"

definition TEE_OpenTASession ::
    "env \<Rightarrow> ('a mgr_scheme) kernel \<Rightarrow> TEE_UUID \<Rightarrow> nat \<Rightarrow> tee_param list \<Rightarrow> 'a mgr_scheme \<Rightarrow>
     (TEE_Result \<times> 32 word \<times> out_param list \<times> 'a mgr_scheme) option" where
  "TEE_OpenTASession C K destination timeout params s =
     (case copy_param C params s of (res, s) \<Rightarrow>
        if res \<noteq> TEE_SUCCESS then Some (res, 0, [], s)
        else do {
          (res, h, out, s) \<leftarrow> syscall_open_ta_session C K destination timeout params s;
          Some (res, if res \<noteq> TEE_SUCCESS then 0 else h, update_out_params params out, s)
        })"

definition TEE_CloseTASession :: "('a mgr_scheme) kernel \<Rightarrow> 32 word \<Rightarrow> 'a mgr_scheme \<Rightarrow> 'a mgr_scheme option" where
  "TEE_CloseTASession K session s =
     (if session = 0 then Some s
      else do { (res, s) \<leftarrow> syscall_close_ta_session K session s; require (res = TEE_SUCCESS); Some s })"

text \<open>An error that does not come from the trusted application is a panic, but for two.\<close>

definition TEE_InvokeTACommand ::
    "env \<Rightarrow> ('a mgr_scheme) kernel \<Rightarrow> 32 word \<Rightarrow> nat \<Rightarrow> nat \<Rightarrow> tee_param list \<Rightarrow> 'a mgr_scheme \<Rightarrow>
     (TEE_Result \<times> out_param list \<times> 'a mgr_scheme) option" where
  "TEE_InvokeTACommand C K session timeout commandID params s =
     (case copy_param C params s of (res, s) \<Rightarrow> do {
        (res, ret_origin, out, s) \<leftarrow>
          (if res \<noteq> TEE_SUCCESS then Some (res, Some TEE_ORIGIN_TEE, [], s)
           else do {
             (res, ret_origin, out, s) \<leftarrow> syscall_invoke_ta_command K session timeout commandID params s;
             Some (res, ret_origin, update_out_params params out, s)
           });
        if ret_origin = Some TEE_ORIGIN_TRUSTED_APP then Some (res, out, s)
        else do {
          require (res \<in> {TEE_SUCCESS, TEE_ERROR_OUT_OF_MEMORY, TEE_ERROR_TARGET_DEAD});
          Some (res, out, s)
        }
      })"

section \<open>Lemmas\<close>

lemma update_out_params_simps [simp]:
  "update_out_params [] out = []"
  "update_out_params (p # ps) [] = update_out_param p OUT_NONE # update_out_params ps []"
  "update_out_params (p # ps) (b # out) = update_out_param p b # update_out_params ps out"
  by (simp_all add: update_out_params_def)

lemma invoke_outputs_simps [simp]:
  "res \<noteq> TEE_ERROR_TARGET_DEAD \<Longrightarrow> invoke_outputs ps res out = out"
  "invoke_outputs ps TEE_ERROR_TARGET_DEAD out = map2 not_updated ps out"
  by (simp_all add: invoke_outputs_def)

subsection \<open>Session identifiers\<close>

lemma new_session_id_loop_fresh:
  "new_session_id_loop used saved i \<noteq> 0 \<Longrightarrow> new_session_id_loop used saved i \<notin> set used"
  by (induction used saved i rule: new_session_id_loop.induct) (subst (asm) (2) new_session_id_loop.simps, subst new_session_id_loop.simps, auto split: if_splits)

lemma new_session_id_loop_zero:
  assumes "new_session_id_loop used saved i = 0" "saved \<noteq> 0" "i \<noteq> 0" "j \<noteq> 0" "j \<noteq> saved"
    "unat (saved - j) \<le> unat (saved - i)"
  shows "j \<in> set used"
  using assms
proof (induction used saved i rule: new_session_id_loop.induct)
  case (1 used saved i)
  show ?case
  proof (cases "i = saved")
    case True
    then have "saved - j = 0" using "1.prems"(6) by (simp add: unat_eq_zero)
    then show ?thesis using "1.prems"(5) by simp
  next
    case False
    then have used: "i \<in> set used" and rest: "new_session_id_loop used saved (next_id i) = 0"
      using "1.prems" by (auto simp: new_session_id_loop.simps [of used saved i] split: if_splits)
    show ?thesis
    proof (cases "j = i")
      case False
      then have "saved - j \<noteq> saved - i" by simp
      then have lt: "unat (saved - j) < unat (saved - i)"
        using "1.prems"(6) by (metis le_neq_implies_less word_unat_eq_iff)
      have "unat (saved - j) \<le> unat (saved - next_id i)"
      proof (cases "i + 1 = 0")
        case True
        then have "saved - j \<noteq> saved - (i + 1)" using "1.prems"(4) by simp
        then have "unat (saved - j) \<noteq> unat (saved - (i + 1))" by (metis word_unat_eq_iff)
        then show ?thesis
          using lt True word_dist_Suc [OF \<open>i \<noteq> saved\<close>] word_dist_Suc [of "i + 1" saved] "1.prems"(2)
          by (simp add: next_id_def)
      next
        case False
        then show ?thesis using lt word_dist_Suc [OF \<open>i \<noteq> saved\<close>] by (simp add: next_id_def)
      qed
      then show ?thesis using "1.IH" \<open>i \<noteq> saved\<close> used rest "1.prems"(2,4,5) by simp
    qed (use used in simp)
  qed
qed

lemma new_session_id_fresh:
  shows "new_session_id used \<noteq> 0 \<Longrightarrow> new_session_id used \<notin> set used"
    and "new_session_id used = 0 \<Longrightarrow> j \<noteq> 0 \<Longrightarrow> j \<in> set used"
proof -
  define i where "i = (if used = [] then 1 else next_id (last used))"
  have i: "i \<noteq> 0" by (simp add: i_def)
  have eq: "new_session_id used = (if i \<notin> set used then i else new_session_id_loop used i (next_id i))"
    by (simp add: new_session_id_def i_def Let_def)
  show "new_session_id used \<noteq> 0 \<Longrightarrow> new_session_id used \<notin> set used"
    using new_session_id_loop_fresh by (simp add: eq split: if_splits)
  assume z: "new_session_id used = 0" and j: "j \<noteq> 0"
  show "j \<in> set used"
  proof (cases "j = i")
    case False
    have "unat (i - j) \<le> unat (i - next_id i)"
    proof -
      have all: "unat (i - j) \<le> unat (- 1 :: 32 word)" by (simp add: word_le_nat_alt [symmetric])
      show ?thesis
      proof (cases "i + 1 = 0")
        case True
        have "i - j \<noteq> -1"
        proof
          assume "i - j = -1"
          then have "i = -1 + j" by (simp only: diff_eq_eq)
          then have "i + 1 = j" by simp
          then show False using True j by simp
        qed
        then have "unat (i - j) < unat (- 1 :: 32 word)"
          using all by (metis le_neq_implies_less word_unat_eq_iff)
        moreover have "i = -1" using True by (simp only: eq_neg_iff_add_eq_0)
        ultimately show ?thesis using True word_dist_Suc [of "i + 1" i] i by (simp add: next_id_def)
      qed (use all in \<open>simp add: next_id_def\<close>)
    qed
    then show ?thesis using new_session_id_loop_zero [of used i "next_id i" j] z i j False by (simp add: eq split: if_splits)
  qed (use z i in \<open>simp add: eq split: if_splits\<close>)
qed

text \<open>C16. The search for a session identifier ends, finds one whenever one is free, and never returns one in use: it fails
  exactly when all the identifiers but 0 are in use.\<close>

theorem new_session_id_complete:
  "new_session_id used \<notin> set used - {0} \<and> (new_session_id used = 0 \<longleftrightarrow> UNIV - {0} \<subseteq> set used)"
proof -
  have "UNIV - {0} \<subseteq> set used" if "new_session_id used = 0"
    using new_session_id_fresh(2) [OF that] by blast
  moreover have "new_session_id used = 0" if "UNIV - {0} \<subseteq> set used"
    using new_session_id_fresh(1) [of used] that by blast
  ultimately show ?thesis using new_session_id_fresh(1) [of used] by blast
qed

text \<open>C25. The time at which an invocation is cancelled is the time of the call plus the timeout only when the milliseconds
  do not carry, or when the timeout has exactly one second: with a carry the seconds of the timeout are replaced by
  one.\<close>

theorem invoke_deadline_exact_iff:
  assumes "to < TEE_TIMEOUT_INFINITE" "sec + to div 1000 < UINT32_MAX" "sec + 2 < UINT32_MAX" "ms < 1000"
    and "invoke_deadline (Some (sec, ms)) to = (dsec, dms)"
  shows "1000 * dsec + dms = 1000 * sec + ms + to \<longleftrightarrow> ms + to mod 1000 \<le> 1000 \<or> to div 1000 = 1"
proof (cases "ms + to mod 1000 > 1000")
  case True
  then have "dsec = sec + 2" "dms = ms + to mod 1000 - 1000"
    using assms by (simp_all add: invoke_deadline_def)
  moreover have "to = 1000 * (to div 1000) + to mod 1000" by simp
  ultimately show ?thesis using True by linarith
next
  case False
  then have "dsec = sec + to div 1000" "dms = ms + to mod 1000"
    using assms by (simp_all add: invoke_deadline_def)
  moreover have "to = 1000 * (to div 1000) + to mod 1000" by simp
  ultimately show ?thesis using False by linarith
qed

theorem invoke_deadline_exact_iff_witness:
  "invoke_deadline (Some (10, 900)) 5200 = (12, 100) \<and> 1000 * 12 + 100 \<noteq> 1000 * 10 + 900 + (5200 :: nat)"
  using invoke_deadline_exact_iff [of 5200 10 900 12 100] by (simp add: invoke_deadline_def)

subsection \<open>Addressed lists\<close>

lemma map_of_upd_at [simp]: "map_of (upd_at a f xs) b = (if b = a then map_option f (map_of xs a) else map_of xs b)"
  by (induction xs) (auto simp: upd_at_def)

lemma map_of_del_at [simp]: "map_of (del_at a xs) b = (if b = a then None else map_of xs b)"
  by (induction xs) (auto simp: del_at_def)

lemma upd_at_upd_at [simp]: "upd_at a f (upd_at a g xs) = upd_at a (\<lambda>x. f (g x)) xs"
  by (auto simp: upd_at_def)

lemma upd_at_id: "(\<And>x. (a, x) \<in> set xs \<Longrightarrow> f x = x) \<Longrightarrow> upd_at a f xs = xs"
  by (auto simp: upd_at_def intro!: map_idI)

lemma del_at_upd_at [simp]: "del_at a (upd_at a f xs) = del_at a xs"
  by (induction xs) (auto simp: upd_at_def del_at_def)

lemma fst_upd_at [simp]: "map fst (upd_at a f xs) = map fst xs"
  by (auto simp: upd_at_def)

lemma set_upd_at: "set (upd_at a f xs) = (\<lambda>(b, x). (b, if b = a then f x else x)) ` set xs"
  by (simp add: upd_at_def)

lemma set_del_at [simp]: "set (del_at a xs) = {(b, x) \<in> set xs. b \<noteq> a}"
  by (auto simp: del_at_def)

lemma distinct_del_at [simp]: "distinct (map f xs) \<Longrightarrow> distinct (map f (del_at a xs))"
  by (simp add: del_at_def distinct_map_filter)

lemma upd_ctx_simps [simp]:
  "tee_ctxes (upd_ctx c f s) = upd_at c f (tee_ctxes s)" "open_sessions (upd_ctx c f s) = open_sessions s"
  "single_instance_count (upd_ctx c f s) = single_instance_count s" "tick (upd_ctx c f s) = tick s"
  "mgr.more (upd_ctx c f s) = mgr.more s"
  by (simp_all add: upd_ctx_def)

lemma upd_sess_simps [simp]:
  "open_sessions (upd_sess c f s) = upd_at c f (open_sessions s)" "tee_ctxes (upd_sess c f s) = tee_ctxes s"
  "single_instance_count (upd_sess c f s) = single_instance_count s" "tick (upd_sess c f s) = tick s"
  "mgr.more (upd_sess c f s) = mgr.more s"
  by (simp_all add: upd_sess_def)

subsection \<open>The state between two calls\<close>

text \<open>No session is in use and no context is busy; the identifiers of the sessions are distinct and not 0; the
  reference count of a context is the number of sessions with it, and a context is that of a pseudo trusted
  application of the table, of which there is at most one instance.\<close>

definition refs_to :: "nat \<Rightarrow> (nat \<times> ta_session) list \<Rightarrow> nat" where
  "refs_to c xs = length (filter (\<lambda>e. s_ctx (snd e) = Some c) xs)"

definition idle_session :: "ta_session \<Rightarrow> bool" where
  "idle_session x \<longleftrightarrow> s_id x \<noteq> 0 \<and> s_ref_count x = 0 \<and> \<not> s_locked x \<and> \<not> s_unlink x"

definition idle_ctx :: "'s kernel \<Rightarrow> ta_ctx \<Rightarrow> bool" where
  "idle_ctx K ctx \<longleftrightarrow>
     \<not> c_busy ctx \<and> \<not> c_panicked ctx \<and> (\<exists>p \<in> set (k_ptas K). c_uuid ctx = p_uuid p \<and> c_flags ctx = p_flags p)"

definition wf_mgr :: "('a mgr_scheme) kernel \<Rightarrow> 'a mgr_scheme \<Rightarrow> bool" where
  "wf_mgr K s \<longleftrightarrow>
     distinct (map fst (tee_ctxes s)) \<and> distinct (map fst (open_sessions s)) \<and>
     (\<forall>a \<in> fst ` set (tee_ctxes s) \<union> fst ` set (open_sessions s). a \<le> tick s) \<and>
     distinct (map (s_id \<circ> snd) (open_sessions s)) \<and>
     (\<forall>(a, x) \<in> set (open_sessions s). idle_session x \<and> (\<exists>c \<in> fst ` set (tee_ctxes s). s_ctx x = Some c)) \<and>
     (\<forall>(c, ctx) \<in> set (tee_ctxes s). idle_ctx K ctx \<and> c_ref_count ctx = refs_to c (open_sessions s)) \<and>
     distinct (map (c_uuid \<circ> snd) (tee_ctxes s)) \<and> single_instance_count s = 0"

lemma wf_mgrI:
  assumes "distinct (map fst (tee_ctxes s))" "distinct (map fst (open_sessions s))"
    "distinct (map (s_id \<circ> snd) (open_sessions s))" "distinct (map (c_uuid \<circ> snd) (tee_ctxes s))"
    "single_instance_count s = 0"
    "\<And>a x. (a, x) \<in> set (open_sessions s) \<Longrightarrow> a \<le> tick s" "\<And>a x. (a, x) \<in> set (open_sessions s) \<Longrightarrow> idle_session x"
    "\<And>a x. (a, x) \<in> set (open_sessions s) \<Longrightarrow> \<exists>c \<in> fst ` set (tee_ctxes s). s_ctx x = Some c"
    "\<And>c ctx. (c, ctx) \<in> set (tee_ctxes s) \<Longrightarrow> c \<le> tick s" "\<And>c ctx. (c, ctx) \<in> set (tee_ctxes s) \<Longrightarrow> idle_ctx K ctx"
    "\<And>c ctx. (c, ctx) \<in> set (tee_ctxes s) \<Longrightarrow> c_ref_count ctx = refs_to c (open_sessions s)"
  shows "wf_mgr K s"
  using assms unfolding wf_mgr_def by (intro conjI ballI) auto

lemma wf_mgrD:
  assumes "wf_mgr K s"
  shows "distinct (map fst (tee_ctxes s))" "distinct (map fst (open_sessions s))"
    "distinct (map (s_id \<circ> snd) (open_sessions s))" "distinct (map (c_uuid \<circ> snd) (tee_ctxes s))"
    "single_instance_count s = 0"
    "\<And>a x. (a, x) \<in> set (open_sessions s) \<Longrightarrow> a \<le> tick s" "\<And>a x. (a, x) \<in> set (open_sessions s) \<Longrightarrow> idle_session x"
    "\<And>a x. (a, x) \<in> set (open_sessions s) \<Longrightarrow> \<exists>c \<in> fst ` set (tee_ctxes s). s_ctx x = Some c"
    "\<And>c ctx. (c, ctx) \<in> set (tee_ctxes s) \<Longrightarrow> c \<le> tick s" "\<And>c ctx. (c, ctx) \<in> set (tee_ctxes s) \<Longrightarrow> idle_ctx K ctx"
    "\<And>c ctx. (c, ctx) \<in> set (tee_ctxes s) \<Longrightarrow> c_ref_count ctx = refs_to c (open_sessions s)"
  using assms unfolding wf_mgr_def by force+

lemma distinct_snd_inj:
  assumes "distinct (map (f \<circ> snd) xs)" "(a, x) \<in> set xs" "(b, y) \<in> set xs" "f x = f y"
  shows "a = b \<and> x = y"
  using assms by (fastforce simp: distinct_map inj_on_def)

text \<open>What an entry point of a pseudo trusted application keeps.\<close>

definition same_mgr :: "'a mgr_scheme \<Rightarrow> 'a mgr_scheme \<Rightarrow> bool" where
  "same_mgr s s' \<longleftrightarrow>
     tee_ctxes s' = tee_ctxes s \<and> open_sessions s' = open_sessions s \<and>
     single_instance_count s' = single_instance_count s \<and> tick s \<le> tick s'"

locale pseudo_tas =
  fixes K :: "('a mgr_scheme) kernel"
  assumes conform: "verify_pseudo_tas_conformance (k_ptas K)"
    and create_keeps: "\<And>p f s r s'. p \<in> set (k_ptas K) \<Longrightarrow> p_create p = Some f \<Longrightarrow> f s = Some (r, s') \<Longrightarrow> same_mgr s s'"
    and destroy_keeps: "\<And>p f s s'. p \<in> set (k_ptas K) \<Longrightarrow> p_destroy p = Some f \<Longrightarrow> f s = Some s' \<Longrightarrow> same_mgr s s'"
    and open_keeps: "\<And>p f ps s r out u s'. p \<in> set (k_ptas K) \<Longrightarrow> p_open p = Some f \<Longrightarrow>
      f ps s = Some (r, out, u, s') \<Longrightarrow> same_mgr s s'"
    and close_keeps: "\<And>p f u s s'. p \<in> set (k_ptas K) \<Longrightarrow> p_close p = Some f \<Longrightarrow> f u s = Some s' \<Longrightarrow> same_mgr s s'"
    and invoke_keeps: "\<And>p u cmd ps s r out s'. p \<in> set (k_ptas K) \<Longrightarrow>
      p_invoke p u cmd ps s = Some (r, out, s') \<Longrightarrow> same_mgr s s'"
begin

lemma pta_of_member: "pta_of K u = Some p \<Longrightarrow> p \<in> set (k_ptas K) \<and> p_uuid p = u"
  by (auto simp: pta_of_def find_Some_iff)

lemma pta_of_uuid: "p \<in> set (k_ptas K) \<Longrightarrow> pta_of K (p_uuid p) = Some p"
proof -
  assume p: "p \<in> set (k_ptas K)"
  then obtain q where q: "pta_of K (p_uuid p) = Some q"
    unfolding pta_of_def by (metis (mono_tags, lifting) find_None_iff not_None_eq)
  moreover have "q = p"
    using pta_of_member [OF q] p conform by (auto simp: verify_pseudo_tas_conformance_def distinct_map inj_on_def)
  ultimately show ?thesis by simp
qed

lemma pta_flags:
  "p \<in> set (k_ptas K) \<Longrightarrow> TA_FLAG_SINGLE_INSTANCE \<in> p_flags p" "p \<in> set (k_ptas K) \<Longrightarrow> TA_FLAG_MULTI_SESSION \<in> p_flags p"
  "p \<in> set (k_ptas K) \<Longrightarrow> TA_FLAG_INSTANCE_KEEP_ALIVE \<in> p_flags p"
  using conform by (auto simp: verify_pseudo_tas_conformance_def PTA_MANDATORY_FLAGS_def list_all_iff)

text \<open>A session of a state between two calls, with its context.\<close>

lemma session_facts:
  assumes "wf_mgr K s" "sess_at a s = Some x"
  obtains c ctx p where "s_ctx x = Some c" "ctx_at c s = Some ctx" "idle_session x" "\<not> c_busy ctx" "\<not> c_panicked ctx"
    "p \<in> set (k_ptas K)" "pta_of K (c_uuid ctx) = Some p" "c_flags ctx = p_flags p" "0 < c_ref_count ctx"
    "c_ref_count ctx = refs_to c (open_sessions s)"
proof -
  have m: "(a, x) \<in> set (open_sessions s)" using assms(2) by (rule map_of_SomeD)
  then obtain c ctx where c: "s_ctx x = Some c" "(c, ctx) \<in> set (tee_ctxes s)" "idle_session x"
    using assms(1) unfolding wf_mgr_def by fastforce
  moreover from this have "ctx_at c s = Some ctx" using assms(1) by (auto simp: wf_mgr_def)
  moreover have i: "idle_ctx K ctx" "c_ref_count ctx = refs_to c (open_sessions s)"
    using assms(1) c(2) unfolding wf_mgr_def by blast+
  moreover have "0 < refs_to c (open_sessions s)"
    using m c(1) by (force simp: refs_to_def filter_empty_conv)
  moreover obtain p where "p \<in> set (k_ptas K)" "c_uuid ctx = p_uuid p" "c_flags ctx = p_flags p"
    using i(1) by (auto simp: idle_ctx_def)
  ultimately show ?thesis using that pta_of_uuid by (simp add: idle_ctx_def)
qed

text \<open>The state in which the entry points of a session run.\<close>

definition entered :: "nat \<Rightarrow> nat \<Rightarrow> (ta_session \<Rightarrow> ta_session) \<Rightarrow> 'a mgr_scheme \<Rightarrow> 'a mgr_scheme" where
  "entered a c f s =
     (case ctx_at c s of
        Some ctx \<Rightarrow>
          if TA_FLAG_CONCURRENT \<in> c_flags ctx then upd_sess a f s
          else upd_sess a f (upd_ctx c (\<lambda>x. x\<lparr>c_busy := True\<rparr>) (s\<lparr>single_instance_count := 1\<rparr>))
      | None \<Rightarrow> s)"

lemma found_session:
  assumes "wf_mgr K s" "find (\<lambda>(a, x). s_id x = h) (open_sessions s) = Some (a, x)"
  shows "sess_at a s = Some x" "s_id x = h" "(a, x) \<in> set (open_sessions s)"
proof -
  show "s_id x = h" "(a, x) \<in> set (open_sessions s)"
    using assms(2) by (auto simp: find_Some_iff dest: nth_mem)
  then show "sess_at a s = Some x" using assms(1) by (simp add: wf_mgr_def)
qed

lemma upd_at_cong:
  assumes "distinct (map fst xs)" "map_of xs a = Some x" "f x = g x"
  shows "upd_at a f xs = upd_at a g xs"
proof -
  have "y = x" if "(a, y) \<in> set xs" for y using that assms(1,2) by (metis map_of_eq_Some_iff option.inject)
  then show ?thesis using assms(3) by (auto simp: upd_at_def)
qed

lemma upd_session:
  assumes "wf_mgr K s" "sess_at a s = Some x" "f x = g x"
  shows "upd_at a f (open_sessions s) = upd_at a g (open_sessions s)"
  by (rule upd_at_cong [where f = f and g = g, OF wf_mgrD(2) [OF assms(1)] assms(2,3)])

lemma busy_done:
  assumes "wf_mgr K s"
  shows "upd_at c (\<lambda>x. x\<lparr>c_busy := False\<rparr>) (tee_ctxes s) = tee_ctxes s"
  by (rule upd_at_id) (use assms in \<open>auto simp: wf_mgr_def idle_ctx_def\<close>)

lemma invoke_run:
  assumes wf: "wf_mgr K s" and found: "find (\<lambda>(a, x). s_id x = h) (open_sessions s) = Some (a, x)"
    and clnt: "s_clnt_id x = self_identity K"
    and c: "s_ctx x = Some c" "ctx_at c s = Some ctx" "pta_of K (c_uuid ctx) = Some p" "c_flags ctx = p_flags p"
      "\<not> c_panicked ctx" "\<not> c_busy ctx" "p \<in> set (k_ptas K)" "idle_session x"
    and T: "T = invoke_deadline (k_time K (tick s)) to"
  shows "syscall_invoke_ta_command K h to cmd ps s =
    (case p_invoke p (s_user_ctx x) cmd ps
       (entered a c (\<lambda>x. x\<lparr>s_ref_count := 1, s_locked := True, s_cancel_time := T, s_err_origin := Some TEE_ORIGIN_TRUSTED_APP\<rparr>) s)
     of None \<Rightarrow> None
      | Some (res, out, s') \<Rightarrow>
          Some (res, Some TEE_ORIGIN_TRUSTED_APP, invoke_outputs ps res out,
            s'\<lparr>tee_ctxes := tee_ctxes s,
               open_sessions := upd_at a (\<lambda>x. x\<lparr>s_cancel_time := T, s_err_origin := Some TEE_ORIGIN_TRUSTED_APP\<rparr>) (open_sessions s),
               single_instance_count := 0\<rparr>))"
proof -
  note x = found_session [OF wf found]
  let ?F = "\<lambda>x. x\<lparr>s_ref_count := 1, s_locked := True, s_cancel_time := T, s_err_origin := Some TEE_ORIGIN_TRUSTED_APP\<rparr>"
  let ?G = "\<lambda>x. x\<lparr>s_cancel_time := T, s_err_origin := Some TEE_ORIGIN_TRUSTED_APP\<rparr>"
  have single: "single_instance_count s = 0" using wf by (simp add: wf_mgr_def)
  have F: "upd_at a (\<lambda>x. x\<lparr>s_ref_count := Suc (s_ref_count x), s_locked := True, s_cancel_time := T,
      s_err_origin := Some TEE_ORIGIN_TRUSTED_APP\<rparr>) (open_sessions s) = upd_at a ?F (open_sessions s)"
    by (rule upd_session [OF wf x(1)]) (use c(8) in \<open>simp add: idle_session_def\<close>)
  have G: "upd_at a (\<lambda>x. x\<lparr>s_cancel_time := T, s_err_origin := Some TEE_ORIGIN_TRUSTED_APP, s_locked := False,
      s_ref_count := 0\<rparr>) (open_sessions s) = upd_at a ?G (open_sessions s)"
    by (rule upd_session [OF wf x(1)]) (use c(8) in \<open>simp add: idle_session_def\<close>)
  note defs = syscall_invoke_ta_command_def tee_ta_get_session_def found idle_session_def tee_ta_invoke_command_def
    check_client_def tee_ta_set_busy_def tee_ta_try_set_busy_def set_invoke_timeout_def pseudo_ta_enter_invoke_cmd_def
    entered_def Let_def upd_sess_def upd_ctx_def
  let ?fin = "\<lambda>y. (case y of (res, out, s) \<Rightarrow> do {
      s \<leftarrow> tee_ta_clear_busy c s;
      ctx \<leftarrow> ctx_at c s;
      if c_panicked ctx
      then do {
        s \<leftarrow> destroy_ta_ctx_from_session a s;
        Some (TEE_ERROR_TARGET_DEAD, Some TEE_ORIGIN_TEE, [], s)
      }
      else do { x \<leftarrow> sess_at a s; Some (res, s_err_origin x, out, s) }
    }) \<bind> (\<lambda>(res, origin, out, s). do {
      s \<leftarrow> tee_ta_put_session a s;
      Some (res, origin, invoke_outputs ps res out, s)
    })"
  have ends: "?fin (res, out, s') = Some (res, Some TEE_ORIGIN_TRUSTED_APP, invoke_outputs ps res out,
      s'\<lparr>tee_ctxes := tee_ctxes s, open_sessions := upd_at a ?G (open_sessions s), single_instance_count := 0\<rparr>)"
    if "same_mgr (entered a c ?F s) s'" for res out s'
    using that c x pta_flags(1) [OF c(7)] single
    by (cases "TA_FLAG_CONCURRENT \<in> p_flags p"; cases s')
      (simp_all add: same_mgr_def entered_def tee_ta_clear_busy_def tee_ta_put_session_def busy_done [OF wf] G
        upd_ctx_def upd_sess_def)
  have "syscall_invoke_ta_command K h to cmd ps s =
      p_invoke p (s_user_ctx x) cmd ps (entered a c ?F s) \<bind> ?fin"
    using c clnt single x pta_flags(1) [OF c(7)] F
    by (cases "TA_FLAG_CONCURRENT \<in> p_flags p") (simp_all add: defs flip: T)
  note run = this
  show ?thesis
  proof (cases "p_invoke p (s_user_ctx x) cmd ps (entered a c ?F s)")
    case (Some r)
    obtain res out s' where r: "r = (res, out, s')" by (cases r)
    have "same_mgr (entered a c ?F s) s'" using invoke_keeps [OF c(7)] Some r by blast
    from ends [OF this, of res out] show ?thesis
      unfolding run Some r by (simp only: Option.bind.simps option.case prod.case)
  qed (simp only: run Option.bind.simps option.case)
qed

lemma find_session:
  assumes "wf_mgr K s" "sess_at a s = Some x"
  shows "find (\<lambda>(b, y). s_id y = s_id x) (open_sessions s) = Some (a, x)"
proof -
  have m: "(a, x) \<in> set (open_sessions s)" using assms(2) by (rule map_of_SomeD)
  then obtain b y where f: "find (\<lambda>(b, y). s_id y = s_id x) (open_sessions s) = Some (b, y)"
    using find_None_iff [of "\<lambda>(b, y). s_id y = s_id x" "open_sessions s"] by (cases "find (\<lambda>(b, y). s_id y = s_id x) (open_sessions s)") auto
  from found_session [OF assms(1) this] m have "b = a \<and> y = x"
    by (intro distinct_snd_inj [OF wf_mgrD(3) [OF assms(1)]])
  then show ?thesis using f by simp
qed

text \<open>The state of the manager is what matters, and in a session the fields that say whether it is in use.\<close>

lemma wf_mgr_cong:
  assumes "wf_mgr K s" "tee_ctxes s' = tee_ctxes s" "open_sessions s' = open_sessions s"
    "single_instance_count s' = single_instance_count s" "tick s \<le> tick s'"
  shows "wf_mgr K s'"
  using assms unfolding wf_mgr_def by force

lemma wf_mgr_upd_sess:
  assumes wf: "wf_mgr K s"
    and f: "\<And>x. sess_at a s = Some x \<Longrightarrow> s_id (f x) = s_id x \<and> s_ctx (f x) = s_ctx x \<and> idle_session (f x)"
  shows "wf_mgr K (upd_sess a f s)"
proof -
  have x: "s_id (f x) = s_id x" "s_ctx (f x) = s_ctx x" "idle_session (f x)" if "(a, x) \<in> set (open_sessions s)" for x
    using f that wf_mgrD(2) [OF wf] by simp_all
  have upd: "\<exists>x. (b, x) \<in> set (open_sessions s) \<and> s_ctx y = s_ctx x \<and> idle_session y"
    if "(b, y) \<in> set (upd_at a f (open_sessions s))" for b y
    using that x wf_mgrD(7) [OF wf] by (auto simp: set_upd_at split: if_splits)
  have "map (s_id \<circ> snd) (upd_at a f (open_sessions s)) = map (s_id \<circ> snd) (open_sessions s)"
    using x(1) by (auto simp: upd_at_def)
  moreover have "refs_to c (upd_at a f (open_sessions s)) = refs_to c (open_sessions s)" for c
  proof -
    have "map (s_ctx \<circ> snd) (upd_at a f (open_sessions s)) = map (s_ctx \<circ> snd) (open_sessions s)"
      using x(2) by (auto simp: upd_at_def)
    then have "length (filter (\<lambda>y. y = Some c) (map (s_ctx \<circ> snd) (upd_at a f (open_sessions s)))) =
        length (filter (\<lambda>y. y = Some c) (map (s_ctx \<circ> snd) (open_sessions s)))" by (simp only:)
    then show ?thesis by (simp add: refs_to_def filter_map comp_def case_prod_beta)
  qed
  ultimately show ?thesis
    by (intro wf_mgrI) (use wf_mgrD [OF wf] in \<open>auto dest!: upd\<close>)
qed

text \<open>A session joins, with the context of the list or with a new one; a session leaves.\<close>

lemma refs_to_append [simp]: "refs_to c (xs @ [(a, x)]) = refs_to c xs + (if s_ctx x = Some c then 1 else 0)"
  by (simp add: refs_to_def)

lemma wf_mgr_join:
  assumes wf: "wf_mgr K s" "idle_session x" "s_id x \<notin> set (map (s_id \<circ> snd) (open_sessions s))"
    and c: "s_ctx x = Some c" "c \<in> fst ` set (tee_ctxes s)"
    and s': "tee_ctxes s' = upd_at c (\<lambda>x. x\<lparr>c_ref_count := c_ref_count x + 1\<rparr>) (tee_ctxes s)"
      "open_sessions s' = open_sessions s @ [(a, x)]" "single_instance_count s' = 0" "a \<notin> fst ` set (open_sessions s)" "a \<le> tick s'"
      "tick s \<le> tick s'"
  shows "wf_mgr K s'"
proof (rule wf_mgrI)
  note D = wf_mgrD [OF wf(1)]
  have fsts: "fst ` set (tee_ctxes s') = fst ` set (tee_ctxes s)" by (metis s'(1) fst_upd_at list.set_map)
  have old: "\<exists>ctx0. (d, ctx0) \<in> set (tee_ctxes s) \<and>
      ctx = (if d = c then ctx0\<lparr>c_ref_count := c_ref_count ctx0 + 1\<rparr> else ctx0)" if "(d, ctx) \<in> set (tee_ctxes s')" for d ctx
    using that by (auto simp: s'(1) set_upd_at split: if_splits)
  show "distinct (map fst (tee_ctxes s'))" using D(1) by (simp add: s'(1))
  show "distinct (map fst (open_sessions s'))" using D(2) s'(4) by (simp add: s'(2))
  show "distinct (map (s_id \<circ> snd) (open_sessions s'))" using D(3) wf(3) by (auto simp: s'(2))
  have "map (c_uuid \<circ> snd) (tee_ctxes s') = map (c_uuid \<circ> snd) (tee_ctxes s)" by (auto simp: s'(1) upd_at_def)
  then show "distinct (map (c_uuid \<circ> snd) (tee_ctxes s'))" using D(4) by simp
  show "single_instance_count s' = 0" by (rule s'(3))
  have new: "(b, y) \<in> set (open_sessions s) \<or> b = a \<and> y = x" if "(b, y) \<in> set (open_sessions s')" for b y
    using that by (auto simp: s'(2))
  show "b \<le> tick s'" if "(b, y) \<in> set (open_sessions s')" for b y
    using new [OF that] D(6) [of b y] s'(5,6) by auto
  show "idle_session y" if "(b, y) \<in> set (open_sessions s')" for b y
    using new [OF that] D(7) [of b y] wf(2) by auto
  show "\<exists>c \<in> fst ` set (tee_ctxes s'). s_ctx y = Some c" if "(b, y) \<in> set (open_sessions s')" for b y
    using new [OF that] D(8) [of b y] c unfolding fsts by auto
  fix d ctx
  assume "(d, ctx) \<in> set (tee_ctxes s')"
  then obtain ctx0 where o: "(d, ctx0) \<in> set (tee_ctxes s)"
      "ctx = (if d = c then ctx0\<lparr>c_ref_count := c_ref_count ctx0 + 1\<rparr> else ctx0)"
    using old by blast
  show "d \<le> tick s'" using D(9) [OF o(1)] s'(6) by simp
  show "idle_ctx K ctx" using D(10) [OF o(1)] o(2) by (simp add: idle_ctx_def)
  show "c_ref_count ctx = refs_to d (open_sessions s')" using D(11) [OF o(1)] o(2) c(1) by (simp add: s'(2))
qed

lemma wf_mgr_new_ctx:
  assumes wf: "wf_mgr K s" "idle_ctx K ctx" "c_ref_count ctx = 0" "c_uuid ctx \<notin> set (map (c_uuid \<circ> snd) (tee_ctxes s))"
    and s': "tee_ctxes s' = tee_ctxes s @ [(c, ctx)]" "open_sessions s' = open_sessions s" "single_instance_count s' = 0"
      "tick s < c" "c \<le> tick s'"
  shows "wf_mgr K s'"
proof (rule wf_mgrI)
  note D = wf_mgrD [OF wf(1)]
  have c: "c \<notin> fst ` set (tee_ctxes s)" using D(9) s'(4) by force
  have none: "s_ctx x \<noteq> Some c" if "(b, x) \<in> set (open_sessions s)" for b x
    using D(8) [OF that] c by force
  show "distinct (map fst (tee_ctxes s'))" using D(1) c by (simp add: s'(1))
  show "distinct (map fst (open_sessions s'))" "distinct (map (s_id \<circ> snd) (open_sessions s'))"
    using D(2,3) by (simp_all add: s'(2))
  show "distinct (map (c_uuid \<circ> snd) (tee_ctxes s'))" using D(4) wf(4) by (simp add: s'(1))
  show "single_instance_count s' = 0" by (rule s'(3))
  show "b \<le> tick s'" "idle_session y" "\<exists>c \<in> fst ` set (tee_ctxes s'). s_ctx y = Some c"
    if "(b, y) \<in> set (open_sessions s')" for b y
    using that D(6) [of b y] D(7) [of b y] D(8) [of b y] s'(4,5) by (auto simp: s'(1,2))
  fix d x
  assume "(d, x) \<in> set (tee_ctxes s')"
  then consider "(d, x) \<in> set (tee_ctxes s)" | "d = c" "x = ctx" by (auto simp: s'(1))
  then show "d \<le> tick s'" "idle_ctx K x" "c_ref_count x = refs_to d (open_sessions s')"
  proof (atomize (full), cases)
    case 1
    then show "d \<le> tick s' \<and> idle_ctx K x \<and> c_ref_count x = refs_to d (open_sessions s')"
      using D(9-11) [OF 1] s'(2,4,5) by simp
  next
    case 2
    have "refs_to c (open_sessions s) = 0" using none by (auto simp: refs_to_def filter_empty_conv)
    then show "d \<le> tick s' \<and> idle_ctx K x \<and> c_ref_count x = refs_to d (open_sessions s')"
      using 2 wf(2,3) s'(2,5) by simp
  qed
qed

lemma refs_to_del_at:
  assumes "distinct (map fst xs)" "(a, x) \<in> set xs"
  shows "refs_to c xs = refs_to c (del_at a xs) + (if s_ctx x = Some c then 1 else 0)"
  using assms
proof (induction xs)
  case (Cons e xs)
  then show ?case
  proof (cases "fst e = a")
    case True
    then have "a \<notin> fst ` set xs" using Cons.prems(1) by simp
    then have "(a, x) \<notin> set xs" by (metis fst_conv imageI)
    then have "e = (a, x)" using Cons.prems(2) by auto
    moreover have "del_at a xs = xs" using \<open>a \<notin> fst ` set xs\<close> by (force simp: del_at_def intro!: filter_True)
    ultimately show ?thesis by (auto simp: refs_to_def del_at_def)
  next
    case False
    then have "(a, x) \<in> set xs" using Cons.prems by auto
    then show ?thesis using Cons False by (auto simp: refs_to_def del_at_def)
  qed
qed simp

lemma wf_mgr_leave:
  assumes wf: "wf_mgr K s" "sess_at a s = Some x" "s_ctx x = Some c"
    and s': "tee_ctxes s' = upd_at c (\<lambda>x. x\<lparr>c_ref_count := c_ref_count x - 1\<rparr>) (tee_ctxes s)"
      "open_sessions s' = del_at a (open_sessions s)" "single_instance_count s' = 0" "tick s \<le> tick s'"
  shows "wf_mgr K s'"
proof (rule wf_mgrI)
  note D = wf_mgrD [OF wf(1)]
  have m: "(a, x) \<in> set (open_sessions s)" using wf(2) by (rule map_of_SomeD)
  have fsts: "fst ` set (tee_ctxes s') = fst ` set (tee_ctxes s)" by (metis s'(1) fst_upd_at list.set_map)
  show "distinct (map fst (tee_ctxes s'))" using D(1) by (simp add: s'(1))
  show "distinct (map fst (open_sessions s'))" "distinct (map (s_id \<circ> snd) (open_sessions s'))"
    using D(2,3) by (simp_all add: s'(2))
  have "map (c_uuid \<circ> snd) (tee_ctxes s') = map (c_uuid \<circ> snd) (tee_ctxes s)" by (auto simp: s'(1) upd_at_def)
  then show "distinct (map (c_uuid \<circ> snd) (tee_ctxes s'))" using D(4) by simp
  show "single_instance_count s' = 0" by (rule s'(3))
  show "b \<le> tick s'" "idle_session y" "\<exists>c \<in> fst ` set (tee_ctxes s'). s_ctx y = Some c"
    if "(b, y) \<in> set (open_sessions s')" for b y
    using that D(6) [of b y] D(7) [of b y] D(8) [of b y] s'(4) unfolding fsts by (auto simp: s'(2))
  fix d ctx
  assume "(d, ctx) \<in> set (tee_ctxes s')"
  then obtain ctx0 where o: "(d, ctx0) \<in> set (tee_ctxes s)"
      "ctx = (if d = c then ctx0\<lparr>c_ref_count := c_ref_count ctx0 - 1\<rparr> else ctx0)"
    by (auto simp: s'(1) set_upd_at split: if_splits)
  show "d \<le> tick s'" using D(9) [OF o(1)] s'(4) by simp
  show "idle_ctx K ctx" using D(10) [OF o(1)] o(2) by (simp add: idle_ctx_def)
  show "c_ref_count ctx = refs_to d (open_sessions s')"
    using D(11) [OF o(1)] o(2) wf(3) refs_to_del_at [OF D(2) m, of d] by (simp add: s'(2))
qed

lemma check_client_cong: "s_clnt_id y = s_clnt_id x \<Longrightarrow> check_client y clnt = check_client x clnt"
  unfolding check_client_def by (simp only:)

text \<open>The entry points that run when a session is closed.\<close>

definition closing :: "'a mgr_scheme pseudo_ta \<Rightarrow> nat \<Rightarrow> bool \<Rightarrow> 'a mgr_scheme \<Rightarrow> 'a mgr_scheme option" where
  "closing p u final s = do {
     s \<leftarrow> (case p_close p of None \<Rightarrow> Some s | Some cls \<Rightarrow> cls u s);
     (case p_destroy p of None \<Rightarrow> Some s | Some d \<Rightarrow> if final then d s else Some s)
   }"

lemma same_mgr_trans: "same_mgr s s' \<Longrightarrow> same_mgr s' s'' \<Longrightarrow> same_mgr s s''"
  by (simp add: same_mgr_def)

lemma closing_keeps:
  assumes "p \<in> set (k_ptas K)" "closing p u final s = Some s'"
  shows "same_mgr s s'"
proof -
  obtain s1 where s1: "(case p_close p of None \<Rightarrow> Some s | Some cls \<Rightarrow> cls u s) = Some s1"
      "(case p_destroy p of None \<Rightarrow> Some s1 | Some d \<Rightarrow> if final then d s1 else Some s1) = Some s'"
    using assms(2) by (auto simp: closing_def split: Option.bind_splits)
  have "same_mgr s s1" using s1(1) close_keeps [OF assms(1)] by (auto simp: same_mgr_def split: option.splits)
  moreover have "same_mgr s1 s'"
    using s1(2) destroy_keeps [OF assms(1)] by (auto simp: same_mgr_def split: option.splits if_splits)
  ultimately show ?thesis by (rule same_mgr_trans)
qed

lemma close_run:
  assumes wf: "wf_mgr K s" and x: "sess_at a s = Some x" and clnt: "check_client x clnt = TEE_SUCCESS"
    and c: "s_ctx x = Some c" "ctx_at c s = Some ctx" "pta_of K (c_uuid ctx) = Some p" "c_flags ctx = p_flags p"
      "\<not> c_panicked ctx" "\<not> c_busy ctx" "p \<in> set (k_ptas K)" "idle_session x" "0 < c_ref_count ctx"
  shows "tee_ta_close_session K (Some a) clnt s =
    (case closing p (s_user_ctx x) (c_ref_count ctx = 1)
       (entered a c (\<lambda>x. x\<lparr>s_ref_count := 1, s_locked := True, s_cancel_time := (UINT32_MAX, UINT32_MAX)\<rparr>) s)
     of None \<Rightarrow> None
      | Some s' \<Rightarrow>
          Some (TEE_SUCCESS,
            s'\<lparr>tee_ctxes := upd_at c (\<lambda>x. x\<lparr>c_ref_count := c_ref_count x - 1\<rparr>) (tee_ctxes s),
               open_sessions := del_at a (open_sessions s), single_instance_count := 0\<rparr>))"
proof -
  let ?F = "\<lambda>x. x\<lparr>s_ref_count := 1, s_locked := True, s_cancel_time := (UINT32_MAX, UINT32_MAX)\<rparr>"
  have single: "single_instance_count s = 0" by (rule wf_mgrD(5) [OF wf])
  have F: "upd_at a (\<lambda>x. x\<lparr>s_ref_count := Suc (s_ref_count x), s_locked := True, s_cancel_time := (UINT32_MAX, UINT32_MAX)\<rparr>)
      (open_sessions s) = upd_at a ?F (open_sessions s)"
    by (rule upd_session [OF wf x]) (use c(8) in \<open>simp add: idle_session_def\<close>)
  let ?fin = "\<lambda>s. do {
      s \<leftarrow> destroy_session a s;
      s \<leftarrow> tee_ta_clear_busy c s;
      ctx \<leftarrow> ctx_at c s;
      require (c_ref_count ctx > 0);
      let keep_alive = (TA_FLAG_INSTANCE_KEEP_ALIVE \<in> c_flags ctx \<and> TA_FLAG_SINGLE_INSTANCE \<in> c_flags ctx);
      let s = upd_ctx c (\<lambda>x. x\<lparr>c_ref_count := c_ref_count x - 1\<rparr>) s;
      Some (TEE_SUCCESS,
            if c_ref_count ctx = 1 \<and> \<not> keep_alive then s\<lparr>tee_ctxes := del_at c (tee_ctxes s)\<rparr> else s)
    }"
  have flags: "TA_FLAG_SINGLE_INSTANCE \<in> p_flags p" "TA_FLAG_INSTANCE_KEEP_ALIVE \<in> p_flags p"
    using pta_flags c(7) by blast+
  have client: "check_client (?F x) clnt = TEE_SUCCESS" "check_client (x\<lparr>s_ref_count := Suc 0, s_locked := True\<rparr>) clnt = TEE_SUCCESS"
    by (subst check_client_cong [of _ x], simp_all add: clnt)+
  have R: "upd_at c (\<lambda>x. x\<lparr>c_busy := False, c_ref_count := c_ref_count x - Suc 0\<rparr>) (tee_ctxes s) =
      upd_at c (\<lambda>x. x\<lparr>c_ref_count := c_ref_count x - Suc 0\<rparr>) (tee_ctxes s)"
    by (rule upd_at_cong [OF wf_mgrD(1) [OF wf] c(2)]) (use c(6) in simp)
  have ends: "?fin s' = Some (TEE_SUCCESS,
      s'\<lparr>tee_ctxes := upd_at c (\<lambda>x. x\<lparr>c_ref_count := c_ref_count x - 1\<rparr>) (tee_ctxes s),
         open_sessions := del_at a (open_sessions s), single_instance_count := 0\<rparr>)"
    if "same_mgr (entered a c ?F s) s'" for s'
    using that c x flags single
    by (cases "TA_FLAG_CONCURRENT \<in> p_flags p"; cases s')
      (simp_all add: same_mgr_def entered_def tee_ta_clear_busy_def destroy_session_def tee_ta_unlink_session_def
        upd_ctx_def upd_sess_def idle_session_def R)
  have run: "tee_ta_close_session K (Some a) clnt s =
      closing p (s_user_ctx x) (c_ref_count ctx = 1) (entered a c ?F s) \<bind> ?fin"
    using c single x flags F client
    by (cases "TA_FLAG_CONCURRENT \<in> p_flags p")
      (simp_all add: tee_ta_close_session_def tee_ta_get_session_def find_session [OF wf x] idle_session_def
        tee_ta_set_busy_def tee_ta_try_set_busy_def set_invoke_timeout_def invoke_deadline_def
        pseudo_ta_enter_close_session_def closing_def entered_def upd_sess_def upd_ctx_def Let_def cong: option.case_cong)
  show ?thesis
  proof (cases "closing p (s_user_ctx x) (c_ref_count ctx = 1) (entered a c ?F s)")
    case (Some s')
    have "same_mgr (entered a c ?F s) s'" by (rule closing_keeps [OF c(7) Some])
    from ends [OF this] show ?thesis unfolding run Some by (simp only: Option.bind.simps option.case)
  qed (simp only: run Option.bind.simps option.case)
qed

text \<open>A session that has been registered and not yet entered: with its reference dropped the state is one between two
  calls.\<close>

definition registered :: "TEE_UUID \<Rightarrow> nat \<Rightarrow> 'a mgr_scheme \<Rightarrow> bool" where
  "registered uuid a s \<longleftrightarrow>
     (\<exists>i c ctx. sess_at a s = Some (session_zero\<lparr>s_id := i, s_ctx := Some c\<rparr>) \<and> i \<noteq> 0 \<and> ctx_at c s = Some ctx \<and>
        c_uuid ctx = uuid) \<and>
     wf_mgr K (upd_sess a (\<lambda>x. x\<lparr>s_ref_count := 0\<rparr>) s)"

lemma registeredI:
  assumes "sess_at a s = Some (session_zero\<lparr>s_id := i, s_ctx := Some c\<rparr>)" "i \<noteq> 0" "ctx_at c s = Some ctx" "c_uuid ctx = uuid"
    "wf_mgr K (upd_sess a (\<lambda>x. x\<lparr>s_ref_count := 0\<rparr>) s)"
  shows "registered uuid a s"
  using assms by (auto simp: registered_def)

lemma upd_at_append:
  assumes "a \<notin> fst ` set xs"
  shows "upd_at a f (xs @ [(a, z)]) = xs @ [(a, f z)]" "del_at a (xs @ [(a, z)]) = xs"
    "map_of (xs @ [(a, z)]) a = Some z"
proof -
  have "upd_at a f xs = xs" using assms by (intro upd_at_id) force
  then show "upd_at a f (xs @ [(a, z)]) = xs @ [(a, f z)]" by (simp add: upd_at_def)
  have "filter (\<lambda>(b, x). b \<noteq> a) xs = xs" using assms by (intro filter_True) force
  then show "del_at a (xs @ [(a, z)]) = xs" by (simp add: del_at_def)
  have "map_of xs a = None" using assms by (simp add: map_of_eq_None_iff)
  then show "map_of (xs @ [(a, z)]) a = Some z" by (simp add: map_add_def)
qed

lemma context_find:
  assumes "wf_mgr K s"
  shows "tee_ta_context_find uuid s = Some c \<Longrightarrow> \<exists>ctx. ctx_at c s = Some ctx \<and> c_uuid ctx = uuid \<and> idle_ctx K ctx"
    "tee_ta_context_find uuid s = None \<Longrightarrow> uuid \<notin> set (map (c_uuid \<circ> snd) (tee_ctxes s))"
proof -
  assume "tee_ta_context_find uuid s = Some c"
  then obtain ctx where "(c, ctx) \<in> set (tee_ctxes s)" "c_uuid ctx = uuid"
    by (auto simp: tee_ta_context_find_def find_Some_iff dest: nth_mem)
  then show "\<exists>ctx. ctx_at c s = Some ctx \<and> c_uuid ctx = uuid \<and> idle_ctx K ctx"
    using wf_mgrD(1,10) [OF assms] by auto
next
  assume "tee_ta_context_find uuid s = None"
  then show "uuid \<notin> set (map (c_uuid \<circ> snd) (tee_ctxes s))"
    by (force simp: tee_ta_context_find_def find_None_iff)
qed

lemma idle_ctx_flags:
  assumes "idle_ctx K ctx"
  shows "TA_FLAG_SINGLE_INSTANCE \<in> c_flags ctx" "TA_FLAG_MULTI_SESSION \<in> c_flags ctx"
    "TA_FLAG_INSTANCE_KEEP_ALIVE \<in> c_flags ctx"
  using assms pta_flags by (auto simp: idle_ctx_def)

lemma init_session_wf:
  assumes wf: "wf_mgr K s" and run: "tee_ta_init_session C K uuid s = Some (r, s1)"
  shows "case r of Inl e \<Rightarrow> wf_mgr K s1 | Inr a \<Rightarrow> registered uuid a s1"
proof -
  note D = wf_mgrD [OF wf]
  obtain a s0 where a: "alloc C s = (a, s0)" by (cases "alloc C s")
  then have s0: "s0 = s\<lparr>tick := tick s + 1\<rparr>" "a = 0 \<or> a = tick s + 1" by (auto simp: alloc_def split: if_splits)
  have wf0: "wf_mgr K s0" by (rule wf_mgr_cong [OF wf]) (simp_all add: s0(1))
  define i where "i = new_session_id (map (s_id \<circ> snd) (open_sessions s0))"
  show ?thesis
  proof (cases "a = 0 \<or> i = 0")
    case True
    then show ?thesis using run a wf0 by (cases "a = 0") (auto simp: tee_ta_init_session_def i_def Let_def)
  next
    case False
    have fresh: "a \<notin> fst ` set (open_sessions s)" "tick s < a" using D(6) s0(2) False by force+
    have new: "map_of (open_sessions s) a = None" using fresh(1) by (simp add: map_of_eq_None_iff)
    have i: "i \<notin> set (map (s_id \<circ> snd) (open_sessions s))" using new_session_id_fresh(1) [of "map (s_id \<circ> snd) (open_sessions s)"] False unfolding i_def s0(1) by simp
    let ?z = "session_zero\<lparr>s_id := i\<rparr>"
    let ?s = "s0\<lparr>open_sessions := open_sessions s0 @ [(a, ?z)]\<rparr>"
    have gone: "wf_mgr K (t\<lparr>open_sessions := del_at a (open_sessions t)\<rparr>)"
      if "tee_ctxes t = tee_ctxes s" "open_sessions t = open_sessions ?s" "single_instance_count t = 0" "tick s \<le> tick t" for t
      by (rule wf_mgr_cong [OF wf]) (use that D(5) fresh(1) in \<open>simp_all add: s0(1) upd_at_append\<close>)
    show ?thesis
    proof (cases "tee_ta_context_find uuid s")
      case (Some c)
      then obtain ctx where c: "ctx_at c s = Some ctx" "c_uuid ctx = uuid" "idle_ctx K ctx"
        using context_find(1) [OF wf] by blast
      have "tee_ta_context_find uuid ?s = Some c" using Some by (simp add: tee_ta_context_find_def s0(1))
      then have "tee_ta_init_session_with_context a uuid ?s = Some (TEE_SUCCESS,
          upd_sess a (\<lambda>x. x\<lparr>s_ctx := Some c\<rparr>) (upd_ctx c (\<lambda>x. x\<lparr>c_ref_count := c_ref_count x + 1\<rparr>) ?s))"
        using c(1) idle_ctx_flags [OF c(3)]
        by (simp add: tee_ta_init_session_with_context_def s0(1))
      then have r: "r = Inr a" "s1 = upd_sess a (\<lambda>x. x\<lparr>s_ctx := Some c\<rparr>) (upd_ctx c (\<lambda>x. x\<lparr>c_ref_count := c_ref_count x + 1\<rparr>) ?s)"
        using run a False by (simp_all add: tee_ta_init_session_def Let_def flip: i_def)
      have "wf_mgr K (upd_sess a (\<lambda>x. x\<lparr>s_ref_count := 0\<rparr>) s1)"
        by (rule wf_mgr_join [OF wf, where a = a and x = "?z\<lparr>s_ctx := Some c, s_ref_count := 0\<rparr>" and c = c])
          (use i False fresh(1) c(1) D(5) map_of_SomeD [OF c(1)] s0(2) in
            \<open>force simp: r(2) s0(1) upd_at_append idle_session_def session_zero_def\<close>)+
      then have "registered uuid a s1"
        by (intro registeredI [where i = i and c = c and ctx = "ctx\<lparr>c_ref_count := c_ref_count ctx + 1\<rparr>"])
          (use c(1,2) new False in \<open>simp_all add: r(2) s0(1) map_add_def\<close>)
      then show ?thesis by (simp add: r(1))
    next
      case None
      then have init: "tee_ta_init_session_with_context a uuid ?s = Some (TEE_ERROR_ITEM_NOT_FOUND, ?s)"
        by (simp add: tee_ta_init_session_with_context_def tee_ta_context_find_def s0(1))
      show ?thesis
      proof (cases "pta_of K uuid")
        case None
        then have "r = Inl (k_other K uuid)" "s1 = ?s\<lparr>open_sessions := del_at a (open_sessions ?s)\<rparr>"
          using run a False init
          by (auto simp: tee_ta_init_session_def tee_ta_init_pseudo_ta_session_def Let_def require_def simp flip: i_def
            split: Option.bind_splits if_splits)
        then show ?thesis using gone [of ?s] D(5) by (simp add: s0(1))
      next
        case (Some p)
        note p = pta_of_member [OF Some]
        obtain c s2 where c: "alloc C ?s = (c, s2)" by (cases "alloc C ?s")
        then have s2: "s2 = ?s\<lparr>tick := tick ?s + 1\<rparr>" "c = 0 \<or> c = tick s + 2" by (auto simp: alloc_def s0(1) split: if_splits)
        show ?thesis
        proof (cases "c = 0")
          case True
          then have "r = Inl TEE_ERROR_OUT_OF_MEMORY" "s1 = s2\<lparr>open_sessions := del_at a (open_sessions s2)\<rparr>"
            using run a False init Some c
            by (auto simp: tee_ta_init_session_def tee_ta_init_pseudo_ta_session_def Let_def simp flip: i_def)
          then show ?thesis using gone [of s2] D(5) by (simp add: s0(1) s2(1))
        next
          case c0: False
          let ?ctx = "\<lparr>c_uuid = p_uuid p, c_flags = p_flags p, c_panicked = False, c_ref_count = 0, c_busy = False\<rparr>"
          have r: "r = Inr a" "s1 = upd_sess a (\<lambda>x. x\<lparr>s_ctx := Some c\<rparr>)
              (s2\<lparr>tee_ctxes := tee_ctxes s2 @ [(c, ?ctx\<lparr>c_ref_count := 1\<rparr>)]\<rparr>)"
            using run a False init Some c c0
            by (auto simp: tee_ta_init_session_def tee_ta_init_pseudo_ta_session_def Let_def simp flip: i_def)
          have cfresh: "c \<notin> fst ` set (tee_ctxes s)" using D(9) s2(2) c0 by force
          let ?t = "s\<lparr>tick := c, tee_ctxes := tee_ctxes s @ [(c, ?ctx)]\<rparr>"
          have wft: "wf_mgr K ?t"
            by (rule wf_mgr_new_ctx [OF wf, where ctx = ?ctx and c = c])
              (use context_find(2) [OF wf \<open>tee_ta_context_find uuid s = None\<close>] p D(5) s2(2) c0 in \<open>auto simp: idle_ctx_def\<close>)
          have "wf_mgr K (upd_sess a (\<lambda>x. x\<lparr>s_ref_count := 0\<rparr>) s1)"
            by (rule wf_mgr_join [OF wft, where a = a and x = "?z\<lparr>s_ctx := Some c, s_ref_count := 0\<rparr>" and c = c])
              (use i False fresh(1) D(5) s0(2) s2(2) c0 cfresh in
                \<open>force simp: r(2) s0(1) s2(1) upd_at_append idle_session_def session_zero_def\<close>)+
          then have "registered uuid a s1" using map_of_eq_None_iff [THEN iffD2, OF cfresh]
            by (intro registeredI [where i = i and c = c and ctx = "?ctx\<lparr>c_ref_count := 1\<rparr>"])
              (use p new False cfresh in \<open>simp_all add: r(2) s0(1) s2(1) map_add_def\<close>)
          then show ?thesis by (simp add: r(1))
        qed
      qed
    qed
  qed
qed

end

end
