(* ===== verification/Tee_Session_Inv.thy ===== *)
theory Tee_Session_Inv
  imports Tee_Session
begin

text \<open>
  The session manager between two calls: opening a session runs the entry points of the pseudo trusted application
  once, in the order of the code, and every call of the client library leads from a well-formed state to a well-formed
  state. The proofs are in the locale of \<^verbatim>\<open>Tee_Session\<close>, for any conforming table of pseudo trusted applications.
\<close>

section \<open>Steps of a trusted application\<close>

text \<open>Steps that allocate or draw random numbers and change nothing else of the device.\<close>

definition only_tick :: "'a tee_scheme \<Rightarrow> 'a tee_scheme \<Rightarrow> bool" where
  "only_tick t t' \<longleftrightarrow> t' = t\<lparr>tick := tick t'\<rparr> \<and> tick t \<le> tick t'"

lemma only_tick_refl [simp]: "only_tick t t"
  by (simp add: only_tick_def)

lemma only_tick_upd [simp]: "only_tick t (t\<lparr>tick := n\<rparr>) \<longleftrightarrow> tick t \<le> n"
  by (simp add: only_tick_def)

lemma only_tick_trans [trans]: "only_tick t t' \<Longrightarrow> only_tick t' t'' \<Longrightarrow> only_tick t t''"
  unfolding only_tick_def by (metis (no_types, lifting) le_trans tee.surjective tee.update_convs(1))

lemma only_tick_alloc: "alloc C t = (a, t') \<Longrightarrow> only_tick t t'"
  by (auto simp: alloc_def)

lemma only_tick_alloc_snd [simp]: "only_tick t (snd (alloc C t))"
  by (simp add: alloc_def)

lemma only_tick_allocs: "allocs C n t = (ok, t') \<Longrightarrow> only_tick t t'"
proof (induction n arbitrary: t)
  case (Suc n)
  then show ?case
    by (auto simp: split_beta split: if_splits intro: only_tick_trans [OF only_tick_alloc_snd])
qed simp

lemma same_mgr_only_tick: "only_tick s s' \<Longrightarrow> same_mgr s s'"
  unfolding only_tick_def same_mgr_def by (metis mgr.select_convs mgr.surjective tee.update_convs(1) tee.surjective)

lemma copy_param_only_tick: "copy_param C ps s = (res, s') \<Longrightarrow> only_tick s s'"
  by (auto simp: copy_param_def split: prod.splits if_splits dest: only_tick_alloc)

text \<open>A handle stands for an open session of the caller with an application, which keeps a context for it.\<close>

definition live_session :: "('a mgr_scheme) kernel \<Rightarrow> 32 word \<Rightarrow> TEE_UUID \<Rightarrow> nat \<Rightarrow> 'a mgr_scheme \<Rightarrow> bool" where
  "live_session K h uuid u s \<longleftrightarrow>
     (\<exists>a x c ctx. find (\<lambda>(a, x). s_id x = h) (open_sessions s) = Some (a, x) \<and> s_clnt_id x = self_identity K \<and>
        s_user_ctx x = u \<and> s_ctx x = Some c \<and> ctx_at c s = Some ctx \<and> c_uuid ctx = uuid)"

text \<open>The identifiers in use, and states that differ in the lists of the session manager only.\<close>

definition ids :: "'a mgr_scheme \<Rightarrow> 32 word list" where
  "ids s = map (s_id \<circ> snd) (open_sessions s)"

definition mgr_eq :: "'a mgr_scheme \<Rightarrow> 'a mgr_scheme \<Rightarrow> bool" where
  "mgr_eq s s' \<longleftrightarrow> s' = s\<lparr>tee_ctxes := tee_ctxes s', open_sessions := open_sessions s', single_instance_count := single_instance_count s'\<rparr>"

text \<open>What a trusted application does: it calls the client library, or works without it.\<close>

inductive api_step :: "env \<Rightarrow> ('a mgr_scheme) kernel \<Rightarrow> 'a mgr_scheme \<Rightarrow> 'a mgr_scheme \<Rightarrow> bool" for C K where
  api_open: "TEE_OpenTASession C K uuid to ps s = Some (res, h, out, s') \<Longrightarrow> api_step C K s s'"
| api_close: "TEE_CloseTASession K h s = Some s' \<Longrightarrow> api_step C K s s'"
| api_invoke: "TEE_InvokeTACommand C K h to cmd ps s = Some (res, out, s') \<Longrightarrow> api_step C K s s'"
| api_own: "same_mgr s s' \<Longrightarrow> api_step C K s s'"

section \<open>Runs of the session manager\<close>

context pseudo_tas
begin

text \<open>The entry points that run when a session is opened: the result, the parameters and the new context of the
  session, if it was written.\<close>

definition entry_open ::
    "'a mgr_scheme pseudo_ta \<Rightarrow> tee_param list \<Rightarrow> bool \<Rightarrow> 'a mgr_scheme \<Rightarrow> (TEE_Result \<times> out_param list \<times> nat option \<times> 'a mgr_scheme) option" where
  "entry_open p ps fresh s = do {
     (res, s) \<leftarrow> (case p_create p of
                   Some create \<Rightarrow> if fresh then create s else Some (TEE_SUCCESS, s)
                 | None \<Rightarrow> Some (TEE_SUCCESS, s));
     if res \<noteq> TEE_SUCCESS then Some (res, [], None, s)
     else (case p_open p of
             None \<Rightarrow> Some (TEE_SUCCESS, [], None, s)
           | Some opn \<Rightarrow> do { (res, out, u, s) \<leftarrow> opn ps s; Some (res, out, Some u, s) })
   }"

lemma entry_open_keeps:
  assumes "p \<in> set (k_ptas K)" "entry_open p ps fresh s = Some (res, out, u, s')"
  shows "same_mgr s s'"
proof -
  obtain res1 s1 where s1: "(case p_create p of
        Some create \<Rightarrow> if fresh then create s else Some (TEE_SUCCESS, s) | None \<Rightarrow> Some (TEE_SUCCESS, s)) = Some (res1, s1)"
      "(if res1 \<noteq> TEE_SUCCESS then Some (res1, [], None, s1)
        else (case p_open p of
               None \<Rightarrow> Some (TEE_SUCCESS, [], None, s1)
             | Some opn \<Rightarrow> do { (res, out, u, s) \<leftarrow> opn ps s1; Some (res, out, Some u, s) })) = Some (res, out, u, s')"
    using assms(2) by (auto simp: entry_open_def split: Option.bind_splits)
  have "same_mgr s s1"
    using s1(1) create_keeps [OF assms(1)] by (auto simp: same_mgr_def split: option.splits if_splits)
  moreover have "same_mgr s1 s'"
    using s1(2) open_keeps [OF assms(1)] by (auto simp: same_mgr_def split: option.splits if_splits Option.bind_splits)
  ultimately show ?thesis by (rule same_mgr_trans)
qed

text \<open>A registered session, with the facts its opening uses.\<close>

lemma registered_facts:
  assumes "registered uuid a s"
  obtains i c ctx p where "sess_at a s = Some (session_zero\<lparr>s_id := i, s_ctx := Some c\<rparr>)" "i \<noteq> 0" "ctx_at c s = Some ctx"
    "c_uuid ctx = uuid" "\<not> c_busy ctx" "\<not> c_panicked ctx" "p \<in> set (k_ptas K)" "pta_of K uuid = Some p"
    "c_flags ctx = p_flags p" "wf_mgr K (upd_sess a (\<lambda>x. x\<lparr>s_ref_count := 0\<rparr>) s)"
proof -
  obtain i c ctx where r: "sess_at a s = Some (session_zero\<lparr>s_id := i, s_ctx := Some c\<rparr>)" "i \<noteq> 0" "ctx_at c s = Some ctx"
      "c_uuid ctx = uuid" and wf: "wf_mgr K (upd_sess a (\<lambda>x. x\<lparr>s_ref_count := 0\<rparr>) s)"
    using assms by (auto simp: registered_def)
  let ?s = "upd_sess a (\<lambda>x. x\<lparr>s_ref_count := 0\<rparr>) s"
  have "(c, ctx) \<in> set (tee_ctxes ?s)" using map_of_SomeD [OF r(3)] by simp
  from wf_mgrD(10) [OF wf this] obtain p where "p \<in> set (k_ptas K)" "c_uuid ctx = p_uuid p" "c_flags ctx = p_flags p"
      "\<not> c_busy ctx" "\<not> c_panicked ctx"
    by (auto simp: idle_ctx_def)
  then show ?thesis using that [OF r(1-4) _ _ _ _ _ wf] pta_of_uuid r(4) by simp
qed

text \<open>The state after a session was opened.\<close>

definition opened :: "nat \<Rightarrow> TEE_Identity \<Rightarrow> nat \<times> nat \<Rightarrow> nat option \<Rightarrow> 'a mgr_scheme \<Rightarrow> 'a mgr_scheme \<Rightarrow> 'a mgr_scheme" where
  "opened a clnt_id T u s s' = s'\<lparr>tee_ctxes := tee_ctxes s,
     open_sessions := upd_at a (\<lambda>x. x\<lparr>s_ref_count := 0, s_clnt_id := clnt_id, s_cancel_time := T,
       s_err_origin := Some TEE_ORIGIN_TRUSTED_APP, s_user_ctx := (case u of None \<Rightarrow> s_user_ctx x | Some v \<Rightarrow> v)\<rparr>) (open_sessions s),
     single_instance_count := 0\<rparr>"

lemma opened_wf:
  assumes "registered uuid a s" "tick s \<le> tick s'"
  shows "wf_mgr K (opened a clnt_id T u s s')"
proof -
  obtain i c where r: "sess_at a s = Some (session_zero\<lparr>s_id := i, s_ctx := Some c\<rparr>)" "i \<noteq> 0"
      and wf: "wf_mgr K (upd_sess a (\<lambda>x. x\<lparr>s_ref_count := 0\<rparr>) s)"
    using registered_facts [OF assms(1)] by metis
  let ?f = "\<lambda>x. x\<lparr>s_clnt_id := clnt_id, s_cancel_time := T, s_err_origin := Some TEE_ORIGIN_TRUSTED_APP,
       s_user_ctx := (case u of None \<Rightarrow> s_user_ctx x | Some v \<Rightarrow> v)\<rparr>"
  have "wf_mgr K (upd_sess a ?f (upd_sess a (\<lambda>x. x\<lparr>s_ref_count := 0\<rparr>) s))"
    by (rule wf_mgr_upd_sess [OF wf]) (use r in \<open>auto simp: idle_session_def session_zero_def\<close>)
  then show ?thesis
    by (rule wf_mgr_cong) (use assms(2) wf_mgrD(5) [OF wf] in \<open>simp_all add: opened_def cong: option.case_cong\<close>)
qed

lemma open_run:
  assumes init: "tee_ta_init_session C K uuid s0 = Some (Inr a, s)"
    and x: "sess_at a s = Some (session_zero\<lparr>s_id := i, s_ctx := Some c\<rparr>)" "i \<noteq> 0"
    and c: "ctx_at c s = Some ctx" "c_uuid ctx = uuid" "\<not> c_busy ctx" "\<not> c_panicked ctx" "p \<in> set (k_ptas K)"
      "pta_of K uuid = Some p" "c_flags ctx = p_flags p"
    and wf: "wf_mgr K (upd_sess a (\<lambda>x. x\<lparr>s_ref_count := 0\<rparr>) s)"
    and T: "T = invoke_deadline (k_time K (tick s)) to"
  shows "tee_ta_open_session C K uuid clnt_id to ps s0 =
    (case entry_open p ps (c_ref_count ctx = 1)
       (entered a c (\<lambda>x. x\<lparr>s_clnt_id := clnt_id, s_cancel_time := T, s_err_origin := Some TEE_ORIGIN_TRUSTED_APP\<rparr>) s)
     of None \<Rightarrow> None
      | Some (res, out, u, s') \<Rightarrow>
          if res = TEE_SUCCESS then Some (res, Some TEE_ORIGIN_TRUSTED_APP, a, out, opened a clnt_id T u s s')
          else map_option (\<lambda>(_, s''). (res, None, a, out, s''))
                 (tee_ta_close_session K (Some a) KERN_IDENTITY (opened a clnt_id T u s s')))"
proof -
  let ?F = "\<lambda>x. x\<lparr>s_clnt_id := clnt_id, s_cancel_time := T, s_err_origin := Some TEE_ORIGIN_TRUSTED_APP\<rparr>"
  let ?x = "session_zero\<lparr>s_id := i, s_ctx := Some c\<rparr>"
  have single: "single_instance_count s = 0" using wf_mgrD(5) [OF wf] by simp
  have dist: "distinct (map fst (open_sessions s))" using wf_mgrD(2) [OF wf] by simp
  have zero: "s_ref_count session_zero = 1" "\<not> s_locked session_zero" "s_user_ctx session_zero = 0"
    by (simp_all add: session_zero_def)
  have busy: "upd_at c (\<lambda>x. x\<lparr>c_busy := False\<rparr>) (tee_ctxes s) = tee_ctxes s"
    using busy_done [OF wf, of c] by simp
  let ?user = "\<lambda>u s. (case u of None \<Rightarrow> s | Some v \<Rightarrow> upd_sess a (\<lambda>x. x\<lparr>s_user_ctx := v\<rparr>) s)"
  let ?fin = "\<lambda>(res, out, u, s). do {
      s \<leftarrow> tee_ta_clear_busy c (?user u s);
      ctx \<leftarrow> ctx_at c s;
      x \<leftarrow> sess_at a s;
      s \<leftarrow> tee_ta_put_session a s;
      (freed, s) \<leftarrow> (if c_panicked ctx \<or> res \<noteq> TEE_SUCCESS
                    then do { (_, s) \<leftarrow> tee_ta_close_session K (Some a) KERN_IDENTITY s; Some (True, s) }
                    else Some (False, s));
      Some (res, if c_panicked ctx then Some TEE_ORIGIN_TEE else if freed then None else s_err_origin x, a, out, s)
    }"
  have G: "upd_at a (\<lambda>x. x\<lparr>s_clnt_id := clnt_id, s_cancel_time := T, s_err_origin := Some TEE_ORIGIN_TRUSTED_APP,
        s_user_ctx := v x, s_locked := False, s_ref_count := s_ref_count x - Suc 0\<rparr>) (open_sessions s) =
      upd_at a (\<lambda>x. x\<lparr>s_ref_count := 0, s_clnt_id := clnt_id, s_cancel_time := T,
        s_err_origin := Some TEE_ORIGIN_TRUSTED_APP, s_user_ctx := v x\<rparr>) (open_sessions s)" for v
    by (rule upd_at_cong [OF dist x(1)]) (simp add: session_zero_def)
  have put: "(case u of None \<Rightarrow> upd_at a (\<lambda>x. x\<lparr>s_clnt_id := clnt_id, s_cancel_time := T,
        s_err_origin := Some TEE_ORIGIN_TRUSTED_APP, s_locked := False, s_ref_count := s_ref_count x - Suc 0\<rparr>) (open_sessions s)
      | Some v \<Rightarrow> upd_at a (\<lambda>x. x\<lparr>s_clnt_id := clnt_id, s_cancel_time := T,
        s_err_origin := Some TEE_ORIGIN_TRUSTED_APP, s_user_ctx := v, s_locked := False,
        s_ref_count := s_ref_count x - Suc 0\<rparr>) (open_sessions s)) =
      upd_at a (\<lambda>x. x\<lparr>s_ref_count := 0, s_clnt_id := clnt_id, s_cancel_time := T,
        s_err_origin := Some TEE_ORIGIN_TRUSTED_APP, s_user_ctx := (case u of None \<Rightarrow> s_user_ctx x | Some v \<Rightarrow> v)\<rparr>) (open_sessions s)" for u
    using G [of s_user_ctx] G [of "\<lambda>_. the u"] by (cases u) simp_all
  have flags: "TA_FLAG_SINGLE_INSTANCE \<in> p_flags p" using pta_flags(1) [OF c(5)] .
  have ends: "?fin (res, out, u, s') =
      (if res = TEE_SUCCESS then Some (res, Some TEE_ORIGIN_TRUSTED_APP, a, out, opened a clnt_id T u s s')
       else map_option (\<lambda>(_, s''). (res, None, a, out, s''))
                 (tee_ta_close_session K (Some a) KERN_IDENTITY (opened a clnt_id T u s s')))"
    if "same_mgr (entered a c ?F s) s'" for res out u s'
  proof -
    have "do { s \<leftarrow> tee_ta_clear_busy c (?user u s'); tee_ta_put_session a s } = Some (opened a clnt_id T u s s')"
      using that c x single flags zero put [of u]
      by (cases "TA_FLAG_CONCURRENT \<in> p_flags p"; cases u; cases s')
        (simp_all add: same_mgr_def entered_def tee_ta_clear_busy_def tee_ta_put_session_def busy opened_def
          upd_ctx_def upd_sess_def)
    moreover have "\<exists>s1 x1. tee_ta_clear_busy c (?user u s') = Some s1 \<and> ctx_at c s1 = Some ctx \<and> sess_at a s1 = Some x1 \<and>
        s_err_origin x1 = Some TEE_ORIGIN_TRUSTED_APP"
      using that c x single flags zero busy
      by (cases "TA_FLAG_CONCURRENT \<in> p_flags p"; cases u; cases s')
        (simp_all add: same_mgr_def entered_def tee_ta_clear_busy_def busy upd_ctx_def upd_sess_def)
    ultimately show ?thesis using c(4)
      by (cases "tee_ta_close_session K (Some a) KERN_IDENTITY (opened a clnt_id T u s s')") auto
  qed
  have run: "tee_ta_open_session C K uuid clnt_id to ps s0 = entry_open p ps (c_ref_count ctx = 1) (entered a c ?F s) \<bind> ?fin"
  proof -
    have enter: "pseudo_ta_enter_open_session K a ps (entered a c (\<lambda>x. x\<lparr>s_clnt_id := clnt_id, s_cancel_time := T\<rparr>) s) =
        do { (res, out, u, s) \<leftarrow> entry_open p ps (c_ref_count ctx = 1) (entered a c ?F s); Some (res, out, ?user u s) }"
      using c x
      by (cases "TA_FLAG_CONCURRENT \<in> p_flags p")
        (simp_all add: pseudo_ta_enter_open_session_def entry_open_def entered_def upd_sess_def upd_ctx_def Let_def
          case_prod_beta split: option.splits Option.bind_splits)
    show ?thesis using init c x single flags enter
      by (cases "TA_FLAG_CONCURRENT \<in> p_flags p")
        (simp add: tee_ta_open_session_def tee_ta_try_set_busy_def set_invoke_timeout_def entered_def upd_sess_def
            upd_ctx_def Let_def case_prod_beta flip: T,
          rule Option.bind_cong [OF refl], simp add: case_prod_beta)+
  qed
  show ?thesis
  proof (cases "entry_open p ps (c_ref_count ctx = 1) (entered a c ?F s)")
    case (Some r)
    obtain res out u s' where r: "r = (res, out, u, s')" by (cases r)
    have "same_mgr (entered a c ?F s) s'" using entry_open_keeps [OF c(5)] Some r by blast
    from ends [OF this, of res out u] show ?thesis
      unfolding run Some r by (simp only: Option.bind.simps option.case prod.case)
  qed (simp only: run Option.bind.simps option.case)
qed

text \<open>Opening and closing lead from a state between two calls to another.\<close>

lemma close_wf:
  assumes wf: "wf_mgr K s" and run: "tee_ta_close_session K csess clnt s = Some (r, s')"
  shows "wf_mgr K s'"
proof (cases csess)
  case (Some a)
  then obtain x where x: "sess_at a s = Some x" using run by (auto simp: tee_ta_close_session_def split: Option.bind_splits)
  obtain c ctx p where f: "s_ctx x = Some c" "ctx_at c s = Some ctx" "idle_session x" "\<not> c_busy ctx" "\<not> c_panicked ctx"
      "p \<in> set (k_ptas K)" "pta_of K (c_uuid ctx) = Some p" "c_flags ctx = p_flags p" "0 < c_ref_count ctx"
    by (rule session_facts [OF wf x])
  show ?thesis
  proof (cases "check_client x clnt = TEE_SUCCESS")
    case True
    note run' = close_run [OF wf x True f(1,2,7,8,5,4,6,3,9)]
    let ?e = "entered a c (\<lambda>x. x\<lparr>s_ref_count := 1, s_locked := True, s_cancel_time := (UINT32_MAX, UINT32_MAX)\<rparr>) s"
    obtain s1 where s1: "closing p (s_user_ctx x) (c_ref_count ctx = 1) ?e = Some s1"
        "s' = s1\<lparr>tee_ctxes := upd_at c (\<lambda>x. x\<lparr>c_ref_count := c_ref_count x - 1\<rparr>) (tee_ctxes s),
                open_sessions := del_at a (open_sessions s), single_instance_count := 0\<rparr>"
      using run run' Some by (auto split: option.splits)
    have "tick ?e \<le> tick s1" using closing_keeps [OF f(6) s1(1)] by (simp add: same_mgr_def)
    then have "tick s \<le> tick s1" using f(2) by (simp add: entered_def split: if_splits)
    then show ?thesis by (intro wf_mgr_leave [OF wf x f(1)]) (simp_all add: s1(2))
  next
    case False
    have "check_client (x\<lparr>s_ref_count := Suc (s_ref_count x), s_locked := True\<rparr>) clnt = check_client x clnt"
      by (rule check_client_cong) simp
    then have "s' = upd_sess a (\<lambda>x. x\<lparr>s_locked := False\<rparr>) s"
      using run Some x False f(3)
      by (auto simp: tee_ta_close_session_def tee_ta_get_session_def find_session [OF wf x] tee_ta_put_session_def Let_def
        upd_sess_def require_def idle_session_def split: if_splits)
    then show ?thesis
      using wf_mgrD(7) [OF wf] by (auto intro!: wf_mgr_upd_sess [OF wf] dest!: map_of_SomeD simp: idle_session_def)
  qed
qed (use run wf in \<open>simp add: tee_ta_close_session_def\<close>)

text \<open>A session that was opened belongs to the one who opened it, and its context is that of the application.\<close>

definition session_of :: "nat \<Rightarrow> TEE_UUID \<Rightarrow> TEE_Identity \<Rightarrow> 'a mgr_scheme \<Rightarrow> bool" where
  "session_of a uuid clnt_id s \<longleftrightarrow>
     (\<exists>x c ctx. sess_at a s = Some x \<and> s_clnt_id x = clnt_id \<and> s_ctx x = Some c \<and> ctx_at c s = Some ctx \<and> c_uuid ctx = uuid)"

lemma open_wf:
  assumes wf: "wf_mgr K s" and run: "tee_ta_open_session C K uuid clnt_id to ps s = Some (res, orig, a, out, s')"
  shows "wf_mgr K s' \<and> (res = TEE_SUCCESS \<longrightarrow> session_of a uuid clnt_id s')"
proof -
  obtain r s1 where init: "tee_ta_init_session C K uuid s = Some (r, s1)"
    using run by (auto simp: tee_ta_open_session_def split: Option.bind_splits)
  note init_wf = init_session_wf [OF wf init]
  show ?thesis
  proof (cases r)
    case (Inl e)
    have "e \<noteq> TEE_SUCCESS" using init unfolding Inl tee_ta_init_session_def
      by (auto simp: Let_def require_def split: prod.splits if_splits Option.bind_splits)
    then show ?thesis using init_wf run init Inl by (auto simp: tee_ta_open_session_def)
  next
    case (Inr b)
    then have reg: "registered uuid b s1" using init_wf by simp
    from registered_facts [OF this] obtain i c ctx p where f: "sess_at b s1 = Some (session_zero\<lparr>s_id := i, s_ctx := Some c\<rparr>)"
        "i \<noteq> 0" "ctx_at c s1 = Some ctx" "c_uuid ctx = uuid" "\<not> c_busy ctx" "\<not> c_panicked ctx" "p \<in> set (k_ptas K)"
        "pta_of K uuid = Some p" "c_flags ctx = p_flags p" "wf_mgr K (upd_sess b (\<lambda>x. x\<lparr>s_ref_count := 0\<rparr>) s1)" .
    define T where "T = invoke_deadline (k_time K (tick s1)) to"
    let ?e = "entered b c (\<lambda>x. x\<lparr>s_clnt_id := clnt_id, s_cancel_time := T, s_err_origin := Some TEE_ORIGIN_TRUSTED_APP\<rparr>) s1"
    note run' = open_run [OF init [unfolded Inr] f T_def, of clnt_id ps]
    obtain res1 out1 u s2 where e: "entry_open p ps (c_ref_count ctx = 1) ?e = Some (res1, out1, u, s2)"
      using run run' by (auto split: option.splits)
    have "tick ?e \<le> tick s2" using entry_open_keeps [OF f(7) e] by (simp add: same_mgr_def)
    then have "tick s1 \<le> tick s2" using f(3) by (simp add: entered_def split: if_splits)
    note wf2 = opened_wf [OF reg this, of clnt_id T u]
    show ?thesis
    proof (cases "res1 = TEE_SUCCESS")
      case True
      then have "a = b" "s' = opened b clnt_id T u s1 s2" using run run' e by auto
      then show ?thesis using wf2 f by (auto simp: session_of_def opened_def)
    next
      case False
      then obtain q where "tee_ta_close_session K (Some b) KERN_IDENTITY (opened b clnt_id T u s1 s2) = Some (q, s')" "res = res1"
        using run run' e by auto
      then show ?thesis using close_wf [OF wf2] False by simp
    qed
  qed
qed

lemma invoke_wf:
  assumes wf: "wf_mgr K s" and run: "syscall_invoke_ta_command K h to cmd ps s = Some (res, orig, out, s')"
  shows "wf_mgr K s'"
proof (cases "find (\<lambda>(a, x). s_id x = h) (open_sessions s)")
  case None
  then show ?thesis using run wf by (simp add: syscall_invoke_ta_command_def tee_ta_get_session_def)
next
  case (Some e)
  obtain a x where e: "e = (a, x)" by (cases e)
  note found = Some [unfolded e]
  note x = found_session [OF wf found]
  obtain c ctx p where f: "s_ctx x = Some c" "ctx_at c s = Some ctx" "idle_session x" "\<not> c_busy ctx" "\<not> c_panicked ctx"
      "p \<in> set (k_ptas K)" "pta_of K (c_uuid ctx) = Some p" "c_flags ctx = p_flags p"
    by (rule session_facts [OF wf x(1)])
  show ?thesis
  proof (cases "s_clnt_id x = self_identity K")
    case True
    define T where "T = invoke_deadline (k_time K (tick s)) to"
    note run' = invoke_run [OF wf found True f(1,2,7,8,5,4,6,3) T_def, of cmd ps]
    let ?e = "entered a c (\<lambda>x. x\<lparr>s_ref_count := 1, s_locked := True, s_cancel_time := T,
      s_err_origin := Some TEE_ORIGIN_TRUSTED_APP\<rparr>) s"
    let ?G = "\<lambda>x. x\<lparr>s_cancel_time := T, s_err_origin := Some TEE_ORIGIN_TRUSTED_APP\<rparr>"
    obtain r o1 s1 where s1: "p_invoke p (s_user_ctx x) cmd ps ?e = Some (r, o1, s1)"
        "s' = s1\<lparr>tee_ctxes := tee_ctxes s, open_sessions := upd_at a ?G (open_sessions s), single_instance_count := 0\<rparr>"
      using run run' by (auto split: option.splits)
    have "tick ?e \<le> tick s1" using invoke_keeps [OF f(6) s1(1)] by (simp add: same_mgr_def)
    then have t: "tick s \<le> tick s1" using f(2) by (simp add: entered_def split: if_splits)
    have "wf_mgr K (upd_sess a ?G s)"
      by (rule wf_mgr_upd_sess [OF wf]) (use x(1) f(3) in \<open>simp add: idle_session_def\<close>)
    then show ?thesis by (rule wf_mgr_cong) (use t wf_mgrD(5) [OF wf] in \<open>simp_all add: s1(2)\<close>)
  next
    case False
    then have "s' = upd_sess a (\<lambda>x. x\<lparr>s_locked := False\<rparr>) s"
      using run x f(3)
      by (auto simp: syscall_invoke_ta_command_def tee_ta_invoke_command_def tee_ta_get_session_def found
        tee_ta_put_session_def Let_def upd_sess_def require_def check_client_def idle_session_def split: if_splits)
    then show ?thesis
      using wf_mgrD(7) [OF wf] by (auto intro!: wf_mgr_upd_sess [OF wf] dest!: map_of_SomeD simp: idle_session_def)
  qed
qed

lemma same_mgr_wf: "same_mgr s s' \<Longrightarrow> wf_mgr K s \<Longrightarrow> wf_mgr K s'"
  using wf_mgr_cong by (auto simp: same_mgr_def)

lemma only_tick_wf: "only_tick s s' \<Longrightarrow> wf_mgr K s \<Longrightarrow> wf_mgr K s'"
  by (rule same_mgr_wf) (rule same_mgr_only_tick)

lemma TEE_OpenTASession_wf:
  assumes wf: "wf_mgr K s" and run: "TEE_OpenTASession C K uuid to ps s = Some (res, h, out, s')"
  shows "wf_mgr K s' \<and> (res = TEE_SUCCESS \<longrightarrow> (\<exists>u. live_session K h uuid u s'))"
proof -
  obtain r1 s1 where s1: "copy_param C ps s = (r1, s1)" by (cases "copy_param C ps s")
  have wf1: "wf_mgr K s1" using only_tick_wf [OF copy_param_only_tick [OF s1] wf] .
  obtain ok s2 where s2: "allocs C 3 s1 = (ok, s2)" by (cases "allocs C 3 s1")
  have wf2: "wf_mgr K s2" using only_tick_wf [OF only_tick_allocs [OF s2] wf1] .
  show ?thesis
  proof (cases "r1 = TEE_SUCCESS \<and> ok")
    case True
    then obtain res3 orig a out3 s3 where o: "tee_ta_open_session C K uuid (self_identity K) to ps s2 = Some (res3, orig, a, out3, s3)"
      using run s1 s2 by (auto simp: TEE_OpenTASession_def syscall_open_ta_session_def split: Option.bind_splits)
    have e: "res = res3" "s' = s3"
      using run s1 s2 True o
      by (auto simp: TEE_OpenTASession_def syscall_open_ta_session_def split: Option.bind_splits if_splits)
    from open_wf [OF wf2 o] have wf3: "wf_mgr K s3" and live: "res = TEE_SUCCESS \<Longrightarrow> session_of a uuid (self_identity K) s3"
      using e by simp_all
    have "live_session K h uuid (s_user_ctx (the (sess_at a s3))) s'" if ok: "res = TEE_SUCCESS"
    proof -
      obtain x c ctx where x: "sess_at a s3 = Some x" "s_clnt_id x = self_identity K" "s_ctx x = Some c" "ctx_at c s3 = Some ctx"
          "c_uuid ctx = uuid"
        using live [OF ok] by (auto simp: session_of_def)
      have "h = s_id x"
        using run s1 s2 True o e ok x(1)
        by (auto simp: TEE_OpenTASession_def syscall_open_ta_session_def split: Option.bind_splits if_splits)
      then show ?thesis using find_session [OF wf3 x(1)] x e(2) by (auto simp: live_session_def)
    qed
    then show ?thesis using wf3 e by blast
  next
    case False
    then have "s' \<in> {s1, s2}" "res \<noteq> TEE_SUCCESS"
      using run s1 s2
      by (auto simp: TEE_OpenTASession_def syscall_open_ta_session_def copy_param_def split: if_splits prod.splits)
    then show ?thesis using wf1 wf2 by auto
  qed
qed

lemma TEE_CloseTASession_wf: "wf_mgr K s \<Longrightarrow> TEE_CloseTASession K h s = Some s' \<Longrightarrow> wf_mgr K s'"
  by (auto simp: TEE_CloseTASession_def syscall_close_ta_session_def dest: close_wf split: if_splits Option.bind_splits)

lemma TEE_InvokeTACommand_wf:
  assumes wf: "wf_mgr K s" and run: "TEE_InvokeTACommand C K h to cmd ps s = Some (res, out, s')"
  shows "wf_mgr K s'"
proof -
  obtain r1 s1 where s1: "copy_param C ps s = (r1, s1)" by (cases "copy_param C ps s")
  have wf1: "wf_mgr K s1" using only_tick_wf [OF copy_param_only_tick [OF s1] wf] .
  show ?thesis using run s1 wf1
    by (auto simp: TEE_InvokeTACommand_def dest!: invoke_wf [OF wf1] split: if_splits Option.bind_splits)
qed

lemma api_step_wf:
  assumes "wf_mgr K s" "api_step C K s s'"
  shows "wf_mgr K s'"
  using assms(2)
proof cases
  case api_open
  then show ?thesis using TEE_OpenTASession_wf [OF assms(1)] by blast
next
  case api_close
  then show ?thesis using TEE_CloseTASession_wf [OF assms(1)] by blast
next
  case api_invoke
  then show ?thesis using TEE_InvokeTACommand_wf [OF assms(1)] by blast
next
  case api_own
  then show ?thesis using same_mgr_wf [OF _ assms(1)] by blast
qed

text \<open>A command on a session that is open: the application gets the command and its context of the session, and the
  caller gets its result. The entry point runs in a state that differs from the state of the call in the counter of
  allocations and in the lists of the session manager only.\<close>

lemma find_upd_at:
  assumes "\<And>x. s_id (f x) = s_id x"
  shows "find (\<lambda>(a, x). s_id x = h) (upd_at a f xs) =
    map_option (\<lambda>(b, y). (b, if b = a then f y else y)) (find (\<lambda>(a, x). s_id x = h) xs)"
  using assms by (induction xs) (auto simp: upd_at_def)

lemma live_session_upd:
  assumes wf: "wf_mgr K s" and live: "live_session K h uuid u s"
    and s': "tee_ctxes s' = tee_ctxes s" "open_sessions s' = upd_at a f (open_sessions s)"
    and f: "\<And>x. s_id (f x) = s_id x" "\<And>x. s_clnt_id (f x) = s_clnt_id x" "\<And>x. s_user_ctx (f x) = s_user_ctx x"
      "\<And>x. s_ctx (f x) = s_ctx x"
  shows "live_session K h uuid u s'"
proof -
  obtain b x c ctx where x: "find (\<lambda>(a, x). s_id x = h) (open_sessions s) = Some (b, x)" "s_clnt_id x = self_identity K"
      "s_user_ctx x = u" "s_ctx x = Some c" "ctx_at c s = Some ctx" "c_uuid ctx = uuid"
    using live by (auto simp: live_session_def)
  have "find (\<lambda>(a, x). s_id x = h) (open_sessions s') = Some (b, if b = a then f x else x)"
    using x(1) by (simp add: s'(2) find_upd_at [OF f(1)])
  then show ?thesis unfolding live_session_def using x(2-6) f
    by (intro exI [of _ b] exI [of _ "if b = a then f x else x"] exI [of _ c] exI [of _ ctx]) (simp add: s'(1))
qed

lemma TEE_InvokeTACommand_run:
  assumes wf: "wf_mgr K s" and live: "live_session K h uuid u s" and p: "pta_of K uuid = Some p" and oom: "no_oom C"
  shows "\<exists>s1 f. mgr_eq (s\<lparr>tick := tick s1\<rparr>) s1 \<and> tick s \<le> tick s1 \<and>
    TEE_InvokeTACommand C K h to cmd ps s =
      (case p_invoke p u cmd ps s1 of
         None \<Rightarrow> None
       | Some (res, out, s2) \<Rightarrow> Some (res, update_out_params ps (invoke_outputs ps res out), f s2)) \<and>
    (\<forall>res out s2. p_invoke p u cmd ps s1 = Some (res, out, s2) \<longrightarrow> mgr_eq s2 (f s2) \<and> wf_mgr K (f s2) \<and>
      (\<forall>h uuid u. live_session K h uuid u s \<longrightarrow> live_session K h uuid u (f s2)))"
proof -
  define n where "n = (if list_ex is_memref ps then tick s + 1 else tick s)"
  have cp: "copy_param C ps s = (TEE_SUCCESS, s\<lparr>tick := n\<rparr>)" using oom by (simp add: copy_param_def n_def)
  let ?t = "s\<lparr>tick := n\<rparr>"
  have n: "tick s \<le> n" by (simp add: n_def)
  have wft: "wf_mgr K ?t" by (rule wf_mgr_cong [OF wf]) (simp_all add: n)
  obtain a x c ctx where x: "find (\<lambda>(a, x). s_id x = h) (open_sessions ?t) = Some (a, x)" "s_clnt_id x = self_identity K"
      "s_user_ctx x = u" "s_ctx x = Some c" "ctx_at c ?t = Some ctx" "c_uuid ctx = uuid"
    using live by (auto simp: live_session_def)
  have m: "p \<in> set (k_ptas K)" using pta_of_member [OF p] by simp
  note fs = found_session [OF wft x(1)]
  obtain ctx' p' where f: "ctx_at c ?t = Some ctx'" "idle_session x" "\<not> c_busy ctx'" "\<not> c_panicked ctx'"
      "pta_of K (c_uuid ctx') = Some p'" "c_flags ctx' = p_flags p'"
    using session_facts [OF wft fs(1)] x(4) by (metis option.inject)
  have e: "ctx' = ctx" "p' = p" using f x p by simp_all
  have g: "pta_of K (c_uuid ctx) = Some p" "c_flags ctx = p_flags p" "\<not> c_panicked ctx" "\<not> c_busy ctx"
    using f x(6) p e by simp_all
  define T where "T = invoke_deadline (k_time K (tick ?t)) to"
  let ?e = "entered a c (\<lambda>x. x\<lparr>s_ref_count := 1, s_locked := True, s_cancel_time := T, s_err_origin := Some TEE_ORIGIN_TRUSTED_APP\<rparr>) ?t"
  let ?G = "\<lambda>x. x\<lparr>s_cancel_time := T, s_err_origin := Some TEE_ORIGIN_TRUSTED_APP\<rparr>"
  let ?f = "\<lambda>s'. s'\<lparr>tee_ctxes := tee_ctxes ?t, open_sessions := upd_at a ?G (open_sessions ?t), single_instance_count := 0\<rparr>"
  note run = invoke_run [OF wft x(1,2,4,5) g m f(2) T_def, of cmd ps, unfolded x(3)]
  have tick: "tick ?e = n" "mgr_eq ?t ?e" using x(5) by (simp_all add: entered_def mgr_eq_def upd_sess_def upd_ctx_def)
  have A: "TEE_InvokeTACommand C K h to cmd ps s =
      (case p_invoke p u cmd ps ?e of
         None \<Rightarrow> None
       | Some (res, out, s2) \<Rightarrow> Some (res, update_out_params ps (invoke_outputs ps res out), ?f s2))"
    using run by (simp add: TEE_InvokeTACommand_def cp split: option.split)
  have B: "mgr_eq s2 (?f s2)" "wf_mgr K (?f s2)" "live_session K h' uuid' u' s \<Longrightarrow> live_session K h' uuid' u' (?f s2)"
    if "p_invoke p u cmd ps ?e = Some (res, out, s2)" for res out s2 h' uuid' u'
  proof -
    show "mgr_eq s2 (?f s2)" by (simp add: mgr_eq_def)
    have "tick ?e \<le> tick s2" using invoke_keeps [OF m that] by (simp add: same_mgr_def)
    then have "n \<le> tick s2" unfolding tick(1) .
    moreover have "wf_mgr K (upd_sess a ?G ?t)"
      by (rule wf_mgr_upd_sess [OF wft]) (use fs(1) f(2) in \<open>simp add: idle_session_def\<close>)
    ultimately show "wf_mgr K (?f s2)"
      by (elim wf_mgr_cong) (use wf_mgrD(5) [OF wft] in simp_all)
    show "live_session K h' uuid' u' (?f s2)" if "live_session K h' uuid' u' s"
      by (rule live_session_upd [OF wf that, where a = a and f = ?G]) simp_all
  qed
  show ?thesis
  proof (rule exI [of _ ?e], rule exI [of _ ?f], intro conjI allI impI)
    show "mgr_eq (s\<lparr>tick := tick ?e\<rparr>) ?e" unfolding tick(1) by (rule tick(2))
    show "tick s \<le> tick ?e" unfolding tick(1) by (rule n)
  qed (fact A, (rule B, assumption+)+)
qed

text \<open>A session can be opened with every application of the table, as long as there is memory and an identifier is free:
  the entry points run in a state that differs in the counter of allocations and in the lists of the session manager
  only, and so does the state afterwards from the one they leave. The sessions that were open stay open.\<close>

lemma live_session_append:
  assumes "live_session K h uuid u s" "open_sessions s' = open_sessions s @ xs"
    "\<And>c ctx. ctx_at c s = Some ctx \<Longrightarrow> \<exists>ctx'. ctx_at c s' = Some ctx' \<and> c_uuid ctx' = c_uuid ctx"
  shows "live_session K h uuid u s'"
proof -
  obtain b x c ctx where x: "find (\<lambda>(a, x). s_id x = h) (open_sessions s) = Some (b, x)" "s_clnt_id x = self_identity K"
      "s_user_ctx x = u" "s_ctx x = Some c" "ctx_at c s = Some ctx" "c_uuid ctx = uuid"
    using assms(1) by (auto simp: live_session_def)
  have "find (\<lambda>(a, x). s_id x = h) (xs1 @ xs2) = Some e" if "find (\<lambda>(a, x). s_id x = h) xs1 = Some e" for xs1 xs2 e
    using that by (induction xs1) (auto split: if_splits)
  then have "find (\<lambda>(a, x). s_id x = h) (open_sessions s') = Some (b, x)" using x(1) by (simp add: assms(2))
  then show ?thesis using assms(3) [OF x(5)] x(2-6) unfolding live_session_def by auto
qed

lemma init_session_ok:
  assumes wf: "wf_mgr K s" and p: "pta_of K uuid = Some p" and oom: "no_oom C" and i: "new_session_id (ids s) \<noteq> 0"
  shows "\<exists>a s1. tee_ta_init_session C K uuid s = Some (Inr a, s1) \<and> mgr_eq (s\<lparr>tick := tick s1\<rparr>) s1 \<and> tick s \<le> tick s1 \<and>
    (\<forall>h uuid u. live_session K h uuid u s \<longrightarrow> live_session K h uuid u s1)"
proof -
  define a where "a = tick s + 1"
  define z where "z = session_zero\<lparr>s_id := new_session_id (ids s)\<rparr>"
  have fresh: "a \<notin> fst ` set (open_sessions s)" using wf_mgrD(6) [OF wf] by (fastforce simp: a_def)
  have pu: "p_uuid p = uuid" using pta_of_member [OF p] by simp
  let ?s = "s\<lparr>tick := a, open_sessions := open_sessions s @ [(a, z)]\<rparr>"
  have al: "alloc C s = (a, s\<lparr>tick := a\<rparr>)" "a \<noteq> 0" using oom by (simp_all add: a_def)
  have zi: "session_zero\<lparr>s_id := new_session_id (map (s_id \<circ> snd) (open_sessions s))\<rparr> = z"
      "new_session_id (map (s_id \<circ> snd) (open_sessions s)) \<noteq> 0"
    using i by (simp_all add: z_def ids_def)
  show ?thesis
  proof (cases "tee_ta_context_find uuid s")
    case (Some c)
    then obtain ctx where c: "ctx_at c s = Some ctx" "c_uuid ctx = uuid" "idle_ctx K ctx"
      using context_find(1) [OF wf] by blast
    let ?s1 = "upd_sess a (\<lambda>x. x\<lparr>s_ctx := Some c\<rparr>) (upd_ctx c (\<lambda>x. x\<lparr>c_ref_count := c_ref_count x + 1\<rparr>) ?s)"
    have "tee_ta_context_find uuid ?s = Some c" using Some by (simp add: tee_ta_context_find_def)
    then have "tee_ta_init_session_with_context a uuid ?s = Some (TEE_SUCCESS, ?s1)"
      using c(1) idle_ctx_flags [OF c(3)] by (simp add: tee_ta_init_session_with_context_def)
    then have run: "tee_ta_init_session C K uuid s = Some (Inr a, ?s1)"
      using al zi by (simp add: tee_ta_init_session_def Let_def)
    have "open_sessions ?s1 = open_sessions s @ [(a, z\<lparr>s_ctx := Some c\<rparr>)]" using fresh by (simp add: upd_at_append)
    then have L: "live_session K h uuid' u s \<Longrightarrow> live_session K h uuid' u ?s1" for h uuid' u
      by (intro live_session_append [of h uuid' u s ?s1]) auto
    have M: "mgr_eq (s\<lparr>tick := tick ?s1\<rparr>) ?s1" by (simp add: mgr_eq_def upd_sess_def upd_ctx_def)
    have N: "tick s \<le> tick ?s1" by (simp add: a_def)
    show ?thesis by (rule exI [of _ a], rule exI [of _ ?s1], intro conjI allI impI run M N L)
  next
    case None
    then have "tee_ta_context_find uuid ?s = None" by (simp add: tee_ta_context_find_def)
    then have w: "tee_ta_init_session_with_context a uuid ?s = Some (TEE_ERROR_ITEM_NOT_FOUND, ?s)"
      by (simp add: tee_ta_init_session_with_context_def)
    define c where "c = a + 1"
    define ctx where "ctx = \<lparr>c_uuid = p_uuid p, c_flags = p_flags p, c_panicked = False, c_ref_count = 1, c_busy = False\<rparr>"
    let ?s1 = "upd_sess a (\<lambda>x. x\<lparr>s_ctx := Some c\<rparr>) (?s\<lparr>tick := c, tee_ctxes := tee_ctxes s @ [(c, ctx)]\<rparr>)"
    have "tee_ta_init_pseudo_ta_session C K uuid a ?s = (TEE_SUCCESS, ?s1)"
      using p oom by (simp add: tee_ta_init_pseudo_ta_session_def c_def ctx_def)
    then have run: "tee_ta_init_session C K uuid s = Some (Inr a, ?s1)"
      using al zi w by (simp add: tee_ta_init_session_def Let_def)
    have O: "open_sessions ?s1 = open_sessions s @ [(a, z\<lparr>s_ctx := Some c\<rparr>)]" using fresh by (simp add: upd_at_append)
    have "c \<notin> fst ` set (tee_ctxes s)" using wf_mgrD(9) [OF wf] by (fastforce simp: a_def c_def)
    then have "ctx_at c s = None" by (simp add: map_of_eq_None_iff)
    then have X: "ctx_at d s = Some ctx' \<Longrightarrow> ctx_at d ?s1 = Some ctx'" for d ctx' by (auto simp: map_add_def)
    have L: "live_session K h uuid' u s \<Longrightarrow> live_session K h uuid' u ?s1" for h uuid' u
      by (rule live_session_append [OF _ O]) (assumption, use X in blast)
    have M: "mgr_eq (s\<lparr>tick := tick ?s1\<rparr>) ?s1" by (simp add: mgr_eq_def upd_sess_def)
    have N: "tick s \<le> tick ?s1" by (simp add: a_def c_def)
    show ?thesis by (rule exI [of _ a], rule exI [of _ ?s1], intro conjI allI impI run M N L)
  qed
qed

lemma mgr_eq_trans: "mgr_eq s s' \<Longrightarrow> mgr_eq s' s'' \<Longrightarrow> mgr_eq s s''"
  unfolding mgr_eq_def by (cases s; cases s'; cases s'') simp

lemma mgr_eq_tick: "mgr_eq s s' \<Longrightarrow> mgr_eq (s\<lparr>tick := n\<rparr>) (s'\<lparr>tick := n\<rparr>)"
  unfolding mgr_eq_def by (cases s; cases s') simp

lemma TEE_OpenTASession_run:
  assumes wf: "wf_mgr K s" and p: "pta_of K uuid = Some p" and oom: "no_oom C" and i: "new_session_id (ids s) \<noteq> 0"
  shows "\<exists>s1 fresh f. mgr_eq (s\<lparr>tick := tick s1\<rparr>) s1 \<and> tick s \<le> tick s1 \<and>
    (\<forall>out u s2. entry_open p ps fresh s1 = Some (TEE_SUCCESS, out, u, s2) \<longrightarrow>
      (\<exists>h. TEE_OpenTASession C K uuid to ps s = Some (TEE_SUCCESS, h, update_out_params ps out, f u s2) \<and>
         h \<noteq> 0 \<and> live_session K h uuid (case u of None \<Rightarrow> 0 | Some v \<Rightarrow> v) (f u s2)) \<and>
      mgr_eq s2 (f u s2) \<and> wf_mgr K (f u s2) \<and>
      (\<forall>h uuid u'. live_session K h uuid u' s \<longrightarrow> live_session K h uuid u' (f u s2)))"
proof -
  define n where "n = (if list_ex is_memref ps then tick s + 1 else tick s)"
  have cp: "copy_param C ps s = (TEE_SUCCESS, s\<lparr>tick := n\<rparr>)" using oom by (simp add: copy_param_def n_def)
  let ?t = "s\<lparr>tick := n + 3\<rparr>"
  have n: "tick s \<le> n" by (simp add: n_def)
  have wft: "wf_mgr K ?t" by (rule wf_mgr_cong [OF wf]) (use n in simp_all)
  have "new_session_id (ids ?t) \<noteq> 0" using i by (simp add: ids_def)
  from init_session_ok [OF wft p oom this] obtain a s0 where init: "tee_ta_init_session C K uuid ?t = Some (Inr a, s0)"
    and eq0: "mgr_eq (s\<lparr>tick := tick s0\<rparr>) s0" "n + 3 \<le> tick s0"
    and live0: "\<And>h uuid u. live_session K h uuid u ?t \<Longrightarrow> live_session K h uuid u s0"
    by auto
  have reg: "registered uuid a s0" using init_session_wf [OF wft init] by simp
  from registered_facts [OF this] obtain j c ctx p' where f: "sess_at a s0 = Some (session_zero\<lparr>s_id := j, s_ctx := Some c\<rparr>)"
      "j \<noteq> 0" "ctx_at c s0 = Some ctx" "c_uuid ctx = uuid" "\<not> c_busy ctx" "\<not> c_panicked ctx" "p' \<in> set (k_ptas K)"
      "pta_of K uuid = Some p'" "c_flags ctx = p_flags p'" "wf_mgr K (upd_sess a (\<lambda>x. x\<lparr>s_ref_count := 0\<rparr>) s0)" .
  have pp: "p' = p" using f(8) p by simp
  define T where "T = invoke_deadline (k_time K (tick s0)) to"
  let ?clnt = "self_identity K"
  let ?e = "entered a c (\<lambda>x. x\<lparr>s_clnt_id := ?clnt, s_cancel_time := T, s_err_origin := Some TEE_ORIGIN_TRUSTED_APP\<rparr>) s0"
  let ?f = "\<lambda>u s2. opened a ?clnt T u s0 s2"
  note run = open_run [OF init f T_def, of ?clnt ps, unfolded pp]
  have tick: "tick ?e = tick s0" using f(3) by (simp add: entered_def)
  have "mgr_eq s0 ?e" using f(3) by (simp add: entered_def mgr_eq_def upd_sess_def upd_ctx_def)
  then have eqe: "mgr_eq (s\<lparr>tick := tick s0\<rparr>) ?e" by (rule mgr_eq_trans [OF eq0(1)])
  have res: "TEE_OpenTASession C K uuid to ps s = Some (TEE_SUCCESS, j, update_out_params ps out, ?f u s2)"
      "live_session K j uuid (case u of None \<Rightarrow> 0 | Some v \<Rightarrow> v) (?f u s2)" "mgr_eq s2 (?f u s2)" "wf_mgr K (?f u s2)"
      "live_session K h' uuid' u' s \<Longrightarrow> live_session K h' uuid' u' (?f u s2)"
    if e: "entry_open p ps (c_ref_count ctx = 1) ?e = Some (TEE_SUCCESS, out, u, s2)" for out u s2 h' uuid' u'
  proof -
    have t2: "tick s0 \<le> tick s2" using entry_open_keeps [OF f(7) [unfolded pp] e] tick by (simp add: same_mgr_def)
    show wf2: "wf_mgr K (?f u s2)" by (rule opened_wf [OF reg t2])
    let ?x = "session_zero\<lparr>s_id := j, s_ctx := Some c, s_ref_count := 0, s_clnt_id := ?clnt, s_cancel_time := T,
      s_err_origin := Some TEE_ORIGIN_TRUSTED_APP, s_user_ctx := (case u of None \<Rightarrow> 0 | Some v \<Rightarrow> v)\<rparr>"
    have x: "sess_at a (?f u s2) = Some ?x" using f(1) by (cases u) (simp_all add: opened_def session_zero_def)
    have o: "tee_ta_open_session C K uuid ?clnt to ps ?t =
        Some (TEE_SUCCESS, Some TEE_ORIGIN_TRUSTED_APP, a, out, ?f u s2)"
      using run e by simp
    show "TEE_OpenTASession C K uuid to ps s = Some (TEE_SUCCESS, j, update_out_params ps out, ?f u s2)"
      using o x oom by (simp add: TEE_OpenTASession_def cp syscall_open_ta_session_def)
    show "mgr_eq s2 (?f u s2)" by (simp add: mgr_eq_def opened_def)
    have c2: "ctx_at c (?f u s2) = Some ctx" using f(3) by (simp add: opened_def)
    show "live_session K j uuid (case u of None \<Rightarrow> 0 | Some v \<Rightarrow> v) (?f u s2)"
      using find_session [OF wf2 x] c2 f(4) unfolding live_session_def
      by (intro exI [of _ a] exI [of _ ?x] exI [of _ c] exI [of _ ctx]) simp
    assume "live_session K h' uuid' u' s"
    then have "live_session K h' uuid' u' s0" by (intro live0) (simp add: live_session_def)
    then obtain b y d ctx' where y: "find (\<lambda>(a, x). s_id x = h') (open_sessions s0) = Some (b, y)" "s_clnt_id y = ?clnt"
      "s_user_ctx y = u'" "s_ctx y = Some d" "ctx_at d s0 = Some ctx'" "c_uuid ctx' = uuid'"
      by (auto simp: live_session_def)
    have "(b, y) \<in> set (open_sessions s0)" using y(1) by (auto simp: find_Some_iff dest: nth_mem)
    moreover have "distinct (map fst (open_sessions s0))" using wf_mgrD(2) [OF f(10)] by simp
    ultimately have "sess_at b s0 = Some y" by simp
    then have "b \<noteq> a" using f(1) y(2) by (auto simp: session_zero_def self_identity_def)
    then have "find (\<lambda>(a, x). s_id x = h') (open_sessions (?f u s2)) = Some (b, y)"
      using y(1) by (simp add: opened_def find_upd_at)
    then show "live_session K h' uuid' u' (?f u s2)" using y(2-6) unfolding live_session_def
      by (intro exI [of _ b] exI [of _ y] exI [of _ d] exI [of _ ctx']) (simp add: opened_def)
  qed
  show ?thesis
  proof (rule exI [of _ ?e], rule exI [of _ "c_ref_count ctx = 1"], rule exI [of _ ?f], intro conjI allI impI)
    show "mgr_eq (s\<lparr>tick := tick ?e\<rparr>) ?e" unfolding tick by (rule eqe)
    show "tick s \<le> tick ?e" using n eq0(2) unfolding tick by simp
    show "\<exists>h. TEE_OpenTASession C K uuid to ps s = Some (TEE_SUCCESS, h, update_out_params ps out, ?f u s2) \<and>
         h \<noteq> 0 \<and> live_session K h uuid (case u of None \<Rightarrow> 0 | Some v \<Rightarrow> v) (?f u s2)"
      if "entry_open p ps (c_ref_count ctx = 1) ?e = Some (TEE_SUCCESS, out, u, s2)" for out u s2
      by (intro exI [of _ j] conjI res(1,2) [OF that] f(2))
  qed (rule res, assumption+)+
qed

text \<open>The same for entry points whose result is known.\<close>

lemma TEE_OpenTASession_ok:
  assumes "wf_mgr K s" "pta_of K uuid = Some p" "no_oom C" "new_session_id (ids s) \<noteq> 0"
    and body: "\<And>s1 fresh. mgr_eq (s\<lparr>tick := tick s1\<rparr>) s1 \<Longrightarrow> tick s \<le> tick s1 \<Longrightarrow>
      entry_open p ps fresh s1 = Some (TEE_SUCCESS, out s1, u, g s1)"
  obtains s1 h s' where "mgr_eq (s\<lparr>tick := tick s1\<rparr>) s1" "tick s \<le> tick s1"
    "TEE_OpenTASession C K uuid to ps s = Some (TEE_SUCCESS, h, update_out_params ps (out s1), s')" "h \<noteq> 0"
    "live_session K h uuid (case u of None \<Rightarrow> 0 | Some v \<Rightarrow> v) s'" "mgr_eq (g s1) s'" "wf_mgr K s'"
    "\<And>h uuid u. live_session K h uuid u s \<Longrightarrow> live_session K h uuid u s'"
  using TEE_OpenTASession_run [OF assms(1-4), of ps to]
proof (elim exE conjE)
  fix s1 fresh f
  assume s1: "mgr_eq (s\<lparr>tick := tick s1\<rparr>) s1" "tick s \<le> tick s1"
    and all: "\<forall>out u s2. entry_open p ps fresh s1 = Some (TEE_SUCCESS, out, u, s2) \<longrightarrow>
      (\<exists>h. TEE_OpenTASession C K uuid to ps s = Some (TEE_SUCCESS, h, update_out_params ps out, f u s2) \<and>
         h \<noteq> 0 \<and> live_session K h uuid (case u of None \<Rightarrow> 0 | Some v \<Rightarrow> v) (f u s2)) \<and>
      mgr_eq s2 (f u s2) \<and> wf_mgr K (f u s2) \<and>
      (\<forall>h uuid u'. live_session K h uuid u' s \<longrightarrow> live_session K h uuid u' (f u s2))"
  from all [rule_format, OF body [OF s1, of fresh]] show thesis
    by (elim exE conjE) (rule that [OF s1], assumption+, blast)
qed

lemma TEE_InvokeTACommand_ok:
  assumes "wf_mgr K s" "live_session K h uuid u s" "pta_of K uuid = Some p" "no_oom C"
    and body: "\<And>s1. mgr_eq (s\<lparr>tick := tick s1\<rparr>) s1 \<Longrightarrow> tick s \<le> tick s1 \<Longrightarrow> p_invoke p u cmd ps s1 = Some (res, out s1, g s1)"
  obtains s1 s' where "mgr_eq (s\<lparr>tick := tick s1\<rparr>) s1" "tick s \<le> tick s1"
    "TEE_InvokeTACommand C K h to cmd ps s =
      Some (res, update_out_params ps (invoke_outputs ps res (out s1)), s')"
    "mgr_eq (g s1) s'" "wf_mgr K s'" "\<And>h uuid u. live_session K h uuid u s \<Longrightarrow> live_session K h uuid u s'"
  using TEE_InvokeTACommand_run [OF assms(1-4), of to cmd ps]
proof (elim exE conjE)
  fix s1 f
  assume s1: "mgr_eq (s\<lparr>tick := tick s1\<rparr>) s1" "tick s \<le> tick s1"
    and run: "TEE_InvokeTACommand C K h to cmd ps s =
      (case p_invoke p u cmd ps s1 of
         None \<Rightarrow> None
       | Some (res, out, s2) \<Rightarrow> Some (res, update_out_params ps (invoke_outputs ps res out), f s2))"
    and all: "\<forall>res out s2. p_invoke p u cmd ps s1 = Some (res, out, s2) \<longrightarrow> mgr_eq s2 (f s2) \<and> wf_mgr K (f s2) \<and>
      (\<forall>h uuid u. live_session K h uuid u s \<longrightarrow> live_session K h uuid u (f s2))"
  note b = body [OF s1]
  from all [rule_format, OF b] show thesis
    by (elim conjE) (rule that [OF s1 run [unfolded b option.case prod.case]], assumption+, blast)
qed

text \<open>A handle that is closed is not found any more.\<close>

lemma close_forgets:
  assumes wf: "wf_mgr K s" and h: "h \<noteq> 0" and run: "TEE_CloseTASession K h s = Some s'"
  shows "find (\<lambda>(a, x). s_id x = h) (open_sessions s') = None"
proof -
  obtain s1 where close: "tee_ta_close_session K (tee_ta_find_session h s) (CLIENT (self_identity K)) s = Some (TEE_SUCCESS, s')"
    using run h by (auto simp: TEE_CloseTASession_def syscall_close_ta_session_def require_def split: Option.bind_splits if_splits)
  then obtain a x where found: "find (\<lambda>(a, x). s_id x = h) (open_sessions s) = Some (a, x)" "tee_ta_find_session h s = Some a"
    by (cases "find (\<lambda>(a, x). s_id x = h) (open_sessions s)") (auto simp: tee_ta_find_session_def tee_ta_close_session_def)
  note x = found_session [OF wf found(1)]
  obtain c ctx p where f: "s_ctx x = Some c" "ctx_at c s = Some ctx" "idle_session x" "\<not> c_busy ctx" "\<not> c_panicked ctx"
      "p \<in> set (k_ptas K)" "pta_of K (c_uuid ctx) = Some p" "c_flags ctx = p_flags p" "0 < c_ref_count ctx"
    by (rule session_facts [OF wf x(1)])
  have "check_client x (CLIENT (self_identity K)) = TEE_SUCCESS"
  proof (rule ccontr)
    assume bad: "check_client x (CLIENT (self_identity K)) \<noteq> TEE_SUCCESS"
    have "check_client (x\<lparr>s_ref_count := Suc (s_ref_count x), s_locked := True\<rparr>) (CLIENT (self_identity K)) =
        check_client x (CLIENT (self_identity K))"
      by (rule check_client_cong) simp
    then show False
      using close bad x f(3)
      by (auto simp: found(2) tee_ta_close_session_def tee_ta_get_session_def find_session [OF wf x(1)] Let_def upd_sess_def
        require_def idle_session_def split: if_splits Option.bind_splits)
  qed
  from close_run [OF wf x(1) this f(1,2,7,8,5,4,6,3,9)] close
  have "open_sessions s' = del_at a (open_sessions s)" by (auto simp: found(2) split: option.splits)
  moreover have "s_id y \<noteq> h" if "(b, y) \<in> set (open_sessions s)" "b \<noteq> a" for b y
    using distinct_snd_inj [OF wf_mgrD(3) [OF wf] x(3) that(1)] x(2) that(2) by blast
  ultimately show ?thesis by (simp add: find_None_iff) blast
qed

end

end
