(* ===== verification/Tee_Socket.thy ===== *)
theory Tee_Socket
  imports Tee_Session_Inv
begin

text \<open>
  Sockets of a trusted application: the interface of the client library (\<^verbatim>\<open>tee_tcpudp_socket.c\<close>), its calls of the
  socket pseudo trusted application (\<^verbatim>\<open>tee_socket_pta.c\<close>) and that application (\<^verbatim>\<open>core/tee/socket.c\<close>), which passes each
  request to the normal world. What the normal world answers is a parameter, a function of the request and of a state
  of its own. The table of pseudo trusted applications has the attestation service and the socket application; the
  locale of the session manager is interpreted on it.
\<close>

section \<open>Data\<close>

text \<open>The requests to the normal world: instance, then the arguments.\<close>

datatype socket_rpc =
    OPTEE_RPC_SOCKET_OPEN nat nat nat nat bytes
  | OPTEE_RPC_SOCKET_CLOSE nat nat
  | OPTEE_RPC_SOCKET_CLOSE_ALL nat
  | OPTEE_RPC_SOCKET_SEND nat nat bytes nat
  | OPTEE_RPC_SOCKET_RECV nat nat nat nat
  | OPTEE_RPC_SOCKET_IOCTL nat nat bytes nat

text \<open>The answer: the result, the value and the size that come back in the parameters, and the shared memory.\<close>

record rpc_reply =
  r_res :: TEE_Result
  r_value :: nat
  r_size :: nat
  r_shm :: "nat \<Rightarrow> byte"

text \<open>\<^verbatim>\<open>struct socket_ctx\<close>.\<close>

record socket_ctx =
  sc_handle :: nat
  sc_proto_error :: TEE_Result

text \<open>The state of the device: the attestation service, the static session handle and the socket structures of the
  trusted application, and the normal world.\<close>

record 'w watz = mgr +
  w_pta :: pta
  w_sess :: "32 word"
  w_socks :: "nat \<Rightarrow> socket_ctx option"
  w_net :: 'w

text \<open>The normal world, the identifier of the calling user trusted application (\<open>None\<close> for a caller that is none),
  and the rest of the kernel.\<close>

record 'w platform =
  q_rpc :: "socket_rpc \<Rightarrow> 'w \<Rightarrow> (rpc_reply \<times> 'w) option"
  q_instance :: "nat option"
  q_other :: "TEE_UUID \<Rightarrow> TEE_Result"
  q_time :: "nat \<Rightarrow> (nat \<times> nat) option"
  q_self :: TEE_UUID

section \<open>The socket pseudo trusted application\<close>

definition PTA_SOCKET_UUID :: TEE_UUID where
  "PTA_SOCKET_UUID = (0x3b996a7d, 0x2c2b, 0x4a49, [0xa8, 0x96, 0xe1, 0xfb, 0x57, 0x66, 0xd2, 0xf4])"

abbreviation (input) PTA_SOCKET_OPEN :: nat where "PTA_SOCKET_OPEN \<equiv> 1"
abbreviation (input) PTA_SOCKET_CLOSE :: nat where "PTA_SOCKET_CLOSE \<equiv> 2"
abbreviation (input) PTA_SOCKET_SEND :: nat where "PTA_SOCKET_SEND \<equiv> 3"
abbreviation (input) PTA_SOCKET_RECV :: nat where "PTA_SOCKET_RECV \<equiv> 4"
abbreviation (input) PTA_SOCKET_IOCTL :: nat where "PTA_SOCKET_IOCTL \<equiv> 5"

definition thread_rpc_cmd :: "'w platform \<Rightarrow> socket_rpc \<Rightarrow> ('w, 'b) watz_scheme \<Rightarrow> (rpc_reply \<times> ('w, 'b) watz_scheme) option" where
  "thread_rpc_cmd Q cmd s = do { (r, w) \<leftarrow> q_rpc Q cmd (w_net s); Some (r, s\<lparr>w_net := w\<rparr>) }"

definition socket_open ::
    "env \<Rightarrow> 'w platform \<Rightarrow> nat \<Rightarrow> tee_param list \<Rightarrow> ('w, 'b) watz_scheme \<Rightarrow> (TEE_Result \<times> out_param list \<times> ('w, 'b) watz_scheme) option" where
  "socket_open C Q instance_id params s =
     (case params of
        [VALUE_INPUT ip_vers port, MEMREF_INPUT addr, VALUE_INPUT protocol _, VALUE_OUTPUT] \<Rightarrow>
          (case alloc C s of (va, s) \<Rightarrow>
             if va = 0 then Some (TEE_ERROR_OUT_OF_MEMORY, [], s)
             else do {
               (r, s) \<leftarrow> thread_rpc_cmd Q (OPTEE_RPC_SOCKET_OPEN instance_id port protocol ip_vers addr) s;
               Some (r_res r,
                     if r_res r = TEE_SUCCESS then [OUT_NONE, OUT_NONE, OUT_NONE, OUT_VALUE (r_value r mod 2 ^ 32) 0] else [],
                     s)
             })
      | _ \<Rightarrow> Some (TEE_ERROR_BAD_PARAMETERS, [], s))"

definition socket_close ::
    "'w platform \<Rightarrow> nat \<Rightarrow> tee_param list \<Rightarrow> ('w, 'b) watz_scheme \<Rightarrow> (TEE_Result \<times> out_param list \<times> ('w, 'b) watz_scheme) option" where
  "socket_close Q instance_id params s =
     (case params of
        [VALUE_INPUT handle _, PARAM_NONE, PARAM_NONE, PARAM_NONE] \<Rightarrow> do {
          (r, s) \<leftarrow> thread_rpc_cmd Q (OPTEE_RPC_SOCKET_CLOSE instance_id handle) s;
          Some (r_res r, [], s)
        }
      | _ \<Rightarrow> Some (TEE_ERROR_BAD_PARAMETERS, [], s))"

definition socket_send ::
    "env \<Rightarrow> 'w platform \<Rightarrow> nat \<Rightarrow> tee_param list \<Rightarrow> ('w, 'b) watz_scheme \<Rightarrow> (TEE_Result \<times> out_param list \<times> ('w, 'b) watz_scheme) option" where
  "socket_send C Q instance_id params s =
     (case params of
        [VALUE_INPUT handle timeout, MEMREF_INPUT buf, VALUE_OUTPUT, PARAM_NONE] \<Rightarrow>
          (case alloc C s of (va, s) \<Rightarrow>
             if va = 0 then Some (TEE_ERROR_OUT_OF_MEMORY, [], s)
             else do {
               (r, s) \<leftarrow> thread_rpc_cmd Q (OPTEE_RPC_SOCKET_SEND instance_id handle buf timeout) s;
               Some (r_res r, [OUT_NONE, OUT_NONE, OUT_VALUE (r_value r mod 2 ^ 32) 0, OUT_NONE], s)
             })
      | _ \<Rightarrow> Some (TEE_ERROR_BAD_PARAMETERS, [], s))"

definition socket_recv ::
    "env \<Rightarrow> 'w platform \<Rightarrow> nat \<Rightarrow> tee_param list \<Rightarrow> ('w, 'b) watz_scheme \<Rightarrow> (TEE_Result \<times> out_param list \<times> ('w, 'b) watz_scheme) option" where
  "socket_recv C Q instance_id params s =
     (case params of
        [VALUE_INPUT handle timeout, MEMREF_OUTPUT room, PARAM_NONE, PARAM_NONE] \<Rightarrow>
          (case alloc C s of (va, s) \<Rightarrow>
             if va = 0 then Some (TEE_ERROR_OUT_OF_MEMORY, [], s)
             else do {
               (r, s) \<leftarrow> thread_rpc_cmd Q (OPTEE_RPC_SOCKET_RECV instance_id handle room timeout) s;
               if r_size r > room then Some (TEE_ERROR_GENERIC, [], s)
               else Some (r_res r, [OUT_NONE, OUT_MEMREF (r_size r) (map (r_shm r) [0..<r_size r])], s)
             })
      | _ \<Rightarrow> Some (TEE_ERROR_BAD_PARAMETERS, [], s))"

definition socket_ioctl ::
    "env \<Rightarrow> 'w platform \<Rightarrow> nat \<Rightarrow> tee_param list \<Rightarrow> ('w, 'b) watz_scheme \<Rightarrow> (TEE_Result \<times> out_param list \<times> ('w, 'b) watz_scheme) option" where
  "socket_ioctl C Q instance_id params s =
     (case params of
        [VALUE_INPUT handle command, MEMREF_INOUT buf, PARAM_NONE, PARAM_NONE] \<Rightarrow>
          (case alloc C s of (va, s) \<Rightarrow>
             if va = 0 then Some (TEE_ERROR_OUT_OF_MEMORY, [], s)
             else do {
               (r, s) \<leftarrow> thread_rpc_cmd Q (OPTEE_RPC_SOCKET_IOCTL instance_id handle buf command) s;
               Some (r_res r,
                     [OUT_NONE, OUT_MEMREF (r_size r)
                        (if r_size r \<le> length buf then map (r_shm r) [0..<r_size r] @ drop (r_size r) buf else buf)], s)
             })
      | _ \<Rightarrow> Some (TEE_ERROR_BAD_PARAMETERS, [], s))"

definition pta_socket_open_session ::
    "'w platform \<Rightarrow> tee_param list \<Rightarrow> ('w, 'b) watz_scheme \<Rightarrow> (TEE_Result \<times> out_param list \<times> nat \<times> ('w, 'b) watz_scheme) option" where
  "pta_socket_open_session Q params s =
     (case q_instance Q of
        None \<Rightarrow> Some (TEE_ERROR_ACCESS_DENIED, [], 0, s)
      | Some i \<Rightarrow> Some (TEE_SUCCESS, [], i, s))"

definition pta_socket_close_session :: "'w platform \<Rightarrow> nat \<Rightarrow> ('w, 'b) watz_scheme \<Rightarrow> ('w, 'b) watz_scheme option" where
  "pta_socket_close_session Q sess_ctx s = do { (r, s) \<leftarrow> thread_rpc_cmd Q (OPTEE_RPC_SOCKET_CLOSE_ALL sess_ctx) s; Some s }"

definition pta_socket_invoke_command ::
    "env \<Rightarrow> 'w platform \<Rightarrow> nat \<Rightarrow> nat \<Rightarrow> tee_param list \<Rightarrow> ('w, 'b) watz_scheme \<Rightarrow> (TEE_Result \<times> out_param list \<times> ('w, 'b) watz_scheme) option" where
  "pta_socket_invoke_command C Q sess_ctx cmd_id params s =
     (if cmd_id = PTA_SOCKET_OPEN then socket_open C Q sess_ctx params s
      else if cmd_id = PTA_SOCKET_CLOSE then socket_close Q sess_ctx params s
      else if cmd_id = PTA_SOCKET_SEND then socket_send C Q sess_ctx params s
      else if cmd_id = PTA_SOCKET_RECV then socket_recv C Q sess_ctx params s
      else if cmd_id = PTA_SOCKET_IOCTL then socket_ioctl C Q sess_ctx params s
      else Some (TEE_ERROR_NOT_IMPLEMENTED, [], s))"

definition socket_pta :: "env \<Rightarrow> 'w platform \<Rightarrow> (('w, 'b) watz_scheme) pseudo_ta" where
  "socket_pta C Q =
     \<lparr>p_uuid = PTA_SOCKET_UUID, p_flags = insert TA_FLAG_CONCURRENT PTA_MANDATORY_FLAGS, p_create = None, p_destroy = None,
      p_open = Some (pta_socket_open_session Q), p_close = Some (pta_socket_close_session Q),
      p_invoke = pta_socket_invoke_command C Q\<rparr>"

section \<open>The table of pseudo trusted applications\<close>

definition PTA_ATTESTATION_SERVICE_UUID :: TEE_UUID where
  "PTA_ATTESTATION_SERVICE_UUID = (0xa2e8677d, 0x4f37, 0x4cb8, [0xa1, 0xb9, 0xdf, 0x52, 0x32, 0x40, 0x45, 0x96])"

definition attestation_pta :: "env \<Rightarrow> (('w, 'b) watz_scheme) pseudo_ta" where
  "attestation_pta C =
     \<lparr>p_uuid = PTA_ATTESTATION_SERVICE_UUID, p_flags = PTA_MANDATORY_FLAGS,
      p_create = Some (\<lambda>s. do { (res, p, s) \<leftarrow> pta_create C (w_pta s) s; Some (res, s\<lparr>w_pta := p\<rparr>) }),
      p_destroy = None, p_open = None, p_close = None,
      p_invoke = (\<lambda>_ cmd params s. do {
        (res, buf, s) \<leftarrow> pta_invoke_command C cmd params (w_pta s) s;
        Some (res, (case buf of None \<Rightarrow> [] | Some b \<Rightarrow> [OUT_NONE, OUT_NONE, OUT_MEMREF (length b) b, OUT_NONE]), s)
      })\<rparr>"

definition watz_kernel :: "env \<Rightarrow> 'w platform \<Rightarrow> (('w, 'b) watz_scheme) kernel" where
  "watz_kernel C Q =
     \<lparr>k_ptas = [attestation_pta C, socket_pta C Q], k_other = q_other Q, k_time = q_time Q, k_self = q_self Q\<rparr>"

section \<open>The client library\<close>

definition invoke_socket_pta ::
    "env \<Rightarrow> (('w, 'b) watz_scheme) kernel \<Rightarrow> nat \<Rightarrow> tee_param list \<Rightarrow> ('w, 'b) watz_scheme \<Rightarrow>
     (TEE_Result \<times> out_param list \<times> ('w, 'b) watz_scheme) option" where
  "invoke_socket_pta C K cmd_id params s = do {
     (res, s) \<leftarrow> (if w_sess s = 0
                  then do {
                    (res, h, _, s) \<leftarrow> TEE_OpenTASession C K PTA_SOCKET_UUID TEE_TIMEOUT_INFINITE [] s;
                    Some (res, s\<lparr>w_sess := h\<rparr>)
                  }
                  else Some (TEE_SUCCESS, s));
     if res \<noteq> TEE_SUCCESS then Some (res, [], s)
     else TEE_InvokeTACommand C K (w_sess s) TEE_TIMEOUT_INFINITE cmd_id params s
   }"

abbreviation (input) TEE_ISOCKET_PROTOCOLID_TCP :: nat where "TEE_ISOCKET_PROTOCOLID_TCP \<equiv> 0x65"
abbreviation (input) TEE_ISOCKET_PROTOCOLID_UDP :: nat where "TEE_ISOCKET_PROTOCOLID_UDP \<equiv> 0x66"

text \<open>The address is a string, passed with its terminating zero, or the null pointer.\<close>

definition tee_socket_pta_open ::
    "env \<Rightarrow> (('w, 'b) watz_scheme) kernel \<Rightarrow> nat \<Rightarrow> bytes option \<Rightarrow> nat \<Rightarrow> nat \<Rightarrow> ('w, 'b) watz_scheme \<Rightarrow>
     (TEE_Result \<times> nat option \<times> ('w, 'b) watz_scheme) option" where
  "tee_socket_pta_open C K ip_vers addr port protocol s =
     (if ip_vers \<notin> {0, 1, 2} then Some (TEE_ERROR_BAD_PARAMETERS, None, s)
      else case addr of
        None \<Rightarrow> Some (TEE_ERROR_BAD_PARAMETERS, None, s)
      | Some addr \<Rightarrow>
          if protocol \<notin> {TEE_ISOCKET_PROTOCOLID_TCP, TEE_ISOCKET_PROTOCOLID_UDP}
          then Some (TEE_ERROR_BAD_PARAMETERS, None, s)
          else do {
            (res, out, s) \<leftarrow> invoke_socket_pta C K PTA_SOCKET_OPEN
              [VALUE_INPUT ip_vers port, MEMREF_INPUT (addr @ [0]), VALUE_INPUT protocol 0, VALUE_OUTPUT] s;
            Some (res, if res = TEE_SUCCESS then Some (case out of [_, _, _, OUT_VALUE a b] \<Rightarrow> a | _ \<Rightarrow> 0) else None, s)
          })"

definition tee_socket_pta_close ::
    "env \<Rightarrow> (('w, 'b) watz_scheme) kernel \<Rightarrow> nat \<Rightarrow> ('w, 'b) watz_scheme \<Rightarrow> (TEE_Result \<times> ('w, 'b) watz_scheme) option" where
  "tee_socket_pta_close C K handle s = do {
     (res, _, s) \<leftarrow> invoke_socket_pta C K PTA_SOCKET_CLOSE [VALUE_INPUT handle 0, PARAM_NONE, PARAM_NONE, PARAM_NONE] s;
     Some (res, s)
   }"

text \<open>The number of bytes sent, which is 0 when the parameter was not written.\<close>

definition tee_socket_pta_send ::
    "env \<Rightarrow> (('w, 'b) watz_scheme) kernel \<Rightarrow> nat \<Rightarrow> bytes \<Rightarrow> nat \<Rightarrow> ('w, 'b) watz_scheme \<Rightarrow>
     (TEE_Result \<times> nat \<times> ('w, 'b) watz_scheme) option" where
  "tee_socket_pta_send C K handle buf timeout s = do {
     (res, out, s) \<leftarrow> invoke_socket_pta C K PTA_SOCKET_SEND
       [VALUE_INPUT handle timeout, MEMREF_INPUT buf, VALUE_OUTPUT, PARAM_NONE] s;
     Some (res, (case out of _ # _ # OUT_VALUE a b # _ \<Rightarrow> a | _ \<Rightarrow> 0), s)
   }"

text \<open>The new length, which is the room when the parameter was not written, and the bytes received.\<close>

definition tee_socket_pta_recv ::
    "env \<Rightarrow> (('w, 'b) watz_scheme) kernel \<Rightarrow> nat \<Rightarrow> nat \<Rightarrow> nat \<Rightarrow> ('w, 'b) watz_scheme \<Rightarrow>
     (TEE_Result \<times> nat \<times> bytes \<times> ('w, 'b) watz_scheme) option" where
  "tee_socket_pta_recv C K handle room timeout s = do {
     (res, out, s) \<leftarrow> invoke_socket_pta C K PTA_SOCKET_RECV
       [VALUE_INPUT handle timeout, MEMREF_OUTPUT room, PARAM_NONE, PARAM_NONE] s;
     (case out of
        _ # OUT_MEMREF n bs # _ \<Rightarrow> Some (res, n, bs, s)
      | _ \<Rightarrow> Some (res, room, [], s))
   }"

definition tee_socket_pta_ioctl ::
    "env \<Rightarrow> (('w, 'b) watz_scheme) kernel \<Rightarrow> nat \<Rightarrow> nat \<Rightarrow> bytes \<Rightarrow> ('w, 'b) watz_scheme \<Rightarrow>
     (TEE_Result \<times> nat \<times> bytes \<times> ('w, 'b) watz_scheme) option" where
  "tee_socket_pta_ioctl C K handle command buf s = do {
     (res, out, s) \<leftarrow> invoke_socket_pta C K PTA_SOCKET_IOCTL
       [VALUE_INPUT handle command, MEMREF_INOUT buf, PARAM_NONE, PARAM_NONE] s;
     (case out of
        _ # OUT_MEMREF n bs # _ \<Rightarrow> Some (res, n, bs, s)
      | _ \<Rightarrow> Some (res, length buf, buf, s))
   }"

text \<open>\<^verbatim>\<open>tcp_open\<close> and \<^verbatim>\<open>udp_open\<close> differ in the protocol and in the warning that is a protocol error: the result, the
  socket structure and the protocol error.\<close>

definition sock_open ::
    "env \<Rightarrow> (('w, 'b) watz_scheme) kernel \<Rightarrow> nat \<Rightarrow> TEE_Result \<Rightarrow> nat \<times> bytes option \<times> nat \<Rightarrow> ('w, 'b) watz_scheme \<Rightarrow>
     (TEE_Result \<times> nat \<times> TEE_Result \<times> ('w, 'b) watz_scheme) option" where
  "sock_open C K protocol warning setup s =
     (case setup of (ip_vers, addr, port) \<Rightarrow>
        case alloc C s of (sock_ctx, s) \<Rightarrow>
          if sock_ctx = 0 then Some (TEE_ERROR_OUT_OF_MEMORY, 0, TEE_SUCCESS, s)
          else do {
            (res, handle, s) \<leftarrow> tee_socket_pta_open C K ip_vers addr port protocol s;
            let (ctx, s) = (case handle of
                Some h \<Rightarrow> (sock_ctx, s\<lparr>w_socks := (w_socks s)(sock_ctx \<mapsto> \<lparr>sc_handle = h, sc_proto_error = TEE_SUCCESS\<rparr>)\<rparr>)
              | None \<Rightarrow> (0, s));
            if res = TEE_ISOCKET_ERROR_HOSTNAME then Some (TEE_ISOCKET_ERROR_PROTOCOL, ctx, res, s)
            else if res = warning then Some (TEE_ISOCKET_WARNING_PROTOCOL, ctx, res, s)
            else Some (res, ctx, TEE_SUCCESS, s)
          })"

definition tcp_open ::
    "env \<Rightarrow> (('w, 'b) watz_scheme) kernel \<Rightarrow> nat \<times> bytes option \<times> nat \<Rightarrow> ('w, 'b) watz_scheme \<Rightarrow>
     (TEE_Result \<times> nat \<times> TEE_Result \<times> ('w, 'b) watz_scheme) option" where
  "tcp_open C K = sock_open C K TEE_ISOCKET_PROTOCOLID_TCP TEE_ISOCKET_TCP_WARNING_UNKNOWN_OUT_OF_BAND"

definition udp_open ::
    "env \<Rightarrow> (('w, 'b) watz_scheme) kernel \<Rightarrow> nat \<times> bytes option \<times> nat \<Rightarrow> ('w, 'b) watz_scheme \<Rightarrow>
     (TEE_Result \<times> nat \<times> TEE_Result \<times> ('w, 'b) watz_scheme) option" where
  "udp_open C K = sock_open C K TEE_ISOCKET_PROTOCOLID_UDP TEE_ISOCKET_UDP_WARNING_UNKNOWN_OUT_OF_BAND"

definition sock_close ::
    "env \<Rightarrow> (('w, 'b) watz_scheme) kernel \<Rightarrow> nat \<Rightarrow> ('w, 'b) watz_scheme \<Rightarrow> (TEE_Result \<times> ('w, 'b) watz_scheme) option" where
  "sock_close C K ctx s =
     (if ctx = 0 then Some (TEE_SUCCESS, s)
      else do {
        sock_ctx \<leftarrow> w_socks s ctx;
        (res, s) \<leftarrow> tee_socket_pta_close C K (sc_handle sock_ctx) s;
        Some (res, s\<lparr>w_socks := (w_socks s)(ctx := None)\<rparr>)
      })"

definition set_proto_error :: "nat \<Rightarrow> TEE_Result \<Rightarrow> ('w, 'b) watz_scheme \<Rightarrow> ('w, 'b) watz_scheme" where
  "set_proto_error ctx res s = s\<lparr>w_socks := (w_socks s)(ctx := map_option (\<lambda>x. x\<lparr>sc_proto_error := res\<rparr>) (w_socks s ctx))\<rparr>"

definition sock_send ::
    "env \<Rightarrow> (('w, 'b) watz_scheme) kernel \<Rightarrow> nat \<Rightarrow> bytes \<Rightarrow> nat \<Rightarrow> ('w, 'b) watz_scheme \<Rightarrow>
     (TEE_Result \<times> nat \<times> ('w, 'b) watz_scheme) option" where
  "sock_send C K ctx buf timeout s = do {
     require (ctx \<noteq> 0);
     sock_ctx \<leftarrow> w_socks s ctx;
     (res, len, s) \<leftarrow> tee_socket_pta_send C K (sc_handle sock_ctx) buf timeout s;
     Some (res, len, set_proto_error ctx res s)
   }"

definition sock_recv ::
    "env \<Rightarrow> (('w, 'b) watz_scheme) kernel \<Rightarrow> nat \<Rightarrow> nat \<Rightarrow> nat \<Rightarrow> ('w, 'b) watz_scheme \<Rightarrow>
     (TEE_Result \<times> nat \<times> bytes \<times> ('w, 'b) watz_scheme) option" where
  "sock_recv C K ctx room timeout s = do {
     require (ctx \<noteq> 0);
     sock_ctx \<leftarrow> w_socks s ctx;
     (res, len, bs, s) \<leftarrow> tee_socket_pta_recv C K (sc_handle sock_ctx) room timeout s;
     Some (res, len, bs, set_proto_error ctx res s)
   }"

definition sock_error :: "nat \<Rightarrow> ('w, 'b) watz_scheme \<Rightarrow> TEE_Result option" where
  "sock_error ctx s = do { require (ctx \<noteq> 0); sock_ctx \<leftarrow> w_socks s ctx; Some (sc_proto_error sock_ctx) }"

text \<open>\<^verbatim>\<open>tcp_ioctl\<close> and \<^verbatim>\<open>udp_ioctl\<close>, which differ in the commands they know; \<^verbatim>\<open>__tee_socket_ioctl_cmd_to_proto\<close> is the
  upper byte of the command.\<close>

definition tee_socket_ioctl_cmd_to_proto :: "nat \<Rightarrow> nat" where
  "tee_socket_ioctl_cmd_to_proto cmd_code = cmd_code div 2 ^ 24"

definition sock_ioctl ::
    "env \<Rightarrow> (('w, 'b) watz_scheme) kernel \<Rightarrow> nat list \<Rightarrow> nat \<Rightarrow> nat \<Rightarrow> bytes \<Rightarrow> ('w, 'b) watz_scheme \<Rightarrow>
     (TEE_Result \<times> nat \<times> bytes \<times> ('w, 'b) watz_scheme) option" where
  "sock_ioctl C K known ctx commandCode buf s = do {
     require (ctx \<noteq> 0);
     if tee_socket_ioctl_cmd_to_proto commandCode = 0 then Some (TEE_SUCCESS, length buf, buf, s)
     else do {
       require (commandCode \<in> set known);
       sock_ctx \<leftarrow> w_socks s ctx;
       (res, len, bs, s) \<leftarrow> tee_socket_pta_ioctl C K (sc_handle sock_ctx) commandCode buf s;
       Some (res, len, bs, set_proto_error ctx res s)
     }
   }"

definition tcp_ioctl ::
    "env \<Rightarrow> (('w, 'b) watz_scheme) kernel \<Rightarrow> nat \<Rightarrow> nat \<Rightarrow> bytes \<Rightarrow> ('w, 'b) watz_scheme \<Rightarrow>
     (TEE_Result \<times> nat \<times> bytes \<times> ('w, 'b) watz_scheme) option" where
  "tcp_ioctl C K = sock_ioctl C K [0x65f00000, 0x65f00001]"

definition udp_ioctl ::
    "env \<Rightarrow> (('w, 'b) watz_scheme) kernel \<Rightarrow> nat \<Rightarrow> nat \<Rightarrow> bytes \<Rightarrow> ('w, 'b) watz_scheme \<Rightarrow>
     (TEE_Result \<times> nat \<times> bytes \<times> ('w, 'b) watz_scheme) option" where
  "udp_ioctl C K = sock_ioctl C K [0x66000001, 0x66000002]"

section \<open>The table conforms\<close>

lemma hash_arrays_only_tick: "hash_arrays C bs t = Some (r, t') \<Longrightarrow> only_tick t t'"
  by (auto simp: hash_arrays_def crypto_hash_alloc_ctx_def dest!: only_tick_alloc
    split: prod.splits sum.splits if_splits Option.bind_splits)

lemma ltc_ecc_sign_only_tick: "ltc_ecc_sign C algo key msg n t = (res, sig, len, t') \<Longrightarrow> only_tick t t'"
  by (auto simp: ltc_ecc_sign_def split: sum.splits if_splits option.splits)

lemma generate_quote_only_tick:
  assumes "generate_quote C claim anchor p t = Some (res, q, t')"
  shows "only_tick t t'"
  using assms
  by (auto simp: generate_quote_def hash_byte_array_def hash_quote_def Let_def dest!: hash_arrays_only_tick ltc_ecc_sign_only_tick
    split: prod.splits sum.splits if_splits Option.bind_splits intro: only_tick_trans)

lemma pta_invoke_only_tick:
  assumes "pta_invoke_command C cmd ps p t = Some (res, b, t')"
  shows "only_tick t t'"
  using assms
  by (auto simp: pta_invoke_command_def dest!: generate_quote_only_tick
    split: prod.splits if_splits Option.bind_splits option.splits list.splits tee_param.splits)

lemma huk_subkey_derive_only_tick:
  assumes "huk_subkey_derive C usage d n l t = Some (res, b, t')"
  shows "only_tick t t'"
  using assms
  by (auto simp: huk_subkey_derive_def crypto_mac_alloc_ctx_def dest!: only_tick_alloc
    split: prod.splits sum.splits if_splits Option.bind_splits option.splits)

lemma derive_keypair_only_tick:
  assumes "derive_attestation_ecdsa_keypair C p t = Some (res, p', t')"
  shows "only_tick t t'"
  using assms
  by (auto simp: derive_attestation_ecdsa_keypair_def crypto_asym_alloc_ecc_keypair_def Let_def dest!: only_tick_allocs
    split: prod.splits sum.splits if_splits)

lemma pta_create_only_tick:
  assumes "pta_create C p t = Some (res, p', t')"
  shows "only_tick t t'"
  using assms
  by (auto simp: pta_create_def derive_attestation_seed_def Let_def dest!: huk_subkey_derive_only_tick derive_keypair_only_tick
    split: prod.splits if_splits Option.bind_splits intro: only_tick_trans)

text \<open>No entry point touches the lists of the session manager.\<close>

lemma same_mgr_watz [simp]:
  "same_mgr s (s'\<lparr>w_net := w\<rparr>) \<longleftrightarrow> same_mgr s s'" "same_mgr s (s'\<lparr>w_pta := p\<rparr>) \<longleftrightarrow> same_mgr s s'"
  by (simp_all add: same_mgr_def)

lemma same_mgr_alloc: "alloc C s = (a, s') \<Longrightarrow> same_mgr s s'"
  by (rule same_mgr_only_tick) (rule only_tick_alloc)

lemma thread_rpc_cmd_same: "thread_rpc_cmd Q cmd s = Some (r, s') \<Longrightarrow> same_mgr s s'"
  by (auto simp: thread_rpc_cmd_def same_mgr_def split: Option.bind_splits)

lemma pta_socket_invoke_same:
  assumes "pta_socket_invoke_command C Q u cmd ps s = Some (res, out, s')"
  shows "same_mgr s s'"
  using assms
  unfolding pta_socket_invoke_command_def socket_open_def socket_close_def socket_send_def socket_recv_def socket_ioctl_def
  by (auto dest!: same_mgr_alloc thread_rpc_cmd_same simp: same_mgr_def
    split: if_splits prod.splits list.splits tee_param.splits Option.bind_splits)

lemma PTA_UUIDs_distinct: "PTA_SOCKET_UUID \<noteq> PTA_ATTESTATION_SERVICE_UUID"
  by (simp add: PTA_SOCKET_UUID_def PTA_ATTESTATION_SERVICE_UUID_def)

interpretation wk: pseudo_tas "watz_kernel C Q" for C Q
proof unfold_locales
  show "verify_pseudo_tas_conformance (k_ptas (watz_kernel C Q))"
    using PTA_UUIDs_distinct
    by (auto simp: verify_pseudo_tas_conformance_def watz_kernel_def attestation_pta_def socket_pta_def PTA_ALLOWED_FLAGS_def)
next
  fix p f s r s'
  assume "p \<in> set (k_ptas (watz_kernel C Q))" "p_create p = Some f" "f s = Some (r, s')"
  then show "same_mgr s s'"
    by (auto simp: watz_kernel_def attestation_pta_def socket_pta_def split: Option.bind_splits
      dest!: same_mgr_only_tick [OF pta_create_only_tick])
next
  fix p f s s'
  assume "p \<in> set (k_ptas (watz_kernel C Q))" "p_destroy p = Some f" "f s = Some s'"
  then show "same_mgr s s'" by (auto simp: watz_kernel_def attestation_pta_def socket_pta_def)
next
  fix p f ps s r out u s'
  assume "p \<in> set (k_ptas (watz_kernel C Q))" "p_open p = Some f" "f ps s = Some (r, out, u, s')"
  then show "same_mgr s s'"
    by (auto simp: watz_kernel_def attestation_pta_def socket_pta_def pta_socket_open_session_def same_mgr_def split: option.splits)
next
  fix p f u s s'
  assume "p \<in> set (k_ptas (watz_kernel C Q))" "p_close p = Some f" "f u s = Some s'"
  then show "same_mgr s s'"
    by (auto simp: watz_kernel_def attestation_pta_def socket_pta_def pta_socket_close_session_def split: Option.bind_splits
      dest!: thread_rpc_cmd_same)
next
  fix p u cmd ps s r out s'
  assume "p \<in> set (k_ptas (watz_kernel C Q))" "p_invoke p u cmd ps s = Some (r, out, s')"
  then show "same_mgr s s'"
    by (auto simp: watz_kernel_def attestation_pta_def socket_pta_def split: Option.bind_splits
      dest!: same_mgr_only_tick [OF pta_invoke_only_tick] pta_socket_invoke_same)
qed

interpretation wm: machine "api_step C (watz_kernel C Q)" "wf_mgr (watz_kernel C Q)" for C Q
  by unfold_locales (rule wk.api_step_wf)

section \<open>Runs\<close>

lemma pta_of_watz [simp]:
  "pta_of (watz_kernel C Q) PTA_SOCKET_UUID = Some (socket_pta C Q)"
  "pta_of (watz_kernel C Q) PTA_ATTESTATION_SERVICE_UUID = Some (attestation_pta C)"
  using PTA_UUIDs_distinct by (auto simp: pta_of_def watz_kernel_def attestation_pta_def socket_pta_def)

lemma watz_kernel_simps [simp]:
  "k_time (watz_kernel C Q) = q_time Q" "k_self (watz_kernel C Q) = q_self Q" "k_other (watz_kernel C Q) = q_other Q"
  by (simp_all add: watz_kernel_def)

text \<open>The device between two calls: the lists of the session manager are consistent, a session identifier is free and
  the static handle of the socket session, when it is set, is that of an open session.\<close>

definition sockets_up :: "env \<Rightarrow> 'w platform \<Rightarrow> nat \<Rightarrow> ('w, 'b) watz_scheme \<Rightarrow> bool" where
  "sockets_up C Q i s \<longleftrightarrow>
     wf_mgr (watz_kernel C Q) s \<and> q_instance Q = Some i \<and>
     (if w_sess s = 0 then new_session_id (ids s) \<noteq> 0 else live_session (watz_kernel C Q) (w_sess s) PTA_SOCKET_UUID i s)"

text \<open>A later state in which only the counter of allocations, the session manager and the normal world changed.\<close>

definition net_step :: "('w, 'b) watz_scheme \<Rightarrow> 'w \<Rightarrow> ('w, 'b) watz_scheme \<Rightarrow> bool" where
  "net_step s w s' \<longleftrightarrow>
     tick s \<le> tick s' \<and>
     s' = s\<lparr>tick := tick s', tee_ctxes := tee_ctxes s', open_sessions := open_sessions s',
            single_instance_count := single_instance_count s', w_sess := w_sess s', w_net := w\<rparr>"

lemma net_stepI:
  fixes s s' :: "('w, 'b) watz_scheme"
  assumes "mgr_eq (s\<lparr>tick := tick s1\<rparr>) s1" "tick s \<le> tick s1" "mid = s1\<lparr>tick := tick mid, w_net := w\<rparr>" "tick s1 \<le> tick mid" "mgr_eq mid s'"
  shows "net_step s w s'"
  using assms unfolding mgr_eq_def net_step_def by (cases s; cases s1; cases mid; cases s') simp

lemma wf_mgr_watz [simp]:
  "wf_mgr K (s\<lparr>w_sess := h\<rparr>) \<longleftrightarrow> wf_mgr K s" "wf_mgr K (s\<lparr>w_socks := f\<rparr>) \<longleftrightarrow> wf_mgr K s"
  by (simp_all add: wf_mgr_def)

lemma live_session_watz [simp]:
  "live_session K h u v (s\<lparr>w_sess := g\<rparr>) \<longleftrightarrow> live_session K h u v s" "live_session K h u v (s\<lparr>w_socks := f\<rparr>) \<longleftrightarrow> live_session K h u v s"
  by (simp_all add: live_session_def)

lemma entry_open_socket: "q_instance Q = Some i \<Longrightarrow> wk.entry_open (socket_pta C Q) ps b s = Some (TEE_SUCCESS, [], Some i, s)"
  by (simp add: wk.entry_open_def socket_pta_def pta_socket_open_session_def)

text \<open>The session with the socket application is there, or it is opened now.\<close>

lemma socket_session_run:
  fixes s :: "('w, 'b) watz_scheme"
  assumes up: "sockets_up C Q i s" and oom: "no_oom C"
  shows "\<exists>s'. (if w_sess s = 0
       then do {
         (res, h, _, s) \<leftarrow> TEE_OpenTASession C (watz_kernel C Q) PTA_SOCKET_UUID TEE_TIMEOUT_INFINITE [] s;
         Some (res, s\<lparr>w_sess := h\<rparr>)
       }
       else Some (TEE_SUCCESS, s)) = Some (TEE_SUCCESS, s') \<and> net_step s (w_net s) s' \<and> wf_mgr (watz_kernel C Q) s' \<and>
       w_sess s' \<noteq> 0 \<and> live_session (watz_kernel C Q) (w_sess s') PTA_SOCKET_UUID i s'"
proof (cases "w_sess s = 0")
  case True
  then have wf: "wf_mgr (watz_kernel C Q) s" and q: "q_instance Q = Some i" and n: "new_session_id (ids s) \<noteq> 0"
    using up by (simp_all add: sockets_up_def)
  obtain s1 h s2 where s1: "mgr_eq (s\<lparr>tick := tick s1\<rparr>) s1" "tick s \<le> tick s1"
    and h: "TEE_OpenTASession C (watz_kernel C Q) PTA_SOCKET_UUID TEE_TIMEOUT_INFINITE [] s = Some (TEE_SUCCESS, h, update_out_params [] [], s2)"
      "h \<noteq> 0" "live_session (watz_kernel C Q) h PTA_SOCKET_UUID (case Some i of None \<Rightarrow> 0 | Some v \<Rightarrow> v) s2" "mgr_eq s1 s2"
      "wf_mgr (watz_kernel C Q) s2"
    by (rule wk.TEE_OpenTASession_ok [where to = TEE_TIMEOUT_INFINITE, OF wf pta_of_watz(1) oom n entry_open_socket [OF q]])
  have "w_net s1 = w_net s" using s1(1) unfolding mgr_eq_def by (cases s1; cases s) simp
  then have "net_step s (w_net s) s2"
    by (intro net_stepI [OF s1, where mid = s1]) (use h(4) s1(1) in \<open>simp_all add: mgr_eq_def\<close>)
  then have "net_step s (w_net s) (s2\<lparr>w_sess := h\<rparr>)"
    unfolding net_step_def by (cases s; cases s2) simp
  then show ?thesis using True h(1,2,3,5) by (intro exI [of _ "s2\<lparr>w_sess := h\<rparr>"]) simp
next
  case False
  then show ?thesis using up by (intro exI [of _ s]) (auto simp: sockets_up_def net_step_def)
qed

lemma net_step_trans:
  fixes s s1 s2 :: "('w, 'b) watz_scheme"
  assumes "net_step s w s1" "net_step s1 w' s2"
  shows "net_step s w' s2"
  using assms unfolding net_step_def by (cases s; cases s1; cases s2) simp

lemma invoke_socket_pta_run:
  fixes s :: "('w, 'b) watz_scheme"
  assumes up: "sockets_up C Q i s" and oom: "no_oom C"
    and body: "\<And>s1 :: ('w, 'b) watz_scheme. w_net s1 = w_net s \<Longrightarrow>
      pta_socket_invoke_command C Q i cmd ps s1 = Some (res, out, s1\<lparr>tick := tick s1 + n, w_net := w\<rparr>)"
  shows "\<exists>s'. invoke_socket_pta C (watz_kernel C Q) cmd ps s =
      Some (res, update_out_params ps (invoke_outputs ps res out), s') \<and> net_step s w s' \<and>
      sockets_up C Q i s'"
proof -
  obtain s0 where s0: "(if w_sess s = 0
       then do {
         (res, h, _, s) \<leftarrow> TEE_OpenTASession C (watz_kernel C Q) PTA_SOCKET_UUID TEE_TIMEOUT_INFINITE [] s;
         Some (res, s\<lparr>w_sess := h\<rparr>)
       }
       else Some (TEE_SUCCESS, s)) = Some (TEE_SUCCESS, s0)" "net_step s (w_net s) s0" "wf_mgr (watz_kernel C Q) s0"
       "w_sess s0 \<noteq> 0" "live_session (watz_kernel C Q) (w_sess s0) PTA_SOCKET_UUID i s0"
    using socket_session_run [OF up oom] by blast
  have q: "q_instance Q = Some i" using up by (simp add: sockets_up_def)
  have net: "w_net s1 = w_net s" if "mgr_eq (s0\<lparr>tick := tick s1\<rparr>) s1" for s1
    using that s0(2) unfolding mgr_eq_def net_step_def by (cases s1; cases s0; cases s) simp
  have p: "p_invoke (socket_pta C Q) i cmd ps s1 = Some (res, out, s1\<lparr>tick := tick s1 + n, w_net := w\<rparr>)"
    if "mgr_eq (s0\<lparr>tick := tick s1\<rparr>) s1" for s1
    using body [OF net [OF that]] by (simp add: socket_pta_def)
  obtain s1 s' where s1: "mgr_eq (s0\<lparr>tick := tick s1\<rparr>) s1" "tick s0 \<le> tick s1"
    and inv: "TEE_InvokeTACommand C (watz_kernel C Q) (w_sess s0) TEE_TIMEOUT_INFINITE cmd ps s0 =
      Some (res, update_out_params ps (invoke_outputs ps res out), s')"
    and f: "mgr_eq (s1\<lparr>tick := tick s1 + n, w_net := w\<rparr>) s'" "wf_mgr (watz_kernel C Q) s'"
      "\<And>h uuid u. live_session (watz_kernel C Q) h uuid u s0 \<Longrightarrow> live_session (watz_kernel C Q) h uuid u s'"
    by (rule wk.TEE_InvokeTACommand_ok [where to = TEE_TIMEOUT_INFINITE, OF s0(3,5) pta_of_watz(1) oom p])
      (assumption, rule that)
  have step: "net_step s0 w s'"
    by (rule net_stepI [OF s1, where mid = "s1\<lparr>tick := tick s1 + n, w_net := w\<rparr>"]) (use f(1) in simp_all)
  have sess: "w_sess s' = w_sess s0" using f(1) s1(1) unfolding mgr_eq_def by (cases s1; cases s0; cases s') simp
  have "sockets_up C Q i s'" using f(2,3) s0(4,5) q by (simp add: sockets_up_def sess)
  then show ?thesis using net_step_trans [OF s0(2) step] s0(1) inv
    by (intro exI [of _ s']) (simp add: invoke_socket_pta_def)
qed

text \<open>A request that the normal world does not answer: the caller does not return.\<close>

lemma invoke_socket_pta_blocked:
  fixes s :: "('w, 'b) watz_scheme"
  assumes up: "sockets_up C Q i s" and oom: "no_oom C"
    and body: "\<And>s1 :: ('w, 'b) watz_scheme. w_net s1 = w_net s \<Longrightarrow> pta_socket_invoke_command C Q i cmd ps s1 = None"
  shows "invoke_socket_pta C (watz_kernel C Q) cmd ps s = None"
proof -
  obtain s0 where s0: "(if w_sess s = 0
       then do {
         (res, h, _, s) \<leftarrow> TEE_OpenTASession C (watz_kernel C Q) PTA_SOCKET_UUID TEE_TIMEOUT_INFINITE [] s;
         Some (res, s\<lparr>w_sess := h\<rparr>)
       }
       else Some (TEE_SUCCESS, s)) = Some (TEE_SUCCESS, s0)" "net_step s (w_net s) s0" "wf_mgr (watz_kernel C Q) s0"
       "live_session (watz_kernel C Q) (w_sess s0) PTA_SOCKET_UUID i s0"
    using socket_session_run [OF up oom] by blast
  obtain s1 where s1: "mgr_eq (s0\<lparr>tick := tick s1\<rparr>) s1"
    and inv: "p_invoke (socket_pta C Q) i cmd ps s1 = None \<Longrightarrow>
      TEE_InvokeTACommand C (watz_kernel C Q) (w_sess s0) TEE_TIMEOUT_INFINITE cmd ps s0 = None"
    using wk.TEE_InvokeTACommand_run [OF s0(3,4) pta_of_watz(1) oom, of TEE_TIMEOUT_INFINITE cmd ps] by fastforce
  have "w_net s1 = w_net s" using s1 s0(2) unfolding mgr_eq_def net_step_def by (cases s1; cases s0; cases s) simp
  then have "p_invoke (socket_pta C Q) i cmd ps s1 = None" using body by (simp add: socket_pta_def)
  with inv s0(1) show ?thesis by (simp add: invoke_socket_pta_def)
qed

text \<open>What a call of the socket interface leaves: the objects of the trusted application and the attestation service are
  the same, the normal world is in state \<open>w\<close>, and the other sockets are the same.\<close>

definition net_run :: "env \<Rightarrow> 'w platform \<Rightarrow> nat \<Rightarrow> nat \<Rightarrow> 'w \<Rightarrow> ('w, 'b) watz_scheme \<Rightarrow> ('w, 'b) watz_scheme \<Rightarrow> bool" where
  "net_run C Q i c w s s' \<longleftrightarrow>
     tick s \<le> tick s' \<and> objs s' = objs s \<and> states s' = states s \<and> opers s' = opers s \<and> w_pta s' = w_pta s \<and>
     watz.more s' = watz.more s \<and> w_net s' = w \<and> sockets_up C Q i s' \<and> (\<forall>d. d \<noteq> c \<longrightarrow> w_socks s' d = w_socks s d)"

lemma net_step_socks: "net_step s w s' \<Longrightarrow> w_socks s' = w_socks s"
  unfolding net_step_def by (cases s; cases s') simp

lemma net_run_step:
  fixes s s' :: "('w, 'b) watz_scheme"
  assumes "net_step s w s'" "sockets_up C Q i s'" "\<And>d. d \<noteq> c \<Longrightarrow> f d = w_socks s' d"
  shows "net_run C Q i c w s (s'\<lparr>w_socks := f\<rparr>)"
proof -
  have "ids (s'\<lparr>w_socks := f\<rparr>) = ids s'" by (simp add: ids_def)
  then have "sockets_up C Q i (s'\<lparr>w_socks := f\<rparr>)" using assms(2) by (simp add: sockets_up_def)
  then show "net_run C Q i c w s (s'\<lparr>w_socks := f\<rparr>)"
    using assms(1,3) net_step_socks [OF assms(1)] unfolding net_run_def net_step_def by (cases s; cases s') simp
qed

lemma sock_send_run:
  assumes up: "sockets_up C Q i s" "no_oom C" and x: "w_socks s c = Some x" "c \<noteq> 0"
    and rpc: "q_rpc Q (OPTEE_RPC_SOCKET_SEND i (sc_handle x) buf to) (w_net s) = Some (r, w)" and alive: "r_res r \<noteq> TEE_ERROR_TARGET_DEAD"
  shows "\<exists>s'. sock_send C (watz_kernel C Q) c buf to s = Some (r_res r, r_value r mod 2 ^ 32, s') \<and> net_run C Q i c w s s' \<and>
    w_socks s' c = Some (x\<lparr>sc_proto_error := r_res r\<rparr>)"
proof -
  let ?ps = "[VALUE_INPUT (sc_handle x) to, MEMREF_INPUT buf, VALUE_OUTPUT, PARAM_NONE]"
  have "\<exists>s'. invoke_socket_pta C (watz_kernel C Q) PTA_SOCKET_SEND ?ps s =
      Some (r_res r, update_out_params ?ps (invoke_outputs ?ps (r_res r) [OUT_NONE, OUT_NONE, OUT_VALUE (r_value r mod 2 ^ 32) 0, OUT_NONE]), s') \<and> net_step s w s' \<and> sockets_up C Q i s'"
    by (rule invoke_socket_pta_run [OF up, where n = 1])
      (use up(2) rpc in \<open>simp add: pta_socket_invoke_command_def socket_send_def thread_rpc_cmd_def\<close>)
  then obtain s1 where s1: "invoke_socket_pta C (watz_kernel C Q) PTA_SOCKET_SEND ?ps s =
      Some (r_res r, [OUT_NONE, OUT_NONE, OUT_VALUE (r_value r mod 2 ^ 32) 0, OUT_NONE], s1)" "net_step s w s1" "sockets_up C Q i s1"
    using alive by auto
  let ?s' = "set_proto_error c (r_res r) s1"
  have run: "net_run C Q i c w s ?s'" "w_socks s1 = w_socks s"
    using net_step_socks [OF s1(2)] by (auto simp: set_proto_error_def intro: net_run_step [OF s1(2,3)])
  then show ?thesis using s1(1) x
    by (intro exI [of _ ?s']) (simp add: sock_send_def tee_socket_pta_send_def, simp add: set_proto_error_def)
qed

text \<open>What the caller finds in its buffer: the bytes of the answer, followed by zeros where the size was not
  updated; the buffer is overwritten with zeros when the answer is longer than the room that was given for it.\<close>

definition received :: "rpc_reply \<Rightarrow> nat \<Rightarrow> TEE_Result \<times> bytes" where
  "received r room =
     (if room < r_size r then (TEE_ERROR_GENERIC, replicate room 0)
      else if r_res r = TEE_ERROR_TARGET_DEAD
      then (r_res r, map (r_shm r) [0..<r_size r] @ replicate (room - r_size r) 0)
      else (r_res r, map (r_shm r) [0..<r_size r]))"

lemma sock_recv_received:
  assumes up: "sockets_up C Q i s" "no_oom C" and x: "w_socks s c = Some x" "c \<noteq> 0"
    and rpc: "q_rpc Q (OPTEE_RPC_SOCKET_RECV i (sc_handle x) room to) (w_net s) = Some (r, w)"
    and d: "received r room = (res, bs)"
  shows "\<exists>s'. sock_recv C (watz_kernel C Q) c room to s = Some (res, length bs, bs, s') \<and>
    net_run C Q i c w s s' \<and> w_socks s' c = Some (x\<lparr>sc_proto_error := res\<rparr>)"
proof -
  let ?ps = "[VALUE_INPUT (sc_handle x) to, MEMREF_OUTPUT room, PARAM_NONE, PARAM_NONE]"
  let ?out = "if room < r_size r then [] else [OUT_NONE, OUT_MEMREF (r_size r) (map (r_shm r) [0..<r_size r])]"
  have res: "res = (if room < r_size r then TEE_ERROR_GENERIC else r_res r)"
    using d by (auto simp: received_def split: if_splits)
  have "\<exists>s'. invoke_socket_pta C (watz_kernel C Q) PTA_SOCKET_RECV ?ps s =
      Some (res, update_out_params ?ps (invoke_outputs ?ps res ?out), s') \<and> net_step s w s' \<and> sockets_up C Q i s'"
    by (rule invoke_socket_pta_run [OF up, where n = 1])
      (use up(2) rpc in \<open>simp add: pta_socket_invoke_command_def socket_recv_def thread_rpc_cmd_def res\<close>)
  moreover have "update_out_params ?ps (invoke_outputs ?ps res ?out) = [OUT_NONE, OUT_MEMREF (length bs) bs, OUT_NONE, OUT_NONE]"
    using d by (auto simp: received_def res invoke_outputs_def min_def split: if_splits)
  ultimately obtain s1 where s1: "invoke_socket_pta C (watz_kernel C Q) PTA_SOCKET_RECV ?ps s =
      Some (res, [OUT_NONE, OUT_MEMREF (length bs) bs, OUT_NONE, OUT_NONE], s1)" "net_step s w s1" "sockets_up C Q i s1"
    by auto
  let ?s' = "set_proto_error c res s1"
  have run: "net_run C Q i c w s ?s'" "w_socks s1 = w_socks s"
    using net_step_socks [OF s1(2)] by (auto simp: set_proto_error_def intro: net_run_step [OF s1(2,3)])
  then show ?thesis using s1(1) x
    by (intro exI [of _ ?s']) (simp add: sock_recv_def tee_socket_pta_recv_def, simp add: set_proto_error_def)
qed

lemma sock_recv_run:
  assumes "sockets_up C Q i s" "no_oom C" "w_socks s c = Some x" "c \<noteq> 0"
    and "q_rpc Q (OPTEE_RPC_SOCKET_RECV i (sc_handle x) room to) (w_net s) = Some (r, w)" "r_size r \<le> room"
    and "r_res r \<noteq> TEE_ERROR_TARGET_DEAD"
  shows "\<exists>s'. sock_recv C (watz_kernel C Q) c room to s = Some (r_res r, r_size r, map (r_shm r) [0..<r_size r], s') \<and>
    net_run C Q i c w s s' \<and> w_socks s' c = Some (x\<lparr>sc_proto_error := r_res r\<rparr>)"
  using sock_recv_received [OF assms(1-5), of "r_res r" "map (r_shm r) [0..<r_size r]"] assms(6,7) by (simp add: received_def)

lemma sock_recv_blocked:
  assumes up: "sockets_up C Q i s" "no_oom C" and x: "w_socks s c = Some x"
    and rpc: "q_rpc Q (OPTEE_RPC_SOCKET_RECV i (sc_handle x) room to) (w_net s) = None"
  shows "sock_recv C (watz_kernel C Q) c room to s = None"
proof -
  let ?ps = "[VALUE_INPUT (sc_handle x) to, MEMREF_OUTPUT room, PARAM_NONE, PARAM_NONE]"
  have "invoke_socket_pta C (watz_kernel C Q) PTA_SOCKET_RECV ?ps s = None"
    by (rule invoke_socket_pta_blocked [OF up])
      (use up(2) rpc in \<open>simp add: pta_socket_invoke_command_def socket_recv_def thread_rpc_cmd_def\<close>)
  then show ?thesis using x by (simp add: sock_recv_def tee_socket_pta_recv_def)
qed

lemma tcp_open_run:
  assumes up: "sockets_up C Q i s" "no_oom C" and v: "ip_vers \<in> {0, 1, 2}"
    and rpc: "q_rpc Q (OPTEE_RPC_SOCKET_OPEN i port TEE_ISOCKET_PROTOCOLID_TCP ip_vers (addr @ [0])) (w_net s) = Some (r, w)"
      "r_res r = TEE_SUCCESS"
  shows "\<exists>c s'. tcp_open C (watz_kernel C Q) (ip_vers, Some addr, port) s = Some (TEE_SUCCESS, c, TEE_SUCCESS, s') \<and>
    c = tick s + 1 \<and> net_run C Q i c w s s' \<and>
    w_socks s' c = Some \<lparr>sc_handle = r_value r mod 2 ^ 32, sc_proto_error = TEE_SUCCESS\<rparr>"
proof -
  let ?ps = "[VALUE_INPUT ip_vers port, MEMREF_INPUT (addr @ [0]), VALUE_INPUT TEE_ISOCKET_PROTOCOLID_TCP 0, VALUE_OUTPUT]"
  let ?s = "s\<lparr>tick := tick s + 1\<rparr>"
  have up1: "sockets_up C Q i ?s"
    using up(1) wk.only_tick_wf [of s ?s] by (auto simp: sockets_up_def ids_def live_session_def)
  have "\<exists>s'. invoke_socket_pta C (watz_kernel C Q) PTA_SOCKET_OPEN ?ps ?s =
      Some (TEE_SUCCESS, update_out_params ?ps (invoke_outputs ?ps TEE_SUCCESS [OUT_NONE, OUT_NONE, OUT_NONE, OUT_VALUE (r_value r mod 2 ^ 32) 0]), s') \<and> net_step ?s w s' \<and> sockets_up C Q i s'"
    by (rule invoke_socket_pta_run [OF up1 up(2), where n = 1])
      (use up(2) rpc in \<open>simp add: pta_socket_invoke_command_def socket_open_def thread_rpc_cmd_def\<close>)
  then obtain s1 where s1: "invoke_socket_pta C (watz_kernel C Q) PTA_SOCKET_OPEN ?ps ?s =
      Some (TEE_SUCCESS, [OUT_NONE, OUT_NONE, OUT_NONE, OUT_VALUE (r_value r mod 2 ^ 32) 0], s1)" "net_step ?s w s1" "sockets_up C Q i s1"
    by auto
  let ?c = "tick s + 1"
  let ?s' = "s1\<lparr>w_socks := (w_socks s1)(?c \<mapsto> \<lparr>sc_handle = r_value r mod 2 ^ 32, sc_proto_error = TEE_SUCCESS\<rparr>)\<rparr>"
  have step: "net_step s w s1" using s1(2) unfolding net_step_def by (cases s; cases s1) simp
  have run: "net_run C Q i ?c w s ?s'" "w_socks s1 = w_socks s"
    using net_step_socks [OF step] by (auto intro: net_run_step [OF step s1(3)])
  then show ?thesis using s1(1) v up(2)
    by (intro exI [of _ ?c] exI [of _ ?s']) (simp add: tcp_open_def sock_open_def tee_socket_pta_open_def Let_def)
qed

section \<open>Properties\<close>

text \<open>A normal world for the witnesses: one peer with the bytes it has still to send and the bytes it was sent.\<close>

fun stream_rpc :: "socket_rpc \<Rightarrow> bytes \<times> bytes \<Rightarrow> (rpc_reply \<times> bytes \<times> bytes) option" where
  "stream_rpc (OPTEE_RPC_SOCKET_OPEN _ _ _ _ _) (inp, outp) =
     Some (\<lparr>r_res = TEE_SUCCESS, r_value = 7, r_size = 0, r_shm = (\<lambda>_. 0)\<rparr>, inp, outp)"
| "stream_rpc (OPTEE_RPC_SOCKET_SEND _ _ buf _) (inp, outp) =
     Some (\<lparr>r_res = TEE_SUCCESS, r_value = length buf, r_size = 0, r_shm = (\<lambda>_. 0)\<rparr>, inp, outp @ buf)"
| "stream_rpc (OPTEE_RPC_SOCKET_RECV _ _ room _) (inp, outp) =
     Some (\<lparr>r_res = TEE_SUCCESS, r_value = 0, r_size = min room (length inp),
             r_shm = (\<lambda>k. if k < length inp then inp ! k else 0)\<rparr>, drop room inp, outp)"
| "stream_rpc _ w = Some (\<lparr>r_res = TEE_SUCCESS, r_value = 0, r_size = 0, r_shm = (\<lambda>_. 0)\<rparr>, w)"

definition stream_platform :: "(bytes \<times> bytes) platform" where
  "stream_platform =
     \<lparr>q_rpc = stream_rpc, q_instance = Some 5, q_other = (\<lambda>_. TEE_ERROR_ITEM_NOT_FOUND), q_time = (\<lambda>n. Some (n, 0)),
      q_self = (1, 2, 3, [])\<rparr>"

definition watz_start :: "'w \<Rightarrow> 'w watz" where
  "watz_start w =
     \<lparr>tick = 3, objs = (\<lambda>_. None), states = (\<lambda>_. None), opers = (\<lambda>_. None), tee_ctxes = [], open_sessions = [],
      single_instance_count = 0, w_pta = pta_boot, w_sess = 0,
      w_socks = (\<lambda>c. if c = 2 then Some \<lparr>sc_handle = 7, sc_proto_error = TEE_SUCCESS\<rparr> else None), w_net = w\<rparr>"

lemma wf_mgr_start [simp]: "wf_mgr K (watz_start w)"
  by (simp add: wf_mgr_def watz_start_def)

lemma sockets_up_start: "sockets_up C stream_platform 5 (watz_start w)"
  by (simp add: sockets_up_def stream_platform_def new_session_id_def ids_def Let_def) (simp add: watz_start_def)

text \<open>C9. Whatever a trusted application does through the client library, the lists of the session manager stay consistent:
  the identifiers of open sessions are distinct and not 0, no session stays locked and no application busy, and the
  reference count of each application is the number of its sessions.\<close>

theorem sessions_stay_consistent:
  assumes "(api_step C (watz_kernel C Q))\<^sup>*\<^sup>* s s'"
    and "tee_ctxes s = []" "open_sessions s = []" "single_instance_count s = 0"
  shows "wf_mgr (watz_kernel C Q) s'"
  by (rule wm.reachable_inv [OF assms(1)]) (simp add: wf_mgr_def assms)

text \<open>The state after a session with the socket application was opened on the sample platform.\<close>

definition session_opened :: "(bytes \<times> bytes) watz" where
  "session_opened = (watz_start ([], []))\<lparr>tick := 8,
     tee_ctxes := [(8, \<lparr>c_uuid = PTA_SOCKET_UUID, c_flags = insert TA_FLAG_CONCURRENT PTA_MANDATORY_FLAGS, c_panicked = False,
       c_ref_count = 1, c_busy = False\<rparr>)],
     open_sessions := [(7, \<lparr>s_id = 1, s_ctx = Some 8, s_user_ctx = 5, s_clnt_id = (TEE_LOGIN_TRUSTED_APP, 1, 2, 3, []),
       s_err_origin = Some TEE_ORIGIN_TRUSTED_APP, s_cancel = False, s_cancel_mask = True,
       s_cancel_time = (UINT32_MAX, UINT32_MAX), s_ref_count = 0, s_locked = False, s_unlink = False\<rparr>)]\<rparr>"

lemma session_opened_run:
  "TEE_OpenTASession sample_env (watz_kernel sample_env stream_platform) PTA_SOCKET_UUID TEE_TIMEOUT_INFINITE [] (watz_start ([], [])) =
     Some (TEE_SUCCESS, 1, [], session_opened)"
  by (simp add: TEE_OpenTASession_def copy_param_def syscall_open_ta_session_def tee_ta_open_session_def tee_ta_init_session_def
    watz_start_def new_session_id_def tee_ta_init_session_with_context_def tee_ta_context_find_def
    tee_ta_init_pseudo_ta_session_def upd_sess_def upd_at_def session_zero_def Let_def tee_ta_try_set_busy_def
    socket_pta_def set_invoke_timeout_def invoke_deadline_def pseudo_ta_enter_open_session_def pta_socket_open_session_def
    stream_platform_def tee_ta_clear_busy_def tee_ta_put_session_def session_opened_def self_identity_def
    require_def)

theorem sessions_stay_consistent_witness:
  "wf_mgr (watz_kernel sample_env stream_platform) session_opened"
proof -
  have "api_step sample_env (watz_kernel sample_env stream_platform) (watz_start ([], [])) session_opened"
    by (rule api_open [OF session_opened_run])
  then show ?thesis
    by (intro sessions_stay_consistent [OF r_into_rtranclp]) (assumption, simp_all add: watz_start_def)
qed

text \<open>C23. A session that was closed cannot be used again: a command on its handle is a panic of the caller.\<close>

theorem closed_session_panics:
  assumes "wf_mgr (watz_kernel C Q) s" "h \<noteq> 0" "TEE_CloseTASession (watz_kernel C Q) h s = Some s'" "no_oom C"
  shows "TEE_InvokeTACommand C (watz_kernel C Q) h to cmd ps s' = None"
  using wk.close_forgets [OF assms(1-3)] assms(4)
  by (simp add: TEE_InvokeTACommand_def copy_param_def syscall_invoke_ta_command_def tee_ta_get_session_def require_def)

theorem closed_session_panics_witness:
  "\<exists>s'. TEE_CloseTASession (watz_kernel sample_env stream_platform) 1 session_opened = Some s' \<and>
     TEE_InvokeTACommand sample_env (watz_kernel sample_env stream_platform) 1 0 PTA_SOCKET_CLOSE [] s' = None"
proof -
  have "\<exists>s'. TEE_CloseTASession (watz_kernel sample_env stream_platform) 1 session_opened = Some s'"
    by (simp add: TEE_CloseTASession_def syscall_close_ta_session_def tee_ta_find_session_def session_opened_def
      tee_ta_close_session_def tee_ta_get_session_def upd_sess_def upd_at_def Let_def check_client_def self_identity_def
      watz_kernel_def stream_platform_def tee_ta_set_busy_def tee_ta_try_set_busy_def set_invoke_timeout_def
      pseudo_ta_enter_close_session_def pta_of_def attestation_pta_def socket_pta_def PTA_SOCKET_UUID_def
      PTA_ATTESTATION_SERVICE_UUID_def pta_socket_close_session_def thread_rpc_cmd_def watz_start_def destroy_session_def
      tee_ta_unlink_session_def tee_ta_clear_busy_def require_def)
  then obtain s' where s': "TEE_CloseTASession (watz_kernel sample_env stream_platform) 1 session_opened = Some s'" ..
  have "wf_mgr (watz_kernel sample_env stream_platform) session_opened"
    by (rule wk.api_step_wf [OF wf_mgr_start api_open [OF session_opened_run]])
  from closed_session_panics [OF this _ s' no_oom_sample] s' show ?thesis by simp
qed

text \<open>C10. Receiving from a socket is safe against the normal world, whatever it answers, the result
  \<^verbatim>\<open>TEE_ERROR_TARGET_DEAD\<close> included: the call returns if and only if the normal world answers; the length it reports and
  the bytes it writes are never more than the buffer has room for; an answer that is longer is refused with
  \<^verbatim>\<open>TEE_ERROR_GENERIC\<close> and none of its bytes; any other answer gives its result and its bytes, followed by zeros when
  the result is \<^verbatim>\<open>TEE_ERROR_TARGET_DEAD\<close>, which keeps the kernel from updating the length. The objects of the trusted
  application and its other sockets do not change.\<close>

theorem sock_recv_safe:
  assumes "sockets_up C Q i s" "no_oom C" "w_socks s c = Some x" "c \<noteq> 0"
  shows "case q_rpc Q (OPTEE_RPC_SOCKET_RECV i (sc_handle x) room to) (w_net s) of
      None \<Rightarrow> sock_recv C (watz_kernel C Q) c room to s = None
    | Some (r, w) \<Rightarrow> \<exists>res bs s'. sock_recv C (watz_kernel C Q) c room to s = Some (res, length bs, bs, s') \<and>
        length bs \<le> room \<and> res = (if room < r_size r then TEE_ERROR_GENERIC else r_res r) \<and>
        bs = (if room < r_size r then replicate room 0
              else map (r_shm r) [0..<r_size r] @
                (if r_res r = TEE_ERROR_TARGET_DEAD then replicate (room - r_size r) 0 else [])) \<and>
        net_run C Q i c w s s'"
proof (cases "q_rpc Q (OPTEE_RPC_SOCKET_RECV i (sc_handle x) room to) (w_net s)")
  case None
  with sock_recv_blocked [OF assms(1-3) None] show ?thesis by simp
next
  case (Some rw)
  obtain r w where rw: "rw = (r, w)" by (cases rw)
  obtain res bs where d: "received r room = (res, bs)" by (cases "received r room")
  from sock_recv_received [OF assms Some [unfolded rw] d] obtain s' where
    "sock_recv C (watz_kernel C Q) c room to s = Some (res, length bs, bs, s')" "net_run C Q i c w s s'" by blast
  moreover have "length bs \<le> room" "res = (if room < r_size r then TEE_ERROR_GENERIC else r_res r)"
      "bs = (if room < r_size r then replicate room 0
              else map (r_shm r) [0..<r_size r] @
                (if r_res r = TEE_ERROR_TARGET_DEAD then replicate (room - r_size r) 0 else []))"
    using d by (auto simp: received_def split: if_splits)
  ultimately show ?thesis unfolding Some rw option.case prod.case by blast
qed

text \<open>An answer that fits, and one from a normal world that claims to have sent more than there is room for.\<close>

definition hostile_platform :: "(bytes \<times> bytes) platform" where
  "hostile_platform = stream_platform
     \<lparr>q_rpc := \<lambda>req w. Some (\<lparr>r_res = TEE_SUCCESS, r_value = 0, r_size = 9, r_shm = (\<lambda>_. 1)\<rparr>, w)\<rparr>"

theorem sock_recv_safe_witness:
  "(\<exists>s'. sock_recv sample_env (watz_kernel sample_env stream_platform) 2 4 0 (watz_start ([1, 2, 3, 4, 5, 6], [])) =
     Some (TEE_SUCCESS, 4, [1, 2, 3, 4], s')) \<and>
   (\<exists>s'. sock_recv sample_env (watz_kernel sample_env hostile_platform) 2 4 0 (watz_start ([], [])) =
     Some (TEE_ERROR_GENERIC, 4, [0, 0, 0, 0], s'))"
proof
  let ?w = "([1, 2, 3, 4, 5, 6], []) :: bytes \<times> bytes" and ?x = "\<lparr>sc_handle = 7, sc_proto_error = TEE_SUCCESS\<rparr>"
  let ?r = "\<lparr>r_res = TEE_SUCCESS, r_value = 0, r_size = 4, r_shm = (\<lambda>k. if k < 6 then [1, 2, 3, 4, 5, 6 :: byte] ! k else 0)\<rparr>"
  have x: "w_socks (watz_start w) 2 = Some ?x" for w :: "bytes \<times> bytes" by (simp add: watz_start_def)
  have "q_rpc stream_platform (OPTEE_RPC_SOCKET_RECV 5 7 4 0) ?w = Some (?r, [5, 6], [])"
    by (simp add: stream_platform_def eval_nat_numeral)
  then show "\<exists>s'. sock_recv sample_env (watz_kernel sample_env stream_platform) 2 4 0 (watz_start ?w) =
     Some (TEE_SUCCESS, 4, [1, 2, 3, 4], s')"
    using sock_recv_safe [OF sockets_up_start no_oom_sample x, of 4 0 ?w] by (auto simp: watz_start_def upt_rec)
  have up: "sockets_up sample_env hostile_platform 5 (watz_start w)" for w
    by (simp add: sockets_up_def hostile_platform_def stream_platform_def new_session_id_def ids_def Let_def)
      (simp add: watz_start_def)
  show "\<exists>s'. sock_recv sample_env (watz_kernel sample_env hostile_platform) 2 4 0 (watz_start ([], [])) =
     Some (TEE_ERROR_GENERIC, 4, [0, 0, 0, 0], s')"
    using sock_recv_safe [OF up no_oom_sample x, of 4 0 "([], [])"]
    by (auto simp: hostile_platform_def numeral_eq_Suc)
qed

end
