(* ===== verification/Attester.thy ===== *)
theory Attester
  imports Tee_Socket
begin

text \<open>
  The attester: the remote attestation functions of the trusted application that runs the Wasm code
  (\<^verbatim>\<open>remote_attestation.c\<close>). The context is a record that the functions take and return; handles are addresses of the
  device, 0 for the null handle. The attributes of the remote keys point into the first message and are read from it
  when they are used. A read past the end of a field, a write past the end of a buffer, and a handle that is freed before
  it was assigned have the value \<open>None\<close>; the debug output and the profiling are left out, but for the output of a message
  with an invalid signature, which is always there.
\<close>

section \<open>Definitions\<close>

text \<open>The output of byte arrays, in lines of fifty bytes, into a buffer that \<^verbatim>\<open>TEE_Malloc\<close> returned.\<close>

function print_lines :: "bytes \<Rightarrow> bytes \<Rightarrow> unit option" where
  "print_lines buf bs =
     (if bs = [] then Some ()
      else case print_loop buf 150 0 (take 50 bs) of
        None \<Rightarrow> None
      | Some (buf, cursor) \<Rightarrow>
          (case wr buf cursor [0] of None \<Rightarrow> None | Some buf \<Rightarrow> print_lines buf (drop 50 bs)))"
  by pat_completeness auto
termination by (relation "measure (\<lambda>(buf, bs). length bs)") auto

declare print_lines.simps [simp del]

definition print_byte_array :: "bytes \<Rightarrow> unit option" where
  "print_byte_array bs = print_lines (replicate 150 0) bs"

record ra_context =
  ecdh_local_keypair_handle :: nat
  ecdh_shared_key_derivation_key :: nat
  ecdh_shared_mac_key :: nat
  ecdh_shared_session_key :: nat
  ecdsa_verifier_public_key_handle :: nat
  c_msg0 :: msg0_t
  c_msg1 :: msg1_t
  c_msg2 :: msg2_t
  c_msg3_addr :: nat
  c_msg3 :: bytes
  c_msg3_size :: nat
  c_socket_ctx :: nat
  c_socket :: bool

text \<open>The data read so far is the list; the room of the next read is the size of the last one, and what does not fit
  into the buffer is written past its end.\<close>

function receive_socket_per_chunk ::
    "env \<Rightarrow> (('w, 'b) watz_scheme) kernel \<Rightarrow> nat \<Rightarrow> nat \<Rightarrow> nat \<Rightarrow> bytes \<Rightarrow> ('w, 'b) watz_scheme \<Rightarrow>
     (TEE_Result \<times> bytes \<times> ('w, 'b) watz_scheme) option" where
  "receive_socket_per_chunk C K h chunk_size data_size data s =
     (if chunk_size > 0 \<and> length data < data_size
      then if length data > data_size then Some (TEE_ERROR_SHORT_BUFFER, data, s)
           else (case sock_recv C K h chunk_size TEE_TIMEOUT_INFINITE s of
                   None \<Rightarrow> None
                 | Some (res, n, bs, s) \<Rightarrow>
                     if res \<noteq> TEE_SUCCESS then Some (res, data, s)
                     else if length bs = n \<and> length data + n \<le> data_size
                     then receive_socket_per_chunk C K h n data_size (data @ bs) s
                     else None)
      else Some (TEE_SUCCESS, data, s))"
  by pat_completeness auto
termination
  by (relation "measures [\<lambda>(C, K, h, chunk_size, data_size, data, s). data_size - length data,
    \<lambda>(C, K, h, chunk_size, data_size, data, s). chunk_size]") auto

declare receive_socket_per_chunk.simps [simp del]

definition zero_ra_context :: ra_context where
  "zero_ra_context =
     \<lparr>ecdh_local_keypair_handle = 0, ecdh_shared_key_derivation_key = 0, ecdh_shared_mac_key = 0,
      ecdh_shared_session_key = 0, ecdsa_verifier_public_key_handle = 0, c_msg0 = zero_pubkey, c_msg1 = zero_msg1,
      c_msg2 = zero_msg2, c_msg3_addr = 0, c_msg3 = [], c_msg3_size = 0, c_socket_ctx = 0, c_socket = False\<rparr>"

definition alloc_ra_context :: ra_context where
  "alloc_ra_context = zero_ra_context\<lparr>c_msg0 := zero_pubkey\<lparr>x_size := 32, y_size := 32\<rparr>\<rparr>"

definition close_attestation_session ::
    "('a mgr_scheme) kernel \<Rightarrow> 32 word \<Rightarrow> 'a mgr_scheme \<Rightarrow> (TEE_Result \<times> 'a mgr_scheme) option" where
  "close_attestation_session K attestation_session s = do {
     s \<leftarrow> TEE_CloseTASession K attestation_session s;
     Some (TEE_SUCCESS, s)
   }"

definition free_ra_context ::
    "env \<Rightarrow> (('w, 'b) watz_scheme) kernel \<Rightarrow> ra_context \<Rightarrow> ('w, 'b) watz_scheme \<Rightarrow>
     (TEE_Result \<times> ra_context \<times> ('w, 'b) watz_scheme) option" where
  "free_ra_context C K ctx s = do {
     s \<leftarrow> TEE_FreeTransientObject (ecdh_local_keypair_handle ctx) s;
     s \<leftarrow> TEE_FreeTransientObject (ecdh_shared_key_derivation_key ctx) s;
     s \<leftarrow> TEE_FreeTransientObject (ecdh_shared_mac_key ctx) s;
     s \<leftarrow> TEE_FreeTransientObject (ecdh_shared_session_key ctx) s;
     s \<leftarrow> TEE_FreeTransientObject (ecdsa_verifier_public_key_handle ctx) s;
     let ctx = (if c_msg3_size ctx > 0 then ctx\<lparr>c_msg3_size := 0, c_msg3 := []\<rparr> else ctx);
     require (c_socket ctx);
     (_, s) \<leftarrow> sock_close C K (c_socket_ctx ctx) s;
     Some (TEE_SUCCESS, ctx, s)
   }"

definition generate_ecdh_keypair ::
    "env \<Rightarrow> ra_context \<Rightarrow> 'a tee_scheme \<Rightarrow> (TEE_Result \<times> ra_context \<times> 'a tee_scheme) option" where
  "generate_ecdh_keypair C ctx s = do {
     (res, h, s) \<leftarrow> generate_p256_keypair C TEE_TYPE_ECDH_KEYPAIR s;
     (case h of
        None \<Rightarrow> Some (res, ctx, s)
      | Some h \<Rightarrow> do {
          let ctx = ctx\<lparr>ecdh_local_keypair_handle := h\<rparr>;
          if res \<noteq> TEE_SUCCESS then Some (res, ctx, s)
          else do {
            (res, pk) \<leftarrow> extract_public_key C h (c_msg0 ctx) s;
            Some (res, ctx\<lparr>c_msg0 := pk\<rparr>, s)
          }
        })
   }"

definition establish_tcp_connection ::
    "env \<Rightarrow> (('w, 'b) watz_scheme) kernel \<Rightarrow> bytes \<Rightarrow> ra_context \<Rightarrow> ('w, 'b) watz_scheme \<Rightarrow>
     (TEE_Result \<times> ra_context \<times> ('w, 'b) watz_scheme) option" where
  "establish_tcp_connection C K host ctx s = do {
     (res, sock, protocolError, s) \<leftarrow> tcp_open C K (0, Some host, 8080) s;
     Some (res, ctx\<lparr>c_socket := True, c_socket_ctx := sock\<rparr>, s)
   }"

definition send_msg0 ::
    "env \<Rightarrow> (('w, 'b) watz_scheme) kernel \<Rightarrow> ra_context \<Rightarrow> ('w, 'b) watz_scheme \<Rightarrow> (TEE_Result \<times> ('w, 'b) watz_scheme) option" where
  "send_msg0 C K ctx s = do {
     (res, msg0_size, s) \<leftarrow> sock_send C K (c_socket_ctx ctx) (pubkey_bytes (c_msg0 ctx)) TEE_TIMEOUT_INFINITE s;
     Some (res, s)
   }"

definition receive_msg1 ::
    "env \<Rightarrow> (('w, 'b) watz_scheme) kernel \<Rightarrow> ra_context \<Rightarrow> ('w, 'b) watz_scheme \<Rightarrow>
     (TEE_Result \<times> ra_context \<times> ('w, 'b) watz_scheme) option" where
  "receive_msg1 C K ctx s = do {
     (res, msg1, s) \<leftarrow> receive_socket_per_chunk C K (c_socket_ctx ctx) sizeof_msg1_t sizeof_msg1_t [] s;
     if res \<noteq> TEE_SUCCESS then Some (res, ctx, s)
     else if length msg1 < sizeof_msg1_t then Some (TEE_ERROR_GENERIC, ctx, s)
     else Some (TEE_SUCCESS, ctx\<lparr>c_msg1 := msg1_at msg1\<rparr>, s)
   }"

definition verify_service_public_key :: "ra_context \<Rightarrow> bytes \<Rightarrow> nat \<Rightarrow> bytes \<Rightarrow> nat \<Rightarrow> TEE_Result option" where
  "verify_service_public_key ctx key_x key_x_size key_y key_y_size =
     (if key_x_size = 0 \<and> key_y_size = 0 then Some TEE_SUCCESS
      else if key_x_size \<noteq> RA_ECDSA_KEY_SIZE div 8 \<or> key_y_size \<noteq> RA_ECDSA_KEY_SIZE div 8
      then Some TEE_ERROR_COMMUNICATION
      else do {
        x \<leftarrow> rd key_x key_x_size;
        if x \<noteq> x_raw (m1_ecdsa (c_msg1 ctx)) then Some TEE_ERROR_COMMUNICATION
        else do {
          y \<leftarrow> rd key_y key_y_size;
          if y \<noteq> y_raw (m1_ecdsa (c_msg1 ctx)) then Some TEE_ERROR_COMMUNICATION else Some TEE_SUCCESS
        }
      })"

definition import_verifier_attestation_key ::
    "env \<Rightarrow> ra_context \<Rightarrow> 'a tee_scheme \<Rightarrow> (TEE_Result \<times> ra_context \<times> 'a tee_scheme) option" where
  "import_verifier_attestation_key C ctx s = do {
     curve_attr \<leftarrow> TEE_InitValueAttribute TEE_ATTR_ECC_CURVE TEE_ECC_CURVE_NIST_P256 4;
     (r, s) \<leftarrow> TEE_AllocateTransientObject C TEE_TYPE_ECDSA_PUBLIC_KEY RA_ECDSA_KEY_SIZE s;
     (case r of
        Inl e \<Rightarrow> Some (e, ctx, s)
      | Inr h \<Rightarrow> do {
          let ctx = ctx\<lparr>ecdsa_verifier_public_key_handle := h\<rparr>;
          x \<leftarrow> x_of (m1_ecdsa (c_msg1 ctx));
          y \<leftarrow> y_of (m1_ecdsa (c_msg1 ctx));
          x_attr \<leftarrow> TEE_InitRefAttribute TEE_ATTR_ECC_PUBLIC_VALUE_X x;
          y_attr \<leftarrow> TEE_InitRefAttribute TEE_ATTR_ECC_PUBLIC_VALUE_Y y;
          (res, s) \<leftarrow> TEE_PopulateTransientObject C h [x_attr, y_attr, curve_attr] s;
          Some (res, ctx, s)
        })
   }"

text \<open>What is printed when the signature is invalid.\<close>

definition dump_msg1 :: "ra_context \<Rightarrow> bytes \<Rightarrow> unit option" where
  "dump_msg1 ctx digest = do {
     print_byte_array (msg1_bytes (c_msg1 ctx));
     print_byte_array digest;
     x \<leftarrow> x_of (m1_ecdsa (c_msg1 ctx)); print_byte_array x;
     y \<leftarrow> y_of (m1_ecdsa (c_msg1 ctx)); print_byte_array y;
     x \<leftarrow> x_of (c_msg0 ctx); print_byte_array x;
     y \<leftarrow> y_of (c_msg0 ctx); print_byte_array y;
     x \<leftarrow> x_of (m1_ecdh (c_msg1 ctx)); print_byte_array x;
     y \<leftarrow> y_of (m1_ecdh (c_msg1 ctx)); print_byte_array y
   }"

definition verify_ecdh_public_key_signature ::
    "env \<Rightarrow> ra_context \<Rightarrow> 'a tee_scheme \<Rightarrow> (TEE_Result \<times> 'a tee_scheme) option" where
  "verify_ecdh_public_key_signature C ctx s = do {
     vx \<leftarrow> x_of (m1_ecdh (c_msg1 ctx));
     vy \<leftarrow> y_of (m1_ecdh (c_msg1 ctx));
     ax \<leftarrow> x_of (c_msg0 ctx);
     ay \<leftarrow> y_of (c_msg0 ctx);
     verify_digest4 C (ecdsa_verifier_public_key_handle ctx) vx vy ax ay (m1_ecdh_signature (c_msg1 ctx)) (dump_msg1 ctx) s
   }"

definition verify_msg1_mac :: "env \<Rightarrow> ra_context \<Rightarrow> 'a tee_scheme \<Rightarrow> (TEE_Result \<times> 'a tee_scheme) option" where
  "verify_msg1_mac C ctx s = do {
     (r, s) \<leftarrow> TEE_AllocateOperation C TEE_ALG_AES_CMAC TEE_MODE_MAC RA_AES_CMAC_TAG_SIZE s;
     (case r of
        Inl e \<Rightarrow> Some (e, s)
      | Inr aes_cmac_op \<Rightarrow> do {
          (res, s) \<leftarrow> TEE_SetOperationKey C aes_cmac_op (ecdh_shared_mac_key ctx) s;
          if res \<noteq> TEE_SUCCESS then Some (res, s)
          else do {
            s \<leftarrow> TEE_MACInit C aes_cmac_op s;
            x \<leftarrow> x_of (m1_ecdh (c_msg1 ctx));
            s \<leftarrow> TEE_MACUpdate aes_cmac_op x s;
            y \<leftarrow> y_of (m1_ecdh (c_msg1 ctx));
            s \<leftarrow> TEE_MACUpdate aes_cmac_op y s;
            x \<leftarrow> x_of (m1_ecdsa (c_msg1 ctx));
            s \<leftarrow> TEE_MACUpdate aes_cmac_op x s;
            y \<leftarrow> y_of (m1_ecdsa (c_msg1 ctx));
            s \<leftarrow> TEE_MACUpdate aes_cmac_op y s;
            (res, s) \<leftarrow> TEE_MACCompareFinal C aes_cmac_op (m1_ecdh_signature (c_msg1 ctx)) (m1_mac (c_msg1 ctx)) s;
            s \<leftarrow> TEE_FreeOperation aes_cmac_op s;
            Some (res, s)
          }
        })
   }"

text \<open>The bytes of the anchor that were written.\<close>

definition generate_anchor ::
    "env \<Rightarrow> ra_context \<Rightarrow> nat \<Rightarrow> 'a tee_scheme \<Rightarrow> (TEE_Result \<times> bytes \<times> 'a tee_scheme) option" where
  "generate_anchor C ctx anchor_size s =
     (if anchor_size \<noteq> RA_ANCHOR_SIZE then Some (TEE_ERROR_SECURITY, [], s)
      else do {
        ax \<leftarrow> x_of (c_msg0 ctx);
        ay \<leftarrow> y_of (c_msg0 ctx);
        vx \<leftarrow> x_of (m1_ecdh (c_msg1 ctx));
        vy \<leftarrow> y_of (m1_ecdh (c_msg1 ctx));
        (res, operation, digest, digest_len, s) \<leftarrow> digest4 C RA_ANCHOR_SIZE ax ay vx vy s;
        s \<leftarrow> TEE_FreeOperation operation s;
        Some (if res \<noteq> TEE_SUCCESS then res else if digest_len \<noteq> RA_ANCHOR_SIZE then TEE_ERROR_GENERIC else TEE_SUCCESS,
              digest, s)
      })"

definition attester_derive_shared_key ::
    "env \<Rightarrow> ra_context \<Rightarrow> 'a tee_scheme \<Rightarrow> (TEE_Result \<times> ra_context \<times> 'a tee_scheme) option" where
  "attester_derive_shared_key C ctx s = do {
     x \<leftarrow> x_of (m1_ecdh (c_msg1 ctx));
     y \<leftarrow> y_of (m1_ecdh (c_msg1 ctx));
     x_attr \<leftarrow> TEE_InitRefAttribute TEE_ATTR_ECC_PUBLIC_VALUE_X x;
     y_attr \<leftarrow> TEE_InitRefAttribute TEE_ATTR_ECC_PUBLIC_VALUE_Y y;
     (res, kdk, s) \<leftarrow> derive_shared_key C (ecdh_local_keypair_handle ctx) [x_attr, y_attr] s;
     Some (res, (case kdk of None \<Rightarrow> ctx | Some k \<Rightarrow> ctx\<lparr>ecdh_shared_key_derivation_key := k\<rparr>), s)
   }"

definition prepare_msg2 ::
    "env \<Rightarrow> ra_context \<Rightarrow> ra_quote \<Rightarrow> 'a tee_scheme \<Rightarrow> (TEE_Result \<times> ra_context \<times> 'a tee_scheme) option" where
  "prepare_msg2 C ctx quote s = do {
     x \<leftarrow> x_of (c_msg0 ctx);
     y \<leftarrow> y_of (c_msg0 ctx);
     x_buf \<leftarrow> wr (x_raw (m2_ecdh (c_msg2 ctx))) 0 x;
     y_buf \<leftarrow> wr (y_raw (m2_ecdh (c_msg2 ctx))) 0 y;
     let msg2 = (c_msg2 ctx)\<lparr>m2_ecdh := \<lparr>x_raw = x_buf, x_size = x_size (c_msg0 ctx), y_raw = y_buf, y_size = y_size (c_msg0 ctx)\<rparr>,
                              m2_quote := quote\<rparr>;
     let ctx = ctx\<lparr>c_msg2 := msg2\<rparr>;
     (r, s) \<leftarrow> TEE_AllocateOperation C TEE_ALG_AES_CMAC TEE_MODE_MAC RA_AES_CMAC_KEY_SIZE s;
     (case r of
        Inl e \<Rightarrow> None
      | Inr aes_cmac_op \<Rightarrow> do {
          (res, s) \<leftarrow> TEE_SetOperationKey C aes_cmac_op (ecdh_shared_mac_key ctx) s;
          if res \<noteq> TEE_SUCCESS then do { s \<leftarrow> TEE_FreeOperation aes_cmac_op s; Some (TEE_SUCCESS, ctx, s) }
          else do {
            s \<leftarrow> TEE_MACInit C aes_cmac_op s;
            s \<leftarrow> TEE_MACUpdate aes_cmac_op x s;
            s \<leftarrow> TEE_MACUpdate aes_cmac_op y s;
            (res, mac, mac_size, s) \<leftarrow> TEE_MACComputeFinal C aes_cmac_op (quote_bytes (m2_quote msg2)) (RA_AES_CMAC_TAG_SIZE div 8) s;
            s \<leftarrow> TEE_FreeOperation aes_cmac_op s;
            Some (TEE_SUCCESS, if res = TEE_SUCCESS then ctx\<lparr>c_msg2 := msg2\<lparr>m2_mac := mac\<rparr>\<rparr> else ctx, s)
          }
        })
   }"

definition send_msg2 ::
    "env \<Rightarrow> (('w, 'b) watz_scheme) kernel \<Rightarrow> ra_context \<Rightarrow> ('w, 'b) watz_scheme \<Rightarrow> (TEE_Result \<times> ('w, 'b) watz_scheme) option" where
  "send_msg2 C K ctx s = do {
     (res, msg2_size, s) \<leftarrow> sock_send C K (c_socket_ctx ctx) (msg2_bytes (c_msg2 ctx)) TEE_TIMEOUT_INFINITE s;
     Some (res, s)
   }"

definition allocate_msg3 :: "env \<Rightarrow> ra_context \<Rightarrow> nat \<Rightarrow> 'a tee_scheme \<Rightarrow> TEE_Result \<times> ra_context \<times> 'a tee_scheme" where
  "allocate_msg3 C ctx data_size s =
     (case alloc C s of (a, s) \<Rightarrow>
        (TEE_SUCCESS,
         ctx\<lparr>c_msg3_size := (sizeof_msg3_t + data_size + RA_AES_GCM_CIPHERTEXT_OVERHEAD) mod 2 ^ 32, c_msg3_addr := a, c_msg3 := []\<rparr>, s))"

definition receive_msg3 ::
    "env \<Rightarrow> (('w, 'b) watz_scheme) kernel \<Rightarrow> ra_context \<Rightarrow> ('w, 'b) watz_scheme \<Rightarrow>
     (TEE_Result \<times> ra_context \<times> ('w, 'b) watz_scheme) option" where
  "receive_msg3 C K ctx s = do {
     require (c_msg3_addr ctx \<noteq> 0 \<or> c_msg3_size ctx = 0);
     (res, data, s) \<leftarrow> receive_socket_per_chunk C K (c_socket_ctx ctx) (256 * 1024) (c_msg3_size ctx) [] s;
     if res \<noteq> TEE_SUCCESS then Some (res, ctx, s)
     else Some (TEE_SUCCESS, ctx\<lparr>c_msg3 := data, c_msg3_size := length data\<rparr>, s)
   }"

text \<open>The result, the bytes written to the buffer of the caller, and the new value of its size.\<close>

definition decrypt_msg3 ::
    "env \<Rightarrow> ra_context \<Rightarrow> nat \<Rightarrow> 'a tee_scheme \<Rightarrow> (TEE_Result \<times> bytes \<times> nat \<times> 'a tee_scheme) option" where
  "decrypt_msg3 C ctx data_size s = do {
     (r, s) \<leftarrow> TEE_AllocateOperation C TEE_ALG_AES_GCM TEE_MODE_DECRYPT RA_AES_GCM_KEY_SIZE s;
     (case r of
        Inl e \<Rightarrow> None
      | Inr operation \<Rightarrow> do {
          (res, s) \<leftarrow> TEE_SetOperationKey C operation (ecdh_shared_session_key ctx) s;
          if res \<noteq> TEE_SUCCESS then do { s \<leftarrow> TEE_FreeOperation operation s; Some (res, [], data_size, s) }
          else do {
            require (sizeof_msg3_t \<le> length (c_msg3 ctx));
            let msg3 = msg3_at (c_msg3 ctx);
            (res, s) \<leftarrow> TEE_AEInit C operation (m3_iv msg3) RA_AES_GCM_TAG_SIZE s;
            if res \<noteq> TEE_SUCCESS then do { s \<leftarrow> TEE_FreeOperation operation s; Some (res, [], data_size, s) }
            else do {
              content \<leftarrow> rd (m3_content msg3) (m3_size msg3);
              (res, data, len, s) \<leftarrow> TEE_AEDecryptFinal C operation (Some content) data_size (m3_tag msg3) s;
              s \<leftarrow> TEE_FreeOperation operation s;
              Some (res, data, len, s)
            }
          }
        })
   }"

definition ensure_attestation_service_up ::
    "env \<Rightarrow> ('a mgr_scheme) kernel \<Rightarrow> 32 word \<Rightarrow> 'a mgr_scheme \<Rightarrow> (TEE_Result \<times> 32 word \<times> 'a mgr_scheme) option" where
  "ensure_attestation_service_up C K attestation_session s =
     (if attestation_session \<noteq> 0 then Some (TEE_SUCCESS, attestation_session, s)
      else do {
        (res, h, _, s) \<leftarrow> TEE_OpenTASession C K PTA_ATTESTATION_SERVICE_UUID TEE_TIMEOUT_INFINITE [] s;
        Some (res, h, s)
      })"

text \<open>The result, the session handle, the quote and the state.\<close>

definition ra_quote_collect ::
    "env \<Rightarrow> ('a mgr_scheme) kernel \<Rightarrow> 32 word \<Rightarrow> bytes \<Rightarrow> bytes \<Rightarrow> ra_quote \<Rightarrow> 'a mgr_scheme \<Rightarrow>
     (TEE_Result \<times> 32 word \<times> ra_quote \<times> 'a mgr_scheme) option" where
  "ra_quote_collect C K attestation_session wasm_bytecode_hash anchor quote s = do {
     (res, sess, s) \<leftarrow> ensure_attestation_service_up C K attestation_session s;
     if res \<noteq> TEE_SUCCESS then Some (res, sess, quote, s)
     else do {
       (res, out, s) \<leftarrow> TEE_InvokeTACommand C K sess TEE_TIMEOUT_INFINITE ATTESTATION_CMD_GEN_QUOTE
         [MEMREF_INPUT wasm_bytecode_hash, MEMREF_INPUT anchor, MEMREF_INOUT (quote_bytes quote), PARAM_NONE] s;
       let quote = (case out of _ # _ # OUT_MEMREF n bs # _ \<Rightarrow> quote_at bs | _ \<Rightarrow> quote);
       Some (res, sess, quote, s)
     }
   }"

definition ra_quote_dispose ::
    "('a mgr_scheme) kernel \<Rightarrow> 32 word \<Rightarrow> ra_quote \<Rightarrow> 'a mgr_scheme \<Rightarrow> (TEE_Result \<times> 32 word \<times> ra_quote \<times> 'a mgr_scheme) option" where
  "ra_quote_dispose K attestation_session quote s = do {
     (res, s) \<leftarrow> close_attestation_session K attestation_session s;
     if res \<noteq> TEE_SUCCESS then Some (res, attestation_session, quote, s)
     else Some (TEE_SUCCESS, attestation_session, zero_quote, s)
   }"

text \<open>The part of \<^verbatim>\<open>ra_net_handshake\<close> after the first message was received.\<close>

definition handshake_process_msg1 ::
    "env \<Rightarrow> ra_context \<Rightarrow> bytes \<Rightarrow> nat \<Rightarrow> bytes \<Rightarrow> nat \<Rightarrow> nat \<Rightarrow> 'a tee_scheme \<Rightarrow>
     (TEE_Result \<times> ra_context \<times> bytes \<times> 'a tee_scheme) option" where
  "handshake_process_msg1 C ctx key_x key_x_size key_y key_y_size anchor_size s = do {
     res \<leftarrow> verify_service_public_key ctx key_x key_x_size key_y key_y_size;
     if res \<noteq> TEE_SUCCESS then Some (res, ctx, [], s)
     else do {
       (res, ctx, s) \<leftarrow> import_verifier_attestation_key C ctx s;
       if res \<noteq> TEE_SUCCESS then Some (res, ctx, [], s)
       else do {
         (res, s) \<leftarrow> verify_ecdh_public_key_signature C ctx s;
         if res \<noteq> TEE_SUCCESS then Some (res, ctx, [], s)
         else do {
           (res, ctx, s) \<leftarrow> attester_derive_shared_key C ctx s;
           if res \<noteq> TEE_SUCCESS then Some (res, ctx, [], s)
           else do {
             (res, k, s) \<leftarrow> derive_shared_mac_key C (ecdh_shared_key_derivation_key ctx) RA_SHARED_MAC_DATA s;
             let ctx = (case k of None \<Rightarrow> ctx | Some k \<Rightarrow> ctx\<lparr>ecdh_shared_mac_key := k\<rparr>);
             if res \<noteq> TEE_SUCCESS then Some (res, ctx, [], s)
             else do {
               (res, k, s) \<leftarrow> derive_shared_mac_key C (ecdh_shared_key_derivation_key ctx) RA_SHARED_SESSION_DATA s;
               let ctx = (case k of None \<Rightarrow> ctx | Some k \<Rightarrow> ctx\<lparr>ecdh_shared_session_key := k\<rparr>);
               if res \<noteq> TEE_SUCCESS then Some (res, ctx, [], s)
               else do {
                 (res, s) \<leftarrow> verify_msg1_mac C ctx s;
                 if res \<noteq> TEE_SUCCESS then Some (res, ctx, [], s)
                 else do {
                   (res, anchor, s) \<leftarrow> generate_anchor C ctx anchor_size s;
                   Some (res, ctx, anchor, s)
                 }
               }
             }
           }
         }
       }
     }
   }"

definition ra_net_handshake ::
    "env \<Rightarrow> (('w, 'b) watz_scheme) kernel \<Rightarrow> bytes \<Rightarrow> bytes \<Rightarrow> nat \<Rightarrow> bytes \<Rightarrow> nat \<Rightarrow> nat \<Rightarrow> ('w, 'b) watz_scheme \<Rightarrow>
     (TEE_Result \<times> ra_context \<times> bytes \<times> ('w, 'b) watz_scheme) option" where
  "ra_net_handshake C K host key_x key_x_size key_y key_y_size anchor_size s = do {
     let ctx = alloc_ra_context;
     (res, ctx, s) \<leftarrow> generate_ecdh_keypair C ctx s;
     if res \<noteq> TEE_SUCCESS then Some (res, ctx, [], s)
     else do {
       (res, ctx, s) \<leftarrow> establish_tcp_connection C K host ctx s;
       if res \<noteq> TEE_SUCCESS then Some (res, ctx, [], s)
       else do {
         (res, s) \<leftarrow> send_msg0 C K ctx s;
         if res \<noteq> TEE_SUCCESS then Some (res, ctx, [], s)
         else do {
           (res, ctx, s) \<leftarrow> receive_msg1 C K ctx s;
           if res \<noteq> TEE_SUCCESS then Some (res, ctx, [], s)
           else handshake_process_msg1 C ctx key_x key_x_size key_y key_y_size anchor_size s
         }
       }
     }
   }"

definition ra_net_send_quote ::
    "env \<Rightarrow> (('w, 'b) watz_scheme) kernel \<Rightarrow> ra_context \<Rightarrow> ra_quote \<Rightarrow> ('w, 'b) watz_scheme \<Rightarrow>
     (TEE_Result \<times> ra_context \<times> ('w, 'b) watz_scheme) option" where
  "ra_net_send_quote C K ctx quote s = do {
     (res, ctx, s) \<leftarrow> prepare_msg2 C ctx quote s;
     if res \<noteq> TEE_SUCCESS then Some (res, ctx, s)
     else do { (res, s) \<leftarrow> send_msg2 C K ctx s; Some (res, ctx, s) }
   }"

definition ra_net_receive_data ::
    "env \<Rightarrow> (('w, 'b) watz_scheme) kernel \<Rightarrow> ra_context \<Rightarrow> nat \<Rightarrow> ('w, 'b) watz_scheme \<Rightarrow>
     (TEE_Result \<times> bytes \<times> nat \<times> ra_context \<times> ('w, 'b) watz_scheme) option" where
  "ra_net_receive_data C K ctx data_size s =
     (case allocate_msg3 C ctx data_size s of (res, ctx, s) \<Rightarrow> do {
        (res, ctx, s) \<leftarrow> receive_msg3 C K ctx s;
        if res \<noteq> TEE_SUCCESS then Some (res, [], data_size, ctx, s)
        else do {
          (res, data, len, s) \<leftarrow> decrypt_msg3 C ctx data_size s;
          Some (res, data, len, ctx, s)
        }
      })"

definition ra_net_dispose ::
    "env \<Rightarrow> (('w, 'b) watz_scheme) kernel \<Rightarrow> ra_context \<Rightarrow> ('w, 'b) watz_scheme \<Rightarrow>
     (TEE_Result \<times> ra_context \<times> ('w, 'b) watz_scheme) option" where
  "ra_net_dispose C K ctx s = free_ra_context C K ctx s"


section \<open>The network\<close>

text \<open>Whatever the normal world replies, the socket interface leaves the objects of the trusted application alone.\<close>

lemma pta_socket_invoke_frame:
  assumes "pta_socket_invoke_command C Q u cmd ps s = Some (res, out, s')"
  shows "s' = s\<lparr>tick := tick s', w_net := w_net s'\<rparr> \<and> tick s \<le> tick s'"
  using assms
  by (auto simp: pta_socket_invoke_command_def socket_open_def socket_close_def socket_send_def socket_recv_def
    socket_ioctl_def thread_rpc_cmd_def alloc_def split: if_splits tee_param.splits list.splits Option.bind_splits prod.splits)

lemma invoke_socket_pta_frame:
  fixes s :: "('w, 'b) watz_scheme"
  assumes up: "sockets_up C Q i s" and oom: "no_oom C" and run: "invoke_socket_pta C (watz_kernel C Q) cmd ps s = Some (res, out, s')"
  shows "net_step s (w_net s') s' \<and> sockets_up C Q i s'"
proof -
  obtain s0 where s0: "(if w_sess s = 0
       then do {
         (res, h, _, s) \<leftarrow> TEE_OpenTASession C (watz_kernel C Q) PTA_SOCKET_UUID TEE_TIMEOUT_INFINITE [] s;
         Some (res, s\<lparr>w_sess := h\<rparr>)
       }
       else Some (TEE_SUCCESS, s)) = Some (TEE_SUCCESS, s0)" "net_step s (w_net s) s0" "wf_mgr (watz_kernel C Q) s0"
       "w_sess s0 \<noteq> 0" "live_session (watz_kernel C Q) (w_sess s0) PTA_SOCKET_UUID i s0"
    using socket_session_run [OF up oom] by blast
  have q: "q_instance Q = Some i" using up by (simp add: sockets_up_def)
  have inv: "TEE_InvokeTACommand C (watz_kernel C Q) (w_sess s0) TEE_TIMEOUT_INFINITE cmd ps s0 = Some (res, out, s')"
    using run s0(1) by (simp add: invoke_socket_pta_def)
  obtain s1 f where s1: "mgr_eq (s0\<lparr>tick := tick s1\<rparr>) s1" "tick s0 \<le> tick s1"
    and r: "TEE_InvokeTACommand C (watz_kernel C Q) (w_sess s0) TEE_TIMEOUT_INFINITE cmd ps s0 =
      (case p_invoke (socket_pta C Q) i cmd ps s1 of
         None \<Rightarrow> None
       | Some (res, out, s2) \<Rightarrow> Some (res, update_out_params ps (invoke_outputs ps res out), f s2))"
    and all: "\<forall>res out s2. p_invoke (socket_pta C Q) i cmd ps s1 = Some (res, out, s2) \<longrightarrow> mgr_eq s2 (f s2) \<and>
      wf_mgr (watz_kernel C Q) (f s2) \<and>
      (\<forall>h uuid u. live_session (watz_kernel C Q) h uuid u s0 \<longrightarrow> live_session (watz_kernel C Q) h uuid u (f s2))"
    using wk.TEE_InvokeTACommand_run [OF s0(3,5) pta_of_watz(1) oom] by blast
  obtain out' s2 where p: "p_invoke (socket_pta C Q) i cmd ps s1 = Some (res, out', s2)" and s': "s' = f s2"
    using inv r by (auto split: option.splits)
  have s2: "s2 = s1\<lparr>tick := tick s2, w_net := w_net s2\<rparr>" "tick s1 \<le> tick s2"
    using pta_socket_invoke_frame [of C Q i cmd ps s1 res out' s2] p by (simp_all add: socket_pta_def)
  note f = all [rule_format, OF p, folded s']
  have sess: "w_sess s' = w_sess s0" "w_net s' = w_net s2"
    using f s1(1) s2(1) unfolding mgr_eq_def by (cases s1; cases s0; cases s2; cases s'; simp)+
  have "net_step s0 (w_net s') s'"
    by (rule net_stepI [OF s1, where mid = s2]) (use f s2 sess in simp_all)
  moreover have "live_session (watz_kernel C Q) (w_sess s0) PTA_SOCKET_UUID i s'" using f s0(5) by blast
  then have "sockets_up C Q i s'" using f s0(4) q by (simp add: sockets_up_def sess)
  ultimately show ?thesis using net_step_trans [OF s0(2)] by blast
qed

lemma sock_send_frame:
  assumes "sockets_up C Q i s" "no_oom C" "sock_send C (watz_kernel C Q) c buf to s = Some (res, n, s')"
  shows "net_run C Q i c (w_net s') s s' \<and> (w_socks s' c \<noteq> None)"
proof -
  obtain x s1 where x: "w_socks s c = Some x" and "tee_socket_pta_send C (watz_kernel C Q) (sc_handle x) buf to s = Some (res, n, s1)"
    and s': "s' = set_proto_error c res s1"
    using assms(3) by (auto simp: sock_send_def split: Option.bind_splits)
  then obtain out where "invoke_socket_pta C (watz_kernel C Q) PTA_SOCKET_SEND
      [VALUE_INPUT (sc_handle x) to, MEMREF_INPUT buf, VALUE_OUTPUT, PARAM_NONE] s = Some (res, out, s1)"
    by (auto simp: tee_socket_pta_send_def split: Option.bind_splits)
  from invoke_socket_pta_frame [OF assms(1,2) this] have f: "net_step s (w_net s1) s1" "sockets_up C Q i s1" by simp_all
  have "net_run C Q i c (w_net s1) s s'" by (simp add: s' set_proto_error_def) (rule net_run_step [OF f], simp)
  moreover have "w_socks s1 = w_socks s" by (rule net_step_socks [OF f(1)])
  ultimately show ?thesis using x by (simp add: s' set_proto_error_def)
qed

lemma sock_recv_frame:
  assumes "sockets_up C Q i s" "no_oom C" "sock_recv C (watz_kernel C Q) c room to s = Some (res, n, bs, s')"
  shows "net_run C Q i c (w_net s') s s' \<and> (w_socks s' c \<noteq> None)"
proof -
  obtain x s1 where x: "w_socks s c = Some x" and "tee_socket_pta_recv C (watz_kernel C Q) (sc_handle x) room to s = Some (res, n, bs, s1)"
    and s': "s' = set_proto_error c res s1"
    using assms(3) by (auto simp: sock_recv_def split: Option.bind_splits)
  then obtain out where "invoke_socket_pta C (watz_kernel C Q) PTA_SOCKET_RECV
      [VALUE_INPUT (sc_handle x) to, MEMREF_OUTPUT room, PARAM_NONE, PARAM_NONE] s = Some (res, out, s1)"
    by (auto simp: tee_socket_pta_recv_def split: Option.bind_splits list.splits out_param.splits)
  from invoke_socket_pta_frame [OF assms(1,2) this] have f: "net_step s (w_net s1) s1" "sockets_up C Q i s1" by simp_all
  have "net_run C Q i c (w_net s1) s s'" by (simp add: s' set_proto_error_def) (rule net_run_step [OF f], simp)
  moreover have "w_socks s1 = w_socks s" by (rule net_step_socks [OF f(1)])
  ultimately show ?thesis using x by (simp add: s' set_proto_error_def)
qed

lemma net_run_trans: "net_run C Q i c w s s1 \<Longrightarrow> net_run C Q i c w' s1 s2 \<Longrightarrow> net_run C Q i c w' s s2"
  by (simp add: net_run_def)

lemma net_run_refl: "sockets_up C Q i s \<Longrightarrow> net_run C Q i c (w_net s) s s"
  by (simp add: net_run_def)

lemma net_run_up: "net_run C Q i c w s s' \<Longrightarrow> sockets_up C Q i s'"
  by (simp add: net_run_def)

lemma receive_frame:
  assumes "K = watz_kernel C Q" "sockets_up C Q i s" "no_oom C" "w_socks s h \<noteq> None"
    "receive_socket_per_chunk C K h chunk_size data_size data s = Some (res, data', s')"
  shows "net_run C Q i h (w_net s') s s' \<and> (w_socks s' h \<noteq> None)"
  using assms
proof (induction C K h chunk_size data_size data s rule: receive_socket_per_chunk.induct)
  case (1 C K h chunk_size data_size data s)
  show ?case
  proof (cases "chunk_size > 0 \<and> length data < data_size")
    case True
    then obtain r n bs s1 where recv: "sock_recv C K h chunk_size TEE_TIMEOUT_INFINITE s = Some (r, n, bs, s1)"
      using 1(6) by (subst (asm) receive_socket_per_chunk.simps) (auto split: option.splits)
    have f: "net_run C Q i h (w_net s1) s s1 \<and> (w_socks s1 h \<noteq> None)"
      by (rule sock_recv_frame [OF 1(3,4) recv [unfolded 1(2)]])
    show ?thesis
    proof (cases "r = TEE_SUCCESS")
      case ok: True
      then have rec: "receive_socket_per_chunk C K h n data_size (data @ bs) s1 = Some (res, data', s')"
        and len: "length bs = n \<and> length data + n \<le> data_size"
        using 1(6) True recv by (subst (asm) receive_socket_per_chunk.simps, auto split: if_splits)+
      have "net_run C Q i h (w_net s') s1 s' \<and> (w_socks s' h \<noteq> None)"
        by (rule 1(1) [OF True _ recv refl refl refl _ len 1(2) net_run_up 1(4) _ rec]) (use True ok f in auto)
      then show ?thesis using f by (simp add: net_run_def)
    next
      case False
      then have "s' = s1" using 1(6) True recv by (subst (asm) receive_socket_per_chunk.simps) auto
      then show ?thesis using f by simp
    qed
  next
    case False
    then have "s' = s" using 1(6) by (subst (asm) receive_socket_per_chunk.simps) auto
    then show ?thesis using 1(3,5) net_run_refl by blast
  qed
qed

text \<open>A peer that is a stream of bytes: a read returns between one and all of the bytes there is room for, in order, and
  none only at the end of the stream.\<close>

definition streams :: "'w platform \<Rightarrow> nat \<Rightarrow> nat \<Rightarrow> ('w \<Rightarrow> bytes) \<Rightarrow> bool" where
  "streams Q i h pending \<longleftrightarrow>
     (\<forall>room to w. 0 < room \<longrightarrow>
        (\<exists>r w'. q_rpc Q (OPTEE_RPC_SOCKET_RECV i h room to) w = Some (r, w') \<and> r_res r = TEE_SUCCESS \<and> r_size r \<le> room \<and>
           map (r_shm r) [0..<r_size r] @ pending w' = pending w \<and> (r_size r = 0 \<longrightarrow> pending w = [])))"

lemma receive_stream:
  fixes s :: "('w, 'b) watz_scheme"
  assumes "streams Q i skt pending" "no_oom C" "c \<noteq> 0"
  shows "sockets_up C Q i s \<Longrightarrow> w_socks s c = Some x \<Longrightarrow> sc_handle x = skt \<Longrightarrow> 0 < chunk_size \<Longrightarrow>
    length (data @ pending (w_net s)) \<le> data_size \<Longrightarrow>
    \<exists>s' x'. receive_socket_per_chunk C (watz_kernel C Q) c chunk_size data_size data s =
        Some (TEE_SUCCESS, data @ pending (w_net s), s') \<and>
      net_run C Q i c (w_net s') s s' \<and> pending (w_net s') = [] \<and> w_socks s' c = Some x' \<and> sc_handle x' = skt"
proof (induction "length (pending (w_net s))" arbitrary: s x chunk_size data rule: less_induct)
  case less
  show ?case
  proof (cases "length data < data_size")
    case True
    obtain r w where r: "q_rpc Q (OPTEE_RPC_SOCKET_RECV i (sc_handle x) chunk_size TEE_TIMEOUT_INFINITE) (w_net s) = Some (r, w)"
        "r_res r = TEE_SUCCESS" "r_size r \<le> chunk_size" "map (r_shm r) [0..<r_size r] @ pending w = pending (w_net s)"
        "r_size r = 0 \<longrightarrow> pending (w_net s) = []"
      using assms(1) [unfolded streams_def, rule_format, OF less(5), of TEE_TIMEOUT_INFINITE "w_net s"] less(4) by auto
    obtain s1 where s1: "sock_recv C (watz_kernel C Q) c chunk_size TEE_TIMEOUT_INFINITE s =
          Some (TEE_SUCCESS, r_size r, map (r_shm r) [0..<r_size r], s1)"
        "net_run C Q i c w s s1" "w_socks s1 c = Some (x\<lparr>sc_proto_error := r_res r\<rparr>)"
      using sock_recv_run [OF less(2) assms(2) less(3) assms(3) r(1,3)] r(2) by auto
    let ?bs = "map (r_shm r) [0..<r_size r]"
    have w: "w_net s1 = w" "sockets_up C Q i s1" using s1(2) by (simp_all add: net_run_def)
    have len: "length (pending (w_net s)) = r_size r + length (pending w)" using r(4) by (metis diff_zero length_append length_map length_upt)
    have step: "receive_socket_per_chunk C (watz_kernel C Q) c chunk_size data_size data s =
        receive_socket_per_chunk C (watz_kernel C Q) c (r_size r) data_size (data @ ?bs) s1"
      using less(5,6) True s1(1) len by (subst receive_socket_per_chunk.simps) simp
    show ?thesis
    proof (cases "r_size r = 0")
      case zero: True
      then have e: "pending (w_net s) = []" "pending w = []" using r(4,5) by simp_all
      have "receive_socket_per_chunk C (watz_kernel C Q) c 0 data_size data s1 = Some (TEE_SUCCESS, data, s1)"
        by (subst receive_socket_per_chunk.simps) simp
      then show ?thesis using step zero e s1(2,3) w less(4) by simp
    next
      case False
      have "\<exists>s' x'. receive_socket_per_chunk C (watz_kernel C Q) c (r_size r) data_size (data @ ?bs) s1 =
          Some (TEE_SUCCESS, (data @ ?bs) @ pending (w_net s1), s') \<and>
        net_run C Q i c (w_net s') s1 s' \<and> pending (w_net s') = [] \<and> w_socks s' c = Some x' \<and> sc_handle x' = skt"
        by (rule less(1) [OF _ w(2) s1(3)]) (use len False less(4,6) w(1) in simp_all)
      then obtain s' x' where "receive_socket_per_chunk C (watz_kernel C Q) c (r_size r) data_size (data @ ?bs) s1 =
          Some (TEE_SUCCESS, (data @ ?bs) @ pending (w_net s1), s')"
        "net_run C Q i c (w_net s') s1 s'" "pending (w_net s') = []" "w_socks s' c = Some x'" "sc_handle x' = skt"
        by blast
      then show ?thesis using step r(4) w(1) net_run_trans [OF s1(2)]
        by (intro exI [of _ s'] exI [of _ x'] conjI) simp_all
    qed
  next
    case False
    then have "length (pending (w_net s)) \<le> 0" "length data = data_size"
      using less(6) unfolding length_append by linarith+
    then show ?thesis using net_run_refl [OF less(2)] less(3,4)
      by (intro exI [of _ s] exI [of _ x]) (subst receive_socket_per_chunk.simps, simp)
  qed
qed

section \<open>The checks of the handshake\<close>

lemma print_overruns: "50 \<le> length bs \<Longrightarrow> print_byte_array bs = None"
  unfolding print_byte_array_def
  by (subst print_lines.simps) (auto simp: wr_def dest!: print_loop_end split: option.split)

lemma dump_msg1_overruns: "wf_msg1 (c_msg1 ctx) \<Longrightarrow> dump_msg1 ctx digest = None"
  by (simp add: dump_msg1_def print_overruns length_msg1_bytes)

lemma import_key_run:
  assumes "ready C" "wf_tee t" "x_of (m1_ecdsa (c_msg1 ctx)) = Some x" "y_of (m1_ecdsa (c_msg1 ctx)) = Some y"
    "length x \<le> 32" "length y \<le> 32"
  obtains h t' where "import_verifier_attestation_key C ctx t = Some (TEE_SUCCESS, ctx\<lparr>ecdsa_verifier_public_key_handle := h\<rparr>, t')"
    "tee_ext t t'" "objs t' h = Some (p256_public TEE_TYPE_ECDSA_PUBLIC_KEY (bn_of_bytes x) (bn_of_bytes y))"
proof -
  let ?h = "Suc (tick t)"
  let ?t = "t\<lparr>tick := 5 + tick t, objs := (objs t)(?h \<mapsto>
      p256_public TEE_TYPE_ECDSA_PUBLIC_KEY (bn_of_bytes x) (bn_of_bytes y))\<rparr>"
  have "import_verifier_attestation_key C ctx t = Some (TEE_SUCCESS, ctx\<lparr>ecdsa_verifier_public_key_handle := ?h\<rparr>, ?t)"
    using assms
    by (simp add: import_verifier_attestation_key_def api_simps tee_obj_add_def TEE_InitRefAttribute_def
      TEE_InitValueAttribute_def)
  moreover have "tee_ext t ?t" by (rule tee_extI) (simp_all add: assms(2))
  ultimately show ?thesis by (rule that) simp
qed

lemma verify_msg1_mac_run:
  assumes "ready C" "crypto_ok C" "wf_tee t" "objs t (ecdh_shared_mac_key ctx) = Some (aes_key k)" "length k = 16"
    "wf_msg1 (c_msg1 ctx)" "x_of (m1_ecdh (c_msg1 ctx)) = Some vx" "y_of (m1_ecdh (c_msg1 ctx)) = Some vy"
    "x_of (m1_ecdsa (c_msg1 ctx)) = Some sx" "y_of (m1_ecdsa (c_msg1 ctx)) = Some sy"
  obtains t' where "tee_ext t t'" "verify_msg1_mac C ctx t =
    Some (if m1_mac (c_msg1 ctx) = cmac C k (vx @ vy @ sx @ sy @ m1_ecdh_signature (c_msg1 ctx)) then TEE_SUCCESS
          else TEE_ERROR_MAC_INVALID, t')"
proof -
  have k: "0 < ecdh_shared_mac_key ctx" "ecdh_shared_mac_key ctx \<le> tick t" using wf_obj_bound assms(3,4) by blast+
  have mac: "length (m1_mac (c_msg1 ctx)) = 16" using assms(6) by (simp add: wf_msg1_def)
  have "\<exists>t'. verify_msg1_mac C ctx t =
    Some (if m1_mac (c_msg1 ctx) = cmac C k (vx @ vy @ sx @ sy @ m1_ecdh_signature (c_msg1 ctx)) then TEE_SUCCESS
          else TEE_ERROR_MAC_INVALID, t') \<and> tee_ext t t'"
    using assms(1-5,7-10) k mac
    by (simp add: verify_msg1_mac_def api_simps tee_obj_add_def) (rule tee_extI, simp_all)
  then show ?thesis using that by blast
qed

lemma generate_anchor_run:
  assumes "ready C" "crypto_ok C" "wf_tee t" "x_of (c_msg0 ctx) = Some ax" "y_of (c_msg0 ctx) = Some ay"
    "x_of (m1_ecdh (c_msg1 ctx)) = Some vx" "y_of (m1_ecdh (c_msg1 ctx)) = Some vy"
  obtains t' where "tee_ext t t'" "generate_anchor C ctx anchor_size t =
    Some (if anchor_size = 32 then (TEE_SUCCESS, sha256 C (ax @ ay @ vx @ vy), t') else (TEE_ERROR_SECURITY, [], t'))"
proof (cases "anchor_size = 32")
  case True
  have "\<exists>t'. generate_anchor C ctx anchor_size t = Some (TEE_SUCCESS, sha256 C (ax @ ay @ vx @ vy), t') \<and> tee_ext t t'"
    using assms True by (simp add: generate_anchor_def digest4_run api_simps tee_obj_add_def) (rule tee_extI, simp_all)
  then show ?thesis using that True by auto
next
  case False
  then show ?thesis using that [of t] assms(3) by (simp add: generate_anchor_def)
qed

text \<open>The coordinates in use of the keys of a session: the attester's and the verifier's ephemeral key and the verifier's
  long term key.\<close>

definition coords :: "ra_context \<Rightarrow> bytes \<times> bytes \<Rightarrow> bytes \<times> bytes \<Rightarrow> bytes \<times> bytes \<Rightarrow> bool" where
  "coords ctx a v k \<longleftrightarrow>
     wf_pubkey (c_msg0 ctx) \<and> wf_msg1 (c_msg1 ctx) \<and> x_of (c_msg0 ctx) = Some (fst a) \<and> y_of (c_msg0 ctx) = Some (snd a) \<and>
     x_of (m1_ecdh (c_msg1 ctx)) = Some (fst v) \<and> y_of (m1_ecdh (c_msg1 ctx)) = Some (snd v) \<and>
     x_of (m1_ecdsa (c_msg1 ctx)) = Some (fst k) \<and> y_of (m1_ecdsa (c_msg1 ctx)) = Some (snd k)"

abbreviation pt :: "bytes \<times> bytes \<Rightarrow> nat \<times> nat" where
  "pt p \<equiv> (bn_of_bytes (fst p), bn_of_bytes (snd p))"

definition msg1_signature_status :: "env \<Rightarrow> msg1_t \<Rightarrow> bytes \<times> bytes \<Rightarrow> bytes \<times> bytes \<Rightarrow> bytes \<times> bytes \<Rightarrow> TEE_Result" where
  "msg1_signature_status C m a v k =
     ecdsa_status C (bn_of_bytes (fst k)) (bn_of_bytes (snd k)) (sha256 C (fst v @ snd v @ fst a @ snd a)) (m1_ecdh_signature m)"

definition msg1_mac_of :: "env \<Rightarrow> bytes \<Rightarrow> msg1_t \<Rightarrow> bytes \<times> bytes \<Rightarrow> bytes \<times> bytes \<Rightarrow> bytes" where
  "msg1_mac_of C secret m v k = cmac C (mac_key_of C secret) (fst v @ snd v @ fst k @ snd k @ m1_ecdh_signature m)"

lemma coordsD:
  assumes "coords ctx a v k"
  shows "wf_msg1 (c_msg1 ctx)" "x_of (c_msg0 ctx) = Some (fst a)" "y_of (c_msg0 ctx) = Some (snd a)"
    "x_of (m1_ecdh (c_msg1 ctx)) = Some (fst v)" "y_of (m1_ecdh (c_msg1 ctx)) = Some (snd v)"
    "x_of (m1_ecdsa (c_msg1 ctx)) = Some (fst k)" "y_of (m1_ecdsa (c_msg1 ctx)) = Some (snd k)"
    "length (fst v) \<le> 32" "length (snd v) \<le> 32" "length (fst k) \<le> 32" "length (snd k) \<le> 32"
  using assms coordinate_length [of "m1_ecdh (c_msg1 ctx)"] coordinate_length [of "m1_ecdsa (c_msg1 ctx)"]
  by (auto simp: coords_def wf_msg1_def)

lemma coords_cong: "coords ctx a v k \<Longrightarrow> c_msg0 ctx' = c_msg0 ctx \<Longrightarrow> c_msg1 ctx' = c_msg1 ctx \<Longrightarrow> coords ctx' a v k"
  by (simp add: coords_def)

lemma ecdsa_status_cases: "ecdsa_status C x y d s \<in> {TEE_SUCCESS, TEE_ERROR_SIGNATURE_INVALID, TEE_ERROR_GENERIC}"
  by (simp add: ecdsa_status_def convert_ltc_verify_status_def split: ltc_verify.split)

lemma signature_run:
  assumes "ready C" "crypto_ok C" "wf_tee t" "coords ctx a v k"
    "objs t (ecdsa_verifier_public_key_handle ctx) =
      Some (p256_public TEE_TYPE_ECDSA_PUBLIC_KEY (bn_of_bytes (fst k)) (bn_of_bytes (snd k)))"
  obtains t' where "tee_ext t t'" "verify_ecdh_public_key_signature C ctx t =
    (if msg1_signature_status C (c_msg1 ctx) a v k = TEE_SUCCESS then Some (TEE_SUCCESS, t') else None)"
proof -
  note c = coordsD [OF assms(4)]
  have "length (m1_ecdh_signature (c_msg1 ctx)) = 64" using c(1) by (simp add: wf_msg1_def)
  then obtain t' where t': "tee_ext t t'"
    "verify_digest4 C (ecdsa_verifier_public_key_handle ctx) (fst v) (snd v) (fst a) (snd a) (m1_ecdh_signature (c_msg1 ctx))
       (dump_msg1 ctx) t =
      (let digest = sha256 C (fst v @ snd v @ fst a @ snd a);
           res = ecdsa_status C (bn_of_bytes (fst k)) (bn_of_bytes (snd k)) digest (m1_ecdh_signature (c_msg1 ctx))
       in if res = TEE_ERROR_GENERIC then None
          else do { _ \<leftarrow> (if res = TEE_ERROR_SIGNATURE_INVALID then dump_msg1 ctx digest else Some ()); Some (res, t') })"
    using verify_digest4_run [OF assms(1-3,5)] by blast
  have "msg1_signature_status C (c_msg1 ctx) a v k \<in> {TEE_SUCCESS, TEE_ERROR_SIGNATURE_INVALID, TEE_ERROR_GENERIC}"
    unfolding msg1_signature_status_def by (rule ecdsa_status_cases)
  then have "verify_ecdh_public_key_signature C ctx t =
    (if msg1_signature_status C (c_msg1 ctx) a v k = TEE_SUCCESS then Some (TEE_SUCCESS, t') else None)"
    using t'(2) c
    by (auto simp: verify_ecdh_public_key_signature_def dump_msg1_overruns Let_def simp flip: msg1_signature_status_def)
  with t'(1) show ?thesis by (rule that)
qed

lemma attester_derive_run:
  assumes "ready C" "crypto_ok C" "wf_tee t" "secrets_fit C" "coords ctx a v k"
    "objs t (ecdh_local_keypair_handle ctx) = Some (p256_keypair TEE_TYPE_ECDH_KEYPAIR d x y)"
  shows "p_ecc_shared_secret (e_prims C) TEE_ECC_CURVE_NIST_P256 d (pt v) = None \<Longrightarrow> attester_derive_shared_key C ctx t = None"
    and "p_ecc_shared_secret (e_prims C) TEE_ECC_CURVE_NIST_P256 d (pt v) = Some s \<Longrightarrow>
      \<exists>kdk t'. attester_derive_shared_key C ctx t = Some (TEE_SUCCESS, ctx\<lparr>ecdh_shared_key_derivation_key := kdk\<rparr>, t') \<and>
        tee_ext t t' \<and> objs t' kdk = Some (aes_key (kdk_of C s))"
proof -
  note c = coordsD [OF assms(5)]
  have l: "length (fst v) \<le> 66" "length (snd v) \<le> 66" using c(8,9) by simp_all
  show "attester_derive_shared_key C ctx t = None"
    if "p_ecc_shared_secret (e_prims C) TEE_ECC_CURVE_NIST_P256 d (pt v) = None"
    using derive_shared_key_panics [OF assms(1-3,6) l that] c
    by (auto simp: attester_derive_shared_key_def TEE_InitRefAttribute_def)
  show "\<exists>kdk t'. attester_derive_shared_key C ctx t = Some (TEE_SUCCESS, ctx\<lparr>ecdh_shared_key_derivation_key := kdk\<rparr>, t') \<and>
      tee_ext t t' \<and> objs t' kdk = Some (aes_key (kdk_of C s))"
    if s: "p_ecc_shared_secret (e_prims C) TEE_ECC_CURVE_NIST_P256 d (pt v) = Some s"
    using derive_shared_key_run [OF assms(1-3,6) l s] s assms(4) c
    by (auto simp: attester_derive_shared_key_def TEE_InitRefAttribute_def secrets_fit_def)
qed

text \<open>What the second half of the handshake does with a message it could read.\<close>

lemma process_msg1_run:
  assumes env: "ready C" "crypto_ok C" "secrets_fit C" and t: "wf_tee t"
    "objs t (ecdh_local_keypair_handle ctx) = Some (p256_keypair TEE_TYPE_ECDH_KEYPAIR d x y)"
    and c: "coords ctx a v k" and pin: "verify_service_public_key ctx key_x kxs key_y kys = Some TEE_SUCCESS"
    and sig: "msg1_signature_status C (c_msg1 ctx) a v k = TEE_SUCCESS"
    and s: "p_ecc_shared_secret (e_prims C) TEE_ECC_CURVE_NIST_P256 d (pt v) = Some s"
  obtains k1 k2 k3 k4 ctx' t' where
    "ctx' = ctx\<lparr>ecdsa_verifier_public_key_handle := k1, ecdh_shared_key_derivation_key := k2, ecdh_shared_mac_key := k3,
      ecdh_shared_session_key := k4\<rparr>"
    "tee_ext t t'" "objs t' k3 = Some (aes_key (mac_key_of C s))" "objs t' k4 = Some (aes_key (session_key_of C s))"
    "handshake_process_msg1 C ctx key_x kxs key_y kys anchor_size t =
      Some (if m1_mac (c_msg1 ctx) \<noteq> msg1_mac_of C s (c_msg1 ctx) v k then (TEE_ERROR_MAC_INVALID, ctx', [], t')
            else if anchor_size \<noteq> 32 then (TEE_ERROR_SECURITY, ctx', [], t')
            else (TEE_SUCCESS, ctx', sha256 C (fst a @ snd a @ fst v @ snd v), t'))"
proof -
  note cd = coordsD [OF c]
  obtain k1 t1 where t1: "import_verifier_attestation_key C ctx t = Some (TEE_SUCCESS, ctx\<lparr>ecdsa_verifier_public_key_handle := k1\<rparr>, t1)"
    "tee_ext t t1" "objs t1 k1 = Some (p256_public TEE_TYPE_ECDSA_PUBLIC_KEY (bn_of_bytes (fst k)) (bn_of_bytes (snd k)))"
    using import_key_run [OF env(1) t(1) cd(6,7,10,11)] by blast
  let ?c1 = "ctx\<lparr>ecdsa_verifier_public_key_handle := k1\<rparr>"
  note w1 = tee_extD(1) [OF t1(2)]
  have c1: "coords ?c1 a v k" by (rule coords_cong [OF c]) simp_all
  obtain t2 where t2: "tee_ext t1 t2" "verify_ecdh_public_key_signature C ?c1 t1 = Some (TEE_SUCCESS, t2)"
    using signature_run [OF env(1,2) w1 c1] t1(3) sig by auto
  note w2 = tee_extD(1) [OF t2(1)]
  have o2: "objs t2 (ecdh_local_keypair_handle ?c1) = Some (p256_keypair TEE_TYPE_ECDH_KEYPAIR d x y)"
    using tee_ext_obj(1) [OF tee_ext_trans [OF t1(2) t2(1)] t] by simp
  obtain k2 t3 where t3: "attester_derive_shared_key C ?c1 t2 = Some (TEE_SUCCESS, ?c1\<lparr>ecdh_shared_key_derivation_key := k2\<rparr>, t3)"
    "tee_ext t2 t3" "objs t3 k2 = Some (aes_key (kdk_of C s))"
    using attester_derive_run(2) [OF env(1,2) w2 env(3) c1 o2 s] by blast
  note w3 = tee_extD(1) [OF t3(2)]
  obtain k3 t4 where t4: "derive_shared_mac_key C k2 RA_SHARED_MAC_DATA t3 = Some (TEE_SUCCESS, Some k3, t4)" "tee_ext t3 t4"
    "objs t4 k3 = Some (aes_key (mac_key_of C s))"
    using derive_shared_mac_key_run [OF env(1,2) w3 t3(3), of RA_SHARED_MAC_DATA] env(2) by (auto simp: mac_key_of_def)
  note w4 = tee_extD(1) [OF t4(2)]
  obtain k4 t5 where t5: "derive_shared_mac_key C k2 RA_SHARED_SESSION_DATA t4 = Some (TEE_SUCCESS, Some k4, t5)" "tee_ext t4 t5"
    "objs t5 k4 = Some (aes_key (session_key_of C s))"
    using derive_shared_mac_key_run [OF env(1,2) w4 tee_ext_obj(1) [OF t4(2) w3 t3(3)], of RA_SHARED_SESSION_DATA] env(2) by (auto simp: session_key_of_def)
  note w5 = tee_extD(1) [OF t5(2)]
  let ?c5 = "?c1\<lparr>ecdh_shared_key_derivation_key := k2, ecdh_shared_mac_key := k3, ecdh_shared_session_key := k4\<rparr>"
  have o5: "objs t5 (ecdh_shared_mac_key ?c5) = Some (aes_key (mac_key_of C s))"
    using tee_ext_obj(1) [OF t5(2) w4 t4(3)] by simp
  have l: "length (mac_key_of C s) = 16" using env(2) by simp
  obtain t6 where t6: "tee_ext t5 t6" "verify_msg1_mac C ?c5 t5 =
      Some (if m1_mac (c_msg1 ctx) = msg1_mac_of C s (c_msg1 ctx) v k then TEE_SUCCESS else TEE_ERROR_MAC_INVALID, t6)"
    using verify_msg1_mac_run [OF env(1,2) w5 o5 l, of "fst v" "snd v" "fst k" "snd k"] cd by (auto simp: msg1_mac_of_def)
  note w6 = tee_extD(1) [OF t6(1)]
  obtain t7 where t7: "tee_ext t6 t7" "generate_anchor C ?c5 anchor_size t6 =
      Some (if anchor_size = 32 then (TEE_SUCCESS, sha256 C (fst a @ snd a @ fst v @ snd v), t7) else (TEE_ERROR_SECURITY, [], t7))"
    using generate_anchor_run [OF env(1,2) w6, of ?c5 "fst a" "snd a" "fst v" "snd v"] cd by auto
  let ?m = "m1_mac (c_msg1 ctx) = msg1_mac_of C s (c_msg1 ctx) v k"
  let ?t = "if ?m then t7 else t6"
  have e5: "tee_ext t t5" using t1(2) t2(1) t3(2) t4(2) t5(2) by (blast intro: tee_ext_trans)
  have e6: "tee_ext t5 ?t" using t6(1) t7(1) by (auto intro: tee_ext_trans)
  have "?c5 = ctx\<lparr>ecdsa_verifier_public_key_handle := k1, ecdh_shared_key_derivation_key := k2, ecdh_shared_mac_key := k3,
      ecdh_shared_session_key := k4\<rparr>"
    by simp
  then show ?thesis
  proof (rule that [OF _ tee_ext_trans [OF e5 e6]])
    show "objs ?t k3 = Some (aes_key (mac_key_of C s))" using tee_ext_obj(1) [OF e6 w5 o5] by simp
    show "objs ?t k4 = Some (aes_key (session_key_of C s))" using tee_ext_obj(1) [OF e6 w5 t5(3)] by simp
  qed (simp add: handshake_process_msg1_def pin t1(1) t2(2) t3(1) t4(1) t5(1) t6(2) t7(2))
qed

lemma process_msg1_success:
  assumes env: "ready C" "crypto_ok C" "secrets_fit C" and t: "wf_tee t"
    "objs t (ecdh_local_keypair_handle ctx) = Some (p256_keypair TEE_TYPE_ECDH_KEYPAIR d x y)"
    and m: "wf_msg1 (c_msg1 ctx)" "wf_pubkey (c_msg0 ctx)" "x_of (c_msg0 ctx) = Some (fst a)" "y_of (c_msg0 ctx) = Some (snd a)"
    and run: "handshake_process_msg1 C ctx key_x kxs key_y kys anchor_size t = Some (TEE_SUCCESS, ctx', anchor, t')"
  shows "\<exists>v k s. coords ctx a v k \<and> verify_service_public_key ctx key_x kxs key_y kys = Some TEE_SUCCESS \<and>
    msg1_signature_status C (c_msg1 ctx) a v k = TEE_SUCCESS \<and>
    p_ecc_shared_secret (e_prims C) TEE_ECC_CURVE_NIST_P256 d (pt v) = Some s \<and>
    m1_mac (c_msg1 ctx) = msg1_mac_of C s (c_msg1 ctx) v k \<and> anchor_size = 32 \<and> anchor = sha256 C (fst a @ snd a @ fst v @ snd v) \<and>
    tee_ext t t' \<and> objs t' (ecdh_shared_mac_key ctx') = Some (aes_key (mac_key_of C s)) \<and>
    objs t' (ecdh_shared_session_key ctx') = Some (aes_key (session_key_of C s)) \<and>
    c_msg0 ctx' = c_msg0 ctx \<and> c_msg1 ctx' = c_msg1 ctx"
proof -
  have pin: "verify_service_public_key ctx key_x kxs key_y kys = Some TEE_SUCCESS"
    using run by (auto simp: handshake_process_msg1_def split: Option.bind_splits if_splits)
  then obtain c1 t1 where i: "import_verifier_attestation_key C ctx t = Some (TEE_SUCCESS, c1, t1)"
    using run by (auto simp: handshake_process_msg1_def split: Option.bind_splits if_splits)
  then obtain kx ky where k: "x_of (m1_ecdsa (c_msg1 ctx)) = Some kx" "y_of (m1_ecdsa (c_msg1 ctx)) = Some ky"
    and h: "c1 = ctx\<lparr>ecdsa_verifier_public_key_handle := ecdsa_verifier_public_key_handle c1\<rparr>"
    using env(1)
    by (auto simp: import_verifier_attestation_key_def api_simps TEE_InitValueAttribute_def split: Option.bind_splits sum.splits)
  have v: "verify_ecdh_public_key_signature C c1 t1 \<noteq> None"
    by (rule notI) (use run in \<open>simp add: handshake_process_msg1_def pin i\<close>)
  moreover have "c_msg1 c1 = c_msg1 ctx" "c_msg0 c1 = c_msg0 ctx" by (subst h, simp)+
  ultimately obtain vx vy where vv: "x_of (m1_ecdh (c_msg1 ctx)) = Some vx" "y_of (m1_ecdh (c_msg1 ctx)) = Some vy"
    by (auto simp: verify_ecdh_public_key_signature_def split: Option.bind_splits)
  let ?v = "(vx, vy)" and ?k = "(kx, ky)"
  have c: "coords ctx a ?v ?k" using m k vv by (simp add: coords_def)
  note cd = coordsD [OF c]
  obtain k1 t1' where t1: "import_verifier_attestation_key C ctx t = Some (TEE_SUCCESS, ctx\<lparr>ecdsa_verifier_public_key_handle := k1\<rparr>, t1')"
    "tee_ext t t1'" "objs t1' k1 = Some (p256_public TEE_TYPE_ECDSA_PUBLIC_KEY (bn_of_bytes (fst ?k)) (bn_of_bytes (snd ?k)))"
    using import_key_run [OF env(1) t(1) cd(6,7,10,11)] by blast
  let ?c1 = "ctx\<lparr>ecdsa_verifier_public_key_handle := k1\<rparr>"
  have e: "c1 = ?c1" "t1 = t1'" using i t1(1) by simp_all
  have c1: "coords ?c1 a ?v ?k" by (rule coords_cong [OF c]) simp_all
  obtain t2 where t2: "tee_ext t1' t2" "verify_ecdh_public_key_signature C ?c1 t1' =
      (if msg1_signature_status C (c_msg1 ctx) a ?v ?k = TEE_SUCCESS then Some (TEE_SUCCESS, t2) else None)"
    using signature_run [OF env(1,2) tee_extD(1) [OF t1(2)] c1] t1(3) by auto
  then have sig: "msg1_signature_status C (c_msg1 ctx) a ?v ?k = TEE_SUCCESS" using v by (simp add: e split: if_splits)
  have o2: "objs t2 (ecdh_local_keypair_handle ?c1) = Some (p256_keypair TEE_TYPE_ECDH_KEYPAIR d x y)"
    using tee_ext_obj(1) [OF tee_ext_trans [OF t1(2) t2(1)] t] by simp
  have "p_ecc_shared_secret (e_prims C) TEE_ECC_CURVE_NIST_P256 d (pt ?v) \<noteq> None"
  proof
    assume "p_ecc_shared_secret (e_prims C) TEE_ECC_CURVE_NIST_P256 d (pt ?v) = None"
    from attester_derive_run(1) [OF env(1,2) tee_extD(1) [OF t2(1)] env(3) c1 o2 this] run pin t1(1) t2(2) sig show False
      by (simp add: handshake_process_msg1_def)
  qed
  then obtain s where s: "p_ecc_shared_secret (e_prims C) TEE_ECC_CURVE_NIST_P256 d (pt ?v) = Some s" by blast
  obtain k1 k2 k3 k4 ctx1 t1 where p: "ctx1 = ctx\<lparr>ecdsa_verifier_public_key_handle := k1, ecdh_shared_key_derivation_key := k2,
      ecdh_shared_mac_key := k3, ecdh_shared_session_key := k4\<rparr>"
    "tee_ext t t1" "objs t1 k3 = Some (aes_key (mac_key_of C s))" "objs t1 k4 = Some (aes_key (session_key_of C s))"
    "handshake_process_msg1 C ctx key_x kxs key_y kys anchor_size t =
      Some (if m1_mac (c_msg1 ctx) \<noteq> msg1_mac_of C s (c_msg1 ctx) ?v ?k then (TEE_ERROR_MAC_INVALID, ctx1, [], t1)
            else if anchor_size \<noteq> 32 then (TEE_ERROR_SECURITY, ctx1, [], t1)
            else (TEE_SUCCESS, ctx1, sha256 C (fst a @ snd a @ fst ?v @ snd ?v), t1))"
    by (rule process_msg1_run [OF env t c pin sig s])
  then have r: "m1_mac (c_msg1 ctx) = msg1_mac_of C s (c_msg1 ctx) ?v ?k" "anchor_size = 32" "ctx' = ctx1" "t' = t1"
    "anchor = sha256 C (fst a @ snd a @ fst ?v @ snd ?v)"
    using run by (simp_all split: if_splits)
  show ?thesis
    by (rule exI [of _ ?v], rule exI [of _ ?k], rule exI [of _ s]) (use c pin sig s p(2-4) r in \<open>simp add: p(1)\<close>)
qed

section \<open>The handshake\<close>

lemma wf_tee_net:
  assumes "net_run C Q i c w s s'" "wf_tee s"
  shows "wf_tee s'"
proof -
  have e: "objs s' = objs s" "states s' = states s" "opers s' = opers s" "tick s \<le> tick s'"
    using assms(1) by (simp_all add: net_run_def)
  have "objs s a = None \<and> states s a = None \<and> opers s a = None" if "a = 0 \<or> tick s' < a" for a
  proof -
    have "a = 0 \<or> tick s < a" using that e(4) by linarith
    then show ?thesis by (rule assms(2) [unfolded wf_tee_iff, rule_format])
  qed
  then show ?thesis unfolding wf_tee_iff e(1-3) by (intro allI impI)
qed

lemma sockets_up_ext:
  fixes s s' :: "('w, 'b) watz_scheme"
  assumes "sockets_up C Q i s" "tee_ext s s'"
  shows "sockets_up C Q i s'"
proof -
  have m: "tick s \<le> tick s'" "tee.more s' = tee.more s" using tee_extD [OF assms(2)] by simp_all
  then have e: "tee_ctxes s' = tee_ctxes s" "open_sessions s' = open_sessions s" "single_instance_count s' = single_instance_count s"
      "w_sess s' = w_sess s"
    by (cases s; cases s'; simp)+
  have "wf_mgr (watz_kernel C Q) s'"
    by (rule wk.wf_mgr_cong [of _ _ s]) (use assms(1) m e in \<open>simp_all add: sockets_up_def\<close>)
  moreover have "ids s' = ids s" by (simp add: ids_def e)
  moreover have "live_session K h u v s \<Longrightarrow> live_session K h u v s'" for K :: "(('w, 'b) watz_scheme) kernel" and h u v
    by (simp add: live_session_def e)
  ultimately show ?thesis using assms(1) by (simp add: sockets_up_def e split: if_splits)
qed

lemma generate_ecdh_keypair_run:
  assumes "ready C" "ecc_ok (e_prims C)" "wf_tee t"
  obtains d x y h pk t' where "p256_pair (e_prims C) (d, x, y)" "tee_ext t t'"
    "generate_ecdh_keypair C alloc_ra_context t =
      Some (TEE_SUCCESS, alloc_ra_context\<lparr>ecdh_local_keypair_handle := h, c_msg0 := pk\<rparr>, t')"
    "objs t' h = Some (p256_keypair TEE_TYPE_ECDH_KEYPAIR d x y)" "pub_is x y pk"
proof -
  obtain d x y h t' where k: "p256_pair (e_prims C) (d, x, y)" "tee_ext t t'"
    "generate_p256_keypair C TEE_TYPE_ECDH_KEYPAIR t = Some (TEE_SUCCESS, Some h, t')"
    "objs t' h = Some (p256_keypair TEE_TYPE_ECDH_KEYPAIR d x y)"
    by (rule generate_p256_keypair_run [OF assms, where ty = TEE_TYPE_ECDH_KEYPAIR]) (simp, rule that)
  let ?pk = "zero_pubkey\<lparr>x_size := 32, y_size := 32\<rparr>"
  obtain pk where pk: "extract_public_key C h ?pk t' = Some (TEE_SUCCESS, pk)" "pub_is x y pk"
    using extract_public_key_run [OF k(4), of ?pk C] ecc_ok_bounds [OF assms(2) k(1)] by (auto simp: zero_pubkey_def)
  have "generate_ecdh_keypair C alloc_ra_context t =
      Some (TEE_SUCCESS, alloc_ra_context\<lparr>ecdh_local_keypair_handle := h, c_msg0 := pk\<rparr>, t')"
    using k(3) pk(1) by (simp add: generate_ecdh_keypair_def alloc_ra_context_def zero_ra_context_def)
  with k(1,2) show ?thesis using k(4) pk(2) by (rule that)
qed

lemma tcp_open_frame:
  assumes "sockets_up C Q i s" "no_oom C" "tcp_open C (watz_kernel C Q) (v, a, p) s = Some (TEE_SUCCESS, c, e, s')"
  shows "c = tick s + 1 \<and> net_run C Q i c (w_net s') s s' \<and> w_socks s' c \<noteq> None"
proof -
  let ?s = "s\<lparr>tick := tick s + 1\<rparr>"
  have up1: "sockets_up C Q i ?s"
    using assms(1) wk.only_tick_wf [of s ?s] by (auto simp: sockets_up_def ids_def live_session_def)
  obtain res h s1 where o: "tee_socket_pta_open C (watz_kernel C Q) v a p TEE_ISOCKET_PROTOCOLID_TCP ?s = Some (res, h, s1)"
    using assms(2,3) by (cases "tee_socket_pta_open C (watz_kernel C Q) v a p TEE_ISOCKET_PROTOCOLID_TCP ?s")
      (auto simp: tcp_open_def sock_open_def)
  with assms(2,3) have res: "res = TEE_SUCCESS"
    by (auto simp: tcp_open_def sock_open_def Let_def split: option.splits if_splits)
  obtain g ps out where h: "h = Some g" and inv: "invoke_socket_pta C (watz_kernel C Q) PTA_SOCKET_OPEN ps ?s = Some (TEE_SUCCESS, out, s1)"
    using o [unfolded res] by (auto simp: tee_socket_pta_open_def split: Option.bind_splits option.splits if_splits)
  have r: "c = tick s + 1"
      "s' = s1\<lparr>w_socks := (w_socks s1)(tick s + 1 \<mapsto> \<lparr>sc_handle = g, sc_proto_error = TEE_SUCCESS\<rparr>)\<rparr>"
    using assms(2,3) o by (auto simp: tcp_open_def sock_open_def res h)
  from invoke_socket_pta_frame [OF up1 assms(2) inv] have f: "net_step ?s (w_net s1) s1" "sockets_up C Q i s1" by simp_all
  have step: "net_step s (w_net s1) s1" using f(1) unfolding net_step_def by (cases s; cases s1) simp
  have "net_run C Q i c (w_net s1) s s'" unfolding r(2) by (rule net_run_step [OF step f(2)]) (simp add: r(1))
  then show ?thesis by (simp add: r)
qed

lemma receive_bound:
  assumes "receive_socket_per_chunk C K h chunk_size data_size data s = Some (res, data', s')" "length data \<le> data_size"
  shows "length data' \<le> data_size"
  using assms
proof (induction C K h chunk_size data_size data s rule: receive_socket_per_chunk.induct)
  case (1 C K h chunk_size data_size data s)
  show ?case
  proof (cases "chunk_size > 0 \<and> length data < data_size")
    case True
    then obtain r n bs s1 where recv: "sock_recv C K h chunk_size TEE_TIMEOUT_INFINITE s = Some (r, n, bs, s1)"
      using 1(2) by (subst (asm) receive_socket_per_chunk.simps) (auto split: option.splits)
    show ?thesis
    proof (cases "r = TEE_SUCCESS")
      case ok: True
      then have rec: "receive_socket_per_chunk C K h n data_size (data @ bs) s1 = Some (res, data', s')"
        and len: "length bs = n \<and> length data + n \<le> data_size"
        using 1(2) True recv by (subst (asm) receive_socket_per_chunk.simps, auto split: if_splits)+
      show ?thesis by (rule 1(1) [OF True _ recv refl refl refl _ len rec]) (use True ok len in auto)
    next
      case False
      then show ?thesis using 1(2,3) True recv by (subst (asm) receive_socket_per_chunk.simps) auto
    qed
  next
    case False
    then show ?thesis using 1(2,3) by (subst (asm) receive_socket_per_chunk.simps) auto
  qed
qed

lemma receive_msg1_success:
  assumes "sockets_up C Q i s" "no_oom C" "w_socks s (c_socket_ctx ctx) \<noteq> None"
    "receive_msg1 C (watz_kernel C Q) ctx s = Some (TEE_SUCCESS, ctx', s')"
  shows "\<exists>m. wf_msg1 m \<and> ctx' = ctx\<lparr>c_msg1 := m\<rparr> \<and> net_run C Q i (c_socket_ctx ctx) (w_net s') s s'"
proof -
  obtain bs where bs: "receive_socket_per_chunk C (watz_kernel C Q) (c_socket_ctx ctx) sizeof_msg1_t sizeof_msg1_t [] s =
      Some (TEE_SUCCESS, bs, s')" "\<not> length bs < sizeof_msg1_t" "ctx' = ctx\<lparr>c_msg1 := msg1_at bs\<rparr>"
    using assms(4) by (auto simp: receive_msg1_def split: Option.bind_splits if_splits)
  have "length bs = 224" using receive_bound [OF bs(1)] bs(2) by simp
  then have "wf_msg1 (msg1_at bs)" by (rule wf_msg1_at)
  moreover have "net_run C Q i (c_socket_ctx ctx) (w_net s') s s'" using receive_frame [OF refl assms(1-3) bs(1)] by simp
  ultimately show ?thesis using bs(3) by blast
qed

text \<open>The part of the handshake up to the first message, when it succeeds.\<close>

lemma handshake_start:
  fixes s :: "('w, 'b) watz_scheme"
  assumes env: "ready C" "ecc_ok (e_prims C)" and s: "wf_tee s" "sockets_up C Q i s"
    and run: "ra_net_handshake C (watz_kernel C Q) host kx kxs ky kys anchor_size s = Some (TEE_SUCCESS, ctx', anchor, s')"
  obtains d x y ctx s1 where "p256_pair (e_prims C) (d, x, y)" "wf_tee s1"
    "objs s1 (ecdh_local_keypair_handle ctx) = Some (p256_keypair TEE_TYPE_ECDH_KEYPAIR d x y)" "pub_is x y (c_msg0 ctx)"
    "wf_msg1 (c_msg1 ctx)" "handshake_process_msg1 C ctx kx kxs ky kys anchor_size s1 = Some (TEE_SUCCESS, ctx', anchor, s')"
proof -
  have oom: "no_oom C" using env(1) by simp
  obtain d x y h pk s1 where k: "p256_pair (e_prims C) (d, x, y)" "tee_ext s s1"
    "generate_ecdh_keypair C alloc_ra_context s =
      Some (TEE_SUCCESS, alloc_ra_context\<lparr>ecdh_local_keypair_handle := h, c_msg0 := pk\<rparr>, s1)"
    "objs s1 h = Some (p256_keypair TEE_TYPE_ECDH_KEYPAIR d x y)" "pub_is x y pk"
    by (rule generate_ecdh_keypair_run [OF env s(1)])
  let ?c = "alloc_ra_context\<lparr>ecdh_local_keypair_handle := h, c_msg0 := pk\<rparr>"
  have u1: "sockets_up C Q i s1" by (rule sockets_up_ext [OF s(2) k(2)])
  obtain c s2 where e: "establish_tcp_connection C (watz_kernel C Q) host ?c s1 = Some (TEE_SUCCESS, c, s2)"
    using run k(3) by (auto simp: ra_net_handshake_def split: Option.bind_splits if_splits)
  then obtain sk pe where o: "tcp_open C (watz_kernel C Q) (0, Some host, 8080) s1 = Some (TEE_SUCCESS, sk, pe, s2)"
    and c: "c = ?c\<lparr>c_socket := True, c_socket_ctx := sk\<rparr>"
    by (auto simp: establish_tcp_connection_def split: Option.bind_splits)
  have n2: "net_run C Q i sk (w_net s2) s1 s2" "w_socks s2 sk \<noteq> None" using tcp_open_frame [OF u1 oom o] by blast+
  obtain s3 where m0: "send_msg0 C (watz_kernel C Q) c s2 = Some (TEE_SUCCESS, s3)"
    using run k(3) e by (auto simp: ra_net_handshake_def split: Option.bind_splits if_splits)
  then obtain n where snd: "sock_send C (watz_kernel C Q) sk (pubkey_bytes pk) TEE_TIMEOUT_INFINITE s2 = Some (TEE_SUCCESS, n, s3)"
    by (auto simp: send_msg0_def c split: Option.bind_splits)
  have n3: "net_run C Q i sk (w_net s3) s2 s3" "w_socks s3 (c_socket_ctx c) \<noteq> None"
    using sock_send_frame [OF net_run_up [OF n2(1)] oom snd] by (simp_all add: c)
  obtain c4 s4 where m1: "receive_msg1 C (watz_kernel C Q) c s3 = Some (TEE_SUCCESS, c4, s4)"
    using run k(3) e m0 by (auto simp: ra_net_handshake_def split: Option.bind_splits if_splits)
  obtain m where m: "wf_msg1 m" "c4 = c\<lparr>c_msg1 := m\<rparr>" "net_run C Q i sk (w_net s4) s3 s4"
    using receive_msg1_success [OF net_run_up [OF n3(1)] oom n3(2) m1] by (auto simp: c)
  have n4: "net_run C Q i sk (w_net s4) s1 s4" using n2(1) n3(1) m(3) by (blast intro: net_run_trans)
  show ?thesis
  proof (rule that [OF k(1), of s4 c4])
    show "wf_tee s4" by (rule wf_tee_net [OF n4 tee_extD(1) [OF k(2)]])
    have "objs s4 = objs s1" using n4 by (simp add: net_run_def)
    then show "objs s4 (ecdh_local_keypair_handle c4) = Some (p256_keypair TEE_TYPE_ECDH_KEYPAIR d x y)"
      using k(4) by (simp add: m(2) c)
    show "pub_is x y (c_msg0 c4)" "wf_msg1 (c_msg1 c4)" using k(5) m(1) by (simp_all add: m(2) c)
    show "handshake_process_msg1 C c4 kx kxs ky kys anchor_size s4 = Some (TEE_SUCCESS, ctx', anchor, s')"
      using run by (simp add: ra_net_handshake_def k(3) e m0 m1)
  qed
qed

section \<open>Quotes\<close>

text \<open>The attestation service has derived its keys, so that its entry point for the first session changes nothing.\<close>

definition service_ready :: "env \<Rightarrow> nat \<times> nat \<times> nat \<Rightarrow> pta \<Rightarrow> bool" where
  "service_ready C k p \<longleftrightarrow> service_up C k p \<and> is_attestation_seed_derived p \<and> is_attestation_ecdsa_keypair_derived p"

text \<open>A quote for a claim and an anchor, signed by a key pair.\<close>

definition genuine_quote :: "env \<Rightarrow> nat \<times> nat \<Rightarrow> bytes \<Rightarrow> bytes \<Rightarrow> ra_quote \<Rightarrow> bool" where
  "genuine_quote C k claim anchor q \<longleftrightarrow>
     wf_quote q \<and> q_anchor q = anchor \<and> q_version q = RA_CURRENT_VERSION \<and> q_claim_hash q = claim_digest C claim \<and>
     q_attestation_key q = exported_point (fst k) (snd k) \<and>
     p_ecc_verify_hash (e_prims C) TEE_ECC_CURVE_NIST_P256 k (sha256 C (quote_body q)) (q_signature q) = CRYPT_OK True"

lemma mgr_eq_fields:
  fixes s s' :: "('w, 'b) watz_scheme"
  assumes "mgr_eq s s'"
  shows "w_pta s' = w_pta s" "w_sess s' = w_sess s" "w_net s' = w_net s" "tick s' = tick s"
  using assms unfolding mgr_eq_def by (cases s; cases s'; simp)+

lemma net_step_mgr_eq:
  fixes s s' :: "('w, 'b) watz_scheme"
  assumes "mgr_eq (s\<lparr>tick := tick s'\<rparr>) s'" "tick s \<le> tick s'"
  shows "net_step s (w_net s) s'"
  using assms unfolding mgr_eq_def net_step_def by (cases s; cases s') simp

lemma ensure_service_run:
  fixes s :: "('w, 'b) watz_scheme"
  assumes "no_oom C" "wf_mgr (watz_kernel C Q) s" "service_ready C k (w_pta s)"
    "if h = 0 then new_session_id (ids s) \<noteq> 0 else live_session (watz_kernel C Q) h PTA_ATTESTATION_SERVICE_UUID 0 s"
  obtains h' s' where "ensure_attestation_service_up C (watz_kernel C Q) h s = Some (TEE_SUCCESS, h', s')"
    "mgr_eq (s\<lparr>tick := tick s'\<rparr>) s'" "tick s \<le> tick s'" "h' \<noteq> 0" "wf_mgr (watz_kernel C Q) s'"
    "live_session (watz_kernel C Q) h' PTA_ATTESTATION_SERVICE_UUID 0 s'"
    "\<And>h uuid u. live_session (watz_kernel C Q) h uuid u s \<Longrightarrow> live_session (watz_kernel C Q) h uuid u s'"
proof (cases "h = 0")
  case True
  then have n: "new_session_id (ids s) \<noteq> 0" using assms(4) by simp
  have create: "pta_create C (w_pta s) t = Some (TEE_SUCCESS, w_pta s, t)" for t :: "('w, 'b) watz_scheme"
    using assms(3) by (simp add: service_ready_def pta_create_def derive_attestation_seed_def derive_attestation_ecdsa_keypair_def)
  have body: "wk.entry_open (attestation_pta C) [] fresh s1 = Some (TEE_SUCCESS, [], None, s1)"
    if "mgr_eq (s\<lparr>tick := tick s1\<rparr>) s1" for s1 fresh
  proof -
    have "w_pta s1 = w_pta s" using mgr_eq_fields(1) [OF that] by simp
    then show ?thesis using create [of s1] by (simp add: wk.entry_open_def attestation_pta_def flip: \<open>w_pta s1 = w_pta s\<close>)
  qed
  obtain s1 h' s' where r: "mgr_eq (s\<lparr>tick := tick s1\<rparr>) s1" "tick s \<le> tick s1"
    "TEE_OpenTASession C (watz_kernel C Q) PTA_ATTESTATION_SERVICE_UUID TEE_TIMEOUT_INFINITE [] s =
      Some (TEE_SUCCESS, h', update_out_params [] [], s')" "h' \<noteq> 0"
    "live_session (watz_kernel C Q) h' PTA_ATTESTATION_SERVICE_UUID (case None of None \<Rightarrow> 0 | Some v \<Rightarrow> v) s'" "mgr_eq s1 s'"
    "wf_mgr (watz_kernel C Q) s'" "\<And>h uuid u. live_session (watz_kernel C Q) h uuid u s \<Longrightarrow> live_session (watz_kernel C Q) h uuid u s'"
    by (rule wk.TEE_OpenTASession_ok [where to = TEE_TIMEOUT_INFINITE, OF assms(2) pta_of_watz(2) assms(1) n body])
      (assumption, rule that)
  have t: "tick s' = tick s1" using mgr_eq_fields(4) [OF r(6)] .
  show ?thesis
  proof (rule that [of h' s'])
    show "mgr_eq (s\<lparr>tick := tick s'\<rparr>) s'" using wk.mgr_eq_trans [OF r(1,6)] by (simp add: t)
  qed (use True r t in \<open>simp_all add: ensure_attestation_service_up_def\<close>)
next
  case False
  have "mgr_eq (s\<lparr>tick := tick s\<rparr>) s" by (simp add: mgr_eq_def)
  then show ?thesis using False assms(2,4) by (intro that [of h s]) (simp_all add: ensure_attestation_service_up_def)
qed

lemma invoke_quote_run:
  fixes s :: "('w, 'b) watz_scheme"
  assumes "ready C" "crypto_ok C" "ecc_ok (e_prims C)" "service_up C (d, x, y) (w_pta s)" "length anchor = 32" "length buf = 200"
  obtains q n where "p_invoke (attestation_pta C) 0 ATTESTATION_CMD_GEN_QUOTE
      [MEMREF_INPUT claim, MEMREF_INPUT anchor, MEMREF_INOUT buf, PARAM_NONE] s =
      Some (TEE_SUCCESS, [OUT_NONE, OUT_NONE, OUT_MEMREF 200 (quote_bytes q), OUT_NONE], s\<lparr>tick := n\<rparr>)" "tick s \<le> n"
    "genuine_quote C (x, y) claim anchor q"
proof (rule generate_quote_signed [OF assms(1-5), of claim s])
  fix q t'
  assume q: "generate_quote C claim anchor (w_pta s) s = Some (TEE_SUCCESS, Some q, t')" "wf_quote q"
    "q_anchor q = anchor" "q_version q = RA_CURRENT_VERSION" "q_claim_hash q = claim_digest C claim"
    "q_attestation_key q = exported_point x y" "tick s \<le> tick t'" "t' = s\<lparr>tick := tick t'\<rparr>"
    "p_ecc_verify_hash (e_prims C) TEE_ECC_CURVE_NIST_P256 (x, y) (sha256 C (quote_body q)) (q_signature q) = CRYPT_OK True"
  have "length (quote_bytes q) = 200" using q(2) by (simp add: length_quote_bytes)
  then have "p_invoke (attestation_pta C) 0 ATTESTATION_CMD_GEN_QUOTE
      [MEMREF_INPUT claim, MEMREF_INPUT anchor, MEMREF_INOUT buf, PARAM_NONE] s =
      Some (TEE_SUCCESS, [OUT_NONE, OUT_NONE, OUT_MEMREF 200 (quote_bytes q), OUT_NONE], t')"
    using q(1) assms(6) by (simp add: attestation_pta_def pta_invoke_command_def wr_full)
  then show ?thesis using that [of q "tick t'"] q by (simp add: genuine_quote_def)
qed

lemma collect_quote_run:
  fixes s :: "('w, 'b) watz_scheme"
  assumes env: "ready C" "crypto_ok C" "ecc_ok (e_prims C)" and s: "wf_mgr (watz_kernel C Q) s" "service_ready C (d, x, y) (w_pta s)"
    and h: "if h = 0 then new_session_id (ids s) \<noteq> 0 else live_session (watz_kernel C Q) h PTA_ATTESTATION_SERVICE_UUID 0 s"
    and a: "length anchor = 32" "wf_quote quote"
  obtains h' q s' where "ra_quote_collect C (watz_kernel C Q) h claim anchor quote s = Some (TEE_SUCCESS, h', q, s')"
    "genuine_quote C (x, y) claim anchor q" "mgr_eq (s\<lparr>tick := tick s'\<rparr>) s'" "tick s \<le> tick s'" "h' \<noteq> 0"
    "wf_mgr (watz_kernel C Q) s'" "live_session (watz_kernel C Q) h' PTA_ATTESTATION_SERVICE_UUID 0 s'"
    "\<And>h uuid u. live_session (watz_kernel C Q) h uuid u s \<Longrightarrow> live_session (watz_kernel C Q) h uuid u s'"
proof -
  have oom: "no_oom C" using env(1) by simp
  obtain h' s0 where e: "ensure_attestation_service_up C (watz_kernel C Q) h s = Some (TEE_SUCCESS, h', s0)"
    "mgr_eq (s\<lparr>tick := tick s0\<rparr>) s0" "tick s \<le> tick s0" "h' \<noteq> 0" "wf_mgr (watz_kernel C Q) s0"
    "live_session (watz_kernel C Q) h' PTA_ATTESTATION_SERVICE_UUID 0 s0"
    "\<And>h uuid u. live_session (watz_kernel C Q) h uuid u s \<Longrightarrow> live_session (watz_kernel C Q) h uuid u s0"
    by (rule ensure_service_run [OF oom s h]) (rule that)
  let ?ps = "[MEMREF_INPUT claim, MEMREF_INPUT anchor, MEMREF_INOUT (quote_bytes quote), PARAM_NONE]"
  let ?I = "\<lambda>s1 :: ('w, 'b) watz_scheme. the (p_invoke (attestation_pta C) 0 ATTESTATION_CMD_GEN_QUOTE ?ps s1)"
  have len: "length (quote_bytes quote) = 200" using a(2) by (simp add: length_quote_bytes)
  have body: "\<exists>q n. p_invoke (attestation_pta C) 0 ATTESTATION_CMD_GEN_QUOTE ?ps s1 =
        Some (TEE_SUCCESS, [OUT_NONE, OUT_NONE, OUT_MEMREF 200 (quote_bytes q), OUT_NONE], s1\<lparr>tick := n\<rparr>) \<and> tick s1 \<le> n \<and>
      genuine_quote C (x, y) claim anchor q"
    if "mgr_eq (s0\<lparr>tick := tick s1\<rparr>) s1" for s1
  proof -
    have "w_pta s1 = w_pta s" using mgr_eq_fields(1) [OF that] mgr_eq_fields(1) [OF e(2)] by simp
    then have "service_up C (d, x, y) (w_pta s1)" using s(2) by (simp add: service_ready_def)
    from invoke_quote_run [OF env this a(1) len] show ?thesis by blast
  qed
  then have run: "p_invoke (attestation_pta C) 0 ATTESTATION_CMD_GEN_QUOTE ?ps s1 =
      Some (TEE_SUCCESS, fst (snd (?I s1)), snd (snd (?I s1)))" if "mgr_eq (s0\<lparr>tick := tick s1\<rparr>) s1" for s1
    using that by fastforce
  obtain s1 s' where r: "mgr_eq (s0\<lparr>tick := tick s1\<rparr>) s1" "tick s0 \<le> tick s1"
    "TEE_InvokeTACommand C (watz_kernel C Q) h' TEE_TIMEOUT_INFINITE ATTESTATION_CMD_GEN_QUOTE ?ps s0 =
      Some (TEE_SUCCESS, update_out_params ?ps (invoke_outputs ?ps TEE_SUCCESS (fst (snd (?I s1)))), s')"
    "mgr_eq (snd (snd (?I s1))) s'" "wf_mgr (watz_kernel C Q) s'"
    "\<And>h uuid u. live_session (watz_kernel C Q) h uuid u s0 \<Longrightarrow> live_session (watz_kernel C Q) h uuid u s'"
    by (rule wk.TEE_InvokeTACommand_ok [where to = TEE_TIMEOUT_INFINITE, OF e(5,6) pta_of_watz(2) oom run])
      (assumption, rule that)
  obtain q n where q: "p_invoke (attestation_pta C) 0 ATTESTATION_CMD_GEN_QUOTE ?ps s1 =
        Some (TEE_SUCCESS, [OUT_NONE, OUT_NONE, OUT_MEMREF 200 (quote_bytes q), OUT_NONE], s1\<lparr>tick := n\<rparr>)" "tick s1 \<le> n"
      "genuine_quote C (x, y) claim anchor q"
    using body [OF r(1)] by blast
  have m: "mgr_eq (s1\<lparr>tick := n\<rparr>) s'" using r(4) q(1) by simp
  have t: "tick s' = n" using mgr_eq_fields(4) [OF m] by simp
  have wq: "wf_quote q" using q(3) by (simp add: genuine_quote_def)
  have "quote_at (quote_bytes q) = q" using quote_at_bytes [OF wq, of "[]"] by simp
  then have "ra_quote_collect C (watz_kernel C Q) h claim anchor quote s = Some (TEE_SUCCESS, h', q, s')"
    using e(1) r(3) q(1) wq len by (simp add: ra_quote_collect_def length_quote_bytes)
  moreover have "mgr_eq (s\<lparr>tick := tick s'\<rparr>) s'"
    using e(2) r(1) m unfolding mgr_eq_def t by (cases s; cases s0; cases s1; cases s') simp
  moreover have "tick s \<le> tick s'" using e(3) r(2) q(2) t by simp
  ultimately show ?thesis using that q(3) e(4,6,7) r(5,6) by blast
qed

section \<open>The messages of the attester\<close>

lemma prepare_msg2_run:
  assumes "ready C" "crypto_ok C" "wf_tee t" "objs t (ecdh_shared_mac_key ctx) = Some (aes_key k)" "length k = 16"
    "wf_pubkey (c_msg0 ctx)" "x_of (c_msg0 ctx) = Some x" "y_of (c_msg0 ctx) = Some y" "wf_msg2 (c_msg2 ctx)" "wf_quote q"
  obtains m t' where "prepare_msg2 C ctx q t = Some (TEE_SUCCESS, ctx\<lparr>c_msg2 := m\<rparr>, t')" "tee_ext t t'" "wf_msg2 m" "m2_quote m = q"
    "x_of (m2_ecdh m) = Some x" "y_of (m2_ecdh m) = Some y" "x_size (m2_ecdh m) = x_size (c_msg0 ctx)"
    "y_size (m2_ecdh m) = y_size (c_msg0 ctx)" "m2_mac m = cmac C k (x @ y @ quote_bytes q)"
proof -
  have k: "0 < ecdh_shared_mac_key ctx" "ecdh_shared_mac_key ctx \<le> tick t" using wf_obj_bound assms(3,4) by blast+
  have l: "length x = x_size (c_msg0 ctx)" "length y = y_size (c_msg0 ctx)" "length x \<le> 32" "length y \<le> 32"
    using assms(6-8) by (auto simp: wf_pubkey_def x_of_def y_of_def dest!: rd_bound)
  have r: "length (x_raw (m2_ecdh (c_msg2 ctx))) = 32" "length (y_raw (m2_ecdh (c_msg2 ctx))) = 32"
    using assms(9) by (simp_all add: wf_msg2_def wf_pubkey_def)
  let ?m = "(c_msg2 ctx)\<lparr>m2_ecdh := \<lparr>x_raw = x @ drop (length x) (x_raw (m2_ecdh (c_msg2 ctx))), x_size = x_size (c_msg0 ctx),
      y_raw = y @ drop (length y) (y_raw (m2_ecdh (c_msg2 ctx))), y_size = y_size (c_msg0 ctx)\<rparr>,
    m2_quote := q, m2_mac := cmac C k (x @ y @ quote_bytes q)\<rparr>"
  have "\<exists>t'. prepare_msg2 C ctx q t = Some (TEE_SUCCESS, ctx\<lparr>c_msg2 := ?m\<rparr>, t') \<and> tee_ext t t'"
    using assms(1-5,7,8) k l r
    by (simp add: prepare_msg2_def wr_start api_simps tee_obj_add_def) (rule tee_extI, simp_all)
  then obtain t' where t': "prepare_msg2 C ctx q t = Some (TEE_SUCCESS, ctx\<lparr>c_msg2 := ?m\<rparr>, t')" "tee_ext t t'" by blast
  show ?thesis
  proof (rule that [OF t'])
    show "wf_msg2 ?m" using assms(2,6,10) l r by (simp add: wf_msg2_def wf_pubkey_def)
  qed (use l in \<open>simp_all add: x_of_def y_of_def rd_def\<close>)
qed

lemma decrypt_msg3_run:
  assumes "ready C" "crypto_ok C" "wf_tee t" "objs t (ecdh_shared_session_key ctx) = Some (aes_key k)" "length k = 16"
    "sizeof_msg3_t \<le> length (c_msg3 ctx)" "msg3_at (c_msg3 ctx) = m" "rd (m3_content m) (m3_size m) = Some ct"
    "length (m3_tag m) = 16" "length ct \<le> data_size"
    "internal_aes_gcm_dec (p_aes (e_prims C) k) (m3_iv m) None ct (m3_tag m) = (res, out)"
  obtains t' where "decrypt_msg3 C ctx data_size t = Some (res, out, if res = TEE_SUCCESS then length ct else data_size, t')"
    "tee_ext t t'"
proof -
  have k: "0 < ecdh_shared_session_key ctx" "ecdh_shared_session_key ctx \<le> tick t" using wf_obj_bound assms(3,4) by blast+
  have "\<exists>t'. decrypt_msg3 C ctx data_size t =
      Some (res, out, if res = TEE_SUCCESS then length ct else data_size, t') \<and> tee_ext t t'"
    using assms k
    by (simp add: decrypt_msg3_def api_simps tee_obj_add_def) (rule tee_extI, simp_all)
  then show ?thesis using that by blast
qed

section \<open>Properties\<close>

text \<open>A normal world for the witnesses, which delivers at most 200 bytes at a time.\<close>

definition chunked_platform :: "(bytes \<times> bytes) platform" where
  "chunked_platform = stream_platform\<lparr>q_rpc := (\<lambda>cmd w. case cmd of
     OPTEE_RPC_SOCKET_RECV i h room to \<Rightarrow> stream_rpc (OPTEE_RPC_SOCKET_RECV i h (min 200 room) to) w
   | _ \<Rightarrow> stream_rpc cmd w)\<rparr>"

lemma sockets_up_chunked: "sockets_up C chunked_platform 5 (watz_start w)"
  by (simp add: sockets_up_def chunked_platform_def stream_platform_def new_session_id_def ids_def Let_def) (simp add: watz_start_def)

lemma map_nth_prefix: "n \<le> length xs \<Longrightarrow> map (\<lambda>k. if k < length xs then xs ! k else d) [0..<n] = take n xs"
  by (rule nth_equalityI) simp_all

lemma streams_chunked: "streams chunked_platform 5 7 fst"
proof -
  have "\<exists>r w'. q_rpc chunked_platform (OPTEE_RPC_SOCKET_RECV 5 7 room to) (inp, outp) = Some (r, w') \<and> r_res r = TEE_SUCCESS \<and>
      r_size r \<le> room \<and> map (r_shm r) [0..<r_size r] @ fst w' = inp \<and> (r_size r = 0 \<longrightarrow> inp = [])"
    if "0 < room" for room to and inp outp :: bytes
    using that
    by (auto simp: chunked_platform_def map_nth_prefix min_def)
  then show ?thesis by (auto simp: streams_def)
qed

text \<open>C14. Whatever way the network cuts a stream of bytes into pieces, the loop that receives a message ends, with the whole
  stream, if the stream fits into the buffer.\<close>

theorem receive_reassembles:
  assumes "streams Q i (sc_handle x) pending" "no_oom C" "sockets_up C Q i s" "w_socks s c = Some x" "c \<noteq> 0" "0 < chunk_size"
    "length (pending (w_net s)) \<le> data_size"
  shows "\<exists>s'. receive_socket_per_chunk C (watz_kernel C Q) c chunk_size data_size [] s =
      Some (TEE_SUCCESS, pending (w_net s), s') \<and> pending (w_net s') = [] \<and> net_run C Q i c (w_net s') s s'"
  using receive_stream [OF assms(1,2,5,3,4) refl assms(6), of "[]"] assms(7) by auto

theorem receive_reassembles_witness:
  "\<exists>s'. receive_socket_per_chunk sample_env (watz_kernel sample_env chunked_platform) 2 224 224 [] (watz_start (replicate 224 9, [])) =
     Some (TEE_SUCCESS, replicate 224 9, s')"
proof -
  let ?s = "watz_start (replicate 224 9 :: bytes, [] :: bytes)"
  let ?x = "\<lparr>sc_handle = 7, sc_proto_error = TEE_SUCCESS\<rparr>"
  have s: "w_socks ?s 2 = Some ?x" "w_net ?s = (replicate 224 9, [])" by (simp_all add: watz_start_def)
  show ?thesis
    using receive_reassembles [OF _ no_oom_sample sockets_up_chunked s(1), of fst 224 224] streams_chunked by (auto simp: s(2))
qed

text \<open>C21. The loop does not bound a read by what is left of the buffer: a peer that sends more than half of the first message
  and then, in one piece, more than the rest of it makes the attester write past the end of the buffer on its stack.\<close>

theorem receive_msg1_overrun:
  assumes "sockets_up C Q i s" "no_oom C" "w_socks s (c_socket_ctx ctx) = Some x" "c_socket_ctx ctx \<noteq> 0"
    and one: "q_rpc Q (OPTEE_RPC_SOCKET_RECV i (sc_handle x) 224 TEE_TIMEOUT_INFINITE) (w_net s) = Some (r, w)"
      "r_res r = TEE_SUCCESS" "r_size r < sizeof_msg1_t"
    and two: "q_rpc Q (OPTEE_RPC_SOCKET_RECV i (sc_handle x) (r_size r) TEE_TIMEOUT_INFINITE) w = Some (r', w')"
      "r_res r' = TEE_SUCCESS" "r_size r' \<le> r_size r" "sizeof_msg1_t < r_size r + r_size r'"
  shows "receive_msg1 C (watz_kernel C Q) ctx s = None"
proof -
  obtain s1 where s1: "sock_recv C (watz_kernel C Q) (c_socket_ctx ctx) 224 TEE_TIMEOUT_INFINITE s =
        Some (TEE_SUCCESS, r_size r, map (r_shm r) [0..<r_size r], s1)"
      "net_run C Q i (c_socket_ctx ctx) w s s1" "w_socks s1 (c_socket_ctx ctx) = Some (x\<lparr>sc_proto_error := r_res r\<rparr>)"
    using sock_recv_run [OF assms(1-4) one(1)] one(2,3) by auto
  have w: "w_net s1 = w" "sockets_up C Q i s1" using s1(2) by (simp_all add: net_run_def)
  have two': "q_rpc Q (OPTEE_RPC_SOCKET_RECV i (sc_handle (x\<lparr>sc_proto_error := r_res r\<rparr>)) (r_size r) TEE_TIMEOUT_INFINITE) (w_net s1) =
      Some (r', w')"
    using two(1) w(1) by simp
  obtain s2 where s2: "sock_recv C (watz_kernel C Q) (c_socket_ctx ctx) (r_size r) TEE_TIMEOUT_INFINITE s1 =
        Some (TEE_SUCCESS, r_size r', map (r_shm r') [0..<r_size r'], s2)"
    using sock_recv_run [OF w(2) assms(2) s1(3) assms(4) two' two(3)] two(2) by auto
  have "receive_socket_per_chunk C (watz_kernel C Q) (c_socket_ctx ctx) (r_size r) 224 (map (r_shm r) [0..<r_size r]) s1 = None"
    using s2 one(3) two(3,4) by (subst receive_socket_per_chunk.simps) simp
  then show ?thesis using s1(1) one(3) by (simp add: receive_msg1_def) (subst receive_socket_per_chunk.simps, simp)
qed

theorem receive_msg1_overrun_witness:
  "receive_msg1 sample_env (watz_kernel sample_env chunked_platform) (zero_ra_context\<lparr>c_socket_ctx := 2\<rparr>)
     (watz_start (replicate 400 9, [])) = None"
proof -
  let ?r = "\<lambda>inp. \<lparr>r_res = TEE_SUCCESS, r_value = 0, r_size = 200, r_shm = (\<lambda>k. if k < length inp then inp ! k else (0 :: byte))\<rparr>"
  show ?thesis
    by (rule receive_msg1_overrun [OF sockets_up_chunked no_oom_sample, where r = "?r (replicate 400 9)" and
        r' = "?r (replicate 200 9)" and w = "(replicate 200 9, [])" and w' = "([], [])"])
      (simp_all add: watz_start_def chunked_platform_def)
qed

text \<open>C1. The quote the attester collects for an anchor of 32 bytes is genuine: the system call opens the session with the
  attestation service if there is none and returns a quote with that anchor, the version, the digest of the claim and the
  public key of the device, with a valid signature. The objects of the attester do not change.\<close>

theorem collected_quote_genuine:
  fixes s :: "('w, 'b) watz_scheme"
  assumes "ready C" "crypto_ok C" "ecc_ok (e_prims C)" "wf_mgr (watz_kernel C Q) s" "service_ready C (d, x, y) (w_pta s)"
    "if h = 0 then new_session_id (ids s) \<noteq> 0 else live_session (watz_kernel C Q) h PTA_ATTESTATION_SERVICE_UUID 0 s"
    "length anchor = RA_ANCHOR_SIZE" "wf_quote quote"
  shows "\<exists>h' q s'. ra_quote_collect C (watz_kernel C Q) h claim anchor quote s = Some (TEE_SUCCESS, h', q, s') \<and>
    genuine_quote C (x, y) claim anchor q \<and> objs s' = objs s \<and> live_session (watz_kernel C Q) h' PTA_ATTESTATION_SERVICE_UUID 0 s'"
proof -
  obtain h' q s' where r: "ra_quote_collect C (watz_kernel C Q) h claim anchor quote s = Some (TEE_SUCCESS, h', q, s')"
    "genuine_quote C (x, y) claim anchor q" "mgr_eq (s\<lparr>tick := tick s'\<rparr>) s'"
    "live_session (watz_kernel C Q) h' PTA_ATTESTATION_SERVICE_UUID 0 s'"
    by (rule collect_quote_run [OF assms, where claim = claim])
  moreover have "objs s' = objs s" using r(3) unfolding mgr_eq_def by (cases s; cases s') simp
  ultimately show ?thesis by blast
qed

text \<open>A device whose attestation service is ready.\<close>

definition ready_service :: pta where
  "ready_service = sample_service\<lparr>is_attestation_seed_derived := True, is_attestation_ecdsa_keypair_derived := True\<rparr>"

lemma ready_service_ready: "service_ready sample_env (sample_key_of [7]) ready_service"
  using sample_service_up by (simp add: service_ready_def ready_service_def service_up_def sample_key_of_def)

definition attester_start :: "(bytes \<times> bytes) watz" where
  "attester_start = (watz_start ([], []))\<lparr>w_pta := ready_service\<rparr>"

lemma attester_start_facts:
  "wf_mgr K attester_start" "service_ready sample_env (sample_key_of [7]) (w_pta attester_start)" "new_session_id (ids attester_start) \<noteq> 0"
  using ready_service_ready by (simp_all add: attester_start_def watz_start_def wf_mgr_def new_session_id_def ids_def Let_def)

lemma wf_zero_quote: "wf_quote zero_quote"
  by (simp add: wf_quote_def zero_quote_def)

theorem collected_quote_genuine_witness:
  "\<exists>h q s'. ra_quote_collect sample_env (watz_kernel sample_env stream_platform) 0 [1, 2] (replicate 32 9) zero_quote attester_start =
     Some (TEE_SUCCESS, h, q, s') \<and> q_anchor q = replicate 32 9"
proof -
  obtain d x y where k: "sample_key_of [7] = (d, x, y)" by (cases "sample_key_of [7]")
  show ?thesis
    using collected_quote_genuine [where Q = stream_platform and d = d and x = x and y = y and h = 0 and anchor = "replicate 32 9" and quote = zero_quote and
      claim = "[1, 2]", OF ready_sample crypto_ok_sample ecc_ok_sample attester_start_facts(1)] attester_start_facts(2,3) wf_zero_quote
    by (auto simp: k genuine_quote_def)
qed

lemma close_attestation_run:
  fixes s :: "('w, 'b) watz_scheme"
  assumes wf: "wf_mgr (watz_kernel C Q) s" and live: "live_session (watz_kernel C Q) h PTA_ATTESTATION_SERVICE_UUID 0 s"
  shows "h \<noteq> 0 \<Longrightarrow> \<exists>s'. TEE_CloseTASession (watz_kernel C Q) h s = Some s'"
proof -
  assume h: "h \<noteq> 0"
  let ?K = "watz_kernel C Q :: (('w, 'b) watz_scheme) kernel"
  obtain a x c ctx where x: "find (\<lambda>(a, x). s_id x = h) (open_sessions s) = Some (a, x)" "s_clnt_id x = self_identity ?K"
      "s_user_ctx x = 0" "s_ctx x = Some c" "ctx_at c s = Some ctx" "c_uuid ctx = PTA_ATTESTATION_SERVICE_UUID"
    using live by (auto simp: live_session_def)
  note f = wk.found_session [OF wf x(1)]
  obtain c' ctx' p where g: "s_ctx x = Some c'" "ctx_at c' s = Some ctx'" "idle_session x" "\<not> c_busy ctx'" "\<not> c_panicked ctx'"
      "p \<in> set (k_ptas ?K)" "pta_of ?K (c_uuid ctx') = Some p" "c_flags ctx' = p_flags p" "0 < c_ref_count ctx'"
    by (rule wk.session_facts [OF wf f(1)])
  have e: "c' = c" "ctx' = ctx" "p = attestation_pta C" using g x by simp_all
  have "check_client x (CLIENT (self_identity ?K)) = TEE_SUCCESS" using x(2) by (simp add: check_client_def)
  from wk.close_run [OF wf f(1) this g(1,2,7,8,5,4,6,3,9)]
  have "\<exists>s'. tee_ta_close_session ?K (Some a) (CLIENT (self_identity ?K)) s = Some (TEE_SUCCESS, s')"
    by (simp add: e x(3) wk.closing_def attestation_pta_def)
  then show ?thesis using h x(1) by (auto simp: TEE_CloseTASession_def syscall_close_ta_session_def tee_ta_find_session_def)
qed

text \<open>C22. Disposing of a quote closes the session with the attestation service but leaves its handle in place: the next quote
  the same application collects is a panic.\<close>

theorem collect_after_dispose_panics:
  fixes s :: "('w, 'b) watz_scheme"
  assumes "no_oom C" "wf_mgr (watz_kernel C Q) s" "h \<noteq> 0" "live_session (watz_kernel C Q) h PTA_ATTESTATION_SERVICE_UUID 0 s"
  shows "\<exists>s'. ra_quote_dispose (watz_kernel C Q) h quote s = Some (TEE_SUCCESS, h, zero_quote, s') \<and>
    ra_quote_collect C (watz_kernel C Q) h claim anchor quote' s' = None"
proof -
  obtain s' where c: "TEE_CloseTASession (watz_kernel C Q) h s = Some s'" using close_attestation_run [OF assms(2,4,3)] by blast
  have "TEE_InvokeTACommand C (watz_kernel C Q) h to cmd ps s' = None" for to cmd ps
    using wk.close_forgets [OF assms(2,3) c] assms(1)
    by (simp add: TEE_InvokeTACommand_def copy_param_def syscall_invoke_ta_command_def tee_ta_get_session_def require_def)
  then show ?thesis using c assms(3)
    by (intro exI [of _ s'])
      (simp add: ra_quote_dispose_def close_attestation_session_def ra_quote_collect_def ensure_attestation_service_up_def)
qed

theorem collect_after_dispose_panics_witness:
  "\<exists>h q s s'. ra_quote_collect sample_env (watz_kernel sample_env stream_platform) 0 [1, 2] (replicate 32 9) zero_quote attester_start =
      Some (TEE_SUCCESS, h, q, s) \<and>
    ra_quote_dispose (watz_kernel sample_env stream_platform) h q s = Some (TEE_SUCCESS, h, zero_quote, s') \<and>
    ra_quote_collect sample_env (watz_kernel sample_env stream_platform) h [1, 2] (replicate 32 9) zero_quote s' = None"
proof -
  obtain d x y where k: "sample_key_of [7] = (d, x, y)" by (cases "sample_key_of [7]")
  obtain h q s where r: "ra_quote_collect sample_env (watz_kernel sample_env stream_platform) 0 [1, 2] (replicate 32 9) zero_quote
      attester_start = Some (TEE_SUCCESS, h, q, s)" "h \<noteq> 0" "wf_mgr (watz_kernel sample_env stream_platform) s"
      "live_session (watz_kernel sample_env stream_platform) h PTA_ATTESTATION_SERVICE_UUID 0 s"
    by (rule collect_quote_run [where d = d and x = x and y = y and h = 0 and anchor = "replicate 32 9" and quote = zero_quote and
      claim = "[1, 2]", OF ready_sample crypto_ok_sample ecc_ok_sample attester_start_facts(1)])
      (use attester_start_facts(2,3) wf_zero_quote in \<open>simp_all add: k\<close>)
  from collect_after_dispose_panics [OF no_oom_sample r(3,2,4), of q "[1, 2]" "replicate 32 9" zero_quote] r(1) show ?thesis by blast
qed

end
