(* ===== verification/Verifier.thy ===== *)
theory Verifier
  imports Ra_Keys Tee_Session
begin

text \<open>
  The verifier: the functions of \<^verbatim>\<open>verifier.c\<close>, which the trusted application of the relying party runs on the messages of an
  attester. The context is a record; handles are addresses of the device, 0 for the null handle. A read past the end of a
  field or of a buffer, and a handle that is freed before it was assigned, have the value \<open>None\<close>; the debug output and the
  profiling are left out.
\<close>

section \<open>Definitions\<close>

definition RA_IMX_TEST_PUBLIC_KEY_X :: bytes where
  "RA_IMX_TEST_PUBLIC_KEY_X =
     [0x48, 0xee, 0xee, 0x81, 0xde, 0x28, 0xdb, 0x3e, 0x5d, 0x5a, 0xfc, 0x7d, 0x4b, 0x7e, 0xa4, 0xb1,
      0xac, 0x16, 0xa2, 0xd7, 0xa9, 0x97, 0x8c, 0x1f, 0x84, 0xb4, 0x35, 0x57, 0x30, 0x64, 0x38, 0x47]"

definition RA_IMX_TEST_PUBLIC_KEY_Y :: bytes where
  "RA_IMX_TEST_PUBLIC_KEY_Y =
     [0xf7, 0xf2, 0xce, 0x32, 0x43, 0x4e, 0xab, 0x77, 0x93, 0x53, 0x74, 0x8e, 0xee, 0x64, 0xe7, 0x29,
      0x76, 0x34, 0x0e, 0x80, 0x5d, 0x87, 0xc2, 0xb6, 0x98, 0x4a, 0xa5, 0xd1, 0x2d, 0x30, 0x3f, 0xaf]"

text \<open>The secret is \<open>None\<close> for the null pointer; the header of the third message is kept until it is freed.\<close>

record ra_context_verifier =
  v_secret :: "bytes option"
  v_secret_size :: nat
  v_ecdsa_attester_public_key_handle :: nat
  v_ecdh_attester_public_key_handle :: nat
  v_ecdsa_local_keypair_handle :: nat
  v_ecdh_local_keypair_handle :: nat
  v_ecdh_shared_key_derivation_key :: nat
  v_ecdh_shared_mac_key :: nat
  v_ecdh_shared_session_key :: nat
  is_quote_valid :: bool
  v_msg0 :: msg0_t
  v_msg1 :: msg1_t
  v_msg2 :: msg2_t
  v_msg3_addr :: nat
  v_msg3_size :: nat

text \<open>The context is static data.\<close>

definition zero_ra_context_verifier :: ra_context_verifier where
  "zero_ra_context_verifier =
     \<lparr>v_secret = None, v_secret_size = 0, v_ecdsa_attester_public_key_handle = 0, v_ecdh_attester_public_key_handle = 0,
      v_ecdsa_local_keypair_handle = 0, v_ecdh_local_keypair_handle = 0, v_ecdh_shared_key_derivation_key = 0,
      v_ecdh_shared_mac_key = 0, v_ecdh_shared_session_key = 0, is_quote_valid = False, v_msg0 = zero_pubkey,
      v_msg1 = zero_msg1, v_msg2 = zero_msg2, v_msg3_addr = 0, v_msg3_size = 0\<rparr>"

definition verifier_generate_ecdh_keypair ::
    "env \<Rightarrow> ra_context_verifier \<Rightarrow> 'a tee_scheme \<Rightarrow> (TEE_Result \<times> ra_context_verifier \<times> 'a tee_scheme) option" where
  "verifier_generate_ecdh_keypair C ctx t = do {
     (res, h, t) \<leftarrow> generate_p256_keypair C TEE_TYPE_ECDH_KEYPAIR t;
     (case h of
        None \<Rightarrow> Some (res, ctx, t)
      | Some h \<Rightarrow> do {
          let ctx = ctx\<lparr>v_ecdh_local_keypair_handle := h\<rparr>;
          if res \<noteq> TEE_SUCCESS then Some (res, ctx, t)
          else do {
            (res, pk) \<leftarrow> extract_public_key C h ((m1_ecdh (v_msg1 ctx))\<lparr>x_size := 32, y_size := 32\<rparr>) t;
            Some (res, ctx\<lparr>v_msg1 := (v_msg1 ctx)\<lparr>m1_ecdh := pk\<rparr>\<rparr>, t)
          }
        })
   }"

definition store_msg0 :: "ra_context_verifier \<Rightarrow> bytes \<Rightarrow> TEE_Result \<times> ra_context_verifier" where
  "store_msg0 ctx buffer =
     (if length buffer < sizeof_msg0_t then (TEE_ERROR_SHORT_BUFFER, ctx)
      else (TEE_SUCCESS, ctx\<lparr>v_msg0 := pubkey_at (take sizeof_msg0_t buffer)\<rparr>))"

definition populate_attester_key ::
    "env \<Rightarrow> ra_context_verifier \<Rightarrow> 'a tee_scheme \<Rightarrow> (TEE_Result \<times> ra_context_verifier \<times> 'a tee_scheme) option" where
  "populate_attester_key C ctx t = do {
     curve_attr \<leftarrow> TEE_InitValueAttribute TEE_ATTR_ECC_CURVE TEE_ECC_CURVE_NIST_P256 4;
     (r, t) \<leftarrow> TEE_AllocateTransientObject C TEE_TYPE_ECDH_PUBLIC_KEY RA_ECDH_KEY_SIZE t;
     (case r of
        Inl e \<Rightarrow> Some (e, ctx, t)
      | Inr h \<Rightarrow> do {
          let ctx = ctx\<lparr>v_ecdh_attester_public_key_handle := h\<rparr>;
          x \<leftarrow> x_of (v_msg0 ctx);
          y \<leftarrow> y_of (v_msg0 ctx);
          x_attr \<leftarrow> TEE_InitRefAttribute TEE_ATTR_ECC_PUBLIC_VALUE_X x;
          y_attr \<leftarrow> TEE_InitRefAttribute TEE_ATTR_ECC_PUBLIC_VALUE_Y y;
          (res, t) \<leftarrow> TEE_PopulateTransientObject C h [x_attr, y_attr, curve_attr] t;
          Some (res, ctx, t)
        })
   }"

definition verifier_derive_shared_key ::
    "env \<Rightarrow> ra_context_verifier \<Rightarrow> 'a tee_scheme \<Rightarrow> (TEE_Result \<times> ra_context_verifier \<times> 'a tee_scheme) option" where
  "verifier_derive_shared_key C ctx t = do {
     x \<leftarrow> x_of (v_msg0 ctx);
     y \<leftarrow> y_of (v_msg0 ctx);
     x_attr \<leftarrow> TEE_InitRefAttribute TEE_ATTR_ECC_PUBLIC_VALUE_X x;
     y_attr \<leftarrow> TEE_InitRefAttribute TEE_ATTR_ECC_PUBLIC_VALUE_Y y;
     (res, kdk, t) \<leftarrow> derive_shared_key C (v_ecdh_local_keypair_handle ctx) [x_attr, y_attr] t;
     Some (res, (case kdk of None \<Rightarrow> ctx | Some k \<Rightarrow> ctx\<lparr>v_ecdh_shared_key_derivation_key := k\<rparr>), t)
   }"

definition append_ecdh_public_keys_signature ::
    "env \<Rightarrow> ra_context_verifier \<Rightarrow> 'a tee_scheme \<Rightarrow> (TEE_Result \<times> ra_context_verifier \<times> 'a tee_scheme) option" where
  "append_ecdh_public_keys_signature C ctx t = do {
     vx \<leftarrow> x_of (m1_ecdh (v_msg1 ctx));
     vy \<leftarrow> y_of (m1_ecdh (v_msg1 ctx));
     ax \<leftarrow> x_of (v_msg0 ctx);
     ay \<leftarrow> y_of (v_msg0 ctx);
     (res, operation, digest, digest_len, t) \<leftarrow> digest4 C RA_HASH_SIZE vx vy ax ay t;
     if res \<noteq> TEE_SUCCESS then do { t \<leftarrow> TEE_FreeOperation operation t; Some (res, ctx, t) }
     else if digest_len \<noteq> RA_HASH_SIZE div 8
     then do { t \<leftarrow> TEE_FreeOperation operation t; Some (TEE_ERROR_GENERIC, ctx, t) }
     else do {
       t \<leftarrow> TEE_ResetOperation C operation t;
       (r, t) \<leftarrow> TEE_AllocateOperation C TEE_ALG_ECDSA_P256 TEE_MODE_SIGN RA_ECDSA_KEY_SIZE t;
       (case r of
          Inl e \<Rightarrow> do { t \<leftarrow> TEE_FreeOperation operation t; Some (e, ctx, t) }
        | Inr operation \<Rightarrow> do {
            (res, t) \<leftarrow> TEE_SetOperationKey C operation (v_ecdsa_local_keypair_handle ctx) t;
            if res \<noteq> TEE_SUCCESS then do { t \<leftarrow> TEE_FreeOperation operation t; Some (res, ctx, t) }
            else do {
              (res, sig, sign_len, t) \<leftarrow> TEE_AsymmetricSignDigest C operation [] (take digest_len digest) RA_SIGNATURE_SIZE t;
              if res \<noteq> TEE_SUCCESS then do { t \<leftarrow> TEE_FreeOperation operation t; Some (res, ctx, t) }
              else do {
                buf \<leftarrow> wr (m1_ecdh_signature (v_msg1 ctx)) 0 sig;
                t \<leftarrow> TEE_FreeOperation operation t;
                Some (if sign_len \<noteq> RA_SIGNATURE_SIZE then TEE_ERROR_GENERIC else TEE_SUCCESS,
                      ctx\<lparr>v_msg1 := (v_msg1 ctx)\<lparr>m1_ecdh_signature := buf\<rparr>\<rparr>, t)
              }
            }
          })
     }
   }"

definition append_mac ::
    "env \<Rightarrow> ra_context_verifier \<Rightarrow> 'a tee_scheme \<Rightarrow> (TEE_Result \<times> ra_context_verifier \<times> 'a tee_scheme) option" where
  "append_mac C ctx t = do {
     (r, t) \<leftarrow> TEE_AllocateOperation C TEE_ALG_AES_CMAC TEE_MODE_MAC RA_AES_CMAC_TAG_SIZE t;
     (case r of
        Inl e \<Rightarrow> Some (e, ctx, t)
      | Inr aes_cmac_op \<Rightarrow> do {
          (res, t) \<leftarrow> TEE_SetOperationKey C aes_cmac_op (v_ecdh_shared_mac_key ctx) t;
          if res \<noteq> TEE_SUCCESS then Some (res, ctx, t)
          else do {
            t \<leftarrow> TEE_MACInit C aes_cmac_op t;
            x \<leftarrow> x_of (m1_ecdh (v_msg1 ctx));
            t \<leftarrow> TEE_MACUpdate aes_cmac_op x t;
            y \<leftarrow> y_of (m1_ecdh (v_msg1 ctx));
            t \<leftarrow> TEE_MACUpdate aes_cmac_op y t;
            x \<leftarrow> x_of (m1_ecdsa (v_msg1 ctx));
            t \<leftarrow> TEE_MACUpdate aes_cmac_op x t;
            y \<leftarrow> y_of (m1_ecdsa (v_msg1 ctx));
            t \<leftarrow> TEE_MACUpdate aes_cmac_op y t;
            (res, mac, mac_size, t) \<leftarrow>
              TEE_MACComputeFinal C aes_cmac_op (m1_ecdh_signature (v_msg1 ctx)) (RA_AES_CMAC_TAG_SIZE div 8) t;
            t \<leftarrow> TEE_FreeOperation aes_cmac_op t;
            if res \<noteq> TEE_SUCCESS then Some (res, ctx, t)
            else do {
              buf \<leftarrow> wr (m1_mac (v_msg1 ctx)) 0 mac;
              Some (if RA_AES_CMAC_TAG_SIZE div 8 \<noteq> mac_size then TEE_ERROR_GENERIC else TEE_SUCCESS,
                    ctx\<lparr>v_msg1 := (v_msg1 ctx)\<lparr>m1_mac := buf\<rparr>\<rparr>, t)
            }
          }
        })
   }"

definition store_msg2 :: "ra_context_verifier \<Rightarrow> bytes \<Rightarrow> TEE_Result \<times> ra_context_verifier" where
  "store_msg2 ctx buffer =
     (if length buffer < sizeof_msg2_t then (TEE_ERROR_SHORT_BUFFER, ctx)
      else (TEE_SUCCESS, ctx\<lparr>v_msg2 := msg2_at (take sizeof_msg2_t buffer)\<rparr>))"

definition verify_mac_msg2 :: "env \<Rightarrow> ra_context_verifier \<Rightarrow> 'a tee_scheme \<Rightarrow> (TEE_Result \<times> 'a tee_scheme) option" where
  "verify_mac_msg2 C ctx t = do {
     (r, t) \<leftarrow> TEE_AllocateOperation C TEE_ALG_AES_CMAC TEE_MODE_MAC RA_AES_CMAC_TAG_SIZE t;
     (case r of
        Inl e \<Rightarrow> None
      | Inr aes_cmac_op \<Rightarrow> do {
          (res, t) \<leftarrow> TEE_SetOperationKey C aes_cmac_op (v_ecdh_shared_mac_key ctx) t;
          if res \<noteq> TEE_SUCCESS then do { t \<leftarrow> TEE_FreeOperation aes_cmac_op t; Some (res, t) }
          else do {
            t \<leftarrow> TEE_MACInit C aes_cmac_op t;
            x \<leftarrow> x_of (m2_ecdh (v_msg2 ctx));
            t \<leftarrow> TEE_MACUpdate aes_cmac_op x t;
            y \<leftarrow> y_of (m2_ecdh (v_msg2 ctx));
            t \<leftarrow> TEE_MACUpdate aes_cmac_op y t;
            (res, t) \<leftarrow> TEE_MACCompareFinal C aes_cmac_op (quote_bytes (m2_quote (v_msg2 ctx))) (m2_mac (v_msg2 ctx)) t;
            t \<leftarrow> TEE_FreeOperation aes_cmac_op t;
            Some (res, t)
          }
        })
   }"

text \<open>The comparison is over the sizes of the first message; a size above that of the buffers compares what is behind them.\<close>

definition verify_public_key_msg2_matches_msg0 :: "ra_context_verifier \<Rightarrow> TEE_Result option" where
  "verify_public_key_msg2_matches_msg0 ctx = do {
     x \<leftarrow> rd (x_raw (v_msg0 ctx)) (x_size (v_msg0 ctx));
     x' \<leftarrow> rd (x_raw (m2_ecdh (v_msg2 ctx))) (x_size (v_msg0 ctx));
     if x \<noteq> x' then Some TEE_ERROR_SECURITY
     else do {
       y \<leftarrow> rd (y_raw (v_msg0 ctx)) (y_size (v_msg0 ctx));
       y' \<leftarrow> rd (y_raw (m2_ecdh (v_msg2 ctx))) (y_size (v_msg0 ctx));
       Some (if y \<noteq> y' then TEE_ERROR_SECURITY else TEE_SUCCESS)
     }
   }"

definition verify_quote_signature ::
    "env \<Rightarrow> ra_context_verifier \<Rightarrow> 'a tee_scheme \<Rightarrow> (TEE_Result \<times> ra_context_verifier \<times> 'a tee_scheme) option" where
  "verify_quote_signature C ctx t = do {
     let q = m2_quote (v_msg2 ctx);
     (res, t) \<leftarrow> verify_digest4 C (v_ecdsa_attester_public_key_handle ctx) (q_anchor q) (le32 (q_version q)) (q_claim_hash q)
       (q_attestation_key q) (q_signature q) (\<lambda>_. Some ()) t;
     Some (res, if res = TEE_SUCCESS then ctx\<lparr>is_quote_valid := True\<rparr> else ctx, t)
   }"

text \<open>An anchor that does not match returns without freeing the operation.\<close>

definition verify_anchor :: "env \<Rightarrow> ra_context_verifier \<Rightarrow> 'a tee_scheme \<Rightarrow> (TEE_Result \<times> 'a tee_scheme) option" where
  "verify_anchor C ctx t = do {
     ax \<leftarrow> x_of (v_msg0 ctx);
     ay \<leftarrow> y_of (v_msg0 ctx);
     vx \<leftarrow> x_of (m1_ecdh (v_msg1 ctx));
     vy \<leftarrow> y_of (m1_ecdh (v_msg1 ctx));
     (res, operation, digest, digest_len, t) \<leftarrow> digest4 C RA_ANCHOR_SIZE ax ay vx vy t;
     if res \<noteq> TEE_SUCCESS then do { t \<leftarrow> TEE_FreeOperation operation t; Some (res, t) }
     else if digest_len \<noteq> RA_ANCHOR_SIZE then do { t \<leftarrow> TEE_FreeOperation operation t; Some (TEE_ERROR_GENERIC, t) }
     else if q_anchor (m2_quote (v_msg2 ctx)) \<noteq> digest then Some (TEE_ERROR_SECURITY, t)
     else do { t \<leftarrow> TEE_FreeOperation operation t; Some (TEE_SUCCESS, t) }
   }"

definition verifier_allocate_msg3 ::
    "env \<Rightarrow> ra_context_verifier \<Rightarrow> nat \<Rightarrow> 'a tee_scheme \<Rightarrow> TEE_Result \<times> ra_context_verifier \<times> 'a tee_scheme" where
  "verifier_allocate_msg3 C ctx buf_size t =
     (let ctx = ctx\<lparr>v_msg3_size := sizeof_msg3_t\<rparr> in
      if v_msg3_size ctx > buf_size then (TEE_ERROR_SHORT_BUFFER, ctx, t)
      else case alloc C t of (a, t) \<Rightarrow> (TEE_SUCCESS, ctx\<lparr>v_msg3_addr := a\<rparr>, t))"

text \<open>The result and the bytes the function leaves in the buffer of the caller.\<close>

definition encrypt_msg3 ::
    "env \<Rightarrow> ra_context_verifier \<Rightarrow> bytes \<Rightarrow> bytes option \<Rightarrow> 'a tee_scheme \<Rightarrow> (TEE_Result \<times> bytes \<times> 'a tee_scheme) option" where
  "encrypt_msg3 C ctx buffer data t = do {
     require (v_msg3_addr ctx \<noteq> 0);
     (iv, t) \<leftarrow> TEE_GenerateRandom C RA_AES_GCM_IV_SIZE t;
     (r, t) \<leftarrow> TEE_AllocateOperation C TEE_ALG_AES_GCM TEE_MODE_ENCRYPT RA_AES_GCM_KEY_SIZE t;
     (case r of
        Inl e \<Rightarrow> None
      | Inr operation \<Rightarrow> do {
          (res, t) \<leftarrow> TEE_SetOperationKey C operation (v_ecdh_shared_session_key ctx) t;
          if res \<noteq> TEE_SUCCESS then do { t \<leftarrow> TEE_FreeOperation operation t; Some (res, buffer, t) }
          else do {
            (res, t) \<leftarrow> TEE_AEInit C operation iv RA_AES_GCM_TAG_SIZE t;
            if res \<noteq> TEE_SUCCESS then do { t \<leftarrow> TEE_FreeOperation operation t; Some (res, buffer, t) }
            else do {
              (res, ct, len, tag, tag_size, t) \<leftarrow>
                TEE_AEEncryptFinal C operation data (length buffer - sizeof_msg3_t) (RA_AES_GCM_TAG_SIZE div 8) t;
              buffer \<leftarrow> wr buffer sizeof_msg3_t ct;
              if res \<noteq> TEE_SUCCESS then do { t \<leftarrow> TEE_FreeOperation operation t; Some (res, buffer, t) }
              else do {
                buffer \<leftarrow> wr buffer 0 (msg3_bytes \<lparr>m3_iv = iv, m3_tag = tag, m3_size = len, m3_content = []\<rparr>);
                t \<leftarrow> TEE_FreeOperation operation t;
                Some (TEE_SUCCESS, buffer, t)
              }
            }
          }
        })
   }"

definition free_msg3 :: "ra_context_verifier \<Rightarrow> TEE_Result \<times> ra_context_verifier" where
  "free_msg3 ctx = (TEE_SUCCESS, ctx)"

definition import_attester_attestation_key ::
    "env \<Rightarrow> ra_context_verifier \<Rightarrow> 'a tee_scheme \<Rightarrow> (TEE_Result \<times> ra_context_verifier \<times> 'a tee_scheme) option" where
  "import_attester_attestation_key C ctx t = do {
     curve_attr \<leftarrow> TEE_InitValueAttribute TEE_ATTR_ECC_CURVE TEE_ECC_CURVE_NIST_P256 4;
     (r, t) \<leftarrow> TEE_AllocateTransientObject C TEE_TYPE_ECDSA_PUBLIC_KEY RA_ECDSA_KEY_SIZE t;
     (case r of
        Inl e \<Rightarrow> Some (e, ctx, t)
      | Inr h \<Rightarrow> do {
          let ctx = ctx\<lparr>v_ecdsa_attester_public_key_handle := h\<rparr>;
          x_attr \<leftarrow> TEE_InitRefAttribute TEE_ATTR_ECC_PUBLIC_VALUE_X RA_IMX_TEST_PUBLIC_KEY_X;
          y_attr \<leftarrow> TEE_InitRefAttribute TEE_ATTR_ECC_PUBLIC_VALUE_Y RA_IMX_TEST_PUBLIC_KEY_Y;
          (res, t) \<leftarrow> TEE_PopulateTransientObject C h [x_attr, y_attr, curve_attr] t;
          Some (res, ctx, t)
        })
   }"

definition generate_ecdsa_keypair ::
    "env \<Rightarrow> ra_context_verifier \<Rightarrow> 'a tee_scheme \<Rightarrow> (TEE_Result \<times> ra_context_verifier \<times> 'a tee_scheme) option" where
  "generate_ecdsa_keypair C ctx t = do {
     (res, h, t) \<leftarrow> generate_p256_keypair C TEE_TYPE_ECDSA_KEYPAIR t;
     (case h of
        None \<Rightarrow> Some (res, ctx, t)
      | Some h \<Rightarrow> do {
          let ctx = ctx\<lparr>v_ecdsa_local_keypair_handle := h\<rparr>;
          if res \<noteq> TEE_SUCCESS then Some (res, ctx, t)
          else do {
            (res, pk) \<leftarrow> extract_public_key C h ((m1_ecdsa (v_msg1 ctx))\<lparr>x_size := 32, y_size := 32\<rparr>) t;
            Some (res, ctx\<lparr>v_msg1 := (v_msg1 ctx)\<lparr>m1_ecdsa := pk\<rparr>\<rparr>, t)
          }
        })
   }"

definition handle_msg0 ::
    "env \<Rightarrow> ra_context_verifier \<Rightarrow> bytes \<Rightarrow> 'a tee_scheme \<Rightarrow> (TEE_Result \<times> ra_context_verifier \<times> 'a tee_scheme) option" where
  "handle_msg0 C ctx buffer t = do {
     (res, ctx, t) \<leftarrow> verifier_generate_ecdh_keypair C ctx t;
     if res \<noteq> TEE_SUCCESS then Some (res, ctx, t)
     else case store_msg0 ctx buffer of (res, ctx) \<Rightarrow>
       if res \<noteq> TEE_SUCCESS then Some (res, ctx, t)
       else do {
         (res, ctx, t) \<leftarrow> populate_attester_key C ctx t;
         if res \<noteq> TEE_SUCCESS then Some (res, ctx, t)
         else do {
           (res, ctx, t) \<leftarrow> verifier_derive_shared_key C ctx t;
           if res \<noteq> TEE_SUCCESS then Some (res, ctx, t)
           else do {
             (res, k, t) \<leftarrow> derive_shared_mac_key C (v_ecdh_shared_key_derivation_key ctx) RA_SHARED_MAC_DATA t;
             let ctx = (case k of None \<Rightarrow> ctx | Some k \<Rightarrow> ctx\<lparr>v_ecdh_shared_mac_key := k\<rparr>);
             if res \<noteq> TEE_SUCCESS then Some (res, ctx, t)
             else do {
               (res, k, t) \<leftarrow> derive_shared_mac_key C (v_ecdh_shared_key_derivation_key ctx) RA_SHARED_SESSION_DATA t;
               let ctx = (case k of None \<Rightarrow> ctx | Some k \<Rightarrow> ctx\<lparr>v_ecdh_shared_session_key := k\<rparr>);
               Some (res, ctx, t)
             }
           }
         }
       }
   }"

text \<open>The result, the context, the buffer and the size that is written on success only.\<close>

definition prepare_msg1 ::
    "env \<Rightarrow> ra_context_verifier \<Rightarrow> bytes \<Rightarrow> 'a tee_scheme \<Rightarrow> (TEE_Result \<times> ra_context_verifier \<times> bytes \<times> nat option \<times> 'a tee_scheme) option" where
  "prepare_msg1 C ctx buffer t =
     (if length buffer < sizeof_msg1_t then Some (TEE_ERROR_SHORT_BUFFER, ctx, buffer, None, t)
      else do {
        (res, ctx, t) \<leftarrow> append_ecdh_public_keys_signature C ctx t;
        if res \<noteq> TEE_SUCCESS then Some (res, ctx, buffer, None, t)
        else do {
          (res, ctx, t) \<leftarrow> append_mac C ctx t;
          if res \<noteq> TEE_SUCCESS then Some (res, ctx, buffer, None, t)
          else do {
            buffer \<leftarrow> wr buffer 0 (msg1_bytes (v_msg1 ctx));
            Some (TEE_SUCCESS, ctx, buffer, Some sizeof_msg1_t, t)
          }
        }
      })"

definition handle_msg2 ::
    "env \<Rightarrow> ra_context_verifier \<Rightarrow> bytes \<Rightarrow> 'a tee_scheme \<Rightarrow> (TEE_Result \<times> ra_context_verifier \<times> 'a tee_scheme) option" where
  "handle_msg2 C ctx buffer t =
     (case store_msg2 (ctx\<lparr>is_quote_valid := False\<rparr>) buffer of (res, ctx) \<Rightarrow>
        if res \<noteq> TEE_SUCCESS then Some (res, ctx, t)
        else do {
          (res, t) \<leftarrow> verify_mac_msg2 C ctx t;
          if res \<noteq> TEE_SUCCESS then Some (res, ctx, t)
          else do {
            res \<leftarrow> verify_public_key_msg2_matches_msg0 ctx;
            if res \<noteq> TEE_SUCCESS then Some (res, ctx, t)
            else do {
              (res, ctx, t) \<leftarrow> verify_quote_signature C ctx t;
              if res \<noteq> TEE_SUCCESS then Some (res, ctx, t)
              else do { (res, t) \<leftarrow> verify_anchor C ctx t; Some (res, ctx, t) }
            }
          }
        })"

definition prepare_msg3 ::
    "env \<Rightarrow> ra_context_verifier \<Rightarrow> bytes \<Rightarrow> bytes option \<Rightarrow> 'a tee_scheme \<Rightarrow>
     (TEE_Result \<times> ra_context_verifier \<times> bytes \<times> 'a tee_scheme) option" where
  "prepare_msg3 C ctx buffer data t =
     (case verifier_allocate_msg3 C ctx (length buffer) t of (res, ctx, t) \<Rightarrow>
        if res \<noteq> TEE_SUCCESS then Some (res, ctx, buffer, t)
        else do {
          (res, buffer, t) \<leftarrow> encrypt_msg3 C ctx buffer data t;
          if res \<noteq> TEE_SUCCESS then Some (res, ctx, buffer, t)
          else case free_msg3 ctx of (res, ctx) \<Rightarrow> Some (res, ctx, buffer, t)
        })"

definition dispose_ra_context :: "ra_context_verifier \<Rightarrow> 'a tee_scheme \<Rightarrow> (TEE_Result \<times> 'a tee_scheme) option" where
  "dispose_ra_context ctx t = do {
     t \<leftarrow> TEE_FreeTransientObject (v_ecdsa_attester_public_key_handle ctx) t;
     t \<leftarrow> TEE_FreeTransientObject (v_ecdh_attester_public_key_handle ctx) t;
     t \<leftarrow> TEE_FreeTransientObject (v_ecdsa_local_keypair_handle ctx) t;
     t \<leftarrow> TEE_FreeTransientObject (v_ecdh_local_keypair_handle ctx) t;
     t \<leftarrow> TEE_FreeTransientObject (v_ecdh_shared_key_derivation_key ctx) t;
     t \<leftarrow> TEE_FreeTransientObject (v_ecdh_shared_mac_key ctx) t;
     t \<leftarrow> TEE_FreeTransientObject (v_ecdh_shared_session_key ctx) t;
     Some (TEE_SUCCESS, t)
   }"

section \<open>The trusted application\<close>

text \<open>The entry points of \<^verbatim>\<open>main.c\<close>. The context is static: it outlives a session, and closing a session leaves the handles
  it freed in place.\<close>

abbreviation (input) VERIFIER_COMMAND_BOOTSTRAP_SECRET :: nat where "VERIFIER_COMMAND_BOOTSTRAP_SECRET \<equiv> 0"
abbreviation (input) VERIFIER_COMMAND_HANDLE_MSG_0 :: nat where "VERIFIER_COMMAND_HANDLE_MSG_0 \<equiv> 1"
abbreviation (input) VERIFIER_COMMAND_PREPARE_MSG_1 :: nat where "VERIFIER_COMMAND_PREPARE_MSG_1 \<equiv> 2"
abbreviation (input) VERIFIER_COMMAND_HANDLE_MSG_2 :: nat where "VERIFIER_COMMAND_HANDLE_MSG_2 \<equiv> 3"
abbreviation (input) VERIFIER_COMMAND_PREPARE_MSG_3 :: nat where "VERIFIER_COMMAND_PREPARE_MSG_3 \<equiv> 4"

definition TA_OpenSessionEntryPoint ::
    "env \<Rightarrow> tee_param list \<Rightarrow> ra_context_verifier \<Rightarrow> 'a tee_scheme \<Rightarrow> (TEE_Result \<times> ra_context_verifier \<times> 'a tee_scheme) option" where
  "TA_OpenSessionEntryPoint C params ctx t =
     (if params \<noteq> [PARAM_NONE, PARAM_NONE, PARAM_NONE, PARAM_NONE] then Some (TEE_ERROR_BAD_PARAMETERS, ctx, t)
      else do {
        (res, ctx, t) \<leftarrow> import_attester_attestation_key C ctx t;
        if res \<noteq> TEE_SUCCESS then Some (res, ctx, t) else generate_ecdsa_keypair C ctx t
      })"

definition TA_CloseSessionEntryPoint :: "ra_context_verifier \<Rightarrow> 'a tee_scheme \<Rightarrow> 'a tee_scheme option" where
  "TA_CloseSessionEntryPoint ctx t = do { (_, t) \<leftarrow> dispose_ra_context ctx t; Some t }"

definition TA_ConfigureCustomSecret ::
    "env \<Rightarrow> ra_context_verifier \<Rightarrow> bytes \<Rightarrow> 'a tee_scheme \<Rightarrow> (TEE_Result \<times> ra_context_verifier \<times> 'a tee_scheme) option" where
  "TA_ConfigureCustomSecret C ctx secret t =
     (case alloc C t of (a, t) \<Rightarrow> do {
        require (a \<noteq> 0 \<or> secret = []);
        Some (TEE_SUCCESS, ctx\<lparr>v_secret_size := length secret, v_secret := (if a = 0 then None else Some secret)\<rparr>, t)
      })"

text \<open>The buffer of the first parameter, when the caller passes it for output, holds \<open>shm\<close> before the call; \<open>junk\<close> is the value of
  the variable that \<^verbatim>\<open>prepare_msg1\<close> does not assign when it fails. The result, the parameters, the context and the state.\<close>

definition TA_InvokeCommandEntryPoint ::
    "env \<Rightarrow> nat \<Rightarrow> bytes \<Rightarrow> nat \<Rightarrow> tee_param list \<Rightarrow> ra_context_verifier \<Rightarrow> 'a tee_scheme \<Rightarrow>
     (TEE_Result \<times> out_param list \<times> ra_context_verifier \<times> 'a tee_scheme) option" where
  "TA_InvokeCommandEntryPoint C junk shm cmd_id params ctx t =
     (if cmd_id = VERIFIER_COMMAND_BOOTSTRAP_SECRET
      then (case params of
              [MEMREF_INPUT secret, PARAM_NONE, PARAM_NONE, PARAM_NONE] \<Rightarrow> do {
                (res, ctx, t) \<leftarrow> TA_ConfigureCustomSecret C ctx secret t;
                Some (res, [], ctx, t)
              }
            | _ \<Rightarrow> Some (TEE_ERROR_BAD_PARAMETERS, [], ctx, t))
      else if cmd_id = VERIFIER_COMMAND_HANDLE_MSG_0
      then (case params of
              [MEMREF_INPUT buffer, PARAM_NONE, PARAM_NONE, PARAM_NONE] \<Rightarrow> do {
                (res, ctx, t) \<leftarrow> handle_msg0 C ctx buffer t;
                Some (res, [], ctx, t)
              }
            | _ \<Rightarrow> Some (TEE_ERROR_BAD_PARAMETERS, [], ctx, t))
      else if cmd_id = VERIFIER_COMMAND_PREPARE_MSG_1
      then (case params of
              [MEMREF_OUTPUT n, VALUE_OUTPUT, PARAM_NONE, PARAM_NONE] \<Rightarrow> do {
                (res, ctx, buffer, msg1_size, t) \<leftarrow> prepare_msg1 C ctx (take n shm) t;
                Some (res, [OUT_MEMREF n buffer, OUT_VALUE (case msg1_size of None \<Rightarrow> junk | Some k \<Rightarrow> k) 0, OUT_NONE, OUT_NONE],
                      ctx, t)
              }
            | _ \<Rightarrow> Some (TEE_ERROR_BAD_PARAMETERS, [], ctx, t))
      else if cmd_id = VERIFIER_COMMAND_HANDLE_MSG_2
      then (case params of
              [MEMREF_INPUT buffer, VALUE_OUTPUT, MEMREF_OUTPUT _, PARAM_NONE] \<Rightarrow> do {
                (res, ctx, t) \<leftarrow> handle_msg2 C ctx buffer t;
                Some (res, [OUT_NONE, OUT_VALUE (if res = TEE_SUCCESS \<and> is_quote_valid ctx then 1 else 0) 0, OUT_NONE, OUT_NONE],
                      ctx, t)
              }
            | _ \<Rightarrow> Some (TEE_ERROR_BAD_PARAMETERS, [], ctx, t))
      else if cmd_id = VERIFIER_COMMAND_PREPARE_MSG_3
      then (case params of
              [MEMREF_OUTPUT n, MEMREF_OUTPUT _, PARAM_NONE, PARAM_NONE] \<Rightarrow> do {
                (res, ctx, buffer, t) \<leftarrow> prepare_msg3 C ctx (take n shm) (v_secret ctx) t;
                Some (res, [OUT_MEMREF n buffer, OUT_NONE, OUT_NONE, OUT_NONE], ctx, t)
              }
            | _ \<Rightarrow> Some (TEE_ERROR_BAD_PARAMETERS, [], ctx, t))
      else Some (TEE_ERROR_BAD_PARAMETERS, [], ctx, t))"

section \<open>Runs\<close>

lemma import_attestation_run:
  assumes "ready C" "wf_tee t"
  obtains h t' where "import_attester_attestation_key C ctx t = Some (TEE_SUCCESS, ctx\<lparr>v_ecdsa_attester_public_key_handle := h\<rparr>, t')"
    "tee_ext t t'"
    "objs t' h = Some (p256_public TEE_TYPE_ECDSA_PUBLIC_KEY (bn_of_bytes RA_IMX_TEST_PUBLIC_KEY_X) (bn_of_bytes RA_IMX_TEST_PUBLIC_KEY_Y))"
proof -
  have l: "length RA_IMX_TEST_PUBLIC_KEY_X = 32" "length RA_IMX_TEST_PUBLIC_KEY_Y = 32"
    by (simp_all add: RA_IMX_TEST_PUBLIC_KEY_X_def RA_IMX_TEST_PUBLIC_KEY_Y_def)
  let ?h = "Suc (tick t)"
  let ?t = "t\<lparr>tick := 5 + tick t, objs := (objs t)(?h \<mapsto>
      p256_public TEE_TYPE_ECDSA_PUBLIC_KEY (bn_of_bytes RA_IMX_TEST_PUBLIC_KEY_X) (bn_of_bytes RA_IMX_TEST_PUBLIC_KEY_Y))\<rparr>"
  have "import_attester_attestation_key C ctx t = Some (TEE_SUCCESS, ctx\<lparr>v_ecdsa_attester_public_key_handle := ?h\<rparr>, ?t)"
    using assms l
    by (simp add: import_attester_attestation_key_def api_simps tee_obj_add_def TEE_InitRefAttribute_def
      TEE_InitValueAttribute_def)
  moreover have "tee_ext t ?t" by (rule tee_extI) (simp_all add: assms(2))
  ultimately show ?thesis by (rule that) simp
qed

lemma generate_ecdsa_run:
  assumes "ready C" "ecc_ok (e_prims C)" "wf_tee t" "wf_msg1 (v_msg1 ctx)"
  obtains d x y h pk t' where "p256_pair (e_prims C) (d, x, y)" "tee_ext t t'"
    "generate_ecdsa_keypair C ctx t =
      Some (TEE_SUCCESS, ctx\<lparr>v_ecdsa_local_keypair_handle := h, v_msg1 := (v_msg1 ctx)\<lparr>m1_ecdsa := pk\<rparr>\<rparr>, t')"
    "objs t' h = Some (p256_keypair TEE_TYPE_ECDSA_KEYPAIR d x y)" "pub_is x y pk"
proof -
  obtain d x y h t' where k: "p256_pair (e_prims C) (d, x, y)" "tee_ext t t'"
    "generate_p256_keypair C TEE_TYPE_ECDSA_KEYPAIR t = Some (TEE_SUCCESS, Some h, t')"
    "objs t' h = Some (p256_keypair TEE_TYPE_ECDSA_KEYPAIR d x y)"
    by (rule generate_p256_keypair_run [OF assms(1-3), where ty = TEE_TYPE_ECDSA_KEYPAIR]) (simp, rule that)
  let ?pk = "(m1_ecdsa (v_msg1 ctx))\<lparr>x_size := 32, y_size := 32\<rparr>"
  obtain pk where pk: "extract_public_key C h ?pk t' = Some (TEE_SUCCESS, pk)" "pub_is x y pk"
    using extract_public_key_run [OF k(4), of ?pk C] ecc_ok_bounds [OF assms(2) k(1)] assms(4)
    by (auto simp: wf_msg1_def wf_pubkey_def)
  have "generate_ecdsa_keypair C ctx t =
      Some (TEE_SUCCESS, ctx\<lparr>v_ecdsa_local_keypair_handle := h, v_msg1 := (v_msg1 ctx)\<lparr>m1_ecdsa := pk\<rparr>\<rparr>, t')"
    using k(3) pk(1) by (simp add: generate_ecdsa_keypair_def)
  with k(1,2) show ?thesis using k(4) pk(2) by (rule that)
qed

lemma verifier_ecdh_run:
  assumes "ready C" "ecc_ok (e_prims C)" "wf_tee t" "wf_msg1 (v_msg1 ctx)"
  obtains d x y h pk t' where "p256_pair (e_prims C) (d, x, y)" "tee_ext t t'"
    "verifier_generate_ecdh_keypair C ctx t =
      Some (TEE_SUCCESS, ctx\<lparr>v_ecdh_local_keypair_handle := h, v_msg1 := (v_msg1 ctx)\<lparr>m1_ecdh := pk\<rparr>\<rparr>, t')"
    "objs t' h = Some (p256_keypair TEE_TYPE_ECDH_KEYPAIR d x y)" "pub_is x y pk"
proof -
  obtain d x y h t' where k: "p256_pair (e_prims C) (d, x, y)" "tee_ext t t'"
    "generate_p256_keypair C TEE_TYPE_ECDH_KEYPAIR t = Some (TEE_SUCCESS, Some h, t')"
    "objs t' h = Some (p256_keypair TEE_TYPE_ECDH_KEYPAIR d x y)"
    by (rule generate_p256_keypair_run [OF assms(1-3), where ty = TEE_TYPE_ECDH_KEYPAIR]) (simp, rule that)
  let ?pk = "(m1_ecdh (v_msg1 ctx))\<lparr>x_size := 32, y_size := 32\<rparr>"
  obtain pk where pk: "extract_public_key C h ?pk t' = Some (TEE_SUCCESS, pk)" "pub_is x y pk"
    using extract_public_key_run [OF k(4), of ?pk C] ecc_ok_bounds [OF assms(2) k(1)] assms(4)
    by (auto simp: wf_msg1_def wf_pubkey_def)
  have "verifier_generate_ecdh_keypair C ctx t =
      Some (TEE_SUCCESS, ctx\<lparr>v_ecdh_local_keypair_handle := h, v_msg1 := (v_msg1 ctx)\<lparr>m1_ecdh := pk\<rparr>\<rparr>, t')"
    using k(3) pk(1) by (simp add: verifier_generate_ecdh_keypair_def)
  with k(1,2) show ?thesis using k(4) pk(2) by (rule that)
qed

lemma populate_attester_run:
  assumes "ready C" "wf_tee t" "x_of (v_msg0 ctx) = Some x" "y_of (v_msg0 ctx) = Some y" "length x \<le> 32" "length y \<le> 32"
  obtains h t' where "populate_attester_key C ctx t = Some (TEE_SUCCESS, ctx\<lparr>v_ecdh_attester_public_key_handle := h\<rparr>, t')"
    "tee_ext t t'"
proof -
  let ?h = "Suc (tick t)"
  let ?t = "t\<lparr>tick := 5 + tick t, objs := (objs t)(?h \<mapsto>
      p256_public TEE_TYPE_ECDH_PUBLIC_KEY (bn_of_bytes x) (bn_of_bytes y))\<rparr>"
  have "populate_attester_key C ctx t = Some (TEE_SUCCESS, ctx\<lparr>v_ecdh_attester_public_key_handle := ?h\<rparr>, ?t)"
    using assms
    by (simp add: populate_attester_key_def api_simps tee_obj_add_def TEE_InitRefAttribute_def TEE_InitValueAttribute_def)
  moreover have "tee_ext t ?t" by (rule tee_extI) (simp_all add: assms(2))
  ultimately show ?thesis by (rule that)
qed

text \<open>The keys the verifier makes of a first message: its ephemeral key is in the message it will send, and the keys of the session
  come from the secret it shares with the attester.\<close>

definition agreed ::
    "env \<Rightarrow> ra_context_verifier \<Rightarrow> pubkey \<Rightarrow> nat \<times> nat \<Rightarrow> bytes \<Rightarrow> ra_context_verifier \<Rightarrow> 'a tee_scheme \<Rightarrow> bool" where
  "agreed C ctx pk p s ctx' t' \<longleftrightarrow>
     v_msg0 ctx' = pk \<and> pub_is (fst p) (snd p) (m1_ecdh (v_msg1 ctx')) \<and> m1_ecdsa (v_msg1 ctx') = m1_ecdsa (v_msg1 ctx) \<and>
     wf_msg1 (v_msg1 ctx') \<and> v_secret ctx' = v_secret ctx \<and> is_quote_valid ctx' = is_quote_valid ctx \<and>
     v_ecdsa_local_keypair_handle ctx' = v_ecdsa_local_keypair_handle ctx \<and>
     v_ecdsa_attester_public_key_handle ctx' = v_ecdsa_attester_public_key_handle ctx \<and>
     objs t' (v_ecdh_shared_mac_key ctx') = Some (aes_key (mac_key_of C s)) \<and>
     objs t' (v_ecdh_shared_session_key ctx') = Some (aes_key (session_key_of C s))"

lemma handle_msg0_cases:
  assumes C: "ready C" "crypto_ok C" "ecc_ok (e_prims C)" and t: "wf_tee t" and m: "wf_msg1 (v_msg1 ctx)"
    and b: "sizeof_msg0_t \<le> length buffer" "pubkey_at (take sizeof_msg0_t buffer) = pk" "x_of pk = Some px" "y_of pk = Some py"
  obtains d x y where "p256_pair (e_prims C) (d, x, y)"
    "p_ecc_shared_secret (e_prims C) TEE_ECC_CURVE_NIST_P256 d (bn_of_bytes px, bn_of_bytes py) = None \<Longrightarrow> handle_msg0 C ctx buffer t = None"
    "\<And>s. p_ecc_shared_secret (e_prims C) TEE_ECC_CURVE_NIST_P256 d (bn_of_bytes px, bn_of_bytes py) = Some s \<Longrightarrow> length s \<le> 32 \<Longrightarrow>
      \<exists>ctx' t'. handle_msg0 C ctx buffer t = Some (TEE_SUCCESS, ctx', t') \<and> tee_ext t t' \<and> agreed C ctx pk (x, y) s ctx' t'"
proof -
  obtain d x y h k t1 where k: "p256_pair (e_prims C) (d, x, y)" "tee_ext t t1"
    "verifier_generate_ecdh_keypair C ctx t =
      Some (TEE_SUCCESS, ctx\<lparr>v_ecdh_local_keypair_handle := h, v_msg1 := (v_msg1 ctx)\<lparr>m1_ecdh := k\<rparr>\<rparr>, t1)"
    "objs t1 h = Some (p256_keypair TEE_TYPE_ECDH_KEYPAIR d x y)" "pub_is x y k"
    by (rule verifier_ecdh_run [OF C(1,3) t m])
  let ?c1 = "ctx\<lparr>v_ecdh_local_keypair_handle := h, v_msg1 := (v_msg1 ctx)\<lparr>m1_ecdh := k\<rparr>\<rparr>"
  let ?c2 = "?c1\<lparr>v_msg0 := pk\<rparr>"
  have wk: "wf_pubkey pk" using wf_pubkey_at [of "take 72 buffer"] b(1,2) by simp
  have s: "store_msg0 ?c1 buffer = (TEE_SUCCESS, ?c2)" using b by (simp add: store_msg0_def)
  note l = coordinate_length [OF wk]
  have l': "length px \<le> 32" "length py \<le> 32" "length px \<le> 66" "length py \<le> 66" using l(1) [OF b(3)] l(2) [OF b(4)] by simp_all
  note w1 = tee_extD(1) [OF k(2)]
  obtain h2 t2 where p: "populate_attester_key C ?c2 t1 = Some (TEE_SUCCESS, ?c2\<lparr>v_ecdh_attester_public_key_handle := h2\<rparr>, t2)"
    "tee_ext t1 t2"
    by (rule populate_attester_run [OF C(1) w1, of ?c2 px py]) (use b l' in simp_all)
  let ?c3 = "?c2\<lparr>v_ecdh_attester_public_key_handle := h2\<rparr>"
  note w2 = tee_extD(1) [OF p(2)]
  note o2 = tee_ext_obj(1) [OF p(2) w1 k(4)]
  have d: "verifier_derive_shared_key C ?c3 t2 = do {
      (res, kdk, t) \<leftarrow> derive_shared_key C h [RefAttr TEE_ATTR_ECC_PUBLIC_VALUE_X px, RefAttr TEE_ATTR_ECC_PUBLIC_VALUE_Y py] t2;
      Some (res, (case kdk of None \<Rightarrow> ?c3 | Some k \<Rightarrow> ?c3\<lparr>v_ecdh_shared_key_derivation_key := k\<rparr>), t) }"
    using b by (simp add: verifier_derive_shared_key_def TEE_InitRefAttribute_def)
  show ?thesis
  proof (rule that [OF k(1)])
    assume "p_ecc_shared_secret (e_prims C) TEE_ECC_CURVE_NIST_P256 d (bn_of_bytes px, bn_of_bytes py) = None"
    from derive_shared_key_panics [OF C(1,2) w2 o2 l'(3,4) this] show "handle_msg0 C ctx buffer t = None"
      using k(3) s p(1) d by (simp add: handle_msg0_def)
  next
    fix s assume sec: "p_ecc_shared_secret (e_prims C) TEE_ECC_CURVE_NIST_P256 d (bn_of_bytes px, bn_of_bytes py) = Some s" "length s \<le> 32"
    obtain kdk t3 where d3: "derive_shared_key C h [RefAttr TEE_ATTR_ECC_PUBLIC_VALUE_X px, RefAttr TEE_ATTR_ECC_PUBLIC_VALUE_Y py] t2 =
        Some (TEE_SUCCESS, Some kdk, t3)" "tee_ext t2 t3" "objs t3 kdk = Some (aes_key (kdk_of C s))"
      using derive_shared_key_run [OF C(1,2) w2 o2 l'(3,4) sec] by blast
    note w3 = tee_extD(1) [OF d3(2)]
    obtain k3 t4 where t4: "derive_shared_mac_key C kdk RA_SHARED_MAC_DATA t3 = Some (TEE_SUCCESS, Some k3, t4)" "tee_ext t3 t4"
      "objs t4 k3 = Some (aes_key (mac_key_of C s))"
      using derive_shared_mac_key_run [OF C(1,2) w3 d3(3), of RA_SHARED_MAC_DATA] C(2) by (auto simp: mac_key_of_def)
    note w4 = tee_extD(1) [OF t4(2)]
    obtain k4 t5 where t5: "derive_shared_mac_key C kdk RA_SHARED_SESSION_DATA t4 = Some (TEE_SUCCESS, Some k4, t5)" "tee_ext t4 t5"
      "objs t5 k4 = Some (aes_key (session_key_of C s))"
      using derive_shared_mac_key_run [OF C(1,2) w4 tee_ext_obj(1) [OF t4(2) w3 d3(3)], of RA_SHARED_SESSION_DATA] C(2)
      by (auto simp: session_key_of_def)
    let ?c = "?c3\<lparr>v_ecdh_shared_key_derivation_key := kdk, v_ecdh_shared_mac_key := k3, v_ecdh_shared_session_key := k4\<rparr>"
    have run: "handle_msg0 C ctx buffer t = Some (TEE_SUCCESS, ?c, t5)"
      using k(3) s p(1) d d3(1) t4(1) t5(1) by (simp add: handle_msg0_def)
    have ext: "tee_ext t t5" using k(2) p(2) d3(2) t4(2) t5(2) by (blast intro: tee_ext_trans)
    have "agreed C ctx pk (x, y) s ?c t5"
      using m k(5) t5(3) tee_ext_obj(1) [OF t5(2) w4 t4(3)] by (simp add: agreed_def wf_msg1_def pub_is_def)
    with run ext show "\<exists>ctx' t'. handle_msg0 C ctx buffer t = Some (TEE_SUCCESS, ctx', t') \<and> tee_ext t t' \<and> agreed C ctx pk (x, y) s ctx' t'"
      by blast
  qed
qed

lemma handle_msg0_run:
  assumes C: "ready C" "crypto_ok C" "ecc_ok (e_prims C)" and t: "wf_tee t" and m: "wf_msg1 (v_msg1 ctx)"
    and b: "sizeof_msg0_t \<le> length buffer" "pubkey_at (take sizeof_msg0_t buffer) = pk" "x_of pk = Some px" "y_of pk = Some py"
    and ok: "\<And>d x y. p256_pair (e_prims C) (d, x, y) \<Longrightarrow>
      \<exists>s. p_ecc_shared_secret (e_prims C) TEE_ECC_CURVE_NIST_P256 d (bn_of_bytes px, bn_of_bytes py) = Some s \<and> length s \<le> 32"
  obtains d x y s ctx' t' where "handle_msg0 C ctx buffer t = Some (TEE_SUCCESS, ctx', t')" "tee_ext t t'"
    "p256_pair (e_prims C) (d, x, y)"
    "p_ecc_shared_secret (e_prims C) TEE_ECC_CURVE_NIST_P256 d (bn_of_bytes px, bn_of_bytes py) = Some s"
    "agreed C ctx pk (x, y) s ctx' t'"
  using ok by (rule_tac handle_msg0_cases [OF C t m b]) blast

text \<open>A first message that was accepted could be read, and there is a shared secret.\<close>

lemma handle_msg0_success:
  assumes C: "ready C" "crypto_ok C" "ecc_ok (e_prims C)" "secrets_fit C" and t: "wf_tee t" and m: "wf_msg1 (v_msg1 ctx)"
    and run: "handle_msg0 C ctx buffer t = Some (TEE_SUCCESS, ctx', t')"
  obtains pk px py d x y s where "sizeof_msg0_t \<le> length buffer" "pubkey_at (take sizeof_msg0_t buffer) = pk"
    "x_of pk = Some px" "y_of pk = Some py" "p256_pair (e_prims C) (d, x, y)"
    "p_ecc_shared_secret (e_prims C) TEE_ECC_CURVE_NIST_P256 d (bn_of_bytes px, bn_of_bytes py) = Some s"
    "tee_ext t t'" "agreed C ctx pk (x, y) s ctx' t'"
proof -
  obtain d x y h k t1 where k: 
    "verifier_generate_ecdh_keypair C ctx t =
      Some (TEE_SUCCESS, ctx\<lparr>v_ecdh_local_keypair_handle := h, v_msg1 := (v_msg1 ctx)\<lparr>m1_ecdh := k\<rparr>\<rparr>, t1)"
    by (rule verifier_ecdh_run [OF C(1,3) t m])
  let ?pk = "pubkey_at (take sizeof_msg0_t buffer)"
  have l: "sizeof_msg0_t \<le> length buffer"
    using run by (rule_tac ccontr) (simp add: handle_msg0_def k store_msg0_def)
  then have "populate_attester_key C (ctx\<lparr>v_ecdh_local_keypair_handle := h, v_msg1 := (v_msg1 ctx)\<lparr>m1_ecdh := k\<rparr>, v_msg0 := ?pk\<rparr>) t1 \<noteq> None"
    using run by (rule_tac notI) (simp add: handle_msg0_def k store_msg0_def)
  then obtain px py where p: "x_of ?pk = Some px" "y_of ?pk = Some py"
    using C(1) by (auto simp: populate_attester_key_def api_simps TEE_InitValueAttribute_def split: Option.bind_splits sum.splits)
  obtain d x y where c: "p256_pair (e_prims C) (d, x, y)"
    "p_ecc_shared_secret (e_prims C) TEE_ECC_CURVE_NIST_P256 d (bn_of_bytes px, bn_of_bytes py) = None \<Longrightarrow> handle_msg0 C ctx buffer t = None"
    "\<And>s. p_ecc_shared_secret (e_prims C) TEE_ECC_CURVE_NIST_P256 d (bn_of_bytes px, bn_of_bytes py) = Some s \<Longrightarrow> length s \<le> 32 \<Longrightarrow>
      \<exists>ctx' t'. handle_msg0 C ctx buffer t = Some (TEE_SUCCESS, ctx', t') \<and> tee_ext t t' \<and> agreed C ctx ?pk (x, y) s ctx' t'"
    by (rule handle_msg0_cases [OF C(1-3) t m l refl p]) (rule that)
  obtain s where s: "p_ecc_shared_secret (e_prims C) TEE_ECC_CURVE_NIST_P256 d (bn_of_bytes px, bn_of_bytes py) = Some s"
    using c(2) run by (cases "p_ecc_shared_secret (e_prims C) TEE_ECC_CURVE_NIST_P256 d (bn_of_bytes px, bn_of_bytes py)") auto
  moreover have "length s \<le> 32" using C(4) s by (auto simp: secrets_fit_def)
  ultimately have "tee_ext t t' \<and> agreed C ctx ?pk (x, y) s ctx' t'" using c(3) run by fastforce
  with that [OF l refl p c(1) s] show ?thesis by blast
qed

lemma append_signature_run:
  assumes C: "ready C" "crypto_ok C" "ecc_ok (e_prims C)" and t: "wf_tee t"
    "objs t (v_ecdsa_local_keypair_handle ctx) = Some (p256_keypair TEE_TYPE_ECDSA_KEYPAIR d x y)"
    and p: "p256_pair (e_prims C) (d, x, y)" and m: "wf_msg1 (v_msg1 ctx)"
    and c: "x_of (m1_ecdh (v_msg1 ctx)) = Some vx" "y_of (m1_ecdh (v_msg1 ctx)) = Some vy" "x_of (v_msg0 ctx) = Some ax"
      "y_of (v_msg0 ctx) = Some ay"
  obtains sig t' where "append_ecdh_public_keys_signature C ctx t =
      Some (TEE_SUCCESS, ctx\<lparr>v_msg1 := (v_msg1 ctx)\<lparr>m1_ecdh_signature := sig\<rparr>\<rparr>, t')" "tee_ext t t'" "length sig = 64"
    "ecdsa_status C x y (sha256 C (vx @ vy @ ax @ ay)) sig = TEE_SUCCESS"
proof -
  have k: "0 < v_ecdsa_local_keypair_handle ctx" "v_ecdsa_local_keypair_handle ctx \<le> tick t" using wf_obj_bound t by blast+
  have l: "length (m1_ecdh_signature (v_msg1 ctx)) = 64" using m by (simp add: wf_msg1_def)
  obtain sig where sig: "p_ecc_sign_hash (e_prims C) TEE_ECC_CURVE_NIST_P256 d (sha256 C (vx @ vy @ ax @ ay))
      (e_entropy C (11 + tick t)) = Some sig" "length sig = 64"
    "p_ecc_verify_hash (e_prims C) TEE_ECC_CURVE_NIST_P256 (x, y) (sha256 C (vx @ vy @ ax @ ay)) sig = CRYPT_OK True"
    by (rule ecc_ok_sign [OF C(3) p])
  have "\<exists>t'. append_ecdh_public_keys_signature C ctx t =
      Some (TEE_SUCCESS, ctx\<lparr>v_msg1 := (v_msg1 ctx)\<lparr>m1_ecdh_signature := sig\<rparr>\<rparr>, t') \<and> tee_ext t t'"
    using C(1,2) t c k l sig(1,2)
    by (simp add: append_ecdh_public_keys_signature_def digest4_run api_simps wr_full) (rule tee_extI, simp_all)
  moreover have "ecdsa_status C x y (sha256 C (vx @ vy @ ax @ ay)) sig = TEE_SUCCESS"
    using sig(3) by (simp add: ecdsa_status_def convert_ltc_verify_status_def)
  ultimately show ?thesis using that sig(2) by blast
qed

lemma append_mac_run:
  assumes "ready C" "crypto_ok C" "wf_tee t" "objs t (v_ecdh_shared_mac_key ctx) = Some (aes_key k)" "length k = 16"
    "wf_msg1 (v_msg1 ctx)" "x_of (m1_ecdh (v_msg1 ctx)) = Some vx" "y_of (m1_ecdh (v_msg1 ctx)) = Some vy"
    "x_of (m1_ecdsa (v_msg1 ctx)) = Some sx" "y_of (m1_ecdsa (v_msg1 ctx)) = Some sy"
  obtains t' where "append_mac C ctx t =
      Some (TEE_SUCCESS, ctx\<lparr>v_msg1 := (v_msg1 ctx)\<lparr>m1_mac := cmac C k (vx @ vy @ sx @ sy @ m1_ecdh_signature (v_msg1 ctx))\<rparr>\<rparr>, t')"
    "tee_ext t t'"
proof -
  have k: "0 < v_ecdh_shared_mac_key ctx" "v_ecdh_shared_mac_key ctx \<le> tick t" using wf_obj_bound assms(3,4) by blast+
  have mac: "length (m1_mac (v_msg1 ctx)) = 16" using assms(6) by (simp add: wf_msg1_def)
  have "\<exists>t'. append_mac C ctx t =
      Some (TEE_SUCCESS, ctx\<lparr>v_msg1 := (v_msg1 ctx)\<lparr>m1_mac := cmac C k (vx @ vy @ sx @ sy @ m1_ecdh_signature (v_msg1 ctx))\<rparr>\<rparr>, t') \<and>
    tee_ext t t'"
    using assms(1-5,7-10) k mac
    by (simp add: append_mac_def api_simps tee_obj_add_def wr_full) (rule tee_extI, simp_all)
  then show ?thesis using that by blast
qed

lemma prepare_msg1_run:
  assumes C: "ready C" "crypto_ok C" "ecc_ok (e_prims C)" and t: "wf_tee t"
    "objs t (v_ecdsa_local_keypair_handle ctx) = Some (p256_keypair TEE_TYPE_ECDSA_KEYPAIR d x y)"
    "objs t (v_ecdh_shared_mac_key ctx) = Some (aes_key k)" "length k = 16"
    and p: "p256_pair (e_prims C) (d, x, y)" and m: "wf_msg1 (v_msg1 ctx)"
    and c: "x_of (m1_ecdh (v_msg1 ctx)) = Some vx" "y_of (m1_ecdh (v_msg1 ctx)) = Some vy" "x_of (v_msg0 ctx) = Some ax"
      "y_of (v_msg0 ctx) = Some ay" "x_of (m1_ecdsa (v_msg1 ctx)) = Some sx" "y_of (m1_ecdsa (v_msg1 ctx)) = Some sy"
    and b: "sizeof_msg1_t \<le> length buffer"
  obtains m' t' where "prepare_msg1 C ctx buffer t =
      Some (TEE_SUCCESS, ctx\<lparr>v_msg1 := m'\<rparr>, msg1_bytes m' @ drop 224 buffer, Some 224, t')" "tee_ext t t'" "wf_msg1 m'"
    "m1_ecdh m' = m1_ecdh (v_msg1 ctx)" "m1_ecdsa m' = m1_ecdsa (v_msg1 ctx)"
    "ecdsa_status C x y (sha256 C (vx @ vy @ ax @ ay)) (m1_ecdh_signature m') = TEE_SUCCESS"
    "m1_mac m' = cmac C k (vx @ vy @ sx @ sy @ m1_ecdh_signature m')"
proof -
  obtain sig t1 where s: "append_ecdh_public_keys_signature C ctx t =
      Some (TEE_SUCCESS, ctx\<lparr>v_msg1 := (v_msg1 ctx)\<lparr>m1_ecdh_signature := sig\<rparr>\<rparr>, t1)" "tee_ext t t1" "length sig = 64"
    "ecdsa_status C x y (sha256 C (vx @ vy @ ax @ ay)) sig = TEE_SUCCESS"
    by (rule append_signature_run [OF C t(1,2) p m c(1-4)])
  let ?c1 = "ctx\<lparr>v_msg1 := (v_msg1 ctx)\<lparr>m1_ecdh_signature := sig\<rparr>\<rparr>"
  have o: "objs t1 (v_ecdh_shared_mac_key ?c1) = Some (aes_key k)" using tee_ext_obj(1) [OF s(2) t(1,3)] by simp
  have m1: "wf_msg1 (v_msg1 ?c1)" using m s(3) by (simp add: wf_msg1_def)
  let ?m = "(v_msg1 ctx)\<lparr>m1_ecdh_signature := sig, m1_mac := cmac C k (vx @ vy @ sx @ sy @ sig)\<rparr>"
  obtain t2 where t2: "append_mac C ?c1 t1 = Some (TEE_SUCCESS, ctx\<lparr>v_msg1 := ?m\<rparr>, t2)" "tee_ext t1 t2"
    by (rule append_mac_run [OF C(1,2) tee_extD(1) [OF s(2)] o t(4) m1]) (use c in simp_all)
  have w: "wf_msg1 ?m" using m1 C(2) by (simp add: wf_msg1_def)
  have "prepare_msg1 C ctx buffer t = Some (TEE_SUCCESS, ctx\<lparr>v_msg1 := ?m\<rparr>, msg1_bytes ?m @ drop 224 buffer, Some 224, t2)"
    using b s(1) t2(1) length_msg1_bytes [OF w] by (simp add: prepare_msg1_def wr_start)
  then show ?thesis by (rule that [OF _ tee_ext_trans [OF s(2) t2(2)] w]) (use s(4) in simp_all)
qed

lemma verify_mac_msg2_run:
  assumes "ready C" "crypto_ok C" "wf_tee t" "objs t (v_ecdh_shared_mac_key ctx) = Some (aes_key k)" "length k = 16"
    "wf_msg2 (v_msg2 ctx)" "x_of (m2_ecdh (v_msg2 ctx)) = Some x" "y_of (m2_ecdh (v_msg2 ctx)) = Some y"
  obtains t' where "tee_ext t t'" "verify_mac_msg2 C ctx t =
    Some (if m2_mac (v_msg2 ctx) = cmac C k (x @ y @ quote_bytes (m2_quote (v_msg2 ctx))) then TEE_SUCCESS
          else TEE_ERROR_MAC_INVALID, t')"
proof -
  have k: "0 < v_ecdh_shared_mac_key ctx" "v_ecdh_shared_mac_key ctx \<le> tick t" using wf_obj_bound assms(3,4) by blast+
  have mac: "length (m2_mac (v_msg2 ctx)) = 16" using assms(6) by (simp add: wf_msg2_def)
  have "\<exists>t'. verify_mac_msg2 C ctx t =
    Some (if m2_mac (v_msg2 ctx) = cmac C k (x @ y @ quote_bytes (m2_quote (v_msg2 ctx))) then TEE_SUCCESS
          else TEE_ERROR_MAC_INVALID, t') \<and> tee_ext t t'"
    using assms(1-5,7-8) k mac
    by (simp add: verify_mac_msg2_def api_simps tee_obj_add_def) (rule tee_extI, simp_all)
  then show ?thesis using that by blast
qed

lemma verify_anchor_run:
  assumes "ready C" "crypto_ok C" "wf_tee t" "x_of (v_msg0 ctx) = Some ax" "y_of (v_msg0 ctx) = Some ay"
    "x_of (m1_ecdh (v_msg1 ctx)) = Some vx" "y_of (m1_ecdh (v_msg1 ctx)) = Some vy"
  obtains t' where "tee_ext t t'" "verify_anchor C ctx t =
    Some (if q_anchor (m2_quote (v_msg2 ctx)) = sha256 C (ax @ ay @ vx @ vy) then TEE_SUCCESS else TEE_ERROR_SECURITY, t')"
proof (cases "q_anchor (m2_quote (v_msg2 ctx)) = sha256 C (ax @ ay @ vx @ vy)")
  case True
  have "\<exists>t'. verify_anchor C ctx t = Some (TEE_SUCCESS, t') \<and> tee_ext t t'"
    using assms True by (simp add: verify_anchor_def digest4_run api_simps tee_obj_add_def) (rule tee_extI, simp_all)
  then show ?thesis using that True by auto
next
  case False
  have "\<exists>t'. verify_anchor C ctx t = Some (TEE_ERROR_SECURITY, t') \<and> tee_ext t t'"
    using assms False by (simp add: verify_anchor_def digest4_run) (rule tee_extI, simp_all)
  then show ?thesis using that False by auto
qed

lemma quote_signature_run:
  assumes "ready C" "crypto_ok C" "wf_tee t" "wf_msg2 (v_msg2 ctx)"
    "objs t (v_ecdsa_attester_public_key_handle ctx) = Some (p256_public TEE_TYPE_ECDSA_PUBLIC_KEY kx ky)"
  obtains t' where "tee_ext t t'" "verify_quote_signature C ctx t =
    (let res = ecdsa_status C kx ky (sha256 C (quote_body (m2_quote (v_msg2 ctx)))) (q_signature (m2_quote (v_msg2 ctx)))
     in if res = TEE_ERROR_GENERIC then None
        else Some (res, if res = TEE_SUCCESS then ctx\<lparr>is_quote_valid := True\<rparr> else ctx, t'))"
proof -
  let ?q = "m2_quote (v_msg2 ctx)"
  have "length (q_signature ?q) = 64" using assms(4) by (simp add: wf_msg2_def wf_quote_def)
  then obtain t' where t': "tee_ext t t'"
    "verify_digest4 C (v_ecdsa_attester_public_key_handle ctx) (q_anchor ?q) (le32 (q_version ?q)) (q_claim_hash ?q)
       (q_attestation_key ?q) (q_signature ?q) (\<lambda>_. Some ()) t =
      (let digest = sha256 C (q_anchor ?q @ le32 (q_version ?q) @ q_claim_hash ?q @ q_attestation_key ?q);
           res = ecdsa_status C kx ky digest (q_signature ?q)
       in if res = TEE_ERROR_GENERIC then None
          else do { _ \<leftarrow> (if res = TEE_ERROR_SIGNATURE_INVALID then Some () else Some ()); Some (res, t') })"
    using verify_digest4_run [OF assms(1-3,5), of _ _ _ _ _ "\<lambda>_. Some ()"] by blast
  have "verify_quote_signature C ctx t =
    (let res = ecdsa_status C kx ky (sha256 C (quote_body ?q)) (q_signature ?q)
     in if res = TEE_ERROR_GENERIC then None
        else Some (res, if res = TEE_SUCCESS then ctx\<lparr>is_quote_valid := True\<rparr> else ctx, t'))"
    using t'(2) by (simp add: verify_quote_signature_def Let_def quote_body_def)
  with t'(1) show ?thesis by (rule that)
qed

text \<open>What the verifier requires of a second message: the code of the message under the session's key, the ephemeral key of the
  first message, the signature of the attestation key, and the anchor of the session.\<close>

definition msg2_mac_of :: "env \<Rightarrow> bytes \<Rightarrow> msg2_t \<Rightarrow> bytes \<times> bytes \<Rightarrow> bytes" where
  "msg2_mac_of C k m p = cmac C k (fst p @ snd p @ quote_bytes (m2_quote m))"

definition same_key :: "pubkey \<Rightarrow> pubkey \<Rightarrow> bool" where
  "same_key k k' \<longleftrightarrow> take (x_size k) (x_raw k) = take (x_size k) (x_raw k') \<and> take (y_size k) (y_raw k) = take (y_size k) (y_raw k')"

lemma key_match_run:
  assumes "wf_pubkey (v_msg0 ctx)" "wf_msg2 (v_msg2 ctx)" "x_of (v_msg0 ctx) = Some ax" "y_of (v_msg0 ctx) = Some ay"
  shows "verify_public_key_msg2_matches_msg0 ctx =
    Some (if same_key (v_msg0 ctx) (m2_ecdh (v_msg2 ctx)) then TEE_SUCCESS else TEE_ERROR_SECURITY)"
  using assms
  by (auto simp: verify_public_key_msg2_matches_msg0_def same_key_def wf_pubkey_def wf_msg2_def x_of_def y_of_def rd_def
    split: if_splits)

lemma handle_msg2_run:
  assumes C: "ready C" "crypto_ok C" and t: "wf_tee t" "objs t (v_ecdh_shared_mac_key ctx) = Some (aes_key k)" "length k = 16"
    "objs t (v_ecdsa_attester_public_key_handle ctx) = Some (p256_public TEE_TYPE_ECDSA_PUBLIC_KEY kx ky)"
    and c: "wf_pubkey (v_msg0 ctx)" "x_of (v_msg0 ctx) = Some ax" "y_of (v_msg0 ctx) = Some ay"
      "x_of (m1_ecdh (v_msg1 ctx)) = Some vx" "y_of (m1_ecdh (v_msg1 ctx)) = Some vy"
    and m: "sizeof_msg2_t \<le> length buffer" "msg2_at (take sizeof_msg2_t buffer) = m" "x_of (m2_ecdh m) = Some mx" "y_of (m2_ecdh m) = Some my"
    and st: "st = ecdsa_status C kx ky (sha256 C (quote_body (m2_quote m))) (q_signature (m2_quote m))"
  obtains t' where "tee_ext t t'" "handle_msg2 C ctx buffer t =
    (let c0 = ctx\<lparr>is_quote_valid := False, v_msg2 := m\<rparr>; c1 = ctx\<lparr>v_msg2 := m, is_quote_valid := True\<rparr>
     in if m2_mac m \<noteq> msg2_mac_of C k m (mx, my) then Some (TEE_ERROR_MAC_INVALID, c0, t')
        else if \<not> same_key (v_msg0 ctx) (m2_ecdh m) then Some (TEE_ERROR_SECURITY, c0, t')
        else if st = TEE_ERROR_GENERIC then None
        else if st \<noteq> TEE_SUCCESS then Some (st, c0, t')
        else if q_anchor (m2_quote m) \<noteq> sha256 C (ax @ ay @ vx @ vy) then Some (TEE_ERROR_SECURITY, c1, t')
        else Some (TEE_SUCCESS, c1, t'))"
proof -
  let ?c0 = "ctx\<lparr>is_quote_valid := False, v_msg2 := m\<rparr>"
  have w: "wf_msg2 m" using wf_msg2_at [of "take 288 buffer"] m(1,2) by simp
  have s: "store_msg2 (ctx\<lparr>is_quote_valid := False\<rparr>) buffer = (TEE_SUCCESS, ?c0)" using m(1,2) by (simp add: store_msg2_def)
  obtain t1 where t1: "tee_ext t t1" "verify_mac_msg2 C ?c0 t =
      Some (if m2_mac m = msg2_mac_of C k m (mx, my) then TEE_SUCCESS else TEE_ERROR_MAC_INVALID, t1)"
    by (rule verify_mac_msg2_run [OF C t(1), of ?c0 k mx my])
      (use t(2,3) w m(3,4) in simp_all, simp add: msg2_mac_of_def)
  note w1 = tee_extD(1) [OF t1(1)]
  have k: "verify_public_key_msg2_matches_msg0 ?c0 =
      Some (if same_key (v_msg0 ctx) (m2_ecdh m) then TEE_SUCCESS else TEE_ERROR_SECURITY)"
    using key_match_run [of ?c0 ax ay] c w by simp
  have o1: "objs t1 (v_ecdsa_attester_public_key_handle ?c0) = Some (p256_public TEE_TYPE_ECDSA_PUBLIC_KEY kx ky)"
    using tee_ext_obj(1) [OF t1(1) t(1,4)] by simp
  have w0: "wf_msg2 (v_msg2 ?c0)" using w by simp
  obtain t2 where t2: "tee_ext t1 t2" "verify_quote_signature C ?c0 t1 =
      (if st = TEE_ERROR_GENERIC then None
       else Some (st, if st = TEE_SUCCESS then ?c0\<lparr>is_quote_valid := True\<rparr> else ?c0, t2))"
    by (rule quote_signature_run [OF C w1 w0 o1]) (rule that, assumption, simp add: st Let_def)
  note w2 = tee_extD(1) [OF t2(1)]
  let ?c1 = "ctx\<lparr>v_msg2 := m, is_quote_valid := True\<rparr>"
  obtain t3 where t3: "tee_ext t2 t3" "verify_anchor C ?c1 t2 =
      Some (if q_anchor (m2_quote m) = sha256 C (ax @ ay @ vx @ vy) then TEE_SUCCESS else TEE_ERROR_SECURITY, t3)"
    by (rule verify_anchor_run [OF C w2, of ?c1 ax ay vx vy]) (use c in simp_all)
  let ?t = "if m2_mac m \<noteq> msg2_mac_of C k m (mx, my) \<or> \<not> same_key (v_msg0 ctx) (m2_ecdh m) then t1
    else if st \<noteq> TEE_SUCCESS then t2 else t3"
  have "tee_ext t ?t" using t1(1) t2(1) t3(1) by (auto intro: tee_ext_trans)
  then show ?thesis
    by (rule that)
      (cases "m2_mac m = msg2_mac_of C k m (mx, my)"; cases "same_key (v_msg0 ctx) (m2_ecdh m)"; cases "st = TEE_ERROR_GENERIC";
        cases "st = TEE_SUCCESS"; simp add: handle_msg2_def Let_def s t1(2) k t2(2) t3(2))
qed

text \<open>The random number generator of the system delivers the bytes it is asked for.\<close>

definition rng_ok :: "env \<Rightarrow> bool" where
  "rng_ok C \<longleftrightarrow> (\<forall>n l. \<exists>b. e_rng C n l = Inr b \<and> length b = l)"

lemma rng_ok_sample: "rng_ok sample_env"
  by (simp add: rng_ok_def sample_env_def)

lemma gcm_enc_total:
  assumes "\<And>b. length (E b) = 16"
  obtains ct tag where "internal_aes_gcm_enc E nonce aad src 16 = Inr (ct, tag)" "length ct = length src" "length tag = 16"
proof (rule that)
  show "internal_aes_gcm_enc E nonce aad src 16 =
      Inr (fst (gcm_spec E True nonce (aad_bytes aad) src), take 16 (snd (gcm_spec E True nonce (aad_bytes aad) src)))"
    by (rule internal_aes_gcm_enc_spec) (simp_all add: assms)
  show "length (fst (gcm_spec E True nonce (aad_bytes aad) src)) = length src"
    by (simp add: gcm_spec_def Let_def split: prod.split) (metis length_gcm_stream snd_conv)
qed (simp add: length_gcm_spec_tag assms)

text \<open>The third message: the header and the ciphertext are written over the start of the buffer.\<close>

lemma prepare_msg3_run:
  assumes C: "ready C" "crypto_ok C" "rng_ok C" and t: "wf_tee t" "objs t (v_ecdh_shared_session_key ctx) = Some (aes_key k)" "length k = 16"
    and b: "52 + length secret \<le> length buffer"
  obtains iv tag ct t' where "length iv = 32" "length tag = 16" "length ct = length secret"
    "internal_aes_gcm_enc (p_aes (e_prims C) k) iv None secret 16 = Inr (ct, tag)" "tee_ext t t'"
    "prepare_msg3 C ctx buffer (Some secret) t =
      Some (TEE_SUCCESS, ctx\<lparr>v_msg3_size := 52, v_msg3_addr := Suc (tick t)\<rparr>,
        msg3_bytes \<lparr>m3_iv = iv, m3_tag = tag, m3_size = length secret, m3_content = ct @ drop (52 + length secret) buffer\<rparr>, t')"
proof -
  have o: "0 < v_ecdh_shared_session_key ctx" "v_ecdh_shared_session_key ctx \<le> tick t" using wf_obj_bound t(1,2) by blast+
  obtain iv where iv: "e_rng C (Suc (tick t)) 32 = Inr iv" "length iv = 32" using C(3) unfolding rng_ok_def by blast
  have aes: "\<And>b. length (p_aes (e_prims C) k b) = 16" using C(2) by simp
  obtain ct tag where ct: "internal_aes_gcm_enc (p_aes (e_prims C) k) iv None secret 16 = Inr (ct, tag)" "length ct = length secret"
      "length tag = 16"
    by (rule gcm_enc_total [OF aes])
  let ?b = "msg3_bytes \<lparr>m3_iv = iv, m3_tag = tag, m3_size = length secret, m3_content = ct @ drop (52 + length secret) buffer\<rparr>"
  have w1: "wr buffer 52 ct = Some (take 52 buffer @ ct @ drop (52 + length secret) buffer)"
    using b ct(2) by (simp add: wr_def)
  have w2: "wr (take 52 buffer @ ct @ drop (52 + length secret) buffer) 0
      (msg3_bytes \<lparr>m3_iv = iv, m3_tag = tag, m3_size = length secret, m3_content = []\<rparr>) = Some ?b"
    using b iv(2) ct(3) by (simp add: wr_def msg3_bytes_def)
  have "\<exists>t'. prepare_msg3 C ctx buffer (Some secret) t =
      Some (TEE_SUCCESS, ctx\<lparr>v_msg3_size := 52, v_msg3_addr := Suc (tick t)\<rparr>, ?b, t') \<and> tee_ext t t'"
    using C(1,2) t o b iv ct(1) w1 w2
    by (simp add: prepare_msg3_def verifier_allocate_msg3_def encrypt_msg3_def TEE_GenerateRandom_def
      syscall_cryp_random_number_generate_def free_msg3_def api_simps tee_obj_add_def) (rule tee_extI, simp_all)
  then show ?thesis using that iv(2) ct by blast
qed

section \<open>Properties\<close>

text \<open>
  C2. The verifier accepts a second message exactly when the code of the message is that of the session's key, the
  coordinates of its ephemeral key begin with those of the first message, the attestation key accepts the signature of the
  quote, and the anchor of the quote is the digest of the two ephemeral keys of the session. The coordinates are compared
  over the lengths that the first message gives, which are its sender's choice: a length of zero compares nothing, and the
  lengths of the second message are not compared. The claim of the quote has no part in the decision.
\<close>

theorem verifier_accepts_iff:
  assumes "ready C" "crypto_ok C" "wf_tee t" "objs t (v_ecdh_shared_mac_key ctx) = Some (aes_key k)" "length k = 16"
    "objs t (v_ecdsa_attester_public_key_handle ctx) = Some (p256_public TEE_TYPE_ECDSA_PUBLIC_KEY kx ky)"
    "wf_pubkey (v_msg0 ctx)" "x_of (v_msg0 ctx) = Some ax" "y_of (v_msg0 ctx) = Some ay"
    "x_of (m1_ecdh (v_msg1 ctx)) = Some vx" "y_of (m1_ecdh (v_msg1 ctx)) = Some vy"
    "sizeof_msg2_t \<le> length buffer" "msg2_at (take sizeof_msg2_t buffer) = m" "x_of (m2_ecdh m) = Some mx" "y_of (m2_ecdh m) = Some my"
  shows "(\<exists>ctx' t'. handle_msg2 C ctx buffer t = Some (TEE_SUCCESS, ctx', t')) \<longleftrightarrow>
    m2_mac m = cmac C k (mx @ my @ quote_bytes (m2_quote m)) \<and>
    take (x_size (v_msg0 ctx)) (x_raw (m2_ecdh m)) = ax \<and> take (y_size (v_msg0 ctx)) (y_raw (m2_ecdh m)) = ay \<and>
    ecdsa_status C kx ky (sha256 C (quote_body (m2_quote m))) (q_signature (m2_quote m)) = TEE_SUCCESS \<and>
    q_anchor (m2_quote m) = sha256 C (ax @ ay @ vx @ vy)"
proof -
  have key: "same_key (v_msg0 ctx) (m2_ecdh m) \<longleftrightarrow>
      take (x_size (v_msg0 ctx)) (x_raw (m2_ecdh m)) = ax \<and> take (y_size (v_msg0 ctx)) (y_raw (m2_ecdh m)) = ay"
    using assms(8,9) by (auto simp: same_key_def x_of_def y_of_def rd_Some_iff)
  show ?thesis by (rule handle_msg2_run [OF assms refl]) (auto simp: Let_def msg2_mac_of_def key)
qed

text \<open>A session of the verifier for the witnesses.\<close>

definition sample_verifier :: ra_context_verifier where
  "sample_verifier = zero_ra_context_verifier\<lparr>v_secret := Some [1, 2, 3], v_ecdh_shared_mac_key := 1, v_ecdsa_attester_public_key_handle := 2\<rparr>"

definition sample_verifier_tee :: tee where
  "sample_verifier_tee = \<lparr>tick = 5, objs = [1 \<mapsto> aes_key (replicate 16 1), 2 \<mapsto> p256_public TEE_TYPE_ECDSA_PUBLIC_KEY 3 4],
     states = Map.empty, opers = Map.empty\<rparr>"

lemma sample_verifier_facts:
  "wf_tee sample_verifier_tee" "objs sample_verifier_tee (v_ecdh_shared_mac_key sample_verifier) = Some (aes_key (replicate 16 1))"
  "objs sample_verifier_tee (v_ecdsa_attester_public_key_handle sample_verifier) = Some (p256_public TEE_TYPE_ECDSA_PUBLIC_KEY 3 4)"
  "wf_pubkey (v_msg0 sample_verifier)" "x_of (v_msg0 sample_verifier) = Some []" "y_of (v_msg0 sample_verifier) = Some []"
  "x_of (m1_ecdh (v_msg1 sample_verifier)) = Some []" "y_of (m1_ecdh (v_msg1 sample_verifier)) = Some []"
  by (simp_all add: sample_verifier_tee_def sample_verifier_def zero_ra_context_verifier_def wf_tee_def wf_pubkey_def zero_pubkey_def
    zero_msg1_def x_of_def y_of_def)

text \<open>A session in which the ephemeral keys were exchanged, and the second message of an attester with the attestation key
  of the verifier's configuration.\<close>

definition sample_pub :: "byte \<Rightarrow> pubkey" where
  "sample_pub b = \<lparr>x_raw = replicate 32 b, x_size = 32, y_raw = replicate 32 b, y_size = 32\<rparr>"

definition agreed_verifier :: ra_context_verifier where
  "agreed_verifier = sample_verifier\<lparr>v_msg0 := sample_pub 5, v_msg1 := zero_msg1\<lparr>m1_ecdh := sample_pub 6\<rparr>\<rparr>"

definition honest_quote :: ra_quote where
  "honest_quote =
     (let q = zero_quote\<lparr>q_anchor := sha256 sample_env (replicate 32 5 @ replicate 32 5 @ replicate 32 6 @ replicate 32 6)\<rparr>
      in q\<lparr>q_signature := sample_sig 3 (sha256 sample_env (quote_body q))\<rparr>)"

definition honest_msg2 :: msg2_t where
  "honest_msg2 = \<lparr>m2_ecdh = sample_pub 5, m2_quote = honest_quote,
     m2_mac = cmac sample_env (replicate 16 1) (replicate 32 5 @ replicate 32 5 @ quote_bytes honest_quote)\<rparr>"

lemma sample_pub_facts: "wf_pubkey (sample_pub b)" "x_of (sample_pub b) = Some (replicate 32 b)" "y_of (sample_pub b) = Some (replicate 32 b)"
  by (simp_all add: sample_pub_def wf_pubkey_def x_of_def y_of_def rd_def)

lemma honest_msg2_wf: "wf_msg2 honest_msg2"
proof -
  note l = crypto_okD(1,2) [OF crypto_ok_sample]
  have "length (sample_sig 3 (sha256 sample_env b)) = 64" for b by (simp add: sample_sig_def l be256_def)
  then have "wf_quote honest_quote" by (simp add: honest_quote_def Let_def wf_quote_def zero_quote_def l)
  then show ?thesis by (simp add: wf_msg2_def honest_msg2_def sample_pub_facts l)
qed

lemma agreed_verifier_facts:
  "objs sample_verifier_tee (v_ecdh_shared_mac_key agreed_verifier) = Some (aes_key (replicate 16 1))"
  "objs sample_verifier_tee (v_ecdsa_attester_public_key_handle agreed_verifier) = Some (p256_public TEE_TYPE_ECDSA_PUBLIC_KEY 3 4)"
  "v_msg0 agreed_verifier = sample_pub 5" "m1_ecdh (v_msg1 agreed_verifier) = sample_pub 6"
  using sample_verifier_facts(2,3) by (simp_all add: agreed_verifier_def)

text \<open>The message is accepted; with another ephemeral key in it, it is not.\<close>

theorem verifier_accepts_iff_witness:
  "(\<exists>ctx' t'. handle_msg2 sample_env agreed_verifier (msg2_bytes honest_msg2) sample_verifier_tee = Some (TEE_SUCCESS, ctx', t')) \<and>
   (\<nexists>ctx' t'. handle_msg2 sample_env agreed_verifier (msg2_bytes (honest_msg2\<lparr>m2_ecdh := sample_pub 7\<rparr>)) sample_verifier_tee =
      Some (TEE_SUCCESS, ctx', t'))"
proof -
  let ?m = "\<lambda>b. honest_msg2\<lparr>m2_ecdh := sample_pub b\<rparr>"
  have wf: "wf_msg2 (?m b)" for b using honest_msg2_wf by (simp add: wf_msg2_def sample_pub_facts)
  have m: "288 \<le> length (msg2_bytes (?m b))" "msg2_at (take 288 (msg2_bytes (?m b))) = ?m b" for b
    using length_msg2_bytes [OF wf [of b]] msg2_at_bytes [OF wf [of b]] by simp_all
  have e: "x_of (m2_ecdh (?m b)) = Some (replicate 32 b)" "y_of (m2_ecdh (?m b)) = Some (replicate 32 b)" for b
    by (simp_all add: sample_pub_facts)
  have anchor: "q_anchor honest_quote = sha256 sample_env (replicate 32 5 @ replicate 32 5 @ replicate 32 6 @ replicate 32 6)"
    by (simp add: honest_quote_def Let_def)
  have v: "p_ecc_verify_hash (e_prims sample_env) c pk msg sig = CRYPT_OK (sig = sample_sig (fst pk) msg)" for c pk msg sig
    by (simp add: sample_env_def sample_prims_def)
  have "q_signature honest_quote = sample_sig 3 (sha256 sample_env (quote_body honest_quote))"
    by (simp add: honest_quote_def Let_def quote_body_def)
  then have sig: "ecdsa_status sample_env 3 4 (sha256 sample_env (quote_body honest_quote)) (q_signature honest_quote) = TEE_SUCCESS"
    by (simp add: ecdsa_status_def convert_ltc_verify_status_def v)
  note iff = verifier_accepts_iff [OF ready_sample crypto_ok_sample sample_verifier_facts(1) agreed_verifier_facts(1) _
      agreed_verifier_facts(2) _ _ _ _ _ m e, unfolded agreed_verifier_facts(3,4), OF _ sample_pub_facts sample_pub_facts(2,3)]
  have h: "m2_mac (?m b) = cmac sample_env (replicate 16 1) (replicate 32 5 @ replicate 32 5 @ quote_bytes honest_quote)"
      "m2_quote (?m b) = honest_quote" "x_raw (m2_ecdh (?m b)) = replicate 32 b" "y_raw (m2_ecdh (?m b)) = replicate 32 b" for b
    by (simp_all add: honest_msg2_def sample_pub_def)
  have z: "x_size (sample_pub 5) = 32" "y_size (sample_pub 5) = 32" by (simp_all add: sample_pub_def)
  have ne: "replicate 32 (7 :: byte) \<noteq> replicate 32 5" by simp
  have "\<exists>ctx' t'. handle_msg2 sample_env agreed_verifier (msg2_bytes (?m 5)) sample_verifier_tee = Some (TEE_SUCCESS, ctx', t')"
    unfolding iff [of 5, OF length_replicate] h z using anchor sig by (simp only: take_replicate min.idem simp_thms)
  moreover have "?m 5 = honest_msg2" by (simp add: honest_msg2_def)
  moreover have "\<nexists>ctx' t'. handle_msg2 sample_env agreed_verifier (msg2_bytes (?m 7)) sample_verifier_tee = Some (TEE_SUCCESS, ctx', t')"
    unfolding iff [of 7, OF length_replicate] h z using ne by (simp only: take_replicate min.idem simp_thms)
  ultimately show ?thesis by simp
qed

text \<open>
  C20. The secret is released without a quote: whoever sends the trusted application of the verifier a first message with an
  ephemeral key, and then asks for the third message, gets the secret under the session key that the private part of that
  key gives. Whether a quote was received, and whether it was valid, is not looked at.
\<close>

theorem secret_released_without_quote:
  assumes C: "ready C" "crypto_ok C" "ecc_ok (e_prims C)" "rng_ok C" and t: "wf_tee t" "wf_msg1 (v_msg1 ctx)" "v_secret ctx = Some secret"
    and a: "p256_pair (e_prims C) (d, x, y)" "pub_is x y pk" and b: "length shm = n" "52 + length secret \<le> n" "length secret < 2 ^ 32"
  shows "\<exists>ctx1 t1 ctx2 t2 vx vy s m.
    TA_InvokeCommandEntryPoint C junk shm VERIFIER_COMMAND_HANDLE_MSG_0
      [MEMREF_INPUT (pubkey_bytes pk), PARAM_NONE, PARAM_NONE, PARAM_NONE] ctx t = Some (TEE_SUCCESS, [], ctx1, t1) \<and>
    TA_InvokeCommandEntryPoint C junk shm VERIFIER_COMMAND_PREPARE_MSG_3 [MEMREF_OUTPUT n, MEMREF_OUTPUT 0, PARAM_NONE, PARAM_NONE]
      ctx1 t1 = Some (TEE_SUCCESS, [OUT_MEMREF n (msg3_bytes m), OUT_NONE, OUT_NONE, OUT_NONE], ctx2, t2) \<and>
    pub_is vx vy (m1_ecdh (v_msg1 ctx1)) \<and> is_quote_valid ctx1 = is_quote_valid ctx \<and>
    p_ecc_shared_secret (e_prims C) TEE_ECC_CURVE_NIST_P256 d (vx, vy) = Some s \<and>
    internal_aes_gcm_dec (p_aes (e_prims C) (session_key_of C s)) (m3_iv m) None (take (m3_size m) (m3_content m)) (m3_tag m) =
      (TEE_SUCCESS, secret)"
proof -
  have w: "wf_pubkey pk" "x_of pk = Some (bytes_of_bn x)" "y_of pk = Some (bytes_of_bn y)" using a(2) by (simp_all add: pub_is_def)
  have l: "length (pubkey_bytes pk) = 72" by (rule length_pubkey_bytes [OF w(1)])
  have p: "pubkey_at (take 72 (pubkey_bytes pk)) = pk" using pubkey_at_bytes [OF w(1), of "[]"] l by simp
  have ok: "\<exists>s. p_ecc_shared_secret (e_prims C) TEE_ECC_CURVE_NIST_P256 d' (bn_of_bytes (bytes_of_bn x), bn_of_bytes (bytes_of_bn y)) = Some s \<and>
      length s \<le> 32" if "p256_pair (e_prims C) (d', x', y')" for d' x' y'
    using ecc_ok_shared [OF C(3) that a(1)] by auto
  obtain vd vx vy s ctx1 t1 where h0: "handle_msg0 C ctx (pubkey_bytes pk) t = Some (TEE_SUCCESS, ctx1, t1)" "tee_ext t t1"
    "p256_pair (e_prims C) (vd, vx, vy)"
    "p_ecc_shared_secret (e_prims C) TEE_ECC_CURVE_NIST_P256 vd (bn_of_bytes (bytes_of_bn x), bn_of_bytes (bytes_of_bn y)) = Some s"
    "agreed C ctx pk (vx, vy) s ctx1 t1"
    by (rule handle_msg0_run [OF C(1-3) t(1,2) _ p w(2,3) ok]) (simp_all add: l)
  have h: "pub_is vx vy (m1_ecdh (v_msg1 ctx1))" "v_secret ctx1 = v_secret ctx" "is_quote_valid ctx1 = is_quote_valid ctx"
    "objs t1 (v_ecdh_shared_session_key ctx1) = Some (aes_key (session_key_of C s))"
    using h0(5) by (simp_all add: agreed_def)
  have s: "p_ecc_shared_secret (e_prims C) TEE_ECC_CURVE_NIST_P256 d (vx, vy) = Some s"
    using ecc_ok_shared [OF C(3) h0(3) a(1)] h0(4) by auto
  have b': "52 + length secret \<le> length shm" using b by simp
  obtain iv tag ct t2 where g: "length iv = 32" "length tag = 16" "length ct = length secret"
    "internal_aes_gcm_enc (p_aes (e_prims C) (session_key_of C s)) iv None secret 16 = Inr (ct, tag)" "tee_ext t1 t2"
    "prepare_msg3 C ctx1 shm (Some secret) t1 =
      Some (TEE_SUCCESS, ctx1\<lparr>v_msg3_size := 52, v_msg3_addr := Suc (tick t1)\<rparr>,
        msg3_bytes \<lparr>m3_iv = iv, m3_tag = tag, m3_size = length secret, m3_content = ct @ drop (52 + length secret) shm\<rparr>, t2)"
    by (rule prepare_msg3_run [OF C(1,2,4) tee_extD(1) [OF h0(2)] h(4) _ b']) (use C(2) in simp_all)
  let ?m = "\<lparr>m3_iv = iv, m3_tag = tag, m3_size = length secret, m3_content = ct @ drop (52 + length secret) shm\<rparr>"
  have d: "internal_aes_gcm_dec (p_aes (e_prims C) (session_key_of C s)) iv None ct tag = (TEE_SUCCESS, secret)"
    using gcm_dec_enc [OF _ g(4) refl] C(2) by simp
  show ?thesis
    by (rule exI [of _ ctx1], rule exI [of _ t1], rule exI [of _ "ctx1\<lparr>v_msg3_size := 52, v_msg3_addr := Suc (tick t1)\<rparr>"],
        rule exI [of _ t2], rule exI [of _ vx], rule exI [of _ vy], rule exI [of _ s], rule exI [of _ ?m])
      (use h0(1) h(1-3) s g d t(3) b in \<open>simp add: TA_InvokeCommandEntryPoint_def\<close>)
qed

theorem secret_released_without_quote_witness:
  "\<exists>d pk ctx1 t1 ctx2 t2 vx vy s m.
    TA_InvokeCommandEntryPoint sample_env 0 (replicate 100 0) VERIFIER_COMMAND_HANDLE_MSG_0
      [MEMREF_INPUT (pubkey_bytes pk), PARAM_NONE, PARAM_NONE, PARAM_NONE] sample_verifier sample_verifier_tee = Some (TEE_SUCCESS, [], ctx1, t1) \<and>
    TA_InvokeCommandEntryPoint sample_env 0 (replicate 100 0) VERIFIER_COMMAND_PREPARE_MSG_3
      [MEMREF_OUTPUT 100, MEMREF_OUTPUT 0, PARAM_NONE, PARAM_NONE] ctx1 t1 =
      Some (TEE_SUCCESS, [OUT_MEMREF 100 (msg3_bytes m), OUT_NONE, OUT_NONE, OUT_NONE], ctx2, t2) \<and>
    \<not> is_quote_valid ctx1 \<and> p_ecc_shared_secret sample_prims TEE_ECC_CURVE_NIST_P256 d (vx, vy) = Some s \<and>
    internal_aes_gcm_dec (p_aes sample_prims (session_key_of sample_env s)) (m3_iv m) None (take (m3_size m) (m3_content m)) (m3_tag m) =
      (TEE_SUCCESS, [1, 2, 3])"
proof -
  have c: "wf_msg1 (v_msg1 sample_verifier)" "v_secret sample_verifier = Some [1, 2, 3]" "\<not> is_quote_valid sample_verifier"
    by (simp_all add: sample_verifier_def zero_ra_context_verifier_def wf_msg1_def zero_msg1_def wf_pubkey_def zero_pubkey_def)
  obtain d x y pk where k: "p256_pair (e_prims sample_env) (d, x, y)" "pub_is x y pk"
    by (rule generate_ecdsa_run [OF ready_sample ecc_ok_sample sample_verifier_facts(1) c(1)])
  have e: "e_prims sample_env = sample_prims" by (simp add: sample_env_def)
  show ?thesis
    using secret_released_without_quote [OF ready_sample crypto_ok_sample ecc_ok_sample rng_ok_sample sample_verifier_facts(1) c(1,2) k,
      where shm = "replicate 100 0" and n = 100 and junk = 0] c(3) e
    by (simp add: c(3)) (elim exE conjE, intro exI conjI, assumption+)
qed

end
