(* ===== verification/Spec2Isabelle.thy ===== *)
theory Spec2Isabelle
  imports Attester Verifier
begin

text \<open>
  WaTZ runs WebAssembly in the secure world of TrustZone, on the OP-TEE operating system, and lets the code prove to a remote
  verifier what it is: an attester obtains from the kernel a signed quote over the hash of its bytecode, shows it to a
  verifier over a socket of the normal world, and receives a secret under a key that only the two have.  This development
  models that path from the system calls up to the protocol, and proves what its parts promise each other.

  \<^bold>\<open>The parts and their theories\<close>, from the bottom (paths under \<^verbatim>\<open>src/\<close>; \<^verbatim>\<open>optee_os/\<close> is left out in the names of its
  files, \<^verbatim>\<open>tz\<close> stands for \<^verbatim>\<open>runtime/product-mini/platforms/linux-trustzone\<close>):

  \<^item> \<open>Watz_Prelude\<close>, \<open>Tee_Defs\<close>: buffers with bounds-checked reads and writes, little- and big-endian numbers, the constants of
    \<^verbatim>\<open>tee_api_defines.h\<close> and \<^verbatim>\<open>utee_defines.h\<close>.
  \<^item> \<open>Aes_Gcm\<close>, \<open>Aes_Gcm_Stream\<close>: \<^verbatim>\<open>core/crypto/aes-gcm.c\<close>, \<^verbatim>\<open>aes-gcm-sw.c\<close>. The record \<open>gcm_state\<close> is
    \<^verbatim>\<open>struct internal_aes_gcm_state\<close>. The buffered code equals a byte-wise specification for every way of cutting the input,
    decryption inverts encryption, and a changed tag is refused.
  \<^item> \<open>Tee_State\<close>, \<open>Crypto_Glue\<close>, \<open>Ltc_Ecc\<close>, \<open>Tee_Kdf\<close>: the state of a trusted application, the dispatch of
    \<^verbatim>\<open>core/crypto/crypto.c\<close> with the glue of \<^verbatim>\<open>core/lib/libtomcrypt\<close>, and the key derivation functions of \<^verbatim>\<open>core/tee\<close>, each equal
    to the formula of its standard.
  \<^item> \<open>Tee_Svc_Attr\<close>, \<open>Tee_Svc_Obj\<close>, \<open>Tee_Svc_Cryp\<close>, \<open>Tee_Svc_Inv\<close>: \<^verbatim>\<open>core/tee/tee_svc_cryp.c\<close> and \<^verbatim>\<open>tee_obj.c\<close>, one definition for
    each system call. The services are the steps of a machine; the invariant of its reachable states says that objects
    have exactly the attributes of their type and that keys in use are live and marked. The attributes of an object survive
    the binary form of the secure storage.
  \<^item> \<open>Utee_Objects\<close>, \<open>Utee_Operations\<close>, \<open>Utee_Buffer\<close>, \<open>Utee_Run\<close>: \<^verbatim>\<open>lib/libutee/tee_api_objects.c\<close> and
    \<^verbatim>\<open>tee_api_operations.c\<close>. The block buffer refines a queue of bytes; the algorithms the library reports are compared with
    those it can allocate. \<open>Utee_Run\<close> gives the calls the protocol makes as equations, by which the callers are executed.
  \<^item> \<open>Ra_Messages\<close>, \<open>Ra_Keys\<close>: the quote and the four messages of \<^verbatim>\<open>attestation.h\<close>, \<^verbatim>\<open>remote_attestation.h\<close> and
    \<^verbatim>\<open>verifier.h\<close> as records with their byte images, and the key schedule the two sides share.
  \<^item> \<open>Attestation_Service\<close>: \<^verbatim>\<open>core/pta/attesting_service.c\<close>, the pseudo trusted application that signs quotes. A device always
    has the same attestation key, and the quote that is written is genuine.
  \<^item> \<open>Tee_Session\<close>, \<open>Tee_Session_Inv\<close>: \<^verbatim>\<open>core/kernel/tee_ta_manager.c\<close>, \<^verbatim>\<open>core/kernel/pseudo_ta.c\<close>,
    \<^verbatim>\<open>core/tee/tee_svc.c\<close> and \<^verbatim>\<open>lib/libutee/tee_api.c\<close>: sessions with pseudo trusted applications. The locale \<open>pseudo_tas\<close> states
    what the session manager expects of them; the lists of contexts and sessions stay consistent.
  \<^item> \<open>Tee_Socket\<close>: \<^verbatim>\<open>lib/libutee/tee_tcpudp_socket.c\<close>, \<^verbatim>\<open>tee_socket_pta.c\<close> and \<^verbatim>\<open>core/tee/socket.c\<close>. The locale is interpreted on the
    table of the two pseudo trusted applications. Whatever the normal world answers, a receive call is safe.
  \<^item> \<open>Attester\<close>: \<^verbatim>\<open>tz/vedliot_attester/ta/remote_attestation.c\<close>. The quote it collects through the session manager is genuine, a
    stream is put together however the network cuts it, and the ways in which the code fails are stated.
  \<^item> \<open>Verifier\<close>: \<^verbatim>\<open>tz/vedliot_verifier/ta/verifier.c\<close> and \<^verbatim>\<open>main.c\<close>. It accepts a quote exactly when the four checks of the
    protocol hold, and its trusted application releases the secret without a quote having been checked.

  \<^bold>\<open>State and effects.\<close>  An operation takes the state and returns a result code, its outputs and the new state, in the option
  monad; \<open>None\<close> is a panic, an access outside a buffer, the use of a variable that was never assigned, or a wait that does not
  end. Every other error of the code is a result code. The records of the state are extensible: the services work on
  \<open>tee\<close> (objects, cryptographic states, operation handles), the session manager on \<open>mgr\<close>, which adds its lists, and the
  attester on \<open>watz\<close>, which adds the static variables of the two pseudo trusted applications, the socket handles and the
  normal world. Handles are addresses; one counter, \<open>tick\<close>, numbers allocations and draws of entropy.

  \<^bold>\<open>Parameters.\<close>  The record \<open>env\<close> holds what the code calls and this development does not define: the primitives of
  libtomcrypt (digest, MAC, block cipher, elliptic curve), the allocator, the sources of entropy, the hardware unique key and
  the configuration. What a theorem needs of them is a named hypothesis: \<open>no_oom\<close> (no allocation fails), \<open>ready\<close> (and the
  algorithms of the protocol are configured), \<open>crypto_ok\<close> (digests, codes and blocks have their lengths), \<open>ecc_ok\<close> (a
  generated key pair verifies its signatures, both sides of a key exchange obtain the same secret), \<open>rng_ok\<close> (the generator
  delivers). The normal world is a \<open>platform\<close>, a function from a request and its own state to an answer. The instance
  \<open>sample_env\<close> satisfies all of these; the witnesses run on it.

  \<^bold>\<open>Termination and bounds.\<close>  No definition uses fuel. Loops are structural recursions on the input or have a measure: the
  receive loop on what is left of the buffer, the search for a session identifier on the identifiers not yet tried.
  Session identifiers and counters that wrap are 32-bit words; sizes are natural numbers where the code compares them before
  they can wrap, and the places where they do wrap are written out.

  \<^bold>\<open>Not modelled:\<close>  the WebAssembly runtime (loader, interpreter, ahead-of-time code, WASI) and the port of its platform
  layer; the cryptographic primitives; secure storage and persistent objects; loading, memory mapping and scheduling of user
  trusted applications, other threads, the secure monitor and the drivers; benchmarks, debug output and profiling.
\<close>

end
